(* ===== verification/Prelude.thy ===== *)
theory Prelude
  imports Complex_Main "HOL-Library.Word" "HOL-Library.Monad_Syntax"
begin

text \<open>
  Shared vocabulary of the development: the C integer types as the components use them,
  C's truncating division, checked signed arithmetic, bit-field helpers, and the generic
  lemmas on options and bounded integers that the component theories rely on.

  An \<^verbatim>\<open>int32_t\<close> is an \<^typ>\<open>int\<close>; an arithmetic operation on it is checked with
  \<open>chk32\<close>, whose \<open>None\<close> is the undefined behaviour of a signed overflow. Unsigned and
  bit-field quantities are words. A conversion that C defines by reduction modulo a power of
  two is written out (\<open>s32\<close>, \<open>u32\<close>).
\<close>

unbundle bit_operations_syntax

named_theorems cint_simps \<open>unfolding rules of the C integer helpers\<close>

type_synonym u8 = "8 word"
type_synonym u16 = "16 word"
type_synonym u32w = "32 word"
type_synonym u64w = "64 word"
type_synonym bytes = "8 word list"

subsection \<open>C integers\<close>

definition s32_ok :: "int \<Rightarrow> bool" where
  "s32_ok x \<longleftrightarrow> - (2 ^ 31) \<le> x \<and> x < 2 ^ 31"

definition chk32 :: "int \<Rightarrow> int option" where
  "chk32 x = (if s32_ok x then Some x else None)"

definition u32 :: "int \<Rightarrow> int" where
  "u32 x = x mod 2 ^ 32"

definition s32 :: "int \<Rightarrow> int" where
  "s32 x = (let y = x mod 2 ^ 32 in if y < 2 ^ 31 then y else y - 2 ^ 32)"

definition s16 :: "int \<Rightarrow> int" where
  "s16 x = (let y = x mod 2 ^ 16 in if y < 2 ^ 15 then y else y - 2 ^ 16)"

definition cdiv :: "int \<Rightarrow> int \<Rightarrow> int" where
  "cdiv a b = sgn a * sgn b * (\<bar>a\<bar> div \<bar>b\<bar>)"

lemmas cint_defs [cint_simps] = s32_ok_def chk32_def u32_def s32_def s16_def cdiv_def Let_def

lemma chk32_eq_Some [simp]: "chk32 x = Some y \<longleftrightarrow> s32_ok x \<and> y = x"
  by (auto simp: chk32_def)

lemma chk32_Some: "s32_ok x \<Longrightarrow> chk32 x = Some x"
  by simp

lemma mod_neg_shift: "- m \<le> x \<Longrightarrow> x < 0 \<Longrightarrow> x mod m = x + m" for x m :: int
  using mod_pos_pos_trivial [of "x + m" m] by simp

lemma s32_id: "s32_ok x \<Longrightarrow> s32 x = x"
  by (cases "0 \<le> x") (auto simp: s32_def Let_def s32_ok_def mod_neg_shift)

lemma s32_ok_s32: "s32_ok (s32 x)"
  by (auto simp: s32_ok_def s32_def Let_def intro: pos_mod_bound less_imp_le pos_mod_sign)

lemma s16_bounds: "- (2 ^ 15) \<le> s16 x \<and> s16 x < 2 ^ 15"
  by (auto simp: s16_def Let_def)

lemma s16_id: "- (2 ^ 15) \<le> x \<Longrightarrow> x < 2 ^ 15 \<Longrightarrow> s16 x = x"
  by (cases "0 \<le> x") (auto simp: s16_def Let_def mod_neg_shift)

lemma cdiv_nonneg: "0 \<le> a \<Longrightarrow> 0 < b \<Longrightarrow> cdiv a b = a div b"
  by (auto simp: cdiv_def sgn_if)

lemma cdiv_neg: "a \<le> 0 \<Longrightarrow> 0 < b \<Longrightarrow> cdiv a b = - ((- a) div b)"
  by (auto simp: cdiv_def sgn_if)

subsection \<open>Flags in words\<close>

lemma bit_pow2: "bit (2 ^ m :: 'a::len word) n \<longleftrightarrow> n = m \<and> n < LENGTH('a)"
  by (auto simp: bit_exp_iff dest: bit_imp_le_length)

lemma and_pow2: "w AND 2 ^ n \<noteq> 0 \<longleftrightarrow> bit w n" for w :: "'a::len word"
proof -
  have b: "bit (w AND 2 ^ n) k \<longleftrightarrow> k = n \<and> bit w n" for k
    by (auto simp: bit_and_iff bit_pow2 dest: bit_imp_le_length)
  then have "w AND 2 ^ n = 0" if "\<not> bit w n"
    using that by (intro bit_word_eqI) simp
  moreover have "w AND 2 ^ n \<noteq> 0" if "bit w n"
    using b [of n] that by auto
  ultimately show ?thesis by blast
qed

lemma bit_flag:
  "bit (1 :: 'a::len word) n \<longleftrightarrow> n = 0"
  "bit (2 :: 'a::len word) n \<longleftrightarrow> n = 1 \<and> n < LENGTH('a)"
  "bit (4 :: 'a::len word) n \<longleftrightarrow> n = 2 \<and> n < LENGTH('a)"
  "bit (8 :: 'a::len word) n \<longleftrightarrow> n = 3 \<and> n < LENGTH('a)"
  using bit_pow2 [of 1 n, where 'a='a] bit_pow2 [of 2 n, where 'a='a] bit_pow2 [of 3 n, where 'a='a]
  by (auto simp: bit_1_iff dest: bit_imp_le_length)

lemmas and_flag = and_pow2 [of _ 0, simplified] and_pow2 [of _ 1, simplified]
  and_pow2 [of _ 2, simplified] and_pow2 [of _ 3, simplified] and_pow2 [of _ 4, simplified]
  and_pow2 [of _ 5, simplified] and_pow2 [of _ 6, simplified] and_pow2 [of _ 7, simplified]

lemma ucast_pow2: "n < LENGTH('b) \<Longrightarrow> (ucast (2 ^ n :: 'b::len word) :: 'a::len word) = 2 ^ n"
  by (rule bit_word_eqI) (auto simp: bit_ucast_iff bit_pow2)

end
