(* ===== verification/RatEval.thy ===== *)
theory RatEval
  imports Prelude
begin

text \<open>
  Code equations that make rational arithmetic on dyadic fractions fast in the kernel: a
  fraction is first freed of common factors of two, read off the binary numerals, and the
  Euclidean algorithm runs only when the remaining denominator is not a power of two.
\<close>

fun strip2 :: "num \<Rightarrow> num \<Rightarrow> num \<times> num" where
  "strip2 (num.Bit0 a) (num.Bit0 b) = strip2 a b"
| "strip2 a b = (a, b)"

fun is_pow2 :: "num \<Rightarrow> bool" where
  "is_pow2 num.One = True"
| "is_pow2 (num.Bit0 n) = is_pow2 n"
| "is_pow2 (num.Bit1 n) = False"

lemma normalize_double: "0 < b \<Longrightarrow> Rat.normalize (2 * a, 2 * b) = Rat.normalize (a, b)"
  by (auto simp: Rat.normalize_def Let_def gcd_mult_left zdiv_zmult2_eq)

lemma normalize_0: "0 < b \<Longrightarrow> Rat.normalize (0, b) = (0, 1)"
  by (simp add: Rat.normalize_def)

lemma numeral_Bit0_2: "numeral (num.Bit0 n) = (2 * numeral n :: int)"
  by simp

lemma strip2_normalize:
  assumes "strip2 a b = (c, d)"
  shows "Rat.normalize (numeral a, numeral b) = Rat.normalize (numeral c, numeral d) \<and>
    Rat.normalize (- numeral a, numeral b) = Rat.normalize (- numeral c, numeral d) \<and>
    (odd (numeral c :: int) \<or> odd (numeral d :: int))"
  using assms
proof (induction a b rule: strip2.induct)
  case (1 a b)
  have "Rat.normalize (numeral (num.Bit0 a), numeral (num.Bit0 b)) = Rat.normalize (numeral a, numeral b)"
    "Rat.normalize (- numeral (num.Bit0 a), numeral (num.Bit0 b)) = Rat.normalize (- numeral a, numeral b)"
    using normalize_double [of "numeral b" "numeral a"] normalize_double [of "numeral b" "- numeral a"]
    by (simp_all only: numeral_Bit0_2 [of a] numeral_Bit0_2 [of b] zero_less_numeral simp_thms mult_minus_right)
  with 1 show ?case by simp
qed auto

lemma is_pow2_coprime: "is_pow2 d \<Longrightarrow> odd c \<or> odd (numeral d :: int) \<Longrightarrow> coprime c (numeral d :: int)"
proof (induction d)
  case (Bit0 d)
  have "numeral (num.Bit0 d) = (2 * numeral d :: int)" by simp
  moreover from Bit0 have "odd c" by simp
  ultimately show ?case using Bit0 by (simp only: coprime_mult_right_iff) simp
qed auto

definition fast_norm :: "int \<Rightarrow> num \<Rightarrow> int \<times> int" where
  "fast_norm p d = (if is_pow2 d then (p, numeral d)
     else let a = gcd p (numeral d) in (p div a, numeral d div a))"

lemma fast_norm_eq:
  assumes "odd p \<or> odd (numeral d :: int)"
  shows "fast_norm p d = Rat.normalize (p, numeral d)"
proof (cases "is_pow2 d")
  case True
  then have "Rat.normalize (p, numeral d) = (p, numeral d)"
    using assms by (intro normalize_stable is_pow2_coprime) simp_all
  with True show ?thesis by (simp add: fast_norm_def)
next
  case False
  then show ?thesis by (simp only: fast_norm_def Rat.normalize_def fst_conv snd_conv zero_less_numeral if_True if_False)
qed

lemma normalize_code [code]:
  "Rat.normalize (Int.Pos a, Int.Pos b) = (case strip2 a b of (c, d) \<Rightarrow> fast_norm (Int.Pos c) d)"
  "Rat.normalize (Int.Neg a, Int.Pos b) = (case strip2 a b of (c, d) \<Rightarrow> fast_norm (Int.Neg c) d)"
  "Rat.normalize (0, Int.Pos b) = (0, 1)"
  "Rat.normalize (p, 0) = (0, 1)"
  "Rat.normalize (p, Int.Neg b) = Rat.normalize (- p, Int.Pos b)"
proof -
  obtain c d where s: "strip2 a b = (c, d)" by fastforce
  note n = strip2_normalize [OF s]
  show "Rat.normalize (Int.Pos a, Int.Pos b) = (case strip2 a b of (c, d) \<Rightarrow> fast_norm (Int.Pos c) d)"
    using n fast_norm_eq [of "numeral c" d] by (simp add: s)
  show "Rat.normalize (Int.Neg a, Int.Pos b) = (case strip2 a b of (c, d) \<Rightarrow> fast_norm (Int.Neg c) d)"
    using n fast_norm_eq [of "- numeral c" d] by (simp add: s)
qed (simp_all only: Int.Pos_def Int.Neg_def normalize_0 normalize_denom_zero normalize_negative
    zero_less_numeral neg_less_0_iff_less minus_minus)

end
