(* ===== verification/CFloat.thy ===== *)
theory CFloat
  imports RatEval
begin

text \<open>
  IEEE 754 arithmetic as C's \<^verbatim>\<open>float\<close> and \<^verbatim>\<open>double\<close> have it on the target: binary
  formats with subnormals, signed zeros, infinities and NaN, round to nearest with ties to
  even. Finite values carry their sign and their exact magnitude as a rational, so every
  operation is executable. The second half shows what the flight code relies on: rounding is
  monotone and fixes the representable values, so a real bound whose end points are
  representable survives rounding (\<open>fround_frange\<close>), and with it every operation keeps
  explicit bounds. Each operation rounds once; no contraction into fused multiply-add.
\<close>

named_theorems frange_intros \<open>bounds of floating-point results\<close>

subsection \<open>Formats and rounding\<close>

record fmt =
  prec :: nat
  emin :: int
  emax :: int

definition f32 :: fmt where
  "f32 = \<lparr>prec = 24, emin = - 149, emax = 128\<rparr>"

definition f64 :: fmt where
  "f64 = \<lparr>prec = 53, emin = - 1074, emax = 1024\<rparr>"

function ilog2 :: "int \<Rightarrow> int" where
  "ilog2 n = (if n < 2 then 0 else 1 + ilog2 (n div 2))"
  by pat_completeness auto
termination
  by (relation "measure nat") auto

declare ilog2.simps [simp del]

text \<open>Evaluated on a binary numeral, \<open>ilog2\<close> counts its digits.\<close>

fun num_log :: "num \<Rightarrow> int" where
  "num_log num.One = 0"
| "num_log (num.Bit0 n) = 1 + num_log n"
| "num_log (num.Bit1 n) = 1 + num_log n"

lemma ilog2_numeral: "ilog2 (numeral n) = num_log n"
  by (induction n) (subst ilog2.simps, simp)+

lemma ilog2_code [code]: "ilog2 0 = 0" "ilog2 (Int.Pos n) = num_log n" "ilog2 (Int.Neg n) = 0"
  by (subst ilog2.simps, simp, simp add: ilog2_numeral, subst ilog2.simps, simp)

definition flog2 :: "rat \<Rightarrow> int" where
  "flog2 x = (let (n, d) = quotient_of x;
                  e = ilog2 n - ilog2 d
              in if 2 powi e \<le> x then e else e - 1)"

definition rne :: "rat \<Rightarrow> int" where
  "rne x = (let f = \<lfloor>x\<rfloor>; r = x - of_int f
            in if r < 1 / 2 then f else if 1 / 2 < r then f + 1
               else if even f then f else f + 1)"

definition quantum :: "fmt \<Rightarrow> rat \<Rightarrow> int" where
  "quantum F x = max (emin F) (flog2 x - (int (prec F) - 1))"

definition rnd_mag :: "fmt \<Rightarrow> rat \<Rightarrow> rat" where
  "rnd_mag F x = (if x \<le> 0 then 0
     else of_int (rne (x / 2 powi quantum F x)) * 2 powi quantum F x)"

subsection \<open>Values and operations\<close>

datatype fp = FNaN | FInf bool | FFin bool rat

definition sval :: "bool \<Rightarrow> rat \<Rightarrow> rat" where
  "sval s m = (if s then - m else m)"

definition fround :: "fmt \<Rightarrow> bool \<Rightarrow> rat \<Rightarrow> fp" where
  "fround F s x =
     (let m = rnd_mag F \<bar>x\<bar>; sg = (if x = 0 then s else x < 0)
      in if 2 powi emax F \<le> m then FInf sg else FFin sg m)"

fun fneg :: "fp \<Rightarrow> fp" where
  "fneg FNaN = FNaN"
| "fneg (FInf s) = FInf (\<not> s)"
| "fneg (FFin s m) = FFin (\<not> s) m"

fun fadd :: "fmt \<Rightarrow> fp \<Rightarrow> fp \<Rightarrow> fp" where
  "fadd F FNaN _ = FNaN"
| "fadd F _ FNaN = FNaN"
| "fadd F (FInf s) (FInf t) = (if s = t then FInf s else FNaN)"
| "fadd F (FInf s) (FFin t y) = FInf s"
| "fadd F (FFin s x) (FInf t) = FInf t"
| "fadd F (FFin s x) (FFin t y) = fround F (s \<and> t) (sval s x + sval t y)"

definition fsub :: "fmt \<Rightarrow> fp \<Rightarrow> fp \<Rightarrow> fp" where
  "fsub F a b = fadd F a (fneg b)"

fun fmul :: "fmt \<Rightarrow> fp \<Rightarrow> fp \<Rightarrow> fp" where
  "fmul F FNaN _ = FNaN"
| "fmul F _ FNaN = FNaN"
| "fmul F (FInf s) (FInf t) = FInf (s \<noteq> t)"
| "fmul F (FInf s) (FFin t y) = (if y = 0 then FNaN else FInf (s \<noteq> t))"
| "fmul F (FFin s x) (FInf t) = (if x = 0 then FNaN else FInf (s \<noteq> t))"
| "fmul F (FFin s x) (FFin t y) = fround F (s \<noteq> t) (sval s x * sval t y)"

fun fdiv :: "fmt \<Rightarrow> fp \<Rightarrow> fp \<Rightarrow> fp" where
  "fdiv F FNaN _ = FNaN"
| "fdiv F _ FNaN = FNaN"
| "fdiv F (FInf s) (FInf t) = FNaN"
| "fdiv F (FInf s) (FFin t y) = FInf (s \<noteq> t)"
| "fdiv F (FFin s x) (FInf t) = FFin (s \<noteq> t) 0"
| "fdiv F (FFin s x) (FFin t y) =
     (if y = 0 then (if x = 0 then FNaN else FInf (s \<noteq> t))
      else fround F (s \<noteq> t) (sval s x / sval t y))"

fun flt :: "fp \<Rightarrow> fp \<Rightarrow> bool" where
  "flt FNaN _ = False"
| "flt _ FNaN = False"
| "flt (FInf s) (FInf t) = (s \<and> \<not> t)"
| "flt (FInf s) (FFin t y) = s"
| "flt (FFin s x) (FInf t) = (\<not> t)"
| "flt (FFin s x) (FFin t y) = (sval s x < sval t y)"

fun fle :: "fp \<Rightarrow> fp \<Rightarrow> bool" where
  "fle FNaN _ = False"
| "fle _ FNaN = False"
| "fle a b = (\<not> flt b a)"

definition fof_int :: "fmt \<Rightarrow> int \<Rightarrow> fp" where
  "fof_int F n = fround F False (of_int n)"

definition flit :: "fmt \<Rightarrow> rat \<Rightarrow> fp" where
  "flit F x = fround F False x"

fun fcvt :: "fmt \<Rightarrow> fp \<Rightarrow> fp" where
  "fcvt F FNaN = FNaN"
| "fcvt F (FInf s) = FInf s"
| "fcvt F (FFin s m) = fround F s (sval s m)"

text \<open>
  The conversion to \<^verbatim>\<open>uint32_t\<close> truncates; it is undefined (\<open>None\<close>) for NaN, infinities
  and values whose integral part is not a \<^verbatim>\<open>uint32_t\<close>.
\<close>

fun f2u32 :: "fp \<Rightarrow> int option" where
  "f2u32 (FFin s m) =
     (if s then (if m < 1 then Some 0 else None)
      else if \<lfloor>m\<rfloor> < 2 ^ 32 then Some \<lfloor>m\<rfloor> else None)"
| "f2u32 _ = None"

abbreviation "c0 \<equiv> FFin False 0"

subsection \<open>Rounding is monotone\<close>

lemma ilog2_bounds:
  assumes "1 \<le> n"
  shows "0 \<le> ilog2 n \<and> (2::rat) powi ilog2 n \<le> of_int n \<and> of_int n < (2::rat) powi (ilog2 n + 1)"
  using assms
proof (induction n rule: ilog2.induct)
  case (1 n)
  show ?case
  proof (cases "n < 2")
    case True
    with 1 have "n = 1" by simp
    then show ?thesis by (simp add: ilog2.simps)
  next
    case False
    let ?m = "n div 2"
    from False 1 have IH: "0 \<le> ilog2 ?m" "(2::rat) powi ilog2 ?m \<le> of_int ?m"
      "of_int ?m < (2::rat) powi (ilog2 ?m + 1)" by auto
    have e: "ilog2 n = 1 + ilog2 ?m" using False by (subst ilog2.simps) simp
    have p: "(2::rat) powi (1 + ilog2 ?m) = 2 * 2 powi ilog2 ?m"
      by (simp add: power_int_add)
    have q: "(2::rat) powi (ilog2 ?m + 2) = 2 * 2 powi (ilog2 ?m + 1)"
      by (simp add: power_int_add)
    have k: "(2::rat) powi (ilog2 ?m + 1) = of_int (2 ^ nat (ilog2 ?m + 1))"
      using IH(1) by (simp add: power_int_def)
    have "2 * ?m \<le> n" "n \<le> 2 * ?m + 1" by auto
    moreover have "?m + 1 \<le> 2 ^ nat (ilog2 ?m + 1)"
      using IH(3) unfolding k of_int_less_iff by simp
    ultimately have "n < 2 * 2 ^ nat (ilog2 ?m + 1)" "2 * ?m \<le> n" by linarith+
    then have "(of_int n :: rat) < of_int (2 * 2 ^ nat (ilog2 ?m + 1))"
      and "(of_int (2 * ?m) :: rat) \<le> of_int n"
      unfolding of_int_less_iff of_int_le_iff by auto
    then have "(2::rat) powi (1 + ilog2 ?m) \<le> of_int n"
      and "of_int n < (2::rat) powi (ilog2 ?m + 2)"
      using IH(2) unfolding p q k by simp_all
    with IH(1) show ?thesis unfolding e by (simp add: algebra_simps)
  qed
qed

lemma flog2_bounds:
  assumes "0 < x"
  shows "2 powi flog2 x \<le> x" and "x < 2 powi (flog2 x + 1)"
proof -
  obtain n d where nd: "quotient_of x = (n, d)" by force
  let ?a = "ilog2 n" and ?b = "ilog2 d"
  have d: "1 \<le> d" using quotient_of_denom_pos [OF nd] by simp
  have x: "x = of_int n / of_int d" using quotient_of_div [OF nd] .
  have n: "1 \<le> n" using assms d unfolding x by (simp add: zero_less_divide_iff)
  note A = ilog2_bounds [OF n] and B = ilog2_bounds [OF d]
  have pos: "0 < (2::rat) powi k" for k by simp
  have hi: "x < 2 powi (?a - ?b + 1)"
  proof -
    have "x < 2 powi (?a + 1) / of_int d"
      unfolding x using A d by (intro divide_strict_right_mono) auto
    also have "\<dots> \<le> 2 powi (?a + 1) / 2 powi ?b"
      using B d pos by (intro divide_left_mono) auto
    also have "\<dots> = 2 powi (?a - ?b + 1)"
      by (simp add: power_int_add power_int_diff)
    finally show ?thesis .
  qed
  have lo: "2 powi (?a - ?b - 1) \<le> x"
  proof -
    have "2 powi (?a - ?b - 1) = 2 powi ?a / (2::rat) powi (?b + 1)"
      by (simp add: power_int_add power_int_diff)
    also have "\<dots> \<le> 2 powi ?a / of_int d"
      using B d pos by (intro divide_left_mono) (auto intro: less_imp_le)
    also have "\<dots> \<le> x"
      unfolding x using A d by (intro divide_right_mono) auto
    finally show ?thesis .
  qed
  show "2 powi flog2 x \<le> x" "x < 2 powi (flog2 x + 1)"
    using lo hi by (auto simp: flog2_def nd Let_def)
qed

lemma rne_mono: "x \<le> y \<Longrightarrow> rne x \<le> rne y"
proof -
  assume xy: "x \<le> y"
  show ?thesis
  proof (cases "\<lfloor>x\<rfloor> = \<lfloor>y\<rfloor>")
    case True
    with xy show ?thesis by (auto simp: rne_def Let_def)
  next
    case False
    with floor_mono [OF xy] have "\<lfloor>x\<rfloor> + 1 \<le> \<lfloor>y\<rfloor>" by linarith
    then show ?thesis by (auto simp: rne_def Let_def)
  qed
qed

lemma rne_of_int [simp]: "rne (of_int k) = k"
  by (simp add: rne_def)

lemma rne_le: "x \<le> of_int k \<Longrightarrow> rne x \<le> k"
  using rne_mono [of x "of_int k"] by simp

lemma rne_ge: "of_int k \<le> x \<Longrightarrow> k \<le> rne x"
  using rne_mono [of "of_int k" x] by simp

lemma powi_of_int: "0 \<le> k \<Longrightarrow> (2::rat) powi k = of_int (2 ^ nat k)"
  by (simp add: power_int_def)

lemma flog2_mono:
  assumes "0 < x" "x \<le> y"
  shows "flog2 x \<le> flog2 y"
proof (rule ccontr)
  assume "\<not> flog2 x \<le> flog2 y"
  then have "(2::rat) powi (flog2 y + 1) \<le> 2 powi flog2 x"
    by (intro power_int_increasing) auto
  with flog2_bounds [of x] flog2_bounds [of y] assms show False by linarith
qed

lemma rnd_mag_nonneg [simp]: "0 \<le> rnd_mag F x"
  by (auto simp: rnd_mag_def intro!: mult_nonneg_nonneg rne_ge)

lemma rnd_mag_le:
  assumes "0 < x" "rne (x / 2 powi quantum F x) \<le> k"
  shows "rnd_mag F x \<le> of_int k * 2 powi quantum F x"
proof -
  have "(of_int (rne (x / 2 powi quantum F x)) :: rat) \<le> of_int k"
    using assms(2) by (simp only: of_int_le_iff)
  with assms(1) show ?thesis by (auto simp: rnd_mag_def intro!: mult_right_mono)
qed

lemma rnd_mag_ge:
  assumes "0 < x" "k \<le> rne (x / 2 powi quantum F x)"
  shows "of_int k * 2 powi quantum F x \<le> rnd_mag F x"
proof -
  have "(of_int k :: rat) \<le> of_int (rne (x / 2 powi quantum F x))"
    using assms(2) by (simp only: of_int_le_iff)
  with assms(1) show ?thesis by (auto simp: rnd_mag_def intro!: mult_right_mono)
qed

lemma rnd_mag_mono:
  assumes xy: "x \<le> y" and p: "1 \<le> prec F"
  shows "rnd_mag F x \<le> rnd_mag F y"
proof (cases "0 < x")
  case False
  then have "rnd_mag F x = 0" by (simp add: rnd_mag_def)
  then show ?thesis by simp
next
  case True
  with xy have y: "0 < y" by linarith
  let ?p = "int (prec F)"
  have q: "quantum F x \<le> quantum F y"
    using flog2_mono [OF True xy] by (auto simp: quantum_def)
  show ?thesis
  proof (cases "quantum F x = quantum F y")
    case True
    have "rne (x / 2 powi quantum F y) \<le> rne (y / 2 powi quantum F y)"
      using xy by (intro rne_mono divide_right_mono) auto
    then have "of_int (rne (x / 2 powi quantum F y)) \<le> (of_int (rne (y / 2 powi quantum F y)) :: rat)"
      by simp
    then show ?thesis
      using True \<open>0 < x\<close> y by (auto simp: rnd_mag_def intro!: mult_right_mono)
  next
    case False
    with q have lt: "quantum F x + 1 \<le> quantum F y" by simp
    let ?qx = "quantum F x" and ?qy = "quantum F y"
    have qy: "?qy = flog2 y - (?p - 1)"
      using lt by (auto simp: quantum_def split: if_splits)
    have "flog2 x + 1 \<le> ?qx + ?p" by (auto simp: quantum_def)
    then have "(2::rat) powi (flog2 x + 1) \<le> 2 powi (?qx + ?p)"
      by (intro power_int_increasing) auto
    with flog2_bounds(2) [OF \<open>0 < x\<close>] have "x < 2 powi (?qx + ?p)" by linarith
    then have "x / 2 powi ?qx \<le> 2 powi ?p"
      by (simp add: power_int_add pos_divide_le_eq mult.commute)
    then have a: "rne (x / 2 powi ?qx) \<le> 2 ^ prec F"
      by (intro rne_le) (simp add: power_int_def)
    have "2 powi (?qy + (?p - 1)) \<le> y" using flog2_bounds(1) [OF y] qy by simp
    then have "(2::rat) powi (?p - 1) \<le> y / 2 powi ?qy"
      by (simp add: power_int_add pos_le_divide_eq mult.commute)
    moreover have "(2::rat) powi (?p - 1) = of_int (2 ^ (prec F - 1))"
      using p by (simp add: power_int_def nat_diff_distrib)
    ultimately have b: "2 ^ (prec F - 1) \<le> rne (y / 2 powi ?qy)"
      by (intro rne_ge) simp
    have "rnd_mag F x \<le> of_int (2 ^ prec F) * 2 powi ?qx"
      using \<open>0 < x\<close> a by (rule rnd_mag_le)
    also have "\<dots> = of_int (2 ^ (prec F - 1)) * 2 powi (?qx + 1)"
      using p by (cases "prec F") (auto simp: power_int_add)
    also have "\<dots> \<le> of_int (2 ^ (prec F - 1)) * 2 powi ?qy"
      using lt by (intro mult_left_mono power_int_increasing) auto
    also have "\<dots> \<le> rnd_mag F y"
      using y b by (rule rnd_mag_ge)
    finally show ?thesis .
  qed
qed

subsection \<open>Bounds survive rounding\<close>

fun frange :: "rat \<Rightarrow> rat \<Rightarrow> fp \<Rightarrow> bool" where
  "frange lo hi (FFin s m) = (0 \<le> m \<and> lo \<le> sval s m \<and> sval s m \<le> hi)"
| "frange lo hi _ = False"

fun fval :: "fp \<Rightarrow> rat" where
  "fval (FFin s m) = sval s m"
| "fval _ = 0"

definition frep :: "fmt \<Rightarrow> rat \<Rightarrow> bool" where
  "frep F r \<longleftrightarrow> rnd_mag F \<bar>r\<bar> = \<bar>r\<bar> \<and> \<bar>r\<bar> < 2 powi emax F"

lemma prec_f32 [simp]: "1 \<le> prec f32" "Suc 0 \<le> prec f32"
  by (simp_all add: f32_def)

lemma prec_f64 [simp]: "1 \<le> prec f64" "Suc 0 \<le> prec f64"
  by (simp_all add: f64_def)

lemma rnd_mag_0 [simp]: "rnd_mag F 0 = 0"
  by (simp add: rnd_mag_def)

lemma sval_0 [simp]: "sval s 0 = 0"
  by (simp add: sval_def)

lemma flit_0 [simp]: "flit F 0 = FFin False 0"
  by (simp add: flit_def fround_def not_le)

lemma frep_0 [simp]: "frep F 0"
  by (simp add: frep_def)

lemma frep_neg [simp]: "frep F (- r) = frep F r"
  by (simp add: frep_def)

lemma frep_scaled:
  assumes "emin F \<le> k" "\<bar>n\<bar> < 2 ^ prec F" "k + int (prec F) \<le> emax F"
  shows "frep F (of_int n * 2 powi k)"
proof (cases "n = 0")
  case False
  let ?x = "of_int \<bar>n\<bar> * 2 powi k :: rat"
  have x: "0 < ?x" using False by simp
  have "(of_int \<bar>n\<bar> :: rat) < of_int (2 ^ prec F)" using assms(2) by (simp only: of_int_less_iff)
  then have "?x < 2 ^ prec F * 2 powi k" by simp
  then have lt: "?x < 2 powi (k + int (prec F))" by (simp add: power_int_add mult.commute)
  have "flog2 ?x < k + int (prec F)"
  proof (rule ccontr)
    assume "\<not> flog2 ?x < k + int (prec F)"
    then have "(2::rat) powi (k + int (prec F)) \<le> 2 powi flog2 ?x" by (intro power_int_increasing) auto
    with flog2_bounds(1) [OF x] lt show False by linarith
  qed
  then have q: "quantum F ?x \<le> k" using assms(1) by (simp add: quantum_def)
  let ?q = "quantum F ?x"
  have "?x / 2 powi ?q = of_int \<bar>n\<bar> * 2 powi (k - ?q)" by (simp add: power_int_diff)
  also have "\<dots> = of_int (\<bar>n\<bar> * 2 ^ nat (k - ?q))" using q by (simp add: power_int_def)
  finally have "rne (?x / 2 powi ?q) = \<bar>n\<bar> * 2 ^ nat (k - ?q)" by (metis rne_of_int)
  then have "rnd_mag F ?x = of_int (\<bar>n\<bar> * 2 ^ nat (k - ?q)) * 2 powi ?q"
    using x [unfolded not_le [symmetric]] by (simp only: rnd_mag_def if_False)
  also have "\<dots> = of_int \<bar>n\<bar> * (2 powi (k - ?q) * 2 powi ?q)" using q by (simp add: power_int_def)
  also have "\<dots> = ?x" by (simp flip: power_int_add)
  finally have "rnd_mag F ?x = ?x" .
  moreover have "(2::rat) powi (k + int (prec F)) \<le> 2 powi emax F"
    using assms(3) by (intro power_int_increasing) auto
  then have "?x < 2 powi emax F" using lt by linarith
  ultimately show ?thesis by (simp add: frep_def abs_mult)
qed simp

lemma frep_f32_numeral [simp]: "numeral w < (2 ^ 24 :: int) \<Longrightarrow> frep f32 (numeral w)"
  using frep_scaled [of f32 0 "numeral w"] by (simp add: f32_def)

lemma frep_f32_1 [simp]: "frep f32 1"
  using frep_scaled [of f32 0 1] by (simp add: f32_def)

lemma frep_f64_numeral [simp]: "numeral w < (2 ^ 53 :: int) \<Longrightarrow> frep f64 (numeral w)"
  using frep_scaled [of f64 0 "numeral w"] by (simp add: f64_def)

lemma frep_f32_div: "\<bar>n\<bar> < 2 ^ 24 \<Longrightarrow> j \<le> 149 \<Longrightarrow> frep f32 (of_int n / 2 ^ j)"
  using frep_scaled [of f32 "- int j" n] by (simp add: f32_def power_int_minus divide_inverse)

lemma frep_f32_pow: "j \<le> 104 \<Longrightarrow> frep f32 (2 ^ j)"
  using frep_scaled [of f32 "int j" 1] by (simp add: f32_def)

lemmas frep_f32_fracs [simp] =
  frep_f32_div [of 1 1, simplified] frep_f32_div [of 1 4, simplified] frep_f32_div [of 15 4, simplified]
  frep_f32_div [of 63 6, simplified] frep_f32_div [of 1 6, simplified] frep_f32_div [of 1 7, simplified]

lemma frangeE:
  assumes "frange lo hi v"
  obtains s m where "v = FFin s m" "0 \<le> m" "lo \<le> sval s m" "sval s m \<le> hi"
  using assms by (cases v) auto

lemma frange_weaken: "frange a b v \<Longrightarrow> lo \<le> a \<Longrightarrow> b \<le> hi \<Longrightarrow> frange lo hi v"
  by (cases v) auto

lemma rnd_mag_frep_le:
  assumes "1 \<le> prec F" "frep F r" "0 \<le> r" "x \<le> r"
  shows "rnd_mag F x \<le> r" and "rnd_mag F x < 2 powi emax F"
  using rnd_mag_mono [of x r F] assms by (auto simp: frep_def)

lemma rnd_mag_frep_ge:
  assumes "1 \<le> prec F" "frep F r" "0 \<le> r" "r \<le> x"
  shows "r \<le> rnd_mag F x"
  using rnd_mag_mono [of r x F] assms by (auto simp: frep_def)

theorem fround_frange:
  assumes p: "1 \<le> prec F" and lo: "frep F lo" and hi: "frep F hi"
    and x: "lo \<le> x" "x \<le> hi"
  shows "frange lo hi (fround F s x)"
proof (cases "0 \<le> x")
  case True
  with x have "0 \<le> hi" by linarith
  note u = rnd_mag_frep_le [OF p hi this x(2)]
  have l: "lo \<le> rnd_mag F x"
  proof (cases "0 \<le> lo")
    case True
    then show ?thesis using rnd_mag_frep_ge [OF p lo _ x(1)] by simp
  next
    case False
    then show ?thesis using rnd_mag_nonneg [of F x] by linarith
  qed
  show ?thesis
    using True u l by (cases "x = 0") (auto simp: fround_def Let_def sval_def rnd_mag_0 not_le)
next
  case False
  with x have "0 \<le> - lo" "- x \<le> - lo" by auto
  note u = rnd_mag_frep_le [OF p _ this] lo
  have l: "- hi \<le> rnd_mag F (- x)"
  proof (cases "0 \<le> - hi")
    case True
    then show ?thesis using rnd_mag_frep_ge [OF p, of "- hi" "- x"] hi x by simp
  next
    case False
    then show ?thesis using rnd_mag_nonneg [of F "- x"] by linarith
  qed
  show ?thesis
    using False u l by (auto simp: fround_def Let_def sval_def not_le)
qed

lemma fneg_frange: "frange lo hi v \<Longrightarrow> frange (- hi) (- lo) (fneg v)"
  by (cases v) (auto simp: sval_def split: if_splits)

lemma fadd_frange:
  assumes "1 \<le> prec F" "frep F lo" "frep F hi"
    and "frange a b u" "frange c d v" "lo \<le> a + c" "b + d \<le> hi"
  shows "frange lo hi (fadd F u v)"
  using assms by (auto elim!: frangeE intro!: fround_frange)

lemma fsub_frange:
  assumes "1 \<le> prec F" "frep F lo" "frep F hi"
    and "frange a b u" "frange c d v" "lo \<le> a - d" "b - c \<le> hi"
  shows "frange lo hi (fsub F u v)"
  unfolding fsub_def
  using assms by (intro fadd_frange [where c = "- d" and d = "- c"] fneg_frange) auto

lemma fmul_frange_abs:
  assumes "1 \<le> prec F" "frep F C"
    and "frange (- A) A u" "frange (- B) B v" "A * B \<le> C"
  shows "frange (- C) C (fmul F u v)"
proof -
  from assms(3,4) obtain s m t k where
    v: "u = FFin s m" "v = FFin t k" "\<bar>sval s m\<bar> \<le> A" "\<bar>sval t k\<bar> \<le> B"
    by (auto elim!: frangeE)
  have "\<bar>sval s m * sval t k\<bar> \<le> A * B"
    unfolding abs_mult using v by (intro mult_mono) auto
  with assms show ?thesis unfolding v by (auto intro!: fround_frange)
qed

lemma fmul_frange_nonneg:
  assumes "1 \<le> prec F" "frep F C"
    and "frange 0 A u" "frange 0 B v" "A * B \<le> C"
  shows "frange 0 C (fmul F u v)"
proof -
  from assms(3,4) obtain s m t k where
    v: "u = FFin s m" "v = FFin t k" "0 \<le> sval s m" "sval s m \<le> A" "0 \<le> sval t k" "sval t k \<le> B"
    by (auto elim!: frangeE)
  have "sval s m * sval t k \<le> A * B" "0 \<le> sval s m * sval t k"
    using v by (auto intro: mult_mono)
  with assms show ?thesis unfolding v by (auto intro!: fround_frange)
qed

lemma fdiv_frange_abs:
  assumes "1 \<le> prec F" "frep F C"
    and "frange (- A) A u" "frange b B v" "0 < b" "A / b \<le> C"
  shows "frange (- C) C (fdiv F u v)"
proof -
  from assms(3,4) obtain s m t k where
    v: "u = FFin s m" "v = FFin t k" "\<bar>sval s m\<bar> \<le> A" "b \<le> sval t k" "0 \<le> k"
    by (auto elim!: frangeE)
  have k: "k \<noteq> 0" using v assms(5) by auto
  have "\<bar>sval s m / sval t k\<bar> = \<bar>sval s m\<bar> / sval t k" using v assms(5) by simp
  also have "\<dots> \<le> A / b" using v assms(5) by (intro frac_le) auto
  finally have "\<bar>sval s m / sval t k\<bar> \<le> C" using assms(6) by linarith
  then have "- C \<le> sval s m / sval t k" "sval s m / sval t k \<le> C"
    unfolding abs_le_iff by linarith+
  then show ?thesis using assms k unfolding v by (auto intro!: fround_frange)
qed

lemma fdiv_frange_nonneg:
  assumes "1 \<le> prec F" "frep F C"
    and "frange 0 A u" "frange b B v" "0 < b" "A / b \<le> C"
  shows "frange 0 C (fdiv F u v)"
proof -
  from assms(3,4) obtain s m t k where
    v: "u = FFin s m" "v = FFin t k" "0 \<le> sval s m" "sval s m \<le> A" "b \<le> sval t k" "0 \<le> k"
    by (auto elim!: frangeE)
  have k: "k \<noteq> 0" using v assms(5) by auto
  have "sval s m / sval t k \<le> A / b" using v assms(5) by (intro frac_le) auto
  then have "sval s m / sval t k \<le> C" using assms(6) by linarith
  moreover have "0 \<le> sval s m / sval t k" using v assms(5) by simp
  ultimately show ?thesis using assms k unfolding v by (auto intro!: fround_frange)
qed

lemma fof_int_frange:
  assumes "1 \<le> prec F" "frep F lo" "frep F hi" "lo \<le> of_int n" "of_int n \<le> hi"
  shows "frange lo hi (fof_int F n)"
  unfolding fof_int_def using assms by (intro fround_frange)

lemma flit_frange:
  assumes "1 \<le> prec F" "frep F lo" "frep F hi" "lo \<le> x" "x \<le> hi"
  shows "frange lo hi (flit F x)"
  unfolding flit_def using assms by (intro fround_frange)

lemma fcvt_frange:
  assumes "1 \<le> prec F" "frep F lo" "frep F hi" "frange lo hi v"
  shows "frange lo hi (fcvt F v)"
  using assms by (auto elim!: frangeE intro!: fround_frange)

lemma f2u32_frange:
  assumes "frange 0 hi v" "hi < 2 ^ 32"
  shows "\<exists>n. f2u32 v = Some n \<and> 0 \<le> n \<and> of_int n \<le> hi"
proof -
  from assms(1) obtain s m where v: "v = FFin s m" "0 \<le> m" "0 \<le> sval s m" "sval s m \<le> hi"
    by (auto elim!: frangeE)
  show ?thesis
  proof (cases s)
    case True
    with v have "m = 0" by (simp add: sval_def)
    with v True show ?thesis by (simp add: sval_def)
  next
    case False
    with v have m: "m \<le> hi" by (simp add: sval_def)
    have "of_int \<lfloor>m\<rfloor> \<le> m" by simp
    then have f: "of_int \<lfloor>m\<rfloor> \<le> hi" "\<lfloor>m\<rfloor> < 2 ^ 32"
      using m assms(2) by (linarith, simp add: floor_less_iff)
    then show ?thesis using v False by simp
  qed
qed

text \<open>Every operation yields a well-formed value: the magnitude of a finite result is not negative.\<close>

fun fwf :: "fp \<Rightarrow> bool" where
  "fwf (FFin s m) = (0 \<le> m)"
| "fwf _ = True"

lemma fwf_fround [simp]: "fwf (fround F s x)"
  by (simp add: fround_def Let_def)

lemma fwf_fadd [simp]: "fwf (fadd F u v)"
  by (cases u; cases v) auto

lemma fwf_fmul [simp]: "fwf (fmul F u v)"
  by (cases u; cases v) auto

lemma fwf_fdiv [simp]: "fwf (fdiv F u v)"
  by (cases u; cases v) auto

lemma fwf_fcvt [simp]: "fwf (fcvt F v)"
  by (cases v) auto

lemma frange_fwf: "frange lo hi v \<Longrightarrow> fwf v"
  by (cases v) auto

end
