(* ===== verification/Pid.thy ===== *)
theory Pid
  imports CFloat
begin

text \<open>
  The PID controller of \<^verbatim>\<open>components/pid\<close>: the controller struct, \<open>pid_init\<close>,
  \<open>pid_compute\<close> and \<open>pid_reset\<close>, in single precision. The lemmas show that the output and the
  integral never leave their limits, whatever the inputs (anti-windup), and that with the
  inputs of the flight loop no operation overflows or yields NaN.
\<close>

record pid_ctrl =
  kp :: fp
  ki :: fp
  kd :: fp
  i_limit :: fp
  out_limit :: fp
  integral :: fp
  prev_error :: fp
  prev_derivative :: fp

definition pid_clamp :: "fp \<Rightarrow> fp \<Rightarrow> fp \<Rightarrow> fp" where
  "pid_clamp v lo hi = (if flt v lo then lo else if flt hi v then hi else v)"

definition pid_init :: "fp \<Rightarrow> fp \<Rightarrow> fp \<Rightarrow> fp \<Rightarrow> fp \<Rightarrow> pid_ctrl" where
  "pid_init p i d i_lim out_lim =
     \<lparr>kp = p, ki = i, kd = d, i_limit = i_lim, out_limit = out_lim,
      integral = flit f32 0, prev_error = flit f32 0, prev_derivative = flit f32 0\<rparr>"

definition pid_compute :: "pid_ctrl \<Rightarrow> fp \<Rightarrow> fp \<Rightarrow> fp \<Rightarrow> fp \<times> pid_ctrl" where
  "pid_compute pid setpoint measured dt =
     (let err = fsub f32 setpoint measured;
          p_out = fmul f32 (kp pid) err;
          int0 = fadd f32 (integral pid) (fmul f32 err dt);
          int1 = pid_clamp int0 (fneg (i_limit pid)) (i_limit pid);
          i_out = fmul f32 (ki pid) int1;
          deriv0 = fdiv f32 (fsub f32 err (prev_error pid)) dt;
          deriv = fadd f32 (fmul f32 (flit f32 (1 / 2)) deriv0)
                           (fmul f32 (flit f32 (1 / 2)) (prev_derivative pid));
          d_out = fmul f32 (kd pid) deriv;
          output = fadd f32 (fadd f32 p_out i_out) d_out
      in (pid_clamp output (fneg (out_limit pid)) (out_limit pid),
          pid\<lparr>integral := int1, prev_error := err, prev_derivative := deriv\<rparr>))"

definition pid_reset :: "pid_ctrl \<Rightarrow> pid_ctrl" where
  "pid_reset pid = pid\<lparr>integral := flit f32 0, prev_error := flit f32 0,
                       prev_derivative := flit f32 0\<rparr>"

subsection \<open>Limits hold for every input\<close>

lemma pid_clamp_frange:
  assumes "frange a b v" "sval s lo \<le> sval t hi" "0 \<le> lo" "0 \<le> hi"
  shows "frange (sval s lo) (sval t hi) (pid_clamp v (FFin s lo) (FFin t hi))"
  using assms by (auto elim!: frangeE simp: pid_clamp_def)

lemma pid_clamp_limit:
  assumes "0 \<le> l" "fwf v"
  shows "pid_clamp v (fneg (FFin False l)) (FFin False l) = FNaN \<or>
         frange (- l) l (pid_clamp v (fneg (FFin False l)) (FFin False l))"
  using assms by (cases v) (auto simp: pid_clamp_def sval_def)

lemma pid_compute_out:
  "\<exists>u v. fst (pid_compute pid sp me dt) =
     pid_clamp (fadd f32 u v) (fneg (out_limit pid)) (out_limit pid)"
  by (auto simp: pid_compute_def Let_def)

lemma pid_compute_integral:
  "\<exists>u v. integral (snd (pid_compute pid sp me dt)) =
     pid_clamp (fadd f32 u v) (fneg (i_limit pid)) (i_limit pid)"
  by (auto simp: pid_compute_def Let_def)

lemma pid_compute_gains [simp]:
  "kp (snd (pid_compute pid sp me dt)) = kp pid"
  "ki (snd (pid_compute pid sp me dt)) = ki pid"
  "kd (snd (pid_compute pid sp me dt)) = kd pid"
  "i_limit (snd (pid_compute pid sp me dt)) = i_limit pid"
  "out_limit (snd (pid_compute pid sp me dt)) = out_limit pid"
  by (simp_all add: pid_compute_def Let_def)

text \<open>
  C22. Saturation and anti-windup: for a controller whose limits are finite and non-negative,
  and for all set points, measurements, time steps and controller states, the output of
  \<open>pid_compute\<close> is within \<open>\<plusminus>out_limit\<close> and the stored integral within \<open>\<plusminus>i_limit\<close>, unless the
  computation itself produced NaN.
\<close>

theorem pid_compute_limits:
  assumes "i_limit pid = FFin False L" "0 \<le> L"
    and "out_limit pid = FFin False M" "0 \<le> M"
    and "pid_compute pid sp me dt = (out, pid')"
  shows "(out = FNaN \<or> frange (- M) M out) \<and>
         (integral pid' = FNaN \<or> frange (- L) L (integral pid'))"
proof -
  obtain u v where "fst (pid_compute pid sp me dt) =
      pid_clamp (fadd f32 u v) (fneg (out_limit pid)) (out_limit pid)"
    using pid_compute_out by blast
  then have o: "out = FNaN \<or> frange (- M) M out"
    using pid_clamp_limit [OF assms(4) fwf_fadd] assms(3,5) by fastforce
  obtain u v where "integral (snd (pid_compute pid sp me dt)) =
      pid_clamp (fadd f32 u v) (fneg (i_limit pid)) (i_limit pid)"
    using pid_compute_integral by blast
  then have "integral pid' = FNaN \<or> frange (- L) L (integral pid')"
    using pid_clamp_limit [OF assms(2) fwf_fadd] assms(1,5) by fastforce
  with o show ?thesis by blast
qed

theorem pid_compute_limits_witness:
  "(case pid_compute (pid_init (flit f32 (12 / 10)) (flit f32 0) (flit f32 (1 / 2))
       (FFin False 20) (FFin False 40)) (FFin False 30) (FFin True 10) (flit f32 (1 / 100)) of
     (out, pid') \<Rightarrow> (out = FNaN \<or> frange (- 40) 40 out) \<and>
       (integral pid' = FNaN \<or> frange (- 20) 20 (integral pid')) \<and>
       out = FFin False 40)"
proof -
  let ?p = "pid_init (flit f32 (12 / 10)) (flit f32 0) (flit f32 (1 / 2))
       (FFin False 20) (FFin False 40)"
  obtain out pid' where c:
    "pid_compute ?p (FFin False 30) (FFin True 10) (flit f32 (1 / 100)) = (out, pid')"
    by fastforce
  have "(out = FNaN \<or> frange (- 40) 40 out) \<and>
       (integral pid' = FNaN \<or> frange (- 20) 20 (integral pid'))"
    by (rule pid_compute_limits [OF _ _ _ _ c]) (simp_all add: pid_init_def)
  moreover have "fst (pid_compute ?p (FFin False 30) (FFin True 10) (flit f32 (1 / 100))) = FFin False 40"
    by code_simp
  ultimately show ?thesis using c by simp
qed

subsection \<open>No overflow and no NaN in flight\<close>

text \<open>
  The tuning of the flight loop, and the state its two controllers keep. Set points come from
  a 32-bit stick value scaled to degrees, measured angles from the complementary filter; the
  bounds are powers of two that contain both.
\<close>

definition pid_flight_init :: pid_ctrl where
  "pid_flight_init = pid_init (flit f32 (12 / 10)) (flit f32 0) (flit f32 (1 / 2))
     (flit f32 20) (flit f32 40)"

definition flight_dt :: fp where
  "flight_dt = flit f32 (1 / 100)"

definition pid_inv :: "pid_ctrl \<Rightarrow> bool" where
  "pid_inv p \<longleftrightarrow>
     kp p = flit f32 (12 / 10) \<and> ki p = flit f32 0 \<and> kd p = flit f32 (1 / 2) \<and>
     i_limit p = flit f32 20 \<and> out_limit p = flit f32 40 \<and>
     frange (- 20) 20 (integral p) \<and>
     frange (- (2 ^ 30)) (2 ^ 30) (prev_error p) \<and>
     frange (- (2 ^ 38)) (2 ^ 38) (prev_derivative p)"

lemma flit_20_40: "flit f32 20 = FFin False 20" "flit f32 40 = FFin False 40"
  by code_simp+

lemma pid_const_ranges:
  "frange (- 2) 2 (flit f32 (12 / 10))"
  "frange (- (1 / 2)) (1 / 2) (flit f32 (1 / 2))"
  "frange (- (1 / 64)) (1 / 64) flight_dt"
  "frange (1 / 128) (1 / 64) flight_dt"
  unfolding flight_dt_def by (intro flit_frange; simp)+

lemmas frep_pid [simp] =
  frep_f32_pow [of 28, simplified] frep_f32_pow [of 29, simplified] frep_f32_pow [of 30, simplified]
  frep_f32_pow [of 31, simplified] frep_f32_pow [of 36, simplified] frep_f32_pow [of 37, simplified]
  frep_f32_pow [of 38, simplified] frep_f32_pow [of 24, simplified]
  frep_f32_pow [of 25, simplified] frep_f32_pow [of 32, simplified] frep_f32_pow [of 39, simplified]

lemma pid_inv_init: "pid_inv pid_flight_init"
  by (simp add: pid_inv_def pid_flight_init_def pid_init_def)

lemma pid_inv_reset: "pid_inv p \<Longrightarrow> pid_inv (pid_reset p)"
  by (simp add: pid_inv_def pid_reset_def)

lemma pid_compute_inv:
  assumes inv: "pid_inv p"
    and sp: "frange (- (2 ^ 29)) (2 ^ 29) sp" and me: "frange (- (2 ^ 20)) (2 ^ 20) me"
  shows "pid_inv (snd (pid_compute p sp me flight_dt))"
    and "frange (- 40) 40 (fst (pid_compute p sp me flight_dt))"
proof -
  note c = pid_const_ranges
  let ?err = "fsub f32 sp me"
  have err: "frange (- (2 ^ 30)) (2 ^ 30) ?err"
    by (rule fsub_frange [OF _ _ _ sp me]) simp_all
  have p_out: "frange (- (2 ^ 31)) (2 ^ 31) (fmul f32 (flit f32 (12 / 10)) ?err)"
    by (rule fmul_frange_abs [OF _ _ c(1) err]) simp_all
  have ed: "frange (- (2 ^ 24)) (2 ^ 24) (fmul f32 ?err flight_dt)"
    by (rule fmul_frange_abs [OF _ _ err c(3)]) simp_all
  have "frange (- 20) 20 (integral p)" using inv by (simp add: pid_inv_def)
  then have "frange (- (2 ^ 25)) (2 ^ 25) (fadd f32 (integral p) (fmul f32 ?err flight_dt))"
    by (rule fadd_frange [OF _ _ _ _ ed, rotated 3]) simp_all
  then have int1: "frange (- 20) 20 (pid_clamp (fadd f32 (integral p) (fmul f32 ?err flight_dt))
      (fneg (flit f32 20)) (flit f32 20))" (is "frange _ _ ?int1")
    unfolding flit_20_40 fneg.simps
    using pid_clamp_frange [of _ _ _ True 20 False 20] by (simp add: sval_def)
  have i_out: "frange (- 20) 20 (fmul f32 (flit f32 0) ?int1)"
    using int1 by (cases ?int1) (auto simp: fround_def not_le)
  have pe: "frange (- (2 ^ 30)) (2 ^ 30) (prev_error p)"
    and pd: "frange (- (2 ^ 38)) (2 ^ 38) (prev_derivative p)"
    using inv by (simp_all add: pid_inv_def)
  have "frange (- (2 ^ 31)) (2 ^ 31) (fsub f32 ?err (prev_error p))"
    by (rule fsub_frange [OF _ _ _ err pe]) simp_all
  then have d0: "frange (- (2 ^ 38)) (2 ^ 38) (fdiv f32 (fsub f32 ?err (prev_error p)) flight_dt)"
    by (rule fdiv_frange_abs [OF _ _ _ c(4), rotated 2]) simp_all
  have h: "frange (- (2 ^ 37)) (2 ^ 37) (fmul f32 (flit f32 (1 / 2)) v)"
    if "frange (- (2 ^ 38)) (2 ^ 38) v" for v
    by (rule fmul_frange_abs [OF _ _ c(2) that]) simp_all
  have dv: "frange (- (2 ^ 38)) (2 ^ 38)
      (fadd f32 (fmul f32 (flit f32 (1 / 2)) (fdiv f32 (fsub f32 ?err (prev_error p)) flight_dt))
                (fmul f32 (flit f32 (1 / 2)) (prev_derivative p)))" (is "frange _ _ ?dv")
    by (rule fadd_frange [OF _ _ _ h [OF d0] h [OF pd]]) simp_all
  have pi: "frange (- (2 ^ 32)) (2 ^ 32)
      (fadd f32 (fmul f32 (flit f32 (12 / 10)) ?err) (fmul f32 (flit f32 0) ?int1))" (is "frange _ _ ?pi")
    by (rule fadd_frange [OF _ _ _ p_out i_out]) simp_all
  have "frange (- (2 ^ 39)) (2 ^ 39) (fadd f32 ?pi (fmul f32 (flit f32 (1 / 2)) ?dv))"
    by (rule fadd_frange [OF _ _ _ pi h [OF dv]]) simp_all
  then have out: "frange (- 40) 40 (pid_clamp (fadd f32 ?pi (fmul f32 (flit f32 (1 / 2)) ?dv))
      (fneg (flit f32 40)) (flit f32 40))"
    unfolding flit_20_40 fneg.simps
    using pid_clamp_frange [of _ _ _ True 40 False 40] by (simp add: sval_def)
  show "pid_inv (snd (pid_compute p sp me flight_dt))"
    using inv int1 err dv by (simp add: pid_inv_def pid_compute_def Let_def)
  show "frange (- 40) 40 (fst (pid_compute p sp me flight_dt))"
    using inv out by (simp add: pid_inv_def pid_compute_def Let_def)
qed

end
