(* ===== verification/EspIdf.thy ===== *)
theory EspIdf
  imports CFloat
begin

text \<open>
  The boundary to ESP-IDF, FreeRTOS and libm, none of which is part of the repository. The
  firmware's calls into them are recorded in a log, in order; what they return is a parameter
  of the model, the record \<open>esp_env\<close>, whose answers may depend on the whole history of
  calls. \<open>hw_bind\<close> sequences such calls, and \<open>ESP_ERROR_CHECK\<close> ends the program (abort) on
  any return code but \<open>ESP_OK\<close>. Undefined behaviour of C is the outcome \<open>Undefined\<close>.
\<close>

named_theorems hw_simps \<open>unfolding rules of the hardware monad\<close>

datatype hw_call =
    GpioResetPin int
  | GpioSetDirection int
  | GpioSetLevel int int
  | LedcTimerConfig int int
  | LedcChannelConfig int int int
  | LedcSetDuty int int
  | LedcUpdateDuty int
  | I2cParamConfig int int int
  | I2cDriverInstall
  | I2cWrite int "int list"
  | I2cWriteRead int int nat
  | TimerGetTime
  | NvsFlashInit
  | NvsFlashErase
  | TaskDelay int
  | TaskDelayUntil int
  | TaskGetTickCount
  | TaskCreateBluepad

type_synonym hw_log = "hw_call list"

record esp_env =
  ret :: "hw_log \<Rightarrow> hw_call \<Rightarrow> int"
  i2c_data :: "hw_log \<Rightarrow> nat \<Rightarrow> u8"
  timer_us :: "hw_log \<Rightarrow> u64w"
  libm_atan2 :: "fp \<Rightarrow> fp \<Rightarrow> fp"
  libm_sqrt :: "fp \<Rightarrow> fp"

abbreviation (input) "ESP_OK \<equiv> (0 :: int)"
abbreviation (input) "ESP_ERR_NVS_NO_FREE_PAGES \<equiv> (0x110d :: int)"
abbreviation (input) "ESP_ERR_NVS_NEW_VERSION_FOUND \<equiv> (0x1110 :: int)"

datatype 'a outcome = Done 'a | Aborted int | Undefined

type_synonym 'a hw = "hw_log \<Rightarrow> 'a outcome \<times> hw_log"

definition hw_return :: "'a \<Rightarrow> 'a hw" where
  "hw_return x l = (Done x, l)"

definition hw_undefined :: "'a hw" where
  "hw_undefined l = (Undefined, l)"

definition hw_bind :: "'a hw \<Rightarrow> ('a \<Rightarrow> 'b hw) \<Rightarrow> 'b hw" where
  "hw_bind m f l = (case m l of
      (Done x, l') \<Rightarrow> f x l'
    | (Aborted e, l') \<Rightarrow> (Aborted e, l')
    | (Undefined, l') \<Rightarrow> (Undefined, l'))"

definition hw_then :: "'a hw \<Rightarrow> 'b hw \<Rightarrow> 'b hw" where
  "hw_then m k = hw_bind m (\<lambda>_. k)"

definition esp_call :: "esp_env \<Rightarrow> hw_call \<Rightarrow> int hw" where
  "esp_call E c l = (Done (ret E l c), l @ [c])"

definition esp_error_check :: "int hw \<Rightarrow> unit hw" where
  "esp_error_check m l = (case m l of
      (Done e, l') \<Rightarrow> (if e = ESP_OK then Done () else Aborted e, l')
    | (Aborted e, l') \<Rightarrow> (Aborted e, l')
    | (Undefined, l') \<Rightarrow> (Undefined, l'))"

fun hw_seq :: "'a hw list \<Rightarrow> unit hw" where
  "hw_seq [] = hw_return ()"
| "hw_seq (m # ms) = hw_then m (hw_seq ms)"

lemmas hw_defs [hw_simps] =
  hw_return_def hw_undefined_def hw_bind_def hw_then_def esp_call_def esp_error_check_def

subsection \<open>Logs grow, and a property of every call is checked call by call\<close>

definition emits :: "(hw_call \<Rightarrow> bool) \<Rightarrow> 'a hw \<Rightarrow> bool" where
  "emits P m \<longleftrightarrow> (\<forall>l. \<exists>cs. snd (m l) = l @ cs \<and> list_all P cs)"

lemma emitsD: "emits P m \<Longrightarrow> m l = (r, l') \<Longrightarrow> \<exists>cs. l' = l @ cs \<and> list_all P cs"
  by (auto simp: emits_def dest: spec [of _ l])

lemma emits_return [simp, intro]: "emits P (hw_return x)"
  by (simp add: emits_def hw_simps)

lemma emits_undefined [simp, intro]: "emits P hw_undefined"
  by (simp add: emits_def hw_simps)

lemma emits_call [simp]: "emits P (esp_call E c) \<longleftrightarrow> P c"
  by (auto simp: emits_def hw_simps)

lemma emits_check [intro]: "emits P m \<Longrightarrow> emits P (esp_error_check m)"
  unfolding emits_def esp_error_check_def by (auto split: prod.splits outcome.splits) (metis snd_conv)+

lemma emits_bind [intro]:
  assumes "emits P m" "\<And>x. emits P (f x)"
  shows "emits P (hw_bind m f)"
  unfolding emits_def
proof
  fix l
  obtain r l' where m: "m l = (r, l')" by fastforce
  then obtain cs where cs: "l' = l @ cs" "list_all P cs"
    using emitsD [OF assms(1)] by blast
  show "\<exists>ds. snd (hw_bind m f l) = l @ ds \<and> list_all P ds"
  proof (cases r)
    case (Done x)
    obtain r2 l2 where f: "f x l' = (r2, l2)" by fastforce
    then obtain ds where "l2 = l' @ ds" "list_all P ds"
      using emitsD [OF assms(2)] by blast
    with Done m cs f show ?thesis
      by (intro exI [of _ "cs @ ds"]) (simp add: hw_bind_def)
  qed (use m cs in \<open>auto simp: hw_bind_def\<close>)
qed

lemma emits_then [intro]: "emits P m \<Longrightarrow> emits P k \<Longrightarrow> emits P (hw_then m k)"
  unfolding hw_then_def by (rule emits_bind)

lemma emits_seq [intro]: "(\<And>m. m \<in> set ms \<Longrightarrow> emits P m) \<Longrightarrow> emits P (hw_seq ms)"
  by (induction ms) auto

subsection \<open>Calls that succeed\<close>

definition runs :: "'a hw \<Rightarrow> 'a \<Rightarrow> hw_log \<Rightarrow> bool" where
  "runs m x cs \<longleftrightarrow> (\<forall>l. m l = (Done x, l @ cs))"

definition succeeds :: "esp_env \<Rightarrow> hw_call \<Rightarrow> bool" where
  "succeeds E c \<longleftrightarrow> (\<forall>l. ret E l c = ESP_OK)"

lemma runs_return: "runs (hw_return x) x []"
  by (simp add: runs_def hw_simps)

lemma runs_bind: "runs m x cs \<Longrightarrow> runs (f x) y ds \<Longrightarrow> runs (hw_bind m f) y (cs @ ds)"
  by (simp add: runs_def hw_bind_def)

lemma runs_then: "runs m x cs \<Longrightarrow> runs k y ds \<Longrightarrow> runs (hw_then m k) y (cs @ ds)"
  unfolding hw_then_def by (rule runs_bind)

lemma runs_check: "succeeds E c \<Longrightarrow> runs (esp_error_check (esp_call E c)) () [c]"
  by (simp add: runs_def succeeds_def hw_simps)

lemma runs_call: "succeeds E c \<Longrightarrow> runs (esp_call E c) ESP_OK [c]"
  by (simp add: runs_def succeeds_def hw_simps)

text \<open>The return value of a call whose result the firmware ignores does not matter.\<close>

lemma runs_ignored: "runs k y ds \<Longrightarrow> runs (hw_then (esp_call E c) k) y (c # ds)"
  by (simp add: runs_def hw_simps)

lemma runs_seq:
  "(\<And>m. m \<in> set ms \<Longrightarrow> runs m (fst (r m)) (snd (r m))) \<Longrightarrow>
   runs (hw_seq ms) () (concat (map (\<lambda>m. snd (r m)) ms))"
  by (induction ms) (auto intro: runs_return runs_then)

lemma runs_seq_map:
  "(\<And>x. x \<in> set xs \<Longrightarrow> \<exists>v. runs (f x) v (g x)) \<Longrightarrow>
   runs (hw_seq (map f xs)) () (concat (map g xs))"
  by (induction xs) (auto intro: runs_return runs_then)

end
