(* ===== verification/Motor.thy ===== *)
theory Motor
  imports EspIdf
begin

text \<open>
  The motor driver of \<^verbatim>\<open>components/motor\<close>: four LEDC PWM channels with 10-bit duty.
  \<open>motor_set_speed\<close> clamps a percentage, scales it to the duty range and converts it to
  \<^verbatim>\<open>uint32_t\<close>. The lemmas bound every duty that reaches the PWM unit, and describe
  the power-on sequence and the test ramp as the exact sequence of driver calls.
\<close>

datatype motor_id = MOTOR_FL | MOTOR_FR | MOTOR_BL | MOTOR_BR

fun motor_chan :: "motor_id \<Rightarrow> int" where
  "motor_chan MOTOR_FL = 0"
| "motor_chan MOTOR_FR = 1"
| "motor_chan MOTOR_BL = 2"
| "motor_chan MOTOR_BR = 3"

definition motor_pins :: "int list" where
  "motor_pins = [13, 32, 14, 27]"

definition motor_init :: "esp_env \<Rightarrow> int hw" where
  "motor_init E =
     hw_then (hw_seq (concat (map (\<lambda>pin. [esp_call E (GpioResetPin pin),
                                          esp_call E (GpioSetDirection pin),
                                          esp_call E (GpioSetLevel pin 0)]) motor_pins)))
     (hw_then (esp_error_check (esp_call E (LedcTimerConfig 10 16000)))
     (hw_then (hw_seq (map (\<lambda>i. esp_error_check
                 (esp_call E (LedcChannelConfig (int i) (motor_pins ! i) 0))) [0..<4]))
     (hw_return ESP_OK)))"

definition motor_duty :: "fp \<Rightarrow> int option" where
  "motor_duty speed_percent =
     (let s1 = (if flt speed_percent (flit f32 0) then flit f32 0 else speed_percent);
          s2 = (if flt (flit f32 100) s1 then flit f32 100 else s1)
      in f2u32 (fmul f32 (fdiv f32 s2 (flit f32 100)) (flit f32 1023)))"

definition motor_set_speed :: "esp_env \<Rightarrow> motor_id \<Rightarrow> fp \<Rightarrow> int hw" where
  "motor_set_speed E motor speed_percent =
     (case motor_duty speed_percent of
        None \<Rightarrow> hw_undefined
      | Some duty \<Rightarrow>
          hw_then (esp_error_check (esp_call E (LedcSetDuty (motor_chan motor) duty)))
          (hw_then (esp_error_check (esp_call E (LedcUpdateDuty (motor_chan motor))))
          (hw_return ESP_OK)))"

text \<open>
  The speeds of the ramp \<^verbatim>\<open>for (speed = 0; speed <= 15; speed += 1)\<close>. The fuel bounds the
  number of loop tests; \<open>ramp_speeds_value\<close> shows that 17 tests end the loop.
\<close>

fun ramp_speeds :: "nat \<Rightarrow> fp \<Rightarrow> fp list option" where
  "ramp_speeds 0 speed = None"
| "ramp_speeds (Suc n) speed =
     (if fle speed (flit f32 15)
      then map_option (Cons speed) (ramp_speeds n (fadd f32 speed (flit f32 1)))
      else Some [])"

definition test_one_motor :: "esp_env \<Rightarrow> fp list \<Rightarrow> motor_id \<Rightarrow> unit hw" where
  "test_one_motor E speeds m =
     hw_then (hw_seq (map (\<lambda>s. hw_then (motor_set_speed E m s) (esp_call E (TaskDelay 50))) speeds))
     (hw_then (esp_call E (TaskDelay 500))
     (hw_then (motor_set_speed E m (flit f32 0))
     (hw_then (esp_call E (TaskDelay 500))
     (hw_return ()))))"

definition motor_test_sequence :: "esp_env \<Rightarrow> unit hw" where
  "motor_test_sequence E =
     (case ramp_speeds 17 (flit f32 0) of
        None \<Rightarrow> hw_undefined
      | Some speeds \<Rightarrow>
          hw_seq (map (test_one_motor E speeds) [MOTOR_FL, MOTOR_FR, MOTOR_BL, MOTOR_BR]))"

subsection \<open>Observations on the call log\<close>

text \<open>Every duty passed to the PWM unit fits the 10-bit timer, on one of the four channels.\<close>

fun duty_ok :: "int \<Rightarrow> hw_call \<Rightarrow> bool" where
  "duty_ok mx (LedcSetDuty ch d) = (0 \<le> ch \<and> ch < 4 \<and> 0 \<le> d \<and> d \<le> mx)"
| "duty_ok mx (LedcChannelConfig ch pin d) = (d = 0)"
| "duty_ok mx _ = True"

text \<open>The duty most recently requested for a channel.\<close>

fun last_duty :: "int \<Rightarrow> hw_log \<Rightarrow> int option" where
  "last_duty ch [] = None"
| "last_duty ch (LedcSetDuty c d # l) =
     (case last_duty ch l of None \<Rightarrow> if c = ch then Some d else None | Some e \<Rightarrow> Some e)"
| "last_duty ch (_ # l) = last_duty ch l"

lemma last_duty_append:
  "last_duty ch (l @ k) = (case last_duty ch k of None \<Rightarrow> last_duty ch l | Some d \<Rightarrow> Some d)"
  by (induction l rule: last_duty.induct) (auto split: option.splits)

subsection \<open>The duty of a speed\<close>

lemma motor_consts: "flit f32 100 = FFin False 100" "flit f32 1023 = FFin False 1023"
  by code_simp+

lemma frep_motor: "frep f32 1" "frep f32 100" "frep f32 1023"
  by simp_all

lemma fround_rnd_mag:
  assumes "1 \<le> prec F" "frep F hi" "0 \<le> x" "x \<le> hi"
  shows "\<exists>sg. fround F s x = FFin sg (rnd_mag F x) \<and> fval (fround F s x) = rnd_mag F x"
  using rnd_mag_frep_le [OF assms(1,2) _ assms(4)] assms(3,4)
  by (cases "x = 0") (auto simp: fround_def sval_def not_le)

text \<open>On the clamped range the duty is the truncation of the twice rounded scaled speed.\<close>

lemma motor_duty_scaled:
  assumes "frange 0 100 v"
  shows "f2u32 (fmul f32 (fdiv f32 v (flit f32 100)) (flit f32 1023)) =
         Some \<lfloor>rnd_mag f32 (rnd_mag f32 (fval v / 100) * 1023)\<rfloor>"
    and "0 \<le> rnd_mag f32 (rnd_mag f32 (fval v / 100) * 1023)"
    and "rnd_mag f32 (rnd_mag f32 (fval v / 100) * 1023) \<le> 1023"
proof -
  from assms obtain s m where v: "v = FFin s m" "0 \<le> m" "0 \<le> sval s m" "sval s m \<le> 100"
    by (auto elim!: frangeE)
  let ?q = "rnd_mag f32 (sval s m / 100)"
  have q: "?q \<le> 1" by (rule rnd_mag_frep_le) (use v frep_motor in auto)
  have r: "rnd_mag f32 (?q * 1023) \<le> 1023" by (rule rnd_mag_frep_le) (use q frep_motor in auto)
  show "0 \<le> rnd_mag f32 (rnd_mag f32 (fval v / 100) * 1023)"
    and "rnd_mag f32 (rnd_mag f32 (fval v / 100) * 1023) \<le> 1023"
    using r v by auto
  obtain g where g: "fdiv f32 v (flit f32 100) = FFin g ?q" "sval g ?q = ?q"
    using fround_rnd_mag [of f32 1 "sval s m / 100" "s \<noteq> False"] v frep_motor
    by (auto simp: motor_consts sval_def)
  obtain h where h: "fmul f32 (FFin g ?q) (flit f32 1023) = FFin h (rnd_mag f32 (?q * 1023))"
      "sval h (rnd_mag f32 (?q * 1023)) = rnd_mag f32 (?q * 1023)"
    using fround_rnd_mag [of f32 1023 "?q * 1023" "g \<noteq> False"] q g(2) frep_motor
    by (auto simp: motor_consts sval_def)
  have "\<lfloor>rnd_mag f32 (?q * 1023)\<rfloor> < 2 ^ 32" using r by (simp add: floor_less_iff)
  moreover have "h \<Longrightarrow> rnd_mag f32 (?q * 1023) = 0" using h(2) by (simp add: sval_def)
  ultimately have "f2u32 (FFin h (rnd_mag f32 (?q * 1023))) = Some \<lfloor>rnd_mag f32 (?q * 1023)\<rfloor>"
    by auto
  then show "f2u32 (fmul f32 (fdiv f32 v (flit f32 100)) (flit f32 1023)) =
         Some \<lfloor>rnd_mag f32 (rnd_mag f32 (fval v / 100) * 1023)\<rfloor>"
    unfolding g(1) h(1) by (simp add: v(1))
qed

definition motor_clamped :: "fp \<Rightarrow> fp" where
  "motor_clamped v =
     (let s1 = (if flt v (flit f32 0) then flit f32 0 else v)
      in if flt (flit f32 100) s1 then flit f32 100 else s1)"

lemma motor_duty_clamped:
  "motor_duty v = f2u32 (fmul f32 (fdiv f32 (motor_clamped v) (flit f32 100)) (flit f32 1023))"
  by (simp add: motor_duty_def motor_clamped_def Let_def)

lemma motor_clamped_frange: "fwf v \<Longrightarrow> v \<noteq> FNaN \<Longrightarrow> frange 0 100 (motor_clamped v)"
  by (cases v) (auto simp: motor_clamped_def motor_consts sval_def)

lemma motor_clamped_mono:
  "frange a b v \<Longrightarrow> frange c d w \<Longrightarrow> fval v \<le> fval w \<Longrightarrow>
   fval (motor_clamped v) \<le> fval (motor_clamped w)"
  by (auto elim!: frangeE simp: motor_clamped_def motor_consts sval_def split: if_splits)

lemma motor_duty_bounds:
  assumes "fwf v" "v \<noteq> FNaN"
  obtains d where "motor_duty v = Some d" "0 \<le> d" "d \<le> 1023"
proof -
  note m = motor_duty_scaled [OF motor_clamped_frange [OF assms]]
  show thesis
    by (rule that [OF trans [OF motor_duty_clamped m(1)]])
       (use m(2,3) in \<open>auto simp: le_floor_iff floor_le_iff\<close>)
qed

lemma motor_duty_none: "motor_duty FNaN = None"
  by (simp add: motor_duty_def motor_consts)

text \<open>
  C34. The PWM duty computed by \<open>motor_set_speed\<close> fits the 10-bit timer for every speed that is
  not NaN (infinities and out-of-range percentages included), is 0 at 0 percent and below, full
  at 100 percent and above, and undefined exactly for NaN.
\<close>

theorem motor_duty_correct:
  assumes "fwf v"
  shows "(case motor_duty v of None \<Rightarrow> v = FNaN | Some d \<Rightarrow> v \<noteq> FNaN \<and> 0 \<le> d \<and> d \<le> 1023) \<and>
         (fle v (flit f32 0) \<longrightarrow> motor_duty v = Some 0) \<and>
         (fle (flit f32 100) v \<longrightarrow> motor_duty v = Some 1023)"
proof (cases "v = FNaN")
  case True
  then show ?thesis by (simp add: motor_duty_def motor_consts)
next
  case False
  with assms obtain d where d: "motor_duty v = Some d" "0 \<le> d" "d \<le> 1023"
    by (rule motor_duty_bounds)
  have ends: "motor_duty (flit f32 100) = Some 1023" "motor_duty (FFin False 0) = Some 0"
    "motor_duty (FFin True 0) = Some 0"
    by code_simp+
  have "motor_duty v = Some 0" if "fle v (flit f32 0)"
  proof -
    have "motor_clamped v \<in> {FFin False 0, FFin True 0}"
      using that assms by (cases v) (auto simp: motor_clamped_def motor_consts sval_def split: if_splits)
    then show ?thesis using ends(2,3) by (auto simp: motor_duty_clamped motor_clamped_def motor_consts)
  qed
  moreover have "motor_duty v = Some 1023" if "fle (flit f32 100) v"
  proof -
    have "motor_clamped v = flit f32 100"
      using that assms by (cases v) (auto simp: motor_clamped_def motor_consts sval_def split: if_splits)
    moreover have "motor_clamped (flit f32 100) = flit f32 100"
      by (simp add: motor_clamped_def motor_consts sval_def)
    ultimately show ?thesis using ends(1) by (simp add: motor_duty_clamped)
  qed
  ultimately show ?thesis using d False by simp
qed

theorem motor_duty_correct_witness:
  "motor_duty (FFin False 15) = Some 153 \<and> motor_duty (FInf True) = Some 0 \<and>
   motor_duty (FFin False 250) = Some 1023 \<and> motor_duty FNaN = None"
proof -
  have "motor_duty (FInf True) = Some 0"
    using motor_duty_correct [of "FInf True"] by (simp add: motor_consts)
  moreover have "motor_duty (FFin False 250) = Some 1023"
    using motor_duty_correct [of "FFin False 250"] by (simp add: motor_consts sval_def)
  moreover have "motor_duty (FFin False 15) = Some 153" by code_simp
  moreover have "motor_duty FNaN = None"
    using motor_duty_correct [of FNaN] by (simp split: option.splits)
  ultimately show ?thesis by blast
qed

text \<open>
  More throttle never gives less duty: \<open>motor_set_speed\<close>'s duty is monotone in the speed,
  through both roundings and the truncation.
\<close>

theorem motor_duty_mono:
  assumes "frange a b v" "frange c d w" "fval v \<le> fval w"
  shows "\<exists>m n. motor_duty v = Some m \<and> motor_duty w = Some n \<and> m \<le> n"
proof -
  from assms have nn: "fwf v" "v \<noteq> FNaN" "fwf w" "w \<noteq> FNaN" by (auto elim!: frangeE)
  note v = motor_duty_scaled(1) [OF motor_clamped_frange [OF nn(1,2)]]
    and w = motor_duty_scaled(1) [OF motor_clamped_frange [OF nn(3,4)]]
  have "fval (motor_clamped v) \<le> fval (motor_clamped w)"
    using assms by (rule motor_clamped_mono)
  then have "rnd_mag f32 (fval (motor_clamped v) / 100) \<le> rnd_mag f32 (fval (motor_clamped w) / 100)"
    by (intro rnd_mag_mono) auto
  then have "rnd_mag f32 (rnd_mag f32 (fval (motor_clamped v) / 100) * 1023)
      \<le> rnd_mag f32 (rnd_mag f32 (fval (motor_clamped w) / 100) * 1023)"
    by (intro rnd_mag_mono) auto
  then show ?thesis unfolding motor_duty_clamped v w by (auto intro: floor_mono)
qed

theorem motor_duty_mono_witness:
  "\<exists>m n. motor_duty (FFin False 10) = Some m \<and> motor_duty (FFin False (21 / 2)) = Some n \<and> m \<le> n"
  by (rule motor_duty_mono [where a = 0 and b = 100 and c = 0 and d = 100]) (simp_all add: sval_def)

subsection \<open>The driver calls\<close>

lemma emits_motor_set_speed:
  assumes "\<And>d. motor_duty v = Some d \<Longrightarrow> d \<le> mx"
  shows "emits (duty_ok mx) (motor_set_speed E m v)"
proof (cases "motor_duty v")
  case (Some d)
  have "0 \<le> d"
    using Some by (auto simp: motor_duty_def Let_def elim!: f2u32.elims split: if_splits
        dest: arg_cong [where f = fwf])
  with assms [OF Some] show ?thesis
    unfolding motor_set_speed_def Some option.case
    by (cases m) (auto intro!: emits_then emits_check emits_return)
qed (simp add: motor_set_speed_def)

text \<open>The PWM unit accepts every channel and duty in range.\<close>

definition ledc_ok :: "esp_env \<Rightarrow> bool" where
  "ledc_ok E \<longleftrightarrow> (\<forall>l ch d. 0 \<le> ch \<and> ch < 4 \<and> 0 \<le> d \<and> d \<le> 1023 \<longrightarrow>
     ret E l (LedcSetDuty ch d) = ESP_OK \<and> ret E l (LedcUpdateDuty ch) = ESP_OK)"

lemma motor_chan_bounds [simp]: "0 \<le> motor_chan m" "motor_chan m < 4"
  by (cases m; simp)+

lemma runs_motor_set_speed:
  assumes "ledc_ok E" "motor_duty v = Some d" "0 \<le> d" "d \<le> 1023"
  shows "runs (motor_set_speed E m v) ESP_OK
           [LedcSetDuty (motor_chan m) d, LedcUpdateDuty (motor_chan m)]"
proof -
  have "succeeds E (LedcSetDuty (motor_chan m) d)" "succeeds E (LedcUpdateDuty (motor_chan m))"
    using assms by (auto simp: ledc_ok_def succeeds_def)
  then show ?thesis
    using runs_then [OF runs_check runs_then [OF runs_check runs_return]]
    by (simp add: motor_set_speed_def assms(2))
qed

subsection \<open>Power-on and the test ramp\<close>

definition ramp_duties :: "int list" where
  "ramp_duties = [0, 10, 20, 30, 40, 51, 61, 71, 81, 92, 102, 112, 122, 132, 143, 153]"

definition test_motor_log :: "int \<Rightarrow> hw_log" where
  "test_motor_log ch =
      concat (map (\<lambda>d. [LedcSetDuty ch d, LedcUpdateDuty ch, TaskDelay 50]) ramp_duties) @
      [TaskDelay 500, LedcSetDuty ch 0, LedcUpdateDuty ch, TaskDelay 500]"

definition test_log :: hw_log where
  "test_log = concat (map test_motor_log [0, 1, 2, 3])"

definition ramp_percents :: "rat list" where
  "ramp_percents = [0, 1, 2, 3, 4, 5, 6, 7, 8, 9, 10, 11, 12, 13, 14, 15]"

lemma ramp_speeds_value:
  "ramp_speeds 17 (flit f32 0) = Some (map (FFin False) ramp_percents)"
  by code_simp

lemma motor_duty_0 [simp]: "motor_duty (FFin False 0) = Some 0"
  by code_simp

lemma motor_duty_1_4: 
  "motor_duty (FFin False 1) = Some 10" 
  "motor_duty (FFin False 2) = Some 20" 
  "motor_duty (FFin False 3) = Some 30" 
  "motor_duty (FFin False 4) = Some 40"
  by code_simp+

lemma motor_duty_5_8: 
  "motor_duty (FFin False 5) = Some 51" 
  "motor_duty (FFin False 6) = Some 61" 
  "motor_duty (FFin False 7) = Some 71" 
  "motor_duty (FFin False 8) = Some 81"
  by code_simp+

lemma motor_duty_9_12: 
  "motor_duty (FFin False 9) = Some 92" 
  "motor_duty (FFin False 10) = Some 102" 
  "motor_duty (FFin False 11) = Some 112" 
  "motor_duty (FFin False 12) = Some 122"
  by code_simp+

lemma motor_duty_13_15: 
  "motor_duty (FFin False 13) = Some 132" 
  "motor_duty (FFin False 14) = Some 143" 
  "motor_duty (FFin False 15) = Some 153"
  by code_simp+

lemma ramp_motor_duties:
  "map motor_duty (map (FFin False) ramp_percents) = map Some ramp_duties"
  by (simp add: ramp_percents_def ramp_duties_def motor_duty_1_4 motor_duty_5_8 motor_duty_9_12
      motor_duty_13_15)

lemma runs_ramp:
  assumes "ledc_ok E" "map motor_duty ss = map Some ds" "list_all (\<lambda>d. 0 \<le> d \<and> d \<le> 1023) ds"
  shows "runs (hw_seq (map (\<lambda>s. hw_then (motor_set_speed E m s) (esp_call E (TaskDelay 50))) ss)) ()
    (concat (map (\<lambda>d. [LedcSetDuty (motor_chan m) d, LedcUpdateDuty (motor_chan m), TaskDelay 50]) ds))"
  using assms(2,3)
proof (induction ss arbitrary: ds)
  case Nil
  then show ?case by (simp add: runs_return)
next
  case (Cons s ss)
  then obtain d ds' where ds: "ds = d # ds'" "motor_duty s = Some d" "map motor_duty ss = map Some ds'"
    by (cases ds) auto
  note step = runs_motor_set_speed [OF assms(1) ds(2), of m]
  show ?case
    using Cons.IH [OF ds(3)] Cons.prems(2) step unfolding ds(1)
    by (simp add: runs_def hw_simps)
qed

lemma runs_test_one_motor:
  assumes "ledc_ok E"
  shows "runs (test_one_motor E (map (FFin False) ramp_percents) m) ()
    (test_motor_log (motor_chan m))"
proof -
  have "list_all (\<lambda>d. 0 \<le> d \<and> d \<le> 1023) ramp_duties" by (simp add: ramp_duties_def)
  note r = runs_ramp [OF assms ramp_motor_duties this, of m]
  have z: "runs (motor_set_speed E m (flit f32 0)) ESP_OK
      [LedcSetDuty (motor_chan m) 0, LedcUpdateDuty (motor_chan m)]"
    by (rule runs_motor_set_speed [OF assms]) simp_all
  show ?thesis
    unfolding test_one_motor_def test_motor_log_def
    using runs_then [OF r runs_ignored [OF runs_then [OF z runs_ignored [OF runs_return]]]]
    by simp
qed

lemma runs_motor_test_sequence:
  assumes "ledc_ok E"
  shows "runs (motor_test_sequence E) () test_log"
  unfolding motor_test_sequence_def ramp_speeds_value option.case
  using runs_seq_map [where xs = "[MOTOR_FL, MOTOR_FR, MOTOR_BL, MOTOR_BR]"
      and f = "test_one_motor E (map (FFin False) ramp_percents)"
      and g = "\<lambda>m. test_motor_log (motor_chan m)"]
    runs_test_one_motor [OF assms] by (auto simp: test_log_def)

text \<open>
  The start-up motor test. With a PWM unit that accepts its arguments, \<open>motor_test_sequence\<close>
  returns, and the calls it makes are exactly: per motor, in order FL, FR, BL, BR, a ramp of 16
  steps from 0 to 15 percent (duty 153 of 1023) with 50 ms each, 500 ms at the top, duty 0, and
  500 ms pause. In particular every motor is off at the end.
\<close>

theorem motor_test_sequence_correct:
  assumes "ledc_ok E"
  shows "motor_test_sequence E l = (Done (), l @ test_log) \<and>
         list_all (duty_ok 153) test_log \<and>
         list_all (\<lambda>ch. last_duty ch (l @ test_log) = Some 0) [0, 1, 2, 3]"
proof (intro conjI)
  have "runs (motor_test_sequence E) () test_log" using assms by (rule runs_motor_test_sequence)
  then show "motor_test_sequence E l = (Done (), l @ test_log)" by (simp add: runs_def)
  show "list_all (duty_ok 153) test_log" by code_simp
  show "list_all (\<lambda>ch. last_duty ch (l @ test_log) = Some 0) [0, 1, 2, 3]"
    using last_duty_append [of _ l test_log] by (auto simp: test_log_def test_motor_log_def ramp_duties_def)
qed

theorem motor_test_sequence_witness:
  "motor_test_sequence \<lparr>ret = \<lambda>_ _. ESP_OK, i2c_data = \<lambda>_ _. 0, timer_us = \<lambda>_. 0,
       libm_atan2 = \<lambda>_ _. c0, libm_sqrt = \<lambda>_. c0\<rparr> [] = (Done (), [] @ test_log) \<and>
   length test_log = 4 * 52"
  using motor_test_sequence_correct [of "\<lparr>ret = \<lambda>_ _. ESP_OK, i2c_data = \<lambda>_ _. 0,
       timer_us = \<lambda>_. 0, libm_atan2 = \<lambda>_ _. c0, libm_sqrt = \<lambda>_. c0\<rparr>" "[]"]
  by (simp add: ledc_ok_def test_log_def test_motor_log_def ramp_duties_def)

end
