(* ===== verification/Mpu6050.thy ===== *)
theory Mpu6050
  imports EspIdf
begin

text \<open>
  The inertial sensor driver of \<^verbatim>\<open>components/mpu6050\<close>: the I2C set-up with its early
  returns, and \<open>mpu6050_read_angles\<close>, which decodes 14 big-endian register bytes and fuses
  accelerometer and gyroscope in a complementary filter. The invariant \<open>mpu_inv\<close> bounds the
  filter's memory; every read keeps it, so the angles handed to the controllers are finite.
\<close>

record mpu_state =
  current_angle_pitch :: fp
  current_angle_roll :: fp
  last_read_time :: u64w

record mpu_angles =
  pitch :: fp
  roll :: fp

definition mpu_start :: mpu_state where
  "mpu_start = \<lparr>current_angle_pitch = flit f32 0, current_angle_roll = flit f32 0,
                last_read_time = 0\<rparr>"

text \<open>The three register writes of the initialisation, each ended early by its error.\<close>

definition mpu6050_init :: "esp_env \<Rightarrow> mpu_state \<Rightarrow> (int \<times> mpu_state) hw" where
  "mpu6050_init E st =
     hw_bind (esp_call E (I2cParamConfig 21 22 400000)) (\<lambda>err.
       if err \<noteq> ESP_OK then hw_return (err, st) else
     hw_bind (esp_call E I2cDriverInstall) (\<lambda>err.
       if err \<noteq> ESP_OK then hw_return (err, st) else
     hw_bind (esp_call E (I2cWrite 0x68 [0x6B, 0x00])) (\<lambda>err.
       if err \<noteq> ESP_OK then hw_return (err, st) else
     hw_bind (esp_call E (I2cWrite 0x68 [0x1A, 0x03])) (\<lambda>err.
       if err \<noteq> ESP_OK then hw_return (err, st) else
     hw_bind (esp_call E (I2cWrite 0x68 [0x1B, 0x08])) (\<lambda>err l.
       if err = ESP_OK
       then (Done (err, st\<lparr>last_read_time := timer_us E l\<rparr>), l @ [TimerGetTime])
       else (Done (err, st), l))))))"

definition be16 :: "u8 \<Rightarrow> u8 \<Rightarrow> int" where
  "be16 hi lo = s16 (or (push_bit 8 (uint hi)) (uint lo))"

definition mpu_dt :: "u64w \<Rightarrow> u64w \<Rightarrow> fp" where
  "mpu_dt current_time last_time =
     (let dt = fdiv f32 (fof_int f32 (uint (current_time - last_time))) (flit f32 1000000)
      in if flt (flit f32 (1 / 2)) dt then flit f32 (1 / 100) else dt)"

definition M_PI :: fp where
  "M_PI = flit f64 (314159265358979323846 / 100000000000000000000)"

definition acc_degrees :: "fp \<Rightarrow> fp" where
  "acc_degrees a = fcvt f32 (fdiv f64 (fmul f64 a (flit f32 180)) M_PI)"

definition comp_filter :: "fp \<Rightarrow> fp \<Rightarrow> fp \<Rightarrow> fp \<Rightarrow> fp" where
  "comp_filter angle gyro dt acc =
     (let alpha = flit f32 (98 / 100)
      in fadd f32 (fmul f32 alpha (fadd f32 angle (fmul f32 gyro dt)))
                  (fmul f32 (fsub f32 (flit f32 1) alpha) acc))"

definition mpu_update ::
    "esp_env \<Rightarrow> (nat \<Rightarrow> u8) \<Rightarrow> u64w \<Rightarrow> mpu_state \<Rightarrow> mpu_state" where
  "mpu_update E data current_time st =
     (let dt = mpu_dt current_time (last_read_time st);
          accel_x = be16 (data 0) (data 1);
          accel_y = be16 (data 2) (data 3);
          accel_z = be16 (data 4) (data 5);
          gyro_x_raw = be16 (data 8) (data 9);
          gyro_y_raw = be16 (data 10) (data 11);
          gyro_x = fdiv f32 (fof_int f32 gyro_x_raw) (flit f32 (131 / 2));
          gyro_y = fdiv f32 (fof_int f32 gyro_y_raw) (flit f32 (131 / 2));
          ax = fof_int f32 accel_x; ay = fof_int f32 accel_y; az = fof_int f32 accel_z;
          pitch_acc = acc_degrees (libm_atan2 E ay az);
          roll_acc = acc_degrees (libm_atan2 E (fneg ax)
                       (libm_sqrt E (fadd f32 (fmul f32 ay ay) (fmul f32 az az))))
      in st\<lparr>current_angle_pitch := comp_filter (current_angle_pitch st) gyro_x dt pitch_acc,
            current_angle_roll := comp_filter (current_angle_roll st) gyro_y dt roll_acc,
            last_read_time := current_time\<rparr>)"

definition mpu6050_read_angles ::
    "esp_env \<Rightarrow> mpu_state \<Rightarrow> mpu_angles \<Rightarrow> (int \<times> mpu_state \<times> mpu_angles) hw" where
  "mpu6050_read_angles E st angles =
     hw_bind (esp_call E (I2cWriteRead 0x68 0x3B 14)) (\<lambda>err l.
       if err = ESP_OK
       then (let st' = mpu_update E (i2c_data E l) (timer_us E l) st
             in (Done (err, st', \<lparr>pitch = fneg (current_angle_roll st'),
                                  roll = fneg (current_angle_pitch st')\<rparr>), l @ [TimerGetTime]))
       else (Done (err, st, angles), l))"

subsection \<open>Decoding the registers\<close>

definition be16_hi :: "int \<Rightarrow> u8" where
  "be16_hi v = word_of_int (v div 256)"

definition be16_lo :: "int \<Rightarrow> u8" where
  "be16_lo v = word_of_int v"

lemma be16_sum: "be16 hi lo = s16 (256 * uint hi + uint lo)"
proof -
  have "or (push_bit 8 (uint hi)) (uint lo) = push_bit 8 (uint hi) + uint lo"
    by (rule disjunctive_add [symmetric])
       (use uint_bounded [of lo] in \<open>auto simp: bit_push_bit_iff bit_uint_iff\<close>)
  then show ?thesis by (simp add: be16_def push_bit_eq_mult mult.commute)
qed

text \<open>
  The sensor registers are decoded as big-endian two's complement: splitting any 16-bit
  value into its high and low byte and assembling it as \<open>mpu6050_read_angles\<close> does gives the
  value back, and every byte pair decodes into the 16-bit range.
\<close>

theorem be16_roundtrip:
  "(- 32768 \<le> v \<and> v < 32768 \<longrightarrow> be16 (be16_hi v) (be16_lo v) = v) \<and>
   - 32768 \<le> be16 hi lo \<and> be16 hi lo < 32768"
proof (intro conjI impI)
  assume v: "- 32768 \<le> v \<and> v < 32768"
  have u: "uint (word_of_int k :: u8) = k mod 256" for k
    by (simp add: uint_word_of_int)
  have "256 * ((v div 256) mod 256) + v mod 256 = v mod 65536"
    using mod_mult2_eq' [of v 256 256] by (simp add: mod_mult2_eq zmod_zmult2_eq)
  then have "be16 (be16_hi v) (be16_lo v) = s16 v"
    by (simp add: be16_sum be16_hi_def be16_lo_def u s16_def)
  also have "\<dots> = v"
    using v by (simp add: s16_id)
  finally show "be16 (be16_hi v) (be16_lo v) = v" .
qed (use s16_bounds in \<open>auto simp: be16_def\<close>)

theorem be16_roundtrip_witness:
  "be16 (be16_hi (- 2)) (be16_lo (- 2)) = - 2 \<and> be16 0xff 0xfe = - 2"
  using be16_roundtrip [of "- 2" 0 0] by (simp add: be16_def s16_def Let_def)

subsection \<open>The filter stays bounded\<close>

text \<open>
  What the driver relies on of libm: \<open>atan2\<close> of two numbers lies in \<open>[-\<pi>, \<pi>]\<close>, and the
  square root of a non-negative number is a number.
\<close>

definition libm_ok :: "esp_env \<Rightarrow> bool" where
  "libm_ok E \<longleftrightarrow>
     (\<forall>y x. y \<noteq> FNaN \<and> x \<noteq> FNaN \<longrightarrow> frange (- fval M_PI) (fval M_PI) (libm_atan2 E y x)) \<and>
     (\<forall>x. fle (FFin False 0) x \<longrightarrow> libm_sqrt E x \<noteq> FNaN)"

definition mpu_inv :: "mpu_state \<Rightarrow> bool" where
  "mpu_inv st \<longleftrightarrow> frange (- 32768) 32768 (current_angle_pitch st) \<and>
                  frange (- 32768) 32768 (current_angle_roll st)"

lemma mpu_inv_start: "mpu_inv mpu_start"
  by (simp add: mpu_inv_def mpu_start_def)

lemmas frep_mpu [simp] =
  frep_f32_pow [of 30, simplified] frep_f32_pow [of 31, simplified] frep_f32_pow [of 64, simplified]

lemma mpu_consts:
  "flit f32 (1 / 2) = FFin False (1 / 2)" "flit f32 1 = FFin False 1" "flit f32 180 = FFin False 180"
  by code_simp+

lemma mpu_const_ranges:
  "frange 0 (1 / 2) (flit f32 (1 / 100))" "frange 1 1000000 (flit f32 1000000)"
  "frange 65 66 (flit f32 (131 / 2))" "frange 3 4 M_PI"
  "frange (15 / 16) (63 / 64) (flit f32 (98 / 100))"
  unfolding M_PI_def by (intro flit_frange; simp)+

lemma frange_fval: "frange lo hi v \<Longrightarrow> lo \<le> fval v \<and> fval v \<le> hi"
  by (cases v) auto

lemma fval_M_PI: "fval M_PI \<le> 4"
  using frange_fval [OF mpu_const_ranges(4)] by simp

lemma one_minus_alpha: "frange (- (1 / 16)) (1 / 16) (fsub f32 (flit f32 1) (flit f32 (98 / 100)))"
  by (rule fsub_frange [OF _ _ _ _ mpu_const_ranges(5), of _ _ _ 1 1]) (simp_all add: mpu_consts sval_def)

lemma mpu_dt_frange: "frange 0 (1 / 2) (mpu_dt t u)"
proof -
  let ?q = "fdiv f32 (fof_int f32 (uint (t - u))) (flit f32 1000000)"
  have "0 \<le> uint (t - u)" "uint (t - u) \<le> 18446744073709551616"
    using uint_bounded [of "t - u"] by auto
  then have "(of_int (uint (t - u)) :: rat) \<le> of_int 18446744073709551616" "0 \<le> (of_int (uint (t - u)) :: rat)"
    by (simp_all only: of_int_le_iff of_int_0_le_iff)
  then have "frange 0 18446744073709551616 (fof_int f32 (uint (t - u)))"
    by (intro fof_int_frange) simp_all
  then have "frange 0 18446744073709551616 ?q"
    by (rule fdiv_frange_nonneg [OF _ _ _ mpu_const_ranges(2), rotated 2]) simp_all
  then show ?thesis
    using mpu_const_ranges(1) by (auto simp: mpu_dt_def mpu_consts(1) sval_def elim!: frangeE)
qed

lemma acc_degrees_frange:
  assumes "frange (- fval M_PI) (fval M_PI) a"
  shows "frange (- 512) 512 (acc_degrees a)"
proof -
  have a: "frange (- 4) 4 a" using assms fval_M_PI by (auto intro: frange_weaken)
  have "frange (- 180) 180 (flit f32 180)" by (simp add: mpu_consts(3) sval_def)
  note m = fmul_frange_abs [OF _ _ a this, of f64 1024]
  have "frange (- 512) 512 (fdiv f64 (fmul f64 a (flit f32 180)) M_PI)"
    by (rule fdiv_frange_abs [OF _ _ m mpu_const_ranges(4)]) simp_all
  then show ?thesis unfolding acc_degrees_def by (intro fcvt_frange) simp_all
qed

lemma comp_filter_frange:
  assumes "frange (- 32768) 32768 angle" "frange (- 512) 512 gyro" "frange 0 (1 / 2) dt"
    "frange (- 512) 512 acc"
  shows "frange (- 32768) 32768 (comp_filter angle gyro dt acc)"
proof -
  have "frange (- (1 / 2)) (1 / 2) dt" using assms(3) by (auto intro: frange_weaken)
  then have "frange (- 256) 256 (fmul f32 gyro dt)"
    by (rule fmul_frange_abs [OF _ _ assms(2), rotated 2]) simp_all
  then have "frange (- 33024) 33024 (fadd f32 angle (fmul f32 gyro dt))"
    by (rule fadd_frange [OF _ _ _ assms(1), rotated 3]) simp_all
  then have l: "frange (- 32508) 32508 (fmul f32 (flit f32 (98 / 100)) (fadd f32 angle (fmul f32 gyro dt)))"
    by (rule fmul_frange_abs [OF _ _ frange_weaken [OF mpu_const_ranges(5), of "- (63 / 64)" "63 / 64"],
          rotated 4]) simp_all
  have r: "frange (- 32) 32 (fmul f32 (fsub f32 (flit f32 1) (flit f32 (98 / 100))) acc)"
    by (rule fmul_frange_abs [OF _ _ one_minus_alpha assms(4)]) simp_all
  show ?thesis
    unfolding comp_filter_def Let_def by (rule fadd_frange [OF _ _ _ l r]) simp_all
qed

lemma be16_frange: "frange (- 32768) 32768 (fof_int f32 (be16 hi lo))"
proof -
  have "- 32768 \<le> be16 hi lo" "be16 hi lo \<le> 32768" using s16_bounds by (auto simp: be16_def less_imp_le)
  then have "(of_int (- 32768) :: rat) \<le> of_int (be16 hi lo)" "(of_int (be16 hi lo) :: rat) \<le> of_int 32768"
    by (simp_all only: of_int_le_iff)
  then show ?thesis by (intro fof_int_frange) simp_all
qed

lemma gyro_frange: "frange (- 512) 512 (fdiv f32 (fof_int f32 (be16 hi lo)) (flit f32 (131 / 2)))"
  by (rule fdiv_frange_abs [OF _ _ be16_frange mpu_const_ranges(3)]) simp_all

lemma sumsq_nonneg: "fle (FFin False 0)
  (fadd f32 (fmul f32 (fof_int f32 (be16 a b)) (fof_int f32 (be16 a b)))
            (fmul f32 (fof_int f32 (be16 c d)) (fof_int f32 (be16 c d))))"
proof -
  have sq: "frange 0 1073741824 (fmul f32 v v)" if "frange (- 32768) 32768 v" for v
  proof -
    from that obtain s m where v: "v = FFin s m" "- 32768 \<le> sval s m" "sval s m \<le> 32768"
      by (auto elim!: frangeE)
    then have "\<bar>sval s m\<bar> * \<bar>sval s m\<bar> \<le> 32768 * 32768" by (intro mult_mono) auto
    then show ?thesis unfolding v(1) fmul.simps by (intro fround_frange) auto
  qed
  have "frange 0 2147483648
    (fadd f32 (fmul f32 (fof_int f32 (be16 a b)) (fof_int f32 (be16 a b)))
            (fmul f32 (fof_int f32 (be16 c d)) (fof_int f32 (be16 c d))))"
    by (rule fadd_frange [OF _ _ _ sq sq]) (simp_all add: be16_frange)
  then show ?thesis by (auto elim!: frangeE)
qed

lemma mpu_update_inv:
  assumes "libm_ok E" "mpu_inv st"
  shows "mpu_inv (mpu_update E data t st)"
proof -
  have nn: "fof_int f32 (be16 h l) \<noteq> FNaN" "fneg (fof_int f32 (be16 h l)) \<noteq> FNaN" for h l
    using be16_frange [of h l] by (auto elim!: frangeE)
  have at: "frange (- fval M_PI) (fval M_PI) (libm_atan2 E y x)" if "y \<noteq> FNaN" "x \<noteq> FNaN" for y x
    using assms(1) that by (simp add: libm_ok_def)
  have sq: "libm_sqrt E x \<noteq> FNaN" if "fle (FFin False 0) x" for x
    using assms(1) that by (simp add: libm_ok_def)
  show ?thesis
    using assms(2) unfolding mpu_inv_def mpu_update_def Let_def
    by (simp add: comp_filter_frange acc_degrees_frange gyro_frange mpu_dt_frange at sq nn sumsq_nonneg)
qed

end
