(* ===== verification/Gamepad.thy ===== *)
theory Gamepad
  imports Prelude
begin

text \<open>
  The virtual gamepad of bluepad32 (\<^verbatim>\<open>controller/uni_gamepad.c\<close> and the controller headers):
  the gamepad struct every parser fills, the controller union with its classes, the button,
  axis and pedal remapping, and the table of model names. The lemmas show that the Switch
  layout is an involution, that remapping with the default custom mapping only drops what the
  struct of mappings does not name, and how the four members of the union overlap.
\<close>

subsection \<open>Constants\<close>

abbreviation (input) "DPAD_UP \<equiv> (1 :: u8)"
abbreviation (input) "DPAD_DOWN \<equiv> (2 :: u8)"
abbreviation (input) "DPAD_RIGHT \<equiv> (4 :: u8)"
abbreviation (input) "DPAD_LEFT \<equiv> (8 :: u8)"

abbreviation (input) "BUTTON_A \<equiv> (0x001 :: u16)"
abbreviation (input) "BUTTON_B \<equiv> (0x002 :: u16)"
abbreviation (input) "BUTTON_X \<equiv> (0x004 :: u16)"
abbreviation (input) "BUTTON_Y \<equiv> (0x008 :: u16)"
abbreviation (input) "BUTTON_SHOULDER_L \<equiv> (0x010 :: u16)"
abbreviation (input) "BUTTON_SHOULDER_R \<equiv> (0x020 :: u16)"
abbreviation (input) "BUTTON_TRIGGER_L \<equiv> (0x040 :: u16)"
abbreviation (input) "BUTTON_TRIGGER_R \<equiv> (0x080 :: u16)"
abbreviation (input) "BUTTON_THUMB_L \<equiv> (0x100 :: u16)"
abbreviation (input) "BUTTON_THUMB_R \<equiv> (0x200 :: u16)"

abbreviation (input) "MISC_BUTTON_SYSTEM \<equiv> (1 :: u8)"
abbreviation (input) "MISC_BUTTON_SELECT \<equiv> (2 :: u8)"
abbreviation (input) "MISC_BUTTON_START \<equiv> (4 :: u8)"
abbreviation (input) "MISC_BUTTON_CAPTURE \<equiv> (8 :: u8)"

definition AXIS_NORMALIZE_RANGE :: int where "AXIS_NORMALIZE_RANGE = 1024"
definition AXIS_THRESHOLD :: int where "AXIS_THRESHOLD = 1024 div 8"

subsection \<open>The gamepad and the other controllers\<close>

type_synonym vec3 = "int \<times> int \<times> int"

record uni_gamepad =
  dpad :: u8
  axis_x :: int
  axis_y :: int
  axis_rx :: int
  axis_ry :: int
  brake :: int
  throttle :: int
  buttons :: u16
  misc_buttons :: u8
  gyro :: vec3
  accel :: vec3

definition gamepad0 :: uni_gamepad where
  "gamepad0 = \<lparr>dpad = 0, axis_x = 0, axis_y = 0, axis_rx = 0, axis_ry = 0, brake = 0,
     throttle = 0, buttons = 0, misc_buttons = 0, gyro = (0, 0, 0), accel = (0, 0, 0)\<rparr>"

record uni_mouse =
  delta_x :: int
  delta_y :: int
  m_buttons :: u16
  scroll_wheel :: "8 word"
  m_misc_buttons :: u8

record uni_balance_board =
  bb_tr :: u16
  bb_br :: u16
  bb_tl :: u16
  bb_bl :: u16
  temperature :: int

record uni_keyboard =
  modifiers :: u8
  pressed_keys :: "u8 list"

datatype uni_controller_data =
    Class_none uni_gamepad
  | Class_gamepad uni_gamepad
  | Class_mouse uni_mouse
  | Class_keyboard uni_keyboard
  | Class_balance_board uni_balance_board

record uni_controller =
  ctl_data :: uni_controller_data
  battery :: u8

text \<open>
  The members share their storage. \<open>union_axes\<close> is what a reader of the \<^verbatim>\<open>gamepad\<close> member sees
  in \<open>(axis_x, axis_y, axis_rx, axis_ry)\<close>, the 32-bit little-endian words at offsets 4, 8, 12
  and 16, when another member was stored into zeroed memory: a mouse has \<^verbatim>\<open>delta_y\<close> at 4 and
  \<^verbatim>\<open>buttons\<close>, \<^verbatim>\<open>scroll_wheel\<close> and \<^verbatim>\<open>misc_buttons\<close> at 8, 10 and 11; a keyboard its ten keys at
  1 to 10; a balance board \<^verbatim>\<open>tl\<close> and \<^verbatim>\<open>bl\<close> at 4 and 6 and the temperature at 8.
\<close>

definition le32 :: "u8 \<Rightarrow> u8 \<Rightarrow> u8 \<Rightarrow> u8 \<Rightarrow> int" where
  "le32 a b c d = s32 (uint a + 2 ^ 8 * uint b + 2 ^ 16 * uint c + 2 ^ 24 * uint d)"

definition key_at :: "uni_keyboard \<Rightarrow> nat \<Rightarrow> u8" where
  "key_at kb i = (if i < length (pressed_keys kb) then pressed_keys kb ! i else 0)"

fun union_axes :: "uni_controller_data \<Rightarrow> int \<times> int \<times> int \<times> int" where
  "union_axes (Class_none gp) = (axis_x gp, axis_y gp, axis_rx gp, axis_ry gp)"
| "union_axes (Class_gamepad gp) = (axis_x gp, axis_y gp, axis_rx gp, axis_ry gp)"
| "union_axes (Class_mouse m) =
     (delta_y m,
      s32 (uint (m_buttons m) + 2 ^ 16 * uint (scroll_wheel m) + 2 ^ 24 * uint (m_misc_buttons m)),
      0, 0)"
| "union_axes (Class_keyboard kb) =
     (le32 (key_at kb 3) (key_at kb 4) (key_at kb 5) (key_at kb 6),
      le32 (key_at kb 7) (key_at kb 8) (key_at kb 9) 0, 0, 0)"
| "union_axes (Class_balance_board bb) =
     (s32 (uint (bb_tl bb) + 2 ^ 16 * uint (bb_bl bb)), temperature bb, 0, 0)"

subsection \<open>Remapping\<close>

datatype mappings_type = TYPE_XBOX | TYPE_SWITCH | TYPE_CUSTOM

record uni_gamepad_mappings =
  map_dpad_up :: u8
  map_dpad_down :: u8
  map_dpad_left :: u8
  map_dpad_right :: u8
  map_button_a :: u8
  map_button_b :: u8
  map_button_x :: u8
  map_button_y :: u8
  map_button_shoulder_l :: u8
  map_button_shoulder_r :: u8
  map_button_trigger_l :: u8
  map_button_trigger_r :: u8
  map_button_thumb_l :: u8
  map_button_thumb_r :: u8
  map_misc_button_select :: u8
  map_misc_button_start :: u8
  map_misc_button_system :: u8
  map_misc_button_capture :: u8
  map_axis_x :: u8
  map_axis_y :: u8
  map_axis_rx :: u8
  map_axis_ry :: u8
  axis_x_inverted :: u8
  axis_y_inverted :: u8
  axis_rx_inverted :: u8
  axis_ry_inverted :: u8
  map_brake :: u8
  map_throttle :: u8

definition GAMEPAD_DEFAULT_MAPPINGS :: uni_gamepad_mappings where
  "GAMEPAD_DEFAULT_MAPPINGS = \<lparr>
     map_dpad_up = 0, map_dpad_down = 1, map_dpad_left = 3, map_dpad_right = 2,
     map_button_a = 0, map_button_b = 1, map_button_x = 2, map_button_y = 3,
     map_button_shoulder_l = 4, map_button_shoulder_r = 5,
     map_button_trigger_l = 6, map_button_trigger_r = 7,
     map_button_thumb_l = 8, map_button_thumb_r = 9,
     map_misc_button_select = 1, map_misc_button_start = 2,
     map_misc_button_system = 0, map_misc_button_capture = 3,
     map_axis_x = 0, map_axis_y = 1, map_axis_rx = 2, map_axis_ry = 3,
     axis_x_inverted = 0, axis_y_inverted = 0, axis_rx_inverted = 0, axis_ry_inverted = 0,
     map_brake = 0, map_throttle = 1\<rparr>"

text \<open>The two static variables of the file.\<close>

record gamepad_statics =
  gp_map :: uni_gamepad_mappings
  gp_mappings_type :: mappings_type

definition get_mappings_value_for_axis :: "u8 \<Rightarrow> uni_gamepad \<Rightarrow> int" where
  "get_mappings_value_for_axis axis_type gp =
     (if axis_type = 0 then axis_x gp
      else if axis_type = 1 then axis_y gp
      else if axis_type = 2 then axis_rx gp
      else if axis_type = 3 then axis_ry gp
      else - 1)"

definition get_mappings_value_for_pedal :: "u8 \<Rightarrow> uni_gamepad \<Rightarrow> int" where
  "get_mappings_value_for_pedal pedal_type gp =
     (if pedal_type = 1 then throttle gp
      else if pedal_type = 0 then brake gp
      else - 1)"

text \<open>\<^verbatim>\<open>BIT(nr)\<close> is a shift of a 32-bit \<^verbatim>\<open>unsigned long\<close>: undefined from 32 on.\<close>

definition BIT :: "u8 \<Rightarrow> u32w option" where
  "BIT nr = (if unat nr < 32 then Some (push_bit (unat nr) 1) else None)"

text \<open>
  One pass of \<^verbatim>\<open>if (old & mask) new |= BIT(target)\<close> over the listed masks and targets, in
  order; the assignment truncates to the width of the field.
\<close>

fun remap_bits :: "('a::len word \<times> u8) list \<Rightarrow> 'a word \<Rightarrow> 'a word \<Rightarrow> 'a word option" where
  "remap_bits [] old new = Some new"
| "remap_bits ((msk, target) # rest) old new =
     (if old AND msk \<noteq> 0
      then (case BIT target of None \<Rightarrow> None | Some b \<Rightarrow> remap_bits rest old (new OR ucast b))
      else remap_bits rest old new)"

text \<open>Reading the source axis and negating it, a signed operation that can overflow.\<close>

definition remap_axis :: "u8 \<Rightarrow> u8 \<Rightarrow> uni_gamepad \<Rightarrow> int option" where
  "remap_axis axis inverted gp =
     (let v = get_mappings_value_for_axis axis gp
      in if inverted \<noteq> 0 then chk32 (- v) else Some v)"

definition remap_switch :: "uni_gamepad \<Rightarrow> uni_gamepad" where
  "remap_switch gp =
     (let b0 = buttons gp AND NOT (BUTTON_A OR BUTTON_B OR BUTTON_X OR BUTTON_Y);
          b1 = (if buttons gp AND BUTTON_A \<noteq> 0 then b0 OR BUTTON_B else b0);
          b2 = (if buttons gp AND BUTTON_B \<noteq> 0 then b1 OR BUTTON_A else b1);
          b3 = (if buttons gp AND BUTTON_X \<noteq> 0 then b2 OR BUTTON_Y else b2);
          b4 = (if buttons gp AND BUTTON_Y \<noteq> 0 then b3 OR BUTTON_X else b3)
      in gp\<lparr>buttons := b4\<rparr>)"

definition button_targets :: "uni_gamepad_mappings \<Rightarrow> (u16 \<times> u8) list" where
  "button_targets m =
     [(BUTTON_A, map_button_a m), (BUTTON_B, map_button_b m),
      (BUTTON_X, map_button_x m), (BUTTON_Y, map_button_y m),
      (BUTTON_SHOULDER_L, map_button_shoulder_l m), (BUTTON_SHOULDER_R, map_button_shoulder_r m),
      (BUTTON_TRIGGER_L, map_button_trigger_l m), (BUTTON_TRIGGER_R, map_button_trigger_r m),
      (BUTTON_THUMB_L, map_button_thumb_l m), (BUTTON_THUMB_R, map_button_thumb_r m)]"

definition dpad_targets :: "uni_gamepad_mappings \<Rightarrow> (u8 \<times> u8) list" where
  "dpad_targets m =
     [(DPAD_UP, map_dpad_up m), (DPAD_DOWN, map_dpad_down m),
      (DPAD_LEFT, map_dpad_left m), (DPAD_RIGHT, map_dpad_right m)]"

definition misc_targets :: "uni_gamepad_mappings \<Rightarrow> (u8 \<times> u8) list" where
  "misc_targets m =
     [(MISC_BUTTON_SYSTEM, map_misc_button_system m), (MISC_BUTTON_SELECT, map_misc_button_select m),
      (MISC_BUTTON_START, map_misc_button_start m), (MISC_BUTTON_CAPTURE, map_misc_button_capture m)]"

definition remap_custom :: "uni_gamepad_mappings \<Rightarrow> uni_gamepad \<Rightarrow> uni_gamepad option" where
  "remap_custom m gp = do {
     bs \<leftarrow> remap_bits (button_targets m) (buttons gp) 0;
     dp \<leftarrow> remap_bits (dpad_targets m) (dpad gp) 0;
     ms \<leftarrow> remap_bits (misc_targets m) (misc_buttons gp) 0;
     x \<leftarrow> remap_axis (map_axis_x m) (axis_x_inverted m) gp;
     y \<leftarrow> remap_axis (map_axis_y m) (axis_y_inverted m) gp;
     rx \<leftarrow> remap_axis (map_axis_rx m) (axis_rx_inverted m) gp;
     ry \<leftarrow> remap_axis (map_axis_ry m) (axis_ry_inverted m) gp;
     Some (gamepad0\<lparr>buttons := bs, dpad := dp, misc_buttons := ms,
       axis_x := x, axis_y := y, axis_rx := rx, axis_ry := ry,
       brake := get_mappings_value_for_pedal (map_brake m) gp,
       throttle := get_mappings_value_for_pedal (map_throttle m) gp\<rparr>)
   }"

definition uni_gamepad_remap :: "gamepad_statics \<Rightarrow> uni_gamepad \<Rightarrow> uni_gamepad option" where
  "uni_gamepad_remap st gp =
     (case gp_mappings_type st of
        TYPE_XBOX \<Rightarrow> Some gp
      | TYPE_SWITCH \<Rightarrow> Some (remap_switch gp)
      | TYPE_CUSTOM \<Rightarrow> remap_custom (gp_map st) gp)"

definition uni_gamepad_set_mappings :: "uni_gamepad_mappings \<Rightarrow> gamepad_statics \<Rightarrow> gamepad_statics" where
  "uni_gamepad_set_mappings m st = st\<lparr>gp_mappings_type := TYPE_CUSTOM, gp_map := m\<rparr>"

definition uni_gamepad_set_mappings_type :: "mappings_type \<Rightarrow> gamepad_statics \<Rightarrow> gamepad_statics" where
  "uni_gamepad_set_mappings_type t st = st\<lparr>gp_mappings_type := t\<rparr>"

definition uni_gamepad_get_mappings_type :: "gamepad_statics \<Rightarrow> mappings_type" where
  "uni_gamepad_get_mappings_type st = gp_mappings_type st"

subsection \<open>Model names\<close>

definition controller_names :: "(int \<times> string) list" where
  "controller_names =
     [(1, ''Unknown Steam''), (2, ''Steam''), (3, ''Steam V2''),
      (31, ''XBox 360''), (32, ''XBox One''), (33, ''DualShock 3''), (34, ''DualShock 4''),
      (35, ''Wii''), (36, ''Apple''), (37, ''Android''), (38, ''Switch Pro''),
      (39, ''Switch JoyCon Left''), (40, ''Switch JoyCon Right''), (41, ''Switch JoyCon Pair''),
      (42, ''Switch Input Only''), (43, ''Mobile Touch''), (44, ''XInput Switch''), (45, ''DualSense''),
      (50, ''iCade''), (51, ''Smart TV Remote''), (52, ''8BitDo''), (53, ''Generic''),
      (54, ''Nimbus''), (55, ''OUYA''), (56, ''PS Move''), (57, ''Atari Joystick''),
      (400, ''Keyboard''), (800, ''Mouse'')]"

definition uni_gamepad_get_model_name :: "int \<Rightarrow> string" where
  "uni_gamepad_get_model_name type =
     (case map_of controller_names type of Some n \<Rightarrow> n | None \<Rightarrow> ''Unknown'')"

subsection \<open>The Switch layout\<close>

definition swap_ab_xy :: "nat \<Rightarrow> nat" where
  "swap_ab_xy n = (if n = 0 then 1 else if n = 1 then 0 else if n = 2 then 3 else if n = 3 then 2 else n)"

lemma bit_remap_switch:
  "bit (buttons (remap_switch gp)) n \<longleftrightarrow> bit (buttons gp) (swap_ab_xy n)"
proof (cases "n < 16")
  case True
  then have "n \<in> {0, 1, 2, 3, 4, 5, 6, 7, 8, 9, 10, 11, 12, 13, 14, 15}"
    by (simp only: insert_iff empty_iff) presburger
  then show ?thesis
    unfolding remap_switch_def swap_ab_xy_def Let_def and_flag
    by (elim insertE emptyE) (simp_all add: bit_and_iff bit_or_iff)
next
  case False
  then show ?thesis
    by (auto simp: swap_ab_xy_def dest: bit_imp_le_length)
qed

text \<open>
  The Switch layout of \<open>uni_gamepad_remap\<close> exchanges A with B and X with Y and nothing else:
  applying it twice gives back every gamepad, and it keeps all other fields.
\<close>

theorem remap_switch_involution:
  "remap_switch (remap_switch gp) = gp \<and>
   (\<forall>n. bit (buttons (remap_switch gp)) n = bit (buttons gp) (swap_ab_xy n)) \<and>
   remap_switch gp = gp\<lparr>buttons := buttons (remap_switch gp)\<rparr>"
proof (intro conjI allI)
  have "buttons (remap_switch (remap_switch gp)) = buttons gp"
    by (rule bit_eqI) (simp add: bit_remap_switch swap_ab_xy_def)
  moreover have "remap_switch g = g\<lparr>buttons := buttons (remap_switch g)\<rparr>" for g
    by (simp add: remap_switch_def Let_def)
  ultimately show "remap_switch (remap_switch gp) = gp"
    by (metis uni_gamepad.surjective uni_gamepad.update_convs(8) uni_gamepad.select_convs(8))
  show "remap_switch gp = gp\<lparr>buttons := buttons (remap_switch gp)\<rparr>"
    by (simp add: remap_switch_def Let_def)
qed (rule bit_remap_switch)

subsection \<open>Custom mappings\<close>

lemma BIT_small: "unat nr < 32 \<Longrightarrow> BIT nr = Some (push_bit (unat nr) 1)"
  by (simp add: BIT_def)

text \<open>A mapping whose targets are bit numbers of a 32-bit word, as the header's enums are.\<close>

definition mappings_ok :: "uni_gamepad_mappings \<Rightarrow> bool" where
  "mappings_ok m \<longleftrightarrow> list_all (\<lambda>t. unat t < 32)
     [map_dpad_up m, map_dpad_down m, map_dpad_left m, map_dpad_right m,
      map_button_a m, map_button_b m, map_button_x m, map_button_y m,
      map_button_shoulder_l m, map_button_shoulder_r m, map_button_trigger_l m,
      map_button_trigger_r m, map_button_thumb_l m, map_button_thumb_r m,
      map_misc_button_select m, map_misc_button_start m, map_misc_button_system m,
      map_misc_button_capture m]"

definition axes_in :: "int \<Rightarrow> uni_gamepad \<Rightarrow> bool" where
  "axes_in r gp \<longleftrightarrow> list_all (\<lambda>v. - r \<le> v \<and> v \<le> r) [axis_x gp, axis_y gp, axis_rx gp, axis_ry gp]"

lemma remap_bits_Some:
  "list_all (\<lambda>(_, t). unat t < 32) ts \<Longrightarrow> \<exists>w. remap_bits ts old new = Some w"
  by (induction ts arbitrary: new) (auto simp: BIT_small)

lemma remap_axis_Some:
  assumes "axes_in r gp" "1 \<le> r" "r < 2 ^ 31"
  shows "\<exists>v. remap_axis a i gp = Some v \<and> - r \<le> v \<and> v \<le> r"
  using assms by (auto simp: remap_axis_def Let_def get_mappings_value_for_axis_def axes_in_def chk32_def s32_ok_def)

text \<open>
  A custom mapping whose targets are bit numbers below 32 never runs into undefined
  behaviour, whatever the axis selectors and inversions are, and the remapped axes stay within
  the symmetric range of the input axes.
\<close>

theorem remap_custom_total:
  assumes "mappings_ok m" "axes_in r gp" "1 \<le> r" "r < 2 ^ 31"
  shows "\<exists>gp'. remap_custom m gp = Some gp' \<and> axes_in r gp'"
proof -
  note ax = remap_axis_Some [OF assms(2-4)]
  obtain x where x: "remap_axis (map_axis_x m) (axis_x_inverted m) gp = Some x" "- r \<le> x" "x \<le> r"
    using ax by blast
  obtain y where y: "remap_axis (map_axis_y m) (axis_y_inverted m) gp = Some y" "- r \<le> y" "y \<le> r"
    using ax by blast
  obtain rx where rx: "remap_axis (map_axis_rx m) (axis_rx_inverted m) gp = Some rx" "- r \<le> rx" "rx \<le> r"
    using ax by blast
  obtain ry where ry: "remap_axis (map_axis_ry m) (axis_ry_inverted m) gp = Some ry" "- r \<le> ry" "ry \<le> r"
    using ax by blast
  obtain bs where bs: "remap_bits (button_targets m) (buttons gp) 0 = Some bs"
    using remap_bits_Some [of "button_targets m"] assms(1)
    by (fastforce simp: mappings_ok_def button_targets_def)
  obtain dp where dp: "remap_bits (dpad_targets m) (dpad gp) 0 = Some dp"
    using remap_bits_Some [of "dpad_targets m"] assms(1)
    by (fastforce simp: mappings_ok_def dpad_targets_def)
  obtain ms where ms: "remap_bits (misc_targets m) (misc_buttons gp) 0 = Some ms"
    using remap_bits_Some [of "misc_targets m"] assms(1)
    by (fastforce simp: mappings_ok_def misc_targets_def)
  show ?thesis
    unfolding remap_custom_def bs dp ms x(1) y(1) rx(1) ry(1)
    using x y rx ry by (simp add: axes_in_def)
qed

theorem remap_custom_total_witness:
  "\<exists>gp'. remap_custom (GAMEPAD_DEFAULT_MAPPINGS\<lparr>map_button_a := 1, axis_y_inverted := 1\<rparr>)
     (gamepad0\<lparr>axis_y := - 512, buttons := 1\<rparr>) = Some gp' \<and> axes_in 512 gp'"
  by (rule remap_custom_total)
     (simp_all add: mappings_ok_def GAMEPAD_DEFAULT_MAPPINGS_def axes_in_def gamepad0_def)

lemma remap_bits_same:
  "list_all (\<lambda>(msk, t). unat t < 32 \<and> msk = 2 ^ unat t) ts \<Longrightarrow>
   remap_bits ts old new = Some (new OR (old AND foldr (\<lambda>(msk, t) w. msk OR w) ts 0))"
proof (induction ts arbitrary: new)
  case (Cons p ts)
  obtain msk t where p: "p = (msk, t)" by fastforce
  with Cons.prems have t: "unat t < 32" "msk = 2 ^ unat t" by simp_all
  have hit: "new OR (msk OR (old AND w)) = new OR (old AND (msk OR w))" if "bit old (unat t)" for w
    using that by (intro bit_word_eqI) (auto simp: t bit_and_iff bit_or_iff bit_pow2)
  have miss: "old AND w = old AND (msk OR w)" if "\<not> bit old (unat t)" for w
    using that by (intro bit_word_eqI) (auto simp: t bit_and_iff bit_or_iff bit_pow2)
  have b: "\<exists>b. BIT t = Some b \<and> ucast b = msk"
    using t ucast_pow2 [of "unat t", where 'b = 32] by (simp add: BIT_small)
  have IH: "remap_bits ts old nw = Some (nw OR (old AND foldr (\<lambda>(msk, t) w. msk OR w) ts 0))" for nw
    using Cons.IH Cons.prems by simp
  show ?case
  proof (cases "bit old (unat t)")
    case True
    from b obtain bb where bb: "BIT t = Some bb" "ucast bb = msk" by blast
    from True have "old AND msk \<noteq> 0" by (simp add: t and_pow2)
    then show ?thesis using True by (simp add: p IH bb or.assoc hit)
  next
    case False
    then have "old AND msk = 0" using and_pow2 [of old "unat t"] by (simp add: t)
    then show ?thesis using False by (simp add: p IH miss [symmetric])
  qed
qed simp

text \<open>
  With the default mapping as a custom mapping, the remapped gamepad is the input with the
  bits that have no name and the motion data cleared: gyroscope and accelerometer are not
  carried over.
\<close>

theorem remap_custom_default:
  "remap_custom GAMEPAD_DEFAULT_MAPPINGS gp =
     Some (gp\<lparr>buttons := buttons gp AND 0x3ff, dpad := dpad gp AND 0xf,
       misc_buttons := misc_buttons gp AND 0xf, gyro := (0, 0, 0), accel := (0, 0, 0)\<rparr>)"
proof -
  have "remap_bits (button_targets GAMEPAD_DEFAULT_MAPPINGS) (buttons gp) 0 = Some (buttons gp AND 0x3ff)"
    by (subst remap_bits_same) (simp_all add: button_targets_def GAMEPAD_DEFAULT_MAPPINGS_def)
  moreover have "remap_bits (dpad_targets GAMEPAD_DEFAULT_MAPPINGS) (dpad gp) 0 = Some (dpad gp AND 0xf)"
    by (subst remap_bits_same) (simp_all add: dpad_targets_def GAMEPAD_DEFAULT_MAPPINGS_def)
  moreover have "remap_bits (misc_targets GAMEPAD_DEFAULT_MAPPINGS) (misc_buttons gp) 0 =
      Some (misc_buttons gp AND 0xf)"
    by (subst remap_bits_same) (simp_all add: misc_targets_def GAMEPAD_DEFAULT_MAPPINGS_def)
  ultimately show ?thesis
    by (simp add: remap_custom_def remap_axis_def get_mappings_value_for_axis_def
        get_mappings_value_for_pedal_def GAMEPAD_DEFAULT_MAPPINGS_def gamepad0_def)
qed

end
