(* ===== verification/BukkisBt.thy ===== *)
theory BukkisBt
  imports Gamepad
begin

text \<open>
  The Bluetooth side of the firmware, \<^verbatim>\<open>components/bukkis_bt/bukkis_bt.c\<close>: four global stick
  values, the callbacks bluepad32 runs in its own task, and the task itself. A callback is the
  sequence of stores it makes, in program order, so that the flight task can be interleaved
  between any two of them.
\<close>

record bt_globals =
  bt_throttle :: int
  bt_yaw :: int
  bt_pitch :: int
  bt_roll :: int

datatype bt_var = V_throttle | V_yaw | V_pitch | V_roll

definition bt_start :: bt_globals where
  "bt_start = \<lparr>bt_throttle = 0, bt_yaw = 0, bt_pitch = 0, bt_roll = 0\<rparr>"

fun bt_get :: "bt_var \<Rightarrow> bt_globals \<Rightarrow> int" where
  "bt_get V_throttle g = bt_throttle g"
| "bt_get V_yaw g = bt_yaw g"
| "bt_get V_pitch g = bt_pitch g"
| "bt_get V_roll g = bt_roll g"

fun bt_set :: "bt_var \<Rightarrow> int \<Rightarrow> bt_globals \<Rightarrow> bt_globals" where
  "bt_set V_throttle x g = g\<lparr>bt_throttle := x\<rparr>"
| "bt_set V_yaw x g = g\<lparr>bt_yaw := x\<rparr>"
| "bt_set V_pitch x g = g\<lparr>bt_pitch := x\<rparr>"
| "bt_set V_roll x g = g\<lparr>bt_roll := x\<rparr>"

type_synonym bt_stores = "(bt_var \<times> int) list"

definition bt_run :: "bt_stores \<Rightarrow> bt_globals \<Rightarrow> bt_globals" where
  "bt_run sts g = fold (\<lambda>(v, x). bt_set v x) sts g"

subsection \<open>Callbacks\<close>

datatype uni_error =
    UNI_ERROR_SUCCESS
  | UNI_ERROR_INVALID_DEVICE
  | UNI_ERROR_INVALID_CONTROLLER
  | UNI_ERROR_NO_SLOTS
  | UNI_ERROR_INIT_FAILED
  | UNI_ERROR_IGNORE_DEVICE

datatype bt_call =
    UniBtAllowIncomingConnections bool
  | UniBtStartScanningAndAutoconnect
  | BtTaskDelay int
  | BtstackInit
  | UniPlatformSetCustom string
  | UniInit
  | BtstackRunLoopExecute
  | TaskDelete

definition my_on_init_complete :: "bt_call list" where
  "my_on_init_complete = [UniBtAllowIncomingConnections True, UniBtStartScanningAndAutoconnect]"

definition my_on_device_discovered :: "bytes \<Rightarrow> string \<Rightarrow> u16 \<Rightarrow> u8 \<Rightarrow> uni_error" where
  "my_on_device_discovered addr name cod rssi = UNI_ERROR_SUCCESS"

definition my_on_device_ready :: "'d \<Rightarrow> uni_error" where
  "my_on_device_ready d = UNI_ERROR_SUCCESS"

definition my_on_device_disconnected :: bt_stores where
  "my_on_device_disconnected = [(V_throttle, 0), (V_yaw, 0), (V_pitch, 0), (V_roll, 0)]"

definition my_on_controller_data :: "uni_controller \<Rightarrow> bt_stores" where
  "my_on_controller_data ctl =
     (case union_axes (ctl_data ctl) of (x, y, rx, ry) \<Rightarrow>
        [(V_throttle, ry), (V_yaw, rx), (V_pitch, y), (V_roll, x)])"

definition my_get_property :: "int \<Rightarrow> 'p option" where
  "my_get_property idx = None"

definition bluepad_task :: "bt_call list" where
  "bluepad_task =
     [BtTaskDelay 1000, BtstackInit, UniPlatformSetCustom ''bukkis_drone'', UniInit,
      BtstackRunLoopExecute, TaskDelete]"

subsection \<open>What the stores leave behind\<close>

lemma bt_get_set: "bt_get v (bt_set w x g) = (if v = w then x else bt_get v g)"
  by (cases v; cases w) simp_all

lemma bt_get_run:
  "bt_get v (bt_run sts g) = (case map_of (rev sts) v of Some x \<Rightarrow> x | None \<Rightarrow> bt_get v g)"
  by (induction sts arbitrary: g)
     (auto simp: bt_run_def bt_get_set map_add_def split: option.splits)

lemma bt_run_disconnected: "bt_run my_on_device_disconnected g = bt_start"
  by (simp add: bt_run_def my_on_device_disconnected_def bt_start_def)

text \<open>
  A controller that is not a gamepad never commands throttle: after \<open>my_on_controller_data\<close>
  on a mouse, a keyboard or a balance board, whose storage the callback reads as a gamepad,
  the throttle and yaw globals are 0.
\<close>

theorem other_classes_no_throttle:
  assumes "case ctl_data ctl of Class_none _ \<Rightarrow> False | Class_gamepad _ \<Rightarrow> False | _ \<Rightarrow> True"
  shows "bt_throttle (bt_run (my_on_controller_data ctl) g) = 0 \<and>
         bt_yaw (bt_run (my_on_controller_data ctl) g) = 0"
  using assms
  by (cases "ctl_data ctl") (simp_all add: my_on_controller_data_def bt_run_def)

theorem other_classes_no_throttle_witness:
  "bt_run (my_on_controller_data \<lparr>ctl_data = Class_mouse \<lparr>delta_x = 3, delta_y = - 40,
       m_buttons = 1, scroll_wheel = 0, m_misc_buttons = 0\<rparr>, battery = 0\<rparr>) bt_start =
     \<lparr>bt_throttle = 0, bt_yaw = 0, bt_pitch = 1, bt_roll = - 40\<rparr>"
  using other_classes_no_throttle [of "\<lparr>ctl_data = Class_mouse \<lparr>delta_x = 3, delta_y = - 40,
       m_buttons = 1, scroll_wheel = 0, m_misc_buttons = 0\<rparr>, battery = 0\<rparr>" bt_start]
  by (simp add: bt_run_def my_on_controller_data_def bt_start_def s32_def)

end
