(* ===== verification/Flight.thy ===== *)
theory Flight
  imports Pid Motor Mpu6050 BukkisBt
begin

text \<open>
  The main program, \<^verbatim>\<open>main/bukkis_drone.c\<close>: start-up, the stick scaling, the mixer and the
  100 Hz loop. The loop reads the Bluetooth globals without a lock, and more than once; a read
  is therefore its own step (\<open>reader\<close>), and \<open>sys_step\<close> interleaves the reads of the flight task
  with the stores of the Bluetooth callbacks.
\<close>

subsection \<open>Helpers\<close>

definition clamp :: "fp \<Rightarrow> fp \<Rightarrow> fp \<Rightarrow> fp" where
  "clamp value lo hi = (if flt value lo then lo else if flt hi value then hi else value)"

definition map_value :: "int \<Rightarrow> int \<Rightarrow> int \<Rightarrow> fp \<Rightarrow> fp \<Rightarrow> fp option" where
  "map_value value in_min in_max out_min out_max = do {
     d \<leftarrow> chk32 (value - in_min);
     w \<leftarrow> chk32 (in_max - in_min);
     Some (fadd f32 (fdiv f32 (fmul f32 (fof_int f32 d) (fsub f32 out_max out_min)) (fof_int f32 w))
                    out_min)
   }"

subsection \<open>Start-up\<close>

record flight_state =
  mpu_st :: mpu_state
  aktuelle_winkel :: mpu_angles
  pid_pitch :: pid_ctrl
  pid_roll :: pid_ctrl

definition nvs_start :: "esp_env \<Rightarrow> unit hw" where
  "nvs_start E =
     hw_bind (esp_call E NvsFlashInit) (\<lambda>ret.
       if ret = ESP_ERR_NVS_NO_FREE_PAGES \<or> ret = ESP_ERR_NVS_NEW_VERSION_FOUND
       then hw_then (esp_error_check (esp_call E NvsFlashErase))
                    (esp_error_check (esp_call E NvsFlashInit))
       else esp_error_check (hw_return ret))"

text \<open>\<^verbatim>\<open>aktuelle_winkel\<close> is not initialised: \<open>w0\<close> is whatever the stack holds.\<close>

definition app_main_start :: "esp_env \<Rightarrow> mpu_angles \<Rightarrow> flight_state hw" where
  "app_main_start E w0 =
     hw_then (nvs_start E)
     (hw_bind (mpu6050_init E mpu_start) (\<lambda>(err, m).
      hw_then (esp_error_check (hw_return err))
     (hw_then (esp_error_check (motor_init E))
     (hw_then (esp_call E TaskCreateBluepad)
     (hw_then (motor_test_sequence E)
     (hw_then (esp_call E TaskGetTickCount)
     (hw_return \<lparr>mpu_st = m, aktuelle_winkel = w0,
       pid_pitch = pid_init (flit f32 (12 / 10)) (flit f32 0) (flit f32 (1 / 2)) (flit f32 20) (flit f32 40),
       pid_roll = pid_init (flit f32 (12 / 10)) (flit f32 0) (flit f32 (1 / 2)) (flit f32 20) (flit f32 40)\<rparr>)))))))"

subsection \<open>Reading the sticks\<close>

datatype 'a reader = Got 'a | Get bt_var "int \<Rightarrow> 'a reader"

primrec run_reader :: "bt_globals \<Rightarrow> 'a reader \<Rightarrow> 'a" where
  "run_reader g (Got x) = x"
| "run_reader g (Get v k) = run_reader g (k (bt_get v g))"

type_synonym commands = "(fp \<times> fp \<times> fp) option"

definition throttle_cmd :: "(fp option \<Rightarrow> commands reader) \<Rightarrow> commands reader" where
  "throttle_cmd k = Get V_throttle (\<lambda>a.
     if a < - 20
     then Get V_throttle (\<lambda>b. k (map_value b (- 20) (- 512) (flit f32 0) (flit f32 100)))
     else k (Some (flit f32 0)))"

definition stick_cmd :: "bt_var \<Rightarrow> (fp option \<Rightarrow> commands reader) \<Rightarrow> commands reader" where
  "stick_cmd v k =
     (let mapped = Get v (\<lambda>c. k (map_value c (- 512) 511 (fneg (flit f32 30)) (flit f32 30)))
      in Get v (\<lambda>a. if a > 20 then mapped
           else Get v (\<lambda>b. if b < - 20 then mapped else k (Some (flit f32 0)))))"

definition read_commands :: "commands reader" where
  "read_commands =
     throttle_cmd (\<lambda>t. stick_cmd V_pitch (\<lambda>p. stick_cmd V_roll (\<lambda>r.
       Got (do { t' \<leftarrow> t; p' \<leftarrow> p; r' \<leftarrow> r; Some (t', p', r') }))))"

subsection \<open>The loop body\<close>

definition mixer :: "fp \<Rightarrow> fp \<Rightarrow> fp \<Rightarrow> fp \<times> fp \<times> fp \<times> fp" where
  "mixer t out_pitch out_roll =
     (clamp (fsub f32 (fadd f32 t out_pitch) out_roll) (flit f32 0) (flit f32 100),
      clamp (fadd f32 (fadd f32 t out_pitch) out_roll) (flit f32 0) (flit f32 100),
      clamp (fsub f32 (fsub f32 t out_pitch) out_roll) (flit f32 0) (flit f32 100),
      clamp (fadd f32 (fsub f32 t out_pitch) out_roll) (flit f32 0) (flit f32 100))"

definition set_motors :: "esp_env \<Rightarrow> fp \<Rightarrow> fp \<Rightarrow> fp \<Rightarrow> fp \<Rightarrow> unit hw" where
  "set_motors E fl fr bl br =
     hw_seq [motor_set_speed E MOTOR_FL fl, motor_set_speed E MOTOR_FR fr,
             motor_set_speed E MOTOR_BL bl, motor_set_speed E MOTOR_BR br]"

definition flight_control :: "esp_env \<Rightarrow> fp \<Rightarrow> fp \<Rightarrow> fp \<Rightarrow> flight_state \<Rightarrow> flight_state hw" where
  "flight_control E t p r st =
     (if flt (flit f32 2) t
      then (case pid_compute (pid_pitch st) p (pitch (aktuelle_winkel st)) flight_dt of (op, pp) \<Rightarrow>
            case pid_compute (pid_roll st) r (roll (aktuelle_winkel st)) flight_dt of (orl, pr) \<Rightarrow>
            case mixer t op orl of (fl, fr, bl, br) \<Rightarrow>
              hw_then (set_motors E fl fr bl br)
                (hw_return (st\<lparr>pid_pitch := pp, pid_roll := pr\<rparr>)))
      else hw_then (set_motors E (flit f32 0) (flit f32 0) (flit f32 0) (flit f32 0))
             (hw_return (st\<lparr>pid_pitch := pid_reset (pid_pitch st),
                            pid_roll := pid_reset (pid_roll st)\<rparr>)))"

definition flight_sense :: "esp_env \<Rightarrow> flight_state \<Rightarrow> (bool \<times> flight_state) hw" where
  "flight_sense E st =
     hw_bind (mpu6050_read_angles E (mpu_st st) (aktuelle_winkel st)) (\<lambda>(err, m, w).
       hw_return (err = ESP_OK, st\<lparr>mpu_st := m, aktuelle_winkel := w\<rparr>))"

definition flight_act :: "esp_env \<Rightarrow> commands \<Rightarrow> flight_state \<Rightarrow> flight_state hw" where
  "flight_act E c st =
     (case c of
        None \<Rightarrow> hw_undefined
      | Some (t, p, r) \<Rightarrow>
          hw_bind (flight_control E t p r st) (\<lambda>st'.
            hw_then (esp_call E (TaskDelayUntil 10)) (hw_return st')))"

subsection \<open>Both tasks\<close>

datatype phase = Waiting | Reading "commands reader" | Crashed

record sys =
  globals :: bt_globals
  pending :: bt_stores
  flight :: flight_state
  phase :: phase
  hwlog :: hw_log

text \<open>The next step of the flight task: wake up and sense, one read, or the control action.\<close>

definition flight_step :: "esp_env \<Rightarrow> sys \<Rightarrow> sys" where
  "flight_step E s =
     (case phase s of
        Waiting \<Rightarrow>
          (case flight_sense E (flight s) (hwlog s) of
             (Done (True, st'), l') \<Rightarrow> s\<lparr>flight := st', hwlog := l', phase := Reading read_commands\<rparr>
           | (Done (False, st'), l') \<Rightarrow> s\<lparr>flight := st', hwlog := l' @ [TaskDelayUntil 10]\<rparr>
           | (_, l') \<Rightarrow> s\<lparr>hwlog := l', phase := Crashed\<rparr>)
      | Reading (Get v k) \<Rightarrow> s\<lparr>phase := Reading (k (bt_get v (globals s)))\<rparr>
      | Reading (Got c) \<Rightarrow>
          (case flight_act E c (flight s) (hwlog s) of
             (Done st', l') \<Rightarrow> s\<lparr>flight := st', hwlog := l', phase := Waiting\<rparr>
           | (_, l') \<Rightarrow> s\<lparr>hwlog := l', phase := Crashed\<rparr>)
      | Crashed \<Rightarrow> s)"

definition axes_small :: "int \<Rightarrow> bool" where
  "axes_small x \<longleftrightarrow> - (2 ^ 31) \<le> x \<and> x + 512 < 2 ^ 31"

definition ctl_ok :: "uni_controller \<Rightarrow> bool" where
  "ctl_ok ctl \<longleftrightarrow> (case union_axes (ctl_data ctl) of (x, y, rx, ry) \<Rightarrow>
     axes_small x \<and> axes_small y \<and> axes_small rx \<and> axes_small ry)"

inductive sys_step :: "esp_env \<Rightarrow> sys \<Rightarrow> sys \<Rightarrow> bool" for E where
  step_flight: "sys_step E s (flight_step E s)"
| step_data: "pending s = [] \<Longrightarrow> ctl_ok ctl \<Longrightarrow>
     sys_step E s (s\<lparr>pending := my_on_controller_data ctl\<rparr>)"
| step_disconnect: "pending s = [] \<Longrightarrow>
     sys_step E s (s\<lparr>pending := my_on_device_disconnected\<rparr>)"
| step_store: "pending s = (v, x) # rest \<Longrightarrow>
     sys_step E s (s\<lparr>globals := bt_set v x (globals s), pending := rest\<rparr>)"

inductive_cases sys_stepE: "sys_step E s s'"

subsection \<open>Ranges of the commands\<close>

lemma fdiv_frange_abs_neg:
  assumes "1 \<le> prec F" "frep F C"
    and "frange (- A) A u" "frange (- B) (- b) v" "0 < b" "A / b \<le> C"
  shows "frange (- C) C (fdiv F u v)"
proof -
  have "frange (- C) C (fneg (fdiv F u v)) \<longleftrightarrow> frange (- C) C (fdiv F u v)"
    by (cases "fdiv F u v") (auto simp: sval_def)
  moreover have "frange b B (fneg v)" using fneg_frange [OF assms(4)] by simp
  note fdiv_frange_abs [OF assms(1,2,3) this assms(5,6)]
  moreover have "frange (- C) C (fdiv F u (fneg v)) \<longleftrightarrow> frange (- C) C (fdiv F u v)"
    using assms(3,4) by (auto elim!: frangeE simp: fround_def Let_def sval_def divide_less_0_iff
        zero_less_divide_iff split: if_splits)
  ultimately show ?thesis by blast
qed

lemma flight_consts:
  "flit f32 100 = FFin False 100" "flit f32 30 = FFin False 30" "flit f32 2 = FFin False 2"
  "fsub f32 (flit f32 100) (flit f32 0) = FFin False 100"
  "fsub f32 (flit f32 30) (fneg (flit f32 30)) = FFin False 60"
  "fof_int f32 1023 = FFin False 1023" "fof_int f32 (- 492) = FFin True 492"
  "fsub f32 (FFin False 100) c0 = FFin False 100"
  by code_simp+

lemma chk32_widths: "chk32 1023 = Some 1023" "chk32 (- 492) = Some (- 492)"
  by (simp_all add: s32_ok_def)

lemmas frep_flight [simp] = frep_f32_pow [of 28, simplified]

lemma small_frange:
  assumes "axes_small v" "0 \<le> d" "d \<le> 512"
  shows "s32_ok (v + d)" and "frange (- 2147483648) 2147483648 (fof_int f32 (v + d))"
proof -
  show "s32_ok (v + d)" using assms by (simp add: axes_small_def s32_ok_def)
  have "- 2147483648 \<le> v + d" "v + d \<le> 2147483648" using assms by (simp_all add: axes_small_def)
  then have "(of_int (- 2147483648) :: rat) \<le> of_int (v + d)" "(of_int (v + d) :: rat) \<le> of_int 2147483648"
    by (simp_all only: of_int_le_iff)
  then show "frange (- 2147483648) 2147483648 (fof_int f32 (v + d))" by (intro fof_int_frange) simp_all
qed

lemma map_value_throttle:
  assumes "axes_small v"
  shows "\<exists>t. map_value v (- 20) (- 512) (flit f32 0) (flit f32 100) = Some t \<and>
             frange (- (2 ^ 30)) (2 ^ 30) t"
proof -
  note v = small_frange [OF assms, of 20]
  have "frange (- (2 ^ 38)) (2 ^ 38) (fmul f32 (fof_int f32 (v + 20)) (FFin False 100))"
    by (rule fmul_frange_abs [OF _ _ v(2), where B = 100]) (simp_all add: sval_def)
  then have "frange (- (2 ^ 30)) (2 ^ 30)
      (fdiv f32 (fmul f32 (fof_int f32 (v + 20)) (FFin False 100)) (FFin True 492))"
    by (rule fdiv_frange_abs_neg [where B = 492 and b = 492, rotated 2]) (simp_all add: sval_def)
  then have "frange (- (2 ^ 30)) (2 ^ 30)
      (fadd f32 (fdiv f32 (fmul f32 (fof_int f32 (v + 20)) (FFin False 100)) (FFin True 492)) (flit f32 0))"
    by (rule fadd_frange [where c = 0 and d = 0, rotated 3]) simp_all
  then show ?thesis
    by (simp add: map_value_def flight_consts chk32_widths chk32_Some [OF v(1)])
qed

lemma map_value_stick:
  assumes "axes_small v"
  shows "\<exists>p. map_value v (- 512) 511 (fneg (flit f32 30)) (flit f32 30) = Some p \<and>
             frange (- (2 ^ 29)) (2 ^ 29) p"
proof -
  note v = small_frange [OF assms, of 512]
  have "frange (- (2 ^ 37)) (2 ^ 37) (fmul f32 (fof_int f32 (v + 512)) (FFin False 60))"
    by (rule fmul_frange_abs [OF _ _ v(2), where B = 60]) (simp_all add: sval_def)
  then have "frange (- (2 ^ 28)) (2 ^ 28)
      (fdiv f32 (fmul f32 (fof_int f32 (v + 512)) (FFin False 60)) (FFin False 1023))"
    by (rule fdiv_frange_abs [where B = 1023 and b = 1023, rotated 2]) (simp_all add: sval_def)
  then have "frange (- (2 ^ 29)) (2 ^ 29)
      (fadd f32 (fdiv f32 (fmul f32 (fof_int f32 (v + 512)) (FFin False 60)) (FFin False 1023))
        (fneg (flit f32 30)))"
    by (rule fadd_frange [where c = "- 30" and d = 30, rotated 3]) (simp_all add: flight_consts sval_def)
  then show ?thesis
    by (simp add: map_value_def flight_consts(5,6) chk32_widths chk32_Some [OF v(1)])
qed

text \<open>Every way the reads can turn out, when each of them sees a small value.\<close>

primrec reader_ok :: "('a \<Rightarrow> bool) \<Rightarrow> 'a reader \<Rightarrow> bool" where
  "reader_ok P (Got x) = P x"
| "reader_ok P (Get v k) = (\<forall>a. axes_small a \<longrightarrow> reader_ok P (k a))"

definition cmd_ok :: "commands \<Rightarrow> bool" where
  "cmd_ok c \<longleftrightarrow> (\<exists>t p r. c = Some (t, p, r) \<and> frange (- (2 ^ 30)) (2 ^ 30) t \<and>
     frange (- (2 ^ 29)) (2 ^ 29) p \<and> frange (- (2 ^ 29)) (2 ^ 29) r)"

lemma throttle_cmd_ok:
  "(\<And>t. frange (- (2 ^ 30)) (2 ^ 30) t \<Longrightarrow> reader_ok P (k (Some t))) \<Longrightarrow> reader_ok P (throttle_cmd k)"
  using map_value_throttle by (fastforce simp: throttle_cmd_def)

lemma stick_cmd_ok:
  assumes "\<And>t. frange (- (2 ^ 29)) (2 ^ 29) t \<Longrightarrow> reader_ok P (k (Some t))"
  shows "reader_ok P (stick_cmd v k)"
proof -
  have "reader_ok P (k (map_value c (- 512) 511 (fneg (flit f32 30)) (flit f32 30)))"
    if "axes_small c" for c
    using map_value_stick [OF that] assms by force
  moreover have "reader_ok P (k (Some (flit f32 0)))" by (rule assms) simp
  ultimately show ?thesis by (simp add: stick_cmd_def Let_def)
qed

lemma read_commands_ok: "reader_ok cmd_ok read_commands"
  unfolding read_commands_def
  by (intro throttle_cmd_ok stick_cmd_ok) (auto simp: cmd_ok_def)

subsection \<open>The control action\<close>

definition flight_inv :: "flight_state \<Rightarrow> bool" where
  "flight_inv st \<longleftrightarrow> mpu_inv (mpu_st st) \<and> pid_inv (pid_pitch st) \<and> pid_inv (pid_roll st)"

definition angles_ok :: "flight_state \<Rightarrow> bool" where
  "angles_ok st \<longleftrightarrow> frange (- (2 ^ 20)) (2 ^ 20) (pitch (aktuelle_winkel st)) \<and>
                    frange (- (2 ^ 20)) (2 ^ 20) (roll (aktuelle_winkel st))"

lemma frange_fneg_sym [simp]: "frange (- r) r (fneg v) \<longleftrightarrow> frange (- r) r v"
  by (cases v) (auto simp: sval_def)

lemma frange_sym_mono: "frange (- r) r v \<Longrightarrow> r \<le> q \<Longrightarrow> frange (- q) q v"
  by (rule frange_weaken) auto

lemma flight_sense_cases:
  "\<exists>ok st'. flight_sense E st l =
     (Done (ok, st'), l @ I2cWriteRead 0x68 0x3B 14 # (if ok then [TimerGetTime] else [])) \<and>
     (ok \<longleftrightarrow> ret E l (I2cWriteRead 0x68 0x3B 14) = ESP_OK) \<and>
     pid_pitch st' = pid_pitch st \<and> pid_roll st' = pid_roll st \<and>
     (\<not> ok \<longrightarrow> st' = st) \<and>
     (libm_ok E \<and> flight_inv st \<longrightarrow> flight_inv st' \<and> (ok \<longrightarrow> angles_ok st'))"
proof (cases "ret E l (I2cWriteRead 0x68 0x3B 14) = ESP_OK")
  case True
  let ?l = "l @ [I2cWriteRead 0x68 0x3B 14]"
  let ?m = "mpu_update E (i2c_data E ?l) (timer_us E ?l) (mpu_st st)"
  let ?s = "st\<lparr>mpu_st := ?m, aktuelle_winkel := \<lparr>pitch = fneg (current_angle_roll ?m),
        roll = fneg (current_angle_pitch ?m)\<rparr>\<rparr>"
  have "mpu_inv ?m" if "libm_ok E" "flight_inv st"
    using that mpu_update_inv by (simp add: flight_inv_def)
  then have a: "flight_inv ?s \<and> angles_ok ?s" if "libm_ok E" "flight_inv st"
    using that
    by (simp add: flight_inv_def angles_ok_def mpu_inv_def frange_sym_mono [where r = 32768])
  have s: "flight_sense E st l = (Done (True, ?s), l @ [I2cWriteRead 0x68 0x3B 14, TimerGetTime])"
    using True by (simp add: flight_sense_def mpu6050_read_angles_def hw_simps Let_def)
  show ?thesis
    by (rule exI [of _ True], rule exI [of _ ?s]) (use True s a in auto)
next
  case False
  then show ?thesis
    by (intro exI [of _ False] exI [of _ st])
       (simp add: flight_sense_def mpu6050_read_angles_def hw_simps Let_def)
qed

lemma clamp_frange:
  "frange a b v \<Longrightarrow> frange 0 100 (clamp v (flit f32 0) (flit f32 100))"
  by (auto elim!: frangeE simp: clamp_def flight_consts sval_def)

lemma mixer_frange:
  assumes "frange (- (2 ^ 30)) (2 ^ 30) t" "frange (- 40) 40 op" "frange (- 40) 40 orl"
    and "mixer t op orl = (fl, fr, bl, br)"
  shows "frange 0 100 fl" "frange 0 100 fr" "frange 0 100 bl" "frange 0 100 br"
proof -
  have s: "frange (- (2 ^ 31)) (2 ^ 31) (fadd f32 t op)" "frange (- (2 ^ 31)) (2 ^ 31) (fsub f32 t op)"
    using fadd_frange [OF _ _ _ assms(1,2)] fsub_frange [OF _ _ _ assms(1,2)] by simp_all
  have "frange (- (2 ^ 32)) (2 ^ 32) (fadd f32 v orl)" "frange (- (2 ^ 32)) (2 ^ 32) (fsub f32 v orl)"
    if "frange (- (2 ^ 31)) (2 ^ 31) v" for v
    using fadd_frange [OF _ _ _ that assms(3)] fsub_frange [OF _ _ _ that assms(3)] by simp_all
  note u = this [OF s(1)] this [OF s(2)]
  show "frange 0 100 fl" "frange 0 100 fr" "frange 0 100 bl" "frange 0 100 br"
    using assms(4) u [THEN clamp_frange] by (auto simp: mixer_def)
qed

definition motors_log :: "int \<Rightarrow> int \<Rightarrow> int \<Rightarrow> int \<Rightarrow> hw_log" where
  "motors_log a b c d = [LedcSetDuty 0 a, LedcUpdateDuty 0, LedcSetDuty 1 b, LedcUpdateDuty 1,
     LedcSetDuty 2 c, LedcUpdateDuty 2, LedcSetDuty 3 d, LedcUpdateDuty 3]"

lemma runs_set_motors:
  assumes "ledc_ok E" "motor_duty fl = Some a" "motor_duty fr = Some b"
    "motor_duty bl = Some c" "motor_duty br = Some d"
    "list_all (\<lambda>x. 0 \<le> x \<and> x \<le> 1023) [a, b, c, d]"
  shows "runs (set_motors E fl fr bl br) () (motors_log a b c d)"
  using runs_motor_set_speed [OF assms(1,2), of MOTOR_FL] runs_motor_set_speed [OF assms(1,3), of MOTOR_FR]
    runs_motor_set_speed [OF assms(1,4), of MOTOR_BL] runs_motor_set_speed [OF assms(1,5), of MOTOR_BR]
    assms(6)
  by (simp add: set_motors_def motors_log_def runs_def hw_simps)

lemma runs_set_motors_frange:
  assumes "ledc_ok E" "frange 0 100 fl" "frange 0 100 fr" "frange 0 100 bl" "frange 0 100 br"
  shows "\<exists>a b c d. runs (set_motors E fl fr bl br) () (motors_log a b c d) \<and>
           list_all (\<lambda>x. 0 \<le> x \<and> x \<le> 1023) [a, b, c, d]"
proof -
  have d: "\<exists>n. motor_duty v = Some n \<and> 0 \<le> n \<and> n \<le> 1023" if "frange 0 100 v" for v
    using that motor_duty_bounds [of v] frange_fwf [OF that] by (metis frange.simps(2))
  obtain a b c e where
    "motor_duty fl = Some a" "motor_duty fr = Some b" "motor_duty bl = Some c" "motor_duty br = Some e"
    "list_all (\<lambda>x. 0 \<le> x \<and> x \<le> 1023) [a, b, c, e]"
    using d [OF assms(2)] d [OF assms(3)] d [OF assms(4)] d [OF assms(5)] by auto
  then show ?thesis using runs_set_motors [OF assms(1)] by blast
qed

lemma runs_flight_act:
  assumes "ledc_ok E" "flight_inv st" "angles_ok st" "cmd_ok c"
  shows "\<exists>st' k. runs (flight_act E c st) st' (k @ [TaskDelayUntil 10]) \<and> flight_inv st' \<and>
           list_all (duty_ok 1023) k"
proof -
  obtain t p r where c: "c = Some (t, p, r)" "frange (- (2 ^ 30)) (2 ^ 30) t"
      "frange (- (2 ^ 29)) (2 ^ 29) p" "frange (- (2 ^ 29)) (2 ^ 29) r"
    using assms(4) by (auto simp: cmd_ok_def)
  have ok: "list_all (duty_ok 1023) (motors_log w x y z)"
    if "list_all (\<lambda>x. 0 \<le> x \<and> x \<le> 1023) [w, x, y, z]" for w x y z
    using that by (simp add: motors_log_def)
  have wrap: "runs (flight_act E c st) st' (k @ [TaskDelayUntil 10])"
    if "runs (flight_control E t p r st) st' k" for st' k
    using that by (simp add: flight_act_def c(1) runs_def hw_simps)
  show ?thesis
  proof (cases "flt (flit f32 2) t")
    case True
    obtain op pp where pp: "pid_compute (pid_pitch st) p (pitch (aktuelle_winkel st)) flight_dt = (op, pp)"
      by fastforce
    obtain orl pr where pr: "pid_compute (pid_roll st) r (roll (aktuelle_winkel st)) flight_dt = (orl, pr)"
      by fastforce
    have i: "pid_inv pp" "frange (- 40) 40 op" "pid_inv pr" "frange (- 40) 40 orl"
      using pid_compute_inv [of "pid_pitch st" p "pitch (aktuelle_winkel st)"]
        pid_compute_inv [of "pid_roll st" r "roll (aktuelle_winkel st)"] assms(2,3) c pp pr
      by (auto simp: flight_inv_def angles_ok_def)
    obtain fl fr bl br where m: "mixer t op orl = (fl, fr, bl, br)" by (cases "mixer t op orl") auto
    obtain w x y z where s: "runs (set_motors E fl fr bl br) () (motors_log w x y z)"
        "list_all (\<lambda>x. 0 \<le> x \<and> x \<le> 1023) [w, x, y, z]"
      using runs_set_motors_frange [OF assms(1) mixer_frange [OF c(2) i(2,4) m]] by blast
    have "runs (flight_control E t p r st) (st\<lparr>pid_pitch := pp, pid_roll := pr\<rparr>) (motors_log w x y z)"
      using runs_then [OF s(1) runs_return] True by (simp add: flight_control_def pp pr m)
    with wrap ok [OF s(2)] i assms(2) show ?thesis by (fastforce simp: flight_inv_def)
  next
    case False
    let ?s = "st\<lparr>pid_pitch := pid_reset (pid_pitch st), pid_roll := pid_reset (pid_roll st)\<rparr>"
    have "runs (flight_control E t p r st) ?s (motors_log 0 0 0 0)"
      using runs_then [OF runs_set_motors [OF assms(1), of c0 0 c0 0 c0 0 c0 0] runs_return] False
      by (simp add: flight_control_def)
    moreover have "flight_inv ?s" using assms(2) by (simp add: flight_inv_def pid_inv_reset)
    ultimately show ?thesis using wrap ok [of 0 0 0 0] by fastforce
  qed
qed

subsection \<open>Both tasks together\<close>

definition bt_small :: "bt_globals \<Rightarrow> bool" where
  "bt_small g \<longleftrightarrow> axes_small (bt_throttle g) \<and> axes_small (bt_yaw g) \<and>
                  axes_small (bt_pitch g) \<and> axes_small (bt_roll g)"

definition sys_inv :: "sys \<Rightarrow> bool" where
  "sys_inv s \<longleftrightarrow> bt_small (globals s) \<and> list_all (\<lambda>(v, x). axes_small x) (pending s) \<and>
     flight_inv (flight s) \<and> list_all (duty_ok 1023) (hwlog s) \<and>
     (case phase s of Waiting \<Rightarrow> True | Crashed \<Rightarrow> False
      | Reading r \<Rightarrow> reader_ok cmd_ok r \<and> angles_ok (flight s))"

lemma bt_small_get: "bt_small g \<Longrightarrow> axes_small (bt_get v g)"
  by (cases v) (auto simp: bt_small_def)

lemma bt_small_set: "bt_small g \<Longrightarrow> axes_small x \<Longrightarrow> bt_small (bt_set v x g)"
  by (cases v) (auto simp: bt_small_def)

lemma flight_step_inv:
  assumes "libm_ok E" "ledc_ok E" "sys_inv s"
  shows "sys_inv (flight_step E s)"
proof (cases "phase s")
  case Waiting
  obtain ok st' where "flight_sense E (flight s) (hwlog s) =
      (Done (ok, st'), hwlog s @ I2cWriteRead 0x68 0x3B 14 # (if ok then [TimerGetTime] else []))"
    "flight_inv st'" "ok \<longrightarrow> angles_ok st'"
    using flight_sense_cases [of E "flight s" "hwlog s"] assms by (auto simp: sys_inv_def)
  then show ?thesis
    using assms(3) read_commands_ok by (cases ok) (auto simp: flight_step_def Waiting sys_inv_def)
next
  case (Reading r)
  show ?thesis
  proof (cases r)
    case (Got c)
    obtain st' k where "runs (flight_act E c (flight s)) st' (k @ [TaskDelayUntil 10])" "flight_inv st'"
        "list_all (duty_ok 1023) k"
      using runs_flight_act [OF assms(2), of "flight s" c] assms(3) Reading Got
      by (auto simp: sys_inv_def)
    then show ?thesis
      using assms(3) by (simp add: flight_step_def Reading Got sys_inv_def runs_def)
  next
    case (Get v k)
    then show ?thesis
      using assms(3) bt_small_get [of "globals s" v]
      by (simp add: flight_step_def Reading sys_inv_def)
  qed
next
  case Crashed
  then show ?thesis using assms(3) by (simp add: sys_inv_def)
qed

lemma sys_step_inv:
  assumes "libm_ok E" "ledc_ok E" "sys_step E s s'" "sys_inv s"
  shows "sys_inv s'"
  using assms(3)
proof cases
  case step_flight
  then show ?thesis using flight_step_inv assms by blast
qed (use assms(4) in \<open>auto simp: sys_inv_def ctl_ok_def my_on_controller_data_def
    my_on_device_disconnected_def axes_small_def bt_small_set split: phase.splits prod.splits\<close>)

lemma sys_steps_inv:
  assumes "libm_ok E" "ledc_ok E" "(sys_step E)\<^sup>*\<^sup>* s s'" "sys_inv s"
  shows "sys_inv s'"
  using assms(3,4) by (induction rule: rtranclp_induct) (auto intro: sys_step_inv [OF assms(1,2)])

subsection \<open>Start-up\<close>

lemma emits_mpu6050_init: "emits (duty_ok mx) (mpu6050_init E st)"
  by (simp add: mpu6050_init_def emits_def hw_simps)

lemma emits_motor_init: "emits (duty_ok mx) (motor_init E)"
  unfolding motor_init_def
  by (intro emits_then emits_seq emits_check emits_return) (auto simp: motor_pins_def)

lemma emits_motor_speed: "fwf v \<Longrightarrow> emits (duty_ok 1023) (motor_set_speed E m v)"
  by (rule emits_motor_set_speed)
     (metis motor_duty_bounds motor_duty_none option.distinct(1) option.inject)

lemma emits_motor_test_sequence: "emits (duty_ok 1023) (motor_test_sequence E)"
  unfolding motor_test_sequence_def ramp_speeds_value option.case
  by (rule emits_seq)
     (auto simp: test_one_motor_def ramp_percents_def
       intro!: emits_then emits_seq emits_motor_speed)

lemma emits_app_main_start: "emits (duty_ok 1023) (app_main_start E w0)"
  unfolding app_main_start_def nvs_start_def
  by (auto intro!: emits_then emits_bind emits_check emits_mpu6050_init emits_motor_init
      emits_motor_test_sequence)

lemma mpu6050_init_inv:
  "mpu6050_init E st l = (Done (err, st'), l') \<Longrightarrow> mpu_inv st \<Longrightarrow> mpu_inv st'"
  by (auto simp: mpu6050_init_def hw_simps mpu_inv_def split: if_splits)

lemma app_main_start_inv:
  assumes "app_main_start E w0 l = (Done st, l')"
  shows "flight_inv st"
  using assms mpu6050_init_inv [OF _ mpu_inv_start] pid_inv_init
  unfolding app_main_start_def pid_flight_init_def flight_inv_def
  by (auto simp: hw_bind_def hw_then_def hw_return_def split: prod.splits outcome.splits)

text \<open>
  A state in which the loop is about to start: start-up has succeeded, and the Bluetooth task,
  which start-up creates, may already have stored stick values or be in the middle of storing.
\<close>

definition sys_init :: "esp_env \<Rightarrow> mpu_angles \<Rightarrow> sys \<Rightarrow> bool" where
  "sys_init E w0 s \<longleftrightarrow> app_main_start E w0 [] = (Done (flight s), hwlog s) \<and> phase s = Waiting \<and>
     bt_small (globals s) \<and> list_all (\<lambda>(v, x). axes_small x) (pending s)"

lemma sys_init_inv: "sys_init E w0 s \<Longrightarrow> sys_inv s"
  using app_main_start_inv [of E w0 "[]" "flight s" "hwlog s"]
    emitsD [OF emits_app_main_start, of E w0 "[]"]
  by (auto simp: sys_init_def sys_inv_def)

subsection \<open>A concrete environment\<close>

text \<open>An environment in which every driver call succeeds and the sensor lies still.\<close>

definition env0 :: esp_env where
  "env0 = \<lparr>ret = \<lambda>_ _. ESP_OK, i2c_data = \<lambda>_ _. 0, timer_us = \<lambda>_. 0,
           libm_atan2 = \<lambda>_ _. c0, libm_sqrt = \<lambda>x. x\<rparr>"

definition angles0 :: mpu_angles where
  "angles0 = \<lparr>pitch = FNaN, roll = FNaN\<rparr>"

lemma env0_ok: "libm_ok env0" "ledc_ok env0"
  using frange_fval [OF mpu_const_ranges(4)] by (auto simp: libm_ok_def ledc_ok_def env0_def)

lemma env0_start: "\<exists>st l. app_main_start env0 angles0 [] = (Done st, l)"
proof -
  have m: "motor_test_sequence env0 l = (Done (), l @ test_log)" for l
    using runs_motor_test_sequence [OF env0_ok(2)] by (simp add: runs_def)
  have r: "ret env0 l c = 0" for l c by (simp add: env0_def)
  have u: "[0..<4] = [0, 1, 2, 3]" by (simp add: upt_rec)
  show ?thesis
    by (simp add: app_main_start_def nvs_start_def mpu6050_init_def motor_init_def motor_pins_def
        hw_simps m r u)
qed

text \<open>
  The largest stick value that the scaling can read without leaving \<open>int\<close> is \<open>2 ^ 31 - 513\<close>. The callback
  takes its values from the gamepad member of the union whatever the controller is: a Balance
  Board with 65.2 kg on the one left sensor and 32.767 kg on the other stores a larger one as
  roll, and the next read of the loop overflows.
\<close>

definition heavy_board :: uni_controller where
  "heavy_board = \<lparr>ctl_data = Class_balance_board
     \<lparr>bb_tr = 0, bb_br = 0, bb_tl = 65200, bb_bl = 32767, temperature = 0\<rparr>, battery = 0\<rparr>"

lemma stick_overflow:
  "2 ^ 31 \<le> v + 512 \<Longrightarrow> map_value v (- 512) 511 a b = None"
  "my_on_controller_data heavy_board = [(V_throttle, 0), (V_yaw, 0), (V_pitch, 0), (V_roll, 2147483312)]"
  "run_reader (bt_run (my_on_controller_data heavy_board) bt_start) read_commands = None"
  subgoal by (simp add: map_value_def chk32_def s32_ok_def)
  subgoal by code_simp
  subgoal by code_simp
  done

text \<open>
  C1. Flight safety under every interleaving. From every state the successful start-up can leave,
  after any number of steps of the flight task and of the Bluetooth task (disconnections, and reports
  of controllers whose four axes, as the callback reads them through the gamepad member of the
  union, are 32-bit values of at most \<open>2 ^ 31 - 513\<close>, with each single store of the
  callbacks in between any two reads of the loop), the firmware has not run into undefined
  behaviour and has not aborted, every duty ever requested from the PWM unit is within 0..1023 on
  channels 0..3, both PID controllers keep their limits and finite state, and the filter angles
  stay within \<open>\<plusminus>32768\<close>. The bound is exact: one more overflows (\<open>stick_overflow\<close>). The
  hypotheses on the environment are the documented behaviour of libm and of the LEDC driver.
\<close>

theorem flight_safe:
  assumes "libm_ok E" "ledc_ok E" "sys_init E w0 s0" "(sys_step E)\<^sup>*\<^sup>* s0 s"
  shows "phase s \<noteq> Crashed \<and> list_all (duty_ok 1023) (hwlog s) \<and>
         pid_inv (pid_pitch (flight s)) \<and> pid_inv (pid_roll (flight s)) \<and> mpu_inv (mpu_st (flight s))"
  using sys_steps_inv [OF assms(1,2,4) sys_init_inv [OF assms(3)]]
  by (auto simp: sys_inv_def flight_inv_def split: phase.splits)

theorem flight_safe_witness:
  "\<exists>s0 s. sys_init env0 angles0 s0 \<and> s = flight_step env0 (s0\<lparr>pending := my_on_device_disconnected\<rparr>) \<and>
     phase s \<noteq> Crashed \<and> list_all (duty_ok 1023) (hwlog s)"
proof -
  obtain st l where b: "app_main_start env0 angles0 [] = (Done st, l)" using env0_start by blast
  let ?s0 = "\<lparr>globals = bt_start, pending = [], flight = st, phase = Waiting, hwlog = l\<rparr>"
  have i: "sys_init env0 angles0 ?s0"
    by (simp add: sys_init_def b bt_small_def bt_start_def axes_small_def)
  have "sys_step env0 ?s0 (?s0\<lparr>pending := my_on_device_disconnected\<rparr>)"
    by (rule step_disconnect) simp
  then have "(sys_step env0)\<^sup>*\<^sup>* ?s0 (flight_step env0 (?s0\<lparr>pending := my_on_device_disconnected\<rparr>))"
    by (meson converse_rtranclp_into_rtranclp r_into_rtranclp step_flight)
  from flight_safe [OF env0_ok i this] i show ?thesis by blast
qed

subsection \<open>Fail-safe\<close>

text \<open>
  The flight task with the Bluetooth task in between: before each of its steps a batch of stores
  takes effect. A store leaves the throttle released when it is not below -20.
\<close>

definition store_now :: "bt_stores \<Rightarrow> sys \<Rightarrow> sys" where
  "store_now b s = s\<lparr>globals := bt_run b (globals s)\<rparr>"

primrec interleaved :: "esp_env \<Rightarrow> bt_stores list \<Rightarrow> sys \<Rightarrow> sys" where
  "interleaved E [] s = s"
| "interleaved E (b # bs) s = interleaved E bs (flight_step E (store_now b s))"

definition released_store :: "bt_var \<times> int \<Rightarrow> bool" where
  "released_store = (\<lambda>(v, x). axes_small x \<and> (v = V_throttle \<longrightarrow> - 20 \<le> x))"

definition released :: "bt_globals \<Rightarrow> bool" where
  "released g \<longleftrightarrow> bt_small g \<and> - 20 \<le> bt_throttle g"

lemma released_run: "released g \<Longrightarrow> list_all released_store b \<Longrightarrow> released (bt_run b g)"
proof (induction b arbitrary: g)
  case (Cons x b)
  obtain v a where x: "x = (v, a)" by (cases x)
  have "released (bt_set v a g)"
    using Cons.prems x bt_small_set [of g a v] by (cases v) (auto simp: released_def released_store_def)
  then show ?case using Cons x by (simp add: bt_run_def)
qed (simp add: bt_run_def)

lemma released_get: "released g \<Longrightarrow> axes_small (bt_get v g) \<and> (v = V_throttle \<longrightarrow> - 20 \<le> bt_get v g)"
  using bt_small_get [of g v] by (auto simp: released_def)

text \<open>The reads end within a number of steps in a result with a property, as long as the throttle is released.\<close>

primrec ends_within :: "('a \<Rightarrow> bool) \<Rightarrow> 'a reader \<Rightarrow> nat \<Rightarrow> bool" where
  "ends_within P (Got x) = (\<lambda>n. P x)"
| "ends_within P (Get v k) =
     (\<lambda>n. 0 < n \<and> (\<forall>a. axes_small a \<and> (v = V_throttle \<longrightarrow> - 20 \<le> a) \<longrightarrow> ends_within P (k a) (n - 1)))"

lemma ends_within_throttle:
  "ends_within P (k (Some (flit f32 0))) n \<Longrightarrow> ends_within P (throttle_cmd k) (Suc n)"
  by (simp add: throttle_cmd_def)

lemma ends_within_mono: "ends_within P r n \<Longrightarrow> n \<le> m \<Longrightarrow> ends_within P r m"
proof (induction r arbitrary: n m)
  case (Get v k)
  have "n - 1 \<le> m - 1" using Get.prems(2) by simp
  then show ?case using Get.prems by (auto intro: Get.IH)
qed simp

lemma ends_within_stick:
  assumes "v \<noteq> V_throttle" "\<And>x. x \<noteq> None \<Longrightarrow> ends_within P (k x) n"
  shows "ends_within P (stick_cmd v k) (Suc (Suc (Suc n)))"
proof -
  have "ends_within P (k (map_value c (- 512) 511 (fneg (flit f32 30)) (flit f32 30))) n" if "axes_small c" for c
    using map_value_stick [OF that] assms(2) by force
  then show ?thesis
    using assms ends_within_mono [of P "k _" n] by (auto simp: stick_cmd_def Let_def)
qed

lemma read_commands_released: "ends_within (\<lambda>c. \<exists>p r. c = Some (flit f32 0, p, r)) read_commands 7"
proof -
  have "ends_within (\<lambda>c. \<exists>p r. c = Some (flit f32 0, p, r)) read_commands (Suc (Suc (Suc (Suc (Suc (Suc (Suc 0)))))))"
    unfolding read_commands_def by (intro ends_within_throttle ends_within_stick) auto
  then show ?thesis by (simp add: eval_nat_numeral)
qed

lemma interleaved_reads:
  assumes "phase s = Reading r" "ends_within P r n" "released (globals s)" "list_all (list_all released_store) bs"
    and "n \<le> length bs"
  shows "\<exists>k \<le> n. \<exists>c. P c \<and> released (globals (interleaved E (take k bs) s)) \<and>
     interleaved E (take k bs) s = s\<lparr>phase := Reading (Got c), globals := globals (interleaved E (take k bs) s)\<rparr>"
  using assms
proof (induction r arbitrary: s n bs)
  case (Got c)
  then have "s\<lparr>phase := Reading (Got c)\<rparr> = s" by (cases s) simp
  with Got show ?case by (intro exI [of _ 0] conjI exI [of _ c]) simp_all
next
  case (Get v k)
  obtain b bs' where b: "bs = b # bs'" using Get.prems(2,5) by (cases bs) auto
  have g: "released (bt_run b (globals s))" using released_run Get.prems(3,4) b by simp
  let ?r = "k (bt_get v (bt_run b (globals s)))"
  let ?s = "s\<lparr>phase := Reading ?r, globals := bt_run b (globals s)\<rparr>"
  have f: "flight_step E (store_now b s) = ?s"
    using Get.prems(1) by (simp add: flight_step_def store_now_def)
  have n: "0 < n" using Get.prems(2) by simp
  have "ends_within P ?r (n - 1)" using Get.prems(2) released_get [OF g, of v] by simp
  then obtain j c where "j \<le> n - 1" "P c" "released (globals (interleaved E (take j bs') ?s))"
      "interleaved E (take j bs') ?s = ?s\<lparr>phase := Reading (Got c), globals := globals (interleaved E (take j bs') ?s)\<rparr>"
    using Get.IH [of ?r ?s "n - 1" bs'] g Get.prems b by fastforce
  then show ?case
    using n b f by (intro exI [of _ "Suc j"] exI [of _ c] conjI) simp_all
qed

lemma interleaved_append: "interleaved E (bs @ cs) s = interleaved E cs (interleaved E bs s)"
  by (induction bs arbitrary: s) simp_all

text \<open>
  C7. Fail-safe. When the flight task waits for the next iteration with the throttle stick released
  (at or above -20, which \<open>my_on_device_disconnected\<close> establishes) and the sensor answers, then within 10
  of its own steps it has commanded duty 0 to all four motors and reset both PID
  controllers. In between any two of these steps the Bluetooth task may make any number of stores, of
  reports and disconnections, as long as they keep the throttle released; every stick value is a
  32-bit one of at most \<open>2 ^ 31 - 513\<close>. The other sticks, the angles and the controllers'
  state are arbitrary.
\<close>

theorem throttle_released_stops_motors:
  assumes "ledc_ok E" "phase s = Waiting" "released (globals s)"
    and "length bs = 10" "list_all (list_all released_store) bs"
    and "ret E (hwlog s) (I2cWriteRead 0x68 0x3B 14) = ESP_OK"
  shows "\<exists>n \<le> 10. \<exists>s'. interleaved E (take n bs) s = s' \<and> phase s' = Waiting \<and>
     hwlog s' = hwlog s @ [I2cWriteRead 0x68 0x3B 14, TimerGetTime] @ motors_log 0 0 0 0 @ [TaskDelayUntil 10] \<and>
     list_all (\<lambda>ch. last_duty ch (hwlog s') = Some 0) [0, 1, 2, 3] \<and>
     pid_pitch (flight s') = pid_reset (pid_pitch (flight s)) \<and>
     pid_roll (flight s') = pid_reset (pid_roll (flight s))"
proof -
  obtain b bs' where b: "bs = b # bs'" "length bs' = 9" using assms(4) by (cases bs) auto
  obtain st1 where s: "flight_sense E (flight s) (hwlog s) =
      (Done (True, st1), hwlog s @ [I2cWriteRead 0x68 0x3B 14, TimerGetTime])"
      "pid_pitch st1 = pid_pitch (flight s)" "pid_roll st1 = pid_roll (flight s)"
    using flight_sense_cases [of E "flight s" "hwlog s"] assms(6) by auto
  let ?l = "hwlog s @ [I2cWriteRead 0x68 0x3B 14, TimerGetTime]"
  let ?s1 = "s\<lparr>globals := bt_run b (globals s), flight := st1, hwlog := ?l, phase := Reading read_commands\<rparr>"
  have 1: "flight_step E (store_now b s) = ?s1"
    using assms(2) s(1) by (simp add: flight_step_def store_now_def)
  have "released (globals ?s1)" using released_run assms(3,5) b(1) by simp
  then have "\<exists>k \<le> 7. \<exists>c. (\<exists>p r. c = Some (flit f32 0, p, r)) \<and> released (globals (interleaved E (take k bs') ?s1)) \<and>
      interleaved E (take k bs') ?s1 = ?s1\<lparr>phase := Reading (Got c), globals := globals (interleaved E (take k bs') ?s1)\<rparr>"
    using b assms(5) by (intro interleaved_reads [OF _ read_commands_released]) simp_all
  then obtain k p r g where k: "k \<le> 7"
      "interleaved E (take k bs') ?s1 = ?s1\<lparr>phase := Reading (Got (Some (flit f32 0, p, r))), globals := g\<rparr>"
    by blast
  let ?s2 = "interleaved E (take k bs') ?s1"
  obtain c where c: "take (Suc k) bs' = take k bs' @ [c]" using k(1) b(2) by (simp add: take_Suc_conv_app_nth)
  have "runs (set_motors E c0 c0 c0 c0) () (motors_log 0 0 0 0)"
    by (rule runs_set_motors [OF assms(1)]) simp_all
  then have a: "flight_act E (Some (flit f32 0, p, r)) st1 l =
      (Done (st1\<lparr>pid_pitch := pid_reset (pid_pitch st1), pid_roll := pid_reset (pid_roll st1)\<rparr>),
       l @ motors_log 0 0 0 0 @ [TaskDelayUntil 10])" for l
    by (simp add: flight_act_def flight_control_def flight_consts sval_def runs_def hw_simps)
  let ?s3 = "flight_step E (store_now c ?s2)"
  have 2: "phase ?s2 = Reading (Got (Some (flit f32 0, p, r)))" "flight ?s2 = st1" "hwlog ?s2 = ?l" by (simp_all add: k(2))
  then have 3: "phase ?s3 = Waiting" "hwlog ?s3 = ?l @ motors_log 0 0 0 0 @ [TaskDelayUntil 10]"
      "flight ?s3 = st1\<lparr>pid_pitch := pid_reset (pid_pitch st1), pid_roll := pid_reset (pid_roll st1)\<rparr>"
    by (simp_all add: flight_step_def store_now_def a [simplified])
  have "interleaved E (take (Suc (Suc k)) bs) s = ?s3"
    by (simp add: b(1) c 1 interleaved_append)
  moreover have "list_all (\<lambda>ch. last_duty ch (hwlog ?s3) = Some 0) [0, 1, 2, 3]"
    by (simp add: 3(2) last_duty_append motors_log_def)
  ultimately show ?thesis
    using k(1) s(2,3) 3 by (intro exI [of _ "Suc (Suc k)"] conjI exI [of _ ?s3]) simp_all
qed

theorem throttle_released_witness:
  "\<exists>s. phase s = Waiting \<and> globals s = bt_run my_on_device_disconnected (globals s) \<and>
     (\<exists>n \<le> 10. \<exists>s'. interleaved env0 (take n (replicate 10 [(V_pitch, 300), (V_throttle, - 20)])) s = s' \<and>
        list_all (\<lambda>ch. last_duty ch (hwlog s') = Some 0) [0, 1, 2, 3])"
proof -
  let ?s = "\<lparr>globals = bt_start, pending = [], flight = \<lparr>mpu_st = mpu_start, aktuelle_winkel = angles0,
    pid_pitch = pid_flight_init, pid_roll = pid_flight_init\<rparr>, phase = Waiting, hwlog = []\<rparr>"
  have "released bt_start" by (simp add: released_def bt_small_def bt_start_def axes_small_def)
  moreover have "list_all (list_all released_store) (replicate 10 [(V_pitch, 300), (V_throttle, - 20)])"
    by (simp add: list_all_iff released_store_def axes_small_def)
  ultimately have "\<exists>n \<le> 10. \<exists>s'. interleaved env0 (take n (replicate 10 [(V_pitch, 300), (V_throttle, - 20)])) ?s = s' \<and>
      list_all (\<lambda>ch. last_duty ch (hwlog s') = Some 0) [0, 1, 2, 3]"
    using throttle_released_stops_motors [OF env0_ok(2), of ?s "replicate 10 [(V_pitch, 300), (V_throttle, - 20)]"]
    by (auto simp: env0_def)
  then show ?thesis by (intro exI [of _ ?s]) (simp add: bt_run_disconnected)
qed

text \<open>
  C37. A failed sensor read leaves the motors alone. When the I2C transfer fails, the iteration
  reads no stick and commands no motor: the state and every motor's last duty are unchanged,
  whatever the throttle, also after a disconnection.
\<close>

theorem sensor_failure_keeps_motors:
  assumes "phase s = Waiting" "ret E (hwlog s) (I2cWriteRead 0x68 0x3B 14) \<noteq> ESP_OK"
  shows "flight_step E s = s\<lparr>hwlog := hwlog s @ [I2cWriteRead 0x68 0x3B 14, TaskDelayUntil 10]\<rparr> \<and>
         last_duty ch (hwlog (flight_step E s)) = last_duty ch (hwlog s)"
proof -
  have "flight_step E s = s\<lparr>hwlog := hwlog s @ [I2cWriteRead 0x68 0x3B 14, TaskDelayUntil 10]\<rparr>"
    using flight_sense_cases [of E "flight s" "hwlog s"] assms
    by (auto simp: flight_step_def)
  then show ?thesis by (simp add: last_duty_append)
qed

theorem sensor_failure_witness:
  "last_duty 0 (hwlog (flight_step (env0\<lparr>ret := \<lambda>_ _. 0x107\<rparr>)
     \<lparr>globals = bt_start, pending = [], flight = \<lparr>mpu_st = mpu_start, aktuelle_winkel = angles0,
       pid_pitch = pid_flight_init, pid_roll = pid_flight_init\<rparr>, phase = Waiting,
       hwlog = [LedcSetDuty 0 700, LedcUpdateDuty 0]\<rparr>)) = Some 700"
  using sensor_failure_keeps_motors [of "\<lparr>globals = bt_start, pending = [],
       flight = \<lparr>mpu_st = mpu_start, aktuelle_winkel = angles0,
       pid_pitch = pid_flight_init, pid_roll = pid_flight_init\<rparr>, phase = Waiting,
       hwlog = [LedcSetDuty 0 700, LedcUpdateDuty 0]\<rparr>" "env0\<lparr>ret := \<lambda>_ _. 0x107\<rparr>" 0]
  by simp

subsection \<open>Stick scaling\<close>

lemma fdiv_frange_negneg:
  assumes "1 \<le> prec F" "frep F C"
    and "frange (- A) 0 u" "frange (- B) (- b) v" "0 < b" "A / b \<le> C"
  shows "frange 0 C (fdiv F u v)"
proof -
  from assms(3,4) obtain s m t k where
    v: "u = FFin s m" "v = FFin t k" "- A \<le> sval s m" "sval s m \<le> 0" "sval t k \<le> - b" "0 \<le> k"
    by (auto elim!: frangeE)
  have k: "k \<noteq> 0" using v assms(5) by auto
  have "- sval s m / - sval t k \<le> A / b" using v assms(5) by (intro frac_le) auto
  then have "sval s m / sval t k \<le> C" using assms(6) by simp
  moreover have "0 \<le> sval s m / sval t k" using v assms(5) by (simp add: zero_le_divide_iff)
  ultimately show ?thesis using assms k unfolding v by (auto intro!: fround_frange)
qed

lemma map_value_stick_degrees:
  assumes "- 512 \<le> v" "v \<le> 511"
  shows "\<exists>p. map_value v (- 512) 511 (fneg (flit f32 30)) (flit f32 30) = Some p \<and> frange (- 30) 30 p"
proof -
  have "(of_int 0 :: rat) \<le> of_int (v + 512)" "(of_int (v + 512) :: rat) \<le> of_int 1023"
    using assms by (simp_all only: of_int_le_iff)
  then have "frange 0 1023 (fof_int f32 (v + 512))" by (intro fof_int_frange) simp_all
  then have "frange 0 61380 (fmul f32 (fof_int f32 (v + 512)) (FFin False 60))"
    by (rule fmul_frange_nonneg [where B = 60, rotated 2]) (simp_all add: sval_def)
  then have "frange 0 60 (fdiv f32 (fmul f32 (fof_int f32 (v + 512)) (FFin False 60)) (FFin False 1023))"
    by (rule fdiv_frange_nonneg [where b = 1023 and B = 1023, rotated 2]) (simp_all add: sval_def)
  then have "frange (- 30) 30 (fadd f32 (fdiv f32 (fmul f32 (fof_int f32 (v + 512)) (FFin False 60))
      (FFin False 1023)) (fneg (flit f32 30)))"
    by (rule fadd_frange [where c = "- 30" and d = "- 30", rotated 3]) (simp_all add: flight_consts sval_def)
  moreover have "s32_ok (v + 512)" using assms by (simp add: s32_ok_def)
  ultimately show ?thesis
    by (simp add: map_value_def flight_consts(5,6) chk32_widths chk32_Some)
qed

lemma map_value_throttle_percent:
  assumes "- 512 \<le> v" "v \<le> - 20"
  shows "\<exists>t. map_value v (- 20) (- 512) (flit f32 0) (flit f32 100) = Some t \<and> frange 0 100 t"
proof -
  have "(of_int (- 492) :: rat) \<le> of_int (v + 20)" "(of_int (v + 20) :: rat) \<le> of_int 0"
    using assms by (simp_all only: of_int_le_iff)
  then have "frange (- 492) 0 (fof_int f32 (v + 20))" by (intro fof_int_frange) simp_all
  then obtain s m where f: "fof_int f32 (v + 20) = FFin s m" "- 492 \<le> sval s m" "sval s m \<le> 0"
    by (auto elim!: frangeE)
  have "frange (- 49200) 0 (fmul f32 (fof_int f32 (v + 20)) (FFin False 100))"
    unfolding f(1) fmul.simps by (rule fround_frange) (use f in \<open>simp_all add: sval_def\<close>)
  then have "frange 0 100 (fdiv f32 (fmul f32 (fof_int f32 (v + 20)) (FFin False 100)) (FFin True 492))"
    by (rule fdiv_frange_negneg [where b = 492 and B = 492, rotated 2]) (simp_all add: sval_def)
  then have "frange 0 100 (fadd f32 (fdiv f32 (fmul f32 (fof_int f32 (v + 20)) (FFin False 100))
      (FFin True 492)) (flit f32 0))"
    by (rule fadd_frange [where c = 0 and d = 0, rotated 3]) simp_all
  moreover have "s32_ok (v + 20)" using assms by (simp add: s32_ok_def)
  ultimately show ?thesis
    by (simp add: map_value_def flight_consts chk32_widths chk32_Some)
qed

definition stick_range :: "int \<Rightarrow> bool" where
  "stick_range v \<longleftrightarrow> - 512 \<le> v \<and> v \<le> 511"

lemma stick_cmd_degrees:
  assumes "stick_range (bt_get v g)"
  shows "\<exists>d. (\<forall>k. run_reader g (stick_cmd v k) = run_reader g (k (Some d))) \<and> frange (- 30) 30 d \<and>
             (\<bar>bt_get v g\<bar> \<le> 20 \<longrightarrow> d = flit f32 0)"
proof (cases "\<bar>bt_get v g\<bar> \<le> 20")
  case True
  then show ?thesis by (intro exI [of _ "flit f32 0"]) (auto simp: stick_cmd_def Let_def)
next
  case False
  with map_value_stick_degrees [of "bt_get v g"] assms show ?thesis
    by (fastforce simp: stick_cmd_def Let_def stick_range_def)
qed

lemma throttle_cmd_percent:
  assumes "stick_range (bt_throttle g)"
  shows "\<exists>t. (\<forall>k. run_reader g (throttle_cmd k) = run_reader g (k (Some t))) \<and> frange 0 100 t \<and>
             (- 20 \<le> bt_throttle g \<longrightarrow> t = flit f32 0)"
proof (cases "- 20 \<le> bt_throttle g")
  case True
  then show ?thesis by (intro exI [of _ "flit f32 0"]) (auto simp: throttle_cmd_def)
next
  case False
  with map_value_throttle_percent [of "bt_throttle g"] assms show ?thesis
    by (fastforce simp: throttle_cmd_def stick_range_def)
qed

text \<open>
  C36. Stick scaling: for sticks in the range bluepad32 documents (-512..511) the loop computes a
  throttle within 0..100 percent and pitch and roll set points within \<open>\<plusminus>30\<close> degrees, through
  all single-precision roundings; inside the dead zone (20 counts) the commands are exactly 0.
\<close>

theorem stick_scaling:
  assumes "stick_range (bt_throttle g)" "stick_range (bt_pitch g)" "stick_range (bt_roll g)"
  shows "\<exists>t p r. run_reader g read_commands = Some (t, p, r) \<and>
     frange 0 100 t \<and> frange (- 30) 30 p \<and> frange (- 30) 30 r \<and>
     (- 20 \<le> bt_throttle g \<longrightarrow> t = flit f32 0) \<and>
     (\<bar>bt_pitch g\<bar> \<le> 20 \<longrightarrow> p = flit f32 0) \<and> (\<bar>bt_roll g\<bar> \<le> 20 \<longrightarrow> r = flit f32 0)"
  using throttle_cmd_percent [OF assms(1)] stick_cmd_degrees [of V_pitch g] stick_cmd_degrees [of V_roll g]
    assms(2,3)
  by (fastforce simp: read_commands_def)

theorem stick_scaling_witness:
  "run_reader \<lparr>bt_throttle = - 512, bt_yaw = 0, bt_pitch = - 512, bt_roll = 511\<rparr> read_commands =
     Some (FFin False 100, FFin True 30, FFin False 30) \<and>
   (\<exists>t p r. run_reader \<lparr>bt_throttle = - 300, bt_yaw = 0, bt_pitch = 20, bt_roll = 100\<rparr> read_commands =
      Some (t, p, r) \<and> frange 0 100 t \<and> p = flit f32 0 \<and> frange (- 30) 30 r)"
proof
  show "run_reader \<lparr>bt_throttle = - 512, bt_yaw = 0, bt_pitch = - 512, bt_roll = 511\<rparr> read_commands =
     Some (FFin False 100, FFin True 30, FFin False 30)"
    by code_simp
  show "\<exists>t p r. run_reader \<lparr>bt_throttle = - 300, bt_yaw = 0, bt_pitch = 20, bt_roll = 100\<rparr> read_commands =
      Some (t, p, r) \<and> frange 0 100 t \<and> p = flit f32 0 \<and> frange (- 30) 30 r"
    using stick_scaling [of "\<lparr>bt_throttle = - 300, bt_yaw = 0, bt_pitch = 20, bt_roll = 100\<rparr>"]
    by (auto simp: stick_range_def)
qed

subsection \<open>The mixer pushes the right way\<close>

lemma fround_mono:
  assumes "1 \<le> prec F" "frep F B" "- B \<le> x" "x \<le> y" "y \<le> B"
  shows "fval (fround F s x) \<le> fval (fround F t y)"
proof -
  have *: "fval (fround F s z) = (if z < 0 then - rnd_mag F (- z) else rnd_mag F z)"
    if "- B \<le> z" "z \<le> B" for s z
    using rnd_mag_frep_le(2) [OF assms(1,2), of "\<bar>z\<bar>"] that
    by (cases "z = 0") (auto simp: fround_def Let_def sval_def not_le)
  have "rnd_mag F x \<le> rnd_mag F y" if "0 \<le> x" using assms that by (intro rnd_mag_mono) auto
  moreover have "rnd_mag F (- y) \<le> rnd_mag F (- x)" if "y < 0" using assms that by (intro rnd_mag_mono) auto
  moreover have "- rnd_mag F (- x) \<le> rnd_mag F y"
    using rnd_mag_nonneg [of F "- x"] rnd_mag_nonneg [of F y] by linarith
  ultimately show ?thesis using assms by (auto simp: *)
qed

lemma fadd_mono:
  assumes "frange (- A) A u" "frange (- A) A u'" "frange (- B) B v" "frange (- B) B v'"
    and "fval u \<le> fval u'" "fval v \<le> fval v'" "frep f32 C" "A + B \<le> C"
  shows "fval (fadd f32 u v) \<le> fval (fadd f32 u' v')"
  using assms by (auto elim!: frangeE intro!: fround_mono [where B = C])

lemma clamp_mono:
  "frange a b u \<Longrightarrow> frange c d v \<Longrightarrow> fval u \<le> fval v \<Longrightarrow>
   fval (clamp u (flit f32 0) (flit f32 100)) \<le> fval (clamp v (flit f32 0) (flit f32 100))"
  by (auto elim!: frangeE simp: clamp_def flight_consts sval_def split: if_splits)

lemma fval_fneg [simp]: "fval (fneg v) = - fval v"
  by (cases v) (simp_all add: sval_def)

lemma mixed_mono:
  assumes "frange (- (2 ^ 30)) (2 ^ 30) t"
    and "frange (- 40) 40 a" "frange (- 40) 40 a'" "frange (- 40) 40 b" "frange (- 40) 40 b'"
    and "fval a \<le> fval a'" "fval b \<le> fval b'"
  shows "fval (clamp (fadd f32 (fadd f32 t a) b) (flit f32 0) (flit f32 100)) \<le>
         fval (clamp (fadd f32 (fadd f32 t a') b') (flit f32 0) (flit f32 100))"
proof -
  have s: "frange (- (2 ^ 31)) (2 ^ 31) (fadd f32 t x)" if "frange (- 40) 40 x" for x
    using fadd_frange [OF _ _ _ assms(1) that] by simp
  have u: "frange (- (2 ^ 32)) (2 ^ 32) (fadd f32 (fadd f32 t x) y)"
    if "frange (- 40) 40 x" "frange (- 40) 40 y" for x y
    using fadd_frange [OF _ _ _ s [OF that(1)] that(2)] by simp
  have "fval (fadd f32 t a) \<le> fval (fadd f32 t a')"
    by (rule fadd_mono [where A = "2 ^ 30" and B = 40 and C = "2 ^ 31"]) (use assms in simp_all)
  then have "fval (fadd f32 (fadd f32 t a) b) \<le> fval (fadd f32 (fadd f32 t a') b')"
    by (rule fadd_mono [OF s [OF assms(2)] s [OF assms(3)] assms(4,5) _ assms(7), where C = "2 ^ 32"])
       simp_all
  then show ?thesis by (intro clamp_mono [OF u u] assms(2-5))
qed

text \<open>
  C35. The mixer acts in the right direction: for every throttle and controller outputs within
  their limits, all four speeds are within 0..100, a non-negative pitch output never
  drives a rear motor faster than the front motor of its side, a non-negative roll output never
  drives a left motor faster than the right one of its pair, and symmetrically for negative
  outputs; rounding and clamping never reverse a correction.
\<close>

theorem mixer_direction:
  assumes "frange (- (2 ^ 30)) (2 ^ 30) t" "frange (- 40) 40 op" "frange (- 40) 40 orl"
    and "mixer t op orl = (fl, fr, bl, br)"
  shows "frange 0 100 fl \<and> frange 0 100 fr \<and> frange 0 100 bl \<and> frange 0 100 br \<and>
     (0 \<le> fval op \<longrightarrow> fval bl \<le> fval fl \<and> fval br \<le> fval fr) \<and>
     (fval op \<le> 0 \<longrightarrow> fval fl \<le> fval bl \<and> fval fr \<le> fval br) \<and>
     (0 \<le> fval orl \<longrightarrow> fval fl \<le> fval fr \<and> fval bl \<le> fval br) \<and>
     (fval orl \<le> 0 \<longrightarrow> fval fr \<le> fval fl \<and> fval br \<le> fval bl)"
proof -
  have n: "frange (- 40) 40 (fneg op)" "frange (- 40) 40 (fneg orl)" using assms(2,3) by simp_all
  note mono = mixed_mono [OF assms(1)]
  have m: "fl = clamp (fadd f32 (fadd f32 t op) (fneg orl)) (flit f32 0) (flit f32 100)"
    "fr = clamp (fadd f32 (fadd f32 t op) orl) (flit f32 0) (flit f32 100)"
    "bl = clamp (fadd f32 (fadd f32 t (fneg op)) (fneg orl)) (flit f32 0) (flit f32 100)"
    "br = clamp (fadd f32 (fadd f32 t (fneg op)) orl) (flit f32 0) (flit f32 100)"
    using assms(4) by (simp_all add: mixer_def fsub_def)
  show ?thesis
    by (intro conjI impI; (rule mixer_frange [OF assms])?)
       (auto simp only: m intro!: mono assms(2,3) n; simp)+
qed

theorem mixer_direction_witness:
  "(case mixer (FFin False 50) (FFin False 10) (FFin True 5) of (fl, fr, bl, br) \<Rightarrow>
     fval bl \<le> fval fl \<and> fval br \<le> fval fr \<and> fval fr \<le> fval fl \<and> fval br \<le> fval bl) \<and>
   mixer (FFin False 50) (FFin False 10) (FFin True 5) =
     (FFin False 65, FFin False 55, FFin False 45, FFin False 35)"
proof -
  have m: "mixer (FFin False 50) (FFin False 10) (FFin True 5) =
     (FFin False 65, FFin False 55, FFin False 45, FFin False 35)"
    by code_simp
  show ?thesis
    using mixer_direction [OF _ _ _ m] m by (simp add: sval_def)
qed

end
