(* ===== verification/BtHid.thy ===== *)
theory BtHid
  imports Prelude
begin

text \<open>
  BTstack's single-pass HID parser (\<^verbatim>\<open>btstack_hid_parser.c\<close>): the item iterator over a report
  descriptor, the usage iterator on top of it, and the extraction of fields from a report.
  Descriptor and report come over the air. \<open>None\<close> is a trap: a failed \<open>btstack_assert\<close>, a
  read outside the report or a shift by 32 and more; a signed left shift within the width wraps, as GCC
  defines it. Positions in the descriptor are natural numbers (a descriptor is at most 65535
  bytes long and positions never pass its end), all other counters keep their width.
\<close>

subsection \<open>Descriptor items\<close>

record hid_descriptor_item =
  item_value :: int
  item_size :: nat
  item_type :: nat
  item_tag :: nat
  data_size :: nat

abbreviation (input) "Main \<equiv> (0 :: nat)"
abbreviation (input) "Global \<equiv> (1 :: nat)"
abbreviation (input) "Local \<equiv> (2 :: nat)"

definition hid_item_sizes :: "nat list" where
  "hid_item_sizes = [0, 1, 2, 4]"

text \<open>The value loop: little-endian bytes, or-ed together at 32 bits.\<close>

fun item_bytes :: "u8 list \<Rightarrow> nat \<Rightarrow> u32w \<Rightarrow> u32w" where
  "item_bytes [] i value = value"
| "item_bytes (b # bs) i value = item_bytes bs (Suc i) (push_bit (8 * i) (ucast b) OR value)"

text \<open>
  The item header: data size, type, tag and the number of header bytes; \<open>None\<close> where the code
  returns false.
\<close>

definition item_header :: "u8 list \<Rightarrow> (nat \<times> nat \<times> nat \<times> nat) option" where
  "item_header d =
     (case d of
        [] \<Rightarrow> None
      | h # rest \<Rightarrow>
          let ds = hid_item_sizes ! unat (h AND 0x03);
              ty = unat (drop_bit 2 (h AND 0x0c));
              tg = unat (drop_bit 4 (h AND 0xf0))
          in if ds = 2 \<and> tg = 0x0f \<and> ty = 3
             then (case rest of b1 # b2 # _ \<Rightarrow> Some (unat b1, ty, unat b2, 3) | _ \<Rightarrow> None)
             else Some (ds, ty, tg, 1))"

definition item_signed :: "nat \<Rightarrow> nat \<Rightarrow> bool" where
  "item_signed ty tg \<longleftrightarrow> ty = Global \<and> tg > 0 \<and> tg < 5"

text \<open>
  \<open>Some None\<close> is the function's return value false. Subtracting \<^verbatim>\<open>1u << 32\<close> for a negative
  four-byte value traps.
\<close>

definition btstack_hid_descriptor_parse_item :: "u8 list \<Rightarrow> hid_descriptor_item option option" where
  "btstack_hid_descriptor_parse_item d =
     (case item_header d of
        None \<Rightarrow> Some None
      | Some (ds, ty, tg, pos) \<Rightarrow>
          if length d < pos + ds \<or> ds > 4 then Some None
          else
            let data = take ds (drop pos d);
                v = item_bytes data 0 0;
                neg = item_signed ty tg \<and> ds > 0 \<and> last data AND 0x80 \<noteq> 0
            in if neg \<and> ds = 4 then None
               else Some (Some \<lparr>item_value = sint (if neg then v - push_bit (8 * ds) 1 else v),
                                item_size = pos + ds, item_type = ty, item_tag = tg, data_size = ds\<rparr>))"

record hid_descriptor_iterator =
  descriptor :: "u8 list"
  descriptor_pos :: nat
  item_ready :: bool
  it_valid :: bool
  it_item :: hid_descriptor_item

definition item0 :: hid_descriptor_item where
  "item0 = \<lparr>item_value = 0, item_size = 0, item_type = 0, item_tag = 0, data_size = 0\<rparr>"

definition btstack_hid_descriptor_iterator_init :: "u8 list \<Rightarrow> hid_descriptor_iterator" where
  "btstack_hid_descriptor_iterator_init d =
     \<lparr>descriptor = d, descriptor_pos = 0, item_ready = False, it_valid = True, it_item = item0\<rparr>"

definition btstack_hid_descriptor_iterator_has_more ::
    "hid_descriptor_iterator \<Rightarrow> (bool \<times> hid_descriptor_iterator) option" where
  "btstack_hid_descriptor_iterator_has_more it =
     (if \<not> item_ready it \<and> length (descriptor it) > descriptor_pos it
      then (case btstack_hid_descriptor_parse_item (drop (descriptor_pos it) (descriptor it)) of
              None \<Rightarrow> None
            | Some (Some item) \<Rightarrow> Some (True, it\<lparr>it_item := item, item_ready := True\<rparr>)
            | Some None \<Rightarrow> Some (False, it\<lparr>it_valid := False\<rparr>))
      else Some (item_ready it, it))"

definition btstack_hid_descriptor_iterator_get_item ::
    "hid_descriptor_iterator \<Rightarrow> hid_descriptor_item \<times> hid_descriptor_iterator" where
  "btstack_hid_descriptor_iterator_get_item it =
     (it_item it, it\<lparr>descriptor_pos := descriptor_pos it + item_size (it_item it), item_ready := False\<rparr>)"

subsection \<open>Usages\<close>

datatype hid_report_type = HID_INPUT | HID_OUTPUT | HID_FEATURE

datatype usage_state = SCAN_FOR_REPORT_ITEM | USAGES_AVAILABLE | PARSER_COMPLETE

abbreviation (input) "HID_REPORT_ID_UNDEFINED \<equiv> (0xffff :: u16)"

record usage_iterator =
  ui_descriptor :: "u8 list"
  ui_iterator :: hid_descriptor_iterator
  ui_state :: usage_state
  ui_item :: hid_descriptor_item
  ui_report_type :: hid_report_type
  report_pos_in_bit :: u16
  usage_pos :: nat
  ui_usage_page :: u16
  usage_minimum :: u32w
  usage_maximum :: u32w
  available_usages :: u16
  required_usages :: u16
  usage_range :: bool
  global_logical_minimum :: int
  global_logical_maximum :: int
  global_usage_page :: u16
  global_report_size :: u8
  global_report_count :: u8
  global_report_id :: u16

definition main_item_tag_matches_report_type :: "nat \<Rightarrow> hid_report_type \<Rightarrow> bool" where
  "main_item_tag_matches_report_type tag rt =
     (if tag = 8 then rt = HID_INPUT
      else if tag = 9 then rt = HID_OUTPUT
      else if tag = 11 then rt = HID_FEATURE
      else False)"

definition handle_global_item :: "usage_iterator \<Rightarrow> hid_descriptor_item \<Rightarrow> usage_iterator option" where
  "handle_global_item it item =
     (let t = item_tag item; v = item_value item
      in if t = 0 then Some (it\<lparr>global_usage_page := word_of_int v\<rparr>)
         else if t = 1 then Some (it\<lparr>global_logical_minimum := v\<rparr>)
         else if t = 2 then Some (it\<lparr>global_logical_maximum := v\<rparr>)
         else if t = 7 then Some (it\<lparr>global_report_size := word_of_int v\<rparr>)
         else if t = 8 then Some (it\<lparr>global_report_id := word_of_int v\<rparr>)
         else if t = 9 then Some (it\<lparr>global_report_count := word_of_int v\<rparr>)
         else if t < 12 then Some it
         else None)"

text \<open>One item of the search for the next usage: the updated iterator and the two flags.\<close>

definition usage_search_item ::
    "hid_descriptor_item \<Rightarrow> usage_iterator \<times> bool \<times> bool \<Rightarrow> usage_iterator \<times> bool \<times> bool" where
  "usage_search_item item = (\<lambda>(m0, have_min, have_max).
     let m1 = (if item_type item = Global \<and> item_tag item = 0
               then m0\<lparr>ui_usage_page := word_of_int (item_value item)\<rparr> else m0)
     in if item_type item = Local
        then let value = (if data_size item > 2 then word_of_int (item_value item)
                          else push_bit 16 (ucast (ui_usage_page m1)) OR word_of_int (item_value item));
                 (m2, mn, mx) =
                   (if item_tag item = 0 then (m1\<lparr>available_usages := 1, usage_minimum := value\<rparr>, have_min, have_max)
                    else if item_tag item = 1 then (m1\<lparr>usage_minimum := value\<rparr>, True, have_max)
                    else if item_tag item = 2 then (m1\<lparr>usage_maximum := value\<rparr>, have_min, True)
                    else (m1, have_min, have_max))
             in (if mn \<and> mx
                 then m2\<lparr>available_usages := ucast (usage_maximum m2 - usage_minimum m2 + 1),
                         usage_range := True\<rparr>
                 else m2, mn, mx)
        else (m1, have_min, have_max))"

text \<open>Each step of an item loop reads a descriptor item or uses up the one that was ready.\<close>

lemma item_header_pos: "item_header d = Some (ds, ty, tg, pos) \<Longrightarrow> 0 < pos"
  by (auto simp: item_header_def Let_def split: list.splits if_splits)

lemma parse_item_size:
  "btstack_hid_descriptor_parse_item d = Some (Some item) \<Longrightarrow>
   0 < item_size item \<and> item_size item \<le> length d"
  by (auto simp: btstack_hid_descriptor_parse_item_def Let_def not_less dest!: item_header_pos
      split: option.splits prod.splits if_splits)

definition iter_left :: "hid_descriptor_iterator \<Rightarrow> nat" where
  "iter_left it = 2 * (length (descriptor it) - descriptor_pos it) + (if item_ready it then 1 else 0)"

lemma has_more_True:
  assumes "btstack_hid_descriptor_iterator_has_more it = Some (True, it')"
  shows "(item_ready it \<and> it' = it) \<or>
         (\<not> item_ready it \<and> descriptor_pos it < length (descriptor it) \<and> item_ready it' \<and>
          descriptor it' = descriptor it \<and> descriptor_pos it' = descriptor_pos it \<and>
          0 < item_size (it_item it') \<and>
          descriptor_pos it + item_size (it_item it') \<le> length (descriptor it))"
proof (cases "item_ready it \<or> \<not> descriptor_pos it < length (descriptor it)")
  case True
  with assms show ?thesis by (auto simp: btstack_hid_descriptor_iterator_has_more_def)
next
  case False
  then obtain item where "btstack_hid_descriptor_parse_item (drop (descriptor_pos it) (descriptor it)) =
      Some (Some item)" "it' = it\<lparr>it_item := item, item_ready := True\<rparr>"
    using assms by (auto simp: btstack_hid_descriptor_iterator_has_more_def split: option.splits)
  with False parse_item_size [of "drop (descriptor_pos it) (descriptor it)" item] show ?thesis
    by auto
qed

lemma iter_step_decreases:
  assumes "btstack_hid_descriptor_iterator_has_more it = Some (True, it')"
    and "btstack_hid_descriptor_iterator_get_item it' = (item, it'')"
  shows "iter_left it'' < iter_left it" and "descriptor it'' = descriptor it"
    and "descriptor_pos it \<le> descriptor_pos it''"
  using has_more_True [OF assms(1)] assms(2)
  by (auto simp: btstack_hid_descriptor_iterator_get_item_def iter_left_def)

function usage_search ::
    "hid_descriptor_iterator \<Rightarrow> usage_iterator \<times> bool \<times> bool \<Rightarrow> (usage_iterator \<times> nat) option" where
  "usage_search it (m, have_min, have_max) =
     (if available_usages m \<noteq> 0 then Some (m, descriptor_pos it)
      else (case btstack_hid_descriptor_iterator_has_more it of
              None \<Rightarrow> None
            | Some (has, it') \<Rightarrow>
                if \<not> has then Some (m, descriptor_pos it')
                else (case btstack_hid_descriptor_iterator_get_item it' of (item, it'') \<Rightarrow>
                        usage_search it'' (usage_search_item item (m, have_min, have_max)))))"
  by pat_completeness auto

termination usage_search
  by (relation "measure (\<lambda>(it, s). iter_left it)") (auto dest: iter_step_decreases(1) [OF _ sym])

definition usage_iterator_hid_find_next_usage :: "usage_iterator \<Rightarrow> usage_iterator option" where
  "usage_iterator_hid_find_next_usage m =
     (case usage_search
             (btstack_hid_descriptor_iterator_init (drop (usage_pos m) (ui_descriptor m)))
             (m\<lparr>usage_range := False\<rparr>, False, False) of
        None \<Rightarrow> None
      | Some (m', pos) \<Rightarrow> Some (m'\<lparr>usage_pos := usage_pos m' + pos\<rparr>))"

definition usage_iterator_process_item ::
    "usage_iterator \<Rightarrow> hid_descriptor_item \<Rightarrow> usage_iterator option" where
  "usage_iterator_process_item it item =
     (let finish = (\<lambda>it'.
            if odd (item_value item)
            then it'\<lparr>report_pos_in_bit := report_pos_in_bit it' +
                       ucast (global_report_size it') * ucast (global_report_count it')\<rparr>
            else if global_report_count it' = 0 then it'
            else it'\<lparr>required_usages := ucast (global_report_count it')\<rparr>)
      in if item_type item = Main
         then Some (if main_item_tag_matches_report_type (item_tag item) (ui_report_type it)
                    then finish it else it)
         else if item_type item = Global
         then (case handle_global_item it item of
                 None \<Rightarrow> None
               | Some it' \<Rightarrow>
                   Some (if global_report_id it \<noteq> global_report_id it'
                         then it'\<lparr>report_pos_in_bit := 0\<rparr> else it'))
         else Some it)"

definition after_process :: "usage_iterator \<Rightarrow> usage_iterator" where
  "after_process it =
     (if item_type (ui_item it) = Main
      then it\<lparr>usage_pos := descriptor_pos (ui_iterator it), ui_usage_page := global_usage_page it\<rparr>
      else it)"

text \<open>The scan for the next main item with usages, over the main descriptor iterator.\<close>

function usage_iterator_find_next_usage :: "usage_iterator \<Rightarrow> usage_iterator option" where
  "usage_iterator_find_next_usage it =
     (case btstack_hid_descriptor_iterator_has_more (ui_iterator it) of
        None \<Rightarrow> None
      | Some (has, di) \<Rightarrow>
          if \<not> has then Some (it\<lparr>ui_iterator := di, ui_state := PARSER_COMPLETE\<rparr>)
          else (case btstack_hid_descriptor_iterator_get_item di of (item, di') \<Rightarrow>
            case usage_iterator_process_item (it\<lparr>ui_iterator := di', ui_item := item\<rparr>) item of
              None \<Rightarrow> None
            | Some it1 \<Rightarrow>
                if required_usages it1 \<noteq> 0
                then (case usage_iterator_hid_find_next_usage it1 of
                        None \<Rightarrow> None
                      | Some it2 \<Rightarrow>
                          Some (it2\<lparr>ui_state := if available_usages it2 \<noteq> 0 then USAGES_AVAILABLE
                                                else PARSER_COMPLETE\<rparr>))
                else usage_iterator_find_next_usage (after_process it1)))"
  by pat_completeness auto

lemma handle_global_item_iterator [simp]:
  "handle_global_item it item = Some it' \<Longrightarrow>
   ui_iterator it' = ui_iterator it \<and> ui_descriptor it' = ui_descriptor it \<and> ui_item it' = ui_item it \<and>
   usage_pos it' = usage_pos it \<and> ui_state it' = ui_state it"
  by (auto simp: handle_global_item_def Let_def split: if_splits)

lemma process_item_iterator:
  "usage_iterator_process_item it item = Some it' \<Longrightarrow>
   ui_iterator it' = ui_iterator it \<and> ui_descriptor it' = ui_descriptor it \<and> ui_item it' = ui_item it \<and>
   usage_pos it' = usage_pos it \<and> ui_state it' = ui_state it"
  by (auto simp: usage_iterator_process_item_def Let_def split: if_splits option.splits)

lemma after_process_iterator [simp]:
  "ui_iterator (after_process it) = ui_iterator it" "ui_descriptor (after_process it) = ui_descriptor it"
  "ui_state (after_process it) = ui_state it" "ui_item (after_process it) = ui_item it"
  by (simp_all add: after_process_def)

termination usage_iterator_find_next_usage
proof (relation "measure (\<lambda>it. iter_left (ui_iterator it))")
  fix it has di item di' it1 x
  assume "btstack_hid_descriptor_iterator_has_more (ui_iterator it) = Some x" "(has, di) = x" "\<not> \<not> has"
    "(item, di') = btstack_hid_descriptor_iterator_get_item di"
    "usage_iterator_process_item (it\<lparr>ui_iterator := di', ui_item := item\<rparr>) item = Some it1"
  then show "(after_process it1, it) \<in> measure (\<lambda>it. iter_left (ui_iterator it))"
    using iter_step_decreases(1) [of "ui_iterator it" di item di']
      process_item_iterator [of "it\<lparr>ui_iterator := di', ui_item := item\<rparr>" item it1] by auto
qed simp

declare usage_iterator_find_next_usage.simps [simp del]

definition btstack_hid_usage_iterator_init :: "u8 list \<Rightarrow> hid_report_type \<Rightarrow> usage_iterator" where
  "btstack_hid_usage_iterator_init d rt =
     \<lparr>ui_descriptor = d, ui_iterator = btstack_hid_descriptor_iterator_init d,
      ui_state = SCAN_FOR_REPORT_ITEM, ui_item = item0, ui_report_type = rt, report_pos_in_bit = 0,
      usage_pos = 0, ui_usage_page = 0, usage_minimum = 0, usage_maximum = 0, available_usages = 0,
      required_usages = 0, usage_range = False, global_logical_minimum = 0, global_logical_maximum = 0,
      global_usage_page = 0, global_report_size = 0, global_report_count = 0,
      global_report_id = HID_REPORT_ID_UNDEFINED\<rparr>"

text \<open>
  \<^verbatim>\<open>while (state == SCAN) find_next_usage\<close>: the search leaves the scanning state, so the loop
  body runs at most once (\<open>find_next_usage_state\<close>).
\<close>

definition btstack_hid_usage_iterator_has_more :: "usage_iterator \<Rightarrow> (bool \<times> usage_iterator) option" where
  "btstack_hid_usage_iterator_has_more it =
     (if ui_state it = SCAN_FOR_REPORT_ITEM
      then map_option (\<lambda>it'. (ui_state it' = USAGES_AVAILABLE, it')) (usage_iterator_find_next_usage it)
      else Some (ui_state it = USAGES_AVAILABLE, it))"

record hid_usage_item =
  u_report_id :: u16
  u_bit_pos :: u16
  u_usage_page :: u16
  u_usage :: u16
  u_size :: u8
  u_item :: hid_descriptor_item
  u_logical_minimum :: int

definition is_variable :: "hid_descriptor_item \<Rightarrow> bool" where
  "is_variable item \<longleftrightarrow> bit (item_value item) 1"

text \<open>The counters after one usage has been handed out.\<close>

definition usage_consumed :: "usage_iterator \<Rightarrow> usage_iterator" where
  "usage_consumed it =
     (let it1 = it\<lparr>required_usages := required_usages it - 1,
                   report_pos_in_bit := report_pos_in_bit it + ucast (global_report_size it)\<rparr>
      in if is_variable (ui_item it)
         then let it2 = it1\<lparr>usage_minimum := usage_minimum it1 + 1,
                            available_usages := available_usages it1 - 1\<rparr>
              in if usage_range it2 \<and> usage_minimum it2 > usage_maximum it2
                 then it2\<lparr>report_pos_in_bit := report_pos_in_bit it2 +
                            ucast (global_report_size it2) * required_usages it2,
                          required_usages := 0\<rparr>
                 else it2
         else if required_usages it1 = 0 then it1\<lparr>available_usages := 0\<rparr> else it1)"

definition btstack_hid_usage_iterator_get_item ::
    "usage_iterator \<Rightarrow> (hid_usage_item \<times> usage_iterator) option" where
  "btstack_hid_usage_iterator_get_item it =
     (let item = \<lparr>u_report_id = global_report_id it, u_bit_pos = report_pos_in_bit it,
                  u_usage_page = ucast (drop_bit 16 (usage_minimum it)),
                  u_usage = (if is_variable (ui_item it) then ucast (usage_minimum it) else 0),
                  u_size = global_report_size it, u_item = ui_item it,
                  u_logical_minimum = global_logical_minimum it\<rparr>;
          it' = usage_consumed it
      in if available_usages it' \<noteq> 0 then Some (item, it')
         else if required_usages it' = 0 then Some (item, it'\<lparr>ui_state := SCAN_FOR_REPORT_ITEM\<rparr>)
         else (case usage_iterator_hid_find_next_usage it' of
                 None \<Rightarrow> None
               | Some it2 \<Rightarrow>
                   Some (item, if available_usages it2 = 0 then it2\<lparr>ui_state := PARSER_COMPLETE\<rparr>
                               else it2)))"

subsection \<open>Every usage makes progress\<close>

definition keeps_scan :: "usage_iterator \<Rightarrow> usage_iterator \<Rightarrow> bool" where
  "keeps_scan a b \<longleftrightarrow> ui_iterator b = ui_iterator a \<and> ui_descriptor b = ui_descriptor a \<and>
     ui_item b = ui_item a \<and> ui_state b = ui_state a \<and> usage_pos b = usage_pos a \<and>
     required_usages b = required_usages a \<and> ui_report_type b = ui_report_type a \<and>
     global_report_size b = global_report_size a \<and> global_report_id b = global_report_id a \<and>
     report_pos_in_bit b = report_pos_in_bit a"

lemma usage_search_item_keeps:
  "usage_search_item item (m, a, b) = (m', a', b') \<Longrightarrow> keeps_scan m m'"
  by (auto simp: usage_search_item_def keeps_scan_def Let_def split: if_splits)

lemma keeps_scan_trans: "keeps_scan a b \<Longrightarrow> keeps_scan b c \<Longrightarrow> keeps_scan a c"
  by (simp add: keeps_scan_def)

lemma usage_search_keeps:
  "usage_search it (m, a, b) = Some (m', pos) \<Longrightarrow> keeps_scan m m' \<and> descriptor_pos it \<le> pos \<and>
   (available_usages m = 0 \<and> available_usages m' \<noteq> 0 \<longrightarrow> \<not> item_ready it \<longrightarrow>
      descriptor_pos it < pos \<and> descriptor_pos it < length (descriptor it))"
proof (induction it "(m, a, b)" arbitrary: m a b rule: usage_search.induct)
  case (1 it m a b)
  show ?case
  proof (cases "available_usages m \<noteq> 0")
    case True
    with "1.prems" show ?thesis by (simp add: keeps_scan_def)
  next
    case False
    then obtain has it' where h: "btstack_hid_descriptor_iterator_has_more it = Some (has, it')"
      using "1.prems" by (auto split: option.splits)
    show ?thesis
    proof (cases has)
      case False
      with h "1.prems" \<open>\<not> available_usages m \<noteq> 0\<close> show ?thesis
        by (auto simp: keeps_scan_def btstack_hid_descriptor_iterator_has_more_def
            split: if_splits option.splits)
    next
      case True
      have h': "btstack_hid_descriptor_iterator_has_more it = Some (True, it')" using h True by simp
      obtain item it'' where g: "btstack_hid_descriptor_iterator_get_item it' = (item, it'')" by fastforce
      obtain m1 a1 b1 where u: "usage_search_item item (m, a, b) = (m1, a1, b1)"
        by (cases "usage_search_item item (m, a, b)") auto
      have s: "usage_search it'' (m1, a1, b1) = Some (m', pos)"
        using "1.prems" \<open>\<not> available_usages m \<noteq> 0\<close> h True g u by simp
      have "keeps_scan m1 m' \<and> descriptor_pos it'' \<le> pos"
        using "1.hyps" [OF _ h refl _ g [symmetric] u s] False True by simp
      then show ?thesis
        using usage_search_item_keeps [OF u] keeps_scan_trans has_more_True [OF h'] g True
        by (auto simp: btstack_hid_descriptor_iterator_get_item_def)
    qed
  qed
qed

definition usage_left :: "(usage_iterator \<times> usage_iterator) set" where
  "usage_left = measures
     [\<lambda>it. iter_left (ui_iterator it),
      \<lambda>it. if ui_state it = USAGES_AVAILABLE then 1 else 0,
      \<lambda>it. length (ui_descriptor it) - usage_pos it,
      \<lambda>it. if is_variable (ui_item it) then unat (available_usages it - 1) else unat (required_usages it - 1)]"

lemma wf_usage_left: "wf usage_left"
  by (simp add: usage_left_def)

lemma hid_find_next_usage_keeps:
  assumes "usage_iterator_hid_find_next_usage m = Some m'"
  shows "ui_iterator m' = ui_iterator m" "ui_descriptor m' = ui_descriptor m" "ui_state m' = ui_state m"
    "ui_item m' = ui_item m" "required_usages m' = required_usages m"
    "available_usages m = 0 \<Longrightarrow> available_usages m' \<noteq> 0 \<Longrightarrow>
     length (ui_descriptor m') - usage_pos m' < length (ui_descriptor m) - usage_pos m"
proof -
  obtain k pos where s: "usage_search
      (btstack_hid_descriptor_iterator_init (drop (usage_pos m) (ui_descriptor m)))
      (m\<lparr>usage_range := False\<rparr>, False, False) = Some (k, pos)" "m' = k\<lparr>usage_pos := usage_pos k + pos\<rparr>"
    using assms by (auto simp: usage_iterator_hid_find_next_usage_def split: option.splits)
  from usage_search_keeps [OF s(1)] s(2)
  show "ui_iterator m' = ui_iterator m" "ui_descriptor m' = ui_descriptor m" "ui_state m' = ui_state m"
    "ui_item m' = ui_item m" "required_usages m' = required_usages m"
    "available_usages m = 0 \<Longrightarrow> available_usages m' \<noteq> 0 \<Longrightarrow>
     length (ui_descriptor m') - usage_pos m' < length (ui_descriptor m) - usage_pos m"
    by (auto simp: keeps_scan_def btstack_hid_descriptor_iterator_init_def)
qed

lemma find_next_usage_progress:
  "usage_iterator_find_next_usage it = Some it' \<Longrightarrow>
   ui_state it' \<noteq> SCAN_FOR_REPORT_ITEM \<and>
   (ui_state it' = USAGES_AVAILABLE \<longrightarrow> iter_left (ui_iterator it') < iter_left (ui_iterator it))"
proof (induction it rule: usage_iterator_find_next_usage.induct)
  case (1 it)
  obtain has di where h: "btstack_hid_descriptor_iterator_has_more (ui_iterator it) = Some (has, di)"
    using "1.prems" by (subst (asm) usage_iterator_find_next_usage.simps) (auto split: option.splits)
  show ?case
  proof (cases has)
    case False
    with h "1.prems" show ?thesis by (subst (asm) usage_iterator_find_next_usage.simps) auto
  next
    case True
    obtain item di' where g: "btstack_hid_descriptor_iterator_get_item di = (item, di')" by fastforce
    have lt: "iter_left di' < iter_left (ui_iterator it)"
      by (rule iter_step_decreases(1) [OF _ g]) (use h True in simp)
    obtain it1 where p: "usage_iterator_process_item (it\<lparr>ui_iterator := di', ui_item := item\<rparr>) item = Some it1"
      using h True g "1.prems"
      by (subst (asm) usage_iterator_find_next_usage.simps) (auto split: option.splits)
    from process_item_iterator [OF p] have i: "ui_iterator it1 = di'" by simp
    show ?thesis
    proof (cases "required_usages it1 = 0")
      case True
      then have "usage_iterator_find_next_usage (after_process it1) = Some it'"
        using h \<open>has\<close> g p "1.prems" by (subst (asm) usage_iterator_find_next_usage.simps) simp
      with "1.IH" [OF h refl _ g [symmetric] p] \<open>has\<close> True lt i show ?thesis by auto
    next
      case False
      then obtain it2 where "usage_iterator_hid_find_next_usage it1 = Some it2"
          "it' = it2\<lparr>ui_state := if available_usages it2 \<noteq> 0 then USAGES_AVAILABLE else PARSER_COMPLETE\<rparr>"
        using h \<open>has\<close> g p "1.prems"
        by (subst (asm) usage_iterator_find_next_usage.simps) (auto split: option.splits)
      then show ?thesis using hid_find_next_usage_keeps(1) lt i by simp
    qed
  qed
qed

lemma unat_minus_one_less: "(w :: u16) - 1 \<noteq> 0 \<Longrightarrow> unat (w - 1 - 1) < unat (w - 1)"
  by (metis unat_minus_one unat_gt_0 word_neq_0_conv diff_less zero_less_one)

lemma usage_consumed_keeps:
  "ui_iterator (usage_consumed it) = ui_iterator it" "ui_descriptor (usage_consumed it) = ui_descriptor it"
  "ui_state (usage_consumed it) = ui_state it" "ui_item (usage_consumed it) = ui_item it"
  "usage_pos (usage_consumed it) = usage_pos it"
  by (simp_all add: usage_consumed_def Let_def)

lemma usage_consumed_counts:
  "is_variable (ui_item it) \<Longrightarrow> available_usages (usage_consumed it) = available_usages it - 1"
  "\<not> is_variable (ui_item it) \<Longrightarrow> available_usages (usage_consumed it) \<noteq> 0 \<Longrightarrow>
   required_usages (usage_consumed it) = required_usages it - 1 \<and> required_usages it - 1 \<noteq> 0"
  by (auto simp: usage_consumed_def Let_def split: if_splits)

lemma get_item_progress:
  assumes "ui_state it = USAGES_AVAILABLE" "btstack_hid_usage_iterator_get_item it = Some (item, it')"
  shows "(it', it) \<in> usage_left"
proof (cases "available_usages (usage_consumed it) = 0")
  case False
  with assms have "it' = usage_consumed it" by (simp add: btstack_hid_usage_iterator_get_item_def Let_def)
  then show ?thesis
    using False usage_consumed_counts [of it] unat_minus_one_less
    by (cases "is_variable (ui_item it)") (auto simp: usage_left_def usage_consumed_keeps)
next
  case True
  show ?thesis
  proof (cases "required_usages (usage_consumed it) = 0")
    case True
    with \<open>available_usages (usage_consumed it) = 0\<close> assms show ?thesis
      by (auto simp: btstack_hid_usage_iterator_get_item_def Let_def usage_left_def usage_consumed_keeps)
  next
    case False
    with True assms obtain it2 where n: "usage_iterator_hid_find_next_usage (usage_consumed it) = Some it2"
        "it' = (if available_usages it2 = 0 then it2\<lparr>ui_state := PARSER_COMPLETE\<rparr> else it2)"
      by (auto simp: btstack_hid_usage_iterator_get_item_def Let_def split: option.splits)
    with hid_find_next_usage_keeps [OF n(1)] True assms(1) show ?thesis
      by (auto simp: usage_left_def usage_consumed_keeps)
  qed
qed

lemma usage_step_progress:
  assumes "btstack_hid_usage_iterator_has_more it = Some (True, it')"
    and "btstack_hid_usage_iterator_get_item it' = Some (item, it'')"
  shows "(it'', it) \<in> usage_left\<^sup>+"
proof (cases "ui_state it = SCAN_FOR_REPORT_ITEM")
  case True
  with assms(1) have n: "usage_iterator_find_next_usage it = Some it'" "ui_state it' = USAGES_AVAILABLE"
    by (auto simp: btstack_hid_usage_iterator_has_more_def)
  with find_next_usage_progress have "(it', it) \<in> usage_left" by (auto simp: usage_left_def)
  with get_item_progress [OF n(2) assms(2)] show ?thesis by (meson r_into_trancl trancl_trans)
next
  case False
  with assms(1) have "ui_state it = USAGES_AVAILABLE" "it' = it"
    by (auto simp: btstack_hid_usage_iterator_has_more_def)
  then show ?thesis using get_item_progress assms(2) by blast
qed

subsection \<open>Fields of a report\<close>

text \<open>
  \<^verbatim>\<open>btstack_hid_parser_has_more\<close> with no usage ready: the next usage whose report id is the
  report's first byte, or undeclared. Reading the first byte of an empty report traps.
\<close>

function parser_has_more ::
    "u8 list \<Rightarrow> usage_iterator \<Rightarrow> (hid_usage_item option \<times> usage_iterator) option" where
  "parser_has_more report it =
     (case btstack_hid_usage_iterator_has_more it of
        None \<Rightarrow> None
      | Some (has, it') \<Rightarrow>
          if \<not> has then Some (None, it')
          else (case btstack_hid_usage_iterator_get_item it' of
                  None \<Rightarrow> None
                | Some (item, it'') \<Rightarrow>
                    if u_report_id item \<noteq> HID_REPORT_ID_UNDEFINED
                    then (case report of
                            [] \<Rightarrow> None
                          | r0 # _ \<Rightarrow>
                              if u_report_id item \<noteq> ucast r0 then parser_has_more report it''
                              else Some (Some item, it''))
                    else Some (Some item, it'')))"
  by pat_completeness auto

termination parser_has_more
  by (relation "inv_image (usage_left\<^sup>+) snd")
     (auto simp: wf_trancl wf_usage_left intro: usage_step_progress)

declare parser_has_more.simps [simp del]

text \<open>The byte loop of the field extraction: reads past the report and shifts by 32 bits trap.\<close>

fun field_bytes :: "nat \<Rightarrow> u8 list \<Rightarrow> nat \<Rightarrow> nat \<Rightarrow> u32w \<Rightarrow> u32w option" where
  "field_bytes 0 report pos i acc = Some acc"
| "field_bytes (Suc n) report pos i acc =
     (if pos + i < length report \<and> i < 4
      then field_bytes n report pos (Suc i) (acc OR push_bit (8 * i) (ucast (report ! (pos + i))))
      else None)"

definition btstack_hid_parser_get_field :: "hid_usage_item \<Rightarrow> u8 list \<Rightarrow> (u16 \<times> u16 \<times> int) option" where
  "btstack_hid_parser_get_field item report =
     (let bit_pos = (if u_report_id item \<noteq> HID_REPORT_ID_UNDEFINED then u_bit_pos item + 8 else u_bit_pos item);
          size = unat (u_size item);
          signed = u_logical_minimum item < 0;
          pos_start = min (unat bit_pos div 8) (length report);
          pos_end = min (unat (ucast bit_pos + of_nat size - 1 :: u32w) div 8) (length report)
      in (case field_bytes (Suc pos_end - pos_start) report pos_start 0 0 of
            None \<Rightarrow> None
          | Some v \<Rightarrow>
              if size \<ge> 32 then None
              else
                let u = drop_bit (unat bit_pos mod 8) v AND (push_bit size 1 - 1)
                in if is_variable (u_item item)
                   then if signed
                        then if size = 0 then None
                             else Some (u_usage_page item, u_usage item,
                                    sint (if bit u (size - 1) then u - push_bit size 1 else u))
                        else Some (u_usage_page item, u_usage item, sint u)
                   else Some (u_usage_page item, ucast u, 1)))"

record hid_globals =
  logical_minimum :: int
  logical_maximum :: int
  usage_page :: u16
  report_size :: u8
  report_count :: u8
  report_id :: u8

definition globals_of :: "usage_iterator \<Rightarrow> hid_globals" where
  "globals_of it =
     \<lparr>logical_minimum = global_logical_minimum it, logical_maximum = global_logical_maximum it,
      usage_page = global_usage_page it, report_size = global_report_size it,
      report_count = global_report_count it, report_id = ucast (global_report_id it)\<rparr>"

lemma parser_has_more_progress:
  "parser_has_more report it = Some (Some item, it') \<Longrightarrow> (it', it) \<in> usage_left\<^sup>+"
proof (induction report it rule: parser_has_more.induct)
  case (1 report it)
  obtain ia where h: "btstack_hid_usage_iterator_has_more it = Some (True, ia)"
    using "1.prems" by (subst (asm) parser_has_more.simps) (auto split: option.splits if_splits)
  obtain item1 ib where g: "btstack_hid_usage_iterator_get_item ia = Some (item1, ib)"
    using "1.prems" h by (subst (asm) parser_has_more.simps) (auto split: option.splits)
  note step = usage_step_progress [OF h g]
  show ?case
  proof (cases "\<exists>r0 rs. report = r0 # rs \<and> u_report_id item1 \<noteq> HID_REPORT_ID_UNDEFINED \<and> u_report_id item1 \<noteq> ucast r0")
    case True
    then obtain r0 rs where r: "report = r0 # rs" "u_report_id item1 \<noteq> HID_REPORT_ID_UNDEFINED"
        "u_report_id item1 \<noteq> ucast r0" by blast
    then have "parser_has_more report ib = Some (Some item, it')"
      using "1.prems" h g by (subst (asm) parser_has_more.simps) simp
    with "1.IH" [OF h refl _ g refl r(2) r(1) r(3)] step show ?thesis by auto
  next
    case False
    then have "it' = ib"
      using "1.prems" h g
      by (subst (asm) parser_has_more.simps) (auto split: list.splits if_splits)
    with step show ?thesis by simp
  qed
qed

text \<open>
  The loop of \<open>uni_hid_parse_input_report\<close> over the fields of a report: for each field the globals
  at that moment, the usage page, the usage and the value, in order.
\<close>

function report_fields ::
    "u8 list \<Rightarrow> usage_iterator \<Rightarrow> (hid_globals \<times> u16 \<times> u16 \<times> int) list option" where
  "report_fields report it =
     (case parser_has_more report it of
        None \<Rightarrow> None
      | Some (None, it') \<Rightarrow> Some []
      | Some (Some item, it') \<Rightarrow>
          (case btstack_hid_parser_get_field item report of
             None \<Rightarrow> None
           | Some (page, usage, value) \<Rightarrow>
               map_option (Cons (globals_of it', page, usage, value)) (report_fields report it')))"
  by pat_completeness auto

termination report_fields
  by (relation "inv_image (usage_left\<^sup>+) snd")
     (auto simp: wf_trancl wf_usage_left intro: parser_has_more_progress)

declare report_fields.simps [simp del]

definition btstack_hid_parser_fields :: "u8 list \<Rightarrow> hid_report_type \<Rightarrow> u8 list \<Rightarrow>
    (hid_globals \<times> u16 \<times> u16 \<times> int) list option" where
  "btstack_hid_parser_fields d rt report = report_fields report (btstack_hid_usage_iterator_init d rt)"

subsection \<open>Utility functions\<close>

record size_state =
  total_report_size :: int
  sz_report_size :: int
  sz_report_count :: int
  sz_current_id :: int

definition report_size_item ::
    "u16 \<Rightarrow> hid_report_type \<Rightarrow> hid_descriptor_item \<Rightarrow> size_state \<Rightarrow> size_state option" where
  "report_size_item rid rt item s =
     (if item_type item = Global
      then Some (if item_tag item = 8 then s\<lparr>sz_current_id := item_value item\<rparr>
                 else if item_tag item = 9 then s\<lparr>sz_report_count := item_value item\<rparr>
                 else if item_tag item = 7 then s\<lparr>sz_report_size := item_value item\<rparr>
                 else s)
      else if item_type item = Main \<and> sz_current_id s = uint rid \<and>
              main_item_tag_matches_report_type (item_tag item) rt
      then do {
        p \<leftarrow> chk32 (sz_report_count s * sz_report_size s);
        t \<leftarrow> chk32 (total_report_size s + p);
        Some (s\<lparr>total_report_size := t\<rparr>)
      }
      else Some s)"

function report_size_loop ::
    "u16 \<Rightarrow> hid_report_type \<Rightarrow> hid_descriptor_iterator \<Rightarrow> size_state \<Rightarrow>
     (size_state \<times> hid_descriptor_iterator) option" where
  "report_size_loop rid rt it s =
     (case btstack_hid_descriptor_iterator_has_more it of
        None \<Rightarrow> None
      | Some (has, it') \<Rightarrow>
          if \<not> has then Some (s, it')
          else (case btstack_hid_descriptor_iterator_get_item it' of (item, it'') \<Rightarrow>
                  case report_size_item rid rt item s of
                    None \<Rightarrow> None
                  | Some s' \<Rightarrow>
                      if total_report_size s' > 0 \<and> sz_current_id s' \<noteq> uint rid then Some (s', it'')
                      else report_size_loop rid rt it'' s'))"
  by pat_completeness auto

termination report_size_loop
  by (relation "measure (\<lambda>(rid, rt, it, s). iter_left it)") (auto dest: iter_step_decreases(1) [OF _ sym])

definition btstack_hid_get_report_size_for_id :: "u16 \<Rightarrow> hid_report_type \<Rightarrow> u8 list \<Rightarrow> int option" where
  "btstack_hid_get_report_size_for_id rid rt d =
     (case report_size_loop rid rt (btstack_hid_descriptor_iterator_init d)
             \<lparr>total_report_size = 0, sz_report_size = 0, sz_report_count = 0, sz_current_id = 0xffff\<rparr> of
        None \<Rightarrow> None
      | Some (s, it) \<Rightarrow>
          if it_valid it then map_option (\<lambda>t. cdiv t 8) (chk32 (total_report_size s + 7)) else Some 0)"

datatype report_id_status = ID_VALID | ID_UNDECLARED | ID_INVALID

function report_id_loop ::
    "u16 \<Rightarrow> hid_descriptor_iterator \<Rightarrow> u16 \<Rightarrow> bool \<Rightarrow> (u16 \<times> bool \<times> hid_descriptor_iterator) option" where
  "report_id_loop rid it cur found =
     (case btstack_hid_descriptor_iterator_has_more it of
        None \<Rightarrow> None
      | Some (has, it') \<Rightarrow>
          if \<not> has then Some (cur, found, it')
          else (case btstack_hid_descriptor_iterator_get_item it' of (item, it'') \<Rightarrow>
                  if item_type item = Global \<and> item_tag item = 8
                  then let cur' = word_of_int (item_value item)
                       in report_id_loop rid it'' cur' (found \<or> cur' = rid)
                  else report_id_loop rid it'' cur found))"
  by pat_completeness auto

termination report_id_loop
  by (relation "measure (\<lambda>(rid, it, c, f). iter_left it)") (auto dest: iter_step_decreases(1) [OF _ sym])

definition btstack_hid_report_id_valid :: "u16 \<Rightarrow> u8 list \<Rightarrow> report_id_status option" where
  "btstack_hid_report_id_valid rid d =
     (case report_id_loop rid (btstack_hid_descriptor_iterator_init d) HID_REPORT_ID_UNDEFINED False of
        None \<Rightarrow> None
      | Some (cur, found, it) \<Rightarrow>
          Some (if it_valid it
                then (if found then ID_VALID
                      else if rid = HID_REPORT_ID_UNDEFINED \<and> cur = HID_REPORT_ID_UNDEFINED then ID_VALID
                      else ID_UNDECLARED)
                else ID_INVALID))"

function report_id_declared_loop :: "hid_descriptor_iterator \<Rightarrow> bool option" where
  "report_id_declared_loop it =
     (case btstack_hid_descriptor_iterator_has_more it of
        None \<Rightarrow> None
      | Some (has, it') \<Rightarrow>
          if \<not> has then Some False
          else (case btstack_hid_descriptor_iterator_get_item it' of (item, it'') \<Rightarrow>
                  if item_type item = Global \<and> item_tag item = 8 then Some True
                  else report_id_declared_loop it''))"
  by pat_completeness auto

termination report_id_declared_loop
  by (relation "measure iter_left") (auto dest: iter_step_decreases(1) [OF _ sym])

declare report_size_loop.simps [simp del]
declare report_id_loop.simps [simp del]
declare report_id_declared_loop.simps [simp del]

definition btstack_hid_report_id_declared :: "u8 list \<Rightarrow> bool option" where
  "btstack_hid_report_id_declared d = report_id_declared_loop (btstack_hid_descriptor_iterator_init d)"

end
