(* ===== verification/BtHidFields.thy ===== *)
theory BtHidFields
  imports BtHid
begin

text \<open>
  What the HID parser extracts: a field is exactly its bits of the report, a report shorter than
  the descriptor promises makes the parser read past its end, item values survive encoding, and a
  usage range larger than the report count yields usages that are not in the report.
\<close>

subsection \<open>Extracted fields are the report's bits\<close>

definition report_bit :: "u8 list \<Rightarrow> nat \<Rightarrow> bool" where
  "report_bit report k \<longleftrightarrow> bit (report ! (k div 8)) (k mod 8)"

lemma field_bytes_bits:
  assumes "pos + i + n \<le> length report" "i + n \<le> 4"
  shows "\<exists>v. field_bytes n report pos i acc = Some v \<and>
     (\<forall>j. bit v j \<longleftrightarrow> bit acc j \<or> (8 * i \<le> j \<and> j < 8 * (i + n) \<and> bit (report ! (pos + j div 8)) (j mod 8)))"
  using assms
proof (induction n arbitrary: i acc)
  case (Suc n)
  let ?a = "acc OR push_bit (8 * i) (ucast (report ! (pos + i)) :: u32w)"
  have a: "bit ?a j \<longleftrightarrow> bit acc j \<or> (8 * i \<le> j \<and> j < 8 * (i + 1) \<and> bit (report ! (pos + j div 8)) (j mod 8))" for j
  proof -
    have "j div 8 = i \<and> j mod 8 = j - 8 * i" if "8 * i \<le> j" "j < 8 * (i + 1)"
      using that by (auto simp: div_nat_eqI modulo_nat_def)
    moreover have "bit (report ! (pos + i)) (j - 8 * i) \<Longrightarrow> j - 8 * i < 8"
      by (auto dest: bit_imp_le_length)
    ultimately show ?thesis
      using Suc.prems by (auto simp: bit_or_iff bit_push_bit_iff bit_ucast_iff)
  qed
  obtain v where v: "field_bytes n report pos (Suc i) ?a = Some v"
     "\<And>j. bit v j \<longleftrightarrow> bit ?a j \<or> (8 * Suc i \<le> j \<and> j < 8 * (Suc i + n) \<and> bit (report ! (pos + j div 8)) (j mod 8))"
    using Suc.IH [of "Suc i" ?a] Suc.prems by auto
  have lt: "pos + i < length report" "i < 4" using Suc.prems by auto
  have r: "8 * i \<le> j \<and> j < 8 * (i + Suc n) \<longleftrightarrow>
      8 * i \<le> j \<and> j < 8 * (i + 1) \<or> 8 * Suc i \<le> j \<and> j < 8 * (Suc i + n)" for j
    by auto
  have "bit v j \<longleftrightarrow> bit acc j \<or> (8 * i \<le> j \<and> j < 8 * (i + Suc n) \<and> bit (report ! (pos + j div 8)) (j mod 8))" for j
    using v(2) [of j] a [of j] r [of j] by blast
  with v(1) lt show ?case by simp
qed auto

text \<open>The bit position of a field in the report, after the optional report id.\<close>

definition field_pos :: "hid_usage_item \<Rightarrow> nat" where
  "field_pos item = unat (if u_report_id item \<noteq> HID_REPORT_ID_UNDEFINED then u_bit_pos item + 8
                          else u_bit_pos item)"

lemma field_end_pos:
  assumes "1 \<le> n" "n < 256"
  shows "unat (ucast (w :: u16) + of_nat n - 1 :: u32w) = unat w + n - 1"
proof -
  have "unat w < 65536" using unsigned_less [of w, where 'a = nat] by simp
  moreover have "ucast w + of_nat n - 1 = (of_nat (unat w + n - 1) :: u32w)"
    using assms by (simp add: of_nat_diff)
  ultimately show ?thesis using assms by (simp only: unat_of_nat) simp
qed

lemma bit_low_mask: "n < 32 \<Longrightarrow> bit (2 ^ n - 1 :: u32w) j \<longleftrightarrow> j < n"
  by (auto simp flip: mask_eq_exp_minus_1 simp add: bit_mask_iff)

lemma field_bits:
  assumes "1 \<le> n" "n \<le> 31" "b + n \<le> 8 * length report" "(b + n - 1) div 8 < b div 8 + 4"
  shows "\<exists>v. field_bytes (Suc ((b + n - 1) div 8) - b div 8) report (b div 8) 0 0 = Some v \<and>
     (\<forall>j. bit (drop_bit (b mod 8) v AND (push_bit n 1 - 1)) j \<longleftrightarrow> j < n \<and> report_bit report (b + j))"
proof -
  let ?e = "(b + n - 1) div 8"
  have e: "b div 8 + (Suc ?e - b div 8) \<le> length report" "Suc ?e - b div 8 \<le> 4"
    using assms by (auto simp: div_le_mono)
  from field_bytes_bits [of "b div 8" 0 "Suc ?e - b div 8" report 0] e
  obtain v where v: "field_bytes (Suc ?e - b div 8) report (b div 8) 0 0 = Some v"
      "\<And>j. bit v j \<longleftrightarrow> j < 8 * (Suc ?e - b div 8) \<and> bit (report ! (b div 8 + j div 8)) (j mod 8)"
    by auto
  have "bit (drop_bit (b mod 8) v AND (push_bit n 1 - 1)) j \<longleftrightarrow> j < n \<and> report_bit report (b + j)" for j
  proof (cases "j < n")
    case True
    have "(b + j) div 8 \<le> ?e" by (rule div_le_mono) (use True in linarith)
    then have "b + j < 8 * Suc ?e" using div_less_iff_less_mult [of 8 "b + j" "Suc ?e"] by simp
    moreover have "8 * (b div 8) + b mod 8 = b" by simp
    ultimately have "b mod 8 + j < 8 * Suc ?e - 8 * (b div 8)" by linarith
    then have "b mod 8 + j < 8 * (Suc ?e - b div 8)" by (simp only: diff_mult_distrib2)
    moreover have "b + j = b mod 8 + j + 8 * (b div 8)" by simp
    then have "b div 8 + (b mod 8 + j) div 8 = (b + j) div 8"
      by (metis add.commute div_mult_self2 zero_neq_numeral)
    moreover have "(b mod 8 + j) mod 8 = (b + j) mod 8" by (simp add: mod_add_left_eq)
    ultimately show ?thesis
      using True assms(2) by (simp add: bit_and_iff bit_drop_bit_eq bit_low_mask v(2) report_bit_def)
  next
    case False
    then show ?thesis using assms(2) by (simp add: bit_and_iff bit_low_mask)
  qed
  with v(1) show ?thesis by blast
qed

lemma sint_low: "n \<le> 31 \<Longrightarrow> (\<And>j. bit u j \<Longrightarrow> j < n) \<Longrightarrow> sint (u :: u32w) = uint u"
  by (intro bit_eqI) (fastforce simp: bit_sint_iff bit_uint_iff dest: bit_imp_le_length)

lemma sint_field:
  assumes "1 \<le> n" "n \<le> 31" "\<And>j. bit (u :: u32w) j \<Longrightarrow> j < n"
  shows "sint (if bit u (n - 1) then u - push_bit n 1 else u) = signed_take_bit (n - 1) (uint u)"
proof -
  have ub: "uint u < 2 ^ n" "take_bit n (uint u) = uint u"
  proof -
    show "take_bit n (uint u) = uint u"
      using assms(3) by (intro bit_eqI) (auto simp: bit_take_bit_iff bit_uint_iff)
    then show "uint u < 2 ^ n" by (metis take_bit_int_less_exp)
  qed
  have st: "signed_take_bit (n - 1) (uint u) = uint u - (if bit u (n - 1) then 2 ^ n else 0)"
    using assms(1,2) ub(2) signed_take_bit_eq_take_bit_minus [of "n - 1" "uint u"]
    by (auto simp: bit_uint_iff)
  have p: "(2 :: int) ^ n \<le> 2 ^ 31" using assms(2) by (intro power_increasing) auto
  have "u - push_bit n 1 = word_of_int (uint u - 2 ^ n)"
    by (simp add: push_bit_of_1)
  then have "sint (u - push_bit n 1) = signed_take_bit 31 (uint u - 2 ^ n)"
    by (simp only: sint_sbintrunc') simp
  also have "\<dots> = uint u - 2 ^ n"
    by (rule signed_take_bit_int_eq_self) (use ub(1) p uint_nonnegative [of u] in linarith)+
  finally show ?thesis
    using st sint_low [OF assms(2,3)] by simp
qed

lemma get_field_exact_bits:
  assumes "1 \<le> unat (u_size item)" "unat (u_size item) \<le> 31"
    and "field_pos item + unat (u_size item) \<le> 8 * length report"
    and "(field_pos item + unat (u_size item) - 1) div 8 < field_pos item div 8 + 4"
  shows "\<exists>u :: u32w. (\<forall>j. bit u j \<longleftrightarrow> j < unat (u_size item) \<and> report_bit report (field_pos item + j)) \<and>
     btstack_hid_parser_get_field item report =
       Some (if is_variable (u_item item)
             then (u_usage_page item, u_usage item,
                   if u_logical_minimum item < 0 then signed_take_bit (unat (u_size item) - 1) (uint u) else uint u)
             else (u_usage_page item, ucast u, 1))"
proof -
  let ?n = "unat (u_size item)" and ?b = "field_pos item"
  obtain v where v: "field_bytes (Suc ((?b + ?n - 1) div 8) - ?b div 8) report (?b div 8) 0 0 = Some v"
      "\<And>j. bit (drop_bit (?b mod 8) v AND (push_bit ?n 1 - 1)) j \<longleftrightarrow> j < ?n \<and> report_bit report (?b + j)"
    using field_bits [OF assms] by blast
  define u where "u = drop_bit (?b mod 8) v AND (push_bit ?n 1 - 1)"
  note bits = v(2) [folded u_def]
  have low: "bit u j \<Longrightarrow> j < ?n" for j using bits by blast
  have "?b div 8 \<le> length report" "(?b + ?n - 1) div 8 \<le> length report" using assms(1,3) by linarith+
  moreover have "?n < 256" using assms(2) by simp
  note field_end_pos [OF assms(1) this]
  ultimately have eq: "btstack_hid_parser_get_field item report =
      (if is_variable (u_item item)
       then if u_logical_minimum item < 0
            then Some (u_usage_page item, u_usage item, sint (if bit u (?n - 1) then u - push_bit ?n 1 else u))
            else Some (u_usage_page item, u_usage item, sint u)
       else Some (u_usage_page item, ucast u, 1))"
    using v(1) assms(1,2)
    unfolding btstack_hid_parser_get_field_def Let_def field_pos_def u_def by (simp add: min_def)
  have f: "sint (if bit u (?n - 1) then u - push_bit ?n 1 else u) = signed_take_bit (?n - 1) (uint u)"
    by (rule sint_field [OF assms(1,2)]) (rule low)
  have g: "sint u = uint u" by (rule sint_low [OF assms(2)]) (rule low)
  show ?thesis
    by (intro exI [of _ u] conjI allI, rule bits, unfold eq f g) simp
qed

text \<open>
  C24. Field extraction is exact: for a field of 1 to 31 bits that lies inside the report and spans
  at most four bytes, \<open>btstack_hid_parser_get_field\<close> returns the field's own bits, least
  significant first: as an unsigned number for a variable item with non-negative logical
  minimum, in two's complement for a negative one, and as the usage with value 1 for an array.
\<close>

theorem get_field_exact:
  assumes "1 \<le> unat (u_size item)" "unat (u_size item) \<le> 31"
    and "field_pos item + unat (u_size item) \<le> 8 * length report"
    and "(field_pos item + unat (u_size item) - 1) div 8 < field_pos item div 8 + 4"
  shows "\<exists>u :: u32w. (\<forall>j. bit u j \<longleftrightarrow> j < unat (u_size item) \<and> report_bit report (field_pos item + j)) \<and>
     btstack_hid_parser_get_field item report =
       Some (if is_variable (u_item item)
             then (u_usage_page item, u_usage item,
                   if u_logical_minimum item < 0 then signed_take_bit (unat (u_size item) - 1) (uint u) else uint u)
             else (u_usage_page item, ucast u, 1))"
  by (rule get_field_exact_bits [OF assms])

definition field_example :: hid_usage_item where
  "field_example = \<lparr>u_report_id = 1, u_bit_pos = 4, u_usage_page = 1, u_usage = 0x31, u_size = 12,
      u_item = item0\<lparr>item_value := 2\<rparr>, u_logical_minimum = - 1\<rparr>"

theorem get_field_exact_witness:
  "btstack_hid_parser_get_field field_example [1, 0xa0, 0xbc] = Some (1, 0x31, - 1078) \<and>
   (\<exists>u :: u32w. \<forall>j. bit u j \<longleftrightarrow> j < 12 \<and> report_bit [1, 0xa0, 0xbc] (12 + j))"
proof
  show "btstack_hid_parser_get_field field_example [1, 0xa0, 0xbc] = Some (1, 0x31, - 1078)"
    by code_simp
  have "unat (u_size field_example) = 12" "field_pos field_example = 12"
    by code_simp+
  with get_field_exact [of field_example "[1, 0xa0, 0xbc]"]
  show "\<exists>u :: u32w. \<forall>j. bit u j \<longleftrightarrow> j < 12 \<and> report_bit [1, 0xa0, 0xbc] (12 + j)"
    by (simp del: of_nat_Suc) blast
qed

lemma field_bytes_over:
  "pos + i \<le> length report \<Longrightarrow> length report < pos + i + n \<Longrightarrow> field_bytes n report pos i acc = None"
  by (induction n arbitrary: i acc) auto

text \<open>
  A report that is shorter than its descriptor promises is read past its end: whenever a field
  of at least one bit does not fit into the report, the extraction leaves defined behaviour (the
  clamp of the end position to the report length admits the byte after the last).
\<close>

theorem get_field_short_report:
  assumes "1 \<le> unat (u_size item)" "8 * length report < field_pos item + unat (u_size item)"
  shows "btstack_hid_parser_get_field item report = None"
proof -
  let ?n = "unat (u_size item)" and ?b = "field_pos item"
  have over: "field_bytes (Suc (length report) - p) report p 0 acc = None" if "p \<le> length report" for p acc
    using that by (intro field_bytes_over) auto
  have "?n < 256" using unsigned_less [of "u_size item", where 'a = nat] by simp
  note e = field_end_pos [OF assms(1) this]
  have "length report \<le> (?b + ?n - 1) div 8" using assms by (simp add: less_eq_div_iff_mult_less_eq)
  then have "min ((?b + ?n - 1) div 8) (length report) = length report" by simp
  then show ?thesis
    using over [of "min (?b div 8) (length report)"] e
    unfolding btstack_hid_parser_get_field_def Let_def field_pos_def by (simp add: min_def split: if_splits)
qed

theorem get_field_short_report_witness:
  "btstack_hid_parser_get_field
     \<lparr>u_report_id = 0xffff, u_bit_pos = 8, u_usage_page = 1, u_usage = 0x30, u_size = 8,
      u_item = item0\<lparr>item_value := 2\<rparr>, u_logical_minimum = 0\<rparr> [0x7f] = None"
  by (rule get_field_short_report) (simp_all add: field_pos_def)

subsection \<open>Encoding and parsing items\<close>

definition item_code :: "nat \<Rightarrow> nat" where
  "item_code n = (if n = 4 then 3 else n)"

definition encode_value :: "nat \<Rightarrow> int \<Rightarrow> u8 list" where
  "encode_value n v = map (\<lambda>k. word_of_int (drop_bit (8 * k) v)) [0..<n]"

definition encode_item :: "nat \<Rightarrow> nat \<Rightarrow> nat \<Rightarrow> int \<Rightarrow> u8 list" where
  "encode_item ty tg n v = of_nat (16 * tg + 4 * ty + item_code n) # encode_value n v"

lemma item_header_all:
  "list_all (\<lambda>tg. list_all (\<lambda>ty. list_all (\<lambda>n.
     item_header [of_nat (16 * tg + 4 * ty + item_code n)] = Some (n, ty, tg, 1)) [0, 1, 2, 4])
     [0, 1, 2]) [0..<16]"
  by code_simp

lemma item_header_Cons:
  "item_header [h] = Some (ds, ty, tg, 1) \<Longrightarrow> item_header (h # rest) = Some (ds, ty, tg, 1)"
  by (auto simp: item_header_def Let_def split: if_splits list.splits)

lemma item_header_encode:
  assumes "tg < 16" "ty < 3" "n \<in> {0, 1, 2, 4}"
  shows "item_header (of_nat (16 * tg + 4 * ty + item_code n) # rest) = Some (n, ty, tg, 1)"
proof (rule item_header_Cons)
  have "tg \<in> set [0..<16]" "ty \<in> set [0, 1, 2]" "n \<in> set [0, 1, 2, 4]" using assms by auto
  then show "item_header [of_nat (16 * tg + 4 * ty + item_code n)] = Some (n, ty, tg, 1)"
    using item_header_all unfolding list_all_iff by blast
qed

lemma item_bytes_bits:
  "i + length data \<le> 4 \<Longrightarrow> bit (item_bytes data i acc) j \<longleftrightarrow> bit acc j \<or>
     (8 * i \<le> j \<and> j < 8 * (i + length data) \<and> bit (data ! (j div 8 - i)) (j mod 8))"
proof (induction data arbitrary: i acc)
  case (Cons b data)
  let ?a = "push_bit (8 * i) (ucast b) OR acc"
  have a: "bit ?a j \<longleftrightarrow> bit acc j \<or> (8 * i \<le> j \<and> j < 8 * (i + 1) \<and> bit b (j mod 8))"
  proof -
    have "j mod 8 = j - 8 * i" if "8 * i \<le> j" "j < 8 * (i + 1)"
      using that by (auto simp: modulo_nat_def div_nat_eqI)
    moreover have "bit b (j - 8 * i) \<Longrightarrow> j - 8 * i < 8" by (auto dest: bit_imp_le_length)
    ultimately show ?thesis
      using Cons.prems by (auto simp: bit_or_iff bit_push_bit_iff bit_ucast_iff)
  qed
  have d: "j div 8 = i" if "8 * i \<le> j" "j < 8 * (i + 1)" using that by (auto intro: div_nat_eqI)
  have e: "j div 8 - i = Suc (j div 8 - Suc i)" if "8 * Suc i \<le> j"
  proof -
    have "Suc i \<le> j div 8" using div_le_mono [OF that, of 8] by simp
    then show ?thesis by simp
  qed
  have "bit (item_bytes data (Suc i) ?a) j \<longleftrightarrow> bit ?a j \<or>
     (8 * Suc i \<le> j \<and> j < 8 * (Suc i + length data) \<and> bit (data ! (j div 8 - Suc i)) (j mod 8))"
    using Cons.IH [of "Suc i" ?a] Cons.prems by simp
  then show ?case
    unfolding a using d e by (cases "j < 8 * (i + 1)") auto
qed auto

lemma item_bytes_encode: "n \<le> 4 \<Longrightarrow> item_bytes (encode_value n v) 0 0 = word_of_int (take_bit (8 * n) v)"
proof (rule bit_word_eqI)
  fix j assume n: "n \<le> 4" and j: "j < LENGTH(32)"
  have "bit (encode_value n v ! (j div 8)) (j mod 8) \<longleftrightarrow> bit v j" if "j < 8 * n"
    using that by (simp add: encode_value_def bit_word_of_int_iff bit_drop_bit_eq less_mult_imp_div_less)
  then show "bit (item_bytes (encode_value n v) 0 0) j = bit (word_of_int (take_bit (8 * n) v) :: u32w) j"
    using n j item_bytes_bits [of 0 "encode_value n v" 0 j]
    by (auto simp: encode_value_def bit_word_of_int_iff bit_take_bit_iff)
qed

lemma last_encode: "0 < n \<Longrightarrow> last (encode_value n v) AND 0x80 \<noteq> 0 \<longleftrightarrow> bit v (8 * n - 1)"
proof -
  assume "0 < n"
  then obtain m where n: "n = Suc m" by (cases n) auto
  then have "last (encode_value n v) = word_of_int (drop_bit (8 * m) v)"
    by (simp add: encode_value_def)
  then show ?thesis
    by (simp add: n and_flag bit_word_of_int_iff bit_drop_bit_eq add.commute)
qed

lemma neg_div_minus1: "- m \<le> v \<Longrightarrow> v < 0 \<Longrightarrow> v div m = - 1" for v m :: int
  using div_pos_pos_trivial [of "v + m" m] div_add_self2 [of m v] by simp

lemma sint_word_of_int_id: "- (2 ^ 31) \<le> v \<Longrightarrow> v < 2 ^ 31 \<Longrightarrow> sint (word_of_int v :: u32w) = v"
  by (simp only: sint_sbintrunc') (simp add: signed_take_bit_int_eq_self)

lemma sint_word_of_int_u32:
  "0 \<le> v \<Longrightarrow> v < 2 ^ 32 \<Longrightarrow> sint (word_of_int v :: u32w) = (if v < 2 ^ 31 then v else v - 2 ^ 32)"
proof -
  assume v: "0 \<le> v" "v < 2 ^ 32"
  have w: "(word_of_int (v - 2 ^ 32) :: u32w) = word_of_int v" by simp
  show ?thesis
  proof (cases "v < 2 ^ 31")
    case True
    then show ?thesis using v sint_word_of_int_id [of v] by simp
  next
    case False
    have "sint (word_of_int (v - 2 ^ 32) :: u32w) = v - 2 ^ 32"
      by (rule sint_word_of_int_id) (use v False in simp_all)
    then show ?thesis using False by (simp only: w if_False)
  qed
qed

text \<open>
  C28. Descriptor items survive encoding: for every short item of type Main, Global or Local (type 3 is
  reserved), every tag and a value of 0, 1, 2 or 4 bytes that fits the item's signedness (two's complement
  for the logical and physical limits, unsigned otherwise), the parser reads back type, tag, size
  and value from the encoded bytes, whatever follows them. The value is kept in a signed 32-bit
  integer, so that an unsigned four-byte value from \<open>2 ^ 31\<close> on is read as that value minus \<open>2 ^ 32\<close>.
  Negative limits of four bytes are excluded: the parser shifts by 32 on them, which is undefined
  (\<open>parse_item_shift_trap\<close>).
\<close>

theorem parse_item_encode:
  assumes "tg < 16" "ty < 3" "n \<in> {0, 1, 2, 4}"
    and "if item_signed ty tg \<and> v < 0 then n \<in> {1, 2} \<and> - (2 ^ (8 * n - 1)) \<le> v
         else 0 \<le> v \<and> v < 2 ^ (if item_signed ty tg then 8 * n - 1 else 8 * n)"
  shows "btstack_hid_descriptor_parse_item (encode_item ty tg n v @ rest) =
     Some (Some \<lparr>item_value = (if v < 2 ^ 31 then v else v - 2 ^ 32), item_size = 1 + n, item_type = ty, item_tag = tg, data_size = n\<rparr>)"
proof -
  have len: "length (encode_value n v) = n" by (simp add: encode_value_def)
  have n4: "n \<le> 4" using assms(3) by auto
  note h = item_header_encode [OF assms(1-3), of "encode_value n v @ rest"]
  let ?w = "word_of_int (take_bit (8 * n) v) :: u32w"
  have neg: "last (encode_value n v) AND 0x80 \<noteq> 0 \<longleftrightarrow> v < 0" if "item_signed ty tg" "0 < n"
  proof -
    have "bit v (8 * n - 1) \<longleftrightarrow> v < 0"
      using that assms(3,4) by (auto simp: bit_iff_odd div_pos_pos_trivial neg_div_minus1 split: if_splits)
    then show ?thesis using last_encode [OF that(2)] by simp
  qed
  have val: "sint (if item_signed ty tg \<and> 0 < n \<and> last (encode_value n v) AND 0x80 \<noteq> 0
      then ?w - push_bit (8 * n) 1 else ?w) = (if v < 2 ^ 31 then v else v - 2 ^ 32)"
  proof (cases "item_signed ty tg \<and> v < 0")
    case True
    then have n: "n \<in> {1, 2}" "- (2 ^ (8 * n - 1)) \<le> v" using assms(4) by auto
    then have "take_bit (8 * n) v = v + 2 ^ (8 * n)"
      using True by (auto simp: take_bit_eq_mod mod_neg_shift)
    then have "?w - push_bit (8 * n) 1 = word_of_int v" by (simp add: push_bit_of_1)
    moreover have "- (2 ^ 31) \<le> v" using n by auto
    ultimately show ?thesis using True n neg sint_word_of_int_id [of v] by auto
  next
    case False
    then have v: "0 \<le> v" "v < 2 ^ (8 * n)" "v < 2 ^ 32"
      using assms(3,4) by (auto split: if_splits)
    then have "?w = word_of_int v" by (simp add: take_bit_int_eq_self)
    then show ?thesis using False neg v sint_word_of_int_u32 [of v] by auto
  qed
  have no_trap: "\<not> (item_signed ty tg \<and> 0 < n \<and> last (encode_value n v) AND 0x80 \<noteq> 0 \<and> n = 4)"
    using neg assms(4) by auto
  have "length (encode_item ty tg n v @ rest) = 1 + n + length rest"
    "take n (drop 1 (encode_item ty tg n v @ rest)) = encode_value n v"
    using len by (simp_all add: encode_item_def)
  then show ?thesis
    using h val no_trap n4 item_bytes_encode [OF n4, of v]
    by (auto simp: btstack_hid_descriptor_parse_item_def encode_item_def Let_def split: if_splits)
qed

theorem parse_item_encode_witness:
  "encode_item 1 1 2 (- 512) = [0x16, 0x00, 0xfe] \<and>
   btstack_hid_descriptor_parse_item (encode_item 1 1 2 (- 512) @ [0x81, 0x02]) =
     Some (Some \<lparr>item_value = - 512, item_size = 1 + 2, item_type = 1, item_tag = 1, data_size = 2\<rparr>)"
proof
  show "encode_item 1 1 2 (- 512) = [0x16, 0x00, 0xfe]" by code_simp
  show "btstack_hid_descriptor_parse_item (encode_item 1 1 2 (- 512) @ [0x81, 0x02]) =
     Some (Some \<lparr>item_value = - 512, item_size = 1 + 2, item_type = 1, item_tag = 1, data_size = 2\<rparr>)"
    using parse_item_encode [of 1 1 2 "- 512" "[0x81, 0x02]"] by (simp add: item_signed_def)
qed

text \<open>
  A negative four-byte logical or physical limit leaves defined behaviour: the parser shifts
  a 32-bit one by 32.
\<close>

theorem parse_item_shift_trap:
  assumes "h \<in> {0x17, 0x27, 0x37, 0x47}" "d AND 0x80 \<noteq> 0"
  shows "btstack_hid_descriptor_parse_item (h # a # b # c # d # rest) = None"
  using assms
  by (auto simp: btstack_hid_descriptor_parse_item_def item_header_def hid_item_sizes_def item_signed_def)

theorem parse_item_shift_trap_witness:
  "btstack_hid_descriptor_parse_item [0x17, 0x00, 0x00, 0xff, 0xff, 0x81, 0x02] = None"
  by (rule parse_item_shift_trap) simp_all

definition phantom_descriptor :: "u8 list" where
  "phantom_descriptor = [0x05, 0x09, 0x19, 1, 0x29, 5, 0x15, 0, 0x25, 1, 0x75, 1, 0x95, 3, 0x81, 2]"

text \<open>
  A usage range larger than the report count yields usages that are not in the report: for a
  descriptor that declares three one-bit buttons (report count 3) with usages 1 to 5, the
  parser reports five buttons, reading the last two from the bits that follow the field.
\<close>

theorem usage_range_beyond_report_count:
  "map_option (map snd) (btstack_hid_parser_fields phantom_descriptor HID_INPUT [0x18]) =
     Some [(9, 1, 0), (9, 2, 0), (9, 3, 0), (9, 4, 1), (9, 5, 1)]"
  by code_simp

end
