(* ===== verification/HidParser.thy ===== *)
theory HidParser
  imports BtHidFields Gamepad
begin

text \<open>
  The controller-independent part of bluepad32's parsers, \<^verbatim>\<open>parser/uni_hid_parser.c\<close>: the
  normalisation of axes, pedals and hats, and the loop that hands the fields of a report to a
  controller's \<open>parse_usage\<close>. The contract between that loop and the parsers is the locale
  \<open>usage_parser\<close>; every parser of the usage kind interprets it, and its lemma \<open>report_ok\<close> (a whole
  report is parsed without a trap and keeps the sticks in range) is proved here once.
\<close>

subsection \<open>Normalisation\<close>

text \<open>The range of a field; a maximum of -1 is taken as the largest unsigned value.\<close>

definition axis_max :: "hid_globals \<Rightarrow> int option" where
  "axis_max g =
     (if logical_maximum g = - 1
      then (if unat (report_size g) < 32 then chk32 (s32 (2 ^ unat (report_size g)) - 1) else None)
      else Some (logical_maximum g))"

definition axis_range :: "hid_globals \<Rightarrow> int option" where
  "axis_range g = do {
     mx \<leftarrow> axis_max g;
     d \<leftarrow> chk32 (mx - logical_minimum g);
     chk32 (d + 1)
   }"

definition uni_hid_parser_process_axis :: "hid_globals \<Rightarrow> int \<Rightarrow> int option" where
  "uni_hid_parser_process_axis g value = do {
     range \<leftarrow> axis_range g;
     let centered = s32 (value - cdiv range 2 - logical_minimum g);
     p \<leftarrow> chk32 (centered * AXIS_NORMALIZE_RANGE);
     if range = 0 then None else chk32 (cdiv p range)
   }"

definition uni_hid_parser_process_pedal :: "hid_globals \<Rightarrow> int \<Rightarrow> int option" where
  "uni_hid_parser_process_pedal g value = do {
     range \<leftarrow> axis_range g;
     if range = 0 then None
     else Some (s32 (u32 (value * AXIS_NORMALIZE_RANGE) div u32 range))
   }"

definition uni_hid_parser_process_hat :: "hid_globals \<Rightarrow> int \<Rightarrow> u8 option" where
  "uni_hid_parser_process_hat g value =
     (if value < logical_minimum g \<or> value > logical_maximum g then Some 0xff
      else map_option word_of_int (chk32 (value - logical_minimum g)))"

definition uni_hid_parser_process_dpad :: "u16 \<Rightarrow> int \<Rightarrow> u8 \<Rightarrow> u8" where
  "uni_hid_parser_process_dpad usage value d =
     (let upd = (\<lambda>b. if value \<noteq> 0 then d OR b else d AND NOT b)
      in if usage = 0x90 then upd DPAD_UP
         else if usage = 0x91 then upd DPAD_DOWN
         else if usage = 0x92 then upd DPAD_RIGHT
         else if usage = 0x93 then upd DPAD_LEFT
         else d)"

definition uni_hid_parser_hat_to_dpad :: "u8 \<Rightarrow> u8" where
  "uni_hid_parser_hat_to_dpad hat =
     (if hat = 0xff \<or> hat = 0x08 then 0
      else if hat = 0 then DPAD_UP
      else if hat = 1 then DPAD_UP OR DPAD_RIGHT
      else if hat = 2 then DPAD_RIGHT
      else if hat = 3 then DPAD_RIGHT OR DPAD_DOWN
      else if hat = 4 then DPAD_DOWN
      else if hat = 5 then DPAD_DOWN OR DPAD_LEFT
      else if hat = 6 then DPAD_LEFT
      else if hat = 7 then DPAD_LEFT OR DPAD_UP
      else 0)"

subsection \<open>The report loop\<close>

text \<open>
  \<open>'d\<close> is the device as far as a parser changes it. \<open>init_report\<close> and the two parsing functions
  are optional; a \<open>None\<close> inside a parsing function is a trap.
\<close>

record 'd report_parser =
  rp_init_report :: "('d \<Rightarrow> 'd) option"
  rp_parse_input_report :: "(u8 list \<Rightarrow> 'd \<Rightarrow> 'd option) option"
  rp_parse_usage :: "(hid_globals \<Rightarrow> u16 \<Rightarrow> u16 \<Rightarrow> int \<Rightarrow> 'd \<Rightarrow> 'd option) option"

fun parse_fields ::
    "(hid_globals \<Rightarrow> u16 \<Rightarrow> u16 \<Rightarrow> int \<Rightarrow> 'd \<Rightarrow> 'd option) \<Rightarrow>
     (hid_globals \<times> u16 \<times> u16 \<times> int) list \<Rightarrow> 'd \<Rightarrow> 'd option" where
  "parse_fields pu [] d = Some d"
| "parse_fields pu ((g, page, usage, value) # fs) d =
     (case pu g page usage value d of None \<Rightarrow> None | Some d' \<Rightarrow> parse_fields pu fs d')"

definition uni_hid_parse_input_report :: "'d report_parser \<Rightarrow> u8 list \<Rightarrow> u8 list \<Rightarrow> 'd \<Rightarrow> 'd option" where
  "uni_hid_parse_input_report rp descr report d = do {
     let d0 = (case rp_init_report rp of None \<Rightarrow> d | Some f \<Rightarrow> f d);
     d1 \<leftarrow> (case rp_parse_input_report rp of None \<Rightarrow> Some d0 | Some f \<Rightarrow> f report d0);
     (case rp_parse_usage rp of
        None \<Rightarrow> Some d1
      | Some pu \<Rightarrow> do {
          fs \<leftarrow> btstack_hid_parser_fields descr HID_INPUT report;
          parse_fields pu fs d1
        })
   }"

subsection \<open>Ranges\<close>

text \<open>A field whose value lies within its logical limits, with a range of at most \<open>2\<^sup>20\<close> values.\<close>

definition field_ok :: "hid_globals \<Rightarrow> int \<Rightarrow> bool" where
  "field_ok g value \<longleftrightarrow> (\<exists>r. axis_range g = Some r \<and> 1 \<le> r \<and> r \<le> 2 ^ 20 \<and>
     - (2 ^ 20) \<le> logical_minimum g \<and> logical_minimum g \<le> 2 ^ 20 \<and>
     logical_minimum g \<le> value \<and> value < logical_minimum g + r)"

lemma div_less_boundI: "a < n * r \<Longrightarrow> 0 < r \<Longrightarrow> a div r < n" for a n r :: int
  by (smt (verit) mult_right_mono minus_div_mult_eq_mod pos_mod_sign)

lemma centered_div_bounds:
  fixes r c :: int
  assumes "1 \<le> r" "- (r div 2) \<le> c" "c \<le> r - 1 - r div 2"
  shows "- 512 \<le> cdiv (c * 1024) r \<and> cdiv (c * 1024) r \<le> 511"
proof (cases "0 \<le> c")
  case True
  have "c * 1024 < 512 * r" using assms(3) by linarith
  then have "c * 1024 div r < 512" using assms(1) by (intro div_less_boundI) auto
  moreover have "0 \<le> c * 1024 div r" using True assms(1) by (simp add: pos_imp_zdiv_nonneg_iff)
  ultimately show ?thesis using True assms(1) by (simp add: cdiv_nonneg)
next
  case False
  have "- c * 1024 \<le> r * 512" using assms(2) by linarith
  then have "(- c * 1024) div r \<le> (r * 512) div r" using assms(1) by (intro zdiv_mono1) auto
  moreover have "0 \<le> (- c * 1024) div r" using False assms(1) by (simp add: pos_imp_zdiv_nonneg_iff)
  ultimately show ?thesis using False assms(1) by (simp add: cdiv_neg)
qed

lemma process_axis_bounds:
  assumes "field_ok g value"
  shows "\<exists>v. uni_hid_parser_process_axis g value = Some v \<and> - 512 \<le> v \<and> v \<le> 511"
proof -
  obtain r where r: "axis_range g = Some r" "1 \<le> r" "r \<le> 2 ^ 20"
      "- (2 ^ 20) \<le> logical_minimum g" "logical_minimum g \<le> 2 ^ 20"
      "logical_minimum g \<le> value" "value < logical_minimum g + r"
    using assms by (auto simp: field_ok_def)
  let ?c = "value - cdiv r 2 - logical_minimum g"
  have half: "cdiv r 2 = r div 2" using r(2) by (simp add: cdiv_nonneg)
  have c: "- (r div 2) \<le> ?c" "?c \<le> r - 1 - r div 2" using r half by linarith+
  have "- (2 ^ 20) \<le> ?c" "?c \<le> 2 ^ 20" using c r(2,3) by linarith+
  then have ok: "s32_ok ?c" "s32_ok (?c * 1024)" by (auto simp: s32_ok_def)
  note b = centered_div_bounds [OF r(2) c]
  then have "s32_ok (cdiv (?c * 1024) r)" by (simp add: s32_ok_def)
  then show ?thesis
    using r(1,2) ok b
    by (simp add: uni_hid_parser_process_axis_def Let_def s32_id AXIS_NORMALIZE_RANGE_def chk32_Some)
qed

lemma process_pedal_bounds:
  assumes "field_ok g value" "logical_minimum g = 0"
  shows "\<exists>v. uni_hid_parser_process_pedal g value = Some v \<and> 0 \<le> v \<and> v \<le> 1023"
proof -
  obtain r where r: "axis_range g = Some r" "1 \<le> r" "r \<le> 2 ^ 20" "0 \<le> value" "value < r"
    using assms by (auto simp: field_ok_def)
  have u: "u32 (value * 1024) = value * 1024" "u32 r = r" using r by (simp_all add: u32_def)
  have "value * 1024 < 1024 * r" using r by linarith
  then have lt: "value * 1024 div r < 1024" using r(2) by (intro div_less_boundI) auto
  moreover have ge: "0 \<le> value * 1024 div r" using r by (simp add: pos_imp_zdiv_nonneg_iff)
  ultimately have "s32 (value * 1024 div r) = value * 1024 div r" by (intro s32_id) (simp add: s32_ok_def)
  then show ?thesis
    using r(1,2) lt ge by (simp add: uni_hid_parser_process_pedal_def AXIS_NORMALIZE_RANGE_def u)
qed

lemma process_hat_total:
  assumes "- (2 ^ 20) \<le> logical_minimum g" "logical_minimum g \<le> 2 ^ 20"
  shows "- (2 ^ 20) \<le> value \<Longrightarrow> value \<le> 2 ^ 20 \<Longrightarrow> \<exists>h. uni_hid_parser_process_hat g value = Some h"
  using assms by (auto simp: uni_hid_parser_process_hat_def chk32_def s32_ok_def)

subsection \<open>What a parser does with one field\<close>

text \<open>
  A controller's \<open>parse_usage\<close> is a pair of nested \<^verbatim>\<open>switch\<close> statements whose branches update the
  gamepad member of the controller. \<open>on_gamepad\<close> is such an update; it is a trap when another
  member of the union is stored, which no parser here meets after its \<open>init_report\<close>.
\<close>

type_synonym usage_action = "uni_controller \<Rightarrow> uni_controller option"

definition switch :: "'k \<Rightarrow> ('k \<times> 'a) list \<Rightarrow> 'a \<Rightarrow> 'a" where
  "switch k cs dflt = (case map_of cs k of None \<Rightarrow> dflt | Some a \<Rightarrow> a)"

definition on_gamepad :: "(uni_gamepad \<Rightarrow> uni_gamepad) \<Rightarrow> usage_action" where
  "on_gamepad f c = (case ctl_data c of
      Class_none gp \<Rightarrow> Some (c\<lparr>ctl_data := Class_none (f gp)\<rparr>)
    | Class_gamepad gp \<Rightarrow> Some (c\<lparr>ctl_data := Class_gamepad (f gp)\<rparr>)
    | _ \<Rightarrow> None)"

definition store :: "(int \<Rightarrow> uni_gamepad \<Rightarrow> uni_gamepad) \<Rightarrow> int option \<Rightarrow> usage_action" where
  "store upd r c = (case r of None \<Rightarrow> None | Some x \<Rightarrow> on_gamepad (upd x) c)"

definition store_hat :: "hid_globals \<Rightarrow> int \<Rightarrow> usage_action" where
  "store_hat g value c = (case uni_hid_parser_process_hat g value of
      None \<Rightarrow> None
    | Some h \<Rightarrow> on_gamepad (\<lambda>gp. gp\<lparr>dpad := uni_hid_parser_hat_to_dpad h\<rparr>) c)"

definition store_dpad :: "u16 \<Rightarrow> int \<Rightarrow> usage_action" where
  "store_dpad usage value = on_gamepad (\<lambda>gp. gp\<lparr>dpad := uni_hid_parser_process_dpad usage value (dpad gp)\<rparr>)"

definition store_battery :: "int \<Rightarrow> usage_action" where
  "store_battery value c = Some (c\<lparr>battery := word_of_int value\<rparr>)"

definition press :: "u16 \<Rightarrow> int \<Rightarrow> usage_action" where
  "press b value = (if value \<noteq> 0 then on_gamepad (\<lambda>gp. gp\<lparr>buttons := buttons gp OR b\<rparr>) else Some)"

definition press_misc :: "u8 \<Rightarrow> int \<Rightarrow> usage_action" where
  "press_misc b value = (if value \<noteq> 0 then on_gamepad (\<lambda>gp. gp\<lparr>misc_buttons := misc_buttons gp OR b\<rparr>) else Some)"

definition press_dpad :: "u8 \<Rightarrow> int \<Rightarrow> usage_action" where
  "press_dpad b value = (if value \<noteq> 0 then on_gamepad (\<lambda>gp. gp\<lparr>dpad := dpad gp OR b\<rparr>) else Some)"

text \<open>The state the parsers' \<open>init_report\<close> leaves: a zeroed controller of the gamepad class.\<close>

definition clean_gamepad :: uni_controller where
  "clean_gamepad = \<lparr>ctl_data = Class_gamepad gamepad0, battery = 0\<rparr>"

subsection \<open>The contract of a usage parser\<close>

definition axes_ok :: "int \<Rightarrow> int \<Rightarrow> uni_controller \<Rightarrow> bool" where
  "axes_ok lo hi c \<longleftrightarrow> (case ctl_data c of
      Class_gamepad gp \<Rightarrow> list_all (\<lambda>a. lo \<le> a \<and> a \<le> hi) [axis_x gp, axis_y gp, axis_rx gp, axis_ry gp]
    | _ \<Rightarrow> False)"

text \<open>
  The fields a parser is specified for: the value within its logical limits, except for a hat,
  whose value out of the limits is its neutral position.
\<close>

definition usage_ok :: "hid_globals \<Rightarrow> u16 \<Rightarrow> u16 \<Rightarrow> int \<Rightarrow> bool" where
  "usage_ok g page usage value \<longleftrightarrow>
     - (2 ^ 20) \<le> logical_minimum g \<and> logical_minimum g \<le> 2 ^ 20 \<and> - (2 ^ 20) \<le> value \<and> value \<le> 2 ^ 20 \<and>
     (page = 1 \<and> usage = 0x39 \<or> field_ok g value)"

text \<open>The table entry of a parser with \<open>init_report\<close> and \<open>parse_usage\<close> only.\<close>

abbreviation (input) "usage_rp i p \<equiv>
  \<lparr>rp_init_report = Some i, rp_parse_input_report = None, rp_parse_usage = Some p\<rparr>"

locale usage_parser =
  fixes ctl_of :: "'d \<Rightarrow> uni_controller"
    and init :: "'d \<Rightarrow> 'd"
    and parse :: "hid_globals \<Rightarrow> u16 \<Rightarrow> u16 \<Rightarrow> int \<Rightarrow> 'd \<Rightarrow> 'd option"
    and fok :: "hid_globals \<Rightarrow> u16 \<Rightarrow> u16 \<Rightarrow> int \<Rightarrow> bool"
    and lo hi :: int
  assumes init_ok: "axes_ok lo hi (ctl_of (init d))"
    and parse_ok: "fok g page usage value \<Longrightarrow> axes_ok lo hi (ctl_of d) \<Longrightarrow>
          \<exists>d'. parse g page usage value d = Some d' \<and> axes_ok lo hi (ctl_of d')"
begin

definition fields_ok :: "(hid_globals \<times> u16 \<times> u16 \<times> int) list \<Rightarrow> bool" where
  "fields_ok fs \<longleftrightarrow> list_all (\<lambda>(g, page, usage, value). fok g page usage value) fs"

lemma parse_fields_ok:
  "fields_ok fs \<Longrightarrow> axes_ok lo hi (ctl_of d) \<Longrightarrow>
   \<exists>d'. parse_fields parse fs d = Some d' \<and> axes_ok lo hi (ctl_of d')"
proof (induction fs arbitrary: d)
  case (Cons f fs)
  obtain g page usage v where f: "f = (g, page, usage, v)" by (cases f)
  then obtain d' where "parse g page usage v d = Some d'" "axes_ok lo hi (ctl_of d')"
    using parse_ok [of g page usage v d] Cons.prems by (auto simp: fields_ok_def)
  with Cons.IH [of d'] Cons.prems f show ?case by (simp add: fields_ok_def)
qed simp

lemma report_ok:
  assumes "btstack_hid_parser_fields descr HID_INPUT report = Some fs" "fields_ok fs"
  shows "\<exists>d'. uni_hid_parse_input_report
     (usage_rp init parse) descr report d = Some d' \<and>
     axes_ok lo hi (ctl_of d')"
  using parse_fields_ok [OF assms(2) init_ok] assms(1) by (simp add: uni_hid_parse_input_report_def Let_def)

end

subsection \<open>Discharging the contract\<close>

text \<open>One rule per kind of branch; \<open>action_ok_switch\<close> reduces a \<^verbatim>\<open>switch\<close> to its branches.\<close>

named_theorems action_rules \<open>branches that keep the sticks in range\<close>

definition action_ok :: "int \<Rightarrow> int \<Rightarrow> usage_action \<Rightarrow> bool" where
  "action_ok lo hi a \<longleftrightarrow> (\<forall>c. axes_ok lo hi c \<longrightarrow> (\<exists>c'. a c = Some c' \<and> axes_ok lo hi c'))"

lemma action_okD: "action_ok lo hi a \<Longrightarrow> axes_ok lo hi c \<Longrightarrow> \<exists>c'. a c = Some c' \<and> axes_ok lo hi c'"
  by (simp add: action_ok_def)

lemma action_ok_switch:
  assumes "action_ok lo hi dflt" "list_all (\<lambda>(key, a). k = key \<longrightarrow> action_ok lo hi a) cs"
  shows "action_ok lo hi (switch k cs dflt)"
  using assms by (auto simp: switch_def list_all_iff split: option.splits dest: map_of_SomeD)

lemma action_ok_Some [action_rules]: "action_ok lo hi Some"
  by (simp add: action_ok_def)

lemma action_ok_on_gamepad:
  "(\<And>gp. axis_x (f gp) = axis_x gp \<and> axis_y (f gp) = axis_y gp \<and> axis_rx (f gp) = axis_rx gp \<and>
        axis_ry (f gp) = axis_ry gp) \<Longrightarrow> action_ok lo hi (on_gamepad f)"
  by (auto simp: action_ok_def on_gamepad_def axes_ok_def split: uni_controller_data.splits)

lemma action_ok_press [action_rules]:
  "action_ok lo hi (press b value)" "action_ok lo hi (press_misc m value)"
  "action_ok lo hi (press_dpad m value)" "action_ok lo hi (store_dpad usage value)"
  "action_ok lo hi (store_battery value)"
  unfolding press_def press_misc_def press_dpad_def store_dpad_def
  by (auto intro!: action_ok_on_gamepad action_ok_Some) (auto simp: action_ok_def store_battery_def axes_ok_def)

lemma action_ok_hat:
  assumes "usage_ok g page usage value"
  shows "action_ok lo hi (store_hat g value)"
proof -
  obtain h where "uni_hid_parser_process_hat g value = Some h"
    using process_hat_total [of g "value"] assms by (auto simp: usage_ok_def)
  then have "store_hat g value = on_gamepad (\<lambda>gp. gp\<lparr>dpad := uni_hid_parser_hat_to_dpad h\<rparr>)"
    by (simp add: fun_eq_iff store_hat_def)
  then show ?thesis by (simp add: action_ok_on_gamepad)
qed

lemma store_abs: "store upd (Some x) = on_gamepad (upd x)" "store upd None = (\<lambda>c. None)"
  by (simp_all add: fun_eq_iff store_def)

lemma action_ok_pedal:
  assumes "field_ok g value"
  shows "action_ok lo hi (store (\<lambda>x gp. gp\<lparr>throttle := x\<rparr>) (uni_hid_parser_process_pedal g value))"
    "action_ok lo hi (store (\<lambda>x gp. gp\<lparr>brake := x\<rparr>) (uni_hid_parser_process_pedal g value))"
  using assms
  by (auto simp: field_ok_def uni_hid_parser_process_pedal_def store_abs intro!: action_ok_on_gamepad)

lemma action_ok_axis:
  assumes "r = Some x" "lo \<le> x" "x \<le> hi"
  shows "action_ok lo hi (store (\<lambda>v gp. gp\<lparr>axis_x := v\<rparr>) r)"
    "action_ok lo hi (store (\<lambda>v gp. gp\<lparr>axis_y := v\<rparr>) r)"
    "action_ok lo hi (store (\<lambda>v gp. gp\<lparr>axis_rx := v\<rparr>) r)"
    "action_ok lo hi (store (\<lambda>v gp. gp\<lparr>axis_ry := v\<rparr>) r)"
  using assms
  by (auto simp: action_ok_def store_def on_gamepad_def axes_ok_def split: uni_controller_data.splits)

lemma action_ok_process_axis:
  assumes "field_ok g value" "lo \<le> - 512" "511 \<le> hi"
  shows "action_ok lo hi (store (\<lambda>v gp. gp\<lparr>axis_x := v\<rparr>) (uni_hid_parser_process_axis g value))"
    "action_ok lo hi (store (\<lambda>v gp. gp\<lparr>axis_y := v\<rparr>) (uni_hid_parser_process_axis g value))"
    "action_ok lo hi (store (\<lambda>v gp. gp\<lparr>axis_rx := v\<rparr>) (uni_hid_parser_process_axis g value))"
    "action_ok lo hi (store (\<lambda>v gp. gp\<lparr>axis_ry := v\<rparr>) (uni_hid_parser_process_axis g value))"
  using process_axis_bounds [OF assms(1)] assms(2,3) by (auto intro!: action_ok_axis)

lemma axes_ok_clean: "lo \<le> 0 \<Longrightarrow> 0 \<le> hi \<Longrightarrow> axes_ok lo hi clean_gamepad"
  by (simp add: axes_ok_def clean_gamepad_def gamepad0_def)

end
