(* ===== verification/UsageParsers.thy ===== *)
theory UsageParsers
  imports HidParser
begin

text \<open>
  The controller parsers of bluepad32 that only implement \<open>init_report\<close> and \<open>parse_usage\<close>:
  generic, Android, 8BitDo, Nimbus, OUYA and smart TV remotes (\<^verbatim>\<open>parser/uni_hid_parser_*.c\<close>). A
  parser is one definition per usage page and the outer \<^verbatim>\<open>switch\<close> over the pages; log output is
  not modelled, so a branch that only logs or only breaks is the default action \<^term>\<open>Some\<close>. Each parser interprets the
  contract \<open>usage_parser\<close> with the range its sticks have, and the 8BitDo parser is compared with
  the Android parser under the Switch button layout.
\<close>

subsection \<open>Usage pages and usages\<close>

abbreviation (input) "HID_USAGE_PAGE_GENERIC_DESKTOP \<equiv> (0x01 :: u16)"
abbreviation (input) "HID_USAGE_PAGE_SIMULATION_CONTROLS \<equiv> (0x02 :: u16)"
abbreviation (input) "HID_USAGE_PAGE_GENERIC_DEVICE_CONTROLS \<equiv> (0x06 :: u16)"
abbreviation (input) "HID_USAGE_PAGE_KEYBOARD_KEYPAD \<equiv> (0x07 :: u16)"
abbreviation (input) "HID_USAGE_PAGE_BUTTON \<equiv> (0x09 :: u16)"
abbreviation (input) "HID_USAGE_PAGE_CONSUMER \<equiv> (0x0c :: u16)"

abbreviation (input) "HID_USAGE_AXIS_X \<equiv> (0x30 :: u16)"
abbreviation (input) "HID_USAGE_AXIS_Y \<equiv> (0x31 :: u16)"
abbreviation (input) "HID_USAGE_AXIS_Z \<equiv> (0x32 :: u16)"
abbreviation (input) "HID_USAGE_AXIS_RX \<equiv> (0x33 :: u16)"
abbreviation (input) "HID_USAGE_AXIS_RY \<equiv> (0x34 :: u16)"
abbreviation (input) "HID_USAGE_AXIS_RZ \<equiv> (0x35 :: u16)"
abbreviation (input) "HID_USAGE_HAT \<equiv> (0x39 :: u16)"
abbreviation (input) "HID_USAGE_SYSTEM_MAIN_MENU \<equiv> (0x85 :: u16)"
abbreviation (input) "HID_USAGE_DPAD_UP \<equiv> (0x90 :: u16)"
abbreviation (input) "HID_USAGE_DPAD_DOWN \<equiv> (0x91 :: u16)"
abbreviation (input) "HID_USAGE_DPAD_RIGHT \<equiv> (0x92 :: u16)"
abbreviation (input) "HID_USAGE_DPAD_LEFT \<equiv> (0x93 :: u16)"
abbreviation (input) "HID_USAGE_ACCELERATOR \<equiv> (0xc4 :: u16)"
abbreviation (input) "HID_USAGE_BRAKE \<equiv> (0xc5 :: u16)"
abbreviation (input) "HID_USAGE_BATTERY_STRENGTH \<equiv> (0x20 :: u16)"

abbreviation (input) "HID_USAGE_KB_ENTER \<equiv> (0x28 :: u16)"
abbreviation (input) "HID_USAGE_KB_RIGHT_ARROW \<equiv> (0x4f :: u16)"
abbreviation (input) "HID_USAGE_KB_LEFT_ARROW \<equiv> (0x50 :: u16)"
abbreviation (input) "HID_USAGE_KB_DOWN_ARROW \<equiv> (0x51 :: u16)"
abbreviation (input) "HID_USAGE_KB_UP_ARROW \<equiv> (0x52 :: u16)"
abbreviation (input) "HID_USAGE_KP_ENTER \<equiv> (0x58 :: u16)"

abbreviation (input) "HID_USAGE_MENU \<equiv> (0x40 :: u16)"
abbreviation (input) "HID_USAGE_RECORD \<equiv> (0xb2 :: u16)"
abbreviation (input) "HID_USAGE_AC_HOME \<equiv> (0x223 :: u16)"
abbreviation (input) "HID_USAGE_AC_BACK \<equiv> (0x224 :: u16)"

abbreviation (input) "set_axis_x \<equiv> store (\<lambda>v gp. gp\<lparr>axis_x := v\<rparr>)"
abbreviation (input) "set_axis_y \<equiv> store (\<lambda>v gp. gp\<lparr>axis_y := v\<rparr>)"
abbreviation (input) "set_axis_rx \<equiv> store (\<lambda>v gp. gp\<lparr>axis_rx := v\<rparr>)"
abbreviation (input) "set_axis_ry \<equiv> store (\<lambda>v gp. gp\<lparr>axis_ry := v\<rparr>)"
abbreviation (input) "set_brake \<equiv> store (\<lambda>v gp. gp\<lparr>brake := v\<rparr>)"
abbreviation (input) "set_throttle \<equiv> store (\<lambda>v gp. gp\<lparr>throttle := v\<rparr>)"

text \<open>The page of generic device controls is the same in every parser: only the battery level.\<close>

definition device_controls :: "u16 \<Rightarrow> int \<Rightarrow> usage_action" where
  "device_controls usage v = switch usage [(HID_USAGE_BATTERY_STRENGTH, store_battery v)] Some"

subsection \<open>Generic gamepads\<close>

definition uni_hid_parser_generic_init_report :: "uni_controller \<Rightarrow> uni_controller" where
  "uni_hid_parser_generic_init_report c = clean_gamepad"

definition generic_desktop :: "hid_globals \<Rightarrow> u16 \<Rightarrow> int \<Rightarrow> usage_action" where
  "generic_desktop g usage v = switch usage
     [(HID_USAGE_AXIS_X, set_axis_x (uni_hid_parser_process_axis g v)),
      (HID_USAGE_AXIS_Y, set_axis_y (uni_hid_parser_process_axis g v)),
      (HID_USAGE_AXIS_Z, set_axis_rx (uni_hid_parser_process_axis g v)),
      (HID_USAGE_AXIS_RX, set_axis_rx (uni_hid_parser_process_axis g v)),
      (HID_USAGE_AXIS_RY, set_axis_ry (uni_hid_parser_process_pedal g v)),
      (HID_USAGE_AXIS_RZ, set_axis_ry (uni_hid_parser_process_axis g v)),
      (HID_USAGE_HAT, store_hat g v),
      (HID_USAGE_DPAD_UP, store_dpad usage v),
      (HID_USAGE_DPAD_DOWN, store_dpad usage v),
      (HID_USAGE_DPAD_RIGHT, store_dpad usage v),
      (HID_USAGE_DPAD_LEFT, store_dpad usage v)] Some"

definition generic_simulation :: "hid_globals \<Rightarrow> u16 \<Rightarrow> int \<Rightarrow> usage_action" where
  "generic_simulation g usage v = switch usage
     [(HID_USAGE_ACCELERATOR, set_throttle (uni_hid_parser_process_pedal g v)),
      (HID_USAGE_BRAKE, set_brake (uni_hid_parser_process_pedal g v))] Some"

definition generic_keyboard :: "u16 \<Rightarrow> int \<Rightarrow> usage_action" where
  "generic_keyboard usage v = switch usage [(HID_USAGE_KB_ENTER, press_misc MISC_BUTTON_SYSTEM v)] Some"

definition generic_button :: "u16 \<Rightarrow> int \<Rightarrow> usage_action" where
  "generic_button usage v = switch usage
     [(0x01, press BUTTON_A v),
      (0x02, press BUTTON_B v),
      (0x04, press BUTTON_X v),
      (0x05, press BUTTON_Y v),
      (0x07, press BUTTON_SHOULDER_L v),
      (0x08, press BUTTON_SHOULDER_R v),
      (0x0b, press_misc MISC_BUTTON_SELECT v),
      (0x0c, press_misc MISC_BUTTON_START v),
      (0x0d, press_misc MISC_BUTTON_SYSTEM v),
      (0x0e, press BUTTON_THUMB_L v),
      (0x0f, press BUTTON_THUMB_R v)] Some"

definition generic_consumer :: "u16 \<Rightarrow> int \<Rightarrow> usage_action" where
  "generic_consumer usage v = switch usage
     [(HID_USAGE_AC_HOME, press_misc MISC_BUTTON_START v),
      (HID_USAGE_AC_BACK, press_misc MISC_BUTTON_SELECT v)] Some"

definition uni_hid_parser_generic_parse_usage ::
    "hid_globals \<Rightarrow> u16 \<Rightarrow> u16 \<Rightarrow> int \<Rightarrow> usage_action" where
  "uni_hid_parser_generic_parse_usage g page usage v = switch page
     [(HID_USAGE_PAGE_GENERIC_DESKTOP, generic_desktop g usage v),
      (HID_USAGE_PAGE_SIMULATION_CONTROLS, generic_simulation g usage v),
      (HID_USAGE_PAGE_KEYBOARD_KEYPAD, generic_keyboard usage v),
      (HID_USAGE_PAGE_GENERIC_DEVICE_CONTROLS, device_controls usage v),
      (HID_USAGE_PAGE_BUTTON, generic_button usage v),
      (HID_USAGE_PAGE_CONSUMER, generic_consumer usage v)] Some"

subsection \<open>Android\<close>

definition uni_hid_parser_android_init_report :: "uni_controller \<Rightarrow> uni_controller" where
  "uni_hid_parser_android_init_report c = clean_gamepad"

definition android_desktop :: "hid_globals \<Rightarrow> u16 \<Rightarrow> int \<Rightarrow> usage_action" where
  "android_desktop g usage v = switch usage
     [(HID_USAGE_AXIS_X, set_axis_x (uni_hid_parser_process_axis g v)),
      (HID_USAGE_AXIS_Y, set_axis_y (uni_hid_parser_process_axis g v)),
      (HID_USAGE_AXIS_Z, set_axis_rx (uni_hid_parser_process_axis g v)),
      (HID_USAGE_AXIS_RZ, set_axis_ry (uni_hid_parser_process_axis g v)),
      (HID_USAGE_HAT, store_hat g v),
      (HID_USAGE_DPAD_UP, store_dpad usage v),
      (HID_USAGE_DPAD_DOWN, store_dpad usage v),
      (HID_USAGE_DPAD_RIGHT, store_dpad usage v),
      (HID_USAGE_DPAD_LEFT, store_dpad usage v)] Some"

definition android_simulation :: "hid_globals \<Rightarrow> u16 \<Rightarrow> int \<Rightarrow> usage_action" where
  "android_simulation g usage v = switch usage
     [(HID_USAGE_ACCELERATOR, set_throttle (uni_hid_parser_process_pedal g v)),
      (HID_USAGE_BRAKE, set_brake (uni_hid_parser_process_pedal g v))] Some"

definition android_button :: "u16 \<Rightarrow> int \<Rightarrow> usage_action" where
  "android_button usage v = switch usage
     [(0x01, press BUTTON_A v),
      (0x02, press BUTTON_B v),
      (0x04, press BUTTON_X v),
      (0x05, press BUTTON_Y v),
      (0x07, press BUTTON_SHOULDER_L v),
      (0x08, press BUTTON_SHOULDER_R v),
      (0x09, press BUTTON_TRIGGER_L v),
      (0x0a, press BUTTON_TRIGGER_R v),
      (0x0b, press_misc MISC_BUTTON_SELECT v),
      (0x0c, press_misc MISC_BUTTON_START v),
      (0x0d, press_misc MISC_BUTTON_SYSTEM v),
      (0x0e, press BUTTON_THUMB_L v),
      (0x0f, press BUTTON_THUMB_R v),
      (0x13, press BUTTON_TRIGGER_L v),
      (0x14, press BUTTON_TRIGGER_R v)] Some"

definition android_consumer :: "u16 \<Rightarrow> int \<Rightarrow> usage_action" where
  "android_consumer usage v = switch usage
     [(HID_USAGE_AC_HOME, press_misc MISC_BUTTON_START v),
      (HID_USAGE_AC_BACK, press_misc MISC_BUTTON_SELECT v)] Some"

definition uni_hid_parser_android_parse_usage ::
    "hid_globals \<Rightarrow> u16 \<Rightarrow> u16 \<Rightarrow> int \<Rightarrow> usage_action" where
  "uni_hid_parser_android_parse_usage g page usage v = switch page
     [(HID_USAGE_PAGE_GENERIC_DESKTOP, android_desktop g usage v),
      (HID_USAGE_PAGE_SIMULATION_CONTROLS, android_simulation g usage v),
      (HID_USAGE_PAGE_GENERIC_DEVICE_CONTROLS, device_controls usage v),
      (HID_USAGE_PAGE_BUTTON, android_button usage v),
      (HID_USAGE_PAGE_CONSUMER, android_consumer usage v)] Some"

subsection \<open>8BitDo\<close>

definition uni_hid_parser_8bitdo_init_report :: "uni_controller \<Rightarrow> uni_controller" where
  "uni_hid_parser_8bitdo_init_report c = clean_gamepad"

definition bitdo_desktop :: "hid_globals \<Rightarrow> u16 \<Rightarrow> int \<Rightarrow> usage_action" where
  "bitdo_desktop g usage v = switch usage
     [(HID_USAGE_AXIS_X, set_axis_x (uni_hid_parser_process_axis g v)),
      (HID_USAGE_AXIS_Y, set_axis_y (uni_hid_parser_process_axis g v)),
      (HID_USAGE_AXIS_Z, set_axis_rx (uni_hid_parser_process_axis g v)),
      (HID_USAGE_AXIS_RZ, set_axis_ry (uni_hid_parser_process_axis g v)),
      (HID_USAGE_HAT, store_hat g v),
      (HID_USAGE_DPAD_UP, store_dpad usage v),
      (HID_USAGE_DPAD_DOWN, store_dpad usage v),
      (HID_USAGE_DPAD_RIGHT, store_dpad usage v),
      (HID_USAGE_DPAD_LEFT, store_dpad usage v)] Some"

definition bitdo_simulation :: "hid_globals \<Rightarrow> u16 \<Rightarrow> int \<Rightarrow> usage_action" where
  "bitdo_simulation g usage v = switch usage
     [(HID_USAGE_ACCELERATOR, set_throttle (uni_hid_parser_process_pedal g v)),
      (HID_USAGE_BRAKE, set_brake (uni_hid_parser_process_pedal g v))] Some"

definition bitdo_button :: "u16 \<Rightarrow> int \<Rightarrow> usage_action" where
  "bitdo_button usage v = switch usage
     [(0x01, press BUTTON_B v),
      (0x02, press BUTTON_A v),
      (0x03, press_misc MISC_BUTTON_SYSTEM v),
      (0x04, press BUTTON_Y v),
      (0x05, press BUTTON_X v),
      (0x07, press BUTTON_SHOULDER_L v),
      (0x08, press BUTTON_SHOULDER_R v),
      (0x09, press BUTTON_TRIGGER_L v),
      (0x0a, press BUTTON_TRIGGER_R v),
      (0x0b, press_misc MISC_BUTTON_SELECT v),
      (0x0c, press_misc MISC_BUTTON_START v),
      (0x0d, press_misc MISC_BUTTON_SYSTEM v),
      (0x0e, press BUTTON_THUMB_L v),
      (0x0f, press BUTTON_THUMB_R v)] Some"

text \<open>
  The keyboard mode of the 8BitDo Zero 2; \<^verbatim>\<open>x |= value ? b : 0\<close> is a press. The keys are C to K
  and M to O, that is 0x06 to 0x0e and 0x10 to 0x12.
\<close>

definition bitdo_keyboard :: "u16 \<Rightarrow> int \<Rightarrow> usage_action" where
  "bitdo_keyboard usage v = switch usage
     [(0x06, press_dpad DPAD_UP v),
      (0x07, press_dpad DPAD_DOWN v),
      (0x08, press_dpad DPAD_LEFT v),
      (0x09, press_dpad DPAD_RIGHT v),
      (0x0a, press BUTTON_B v),
      (0x0b, press BUTTON_Y v),
      (0x0c, press BUTTON_X v),
      (0x0d, press BUTTON_A v),
      (0x0e, press BUTTON_SHOULDER_L v),
      (0x10, press BUTTON_SHOULDER_R v),
      (0x11, press_misc MISC_BUTTON_SELECT v),
      (0x12, press_misc MISC_BUTTON_START v)] Some"

definition uni_hid_parser_8bitdo_parse_usage ::
    "hid_globals \<Rightarrow> u16 \<Rightarrow> u16 \<Rightarrow> int \<Rightarrow> usage_action" where
  "uni_hid_parser_8bitdo_parse_usage g page usage v = switch page
     [(HID_USAGE_PAGE_GENERIC_DESKTOP, bitdo_desktop g usage v),
      (HID_USAGE_PAGE_SIMULATION_CONTROLS, bitdo_simulation g usage v),
      (HID_USAGE_PAGE_BUTTON, bitdo_button usage v),
      (HID_USAGE_PAGE_GENERIC_DEVICE_CONTROLS, device_controls usage v),
      (HID_USAGE_PAGE_KEYBOARD_KEYPAD, bitdo_keyboard usage v)] Some"

subsection \<open>Nimbus\<close>

definition uni_hid_parser_nimbus_init_report :: "uni_controller \<Rightarrow> uni_controller" where
  "uni_hid_parser_nimbus_init_report c = clean_gamepad"

definition negated :: "int option \<Rightarrow> int option" where
  "negated r = (case r of None \<Rightarrow> None | Some x \<Rightarrow> chk32 (- x))"

definition nimbus_desktop :: "hid_globals \<Rightarrow> u16 \<Rightarrow> int \<Rightarrow> usage_action" where
  "nimbus_desktop g usage v = switch usage
     [(HID_USAGE_AXIS_X, set_axis_x (uni_hid_parser_process_axis g v)),
      (HID_USAGE_AXIS_Y, set_axis_y (negated (uni_hid_parser_process_axis g v))),
      (HID_USAGE_AXIS_Z, set_axis_rx (uni_hid_parser_process_axis g v)),
      (HID_USAGE_AXIS_RZ, set_axis_ry (negated (uni_hid_parser_process_axis g v))),
      (HID_USAGE_HAT, store_hat g v),
      (HID_USAGE_DPAD_UP, store_dpad usage v),
      (HID_USAGE_DPAD_DOWN, store_dpad usage v),
      (HID_USAGE_DPAD_RIGHT, store_dpad usage v),
      (HID_USAGE_DPAD_LEFT, store_dpad usage v)] Some"

definition nimbus_simulation :: "hid_globals \<Rightarrow> u16 \<Rightarrow> int \<Rightarrow> usage_action" where
  "nimbus_simulation g usage v = switch usage
     [(HID_USAGE_ACCELERATOR, set_throttle (uni_hid_parser_process_pedal g v)),
      (HID_USAGE_BRAKE, set_brake (uni_hid_parser_process_pedal g v))] Some"

text \<open>Buttons 7 and 8 are reported both as a trigger button and as a pedal.\<close>

definition and_then :: "usage_action \<Rightarrow> usage_action \<Rightarrow> usage_action" where
  "and_then a b c = (case a c of None \<Rightarrow> None | Some c' \<Rightarrow> b c')"

definition nimbus_button :: "hid_globals \<Rightarrow> u16 \<Rightarrow> int \<Rightarrow> usage_action" where
  "nimbus_button g usage v = switch usage
     [(0x01, press BUTTON_A v),
      (0x02, press BUTTON_B v),
      (0x03, press BUTTON_X v),
      (0x04, press BUTTON_Y v),
      (0x05, press BUTTON_SHOULDER_L v),
      (0x06, press BUTTON_SHOULDER_R v),
      (0x07, and_then (press BUTTON_TRIGGER_L v) (set_brake (uni_hid_parser_process_pedal g v))),
      (0x08, and_then (press BUTTON_TRIGGER_R v) (set_throttle (uni_hid_parser_process_pedal g v)))] Some"

definition nimbus_consumer :: "u16 \<Rightarrow> int \<Rightarrow> usage_action" where
  "nimbus_consumer usage v = switch usage [(HID_USAGE_AC_HOME, press_misc MISC_BUTTON_SYSTEM v)] Some"

definition uni_hid_parser_nimbus_parse_usage ::
    "hid_globals \<Rightarrow> u16 \<Rightarrow> u16 \<Rightarrow> int \<Rightarrow> usage_action" where
  "uni_hid_parser_nimbus_parse_usage g page usage v = switch page
     [(HID_USAGE_PAGE_GENERIC_DESKTOP, nimbus_desktop g usage v),
      (HID_USAGE_PAGE_SIMULATION_CONTROLS, nimbus_simulation g usage v),
      (HID_USAGE_PAGE_GENERIC_DEVICE_CONTROLS, device_controls usage v),
      (HID_USAGE_PAGE_BUTTON, nimbus_button g usage v),
      (HID_USAGE_PAGE_CONSUMER, nimbus_consumer usage v)] Some"

subsection \<open>OUYA\<close>

definition uni_hid_parser_ouya_init_report :: "uni_controller \<Rightarrow> uni_controller" where
  "uni_hid_parser_ouya_init_report c = clean_gamepad"

definition ouya_desktop :: "hid_globals \<Rightarrow> u16 \<Rightarrow> int \<Rightarrow> usage_action" where
  "ouya_desktop g usage v = switch usage
     [(HID_USAGE_AXIS_X, set_axis_x (uni_hid_parser_process_axis g v)),
      (HID_USAGE_AXIS_Y, set_axis_y (uni_hid_parser_process_axis g v)),
      (HID_USAGE_AXIS_Z, set_brake (uni_hid_parser_process_pedal g v)),
      (HID_USAGE_AXIS_RX, set_axis_rx (uni_hid_parser_process_axis g v)),
      (HID_USAGE_AXIS_RY, set_axis_ry (uni_hid_parser_process_axis g v)),
      (HID_USAGE_AXIS_RZ, set_throttle (uni_hid_parser_process_pedal g v))] Some"

definition ouya_button :: "u16 \<Rightarrow> int \<Rightarrow> usage_action" where
  "ouya_button usage v = switch usage
     [(0x01, press BUTTON_A v),
      (0x02, press BUTTON_X v),
      (0x03, press BUTTON_Y v),
      (0x04, press BUTTON_B v),
      (0x05, press BUTTON_SHOULDER_L v),
      (0x06, press BUTTON_SHOULDER_R v),
      (0x07, press BUTTON_THUMB_L v),
      (0x08, press BUTTON_THUMB_R v),
      (0x09, press_dpad DPAD_UP v),
      (0x0a, press_dpad DPAD_DOWN v),
      (0x0b, press_dpad DPAD_LEFT v),
      (0x0c, press_dpad DPAD_RIGHT v),
      (0x0d, press BUTTON_TRIGGER_L v),
      (0x0e, press BUTTON_TRIGGER_R v),
      (0x0f, press_misc MISC_BUTTON_SYSTEM v)] Some"

definition uni_hid_parser_ouya_parse_usage ::
    "hid_globals \<Rightarrow> u16 \<Rightarrow> u16 \<Rightarrow> int \<Rightarrow> usage_action" where
  "uni_hid_parser_ouya_parse_usage g page usage v = switch page
     [(HID_USAGE_PAGE_GENERIC_DESKTOP, ouya_desktop g usage v),
      (HID_USAGE_PAGE_BUTTON, ouya_button usage v)] Some"

subsection \<open>Smart TV remotes\<close>

definition uni_hid_parser_smarttvremote_init_report :: "uni_controller \<Rightarrow> uni_controller" where
  "uni_hid_parser_smarttvremote_init_report c = clean_gamepad"

definition smarttv_keyboard :: "u16 \<Rightarrow> int \<Rightarrow> usage_action" where
  "smarttv_keyboard usage v = switch usage
     [(HID_USAGE_KB_RIGHT_ARROW, press_dpad DPAD_RIGHT v),
      (HID_USAGE_KB_LEFT_ARROW, press_dpad DPAD_LEFT v),
      (HID_USAGE_KB_DOWN_ARROW, press_dpad DPAD_DOWN v),
      (HID_USAGE_KB_UP_ARROW, press_dpad DPAD_UP v),
      (HID_USAGE_KP_ENTER, press BUTTON_A v),
      (0xf1, press_misc MISC_BUTTON_SELECT v)] Some"

definition smarttv_consumer :: "u16 \<Rightarrow> int \<Rightarrow> usage_action" where
  "smarttv_consumer usage v = switch usage
     [(HID_USAGE_MENU, press_misc MISC_BUTTON_SYSTEM v),
      (HID_USAGE_AC_HOME, press_misc MISC_BUTTON_START v)] Some"

definition uni_hid_parser_smarttvremote_parse_usage ::
    "hid_globals \<Rightarrow> u16 \<Rightarrow> u16 \<Rightarrow> int \<Rightarrow> usage_action" where
  "uni_hid_parser_smarttvremote_parse_usage g page usage v = switch page
     [(HID_USAGE_PAGE_GENERIC_DEVICE_CONTROLS, device_controls usage v),
      (HID_USAGE_PAGE_KEYBOARD_KEYPAD, smarttv_keyboard usage v),
      (HID_USAGE_PAGE_CONSUMER, smarttv_consumer usage v)] Some"

subsection \<open>The contract holds for every parser\<close>

lemma action_ok_and_then [action_rules]:
  "action_ok lo hi a \<Longrightarrow> action_ok lo hi b \<Longrightarrow> action_ok lo hi (and_then a b)"
  by (fastforce simp: action_ok_def and_then_def)

lemma usage_ok_field: "usage_ok g page usage v \<Longrightarrow> \<not> (page = 1 \<and> usage = 0x39) \<Longrightarrow> field_ok g v"
  by (auto simp: usage_ok_def)

lemma device_controls_ok [action_rules]: "action_ok lo hi (device_controls usage v)"
  unfolding device_controls_def by (intro action_ok_switch) (simp_all add: action_rules)

lemma negated_axis:
  assumes "field_ok g v" "lo \<le> - 512" "512 \<le> hi"
  shows "action_ok lo hi (set_axis_y (negated (uni_hid_parser_process_axis g v)))"
    "action_ok lo hi (set_axis_ry (negated (uni_hid_parser_process_axis g v)))"
proof -
  obtain x where x: "uni_hid_parser_process_axis g v = Some x" "- 512 \<le> x" "x \<le> 511"
    using process_axis_bounds [OF assms(1)] by blast
  then have "negated (uni_hid_parser_process_axis g v) = Some (- x)"
    by (simp add: negated_def s32_ok_def)
  with x assms(2,3) show "action_ok lo hi (set_axis_y (negated (uni_hid_parser_process_axis g v)))"
    "action_ok lo hi (set_axis_ry (negated (uni_hid_parser_process_axis g v)))"
    by (auto intro!: action_ok_axis)
qed

lemmas field_rules = usage_ok_field action_ok_hat action_ok_process_axis action_ok_pedal negated_axis

lemmas generic_pages = generic_desktop_def generic_simulation_def generic_keyboard_def generic_button_def
  generic_consumer_def
lemmas android_pages = android_desktop_def android_simulation_def android_button_def android_consumer_def
lemmas bitdo_pages = bitdo_desktop_def bitdo_simulation_def bitdo_button_def bitdo_keyboard_def
lemmas nimbus_pages = nimbus_desktop_def nimbus_simulation_def nimbus_button_def nimbus_consumer_def
lemmas ouya_pages = ouya_desktop_def ouya_button_def
lemmas smarttv_pages = smarttv_keyboard_def smarttv_consumer_def

text \<open>
  The generic parser reads usage Ry as a pedal, so that its right stick reaches 1023 there, and
  it needs a logical minimum of 0 for it.
\<close>

definition generic_usage_ok :: "hid_globals \<Rightarrow> u16 \<Rightarrow> u16 \<Rightarrow> int \<Rightarrow> bool" where
  "generic_usage_ok g page usage v \<longleftrightarrow>
     usage_ok g page usage v \<and> (page = 1 \<and> usage = HID_USAGE_AXIS_RY \<longrightarrow> logical_minimum g = 0)"

lemma pedal_as_axis:
  assumes "field_ok g v" "logical_minimum g = 0"
  shows "action_ok (- 512) 1023 (set_axis_ry (uni_hid_parser_process_pedal g v))"
  using process_pedal_bounds [OF assms] by (auto intro!: action_ok_axis)

lemma generic_ok:
  assumes "generic_usage_ok g page usage v"
  shows "action_ok (- 512) 1023 (uni_hid_parser_generic_parse_usage g page usage v)"
proof -
  have u: "usage_ok g page usage v" using assms by (simp add: generic_usage_ok_def)
  then have f: "page \<noteq> 1 \<or> usage \<noteq> 0x39 \<Longrightarrow> field_ok g v" using usage_ok_field by blast
  have p: "page = 1 \<Longrightarrow> usage = 0x34 \<Longrightarrow> action_ok (- 512) 1023 (set_axis_ry (uni_hid_parser_process_pedal g v))"
    using assms f by (intro pedal_as_axis) (auto simp: generic_usage_ok_def)
  show ?thesis
    unfolding uni_hid_parser_generic_parse_usage_def generic_pages
    by (auto intro!: action_ok_switch action_ok_process_axis action_ok_pedal action_ok_hat [OF u]
        p f simp: action_rules)
qed

lemma android_ok:
  assumes u: "usage_ok g page usage v"
  shows "action_ok (- 512) 511 (uni_hid_parser_android_parse_usage g page usage v)"
  unfolding uni_hid_parser_android_parse_usage_def android_pages
  using usage_ok_field [OF u]
  by (auto intro!: action_ok_switch action_ok_process_axis action_ok_pedal action_ok_hat [OF u]
      simp: action_rules)

lemma bitdo_ok:
  assumes u: "usage_ok g page usage v"
  shows "action_ok (- 512) 511 (uni_hid_parser_8bitdo_parse_usage g page usage v)"
  unfolding uni_hid_parser_8bitdo_parse_usage_def bitdo_pages
  using usage_ok_field [OF u]
  by (auto intro!: action_ok_switch action_ok_process_axis action_ok_pedal action_ok_hat [OF u]
      simp: action_rules)

lemma nimbus_ok:
  assumes u: "usage_ok g page usage v"
  shows "action_ok (- 512) 512 (uni_hid_parser_nimbus_parse_usage g page usage v)"
  unfolding uni_hid_parser_nimbus_parse_usage_def nimbus_pages
  using usage_ok_field [OF u]
  by (auto intro!: action_ok_switch action_ok_process_axis action_ok_pedal action_ok_hat [OF u]
      negated_axis action_ok_and_then simp: action_rules)

lemma ouya_ok:
  assumes u: "usage_ok g page usage v"
  shows "action_ok (- 512) 511 (uni_hid_parser_ouya_parse_usage g page usage v)"
  unfolding uni_hid_parser_ouya_parse_usage_def ouya_pages
  using usage_ok_field [OF u]
  by (auto intro!: action_ok_switch action_ok_process_axis action_ok_pedal simp: action_rules)

lemma smarttv_ok: "action_ok 0 0 (uni_hid_parser_smarttvremote_parse_usage g page usage v)"
  unfolding uni_hid_parser_smarttvremote_parse_usage_def smarttv_pages
  by (auto intro!: action_ok_switch simp: action_rules)

lemma contract_of_actions:
  assumes "lo \<le> 0" "0 \<le> hi" "\<And>c. i c = clean_gamepad"
    "\<And>g page usage v. fok g page usage v \<Longrightarrow> action_ok lo hi (p g page usage v)"
  shows "usage_parser id i p fok lo hi"
  using assms action_okD by unfold_locales (auto simp: axes_ok_clean)

interpretation generic: usage_parser id uni_hid_parser_generic_init_report
    uni_hid_parser_generic_parse_usage generic_usage_ok "- 512" 1023
  by (rule contract_of_actions) (simp_all add: uni_hid_parser_generic_init_report_def generic_ok)

interpretation android: usage_parser id uni_hid_parser_android_init_report
    uni_hid_parser_android_parse_usage usage_ok "- 512" 511
  by (rule contract_of_actions) (simp_all add: uni_hid_parser_android_init_report_def android_ok)

interpretation bitdo: usage_parser id uni_hid_parser_8bitdo_init_report
    uni_hid_parser_8bitdo_parse_usage usage_ok "- 512" 511
  by (rule contract_of_actions) (simp_all add: uni_hid_parser_8bitdo_init_report_def bitdo_ok)

interpretation nimbus: usage_parser id uni_hid_parser_nimbus_init_report
    uni_hid_parser_nimbus_parse_usage usage_ok "- 512" 512
  by (rule contract_of_actions) (simp_all add: uni_hid_parser_nimbus_init_report_def nimbus_ok)

interpretation ouya: usage_parser id uni_hid_parser_ouya_init_report
    uni_hid_parser_ouya_parse_usage usage_ok "- 512" 511
  by (rule contract_of_actions) (simp_all add: uni_hid_parser_ouya_init_report_def ouya_ok)

interpretation smarttv: usage_parser id uni_hid_parser_smarttvremote_init_report
    uni_hid_parser_smarttvremote_parse_usage "\<lambda>g page usage v. True" 0 0
  by (rule contract_of_actions) (simp_all add: uni_hid_parser_smarttvremote_init_report_def smarttv_ok)

subsection \<open>Whole reports\<close>

text \<open>
  C26. Whatever a controller reports, the sticks the parsers store stay in range: when BTstack
  splits a report into fields whose limits and range are at most \<open>2\<^sup>2\<^sup>0\<close> in
  magnitude (larger ones overflow in the scaling) and whose values lie within them (a hat may be out
  of them), with minimum 0 for a field used as Ry, the Android, 8BitDo and OUYA parsers process the
  whole report without undefined behaviour and leave a gamepad with all four stick axes in
  -512..511, the Nimbus parser in -512..512 (it negates two axes), the generic parser in -512..1023
  (it reads Ry as a pedal, and with another minimum leaves that range), and a TV remote leaves them
  at 0.
\<close>

theorem usage_parsers_range:
  assumes fs: "btstack_hid_parser_fields descr HID_INPUT report = Some fs"
    and ok: "list_all (\<lambda>(g, page, usage, v). generic_usage_ok g page usage v) fs"
  shows "\<forall>(lo, hi, init, parse) \<in> {
       (- 512, 511, uni_hid_parser_android_init_report, uni_hid_parser_android_parse_usage),
       (- 512, 511, uni_hid_parser_8bitdo_init_report, uni_hid_parser_8bitdo_parse_usage),
       (- 512, 511, uni_hid_parser_ouya_init_report, uni_hid_parser_ouya_parse_usage),
       (- 512, 512, uni_hid_parser_nimbus_init_report, uni_hid_parser_nimbus_parse_usage),
       (- 512, 1023, uni_hid_parser_generic_init_report, uni_hid_parser_generic_parse_usage),
       (0, 0, uni_hid_parser_smarttvremote_init_report, uni_hid_parser_smarttvremote_parse_usage)}.
     \<exists>c'. uni_hid_parse_input_report (usage_rp init parse) descr report c = Some c' \<and> axes_ok lo hi c'"
proof -
  have u: "list_all (\<lambda>(g, page, usage, v). usage_ok g page usage v) fs"
    using ok by (auto simp: list_all_iff generic_usage_ok_def)
  have t: "list_all (\<lambda>(g, page, usage, v). True) fs" by (simp add: list_all_iff)
  show ?thesis
    using android.report_ok [OF fs] bitdo.report_ok [OF fs] ouya.report_ok [OF fs] nimbus.report_ok [OF fs]
      generic.report_ok [OF fs] smarttv.report_ok [OF fs] u ok t
    unfolding android.fields_ok_def bitdo.fields_ok_def ouya.fields_ok_def nimbus.fields_ok_def
      generic.fields_ok_def smarttv.fields_ok_def by simp
qed

text \<open>A gamepad with an 8-bit stick of two axes, and two reports of it.\<close>

definition stick_descriptor :: "u8 list" where
  "stick_descriptor =
     [0x05, 0x01, 0x09, 0x05, 0xa1, 0x01, 0x09, 0x30, 0x09, 0x31, 0x15, 0x00, 0x26, 0xff, 0x00,
      0x75, 0x08, 0x95, 0x02, 0x81, 0x02, 0xc0]"

definition stick_globals :: hid_globals where
  "stick_globals = \<lparr>logical_minimum = 0, logical_maximum = 255, usage_page = 1, report_size = 8,
     report_count = 2, report_id = 0xff\<rparr>"

lemma stick_fields:
  "btstack_hid_parser_fields stick_descriptor HID_INPUT [0, 255] =
     Some [(stick_globals, 1, 0x30, 0), (stick_globals, 1, 0x31, 255)]"
  by code_simp

lemma stick_fields_ok:
  "list_all (\<lambda>(g, page, usage, v). generic_usage_ok g page usage v)
     [(stick_globals, 1, 0x30, 0), (stick_globals, 1, 0x31, 255)]"
  by (simp add: generic_usage_ok_def usage_ok_def field_ok_def axis_range_def axis_max_def
      stick_globals_def chk32_def s32_ok_def)

definition stick_result :: uni_controller where
  "stick_result = \<lparr>ctl_data = Class_gamepad (gamepad0\<lparr>axis_x := - 512, axis_y := 508\<rparr>), battery = 0\<rparr>"

theorem usage_parsers_range_witness:
  "uni_hid_parse_input_report (usage_rp uni_hid_parser_android_init_report uni_hid_parser_android_parse_usage)
      stick_descriptor [0, 255] clean_gamepad = Some stick_result \<and> axes_ok (- 512) 511 stick_result"
proof -
  have "uni_hid_parse_input_report (usage_rp uni_hid_parser_android_init_report uni_hid_parser_android_parse_usage)
      stick_descriptor [0, 255] clean_gamepad = Some stick_result"
    by code_simp
  then show ?thesis
    using usage_parsers_range [OF stick_fields stick_fields_ok, of clean_gamepad] by simp
qed

subsection \<open>8BitDo is Android with the Switch layout\<close>

definition switch_layout :: "uni_controller \<Rightarrow> uni_controller" where
  "switch_layout c = (case ctl_data c of
      Class_none gp \<Rightarrow> c\<lparr>ctl_data := Class_none (remap_switch gp)\<rparr>
    | Class_gamepad gp \<Rightarrow> c\<lparr>ctl_data := Class_gamepad (remap_switch gp)\<rparr>
    | _ \<Rightarrow> c)"

text \<open>
  The usages the two parsers treat alike: buttons 3 (home on the M30), 0x13 and 0x14 (triggers of
  the Stadia) and the pages only one of them knows are left out.
\<close>

definition common_usage :: "u16 \<Rightarrow> u16 \<Rightarrow> bool" where
  "common_usage page usage \<longleftrightarrow> page \<in> {1, 2, 6} \<or> page = 9 \<and> usage \<notin> {3, 0x13, 0x14}"

lemma remap_switch_fields:
  "dpad (remap_switch gp) = dpad gp" "axis_x (remap_switch gp) = axis_x gp"
  "misc_buttons (remap_switch gp) = misc_buttons gp"
  by (simp_all add: remap_switch_def Let_def)

definition mirrors :: "usage_action \<Rightarrow> usage_action \<Rightarrow> bool" where
  "mirrors a b \<longleftrightarrow> (\<forall>c. map_option switch_layout (a c) = b (switch_layout c))"

lemma mirrors_on_gamepad:
  "(\<And>gp. remap_switch (f gp) = f' (remap_switch gp)) \<Longrightarrow> mirrors (on_gamepad f) (on_gamepad f')"
  by (auto simp: mirrors_def on_gamepad_def switch_layout_def split: uni_controller_data.splits)

lemma remap_switch_upd:
  "remap_switch (gp\<lparr>dpad := d\<rparr>) = remap_switch gp\<lparr>dpad := d\<rparr>"
  "remap_switch (gp\<lparr>axis_x := v\<rparr>) = remap_switch gp\<lparr>axis_x := v\<rparr>"
  "remap_switch (gp\<lparr>axis_y := v\<rparr>) = remap_switch gp\<lparr>axis_y := v\<rparr>"
  "remap_switch (gp\<lparr>axis_rx := v\<rparr>) = remap_switch gp\<lparr>axis_rx := v\<rparr>"
  "remap_switch (gp\<lparr>axis_ry := v\<rparr>) = remap_switch gp\<lparr>axis_ry := v\<rparr>"
  "remap_switch (gp\<lparr>brake := v\<rparr>) = remap_switch gp\<lparr>brake := v\<rparr>"
  "remap_switch (gp\<lparr>throttle := v\<rparr>) = remap_switch gp\<lparr>throttle := v\<rparr>"
  "remap_switch (gp\<lparr>misc_buttons := m\<rparr>) = remap_switch gp\<lparr>misc_buttons := m\<rparr>"
  by (simp_all add: remap_switch_def Let_def)

lemma mirrors_same:
  "mirrors Some Some" "mirrors (store_battery v) (store_battery v)"
  "mirrors (press_misc m v) (press_misc m v)" "mirrors (store_dpad u v) (store_dpad u v)"
  unfolding press_misc_def store_dpad_def
  by (auto intro!: mirrors_on_gamepad simp: remap_switch_upd remap_switch_fields)
     (auto simp: mirrors_def store_battery_def switch_layout_def split: uni_controller_data.splits)

lemma mirrors_store:
  "(\<And>x gp. remap_switch (upd x gp) = upd x (remap_switch gp)) \<Longrightarrow> mirrors (store upd r) (store upd r)"
  by (cases r) (auto simp: store_abs mirrors_on_gamepad, auto simp: mirrors_def)

lemma mirrors_hat: "mirrors (store_hat g v) (store_hat g v)"
proof (cases "uni_hid_parser_process_hat g v")
  case None
  then show ?thesis by (simp add: mirrors_def store_hat_def)
next
  case (Some h)
  then have "store_hat g v = on_gamepad (\<lambda>gp. gp\<lparr>dpad := uni_hid_parser_hat_to_dpad h\<rparr>)"
    by (simp add: fun_eq_iff store_hat_def)
  then show ?thesis by (simp add: mirrors_on_gamepad remap_switch_upd)
qed

lemma mirrors_press:
  assumes "list_all (\<lambda>n. bit b' n = bit b (swap_ab_xy n)) [0..<16]"
  shows "mirrors (press b v) (press b' v)"
proof -
  have b: "bit b' n = bit b (swap_ab_xy n)" for n
    using assms by (cases "n < 16") (auto simp: list_all_iff swap_ab_xy_def dest: bit_imp_le_length)
  have "remap_switch (gp\<lparr>buttons := buttons gp OR b\<rparr>) =
      remap_switch gp\<lparr>buttons := buttons (remap_switch gp) OR b'\<rparr>" for gp
  proof -
    have "buttons (remap_switch (gp\<lparr>buttons := buttons gp OR b\<rparr>)) = buttons (remap_switch gp) OR b'"
      by (rule bit_eqI) (simp add: bit_remap_switch bit_or_iff b)
    then show ?thesis by (simp add: remap_switch_def Let_def)
  qed
  then show ?thesis by (simp add: press_def mirrors_on_gamepad mirrors_same)
qed

lemma mirrors_buttons:
  "mirrors (press BUTTON_A v) (press BUTTON_B v)" "mirrors (press BUTTON_B v) (press BUTTON_A v)"
  "mirrors (press BUTTON_X v) (press BUTTON_Y v)" "mirrors (press BUTTON_Y v) (press BUTTON_X v)"
  "mirrors (press BUTTON_SHOULDER_L v) (press BUTTON_SHOULDER_L v)"
  "mirrors (press BUTTON_SHOULDER_R v) (press BUTTON_SHOULDER_R v)"
  "mirrors (press BUTTON_TRIGGER_L v) (press BUTTON_TRIGGER_L v)"
  "mirrors (press BUTTON_TRIGGER_R v) (press BUTTON_TRIGGER_R v)"
  "mirrors (press BUTTON_THUMB_L v) (press BUTTON_THUMB_L v)"
  "mirrors (press BUTTON_THUMB_R v) (press BUTTON_THUMB_R v)"
  by (rule mirrors_press, code_simp)+

lemma bitdo_mirrors_android:
  assumes "common_usage page usage"
  shows "mirrors (uni_hid_parser_android_parse_usage g page usage v)
           (uni_hid_parser_8bitdo_parse_usage g page usage v)"
proof -
  have d: "mirrors (android_desktop g usage v) (bitdo_desktop g usage v)"
    unfolding android_desktop_def bitdo_desktop_def switch_def
    by (auto intro!: mirrors_store mirrors_hat simp: mirrors_same remap_switch_upd)
  have s: "mirrors (android_simulation g usage v) (bitdo_simulation g usage v)"
    unfolding android_simulation_def bitdo_simulation_def switch_def
    by (auto intro!: mirrors_store simp: mirrors_same remap_switch_upd)
  have c: "mirrors (device_controls usage v) (device_controls usage v)"
    unfolding device_controls_def switch_def by (auto simp: mirrors_same)
  have b: "mirrors (android_button usage v) (bitdo_button usage v)" if "usage \<notin> {3, 0x13, 0x14}"
    unfolding android_button_def bitdo_button_def switch_def
    using that by (simp add: mirrors_same mirrors_buttons)
  show ?thesis
    using assms d s c b
    by (auto simp: common_usage_def uni_hid_parser_android_parse_usage_def
        uni_hid_parser_8bitdo_parse_usage_def switch_def)
qed

lemma parse_fields_mirrors:
  assumes "\<And>g page usage v. (g, page, usage, v) \<in> set fs \<Longrightarrow> mirrors (pa g page usage v) (pb g page usage v)"
  shows "map_option switch_layout (parse_fields pa fs c) = parse_fields pb fs (switch_layout c)"
  using assms
proof (induction fs arbitrary: c)
  case (Cons f fs)
  obtain g page usage v where f: "f = (g, page, usage, v)" by (cases f)
  then have m: "map_option switch_layout (pa g page usage v c) = pb g page usage v (switch_layout c)"
    using Cons.prems [of g page usage v] by (simp add: mirrors_def)
  show ?case
    using Cons.IH Cons.prems f m [symmetric]
    by (cases "pa g page usage v c") auto
qed simp

text \<open>
  C27. The 8BitDo parser is the Android parser with the Switch button layout, as its comment says:
  for every descriptor and report whose fields are usages both parsers know (all pages they
  share, except the buttons 3, 0x13 and 0x14, which they treat differently), parsing as an
  8BitDo gamepad gives exactly what parsing as an Android gamepad and then exchanging A/B and X/Y
  gives, traps included.
\<close>

theorem bitdo_is_android_switch:
  assumes "list_all (\<lambda>(g, page, usage, v). common_usage page usage) fs"
    and "btstack_hid_parser_fields descr HID_INPUT report = Some fs"
  shows "uni_hid_parse_input_report (usage_rp uni_hid_parser_8bitdo_init_report uni_hid_parser_8bitdo_parse_usage) descr report c =
         map_option switch_layout
           (uni_hid_parse_input_report (usage_rp uni_hid_parser_android_init_report uni_hid_parser_android_parse_usage) descr report c)"
proof -
  have s: "switch_layout clean_gamepad = clean_gamepad"
    by (simp add: switch_layout_def clean_gamepad_def gamepad0_def remap_switch_def)
  have "map_option switch_layout (parse_fields uni_hid_parser_android_parse_usage fs clean_gamepad) =
      parse_fields uni_hid_parser_8bitdo_parse_usage fs (switch_layout clean_gamepad)"
    using assms(1) by (intro parse_fields_mirrors bitdo_mirrors_android) (auto simp: list_all_iff)
  then show ?thesis
    by (simp add: uni_hid_parse_input_report_def assms(2) s uni_hid_parser_android_init_report_def
        uni_hid_parser_8bitdo_init_report_def)
qed

text \<open>A descriptor with two buttons, A and B of the Android layout.\<close>

definition buttons_descriptor :: "u8 list" where
  "buttons_descriptor =
     [0x05, 0x01, 0x09, 0x05, 0xa1, 0x01, 0x05, 0x09, 0x19, 0x01, 0x29, 0x02, 0x15, 0x00, 0x25, 0x01,
      0x75, 0x01, 0x95, 0x02, 0x81, 0x02, 0xc0]"

definition buttons_globals :: hid_globals where
  "buttons_globals = \<lparr>logical_minimum = 0, logical_maximum = 1, usage_page = 9, report_size = 1,
     report_count = 2, report_id = 0xff\<rparr>"

theorem bitdo_is_android_switch_witness:
  "map_option switch_layout
     (uni_hid_parse_input_report (usage_rp uni_hid_parser_android_init_report uni_hid_parser_android_parse_usage)
        buttons_descriptor [1] clean_gamepad) =
   Some \<lparr>ctl_data = Class_gamepad (gamepad0\<lparr>buttons := BUTTON_B\<rparr>), battery = 0\<rparr>"
proof -
  have f: "btstack_hid_parser_fields buttons_descriptor HID_INPUT [1] =
      Some [(buttons_globals, 9, 1, 1), (buttons_globals, 9, 2, 0)]"
    by code_simp
  have "uni_hid_parse_input_report (usage_rp uni_hid_parser_8bitdo_init_report uni_hid_parser_8bitdo_parse_usage)
        buttons_descriptor [1] clean_gamepad =
      Some \<lparr>ctl_data = Class_gamepad (gamepad0\<lparr>buttons := BUTTON_B\<rparr>), battery = 0\<rparr>"
    by code_simp
  then show ?thesis
    using bitdo_is_android_switch [OF _ f, of clean_gamepad] by (simp add: common_usage_def)
qed

end
