(* ===== verification/XboxOne.thy ===== *)
theory XboxOne
  imports UsageParsers
begin

text \<open>
  The Xbox parser, \<^verbatim>\<open>parser/uni_hid_parser_xboxone.c\<close>: it guesses the firmware version of the gamepad
  and corrects the guess while it parses, and it drives the rumble motors with two timers. The
  parser interprets \<open>usage_parser\<close>; the rumble part is a state machine whose invariant excludes the
  failing assertion of \<open>xboxone_stop_rumble_now\<close>.
\<close>

subsection \<open>State\<close>

datatype xboxone_firmware = XBOXONE_FIRMWARE_V3_1 | XBOXONE_FIRMWARE_V4_8 | XBOXONE_FIRMWARE_V5

datatype xboxone_state_rumble =
    XBOXONE_STATE_RUMBLE_DISABLED
  | XBOXONE_STATE_RUMBLE_DELAYED
  | XBOXONE_STATE_RUMBLE_IN_PROGRESS

text \<open>
  A timer is \<open>None\<close>, or the milliseconds it was armed with. \<open>x_sent\<close> is the list of output reports:
  over the GATT service (\<open>Hids_write\<close>), or over the interrupt channel.
\<close>

datatype xbox_send = Hids_write "u8 list" | Intr_report "u8 list"

record xboxone_device =
  x_version :: xboxone_firmware
  rumble_timer_duration :: "nat option"
  rumble_timer_delayed_start :: "nat option"
  rumble_state :: xboxone_state_rumble
  rumble_duration_ms :: u16
  rumble_trigger_left :: u8
  rumble_trigger_right :: u8
  rumble_weak_magnitude :: u8
  rumble_strong_magnitude :: u8
  x_controller :: uni_controller
  x_sent :: "xbox_send list"

subsection \<open>Input reports\<close>

text \<open>The HID descriptor of firmware 4.8, which the parser gives to clones that do not report one.\<close>

definition xbox_hid_descriptor_4_8_fw :: "u8 list" where
  "xbox_hid_descriptor_4_8_fw = [
      0x05, 0x01, 0x09, 0x05, 0xa1, 0x01, 0x85, 0x01, 0x09, 0x01, 0xa1, 0x00, 0x09, 0x30, 0x09, 0x31,
      0x15, 0x00, 0x27, 0xff, 0xff, 0x00, 0x00, 0x95, 0x02, 0x75, 0x10, 0x81, 0x02, 0xc0, 0x09, 0x01,
      0xa1, 0x00, 0x09, 0x32, 0x09, 0x35, 0x15, 0x00, 0x27, 0xff, 0xff, 0x00, 0x00, 0x95, 0x02, 0x75,
      0x10, 0x81, 0x02, 0xc0, 0x05, 0x02, 0x09, 0xc5, 0x15, 0x00, 0x26, 0xff, 0x03, 0x95, 0x01, 0x75,
      0x0a, 0x81, 0x02, 0x15, 0x00, 0x25, 0x00, 0x75, 0x06, 0x95, 0x01, 0x81, 0x03, 0x05, 0x02, 0x09,
      0xc4, 0x15, 0x00, 0x26, 0xff, 0x03, 0x95, 0x01, 0x75, 0x0a, 0x81, 0x02, 0x15, 0x00, 0x25, 0x00,
      0x75, 0x06, 0x95, 0x01, 0x81, 0x03, 0x05, 0x01, 0x09, 0x39, 0x15, 0x01, 0x25, 0x08, 0x35, 0x00,
      0x46, 0x3b, 0x01, 0x66, 0x14, 0x00, 0x75, 0x04, 0x95, 0x01, 0x81, 0x42, 0x75, 0x04, 0x95, 0x01,
      0x15, 0x00, 0x25, 0x00, 0x35, 0x00, 0x45, 0x00, 0x65, 0x00, 0x81, 0x03, 0x05, 0x09, 0x19, 0x01,
      0x29, 0x0f, 0x15, 0x00, 0x25, 0x01, 0x75, 0x01, 0x95, 0x0f, 0x81, 0x02, 0x15, 0x00, 0x25, 0x00,
      0x75, 0x01, 0x95, 0x01, 0x81, 0x03, 0x05, 0x0c, 0x0a, 0x24, 0x02, 0x15, 0x00, 0x25, 0x01, 0x95,
      0x01, 0x75, 0x01, 0x81, 0x02, 0x15, 0x00, 0x25, 0x00, 0x75, 0x07, 0x95, 0x01, 0x81, 0x03, 0x05,
      0x0c, 0x09, 0x01, 0x85, 0x02, 0xa1, 0x01, 0x05, 0x0c, 0x0a, 0x23, 0x02, 0x15, 0x00, 0x25, 0x01,
      0x95, 0x01, 0x75, 0x01, 0x81, 0x02, 0x15, 0x00, 0x25, 0x00, 0x75, 0x07, 0x95, 0x01, 0x81, 0x03,
      0xc0, 0x05, 0x0f, 0x09, 0x21, 0x85, 0x03, 0xa1, 0x02, 0x09, 0x97, 0x15, 0x00, 0x25, 0x01, 0x75,
      0x04, 0x95, 0x01, 0x91, 0x02, 0x15, 0x00, 0x25, 0x00, 0x75, 0x04, 0x95, 0x01, 0x91, 0x03, 0x09,
      0x70, 0x15, 0x00, 0x25, 0x64, 0x75, 0x08, 0x95, 0x04, 0x91, 0x02, 0x09, 0x50, 0x66, 0x01, 0x10,
      0x55, 0x0e, 0x15, 0x00, 0x26, 0xff, 0x00, 0x75, 0x08, 0x95, 0x01, 0x91, 0x02, 0x09, 0xa7, 0x15,
      0x00, 0x26, 0xff, 0x00, 0x75, 0x08, 0x95, 0x01, 0x91, 0x02, 0x65, 0x00, 0x55, 0x00, 0x09, 0x7c,
      0x15, 0x00, 0x26, 0xff, 0x00, 0x75, 0x08, 0x95, 0x01, 0x91, 0x02, 0xc0, 0x05, 0x06, 0x09, 0x20,
      0x85, 0x04, 0x15, 0x00, 0x26, 0xff, 0x00, 0x75, 0x08, 0x95, 0x01, 0x81, 0x02, 0xc0]"

text \<open>The connection type and the length of the HID descriptor are arguments.\<close>

definition uni_hid_parser_xboxone_setup :: "bool \<Rightarrow> nat \<Rightarrow> xboxone_device \<Rightarrow> xboxone_device" where
  "uni_hid_parser_xboxone_setup connection_le hid_descriptor_len d =
     (if connection_le then d\<lparr>x_version := XBOXONE_FIRMWARE_V5\<rparr>
      else if hid_descriptor_len > 330 then d\<lparr>x_version := XBOXONE_FIRMWARE_V4_8\<rparr>
      else d\<lparr>x_version := XBOXONE_FIRMWARE_V3_1\<rparr>)"

definition uni_hid_parser_xboxone_init_report :: "xboxone_device \<Rightarrow> xboxone_device" where
  "uni_hid_parser_xboxone_init_report d = d\<lparr>x_controller := clean_gamepad\<rparr>"

definition v3_desktop :: "hid_globals \<Rightarrow> u16 \<Rightarrow> int \<Rightarrow> usage_action" where
  "v3_desktop g usage v = switch usage
     [(HID_USAGE_AXIS_X, set_axis_x (uni_hid_parser_process_axis g v)),
      (HID_USAGE_AXIS_Y, set_axis_y (uni_hid_parser_process_axis g v)),
      (HID_USAGE_AXIS_Z, set_brake (uni_hid_parser_process_pedal g v)),
      (HID_USAGE_AXIS_RX, set_axis_rx (uni_hid_parser_process_axis g v)),
      (HID_USAGE_AXIS_RY, set_axis_ry (uni_hid_parser_process_axis g v)),
      (HID_USAGE_AXIS_RZ, set_throttle (uni_hid_parser_process_pedal g v)),
      (HID_USAGE_HAT, store_hat g v),
      (HID_USAGE_SYSTEM_MAIN_MENU, press_misc MISC_BUTTON_SYSTEM v),
      (HID_USAGE_DPAD_UP, store_dpad usage v),
      (HID_USAGE_DPAD_DOWN, store_dpad usage v),
      (HID_USAGE_DPAD_RIGHT, store_dpad usage v),
      (HID_USAGE_DPAD_LEFT, store_dpad usage v)] Some"

definition v3_button :: "u16 \<Rightarrow> int \<Rightarrow> usage_action" where
  "v3_button usage v = switch usage
     [(0x01, press BUTTON_A v),
      (0x02, press BUTTON_B v),
      (0x03, press BUTTON_X v),
      (0x04, press BUTTON_Y v),
      (0x05, press BUTTON_SHOULDER_L v),
      (0x06, press BUTTON_SHOULDER_R v),
      (0x07, press_misc MISC_BUTTON_SELECT v),
      (0x08, press_misc MISC_BUTTON_START v),
      (0x09, press BUTTON_THUMB_L v),
      (0x0a, press BUTTON_THUMB_R v)] Some"

definition on_controller :: "usage_action \<Rightarrow> xboxone_device \<Rightarrow> xboxone_device option" where
  "on_controller a d = map_option (\<lambda>c. d\<lparr>x_controller := c\<rparr>) (a (x_controller d))"

text \<open>Button 0x0f does not exist before firmware 4.8: whatever its value, it corrects the version.\<close>

definition parse_usage_firmware_v3_1 ::
    "hid_globals \<Rightarrow> u16 \<Rightarrow> u16 \<Rightarrow> int \<Rightarrow> xboxone_device \<Rightarrow> xboxone_device option" where
  "parse_usage_firmware_v3_1 g page usage v d =
     (if page = HID_USAGE_PAGE_BUTTON \<and> usage = 0x0f then Some (d\<lparr>x_version := XBOXONE_FIRMWARE_V4_8\<rparr>)
      else on_controller (switch page
        [(HID_USAGE_PAGE_GENERIC_DESKTOP, v3_desktop g usage v),
         (HID_USAGE_PAGE_GENERIC_DEVICE_CONTROLS, device_controls usage v),
         (HID_USAGE_PAGE_BUTTON, v3_button usage v)] Some) d)"

definition v4_desktop :: "hid_globals \<Rightarrow> u16 \<Rightarrow> int \<Rightarrow> usage_action" where
  "v4_desktop g usage v = switch usage
     [(HID_USAGE_AXIS_X, set_axis_x (uni_hid_parser_process_axis g v)),
      (HID_USAGE_AXIS_Y, set_axis_y (uni_hid_parser_process_axis g v)),
      (HID_USAGE_AXIS_Z, set_axis_rx (uni_hid_parser_process_axis g v)),
      (HID_USAGE_AXIS_RZ, set_axis_ry (uni_hid_parser_process_axis g v)),
      (HID_USAGE_HAT, store_hat g v),
      (HID_USAGE_SYSTEM_MAIN_MENU, press_misc MISC_BUTTON_SYSTEM v),
      (HID_USAGE_DPAD_UP, store_dpad usage v),
      (HID_USAGE_DPAD_DOWN, store_dpad usage v),
      (HID_USAGE_DPAD_RIGHT, store_dpad usage v),
      (HID_USAGE_DPAD_LEFT, store_dpad usage v)] Some"

definition TRIGGER_BUTTON_THRESHOLD :: int where "TRIGGER_BUTTON_THRESHOLD = 32"

definition throttle_button :: usage_action where
  "throttle_button = on_gamepad (\<lambda>gp.
     if throttle gp \<ge> TRIGGER_BUTTON_THRESHOLD then gp\<lparr>buttons := buttons gp OR BUTTON_TRIGGER_R\<rparr> else gp)"

definition brake_button :: usage_action where
  "brake_button = on_gamepad (\<lambda>gp.
     if brake gp \<ge> TRIGGER_BUTTON_THRESHOLD then gp\<lparr>buttons := buttons gp OR BUTTON_TRIGGER_L\<rparr> else gp)"

definition v4_simulation :: "hid_globals \<Rightarrow> u16 \<Rightarrow> int \<Rightarrow> usage_action" where
  "v4_simulation g usage v = switch usage
     [(0xc4, and_then (set_throttle (uni_hid_parser_process_pedal g v)) throttle_button),
      (0xc5, and_then (set_brake (uni_hid_parser_process_pedal g v)) brake_button)] Some"

definition v4_button :: "u16 \<Rightarrow> int \<Rightarrow> usage_action" where
  "v4_button usage v = switch usage
     [(0x01, press BUTTON_A v),
      (0x02, press BUTTON_B v),
      (0x04, press BUTTON_X v),
      (0x05, press BUTTON_Y v),
      (0x07, press BUTTON_SHOULDER_L v),
      (0x08, press BUTTON_SHOULDER_R v),
      (0x0b, press_misc MISC_BUTTON_SELECT v),
      (0x0c, press_misc MISC_BUTTON_START v),
      (0x0d, press_misc MISC_BUTTON_SYSTEM v),
      (0x0e, press BUTTON_THUMB_L v),
      (0x0f, press BUTTON_THUMB_R v)] Some"

definition v4_consumer :: "u16 \<Rightarrow> int \<Rightarrow> usage_action" where
  "v4_consumer usage v = switch usage
     [(HID_USAGE_RECORD, press_misc MISC_BUTTON_CAPTURE v),
      (HID_USAGE_AC_BACK, press_misc MISC_BUTTON_SELECT v)] Some"

definition parse_usage_firmware_v4_v5 ::
    "hid_globals \<Rightarrow> u16 \<Rightarrow> u16 \<Rightarrow> int \<Rightarrow> xboxone_device \<Rightarrow> xboxone_device option" where
  "parse_usage_firmware_v4_v5 g page usage v d =
     on_controller (switch page
        [(HID_USAGE_PAGE_GENERIC_DESKTOP, v4_desktop g usage v),
         (HID_USAGE_PAGE_SIMULATION_CONTROLS, v4_simulation g usage v),
         (HID_USAGE_PAGE_GENERIC_DEVICE_CONTROLS, device_controls usage v),
         (HID_USAGE_PAGE_BUTTON, v4_button usage v),
         (HID_USAGE_PAGE_CONSUMER, v4_consumer usage v)] Some)
       (if page = HID_USAGE_PAGE_CONSUMER \<and> usage = HID_USAGE_RECORD
        then d\<lparr>x_version := XBOXONE_FIRMWARE_V5\<rparr> else d)"

definition uni_hid_parser_xboxone_parse_usage ::
    "hid_globals \<Rightarrow> u16 \<Rightarrow> u16 \<Rightarrow> int \<Rightarrow> xboxone_device \<Rightarrow> xboxone_device option" where
  "uni_hid_parser_xboxone_parse_usage g page usage v d =
     (if x_version d = XBOXONE_FIRMWARE_V3_1 then parse_usage_firmware_v3_1 g page usage v d
      else parse_usage_firmware_v4_v5 g page usage v d)"

lemmas v3_pages = v3_desktop_def v3_button_def
lemmas v4_pages = v4_desktop_def v4_simulation_def v4_button_def v4_consumer_def

lemma trigger_buttons_ok [action_rules]:
  "action_ok lo hi throttle_button" "action_ok lo hi brake_button"
  unfolding throttle_button_def brake_button_def by (rule action_ok_on_gamepad; simp)+

lemma v3_ok:
  assumes u: "usage_ok g page usage v"
  shows "action_ok (- 512) 511 (switch page
        [(HID_USAGE_PAGE_GENERIC_DESKTOP, v3_desktop g usage v),
         (HID_USAGE_PAGE_GENERIC_DEVICE_CONTROLS, device_controls usage v),
         (HID_USAGE_PAGE_BUTTON, v3_button usage v)] Some)"
  unfolding v3_pages using usage_ok_field [OF u]
  by (auto intro!: action_ok_switch action_ok_process_axis action_ok_pedal action_ok_hat [OF u]
      simp: action_rules)

lemma v4_ok:
  assumes u: "usage_ok g page usage v"
  shows "action_ok (- 512) 511 (switch page
        [(HID_USAGE_PAGE_GENERIC_DESKTOP, v4_desktop g usage v),
         (HID_USAGE_PAGE_SIMULATION_CONTROLS, v4_simulation g usage v),
         (HID_USAGE_PAGE_GENERIC_DEVICE_CONTROLS, device_controls usage v),
         (HID_USAGE_PAGE_BUTTON, v4_button usage v),
         (HID_USAGE_PAGE_CONSUMER, v4_consumer usage v)] Some)"
  unfolding v4_pages using usage_ok_field [OF u]
  by (auto intro!: action_ok_switch action_ok_process_axis action_ok_pedal action_ok_hat [OF u]
      action_ok_and_then simp: action_rules)

lemma on_controller_ok:
  "action_ok lo hi a \<Longrightarrow> axes_ok lo hi (x_controller d) \<Longrightarrow>
   \<exists>d'. on_controller a d = Some d' \<and> axes_ok lo hi (x_controller d') \<and> x_version d' = x_version d"
  using action_okD [of lo hi a "x_controller d"] by (auto simp: on_controller_def)

lemma xboxone_parse_ok:
  assumes "usage_ok g page usage v" "axes_ok (- 512) 511 (x_controller d)"
  shows "\<exists>d'. uni_hid_parser_xboxone_parse_usage g page usage v d = Some d' \<and> axes_ok (- 512) 511 (x_controller d')"
proof -
  let ?d = "d\<lparr>x_version := XBOXONE_FIRMWARE_V5\<rparr>"
  have "axes_ok (- 512) 511 (x_controller ?d)" using assms(2) by simp
  note ok = on_controller_ok [OF v3_ok [OF assms(1)] assms(2)] on_controller_ok [OF v4_ok [OF assms(1)] assms(2)]
    on_controller_ok [OF v4_ok [OF assms(1)] this]
  show ?thesis
    unfolding uni_hid_parser_xboxone_parse_usage_def parse_usage_firmware_v3_1_def parse_usage_firmware_v4_v5_def
    using assms(2) ok by (simp split: if_split) blast
qed

interpretation xboxone: usage_parser x_controller uni_hid_parser_xboxone_init_report
    uni_hid_parser_xboxone_parse_usage usage_ok "- 512" 511
  by unfold_locales
     (simp_all add: uni_hid_parser_xboxone_init_report_def axes_ok_clean xboxone_parse_ok)

fun firmware_rank :: "xboxone_firmware \<Rightarrow> nat" where
  "firmware_rank XBOXONE_FIRMWARE_V3_1 = 0"
| "firmware_rank XBOXONE_FIRMWARE_V4_8 = 1"
| "firmware_rank XBOXONE_FIRMWARE_V5 = 2"

lemma on_controller_version: "on_controller a d = Some d' \<Longrightarrow> x_version d' = x_version d"
  by (auto simp: on_controller_def)

lemma xboxone_version_step:
  assumes "uni_hid_parser_xboxone_parse_usage g page usage v d = Some d'"
  shows "firmware_rank (x_version d) \<le> firmware_rank (x_version d')"
    "page = 9 \<Longrightarrow> usage = 0x0f \<Longrightarrow> x_version d' \<noteq> XBOXONE_FIRMWARE_V3_1"
  using assms
  by (cases "x_version d"; auto simp: uni_hid_parser_xboxone_parse_usage_def parse_usage_firmware_v3_1_def
      parse_usage_firmware_v4_v5_def dest!: on_controller_version split: if_splits)+

text \<open>
  The firmware version the parser believes in only moves forward, from 3.1 to 4.8 to 5.x, over
  every sequence of fields; and once any report carried button 0x0f, whatever its value, it is
  not 3.1 any more, so that the wrong layout is used for at most one report.
\<close>

theorem xboxone_version_monotone:
  assumes "parse_fields uni_hid_parser_xboxone_parse_usage fs d = Some d'"
  shows "firmware_rank (x_version d) \<le> firmware_rank (x_version d') \<and>
     ((\<exists>g v. (g, 9, 0x0f, v) \<in> set fs) \<longrightarrow> x_version d' \<noteq> XBOXONE_FIRMWARE_V3_1)"
  using assms
proof (induction fs arbitrary: d)
  case (Cons f fs)
  obtain g page usage v where f: "f = (g, page, usage, v)" by (cases f)
  then obtain d1 where d1: "uni_hid_parser_xboxone_parse_usage g page usage v d = Some d1"
      "parse_fields uni_hid_parser_xboxone_parse_usage fs d1 = Some d'"
    using Cons.prems by (auto split: option.splits)
  note s = xboxone_version_step [OF d1(1)]
  have "x_version d1 \<noteq> XBOXONE_FIRMWARE_V3_1 \<Longrightarrow> x_version d' \<noteq> XBOXONE_FIRMWARE_V3_1"
    using Cons.IH [OF d1(2)] by (cases "x_version d1") auto
  with s Cons.IH [OF d1(2)] f show ?case by auto
qed simp

definition xboxone_start :: xboxone_device where
  "xboxone_start = \<lparr>x_version = XBOXONE_FIRMWARE_V3_1, rumble_timer_duration = None,
     rumble_timer_delayed_start = None, rumble_state = XBOXONE_STATE_RUMBLE_DISABLED,
     rumble_duration_ms = 0, rumble_trigger_left = 0, rumble_trigger_right = 0,
     rumble_weak_magnitude = 0, rumble_strong_magnitude = 0, x_controller = clean_gamepad, x_sent = []\<rparr>"

theorem xboxone_version_monotone_witness:
  "x_version (the (parse_fields uni_hid_parser_xboxone_parse_usage
     [(buttons_globals, 9, 1, 1), (buttons_globals, 9, 0x0f, 0)] xboxone_start)) \<noteq> XBOXONE_FIRMWARE_V3_1"
proof -
  have "parse_fields uni_hid_parser_xboxone_parse_usage
      [(buttons_globals, 9, 1, 1), (buttons_globals, 9, 0x0f, 0)] xboxone_start =
      Some (xboxone_start\<lparr>x_version := XBOXONE_FIRMWARE_V4_8,
        x_controller := clean_gamepad\<lparr>ctl_data := Class_gamepad (gamepad0\<lparr>buttons := BUTTON_A\<rparr>)\<rparr>\<rparr>)"
    by code_simp
  with xboxone_version_monotone [OF this] show ?thesis by simp
qed

subsection \<open>Rumble\<close>

abbreviation (input) "ERROR_CODE_SUCCESS \<equiv> (0 :: u8)"
abbreviation (input) "ERROR_CODE_COMMAND_DISALLOWED \<equiv> (0x0c :: u8)"

definition BLE_RETRY_MS :: nat where "BLE_RETRY_MS = 50"

text \<open>
  The packed report: transaction type, report id, enabled actuators, the four magnitudes, duration,
  delay and loop count. The GATT write skips the first two bytes.
\<close>

definition ff_report :: "u8 \<Rightarrow> u8 \<Rightarrow> u8 \<Rightarrow> u8 \<Rightarrow> u8 \<Rightarrow> u8 \<Rightarrow> u8 \<Rightarrow> u8 list" where
  "ff_report actuators left right strong weak duration loops =
     [0xa2, 0x03, actuators, left, right, strong, weak, duration, 0, loops]"

definition xbox_send_report :: "u8 list \<Rightarrow> xboxone_device \<Rightarrow> xboxone_device" where
  "xbox_send_report ff d =
     d\<lparr>x_sent := x_sent d @ [if x_version d = XBOXONE_FIRMWARE_V5 then Hids_write (drop 2 ff) else Intr_report ff]\<rparr>"

definition retry_rumble_on :: "xboxone_device \<Rightarrow> xboxone_device" where
  "retry_rumble_on d = d\<lparr>rumble_state := XBOXONE_STATE_RUMBLE_DELAYED,
     rumble_timer_delayed_start := Some BLE_RETRY_MS\<rparr>"

definition retry_rumble_off :: "xboxone_device \<Rightarrow> xboxone_device" where
  "retry_rumble_off d = d\<lparr>rumble_state := XBOXONE_STATE_RUMBLE_IN_PROGRESS,
     rumble_timer_duration := Some BLE_RETRY_MS\<rparr>"

text \<open>
  The first argument of these functions is the status a GATT write returns (only read for firmware
  5.x). \<open>None\<close> is the failing assertion.
\<close>

definition xboxone_stop_rumble_now :: "u8 \<Rightarrow> xboxone_device \<Rightarrow> xboxone_device option" where
  "xboxone_stop_rumble_now status d =
     (if rumble_state d = XBOXONE_STATE_RUMBLE_DISABLED then None
      else
        let d' = xbox_send_report (ff_report 0x0f 0 0 0 0 0 0) (d\<lparr>rumble_state := XBOXONE_STATE_RUMBLE_DISABLED\<rparr>)
        in Some (if x_version d = XBOXONE_FIRMWARE_V5 \<and> status = ERROR_CODE_COMMAND_DISALLOWED
                 then retry_rumble_off d' else d'))"

definition magnitude :: "u8 \<Rightarrow> u8" where
  "magnitude m = word_of_int ((uint m * 100) mod 2 ^ 16 div 255)"

definition actuator_mask :: "u8 \<Rightarrow> u8 \<Rightarrow> u8 \<Rightarrow> u8 \<Rightarrow> u8" where
  "actuator_mask left right weak strong =
     (if left \<noteq> 0 then 8 else 0) OR (if right \<noteq> 0 then 4 else 0) OR
     (if weak \<noteq> 0 then 1 else 0) OR (if strong \<noteq> 0 then 2 else 0)"

definition xboxone_play_quad_rumble_now ::
    "u8 \<Rightarrow> u16 \<Rightarrow> u8 \<Rightarrow> u8 \<Rightarrow> u8 \<Rightarrow> u8 \<Rightarrow> xboxone_device \<Rightarrow> xboxone_device option" where
  "xboxone_play_quad_rumble_now status duration left right weak strong d =
     (if duration = 0
      then (if rumble_state d \<noteq> XBOXONE_STATE_RUMBLE_DISABLED then xboxone_stop_rumble_now status d else Some d)
      else
        let d' = xbox_send_report (ff_report (actuator_mask left right weak strong) (magnitude left)
                   (magnitude right) (magnitude strong) (magnitude weak) 0xff 25) d
        in if x_version d = XBOXONE_FIRMWARE_V5 \<and> status = ERROR_CODE_COMMAND_DISALLOWED
           then Some (retry_rumble_on d')
           else if x_version d = XBOXONE_FIRMWARE_V5 \<and> status \<noteq> ERROR_CODE_SUCCESS then Some d'
           else Some (d'\<lparr>rumble_state := XBOXONE_STATE_RUMBLE_IN_PROGRESS,
                        rumble_timer_duration := Some (unat duration)\<rparr>))"

definition xboxone_play_quad_rumble ::
    "u8 \<Rightarrow> u16 \<Rightarrow> u16 \<Rightarrow> u8 \<Rightarrow> u8 \<Rightarrow> u8 \<Rightarrow> u8 \<Rightarrow> xboxone_device \<Rightarrow> xboxone_device option" where
  "xboxone_play_quad_rumble status start_delay duration left right weak strong d =
     (let d1 = (case rumble_state d of
           XBOXONE_STATE_RUMBLE_DELAYED \<Rightarrow> d\<lparr>rumble_timer_delayed_start := None\<rparr>
         | XBOXONE_STATE_RUMBLE_IN_PROGRESS \<Rightarrow> d\<lparr>rumble_timer_duration := None\<rparr>
         | XBOXONE_STATE_RUMBLE_DISABLED \<Rightarrow> d)
      in if start_delay = 0 then xboxone_play_quad_rumble_now status duration left right weak strong d1
         else Some (d1\<lparr>rumble_state := XBOXONE_STATE_RUMBLE_DELAYED, rumble_duration_ms := duration,
                rumble_trigger_left := left, rumble_trigger_right := right,
                rumble_strong_magnitude := strong, rumble_weak_magnitude := weak,
                rumble_timer_delayed_start := Some (unat start_delay)\<rparr>))"

definition uni_hid_parser_xboxone_play_dual_rumble ::
    "u8 \<Rightarrow> u16 \<Rightarrow> u16 \<Rightarrow> u8 \<Rightarrow> u8 \<Rightarrow> xboxone_device \<Rightarrow> xboxone_device option" where
  "uni_hid_parser_xboxone_play_dual_rumble status start_delay duration weak strong =
     xboxone_play_quad_rumble status start_delay duration 0 0 weak strong"

definition on_xboxone_set_rumble_on :: "u8 \<Rightarrow> xboxone_device \<Rightarrow> xboxone_device option" where
  "on_xboxone_set_rumble_on status d =
     xboxone_play_quad_rumble_now status (rumble_duration_ms d) (rumble_trigger_left d)
       (rumble_trigger_right d) (rumble_weak_magnitude d) (rumble_strong_magnitude d) d"

definition on_xboxone_set_rumble_off :: "u8 \<Rightarrow> xboxone_device \<Rightarrow> xboxone_device option" where
  "on_xboxone_set_rumble_off status d = xboxone_stop_rumble_now status d"

text \<open>
  The events: a call of the rumble function, and a timer that runs out; the run loop removes a timer
  before it calls its handler. Parsing a report in between may change the version.
\<close>

datatype rumble_event =
    Play u8 u16 u16 u8 u8 u8 u8
  | Delay_over u8
  | Duration_over u8
  | Version_found xboxone_firmware

fun rumble_enabled :: "rumble_event \<Rightarrow> xboxone_device \<Rightarrow> bool" where
  "rumble_enabled (Delay_over st) d = (rumble_timer_delayed_start d \<noteq> None)"
| "rumble_enabled (Duration_over st) d = (rumble_timer_duration d \<noteq> None)"
| "rumble_enabled _ d = True"

fun rumble_handle :: "rumble_event \<Rightarrow> xboxone_device \<Rightarrow> xboxone_device option" where
  "rumble_handle (Play st delay duration left right weak strong) d =
     xboxone_play_quad_rumble st delay duration left right weak strong d"
| "rumble_handle (Delay_over st) d = on_xboxone_set_rumble_on st (d\<lparr>rumble_timer_delayed_start := None\<rparr>)"
| "rumble_handle (Duration_over st) d = on_xboxone_set_rumble_off st (d\<lparr>rumble_timer_duration := None\<rparr>)"
| "rumble_handle (Version_found w) d = Some (d\<lparr>x_version := w\<rparr>)"

inductive rumble_reachable :: "xboxone_device \<Rightarrow> bool" where
  start: "rumble_state d = XBOXONE_STATE_RUMBLE_DISABLED \<Longrightarrow> rumble_timer_duration d = None \<Longrightarrow>
    rumble_timer_delayed_start d = None \<Longrightarrow> rumble_reachable d"
| event: "rumble_reachable d \<Longrightarrow> rumble_enabled e d \<Longrightarrow> rumble_handle e d = Some d' \<Longrightarrow> rumble_reachable d'"

definition rumble_inv :: "xboxone_device \<Rightarrow> bool" where
  "rumble_inv d \<longleftrightarrow>
     (rumble_timer_duration d \<noteq> None \<longrightarrow> rumble_state d = XBOXONE_STATE_RUMBLE_IN_PROGRESS) \<and>
     (rumble_timer_delayed_start d \<noteq> None \<longrightarrow> rumble_state d = XBOXONE_STATE_RUMBLE_DELAYED)"

lemmas rumble_defs = xboxone_stop_rumble_now_def xboxone_play_quad_rumble_now_def xboxone_play_quad_rumble_def
  on_xboxone_set_rumble_on_def on_xboxone_set_rumble_off_def xbox_send_report_def retry_rumble_on_def
  retry_rumble_off_def Let_def

lemma rumble_handle_ok:
  assumes "rumble_inv d" "rumble_enabled e d"
  shows "\<exists>d'. rumble_handle e d = Some d' \<and> rumble_inv d'"
  using assms
  by (cases e; cases "rumble_state d")
     (auto simp: rumble_inv_def rumble_defs)

text \<open>
  C23. The rumble state machine keeps its invariant: in every state reachable by calls of the rumble
  function, timers running out, GATT writes with any status and version corrections, at most one
  timer runs, the stop timer only while the motors are on and the start timer only while a
  start is pending; and the assertion of \<open>xboxone_stop_rumble_now\<close> cannot fail, whatever
  happens next.
\<close>

theorem rumble_safe:
  assumes "rumble_reachable d"
  shows "rumble_inv d \<and> (rumble_timer_duration d = None \<or> rumble_timer_delayed_start d = None) \<and>
     (rumble_enabled e d \<longrightarrow> rumble_handle e d \<noteq> None)"
proof -
  have "rumble_inv d"
    using assms
  proof (induction rule: rumble_reachable.induct)
    case (event d e d')
    then show ?case using rumble_handle_ok [of d e] by auto
  qed (simp add: rumble_inv_def)
  then show ?thesis using rumble_handle_ok [of d e] by (auto simp: rumble_inv_def)
qed

theorem rumble_safe_witness:
  "rumble_inv (the (rumble_handle (Play 0 0 500 0 0 255 128) xboxone_start)) \<and>
   rumble_handle (Duration_over 0) (the (rumble_handle (Play 0 0 500 0 0 255 128) xboxone_start)) \<noteq> None"
proof -
  let ?d = "the (rumble_handle (Play 0 0 500 0 0 255 128) xboxone_start)"
  have s: "rumble_reachable xboxone_start" by (rule start) (simp_all add: xboxone_start_def)
  have r: "rumble_reachable ?d"
    by (rule event [OF s, of "Play 0 0 500 0 0 255 128"]) (simp_all add: rumble_defs xboxone_start_def)
  have "rumble_enabled (Duration_over 0) ?d" by (simp add: rumble_defs xboxone_start_def)
  with rumble_safe [OF r, of "Duration_over 0"] show ?thesis by blast
qed

primrec rumble_run :: "rumble_event list \<Rightarrow> xboxone_device \<Rightarrow> xboxone_device option" where
  "rumble_run [] d = Some d"
| "rumble_run (e # es) d =
     (if rumble_enabled e d then (case rumble_handle e d of None \<Rightarrow> None | Some d' \<Rightarrow> rumble_run es d') else None)"

definition stop_report :: "u8 list" where
  "stop_report = drop 2 (ff_report 0x0f 0 0 0 0 0 0)"

text \<open>
  A rumble that is on is switched off. While the stop timer runs on a gamepad with firmware 5.x,
  the GATT client may refuse the stop report any number of times: each refusal arms the timer
  again, and with the first write that is accepted the motors are off, no timer runs, and the
  last report sent is the one with all magnitudes 0.
\<close>

theorem rumble_stops_after_retries:
  assumes "rumble_inv d" "rumble_timer_duration d \<noteq> None" "x_version d = XBOXONE_FIRMWARE_V5"
  shows "\<exists>d'. rumble_run (replicate n (Duration_over ERROR_CODE_COMMAND_DISALLOWED) @ [Duration_over ERROR_CODE_SUCCESS]) d
       = Some d' \<and> rumble_state d' = XBOXONE_STATE_RUMBLE_DISABLED \<and> rumble_timer_duration d' = None \<and>
     rumble_timer_delayed_start d' = None \<and> x_sent d' = x_sent d @ replicate (Suc n) (Hids_write stop_report)"
  using assms
proof (induction n arbitrary: d)
  case 0
  then show ?case by (auto simp: rumble_inv_def rumble_defs stop_report_def)
next
  case (Suc n)
  have st: "rumble_state d = XBOXONE_STATE_RUMBLE_IN_PROGRESS" "rumble_timer_delayed_start d = None"
    using Suc.prems by (auto simp: rumble_inv_def)
  then obtain d1 where h: "rumble_handle (Duration_over ERROR_CODE_COMMAND_DISALLOWED) d = Some d1"
    and p: "rumble_inv d1" "rumble_timer_duration d1 \<noteq> None" "x_version d1 = XBOXONE_FIRMWARE_V5"
      "x_sent d1 = x_sent d @ [Hids_write stop_report]"
    using Suc.prems by (simp add: rumble_defs rumble_inv_def stop_report_def)
  have "rumble_run (Duration_over ERROR_CODE_COMMAND_DISALLOWED # es) d = rumble_run es d1" for es
    using Suc.prems(2) by (simp del: rumble_handle.simps add: h)
  with Suc.IH [OF p(1-3)] p(4) show ?case by auto
qed

definition xboxone_rumbling :: xboxone_device where
  "xboxone_rumbling = the (rumble_run [Play 0 0 500 0 0 255 128] (xboxone_start\<lparr>x_version := XBOXONE_FIRMWARE_V5\<rparr>))"

theorem rumble_stops_after_retries_witness:
  "\<exists>d'. rumble_run [Duration_over 0x0c, Duration_over 0x0c, Duration_over 0] xboxone_rumbling = Some d' \<and>
     rumble_state d' = XBOXONE_STATE_RUMBLE_DISABLED \<and> rumble_timer_duration d' = None"
proof -
  have "rumble_inv xboxone_rumbling" "rumble_timer_duration xboxone_rumbling \<noteq> None"
      "x_version xboxone_rumbling = XBOXONE_FIRMWARE_V5"
    by (simp_all add: xboxone_rumbling_def xboxone_start_def rumble_defs rumble_inv_def)
  moreover have "replicate 2 (Duration_over 0x0c) @ [Duration_over 0] = [Duration_over 0x0c, Duration_over 0x0c, Duration_over 0]"
    by (simp add: numeral_2_eq_2)
  ultimately show ?thesis using rumble_stops_after_retries [of xboxone_rumbling 2] by metis
qed

text \<open>
  A rumble that is refused once is lost. When an immediate rumble is refused by the GATT client,
  the retry 50 ms later does not use its parameters, which are only stored for a delayed start:
  after the first rumble of a connection the retry finds a duration of 0 and sends the stop
  report, so the gamepad never rumbles although the second write is accepted.
\<close>

theorem rumble_retry_loses_parameters:
  "rumble_run [Play ERROR_CODE_COMMAND_DISALLOWED 0 500 0 0 255 255, Delay_over ERROR_CODE_SUCCESS]
     (xboxone_start\<lparr>x_version := XBOXONE_FIRMWARE_V5\<rparr>) =
   Some (xboxone_start\<lparr>x_version := XBOXONE_FIRMWARE_V5,
     x_sent := [Hids_write [0x03, 0, 0, 100, 100, 0xff, 0, 25], Hids_write [0x0f, 0, 0, 0, 0, 0, 0, 0]]\<rparr>)"
  by code_simp

end
