(* ===== verification/ControllerList.thy ===== *)
theory ControllerList
  imports Gamepad
begin

text \<open>
  The table of known controllers, \<^verbatim>\<open>controller/uni_controller_list.h\<close>, and the lookup in it,
  \<^verbatim>\<open>controller/uni_controller_type.c\<close>, which decides the parser of a device from its vendor and
  product id. An entry is the vendor id, the product id, the controller type and the name, where
  the table has one. The table is split into parts in the order of the file.
\<close>

subsection \<open>Types\<close>

abbreviation (input) "CONTROLLER_TYPE_Unknown \<equiv> (0 :: int)"
abbreviation (input) "CONTROLLER_TYPE_UnknownSteamController \<equiv> (1 :: int)"
abbreviation (input) "CONTROLLER_TYPE_SteamController \<equiv> (2 :: int)"
abbreviation (input) "CONTROLLER_TYPE_SteamControllerV2 \<equiv> (3 :: int)"
abbreviation (input) "CONTROLLER_TYPE_SteamControllerNeptune \<equiv> (4 :: int)"
abbreviation (input) "CONTROLLER_TYPE_UnknownNonSteamController \<equiv> (30 :: int)"
abbreviation (input) "CONTROLLER_TYPE_XBox360Controller \<equiv> (31 :: int)"
abbreviation (input) "CONTROLLER_TYPE_XBoxOneController \<equiv> (32 :: int)"
abbreviation (input) "CONTROLLER_TYPE_PS3Controller \<equiv> (33 :: int)"
abbreviation (input) "CONTROLLER_TYPE_PS4Controller \<equiv> (34 :: int)"
abbreviation (input) "CONTROLLER_TYPE_WiiController \<equiv> (35 :: int)"
abbreviation (input) "CONTROLLER_TYPE_AppleController \<equiv> (36 :: int)"
abbreviation (input) "CONTROLLER_TYPE_AndroidController \<equiv> (37 :: int)"
abbreviation (input) "CONTROLLER_TYPE_SwitchProController \<equiv> (38 :: int)"
abbreviation (input) "CONTROLLER_TYPE_SwitchJoyConLeft \<equiv> (39 :: int)"
abbreviation (input) "CONTROLLER_TYPE_SwitchJoyConRight \<equiv> (40 :: int)"
abbreviation (input) "CONTROLLER_TYPE_SwitchJoyConPair \<equiv> (41 :: int)"
abbreviation (input) "CONTROLLER_TYPE_SwitchInputOnlyController \<equiv> (42 :: int)"
abbreviation (input) "CONTROLLER_TYPE_MobileTouch \<equiv> (43 :: int)"
abbreviation (input) "CONTROLLER_TYPE_XInputSwitchController \<equiv> (44 :: int)"
abbreviation (input) "CONTROLLER_TYPE_PS5Controller \<equiv> (45 :: int)"
abbreviation (input) "CONTROLLER_TYPE_XInputPS4Controller \<equiv> (46 :: int)"
abbreviation (input) "CONTROLLER_TYPE_iCadeController \<equiv> (50 :: int)"
abbreviation (input) "CONTROLLER_TYPE_SmartTVRemoteController \<equiv> (51 :: int)"
abbreviation (input) "CONTROLLER_TYPE_8BitdoController \<equiv> (52 :: int)"
abbreviation (input) "CONTROLLER_TYPE_GenericController \<equiv> (53 :: int)"
abbreviation (input) "CONTROLLER_TYPE_NimbusController \<equiv> (54 :: int)"
abbreviation (input) "CONTROLLER_TYPE_OUYAController \<equiv> (55 :: int)"
abbreviation (input) "CONTROLLER_TYPE_PSMoveController \<equiv> (56 :: int)"
abbreviation (input) "CONTROLLER_TYPE_AtariJoystick \<equiv> (57 :: int)"
abbreviation (input) "CONTROLLER_TYPE_GenericKeyboard \<equiv> (400 :: int)"
abbreviation (input) "CONTROLLER_TYPE_GenericMouse \<equiv> (800 :: int)"

subsection \<open>The table\<close>

type_synonym controller_description = "u16 \<times> u16 \<times> int \<times> string option"

definition arrControllers_1 :: "controller_description list" where
  "arrControllers_1 = [
    (0x0079, 0x181a, CONTROLLER_TYPE_PS3Controller, None),
    (0x0079, 0x1844, CONTROLLER_TYPE_PS3Controller, None),
    (0x044f, 0xb315, CONTROLLER_TYPE_PS3Controller, None),
    (0x044f, 0xd007, CONTROLLER_TYPE_PS3Controller, None),
    (0x046d, 0xcad1, CONTROLLER_TYPE_PS3Controller, None),
    (0x054c, 0x0268, CONTROLLER_TYPE_PS3Controller, None),
    (0x056e, 0x200f, CONTROLLER_TYPE_PS3Controller, None),
    (0x056e, 0x2013, CONTROLLER_TYPE_PS3Controller, None),
    (0x05b8, 0x1004, CONTROLLER_TYPE_PS3Controller, None),
    (0x05b8, 0x1006, CONTROLLER_TYPE_PS3Controller, None),
    (0x06a3, 0xf622, CONTROLLER_TYPE_PS3Controller, None),
    (0x0738, 0x3180, CONTROLLER_TYPE_PS3Controller, None),
    (0x0738, 0x3250, CONTROLLER_TYPE_PS3Controller, None),
    (0x0738, 0x3481, CONTROLLER_TYPE_PS3Controller, None),
    (0x0738, 0x8180, CONTROLLER_TYPE_PS3Controller, None),
    (0x0738, 0x8838, CONTROLLER_TYPE_PS3Controller, None),
    (0x0810, 0x0001, CONTROLLER_TYPE_PS3Controller, None),
    (0x0810, 0x0003, CONTROLLER_TYPE_PS3Controller, None),
    (0x0925, 0x0005, CONTROLLER_TYPE_PS3Controller, None),
    (0x0925, 0x8866, CONTROLLER_TYPE_PS3Controller, None),
    (0x0925, 0x8888, CONTROLLER_TYPE_PS3Controller, None),
    (0x0e6f, 0x0109, CONTROLLER_TYPE_PS3Controller, None),
    (0x0e6f, 0x011e, CONTROLLER_TYPE_PS3Controller, None),
    (0x0e6f, 0x0128, CONTROLLER_TYPE_PS3Controller, None),
    (0x0e6f, 0x0214, CONTROLLER_TYPE_PS3Controller, None),
    (0x0e6f, 0x1314, CONTROLLER_TYPE_PS3Controller, None),
    (0x0e6f, 0x6302, CONTROLLER_TYPE_PS3Controller, None),
    (0x0e8f, 0x0008, CONTROLLER_TYPE_PS3Controller, None),
    (0x0e8f, 0x3075, CONTROLLER_TYPE_PS3Controller, None),
    (0x0e8f, 0x310d, CONTROLLER_TYPE_PS3Controller, None),
    (0x0f0d, 0x0009, CONTROLLER_TYPE_PS3Controller, None),
    (0x0f0d, 0x004d, CONTROLLER_TYPE_PS3Controller, None),
    (0x0f0d, 0x005f, CONTROLLER_TYPE_PS3Controller, None),
    (0x0f0d, 0x006a, CONTROLLER_TYPE_PS3Controller, None),
    (0x0f0d, 0x006e, CONTROLLER_TYPE_PS3Controller, None),
    (0x0f0d, 0x0085, CONTROLLER_TYPE_PS3Controller, None),
    (0x0f0d, 0x0086, CONTROLLER_TYPE_PS3Controller, None),
    (0x0f0d, 0x0088, CONTROLLER_TYPE_PS3Controller, None),
    (0x0f30, 0x1100, CONTROLLER_TYPE_PS3Controller, None),
    (0x11ff, 0x3331, CONTROLLER_TYPE_PS3Controller, None),
    (0x1345, 0x1000, CONTROLLER_TYPE_PS3Controller, None),
    (0x1345, 0x6005, CONTROLLER_TYPE_PS3Controller, None),
    (0x146b, 0x5500, CONTROLLER_TYPE_PS3Controller, None),
    (0x1a34, 0x0836, CONTROLLER_TYPE_PS3Controller, None),
    (0x20bc, 0x5500, CONTROLLER_TYPE_PS3Controller, None),
    (0x20d6, 0x576d, CONTROLLER_TYPE_PS3Controller, None),
    (0x20d6, 0xca6d, CONTROLLER_TYPE_PS3Controller, None),
    (0x2563, 0x0523, CONTROLLER_TYPE_PS3Controller, None),
    (0x2563, 0x0575, CONTROLLER_TYPE_PS3Controller, Some ''Retro-bit Controller''),
    (0x25f0, 0x83c3, CONTROLLER_TYPE_PS3Controller, None),
    (0x25f0, 0xc121, CONTROLLER_TYPE_PS3Controller, None),
    (0x2c22, 0x2003, CONTROLLER_TYPE_PS3Controller, None),
    (0x2c22, 0x2302, CONTROLLER_TYPE_PS3Controller, None),
    (0x2c22, 0x2502, CONTROLLER_TYPE_PS3Controller, None),
    (0x8380, 0x0003, CONTROLLER_TYPE_PS3Controller, None),
    (0x8888, 0x0308, CONTROLLER_TYPE_PS3Controller, None),
    (0x0079, 0x181b, CONTROLLER_TYPE_PS4Controller, None),
    (0x044f, 0xd00e, CONTROLLER_TYPE_PS4Controller, None),
    (0x054c, 0x05c4, CONTROLLER_TYPE_PS4Controller, None),
    (0x054c, 0x05c5, CONTROLLER_TYPE_PS4Controller, None),
    (0x054c, 0x09cc, CONTROLLER_TYPE_PS4Controller, None),
    (0x054c, 0x0ba0, CONTROLLER_TYPE_PS4Controller, None),
    (0x0738, 0x8250, CONTROLLER_TYPE_PS4Controller, None),
    (0x0738, 0x8384, CONTROLLER_TYPE_PS4Controller, None),
    (0x0738, 0x8480, CONTROLLER_TYPE_PS4Controller, None),
    (0x0738, 0x8481, CONTROLLER_TYPE_PS4Controller, None),
    (0x0c12, 0x0e10, CONTROLLER_TYPE_PS4Controller, None),
    (0x0c12, 0x0e13, CONTROLLER_TYPE_PS4Controller, None),
    (0x0c12, 0x0e15, CONTROLLER_TYPE_PS4Controller, None),
    (0x0c12, 0x0e20, CONTROLLER_TYPE_PS4Controller, None),
    (0x0c12, 0x0ef6, CONTROLLER_TYPE_PS4Controller, None),
    (0x0c12, 0x1cf6, CONTROLLER_TYPE_PS4Controller, None),
    (0x0c12, 0x1e10, CONTROLLER_TYPE_PS4Controller, None),
    (0x0e6f, 0x0203, CONTROLLER_TYPE_PS4Controller, None),
    (0x0e6f, 0x0207, CONTROLLER_TYPE_PS4Controller, None),
    (0x0e6f, 0x020a, CONTROLLER_TYPE_PS4Controller, None),
    (0x0f0d, 0x0055, CONTROLLER_TYPE_PS4Controller, None),
    (0x0f0d, 0x005e, CONTROLLER_TYPE_PS4Controller, None),
    (0x0f0d, 0x0066, CONTROLLER_TYPE_PS4Controller, None),
    (0x0f0d, 0x0084, CONTROLLER_TYPE_PS4Controller, None),
    (0x0f0d, 0x0087, CONTROLLER_TYPE_PS4Controller, None),
    (0x0f0d, 0x008a, CONTROLLER_TYPE_PS4Controller, None),
    (0x0f0d, 0x009c, CONTROLLER_TYPE_PS4Controller, None),
    (0x0f0d, 0x00a0, CONTROLLER_TYPE_PS4Controller, None),
    (0x0f0d, 0x00ed, CONTROLLER_TYPE_XInputPS4Controller, None),
    (0x0f0d, 0x00ee, CONTROLLER_TYPE_PS4Controller, None),
    (0x0f0d, 0x011c, CONTROLLER_TYPE_PS4Controller, None),
    (0x0f0d, 0x0123, CONTROLLER_TYPE_PS4Controller, None),
    (0x0f0d, 0x0162, CONTROLLER_TYPE_PS4Controller, None),
    (0x0f0d, 0x0164, CONTROLLER_TYPE_XInputPS4Controller, None),
    (0x11c0, 0x4001, CONTROLLER_TYPE_PS4Controller, None),
    (0x146b, 0x0603, CONTROLLER_TYPE_XInputPS4Controller, None),
    (0x146b, 0x0604, CONTROLLER_TYPE_XInputPS4Controller, None),
    (0x146b, 0x0605, CONTROLLER_TYPE_XInputPS4Controller, None),
    (0x146b, 0x0606, CONTROLLER_TYPE_XInputPS4Controller, None),
    (0x146b, 0x0609, CONTROLLER_TYPE_XInputPS4Controller, None),
    (0x146b, 0x0d01, CONTROLLER_TYPE_PS4Controller, None),
    (0x146b, 0x0d02, CONTROLLER_TYPE_PS4Controller, None),
    (0x146b, 0x0d06, CONTROLLER_TYPE_PS4Controller, None),
    (0x146b, 0x0d08, CONTROLLER_TYPE_PS4Controller, None),
    (0x146b, 0x0d09, CONTROLLER_TYPE_PS4Controller, None),
    (0x146b, 0x0d10, CONTROLLER_TYPE_PS4Controller, None),
    (0x146b, 0x0d10, CONTROLLER_TYPE_PS4Controller, None),
    (0x146b, 0x0d13, CONTROLLER_TYPE_PS4Controller, None),
    (0x146b, 0x1103, CONTROLLER_TYPE_PS4Controller, None),
    (0x1532, 0x0401, CONTROLLER_TYPE_PS4Controller, None),
    (0x1532, 0x1000, CONTROLLER_TYPE_PS4Controller, None),
    (0x1532, 0x1004, CONTROLLER_TYPE_PS4Controller, None),
    (0x1532, 0x1007, CONTROLLER_TYPE_PS4Controller, None),
    (0x1532, 0x1008, CONTROLLER_TYPE_PS4Controller, None),
    (0x1532, 0x1009, CONTROLLER_TYPE_PS4Controller, None),
    (0x1532, 0x100a, CONTROLLER_TYPE_PS4Controller, None),
    (0x1532, 0x1100, CONTROLLER_TYPE_PS4Controller, None),
    (0x20d6, 0x792a, CONTROLLER_TYPE_PS4Controller, None),
    (0x2c22, 0x2000, CONTROLLER_TYPE_PS4Controller, None),
    (0x2c22, 0x2300, CONTROLLER_TYPE_PS4Controller, None),
    (0x2c22, 0x2303, CONTROLLER_TYPE_XInputPS4Controller, None),
    (0x2c22, 0x2500, CONTROLLER_TYPE_PS4Controller, None),
    (0x2c22, 0x2503, CONTROLLER_TYPE_XInputPS4Controller, None),
    (0x3285, 0x0d16, CONTROLLER_TYPE_PS4Controller, None),
    (0x3285, 0x0d17, CONTROLLER_TYPE_PS4Controller, None),
    (0x7545, 0x0104, CONTROLLER_TYPE_PS4Controller, None),
    (0x9886, 0x0024, CONTROLLER_TYPE_XInputPS4Controller, None),
    (0x9886, 0x0025, CONTROLLER_TYPE_PS4Controller, None),
    (0x054c, 0x0ce6, CONTROLLER_TYPE_PS5Controller, None),
    (0x054c, 0x0df2, CONTROLLER_TYPE_PS5Controller, None),
    (0x054c, 0x0e5f, CONTROLLER_TYPE_PS5Controller, None),
    (0x0e6f, 0x0209, CONTROLLER_TYPE_PS5Controller, None),
    (0x0f0d, 0x0163, CONTROLLER_TYPE_PS5Controller, None),
    (0x0f0d, 0x0184, CONTROLLER_TYPE_PS5Controller, None),
    (0x1532, 0x100b, CONTROLLER_TYPE_PS5Controller, None),
    (0x1532, 0x100c, CONTROLLER_TYPE_PS5Controller, None),
    (0x1532, 0x1012, CONTROLLER_TYPE_PS5Controller, None),
    (0x3285, 0x0d18, CONTROLLER_TYPE_PS5Controller, None)]"

definition arrControllers_2 :: "controller_description list" where
  "arrControllers_2 = [
    (0x3285, 0x0d19, CONTROLLER_TYPE_PS5Controller, None),
    (0x358a, 0x0104, CONTROLLER_TYPE_PS5Controller, None),
    (0x0079, 0x0006, CONTROLLER_TYPE_UnknownNonSteamController, None),
    (0x0079, 0x18d4, CONTROLLER_TYPE_XBox360Controller, None),
    (0x03eb, 0xff02, CONTROLLER_TYPE_XBox360Controller, None),
    (0x044f, 0xb326, CONTROLLER_TYPE_XBox360Controller, None),
    (0x045e, 0x028e, CONTROLLER_TYPE_XBox360Controller, Some ''Xbox 360 Controller''),
    (0x045e, 0x028f, CONTROLLER_TYPE_XBox360Controller, Some ''Xbox 360 Controller''),
    (0x045e, 0x0291, CONTROLLER_TYPE_XBox360Controller, Some ''Xbox 360 Wireless Controller''),
    (0x045e, 0x02a0, CONTROLLER_TYPE_XBox360Controller, None),
    (0x045e, 0x02a1, CONTROLLER_TYPE_XBox360Controller, Some ''Xbox 360 Wireless Controller''),
    (0x045e, 0x02a9, CONTROLLER_TYPE_XBox360Controller, Some ''Xbox 360 Wireless Controller''),
    (0x045e, 0x0719, CONTROLLER_TYPE_XBox360Controller, Some ''Xbox 360 Wireless Controller''),
    (0x046d, 0xc21d, CONTROLLER_TYPE_XBox360Controller, None),
    (0x046d, 0xc21e, CONTROLLER_TYPE_XBox360Controller, None),
    (0x046d, 0xc21f, CONTROLLER_TYPE_XBox360Controller, None),
    (0x046d, 0xc242, CONTROLLER_TYPE_XBox360Controller, None),
    (0x056e, 0x2004, CONTROLLER_TYPE_XBox360Controller, None),
    (0x0738, 0x4716, CONTROLLER_TYPE_XBox360Controller, None),
    (0x0738, 0x4718, CONTROLLER_TYPE_XBox360Controller, None),
    (0x0738, 0x4726, CONTROLLER_TYPE_XBox360Controller, None),
    (0x0738, 0x4728, CONTROLLER_TYPE_XBox360Controller, None),
    (0x0738, 0x4736, CONTROLLER_TYPE_XBox360Controller, None),
    (0x0738, 0x4738, CONTROLLER_TYPE_XBox360Controller, None),
    (0x0738, 0x4740, CONTROLLER_TYPE_XBox360Controller, None),
    (0x0738, 0xb726, CONTROLLER_TYPE_XBox360Controller, None),
    (0x0738, 0xbeef, CONTROLLER_TYPE_XBox360Controller, None),
    (0x0738, 0xcb02, CONTROLLER_TYPE_XBox360Controller, None),
    (0x0738, 0xcb03, CONTROLLER_TYPE_XBox360Controller, None),
    (0x0738, 0xf738, CONTROLLER_TYPE_XBox360Controller, None),
    (0x0955, 0x7210, CONTROLLER_TYPE_XBox360Controller, None),
    (0x0955, 0xb400, CONTROLLER_TYPE_XBox360Controller, None),
    (0x0b05, 0x1b4c, CONTROLLER_TYPE_XBox360Controller, None),
    (0x0e6f, 0x0105, CONTROLLER_TYPE_XBox360Controller, None),
    (0x0e6f, 0x0113, CONTROLLER_TYPE_XBox360Controller, Some ''PDP Xbox 360 Afterglow''),
    (0x0e6f, 0x011f, CONTROLLER_TYPE_XBox360Controller, Some ''PDP Xbox 360 Rock Candy''),
    (0x0e6f, 0x0125, CONTROLLER_TYPE_XBox360Controller, Some ''PDP INJUSTICE FightStick''),
    (0x0e6f, 0x0127, CONTROLLER_TYPE_XBox360Controller, Some ''PDP INJUSTICE FightPad''),
    (0x0e6f, 0x0131, CONTROLLER_TYPE_XBox360Controller, Some ''PDP EA Soccer Controller''),
    (0x0e6f, 0x0133, CONTROLLER_TYPE_XBox360Controller, Some ''PDP Battlefield 4 Controller''),
    (0x0e6f, 0x0143, CONTROLLER_TYPE_XBox360Controller, Some ''PDP MK X Fight Stick''),
    (0x0e6f, 0x0147, CONTROLLER_TYPE_XBox360Controller, Some ''PDP Xbox 360 Marvel Controller''),
    (0x0e6f, 0x0201, CONTROLLER_TYPE_XBox360Controller, Some ''PDP Xbox 360 Controller''),
    (0x0e6f, 0x0213, CONTROLLER_TYPE_XBox360Controller, Some ''PDP Xbox 360 Afterglow''),
    (0x0e6f, 0x021f, CONTROLLER_TYPE_XBox360Controller, Some ''PDP Xbox 360 Rock Candy''),
    (0x0e6f, 0x0301, CONTROLLER_TYPE_XBox360Controller, Some ''PDP Xbox 360 Controller''),
    (0x0e6f, 0x0313, CONTROLLER_TYPE_XBox360Controller, Some ''PDP Xbox 360 Afterglow''),
    (0x0e6f, 0x0314, CONTROLLER_TYPE_XBox360Controller, Some ''PDP Xbox 360 Afterglow''),
    (0x0e6f, 0x0401, CONTROLLER_TYPE_XBox360Controller, Some ''PDP Xbox 360 Controller''),
    (0x0e6f, 0x0413, CONTROLLER_TYPE_XBox360Controller, None),
    (0x0e6f, 0x0501, CONTROLLER_TYPE_XBox360Controller, None),
    (0x0e6f, 0xf900, CONTROLLER_TYPE_XBox360Controller, None),
    (0x0f0d, 0x000a, CONTROLLER_TYPE_XBox360Controller, None),
    (0x0f0d, 0x000c, CONTROLLER_TYPE_XBox360Controller, None),
    (0x0f0d, 0x000d, CONTROLLER_TYPE_XBox360Controller, None),
    (0x0f0d, 0x0016, CONTROLLER_TYPE_XBox360Controller, None),
    (0x0f0d, 0x001b, CONTROLLER_TYPE_XBox360Controller, None),
    (0x0f0d, 0x008c, CONTROLLER_TYPE_XBox360Controller, None),
    (0x0f0d, 0x00db, CONTROLLER_TYPE_XBox360Controller, Some ''HORI Slime Controller''),
    (0x0f0d, 0x011e, CONTROLLER_TYPE_XBox360Controller, None),
    (0x1038, 0x1430, CONTROLLER_TYPE_XBox360Controller, Some ''SteelSeries Stratus Duo''),
    (0x1038, 0x1431, CONTROLLER_TYPE_XBox360Controller, Some ''SteelSeries Stratus Duo''),
    (0x1038, 0xb360, CONTROLLER_TYPE_XBox360Controller, None),
    (0x11c9, 0x55f0, CONTROLLER_TYPE_XBox360Controller, None),
    (0x12ab, 0x0004, CONTROLLER_TYPE_XBox360Controller, None),
    (0x12ab, 0x0301, CONTROLLER_TYPE_XBox360Controller, None),
    (0x12ab, 0x0303, CONTROLLER_TYPE_XBox360Controller, None),
    (0x1430, 0x02a0, CONTROLLER_TYPE_XBox360Controller, None),
    (0x1430, 0x4748, CONTROLLER_TYPE_XBox360Controller, None),
    (0x1430, 0xf801, CONTROLLER_TYPE_XBox360Controller, None),
    (0x146b, 0x0601, CONTROLLER_TYPE_XBox360Controller, None),
    (0x15e4, 0x3f00, CONTROLLER_TYPE_XBox360Controller, None),
    (0x15e4, 0x3f0a, CONTROLLER_TYPE_XBox360Controller, None),
    (0x15e4, 0x3f10, CONTROLLER_TYPE_XBox360Controller, None),
    (0x162e, 0xbeef, CONTROLLER_TYPE_XBox360Controller, None),
    (0x1689, 0xfd00, CONTROLLER_TYPE_XBox360Controller, None),
    (0x1689, 0xfd01, CONTROLLER_TYPE_XBox360Controller, None),
    (0x1689, 0xfe00, CONTROLLER_TYPE_XBox360Controller, None),
    (0x1949, 0x041a, CONTROLLER_TYPE_XBox360Controller, Some ''Amazon Luna Controller''),
    (0x1bad, 0x0002, CONTROLLER_TYPE_XBox360Controller, None),
    (0x1bad, 0x0003, CONTROLLER_TYPE_XBox360Controller, None),
    (0x1bad, 0xf016, CONTROLLER_TYPE_XBox360Controller, None),
    (0x1bad, 0xf018, CONTROLLER_TYPE_XBox360Controller, None),
    (0x1bad, 0xf019, CONTROLLER_TYPE_XBox360Controller, None),
    (0x1bad, 0xf021, CONTROLLER_TYPE_XBox360Controller, None),
    (0x1bad, 0xf023, CONTROLLER_TYPE_XBox360Controller, None),
    (0x1bad, 0xf025, CONTROLLER_TYPE_XBox360Controller, None),
    (0x1bad, 0xf027, CONTROLLER_TYPE_XBox360Controller, None),
    (0x1bad, 0xf028, CONTROLLER_TYPE_XBox360Controller, None),
    (0x1bad, 0xf02e, CONTROLLER_TYPE_XBox360Controller, None),
    (0x1bad, 0xf036, CONTROLLER_TYPE_XBox360Controller, None),
    (0x1bad, 0xf038, CONTROLLER_TYPE_XBox360Controller, None),
    (0x1bad, 0xf039, CONTROLLER_TYPE_XBox360Controller, None),
    (0x1bad, 0xf03a, CONTROLLER_TYPE_XBox360Controller, None),
    (0x1bad, 0xf03d, CONTROLLER_TYPE_XBox360Controller, None),
    (0x1bad, 0xf03e, CONTROLLER_TYPE_XBox360Controller, None),
    (0x1bad, 0xf03f, CONTROLLER_TYPE_XBox360Controller, None),
    (0x1bad, 0xf042, CONTROLLER_TYPE_XBox360Controller, None),
    (0x1bad, 0xf080, CONTROLLER_TYPE_XBox360Controller, None),
    (0x1bad, 0xf501, CONTROLLER_TYPE_XBox360Controller, None),
    (0x1bad, 0xf502, CONTROLLER_TYPE_XBox360Controller, None),
    (0x1bad, 0xf503, CONTROLLER_TYPE_XBox360Controller, None),
    (0x1bad, 0xf504, CONTROLLER_TYPE_XBox360Controller, None),
    (0x1bad, 0xf505, CONTROLLER_TYPE_XBox360Controller, None),
    (0x1bad, 0xf506, CONTROLLER_TYPE_XBox360Controller, None),
    (0x1bad, 0xf900, CONTROLLER_TYPE_XBox360Controller, None),
    (0x1bad, 0xf901, CONTROLLER_TYPE_XBox360Controller, None),
    (0x1bad, 0xf902, CONTROLLER_TYPE_XBox360Controller, None),
    (0x1bad, 0xf903, CONTROLLER_TYPE_XBox360Controller, None),
    (0x1bad, 0xf904, CONTROLLER_TYPE_XBox360Controller, None),
    (0x1bad, 0xf906, CONTROLLER_TYPE_XBox360Controller, None),
    (0x1bad, 0xfa01, CONTROLLER_TYPE_XBox360Controller, None),
    (0x1bad, 0xfd00, CONTROLLER_TYPE_XBox360Controller, None),
    (0x1bad, 0xfd01, CONTROLLER_TYPE_XBox360Controller, None),
    (0x24c6, 0x5000, CONTROLLER_TYPE_XBox360Controller, None),
    (0x24c6, 0x5300, CONTROLLER_TYPE_XBox360Controller, None),
    (0x24c6, 0x5303, CONTROLLER_TYPE_XBox360Controller, None),
    (0x24c6, 0x530a, CONTROLLER_TYPE_XBox360Controller, None),
    (0x24c6, 0x531a, CONTROLLER_TYPE_XBox360Controller, None),
    (0x24c6, 0x5397, CONTROLLER_TYPE_XBox360Controller, None),
    (0x24c6, 0x5500, CONTROLLER_TYPE_XBox360Controller, None),
    (0x24c6, 0x5501, CONTROLLER_TYPE_XBox360Controller, None),
    (0x24c6, 0x5502, CONTROLLER_TYPE_XBox360Controller, None),
    (0x24c6, 0x5503, CONTROLLER_TYPE_XBox360Controller, None),
    (0x24c6, 0x5506, CONTROLLER_TYPE_XBox360Controller, None),
    (0x24c6, 0x550d, CONTROLLER_TYPE_XBox360Controller, None),
    (0x24c6, 0x550e, CONTROLLER_TYPE_XBox360Controller, None),
    (0x24c6, 0x5508, CONTROLLER_TYPE_XBox360Controller, None),
    (0x24c6, 0x5510, CONTROLLER_TYPE_XBox360Controller, None),
    (0x24c6, 0x5b00, CONTROLLER_TYPE_XBox360Controller, None),
    (0x24c6, 0x5b02, CONTROLLER_TYPE_XBox360Controller, None),
    (0x24c6, 0x5b03, CONTROLLER_TYPE_XBox360Controller, None),
    (0x24c6, 0x5d04, CONTROLLER_TYPE_XBox360Controller, None),
    (0x24c6, 0xfafa, CONTROLLER_TYPE_XBox360Controller, None),
    (0x24c6, 0xfafb, CONTROLLER_TYPE_XBox360Controller, None)]"

definition arrControllers_3 :: "controller_description list" where
  "arrControllers_3 = [
    (0x24c6, 0xfafc, CONTROLLER_TYPE_XBox360Controller, None),
    (0x24c6, 0xfafd, CONTROLLER_TYPE_XBox360Controller, None),
    (0x24c6, 0xfafe, CONTROLLER_TYPE_XBox360Controller, None),
    (0x03f0, 0x0495, CONTROLLER_TYPE_XBoxOneController, None),
    (0x044f, 0xd012, CONTROLLER_TYPE_XBoxOneController, None),
    (0x045e, 0x02d1, CONTROLLER_TYPE_XBoxOneController, Some ''Xbox One Controller''),
    (0x045e, 0x02dd, CONTROLLER_TYPE_XBoxOneController, Some ''Xbox One Controller''),
    (0x045e, 0x02e0, CONTROLLER_TYPE_XBoxOneController, Some ''Xbox One S Controller''),
    (0x045e, 0x02e3, CONTROLLER_TYPE_XBoxOneController, Some ''Xbox One Elite Controller''),
    (0x045e, 0x02ea, CONTROLLER_TYPE_XBoxOneController, Some ''Xbox One S Controller''),
    (0x045e, 0x02fd, CONTROLLER_TYPE_XBoxOneController, Some ''Xbox One S Controller''),
    (0x045e, 0x02ff, CONTROLLER_TYPE_XBoxOneController, Some ''Xbox One Controller''),
    (0x045e, 0x0b00, CONTROLLER_TYPE_XBoxOneController, Some ''Xbox One Elite 2 Controller''),
    (0x045e, 0x0b05, CONTROLLER_TYPE_XBoxOneController, Some ''Xbox One Elite 2 Controller''),
    (0x045e, 0x0b0a, CONTROLLER_TYPE_XBoxOneController, Some ''Xbox Adaptive Controller''),
    (0x045e, 0x0b0c, CONTROLLER_TYPE_XBoxOneController, Some ''Xbox Adaptive Controller''),
    (0x045e, 0x0b12, CONTROLLER_TYPE_XBoxOneController, Some ''Xbox Series X Controller''),
    (0x045e, 0x0b13, CONTROLLER_TYPE_XBoxOneController, Some ''Xbox Series X Controller''),
    (0x045e, 0x0b20, CONTROLLER_TYPE_XBoxOneController, Some ''Xbox One S Controller''),
    (0x045e, 0x0b21, CONTROLLER_TYPE_XBoxOneController, Some ''Xbox Adaptive Controller''),
    (0x045e, 0x0b22, CONTROLLER_TYPE_XBoxOneController, Some ''Xbox One Elite 2 Controller''),
    (0x0738, 0x4a01, CONTROLLER_TYPE_XBoxOneController, None),
    (0x0e6f, 0x0139, CONTROLLER_TYPE_XBoxOneController, Some ''PDP Xbox One Afterglow''),
    (0x0e6f, 0x013b, CONTROLLER_TYPE_XBoxOneController, Some ''PDP Xbox One Face-Off Controller''),
    (0x0e6f, 0x013a, CONTROLLER_TYPE_XBoxOneController, None),
    (0x0e6f, 0x0145, CONTROLLER_TYPE_XBoxOneController, Some ''PDP MK X Fight Pad''),
    (0x0e6f, 0x0146, CONTROLLER_TYPE_XBoxOneController, Some ''PDP Xbox One Rock Candy''),
    (0x0e6f, 0x015b, CONTROLLER_TYPE_XBoxOneController, Some ''PDP Fallout 4 Vault Boy Controller''),
    (0x0e6f, 0x015c, CONTROLLER_TYPE_XBoxOneController, Some ''PDP Xbox One @Play Controller''),
    (0x0e6f, 0x015d, CONTROLLER_TYPE_XBoxOneController, Some ''PDP Mirror's Edge Controller''),
    (0x0e6f, 0x015f, CONTROLLER_TYPE_XBoxOneController, Some ''PDP Metallic Controller''),
    (0x0e6f, 0x0160, CONTROLLER_TYPE_XBoxOneController, Some ''PDP NFL Face-Off Controller''),
    (0x0e6f, 0x0161, CONTROLLER_TYPE_XBoxOneController, Some ''PDP Xbox One Camo''),
    (0x0e6f, 0x0162, CONTROLLER_TYPE_XBoxOneController, Some ''PDP Xbox One Controller''),
    (0x0e6f, 0x0163, CONTROLLER_TYPE_XBoxOneController, Some ''PDP Deliverer of Truth''),
    (0x0e6f, 0x0164, CONTROLLER_TYPE_XBoxOneController, Some ''PDP Battlefield 1 Controller''),
    (0x0e6f, 0x0165, CONTROLLER_TYPE_XBoxOneController, Some ''PDP Titanfall 2 Controller''),
    (0x0e6f, 0x0166, CONTROLLER_TYPE_XBoxOneController, Some ''PDP Mass Effect: Andromeda Controller''),
    (0x0e6f, 0x0167, CONTROLLER_TYPE_XBoxOneController, Some ''PDP Halo Wars 2 Face-Off Controller''),
    (0x0e6f, 0x0205, CONTROLLER_TYPE_XBoxOneController, Some ''PDP Victrix Pro Fight Stick''),
    (0x0e6f, 0x0206, CONTROLLER_TYPE_XBoxOneController, Some ''PDP Mortal Kombat Controller''),
    (0x0e6f, 0x0246, CONTROLLER_TYPE_XBoxOneController, Some ''PDP Xbox One Rock Candy''),
    (0x0e6f, 0x0261, CONTROLLER_TYPE_XBoxOneController, Some ''PDP Xbox One Camo''),
    (0x0e6f, 0x0262, CONTROLLER_TYPE_XBoxOneController, Some ''PDP Xbox One Controller''),
    (0x0e6f, 0x02a0, CONTROLLER_TYPE_XBoxOneController, Some ''PDP Xbox One Midnight Blue''),
    (0x0e6f, 0x02a1, CONTROLLER_TYPE_XBoxOneController, Some ''PDP Xbox One Verdant Green''),
    (0x0e6f, 0x02a2, CONTROLLER_TYPE_XBoxOneController, Some ''PDP Xbox One Crimson Red''),
    (0x0e6f, 0x02a3, CONTROLLER_TYPE_XBoxOneController, Some ''PDP Xbox One Arctic White''),
    (0x0e6f, 0x02a4, CONTROLLER_TYPE_XBoxOneController, Some ''PDP Xbox One Phantom Black''),
    (0x0e6f, 0x02a5, CONTROLLER_TYPE_XBoxOneController, Some ''PDP Xbox One Ghost White''),
    (0x0e6f, 0x02a6, CONTROLLER_TYPE_XBoxOneController, Some ''PDP Xbox One Revenant Blue''),
    (0x0e6f, 0x02a7, CONTROLLER_TYPE_XBoxOneController, Some ''PDP Xbox One Raven Black''),
    (0x0e6f, 0x02a8, CONTROLLER_TYPE_XBoxOneController, Some ''PDP Xbox One Arctic White''),
    (0x0e6f, 0x02a9, CONTROLLER_TYPE_XBoxOneController, Some ''PDP Xbox One Midnight Blue''),
    (0x0e6f, 0x02aa, CONTROLLER_TYPE_XBoxOneController, Some ''PDP Xbox One Verdant Green''),
    (0x0e6f, 0x02ab, CONTROLLER_TYPE_XBoxOneController, Some ''PDP Xbox One Crimson Red''),
    (0x0e6f, 0x02ac, CONTROLLER_TYPE_XBoxOneController, Some ''PDP Xbox One Ember Orange''),
    (0x0e6f, 0x02ad, CONTROLLER_TYPE_XBoxOneController, Some ''PDP Xbox One Phantom Black''),
    (0x0e6f, 0x02ae, CONTROLLER_TYPE_XBoxOneController, Some ''PDP Xbox One Ghost White''),
    (0x0e6f, 0x02af, CONTROLLER_TYPE_XBoxOneController, Some ''PDP Xbox One Revenant Blue''),
    (0x0e6f, 0x02b0, CONTROLLER_TYPE_XBoxOneController, Some ''PDP Xbox One Raven Black''),
    (0x0e6f, 0x02b1, CONTROLLER_TYPE_XBoxOneController, Some ''PDP Xbox One Arctic White''),
    (0x0e6f, 0x02b3, CONTROLLER_TYPE_XBoxOneController, Some ''PDP Xbox One Afterglow''),
    (0x0e6f, 0x02b5, CONTROLLER_TYPE_XBoxOneController, Some ''PDP Xbox One GAMEware Controller''),
    (0x0e6f, 0x02b6, CONTROLLER_TYPE_XBoxOneController, None),
    (0x0e6f, 0x02bd, CONTROLLER_TYPE_XBoxOneController, Some ''PDP Xbox One Royal Purple''),
    (0x0e6f, 0x02be, CONTROLLER_TYPE_XBoxOneController, Some ''PDP Xbox One Raven Black''),
    (0x0e6f, 0x02bf, CONTROLLER_TYPE_XBoxOneController, Some ''PDP Xbox One Midnight Blue''),
    (0x0e6f, 0x02c0, CONTROLLER_TYPE_XBoxOneController, Some ''PDP Xbox One Phantom Black''),
    (0x0e6f, 0x02c1, CONTROLLER_TYPE_XBoxOneController, Some ''PDP Xbox One Ghost White''),
    (0x0e6f, 0x02c2, CONTROLLER_TYPE_XBoxOneController, Some ''PDP Xbox One Revenant Blue''),
    (0x0e6f, 0x02c3, CONTROLLER_TYPE_XBoxOneController, Some ''PDP Xbox One Verdant Green''),
    (0x0e6f, 0x02c4, CONTROLLER_TYPE_XBoxOneController, Some ''PDP Xbox One Ember Orange''),
    (0x0e6f, 0x02c5, CONTROLLER_TYPE_XBoxOneController, Some ''PDP Xbox One Royal Purple''),
    (0x0e6f, 0x02c6, CONTROLLER_TYPE_XBoxOneController, Some ''PDP Xbox One Crimson Red''),
    (0x0e6f, 0x02c7, CONTROLLER_TYPE_XBoxOneController, Some ''PDP Xbox One Arctic White''),
    (0x0e6f, 0x02c8, CONTROLLER_TYPE_XBoxOneController, Some ''PDP Kingdom Hearts Controller''),
    (0x0e6f, 0x02c9, CONTROLLER_TYPE_XBoxOneController, Some ''PDP Xbox One Phantasm Red''),
    (0x0e6f, 0x02ca, CONTROLLER_TYPE_XBoxOneController, Some ''PDP Xbox One Specter Violet''),
    (0x0e6f, 0x02cb, CONTROLLER_TYPE_XBoxOneController, Some ''PDP Xbox One Specter Violet''),
    (0x0e6f, 0x02cd, CONTROLLER_TYPE_XBoxOneController, Some ''PDP Xbox One Blu-merang''),
    (0x0e6f, 0x02ce, CONTROLLER_TYPE_XBoxOneController, Some ''PDP Xbox One Cranblast''),
    (0x0e6f, 0x02cf, CONTROLLER_TYPE_XBoxOneController, Some ''PDP Xbox One Aqualime''),
    (0x0e6f, 0x02d5, CONTROLLER_TYPE_XBoxOneController, Some ''PDP Xbox One Red Camo''),
    (0x0e6f, 0x0346, CONTROLLER_TYPE_XBoxOneController, Some ''PDP Xbox One RC Gamepad''),
    (0x0e6f, 0x0446, CONTROLLER_TYPE_XBoxOneController, Some ''PDP Xbox One RC Gamepad''),
    (0x0e6f, 0x02da, CONTROLLER_TYPE_XBoxOneController, Some ''PDP Xbox Series X Afterglow''),
    (0x0e6f, 0x02d6, CONTROLLER_TYPE_XBoxOneController, Some ''Victrix Gambit Tournament Controller''),
    (0x0e6f, 0x02d9, CONTROLLER_TYPE_XBoxOneController, Some ''PDP Xbox Series X Midnight Blue''),
    (0x0f0d, 0x0063, CONTROLLER_TYPE_XBoxOneController, None),
    (0x0f0d, 0x0067, CONTROLLER_TYPE_XBoxOneController, None),
    (0x0f0d, 0x0078, CONTROLLER_TYPE_XBoxOneController, None),
    (0x0f0d, 0x00c5, CONTROLLER_TYPE_XBoxOneController, None),
    (0x0f0d, 0x0150, CONTROLLER_TYPE_XBoxOneController, None),
    (0x10f5, 0x7009, CONTROLLER_TYPE_XBoxOneController, None),
    (0x10f5, 0x7013, CONTROLLER_TYPE_XBoxOneController, None),
    (0x1532, 0x0a00, CONTROLLER_TYPE_XBoxOneController, None),
    (0x1532, 0x0a03, CONTROLLER_TYPE_XBoxOneController, None),
    (0x1532, 0x0a14, CONTROLLER_TYPE_XBoxOneController, None),
    (0x1532, 0x0a15, CONTROLLER_TYPE_XBoxOneController, None),
    (0x20d6, 0x2001, CONTROLLER_TYPE_XBoxOneController, Some ''PowerA Xbox Series X Controller''),
    (0x20d6, 0x2002, CONTROLLER_TYPE_XBoxOneController, Some ''PowerA Xbox Series X Controller''),
    (0x20d6, 0x2003, CONTROLLER_TYPE_XBoxOneController, Some ''PowerA Xbox Series X Controller''),
    (0x20d6, 0x2004, CONTROLLER_TYPE_XBoxOneController, Some ''PowerA Xbox Series X Controller''),
    (0x20d6, 0x2005, CONTROLLER_TYPE_XBoxOneController, Some ''PowerA Xbox Series X Controller''),
    (0x20d6, 0x2006, CONTROLLER_TYPE_XBoxOneController, Some ''PowerA Xbox Series X Controller''),
    (0x20d6, 0x2009, CONTROLLER_TYPE_XBoxOneController, Some ''PowerA Xbox Series X Controller''),
    (0x20d6, 0x200a, CONTROLLER_TYPE_XBoxOneController, Some ''PowerA Xbox Series X Controller''),
    (0x20d6, 0x200b, CONTROLLER_TYPE_XBoxOneController, Some ''PowerA Xbox Series X Controller''),
    (0x20d6, 0x200c, CONTROLLER_TYPE_XBoxOneController, Some ''PowerA Xbox Series X Controller''),
    (0x20d6, 0x200d, CONTROLLER_TYPE_XBoxOneController, Some ''PowerA Xbox Series X Controller''),
    (0x20d6, 0x200e, CONTROLLER_TYPE_XBoxOneController, Some ''PowerA Xbox Series X Controller''),
    (0x20d6, 0x200f, CONTROLLER_TYPE_XBoxOneController, Some ''PowerA Xbox Series X Controller''),
    (0x20d6, 0x2011, CONTROLLER_TYPE_XBoxOneController, Some ''PowerA Xbox Series X Controller''),
    (0x20d6, 0x2012, CONTROLLER_TYPE_XBoxOneController, Some ''PowerA Xbox Series X Controller''),
    (0x20d6, 0x2015, CONTROLLER_TYPE_XBoxOneController, Some ''PowerA Xbox Series X Controller''),
    (0x20d6, 0x2016, CONTROLLER_TYPE_XBoxOneController, Some ''PowerA Xbox Series X Controller''),
    (0x20d6, 0x2017, CONTROLLER_TYPE_XBoxOneController, Some ''PowerA Xbox Series X Controller''),
    (0x20d6, 0x2018, CONTROLLER_TYPE_XBoxOneController, Some ''PowerA Xbox Series X Controller''),
    (0x20d6, 0x2019, CONTROLLER_TYPE_XBoxOneController, Some ''PowerA Xbox Series X Controller''),
    (0x20d6, 0x201a, CONTROLLER_TYPE_XBoxOneController, Some ''PowerA Xbox Series X Controller''),
    (0x20d6, 0x4001, CONTROLLER_TYPE_XBoxOneController, Some ''PowerA Fusion Pro 2 Controller''),
    (0x20d6, 0x4002, CONTROLLER_TYPE_XBoxOneController, Some ''PowerA Spectra Infinity Controller''),
    (0x20d6, 0x890b, CONTROLLER_TYPE_XBoxOneController, None),
    (0x24c6, 0x541a, CONTROLLER_TYPE_XBoxOneController, None),
    (0x24c6, 0x542a, CONTROLLER_TYPE_XBoxOneController, None),
    (0x24c6, 0x543a, CONTROLLER_TYPE_XBoxOneController, Some ''PowerA Xbox One Controller''),
    (0x24c6, 0x551a, CONTROLLER_TYPE_XBoxOneController, None),
    (0x24c6, 0x561a, CONTROLLER_TYPE_XBoxOneController, None),
    (0x24c6, 0x581a, CONTROLLER_TYPE_XBoxOneController, None),
    (0x24c6, 0x591a, CONTROLLER_TYPE_XBoxOneController, None),
    (0x24c6, 0x592a, CONTROLLER_TYPE_XBoxOneController, None),
    (0x24c6, 0x791a, CONTROLLER_TYPE_XBoxOneController, None),
    (0x2dc8, 0x2002, CONTROLLER_TYPE_XBoxOneController, None),
    (0x2dc8, 0x3106, CONTROLLER_TYPE_XBoxOneController, None),
    (0x2e24, 0x0652, CONTROLLER_TYPE_XBoxOneController, None),
    (0x2e24, 0x1618, CONTROLLER_TYPE_XBoxOneController, None),
    (0x2e24, 0x1688, CONTROLLER_TYPE_XBoxOneController, None),
    (0x146b, 0x0611, CONTROLLER_TYPE_XBoxOneController, None)]"

definition arrControllers_4 :: "controller_description list" where
  "arrControllers_4 = [
    (0x0000, 0x0000, CONTROLLER_TYPE_XBox360Controller, None),
    (0x045e, 0x02a2, CONTROLLER_TYPE_XBox360Controller, None),
    (0x0e6f, 0x1414, CONTROLLER_TYPE_XBox360Controller, None),
    (0x0e6f, 0x0159, CONTROLLER_TYPE_XBox360Controller, None),
    (0x24c6, 0xfaff, CONTROLLER_TYPE_XBox360Controller, None),
    (0x0f0d, 0x006d, CONTROLLER_TYPE_XBox360Controller, None),
    (0x0f0d, 0x00a4, CONTROLLER_TYPE_XBox360Controller, None),
    (0x0079, 0x1832, CONTROLLER_TYPE_XBox360Controller, None),
    (0x0079, 0x187f, CONTROLLER_TYPE_XBox360Controller, None),
    (0x0079, 0x1883, CONTROLLER_TYPE_XBox360Controller, None),
    (0x03eb, 0xff01, CONTROLLER_TYPE_XBox360Controller, None),
    (0x0c12, 0x0ef8, CONTROLLER_TYPE_XBox360Controller, None),
    (0x046d, 0x1000, CONTROLLER_TYPE_XBox360Controller, None),
    (0x1345, 0x6006, CONTROLLER_TYPE_XBox360Controller, None),
    (0x056e, 0x2012, CONTROLLER_TYPE_XBox360Controller, None),
    (0x146b, 0x0602, CONTROLLER_TYPE_XBox360Controller, None),
    (0x0f0d, 0x00ae, CONTROLLER_TYPE_XBox360Controller, None),
    (0x046d, 0x0401, CONTROLLER_TYPE_XBox360Controller, None),
    (0x046d, 0x0301, CONTROLLER_TYPE_XBox360Controller, None),
    (0x046d, 0xcaa3, CONTROLLER_TYPE_XBox360Controller, None),
    (0x046d, 0xc261, CONTROLLER_TYPE_XBox360Controller, None),
    (0x046d, 0x0291, CONTROLLER_TYPE_XBox360Controller, None),
    (0x0079, 0x18d3, CONTROLLER_TYPE_XBox360Controller, None),
    (0x0f0d, 0x00b1, CONTROLLER_TYPE_XBox360Controller, None),
    (0x0001, 0x0001, CONTROLLER_TYPE_XBox360Controller, None),
    (0x0079, 0x188e, CONTROLLER_TYPE_XBox360Controller, None),
    (0x0079, 0x187c, CONTROLLER_TYPE_XBox360Controller, None),
    (0x0079, 0x189c, CONTROLLER_TYPE_XBox360Controller, None),
    (0x0079, 0x1874, CONTROLLER_TYPE_XBox360Controller, None),
    (0x2f24, 0x0050, CONTROLLER_TYPE_XBoxOneController, None),
    (0x2f24, 0x002e, CONTROLLER_TYPE_XBoxOneController, None),
    (0x2f24, 0x0091, CONTROLLER_TYPE_XBoxOneController, None),
    (0x1430, 0x0719, CONTROLLER_TYPE_XBoxOneController, None),
    (0x0f0d, 0x00ed, CONTROLLER_TYPE_XBoxOneController, None),
    (0x0f0d, 0x00c0, CONTROLLER_TYPE_XBoxOneController, None),
    (0x0e6f, 0x0152, CONTROLLER_TYPE_XBoxOneController, None),
    (0x0e6f, 0x02a7, CONTROLLER_TYPE_XBoxOneController, None),
    (0x046d, 0x1007, CONTROLLER_TYPE_XBoxOneController, None),
    (0x0e6f, 0x02b8, CONTROLLER_TYPE_XBoxOneController, None),
    (0x0e6f, 0x02a8, CONTROLLER_TYPE_XBoxOneController, None),
    (0x0079, 0x18a1, CONTROLLER_TYPE_XBoxOneController, None),
    (0x0000, 0x6686, CONTROLLER_TYPE_XBoxOneController, None),
    (0x11ff, 0x0511, CONTROLLER_TYPE_XBoxOneController, None),
    (0x12ab, 0x0304, CONTROLLER_TYPE_XBoxOneController, None),
    (0x1430, 0x0291, CONTROLLER_TYPE_XBoxOneController, None),
    (0x1430, 0x02a9, CONTROLLER_TYPE_XBoxOneController, None),
    (0x1430, 0x070b, CONTROLLER_TYPE_XBoxOneController, None),
    (0x1bad, 0x028e, CONTROLLER_TYPE_XBoxOneController, None),
    (0x1bad, 0x02a0, CONTROLLER_TYPE_XBoxOneController, None),
    (0x1bad, 0x5500, CONTROLLER_TYPE_XBoxOneController, None),
    (0x20ab, 0x55ef, CONTROLLER_TYPE_XBoxOneController, None),
    (0x24c6, 0x5509, CONTROLLER_TYPE_XBoxOneController, None),
    (0x2516, 0x0069, CONTROLLER_TYPE_XBoxOneController, None),
    (0x25b1, 0x0360, CONTROLLER_TYPE_XBoxOneController, None),
    (0x2c22, 0x2203, CONTROLLER_TYPE_XBoxOneController, None),
    (0x2f24, 0x0011, CONTROLLER_TYPE_XBoxOneController, None),
    (0x2f24, 0x0053, CONTROLLER_TYPE_XBoxOneController, None),
    (0x2f24, 0x00b7, CONTROLLER_TYPE_XBoxOneController, None),
    (0x046d, 0x0000, CONTROLLER_TYPE_XBoxOneController, None),
    (0x046d, 0x1004, CONTROLLER_TYPE_XBoxOneController, None),
    (0x046d, 0x1008, CONTROLLER_TYPE_XBoxOneController, None),
    (0x046d, 0xf301, CONTROLLER_TYPE_XBoxOneController, None),
    (0x0738, 0x02a0, CONTROLLER_TYPE_XBoxOneController, None),
    (0x0738, 0x7263, CONTROLLER_TYPE_XBoxOneController, None),
    (0x0738, 0xb738, CONTROLLER_TYPE_XBoxOneController, None),
    (0x0738, 0xcb29, CONTROLLER_TYPE_XBoxOneController, None),
    (0x0738, 0xf401, CONTROLLER_TYPE_XBoxOneController, None),
    (0x0079, 0x18c2, CONTROLLER_TYPE_XBoxOneController, None),
    (0x0079, 0x18c8, CONTROLLER_TYPE_XBoxOneController, None),
    (0x0079, 0x18cf, CONTROLLER_TYPE_XBoxOneController, None),
    (0x0c12, 0x0e17, CONTROLLER_TYPE_XBoxOneController, None),
    (0x0c12, 0x0e1c, CONTROLLER_TYPE_XBoxOneController, None),
    (0x0c12, 0x0e22, CONTROLLER_TYPE_XBoxOneController, None),
    (0x0c12, 0x0e30, CONTROLLER_TYPE_XBoxOneController, None),
    (0xd2d2, 0xd2d2, CONTROLLER_TYPE_XBoxOneController, None),
    (0x0d62, 0x9a1a, CONTROLLER_TYPE_XBoxOneController, None),
    (0x0d62, 0x9a1b, CONTROLLER_TYPE_XBoxOneController, None),
    (0x0e00, 0x0e00, CONTROLLER_TYPE_XBoxOneController, None),
    (0x0e6f, 0x012a, CONTROLLER_TYPE_XBoxOneController, None),
    (0x0e6f, 0x02a1, CONTROLLER_TYPE_XBoxOneController, None),
    (0x0e6f, 0x02a2, CONTROLLER_TYPE_XBoxOneController, None),
    (0x0e6f, 0x02a5, CONTROLLER_TYPE_XBoxOneController, None),
    (0x0e6f, 0x02b2, CONTROLLER_TYPE_XBoxOneController, None),
    (0x0e6f, 0x02bd, CONTROLLER_TYPE_XBoxOneController, None),
    (0x0e6f, 0x02bf, CONTROLLER_TYPE_XBoxOneController, None),
    (0x0e6f, 0x02c0, CONTROLLER_TYPE_XBoxOneController, None),
    (0x0e6f, 0x02c6, CONTROLLER_TYPE_XBoxOneController, None),
    (0x0f0d, 0x0097, CONTROLLER_TYPE_XBoxOneController, None),
    (0x0f0d, 0x00ba, CONTROLLER_TYPE_XBoxOneController, None),
    (0x0f0d, 0x00d8, CONTROLLER_TYPE_XBoxOneController, None),
    (0x0fff, 0x02a1, CONTROLLER_TYPE_XBoxOneController, None),
    (0x045e, 0x0867, CONTROLLER_TYPE_XBoxOneController, None),
    (0x16d0, 0x0f3f, CONTROLLER_TYPE_XBoxOneController, None),
    (0x2f24, 0x008f, CONTROLLER_TYPE_XBoxOneController, None),
    (0x0e6f, 0xf501, CONTROLLER_TYPE_XBoxOneController, None),
    (0x05ac, 0x0001, CONTROLLER_TYPE_AppleController, None),
    (0x05ac, 0x0002, CONTROLLER_TYPE_AppleController, None),
    (0x057e, 0x2006, CONTROLLER_TYPE_SwitchJoyConLeft, None),
    (0x057e, 0x2007, CONTROLLER_TYPE_SwitchJoyConRight, None),
    (0x057e, 0x2008, CONTROLLER_TYPE_SwitchJoyConPair, None),
    (0x057e, 0x2009, CONTROLLER_TYPE_SwitchProController, None),
    (0x0f0d, 0x00c1, CONTROLLER_TYPE_SwitchInputOnlyController, None),
    (0x0f0d, 0x0092, CONTROLLER_TYPE_SwitchInputOnlyController, None),
    (0x0f0d, 0x00f6, CONTROLLER_TYPE_SwitchProController, None),
    (0x0f0d, 0x00dc, CONTROLLER_TYPE_XInputSwitchController, None),
    (0x0e6f, 0x0180, CONTROLLER_TYPE_SwitchInputOnlyController, None),
    (0x0e6f, 0x0181, CONTROLLER_TYPE_SwitchInputOnlyController, None),
    (0x0e6f, 0x0184, CONTROLLER_TYPE_SwitchInputOnlyController, None),
    (0x0e6f, 0x0185, CONTROLLER_TYPE_SwitchInputOnlyController, None),
    (0x0e6f, 0x0186, CONTROLLER_TYPE_SwitchProController, None),
    (0x0e6f, 0x0187, CONTROLLER_TYPE_SwitchInputOnlyController, None)]"

definition arrControllers_5 :: "controller_description list" where
  "arrControllers_5 = [
    (0x0e6f, 0x0188, CONTROLLER_TYPE_SwitchInputOnlyController, None),
    (0x0f0d, 0x00aa, CONTROLLER_TYPE_SwitchInputOnlyController, None),
    (0x20d6, 0xa711, CONTROLLER_TYPE_SwitchInputOnlyController, None),
    (0x20d6, 0xa712, CONTROLLER_TYPE_SwitchInputOnlyController, None),
    (0x20d6, 0xa713, CONTROLLER_TYPE_SwitchInputOnlyController, None),
    (0x20d6, 0xa714, CONTROLLER_TYPE_SwitchInputOnlyController, None),
    (0x20d6, 0xa715, CONTROLLER_TYPE_SwitchInputOnlyController, None),
    (0x20d6, 0xa716, CONTROLLER_TYPE_SwitchInputOnlyController, None),
    (0x20d6, 0xa718, CONTROLLER_TYPE_SwitchInputOnlyController, None),
    (0x0000, 0x11fb, CONTROLLER_TYPE_MobileTouch, None),
    (0x28de, 0x1101, CONTROLLER_TYPE_SteamController, None),
    (0x28de, 0x1102, CONTROLLER_TYPE_SteamController, None),
    (0x28de, 0x1105, CONTROLLER_TYPE_SteamController, None),
    (0x28de, 0x1106, CONTROLLER_TYPE_SteamController, None),
    (0x28de, 0x11ff, CONTROLLER_TYPE_UnknownNonSteamController, None),
    (0x28de, 0x1142, CONTROLLER_TYPE_SteamController, None),
    (0x28de, 0x1201, CONTROLLER_TYPE_SteamControllerV2, None),
    (0x28de, 0x1202, CONTROLLER_TYPE_SteamControllerV2, None),
    (0x28de, 0x1205, CONTROLLER_TYPE_SteamControllerNeptune, None),
    (0x2836, 0x0001, CONTROLLER_TYPE_OUYAController, None),
    (0x15e4, 0x0132, CONTROLLER_TYPE_iCadeController, None),
    (0x0a5c, 0x8502, CONTROLLER_TYPE_iCadeController, None),
    (0x20d6, 0x6271, CONTROLLER_TYPE_AndroidController, None),
    (0x0b05, 0x4500, CONTROLLER_TYPE_AndroidController, None),
    (0x1949, 0x0402, CONTROLLER_TYPE_AndroidController, None),
    (0x18d1, 0x9400, CONTROLLER_TYPE_AndroidController, None),
    (0x1949, 0x0401, CONTROLLER_TYPE_SmartTVRemoteController, None),
    (0x2820, 0x0009, CONTROLLER_TYPE_8BitdoController, None),
    (0x2dc8, 0x0651, CONTROLLER_TYPE_8BitdoController, None),
    (0x2dc8, 0x2830, CONTROLLER_TYPE_8BitdoController, None),
    (0x2dc8, 0x2840, CONTROLLER_TYPE_8BitdoController, None),
    (0x2dc8, 0x3230, CONTROLLER_TYPE_8BitdoController, None),
    (0x2dc8, 0x6006, CONTROLLER_TYPE_8BitdoController, None),
    (0x2dc8, 0x6100, CONTROLLER_TYPE_8BitdoController, None),
    (0x2dc8, 0x6101, CONTROLLER_TYPE_8BitdoController, None),
    (0x0a5c, 0x4502, CONTROLLER_TYPE_GenericController, None),
    (0x0111, 0x1420, CONTROLLER_TYPE_NimbusController, None),
    (0x0111, 0x1431, CONTROLLER_TYPE_AndroidController, None),
    (0x057e, 0x0330, CONTROLLER_TYPE_WiiController, None),
    (0x057e, 0x0306, CONTROLLER_TYPE_WiiController, None),
    (0x057e, 0x2017, CONTROLLER_TYPE_SwitchProController, None),
    (0x057e, 0x2019, CONTROLLER_TYPE_SwitchProController, None),
    (0x057e, 0x201e, CONTROLLER_TYPE_SwitchProController, None),
    (0x054c, 0x03d5, CONTROLLER_TYPE_PSMoveController, None),
    (0x054c, 0x0c5e, CONTROLLER_TYPE_PSMoveController, None),
    (0x3250, 0x1001, CONTROLLER_TYPE_AtariJoystick, None)]"

definition arrControllers :: "controller_description list" where
  "arrControllers = arrControllers_1 @ arrControllers_2 @ arrControllers_3 @ arrControllers_4 @ arrControllers_5"

subsection \<open>Lookup\<close>

definition MAKE_CONTROLLER_ID :: "u16 \<Rightarrow> u16 \<Rightarrow> u32w" where
  "MAKE_CONTROLLER_ID vid pid = push_bit 16 (ucast vid) OR ucast pid"

definition find_controller :: "u16 \<Rightarrow> u16 \<Rightarrow> controller_description option" where
  "find_controller vid pid =
     find (\<lambda>(v, p, t, n). MAKE_CONTROLLER_ID vid pid = MAKE_CONTROLLER_ID v p) arrControllers"

definition uni_guess_controller_type :: "u16 \<Rightarrow> u16 \<Rightarrow> int" where
  "uni_guess_controller_type vid pid = (case find_controller vid pid of
      None \<Rightarrow> CONTROLLER_TYPE_UnknownNonSteamController
    | Some (v, p, t, n) \<Rightarrow> t)"

definition uni_guess_controller_name :: "u16 \<Rightarrow> u16 \<Rightarrow> string option" where
  "uni_guess_controller_name vid pid = (case find_controller vid pid of
      None \<Rightarrow> None
    | Some (v, p, t, n) \<Rightarrow> n)"

subsection \<open>What the lookup finds\<close>

lemma MAKE_CONTROLLER_ID_inj:
  "MAKE_CONTROLLER_ID vid pid = MAKE_CONTROLLER_ID v p \<longleftrightarrow> vid = v \<and> pid = p"
proof
  have lo: "bit (MAKE_CONTROLLER_ID a b) n \<longleftrightarrow> bit b n" if "n < 16" for a b n
    using that by (simp add: MAKE_CONTROLLER_ID_def bit_or_iff bit_push_bit_iff bit_ucast_iff)
  have hi: "bit (MAKE_CONTROLLER_ID a b) (n + 16) \<longleftrightarrow> bit a n" if "n < 16" for a b n
    using that by (auto simp: MAKE_CONTROLLER_ID_def bit_or_iff bit_push_bit_iff bit_ucast_iff dest: bit_imp_le_length)
  assume eq: "MAKE_CONTROLLER_ID vid pid = MAKE_CONTROLLER_ID v p"
  have "vid = v" by (rule bit_word_eqI) (use hi [of _ vid pid] hi [of _ v p] eq in simp)
  moreover have "pid = p" by (rule bit_word_eqI) (use lo [of _ vid pid] lo [of _ v p] eq in simp)
  ultimately show "vid = v \<and> pid = p" ..
qed simp

lemma find_controller_code [code]:
  "find_controller vid pid = find (\<lambda>(v, p, t, n). vid = v \<and> pid = p) arrControllers"
  by (simp add: find_controller_def MAKE_CONTROLLER_ID_inj)

lemma find_first:
  "(\<And>x. x \<in> set xs \<Longrightarrow> \<not> P x) \<Longrightarrow> P y \<Longrightarrow> find P (xs @ y # ys) = Some y"
  by (induction xs) auto

text \<open>
  The lookup takes the first entry of the table with the vendor and product id, and ids that are
  not in the table are a controller of unknown type; the 32-bit id the code compares identifies
  vendor and product.
\<close>

lemma guess_controller_type_first:
  assumes "arrControllers = xs @ (vid, pid, t, n) # ys" "\<forall>(v, p, _) \<in> set xs. (v, p) \<noteq> (vid, pid)"
  shows "uni_guess_controller_type vid pid = t \<and> uni_guess_controller_name vid pid = n \<and>
     (MAKE_CONTROLLER_ID vid pid = MAKE_CONTROLLER_ID v p \<longleftrightarrow> (vid, pid) = (v, p))"
proof -
  have "find_controller vid pid = Some (vid, pid, t, n)"
    unfolding find_controller_code assms(1) using assms(2) by (intro find_first) auto
  then show ?thesis
    by (simp add: uni_guess_controller_type_def uni_guess_controller_name_def MAKE_CONTROLLER_ID_inj)
qed

lemma guess_controller_type_example:
  "uni_guess_controller_type 0x0079 0x181a = CONTROLLER_TYPE_PS3Controller"
proof -
  have "\<exists>ys. arrControllers = [] @ (0x0079, 0x181a, CONTROLLER_TYPE_PS3Controller, None) # ys"
    by (simp add: arrControllers_def arrControllers_1_def)
  then show ?thesis using guess_controller_type_first [of "[]" "0x0079" "0x181a"] by auto
qed

text \<open>
  The table has duplicates, although the code has a check against them (compiled only for POSIX):
  the product 0x00ed of vendor 0x0f0d is listed as a PS4 controller in XInput mode and again as an
  Xbox One controller; the second entry is never found.
\<close>

lemma controller_list_shadowed_entry:
  "uni_guess_controller_type 0x0f0d 0x00ed = CONTROLLER_TYPE_XInputPS4Controller \<and>
   (0x0f0d, 0x00ed, CONTROLLER_TYPE_XBoxOneController, None) \<in> set arrControllers"
proof
  show "uni_guess_controller_type 0x0f0d 0x00ed = CONTROLLER_TYPE_XInputPS4Controller" by code_simp
  have "(0x0f0d, 0x00ed, CONTROLLER_TYPE_XBoxOneController, None) \<in> set arrControllers_4"
    unfolding arrControllers_4_def by simp
  then show "(0x0f0d, 0x00ed, CONTROLLER_TYPE_XBoxOneController, None) \<in> set arrControllers"
    unfolding arrControllers_def by simp
qed

end
