(* ===== verification/BtAddr.thy ===== *)
theory BtAddr
  imports Prelude
begin

text \<open>
  Bluetooth addresses as text, \<^verbatim>\<open>btstack/src/btstack_util.c\<close>: printing an address with
  \<open>bd_addr_to_str\<close> and reading it with \<open>sscanf_bd_addr\<close>. A C string is the list of its characters
  without the terminating zero; reading at its end finds the zero, which is no hexadecimal digit.
\<close>

type_synonym bd_addr = "u8 list"

definition zero_addr :: bd_addr where "zero_addr = [0, 0, 0, 0, 0, 0]"

definition char_for_nibble :: "u8 \<Rightarrow> char" where
  "char_for_nibble n = (if n < 16 then ''0123456789ABCDEF'' ! unat n else CHR ''?'')"

definition nibble_for_char :: "char \<Rightarrow> u8 option" where
  "nibble_for_char c =
     (let k = (of_char c :: nat)
      in if 48 \<le> k \<and> k \<le> 57 then Some (of_nat (k - 48))
         else if 97 \<le> k \<and> k \<le> 102 then Some (of_nat (k - 97 + 10))
         else if 65 \<le> k \<and> k \<le> 70 then Some (of_nat (k - 65 + 10))
         else None)"

fun addr_chars :: "char \<Rightarrow> u8 list \<Rightarrow> string" where
  "addr_chars dl [] = []"
| "addr_chars dl (b # bs) = char_for_nibble (drop_bit 4 b AND 0x0f) # char_for_nibble (b AND 0x0f) # dl # addr_chars dl bs"

definition bd_addr_to_str_with_delimiter :: "bd_addr \<Rightarrow> char \<Rightarrow> string" where
  "bd_addr_to_str_with_delimiter addr dl = butlast (addr_chars dl addr)"

definition bd_addr_to_str :: "bd_addr \<Rightarrow> string" where
  "bd_addr_to_str addr = bd_addr_to_str_with_delimiter addr CHR '':''"

definition scan_hex_byte :: "string \<Rightarrow> u8 option" where
  "scan_hex_byte s = (case s of
      a # b # _ \<Rightarrow> (case nibble_for_char a of
          None \<Rightarrow> None
        | Some h \<Rightarrow> (case nibble_for_char b of None \<Rightarrow> None | Some l \<Rightarrow> Some (push_bit 4 h OR l)))
    | _ \<Rightarrow> None)"

definition skip_separator :: "string \<Rightarrow> string" where
  "skip_separator s = (case s of c # t \<Rightarrow> if c \<in> {CHR '':'', CHR ''-'', CHR '' ''} then t else s | [] \<Rightarrow> [])"

fun scan_bytes :: "nat \<Rightarrow> string \<Rightarrow> u8 list option" where
  "scan_bytes 0 s = Some []"
| "scan_bytes (Suc n) s = (case scan_hex_byte s of
      None \<Rightarrow> None
    | Some b \<Rightarrow> if n = 0 then Some [b] else map_option ((#) b) (scan_bytes n (skip_separator (drop 2 s))))"

definition sscanf_bd_addr :: "string \<Rightarrow> bd_addr option" where
  "sscanf_bd_addr s = scan_bytes 6 s"

subsection \<open>Reading what was printed\<close>

lemma nibble_roundtrip:
  assumes "n < 16"
  shows "nibble_for_char (char_for_nibble n) = Some n"
proof -
  have "unat n < 16" using assms by (simp add: word_less_nat_alt)
  then have "unat n = 0 \<or> unat n = 1 \<or> unat n = 2 \<or> unat n = 3 \<or> unat n = 4 \<or> unat n = 5 \<or> unat n = 6 \<or> unat n = 7 \<or>
      unat n = 8 \<or> unat n = 9 \<or> unat n = 10 \<or> unat n = 11 \<or> unat n = 12 \<or> unat n = 13 \<or> unat n = 14 \<or> unat n = 15"
    by presburger
  moreover have "n = word_of_nat (unat n)" by simp
  ultimately show ?thesis
    by (elim disjE) (simp_all add: nibble_for_char_def char_for_nibble_def)
qed

lemma nibbles_of_byte: "push_bit 4 (drop_bit 4 b AND 0x0f) OR (b AND 0x0f) = (b :: u8)"
proof (rule bit_word_eqI)
  fix n assume n: "n < LENGTH(8)"
  have m: "(0x0f :: u8) = mask 4" by (simp add: mask_eq_exp_minus_1)
  show "bit (push_bit 4 (drop_bit 4 b AND 0x0f) OR (b AND 0x0f)) n = bit b n"
    using n unfolding m by (auto simp: bit_simps)
qed

lemma nibble_less: "b AND 0x0f < (16 :: u8)"
proof -
  have "b AND 0x0f \<le> (0x0f :: u8)" by (rule word_and_le1)
  also have "\<dots> < 16" by simp
  finally show ?thesis .
qed

lemma scan_hex_byte_printed:
  "scan_hex_byte (char_for_nibble (drop_bit 4 b AND 0x0f) # char_for_nibble (b AND 0x0f) # s) = Some b"
  unfolding scan_hex_byte_def by (simp only: list.case option.case nibble_roundtrip [OF nibble_less] nibbles_of_byte)

lemma addr_chars_Nil [simp]: "addr_chars dl bs = [] \<longleftrightarrow> bs = []"
  by (cases bs) auto

lemma scan_bytes_printed:
  "bs \<noteq> [] \<Longrightarrow> scan_bytes (length bs) (butlast (addr_chars CHR '':'' bs) @ s) = Some bs"
proof (induction bs)
  case (Cons b bs)
  then show ?case
    by (cases "bs = []") (auto simp: scan_hex_byte_printed skip_separator_def)
qed simp

lemma length_addr_chars: "length (addr_chars dl bs) = 3 * length bs"
  by (induction bs) auto

text \<open>An address that was printed is read back, whatever follows it, and takes 17 characters.\<close>

lemma bd_addr_roundtrip: "length a = 6 \<Longrightarrow> sscanf_bd_addr (bd_addr_to_str a @ s) = Some a"
  using scan_bytes_printed [of a s]
  by (cases "a = []") (auto simp: sscanf_bd_addr_def bd_addr_to_str_def bd_addr_to_str_with_delimiter_def)

lemma length_bd_addr_to_str: "length a = 6 \<Longrightarrow> length (bd_addr_to_str a) = 17"
  by (simp add: bd_addr_to_str_def bd_addr_to_str_with_delimiter_def length_addr_chars)

end
