(* ===== verification/HidDevice.thy ===== *)
theory HidDevice
  imports XboxOne ControllerList BukkisBt BtAddr
begin

text \<open>
  The table of HID devices, \<^verbatim>\<open>uni_hid_device.c\<close>, with the connection record of \<^verbatim>\<open>bt/uni_bt_conn.c\<close>: slots
  that are free when their address is zero, the search functions, the life cycle of a device
  (create, connect, ready, disconnect, delete, connection timeout), the choice of the parser, and
  the processing of a parsed report up to the platform's callback. A device is named by its index,
  a pointer to a device is an index or \<open>None\<close>. Of the data of the parsers only the flag that the name
  matcher of the DualShock 3 sets is kept. Timers are kept outside the devices, as the run
  loop has them. Calls of the platform and of the connection layer are recorded as events; what
  they answer are arguments.
\<close>

subsection \<open>Connections\<close>

datatype uni_bt_conn_state =
    STATE_DEVICE_NONE
  | STATE_DEVICE_DISCOVERED
  | STATE_REMOTE_NAME_REQUEST
  | STATE_REMOTE_NAME_INQUIRED
  | STATE_REMOTE_NAME_FETCHED
  | STATE_SDP_VENDOR_REQUESTED
  | STATE_SDP_VENDOR_FETCHED
  | STATE_SDP_HID_DESCRIPTOR_REQUESTED
  | STATE_SDP_HID_DESCRIPTOR_FETCHED
  | STATE_L2CAP_CONTROL_CONNECTION_REQUESTED
  | STATE_L2CAP_CONTROL_CONNECTED
  | STATE_L2CAP_INTERRUPT_CONNECTION_REQUESTED
  | STATE_L2CAP_INTERRUPT_CONNECTED
  | STATE_DEVICE_PENDING_READY
  | STATE_DEVICE_READY

datatype uni_bt_conn_protocol = PROTOCOL_NONE | PROTOCOL_BR_EDR | PROTOCOL_BLE

record uni_bt_conn =
  btaddr :: bd_addr
  conn_handle :: u16
  control_cid :: u16
  interrupt_cid :: u16
  page_scan_repetition_mode :: u8
  clock_offset :: u16
  conn_rssi :: u8
  incoming :: bool
  connected :: bool
  conn_state :: uni_bt_conn_state
  conn_protocol :: uni_bt_conn_protocol

definition UNI_BT_CONN_HANDLE_INVALID :: u16 where "UNI_BT_CONN_HANDLE_INVALID = 0xffff"

text \<open>\<^verbatim>\<open>memset\<close> of the connection record.\<close>

definition conn_zero :: uni_bt_conn where
  "conn_zero = \<lparr>btaddr = zero_addr, conn_handle = 0, control_cid = 0, interrupt_cid = 0,
     page_scan_repetition_mode = 0, clock_offset = 0, conn_rssi = 0, incoming = False, connected = False,
     conn_state = STATE_DEVICE_NONE, conn_protocol = PROTOCOL_NONE\<rparr>"

definition uni_bt_conn_init :: uni_bt_conn where
  "uni_bt_conn_init = conn_zero\<lparr>conn_handle := UNI_BT_CONN_HANDLE_INVALID\<rparr>"

definition uni_bt_conn_set_state :: "uni_bt_conn_state \<Rightarrow> uni_bt_conn \<Rightarrow> uni_bt_conn" where
  "uni_bt_conn_set_state s c = c\<lparr>conn_state := s\<rparr>"

definition uni_bt_conn_set_protocol :: "uni_bt_conn_protocol \<Rightarrow> uni_bt_conn \<Rightarrow> uni_bt_conn" where
  "uni_bt_conn_set_protocol p c = c\<lparr>conn_protocol := p\<rparr>"

definition uni_bt_conn_set_connected :: "bool \<Rightarrow> uni_bt_conn \<Rightarrow> uni_bt_conn" where
  "uni_bt_conn_set_connected b c = (if connected c = b then c else c\<lparr>connected := b\<rparr>)"

definition uni_bt_conn_disconnect :: "uni_bt_conn \<Rightarrow> uni_bt_conn" where
  "uni_bt_conn_disconnect c = uni_bt_conn_set_connected False c"

subsection \<open>Devices\<close>

text \<open>Which parser's functions a device has.\<close>

datatype parser_kind =
    P_none | P_icade | P_ouya | P_xboxone | P_android | P_stadia | P_nimbus | P_smarttvremote | P_psmove
  | P_ds3 | P_ds4 | P_ds5 | P_8bitdo | P_generic | P_wii | P_switch | P_steam | P_atari | P_mouse | P_keyboard

datatype uni_sdp_query_type = SDP_QUERY_AFTER_CONNECT | SDP_QUERY_BEFORE_CONNECT | SDP_QUERY_NOT_NEEDED

record uni_hid_device =
  cod :: u32w
  vendor_id :: u16
  product_id :: u16
  dev_name :: string
  dev_flags :: u32w
  hid_descriptor :: "u8 list"
  hid_descriptor_len :: nat
  sdp_query_type :: uni_sdp_query_type
  hids_cid :: u16
  controller_type :: int
  controller_subtype :: int
  controller :: uni_controller
  dev_parser :: parser_kind
  ds3_clone_controller :: bool
  misc_button_wait_release :: u32w
  misc_button_wait_delay :: u32w
  conn :: uni_bt_conn
  parent :: "nat option"
  child :: "nat option"

definition CONFIG_BLUEPAD32_MAX_DEVICES :: nat where "CONFIG_BLUEPAD32_MAX_DEVICES = 4"
definition HID_MAX_DESCRIPTOR_LEN :: nat where "HID_MAX_DESCRIPTOR_LEN = 512"

abbreviation (input) "FLAGS_HAS_COD \<equiv> (0x100 :: u32w)"
abbreviation (input) "FLAGS_HAS_NAME \<equiv> (0x200 :: u32w)"
abbreviation (input) "FLAGS_HAS_HID_DESCRIPTOR \<equiv> (0x400 :: u32w)"
abbreviation (input) "FLAGS_HAS_VENDOR_ID \<equiv> (0x800 :: u32w)"
abbreviation (input) "FLAGS_HAS_PRODUCT_ID \<equiv> (0x1000 :: u32w)"
abbreviation (input) "FLAGS_HAS_CONTROLLER_TYPE \<equiv> (0x2000 :: u32w)"

text \<open>\<^verbatim>\<open>memset\<close> of a device, and the device that \<open>uni_hid_device_init\<close> leaves.\<close>

definition device_zero :: uni_hid_device where
  "device_zero = \<lparr>cod = 0, vendor_id = 0, product_id = 0, dev_name = '''', dev_flags = 0,
     hid_descriptor = replicate HID_MAX_DESCRIPTOR_LEN 0, hid_descriptor_len = 0,
     sdp_query_type = SDP_QUERY_AFTER_CONNECT, hids_cid = 0,
     controller_type = 0, controller_subtype = 0,
     controller = \<lparr>ctl_data = Class_none gamepad0, battery = 0\<rparr>, dev_parser = P_none, ds3_clone_controller = False,
     misc_button_wait_release = 0, misc_button_wait_delay = 0, conn = conn_zero, parent = None, child = None\<rparr>"

definition device_init :: uni_hid_device where
  "device_init = device_zero\<lparr>hids_cid := 0xffff, conn := uni_bt_conn_init\<rparr>"

datatype dev_timer = Connection_timer | Inquiry_remote_name_timer | Misc_button_delay_timer

datatype gap_connection_type = GAP_CONNECTION_INVALID | GAP_CONNECTION_ACL | GAP_CONNECTION_SCO | GAP_CONNECTION_LE

datatype dev_event =
    On_device_connected nat
  | On_device_disconnected nat
  | On_device_ready nat
  | On_controller_data nat uni_controller
  | On_oob_system_button nat
  | Le_disconnect nat
  | Gap_disconnect nat
  | L2cap_disconnect u16
  | L2cap_create_channel bd_addr u16
  | L2cap_accept u16
  | L2cap_decline u16
  | Remote_name_request bd_addr u8 u16
  | Sdp_client_query bd_addr u16
  | Drop_link_key bd_addr
  | Pin_code_response bd_addr "u8 list"
  | Dump_all

record hid_state =
  g_devices :: "uni_hid_device list"
  timers :: "(dev_timer \<times> nat) set"
  events :: "dev_event list"

abbreviation dev :: "hid_state \<Rightarrow> nat \<Rightarrow> uni_hid_device" where
  "dev s i \<equiv> g_devices s ! i"

definition upd_dev :: "nat \<Rightarrow> (uni_hid_device \<Rightarrow> uni_hid_device) \<Rightarrow> hid_state \<Rightarrow> hid_state" where
  "upd_dev i f s = s\<lparr>g_devices := (g_devices s)[i := f (dev s i)]\<rparr>"

definition emit :: "dev_event \<Rightarrow> hid_state \<Rightarrow> hid_state" where
  "emit e s = s\<lparr>events := events s @ [e]\<rparr>"

definition remove_timer :: "dev_timer \<Rightarrow> nat \<Rightarrow> hid_state \<Rightarrow> hid_state" where
  "remove_timer t i s = s\<lparr>timers := timers s - {(t, i)}\<rparr>"

definition add_timer :: "dev_timer \<Rightarrow> nat \<Rightarrow> hid_state \<Rightarrow> hid_state" where
  "add_timer t i s = s\<lparr>timers := insert (t, i) (timers s)\<rparr>"

definition uni_hid_device_setup :: "hid_state" where
  "uni_hid_device_setup = \<lparr>g_devices = replicate CONFIG_BLUEPAD32_MAX_DEVICES device_init, timers = {}, events = []\<rparr>"

definition uni_hid_device_init :: "nat \<Rightarrow> hid_state \<Rightarrow> hid_state" where
  "uni_hid_device_init i = upd_dev i (\<lambda>d. device_init)"

subsection \<open>Searching the table\<close>

text \<open>The index of the first device with a property: the loop all search functions share.\<close>

definition find_dev :: "(uni_hid_device \<Rightarrow> bool) \<Rightarrow> hid_state \<Rightarrow> nat option" where
  "find_dev P s = find (\<lambda>i. P (dev s i)) [0..<length (g_devices s)]"

definition is_free :: "uni_hid_device \<Rightarrow> bool" where
  "is_free d \<longleftrightarrow> btaddr (conn d) = zero_addr"

definition uni_hid_device_is_virtual_device :: "uni_hid_device \<Rightarrow> bool" where
  "uni_hid_device_is_virtual_device d \<longleftrightarrow> parent d \<noteq> None"

definition uni_hid_device_get_instance_for_address :: "bd_addr \<Rightarrow> hid_state \<Rightarrow> nat option" where
  "uni_hid_device_get_instance_for_address addr =
     find_dev (\<lambda>d. \<not> uni_hid_device_is_virtual_device d \<and> addr = btaddr (conn d))"

definition uni_hid_device_get_instance_for_cid :: "u16 \<Rightarrow> hid_state \<Rightarrow> nat option" where
  "uni_hid_device_get_instance_for_cid cid s =
     (if cid = 0 then None else find_dev (\<lambda>d. interrupt_cid (conn d) = cid \<or> control_cid (conn d) = cid) s)"

definition uni_hid_device_get_instance_for_hids_cid :: "u16 \<Rightarrow> hid_state \<Rightarrow> nat option" where
  "uni_hid_device_get_instance_for_hids_cid cid s =
     (if cid = 0 then None else find_dev (\<lambda>d. hids_cid d = cid) s)"

definition uni_hid_device_get_instance_for_connection_handle :: "u16 \<Rightarrow> hid_state \<Rightarrow> nat option" where
  "uni_hid_device_get_instance_for_connection_handle h s =
     (if h = UNI_BT_CONN_HANDLE_INVALID then None else find_dev (\<lambda>d. conn_handle (conn d) = h) s)"

definition uni_hid_device_get_instance_with_predicate :: "(uni_hid_device \<Rightarrow> bool) \<Rightarrow> hid_state \<Rightarrow> nat option" where
  "uni_hid_device_get_instance_with_predicate P =
     find_dev (\<lambda>d. conn_state (conn d) = STATE_DEVICE_READY \<and> P d)"

definition uni_hid_device_get_instance_for_idx :: "int \<Rightarrow> hid_state \<Rightarrow> nat option" where
  "uni_hid_device_get_instance_for_idx idx s =
     (if idx < 0 \<or> idx \<ge> int CONFIG_BLUEPAD32_MAX_DEVICES then None else Some (nat idx))"

definition uni_hid_device_get_first_device_with_state :: "uni_bt_conn_state \<Rightarrow> hid_state \<Rightarrow> nat option" where
  "uni_hid_device_get_first_device_with_state st =
     find_dev (\<lambda>d. btaddr (conn d) \<noteq> zero_addr \<and> conn_state (conn d) = st)"

subsection \<open>Creating devices\<close>

definition uni_hid_device_create :: "bd_addr \<Rightarrow> hid_state \<Rightarrow> nat option \<times> hid_state" where
  "uni_hid_device_create addr s = (case find_dev is_free s of
      None \<Rightarrow> (None, s)
    | Some i \<Rightarrow> (Some i, add_timer Connection_timer i
        (upd_dev i (\<lambda>_. device_zero\<lparr>conn := conn_zero\<lparr>btaddr := addr\<rparr>\<rparr>) s)))"

definition digit :: "nat \<Rightarrow> char" where "digit n = char_of (48 + n)"

definition uni_hid_device_create_virtual :: "bool \<Rightarrow> nat \<Rightarrow> hid_state \<Rightarrow> nat option \<times> hid_state" where
  "uni_hid_device_create_virtual virtual_enabled p s =
     (if \<not> virtual_enabled then (None, s)
      else (case find_dev is_free s of
          None \<Rightarrow> (None, s)
        | Some i \<Rightarrow>
            let pd = dev s p;
                s1 = upd_dev i (\<lambda>d. d\<lparr>conn := (conn d)\<lparr>btaddr := btaddr (conn pd)\<rparr>, parent := Some p\<rparr>) s;
                s2 = upd_dev p (\<lambda>d. d\<lparr>child := Some i\<rparr>) s1
            in (Some i, upd_dev i (\<lambda>d. d\<lparr>product_id := product_id pd, vendor_id := vendor_id pd, cod := cod pd,
                  controller_type := controller_type pd, controller_subtype := controller_subtype pd,
                  dev_flags := dev_flags d OR FLAGS_HAS_CONTROLLER_TYPE,
                  dev_name := ''virtual-'' @ [digit i]\<rparr>) s2)))"

subsection \<open>Life cycle\<close>

definition on_connected :: "nat \<Rightarrow> bool \<Rightarrow> hid_state \<Rightarrow> hid_state" where
  "on_connected i c = emit (if c then On_device_connected i else On_device_disconnected i)"

definition uni_hid_device_connect :: "nat \<Rightarrow> hid_state \<Rightarrow> hid_state" where
  "uni_hid_device_connect i s =
     on_connected i True (upd_dev i (\<lambda>d. d\<lparr>conn := uni_bt_conn_set_connected True (conn d)\<rparr>) s)"

definition uni_bt_bredr_disconnect :: "(nat \<Rightarrow> gap_connection_type) \<Rightarrow> nat \<Rightarrow> hid_state \<Rightarrow> hid_state" where
  "uni_bt_bredr_disconnect gap i s =
     (if gap i \<noteq> GAP_CONNECTION_INVALID
      then emit (Gap_disconnect i)
             (upd_dev i (\<lambda>d. d\<lparr>conn := (conn d)\<lparr>conn_handle := UNI_BT_CONN_HANDLE_INVALID\<rparr>\<rparr>) s)
      else
        let s1 = (if control_cid (conn (dev s i)) \<noteq> 0
              then upd_dev i (\<lambda>d. d\<lparr>conn := (conn d)\<lparr>control_cid := 0\<rparr>\<rparr>)
                     (emit (L2cap_disconnect (control_cid (conn (dev s i)))) s)
              else s)
        in if interrupt_cid (conn (dev s1 i)) \<noteq> 0
           then upd_dev i (\<lambda>d. d\<lparr>conn := (conn d)\<lparr>interrupt_cid := 0\<rparr>\<rparr>)
                  (emit (L2cap_disconnect (interrupt_cid (conn (dev s1 i)))) s1)
           else s1)"

definition close_connection :: "(nat \<Rightarrow> gap_connection_type) \<Rightarrow> nat \<Rightarrow> hid_state \<Rightarrow> hid_state" where
  "close_connection gap i s =
     (if uni_hid_device_is_virtual_device (dev s i) then s
      else (case gap i of
          GAP_CONNECTION_LE \<Rightarrow> emit (Le_disconnect i) s
        | GAP_CONNECTION_ACL \<Rightarrow> uni_bt_bredr_disconnect gap i s
        | _ \<Rightarrow> s))"

text \<open>
  \<open>disconnect_one\<close> and \<open>delete_one\<close> are the bodies after the recursion into the child. The recursion
  follows the child pointers; fuel bounds it, and \<open>None\<close> means that it ran out.
\<close>

definition disconnect_one :: "(nat \<Rightarrow> gap_connection_type) \<Rightarrow> nat \<Rightarrow> hid_state \<Rightarrow> hid_state" where
  "disconnect_one gap i s =
     (let was = connected (conn (dev s i));
          s1 = close_connection gap i s;
          s2 = upd_dev i (\<lambda>d. d\<lparr>conn := uni_bt_conn_disconnect (conn d)\<rparr>) s1;
          s3 = remove_timer Inquiry_remote_name_timer i (remove_timer Connection_timer i s2)
      in if was then on_connected i False s3 else s3)"

fun uni_hid_device_disconnect ::
    "nat \<Rightarrow> (nat \<Rightarrow> gap_connection_type) \<Rightarrow> nat \<Rightarrow> hid_state \<Rightarrow> hid_state option" where
  "uni_hid_device_disconnect 0 gap i s = None"
| "uni_hid_device_disconnect (Suc n) gap i s =
     (case child (dev s i) of
        None \<Rightarrow> Some (disconnect_one gap i s)
      | Some c \<Rightarrow> map_option (disconnect_one gap i) (uni_hid_device_disconnect n gap c s))"

definition delete_one :: "nat \<Rightarrow> hid_state \<Rightarrow> hid_state" where
  "delete_one i s = uni_hid_device_init i (remove_timer Connection_timer i s)"

fun uni_hid_device_delete :: "nat \<Rightarrow> nat \<Rightarrow> hid_state \<Rightarrow> hid_state option" where
  "uni_hid_device_delete 0 i s = None"
| "uni_hid_device_delete (Suc n) i s =
     (case child (dev s i) of
        None \<Rightarrow> Some (delete_one i s)
      | Some c \<Rightarrow> map_option (delete_one i) (uni_hid_device_delete n c s))"

definition disconnect_and_delete ::
    "nat \<Rightarrow> (nat \<Rightarrow> gap_connection_type) \<Rightarrow> nat \<Rightarrow> hid_state \<Rightarrow> hid_state option" where
  "disconnect_and_delete n gap i s =
     (case uni_hid_device_disconnect n gap i s of None \<Rightarrow> None | Some s' \<Rightarrow> uni_hid_device_delete n i s')"

definition set_state :: "nat \<Rightarrow> uni_bt_conn_state \<Rightarrow> hid_state \<Rightarrow> hid_state" where
  "set_state i st = upd_dev i (\<lambda>d. d\<lparr>conn := uni_bt_conn_set_state st (conn d)\<rparr>)"

definition uni_hid_device_set_ready_complete ::
    "nat \<Rightarrow> (nat \<Rightarrow> gap_connection_type) \<Rightarrow> bool \<Rightarrow> nat \<Rightarrow> hid_state \<Rightarrow> (bool \<times> hid_state) option" where
  "uni_hid_device_set_ready_complete n gap accepted i s =
     (if conn_state (conn (dev s i)) = STATE_DEVICE_READY then Some (False, s)
      else
        let s1 = emit (On_device_ready i) (remove_timer Connection_timer i s)
        in if \<not> accepted then map_option (Pair False) (disconnect_and_delete n gap i s1)
           else Some (True, set_state i STATE_DEVICE_READY s1))"

definition has_setup :: "parser_kind \<Rightarrow> bool" where
  "has_setup p \<longleftrightarrow> p \<in> {P_icade, P_xboxone, P_stadia, P_psmove, P_ds3, P_ds4, P_ds5, P_wii, P_switch, P_steam,
     P_atari, P_mouse, P_keyboard}"

text \<open>
  A parser with a \<open>setup\<close> function calls \<open>uni_hid_device_set_ready_complete\<close> itself: at the end of the
  set-up, or, for the DualSense, Wii, Switch and Steam controllers, once the controller has
  answered. What else a set-up does concerns the parser's own data; virtual devices, which the
  DualShock 4 set-up tries to create, are disabled in the configuration.
\<close>

definition setup_waits :: "parser_kind \<Rightarrow> bool" where
  "setup_waits p \<longleftrightarrow> p \<in> {P_ds5, P_wii, P_switch, P_steam}"

definition uni_hid_device_set_ready ::
    "nat \<Rightarrow> (nat \<Rightarrow> gap_connection_type) \<Rightarrow> bool \<Rightarrow> nat \<Rightarrow> hid_state \<Rightarrow> hid_state option" where
  "uni_hid_device_set_ready n gap accepted i s =
     (if conn_state (conn (dev s i)) = STATE_DEVICE_PENDING_READY then Some s
      else
        let s1 = set_state i STATE_DEVICE_PENDING_READY s
        in if has_setup (dev_parser (dev s i)) \<and> setup_waits (dev_parser (dev s i)) then Some s1
           else map_option snd (uni_hid_device_set_ready_complete n gap accepted i s1))"

definition device_connection_timeout ::
    "nat \<Rightarrow> (nat \<Rightarrow> gap_connection_type) \<Rightarrow> nat \<Rightarrow> hid_state \<Rightarrow> hid_state option" where
  "device_connection_timeout n gap i s =
     (if conn_state (conn (dev s i)) = STATE_DEVICE_READY then Some s
      else disconnect_and_delete n gap i s)"

definition uni_hid_device_request_inquire :: "hid_state \<Rightarrow> hid_state" where
  "uni_hid_device_request_inquire s = s\<lparr>g_devices := map (\<lambda>d.
     if conn_state (conn d) = STATE_REMOTE_NAME_INQUIRED
     then d\<lparr>conn := uni_bt_conn_set_state STATE_REMOTE_NAME_REQUEST (conn d)\<rparr> else d) (g_devices s)\<rparr>"

subsection \<open>Attributes\<close>

definition set_flag :: "u32w \<Rightarrow> uni_hid_device \<Rightarrow> uni_hid_device" where
  "set_flag f d = d\<lparr>dev_flags := dev_flags d OR f\<rparr>"

definition uni_hid_device_set_cod :: "u32w \<Rightarrow> uni_hid_device \<Rightarrow> uni_hid_device" where
  "uni_hid_device_set_cod c d =
     (let d' = d\<lparr>cod := c\<rparr>
      in if c = 0 then d'\<lparr>dev_flags := dev_flags d AND NOT FLAGS_HAS_COD\<rparr> else set_flag FLAGS_HAS_COD d')"

definition uni_hid_device_set_incoming :: "bool \<Rightarrow> uni_hid_device \<Rightarrow> uni_hid_device" where
  "uni_hid_device_set_incoming b d = d\<lparr>conn := (conn d)\<lparr>incoming := b\<rparr>\<rparr>"

definition HID_MAX_NAME_LEN :: nat where "HID_MAX_NAME_LEN = 240"

definition uni_hid_device_set_name :: "string \<Rightarrow> uni_hid_device \<Rightarrow> uni_hid_device" where
  "uni_hid_device_set_name nm d = set_flag FLAGS_HAS_NAME (d\<lparr>dev_name := take (HID_MAX_NAME_LEN - 1) nm\<rparr>)"

definition uni_hid_device_has_name :: "uni_hid_device \<Rightarrow> bool" where
  "uni_hid_device_has_name d \<longleftrightarrow> dev_flags d AND FLAGS_HAS_NAME \<noteq> 0"

text \<open>The copy is not bounded by the size of the array: \<open>None\<close> is a write past its end.\<close>

definition uni_hid_device_set_hid_descriptor :: "u8 list \<Rightarrow> uni_hid_device \<Rightarrow> uni_hid_device option" where
  "uni_hid_device_set_hid_descriptor descr d =
     (if length descr > HID_MAX_DESCRIPTOR_LEN then None
      else Some (set_flag FLAGS_HAS_HID_DESCRIPTOR
        (d\<lparr>hid_descriptor := descr @ drop (length descr) (hid_descriptor d),
           hid_descriptor_len := min HID_MAX_DESCRIPTOR_LEN (length descr)\<rparr>)))"

definition uni_hid_device_has_hid_descriptor :: "uni_hid_device \<Rightarrow> bool" where
  "uni_hid_device_has_hid_descriptor d \<longleftrightarrow> dev_flags d AND FLAGS_HAS_HID_DESCRIPTOR \<noteq> 0"

definition uni_hid_device_set_product_id :: "u16 \<Rightarrow> uni_hid_device \<Rightarrow> uni_hid_device" where
  "uni_hid_device_set_product_id p d = set_flag FLAGS_HAS_PRODUCT_ID (d\<lparr>product_id := p\<rparr>)"

definition uni_hid_device_set_vendor_id :: "u16 \<Rightarrow> uni_hid_device \<Rightarrow> uni_hid_device" where
  "uni_hid_device_set_vendor_id v d =
     (if v = 0 then d else set_flag FLAGS_HAS_VENDOR_ID (d\<lparr>vendor_id := v\<rparr>))"

definition uni_hid_device_has_controller_type :: "uni_hid_device \<Rightarrow> bool" where
  "uni_hid_device_has_controller_type d \<longleftrightarrow> dev_flags d AND FLAGS_HAS_CONTROLLER_TYPE \<noteq> 0"

definition uni_hid_device_set_connection_handle :: "u16 \<Rightarrow> uni_hid_device \<Rightarrow> uni_hid_device" where
  "uni_hid_device_set_connection_handle h d = d\<lparr>conn := (conn d)\<lparr>conn_handle := h\<rparr>\<rparr>"

abbreviation (input) "UNI_BT_COD_MAJOR_MASK \<equiv> (0x1f00 :: u32w)"
abbreviation (input) "UNI_BT_COD_MAJOR_PERIPHERAL \<equiv> (0x0500 :: u32w)"
abbreviation (input) "UNI_BT_COD_MAJOR_AUDIO_VIDEO \<equiv> (0x0400 :: u32w)"
abbreviation (input) "UNI_BT_COD_MINOR_MASK \<equiv> (0xfc :: u32w)"
abbreviation (input) "UNI_BT_COD_MINOR_MICE \<equiv> (0x80 :: u32w)"
abbreviation (input) "UNI_BT_COD_MINOR_KEYBOARD \<equiv> (0x40 :: u32w)"
abbreviation (input) "UNI_BT_COD_MINOR_GAMEPAD \<equiv> (0x08 :: u32w)"
abbreviation (input) "UNI_BT_COD_MINOR_JOYSTICK \<equiv> (0x04 :: u32w)"

definition uni_hid_device_is_cod_supported :: "u32w \<Rightarrow> bool" where
  "uni_hid_device_is_cod_supported c =
     (let minor = c AND UNI_BT_COD_MINOR_MASK
      in if c AND UNI_BT_COD_MAJOR_MASK = UNI_BT_COD_MAJOR_PERIPHERAL
         then minor AND (UNI_BT_COD_MINOR_MICE OR UNI_BT_COD_MINOR_KEYBOARD OR UNI_BT_COD_MINOR_GAMEPAD OR
                UNI_BT_COD_MINOR_JOYSTICK) \<noteq> 0
         else if c AND UNI_BT_COD_MAJOR_MASK = UNI_BT_COD_MAJOR_AUDIO_VIDEO then c = 0x400408
         else False)"

definition uni_hid_device_is_mouse :: "uni_hid_device \<Rightarrow> bool" where
  "uni_hid_device_is_mouse d \<longleftrightarrow>
     cod d AND (UNI_BT_COD_MAJOR_PERIPHERAL OR UNI_BT_COD_MINOR_MICE) = UNI_BT_COD_MAJOR_PERIPHERAL OR UNI_BT_COD_MINOR_MICE"

definition uni_hid_device_is_keyboard :: "uni_hid_device \<Rightarrow> bool" where
  "uni_hid_device_is_keyboard d \<longleftrightarrow>
     cod d AND (UNI_BT_COD_MAJOR_PERIPHERAL OR UNI_BT_COD_MINOR_KEYBOARD) =
       UNI_BT_COD_MAJOR_PERIPHERAL OR UNI_BT_COD_MINOR_KEYBOARD"

definition uni_hid_device_is_gamepad :: "uni_hid_device \<Rightarrow> bool" where
  "uni_hid_device_is_gamepad d \<longleftrightarrow> cod d AND UNI_BT_COD_MAJOR_PERIPHERAL \<noteq> 0 \<and>
     cod d AND (UNI_BT_COD_MINOR_GAMEPAD OR UNI_BT_COD_MINOR_JOYSTICK) \<noteq> 0"

text \<open>
  A discovered device: \<open>allowed\<close> is the answer of the allow list, the last argument the platform's
  callback, if it has one. The class of device arrives in 16 bits.
\<close>

definition uni_hid_device_on_device_discovered ::
    "bool \<Rightarrow> bd_addr \<Rightarrow> string \<Rightarrow> u16 \<Rightarrow> u8 \<Rightarrow> (bd_addr \<Rightarrow> string \<Rightarrow> u16 \<Rightarrow> u8 \<Rightarrow> uni_error) option \<Rightarrow> uni_error" where
  "uni_hid_device_on_device_discovered allowed addr nm c rssi platform =
     (if \<not> allowed then UNI_ERROR_IGNORE_DEVICE
      else if rssi < 255 - 100 then UNI_ERROR_IGNORE_DEVICE
      else if \<not> uni_hid_device_is_cod_supported (ucast c) then UNI_ERROR_IGNORE_DEVICE
      else (case platform of Some f \<Rightarrow> f addr nm c rssi | None \<Rightarrow> UNI_ERROR_SUCCESS))"

subsection \<open>The parser of a device\<close>

definition uni_hid_parser_xboxone_does_name_match :: "string \<Rightarrow> uni_hid_device \<Rightarrow> (bool \<times> uni_hid_device) option" where
  "uni_hid_parser_xboxone_does_name_match nm d =
     (if take 25 nm \<noteq> ''Xbox Wireless Controller'' then Some (False, d)
      else map_option (Pair True) (uni_hid_device_set_hid_descriptor xbox_hid_descriptor_4_8_fw
             (uni_hid_device_set_product_id 0x02e0 (uni_hid_device_set_vendor_id 0x045e d))))"

text \<open>The type when the table does not know the ids: by the class of device, or by the name.\<close>

definition guess_by_class :: "uni_hid_device \<Rightarrow> (int \<times> uni_hid_device) option" where
  "guess_by_class d =
     (if uni_hid_device_is_mouse d then Some (CONTROLLER_TYPE_GenericMouse, d)
      else if uni_hid_device_is_keyboard d then Some (CONTROLLER_TYPE_GenericKeyboard, d)
      else map_option (\<lambda>(match, d'). (if match then CONTROLLER_TYPE_XBoxOneController else CONTROLLER_TYPE_AndroidController, d'))
             (uni_hid_parser_xboxone_does_name_match (dev_name d) d))"

definition parser_for_type :: "int \<Rightarrow> uni_hid_device \<Rightarrow> parser_kind" where
  "parser_for_type t d = switch t
     [(CONTROLLER_TYPE_iCadeController, P_icade),
      (CONTROLLER_TYPE_OUYAController, P_ouya),
      (CONTROLLER_TYPE_XBoxOneController, P_xboxone),
      (CONTROLLER_TYPE_AndroidController,
         if vendor_id d = 0x18d1 \<and> product_id d = 0x9400 then P_stadia else P_android),
      (CONTROLLER_TYPE_NimbusController, P_nimbus),
      (CONTROLLER_TYPE_SmartTVRemoteController, P_smarttvremote),
      (CONTROLLER_TYPE_PSMoveController, P_psmove),
      (CONTROLLER_TYPE_PS3Controller, P_ds3),
      (CONTROLLER_TYPE_PS4Controller, P_ds4),
      (CONTROLLER_TYPE_PS5Controller, P_ds5),
      (CONTROLLER_TYPE_8BitdoController, P_8bitdo),
      (CONTROLLER_TYPE_GenericController, P_generic),
      (CONTROLLER_TYPE_WiiController, P_wii),
      (CONTROLLER_TYPE_SwitchProController, P_switch),
      (CONTROLLER_TYPE_SwitchJoyConRight, P_switch),
      (CONTROLLER_TYPE_SwitchJoyConLeft, P_switch),
      (CONTROLLER_TYPE_SteamController, P_steam),
      (CONTROLLER_TYPE_AtariJoystick, P_atari),
      (CONTROLLER_TYPE_GenericMouse, P_mouse),
      (CONTROLLER_TYPE_GenericKeyboard, P_keyboard)] P_generic"

definition uni_hid_device_guess_controller_type_from_pid_vid :: "uni_hid_device \<Rightarrow> uni_hid_device option" where
  "uni_hid_device_guess_controller_type_from_pid_vid d =
     (if uni_hid_device_has_controller_type d then Some d
      else
        let t0 = uni_guess_controller_type (vendor_id d) (product_id d)
        in map_option (\<lambda>(t, d').
             set_flag FLAGS_HAS_CONTROLLER_TYPE (d'\<lparr>controller_subtype := 0, dev_parser := parser_for_type t d',
               controller_type := t\<rparr>))
           (if t0 = CONTROLLER_TYPE_Unknown \<or> t0 = CONTROLLER_TYPE_UnknownNonSteamController \<or>
               t0 = CONTROLLER_TYPE_UnknownSteamController
            then guess_by_class d else Some (t0, d)))"

definition uni_hid_device_does_require_hid_descriptor :: "uni_hid_device \<Rightarrow> bool" where
  "uni_hid_device_does_require_hid_descriptor d \<longleftrightarrow>
     dev_parser d \<in> {P_icade, P_ouya, P_xboxone, P_android, P_stadia, P_nimbus, P_smarttvremote, P_8bitdo, P_generic,
       P_mouse, P_keyboard}"

text \<open>The controllers that are known by their name.\<close>

definition uni_hid_parser_ds3_does_name_match :: "string \<Rightarrow> uni_hid_device \<Rightarrow> bool \<times> uni_hid_device" where
  "uni_hid_parser_ds3_does_name_match nm d =
     (let found = uni_hid_device_set_product_id 0x0268 \<circ> uni_hid_device_set_vendor_id 0x054c
      in if nm = ''Navigation Controller'' then (True, found d)
         else if take 15 nm = ''PLAYSTATION(R)3''
         then (True, found (if nm \<noteq> ''PLAYSTATION(R)3 Controller'' then d\<lparr>ds3_clone_controller := True\<rparr> else d))
         else (False, d))"

definition switch_names :: "(string \<times> u16 \<times> u16) list" where
  "switch_names =
     [(''Pro Controller'', 0x057e, 0x2009), (''Joy-Con (L)'', 0x057e, 0x2006),
      (''Joy-Con (R)'', 0x057e, 0x2007), (''SNES Controller'', 0x057e, 0x2017)]"

definition uni_hid_parser_switch_does_name_match :: "string \<Rightarrow> uni_hid_device \<Rightarrow> bool \<times> uni_hid_device" where
  "uni_hid_parser_switch_does_name_match nm d =
     (case map_of switch_names nm of
        None \<Rightarrow> (False, d)
      | Some (vid, pid) \<Rightarrow> (True, uni_hid_device_set_product_id pid (uni_hid_device_set_vendor_id vid d)))"

definition uni_hid_device_guess_controller_type_from_name ::
    "string \<Rightarrow> uni_hid_device \<Rightarrow> (bool \<times> uni_hid_device) option" where
  "uni_hid_device_guess_controller_type_from_name nm d =
     (case uni_hid_parser_ds3_does_name_match nm d of (m1, d1) \<Rightarrow>
      case (if m1 then (True, d1) else uni_hid_parser_switch_does_name_match nm d1) of (m, d2) \<Rightarrow>
        if m then map_option (Pair True) (uni_hid_device_guess_controller_type_from_pid_vid d2) else Some (False, d2))"

subsection \<open>Reports to the platform\<close>

text \<open>
  The misc buttons are read from the gamepad member whatever the class. Their byte, at offset 30, lies
  behind all other members of the union and is zero for them.
\<close>

definition misc_of :: "uni_controller \<Rightarrow> u8" where
  "misc_of c = (case ctl_data c of
      Class_none gp \<Rightarrow> misc_buttons gp | Class_gamepad gp \<Rightarrow> misc_buttons gp | _ \<Rightarrow> 0)"

definition requires_delay :: "int \<Rightarrow> bool" where
  "requires_delay t \<longleftrightarrow> t = CONTROLLER_TYPE_SwitchProController \<or> t = CONTROLLER_TYPE_SwitchJoyConLeft \<or>
     t = CONTROLLER_TYPE_SwitchJoyConRight"

definition process_misc_button_system :: "u8 \<Rightarrow> nat \<Rightarrow> hid_state \<Rightarrow> hid_state" where
  "process_misc_button_system misc i s =
     (let d = dev s i
      in if misc AND MISC_BUTTON_SYSTEM = 0
         then upd_dev i (\<lambda>d. d\<lparr>misc_button_wait_release := misc_button_wait_release d AND NOT 1\<rparr>) s
         else if misc_button_wait_release d AND 1 \<noteq> 0 then s
         else if requires_delay (controller_type d) \<and> misc_button_wait_delay d AND 1 \<noteq> 0 then s
         else
           let s1 = emit (On_oob_system_button i)
                 (upd_dev i (\<lambda>d. d\<lparr>misc_button_wait_release := misc_button_wait_release d OR 1\<rparr>) s)
           in if requires_delay (controller_type d)
              then add_timer Misc_button_delay_timer i
                     (upd_dev i (\<lambda>d. d\<lparr>misc_button_wait_delay := misc_button_wait_delay d OR 1\<rparr>) s1)
              else s1)"

definition misc_button_enable_callback :: "nat \<Rightarrow> hid_state \<Rightarrow> hid_state" where
  "misc_button_enable_callback i = upd_dev i (\<lambda>d. d\<lparr>misc_button_wait_delay := misc_button_wait_delay d AND NOT 1\<rparr>)"

definition process_misc_button_home :: "u8 \<Rightarrow> nat \<Rightarrow> hid_state \<Rightarrow> hid_state" where
  "process_misc_button_home misc i s =
     (if misc AND MISC_BUTTON_START = 0
      then upd_dev i (\<lambda>d. d\<lparr>misc_button_wait_release := misc_button_wait_release d AND NOT 4\<rparr>) s
      else if misc_button_wait_release (dev s i) AND 4 \<noteq> 0 then s
      else emit Dump_all (upd_dev i (\<lambda>d. d\<lparr>misc_button_wait_release := misc_button_wait_release d OR 4\<rparr>) s))"

definition remap_controller :: "gamepad_statics \<Rightarrow> uni_controller \<Rightarrow> uni_controller option" where
  "remap_controller st c = (case ctl_data c of
      Class_gamepad gp \<Rightarrow> map_option (\<lambda>gp'. c\<lparr>ctl_data := Class_gamepad gp'\<rparr>) (uni_gamepad_remap st gp)
    | _ \<Rightarrow> Some c)"

definition uni_hid_device_process_controller :: "gamepad_statics \<Rightarrow> nat \<Rightarrow> hid_state \<Rightarrow> hid_state option" where
  "uni_hid_device_process_controller st i s =
     (if conn_state (conn (dev s i)) \<noteq> STATE_DEVICE_READY then Some s
      else do {
        c \<leftarrow> remap_controller st (controller (dev s i));
        let s1 = emit (On_controller_data i c) (upd_dev i (\<lambda>d. d\<lparr>controller := c\<rparr>) s);
        Some (process_misc_button_home (misc_of c) i (process_misc_button_system (misc_of c) i s1))
      })"

end
