(* ===== verification/HidTable.thy ===== *)
theory HidTable
  imports HidDevice
begin

text \<open>
  What the device table promises over every sequence of calls: free slots are clean, links lead to
  slots, a connection timer only runs for a slot in use, and the recursion into the child ends,
  whatever is released; the links between a device and its virtual child stay consistent as long
  as devices are released by their physical device. Further: a created device is found by its
  address; and the system button of a gamepad raises one event per press.
\<close>

subsection \<open>Updates and searches\<close>

lemma length_upd_dev [simp]: "length (g_devices (upd_dev i f s)) = length (g_devices s)"
  by (simp add: upd_dev_def)

lemma dev_upd_dev: "i < length (g_devices s) \<Longrightarrow> dev (upd_dev i f s) j = (if j = i then f (dev s i) else dev s j)"
  by (auto simp: upd_dev_def)

lemma timers_upd_dev [simp]: "timers (upd_dev i f s) = timers s"
  by (simp add: upd_dev_def)

lemma emit_simps [simp]:
  "g_devices (emit e s) = g_devices s" "timers (emit e s) = timers s" "events (emit e s) = events s @ [e]"
  by (simp_all add: emit_def)

lemma timer_simps [simp]:
  "g_devices (remove_timer t i s) = g_devices s" "timers (remove_timer t i s) = timers s - {(t, i)}"
  "g_devices (add_timer t i s) = g_devices s" "timers (add_timer t i s) = insert (t, i) (timers s)"
  by (simp_all add: remove_timer_def add_timer_def)

lemma find_dev_Some:
  "find_dev P s = Some i \<Longrightarrow> i < length (g_devices s) \<and> P (dev s i) \<and> (\<forall>j < i. \<not> P (dev s j))"
  by (fastforce simp: find_dev_def find_Some_iff)

lemma find_dev_None: "find_dev P s = None \<longleftrightarrow> (\<forall>i < length (g_devices s). \<not> P (dev s i))"
  by (auto simp: find_dev_def find_None_iff)

subsection \<open>The invariant\<close>

text \<open>
  Over which slots are free (\<open>F\<close>) and the parent and child of a slot: free slots have no links, and a
  link leads to a slot that links back; a child has no child of its own.
\<close>

definition links_ok :: "(nat \<Rightarrow> bool) \<Rightarrow> (nat \<Rightarrow> nat option) \<Rightarrow> (nat \<Rightarrow> nat option) \<Rightarrow> bool" where
  "links_ok F P C \<longleftrightarrow>
     (\<forall>i < 4. F i \<longrightarrow> P i = None \<and> C i = None) \<and>
     (\<forall>i < 4. \<forall>c. C i = Some c \<longrightarrow> c < 4 \<and> c \<noteq> i \<and> P c = Some i \<and> C c = None) \<and>
     (\<forall>i < 4. \<forall>p. P i = Some p \<longrightarrow> p < 4 \<and> p \<noteq> i \<and> C p = Some i)"

lemma links_okD:
  assumes "links_ok F P C" "i < 4"
  shows "F i \<Longrightarrow> P i = None \<and> C i = None"
    "C i = Some c \<Longrightarrow> c < 4 \<and> c \<noteq> i \<and> P c = Some i \<and> C c = None"
    "P i = Some p \<Longrightarrow> p < 4 \<and> p \<noteq> i \<and> C p = Some i"
  using assms unfolding links_ok_def by blast+

lemma links_okI:
  assumes "\<And>i. i < 4 \<Longrightarrow> F i \<Longrightarrow> P i = None \<and> C i = None"
    "\<And>i c. i < 4 \<Longrightarrow> C i = Some c \<Longrightarrow> c < 4 \<and> c \<noteq> i \<and> P c = Some i \<and> C c = None"
    "\<And>i p. i < 4 \<Longrightarrow> P i = Some p \<Longrightarrow> p < 4 \<and> p \<noteq> i \<and> C p = Some i"
  shows "links_ok F P C"
  using assms unfolding links_ok_def by blast

lemma links_replace:
  assumes l: "links_ok F P C" and i: "i < 4" "P i = None" "C i = None"
  shows "links_ok (F(i := f)) P C"
proof (rule links_okI)
  fix j assume "j < 4" "(F(i := f)) j"
  then show "P j = None \<and> C j = None" using links_okD(1) [OF l, of j] i by (cases "j = i") auto
qed (use links_okD(2,3) [OF l] in blast)+

lemma links_delete2:
  assumes l: "links_ok F P C" and i: "i < 4" "P i = None" "C i = Some c"
  shows "links_ok (F(c := True, i := True)) (P(c := None, i := None)) (C(c := None, i := None))"
proof (rule links_okI)
  fix j assume j: "j < 4" "(F(c := True, i := True)) j"
  then show "(P(c := None, i := None)) j = None \<and> (C(c := None, i := None)) j = None"
    using links_okD(1) [OF l j(1)] by auto
next
  fix j k assume j: "j < 4" "(C(c := None, i := None)) j = Some k"
  then show "k < 4 \<and> k \<noteq> j \<and> (P(c := None, i := None)) k = Some j \<and> (C(c := None, i := None)) k = None"
    using links_okD(2) [OF l j(1), of k] links_okD(2) [OF l i(1) i(3)] i by (auto split: if_splits)
next
  fix j k assume j: "j < 4" "(P(c := None, i := None)) j = Some k"
  then show "k < 4 \<and> k \<noteq> j \<and> (C(c := None, i := None)) k = Some j"
    using links_okD(3) [OF l j(1), of k] links_okD(2) [OF l i(1) i(3)] i by (auto split: if_splits)
qed

lemma links_virtual:
  assumes l: "links_ok F P C" and i: "i < 4" "F i" and p: "p < 4" "\<not> F p" "P p = None" "C p = None"
  shows "links_ok (F(i := False)) (P(i := Some p)) (C(p := Some i))"
proof -
  have f: "P i = None" "C i = None" "i \<noteq> p" using links_okD(1) [OF l i] i p by auto
  show ?thesis
  proof (rule links_okI)
    fix j assume j: "j < 4" "(F(i := False)) j"
    then show "(P(i := Some p)) j = None \<and> (C(p := Some i)) j = None"
      using links_okD(1) [OF l j(1)] p by (auto split: if_splits)
  next
    fix j k assume j: "j < 4" "(C(p := Some i)) j = Some k"
    then show "k < 4 \<and> k \<noteq> j \<and> (P(i := Some p)) k = Some j \<and> (C(p := Some i)) k = None"
      using links_okD(2) [OF l j(1), of k] f i p by (auto split: if_splits)
  next
    fix j k assume j: "j < 4" "(P(i := Some p)) j = Some k"
    then show "k < 4 \<and> k \<noteq> j \<and> (C(p := Some i)) k = Some j"
      using links_okD(3) [OF l j(1), of k] f i p by (auto split: if_splits)
  qed
qed

definition table_wf :: "hid_state \<Rightarrow> bool" where
  "table_wf s \<longleftrightarrow> length (g_devices s) = 4 \<and>
     links_ok (\<lambda>i. is_free (dev s i)) (\<lambda>i. parent (dev s i)) (\<lambda>i. child (dev s i)) \<and>
     (\<forall>i. (Connection_timer, i) \<in> timers s \<longrightarrow> i < 4 \<and> \<not> is_free (dev s i))"

text \<open>Operations that keep the links and start no connection timer keep the invariant.\<close>

definition keeps_links :: "(uni_hid_device \<Rightarrow> uni_hid_device) \<Rightarrow> bool" where
  "keeps_links f \<longleftrightarrow> (\<forall>d. btaddr (conn (f d)) = btaddr (conn d) \<and> parent (f d) = parent d \<and> child (f d) = child d)"

definition same_links :: "hid_state \<Rightarrow> hid_state \<Rightarrow> bool" where
  "same_links s s' \<longleftrightarrow> length (g_devices s') = length (g_devices s) \<and>
     (\<forall>i. is_free (dev s' i) = is_free (dev s i) \<and> parent (dev s' i) = parent (dev s i) \<and>
          child (dev s' i) = child (dev s i)) \<and>
     (\<forall>i. (Connection_timer, i) \<in> timers s' \<longrightarrow> (Connection_timer, i) \<in> timers s)"

lemma same_links_refl [simp]: "same_links s s"
  by (simp add: same_links_def)

lemma same_links_trans: "same_links a b \<Longrightarrow> same_links b c \<Longrightarrow> same_links a c"
  by (simp add: same_links_def)

lemma same_links_wf:
  assumes "same_links s s'" "table_wf s"
  shows "table_wf s'"
proof -
  have "(\<lambda>i. is_free (dev s' i)) = (\<lambda>i. is_free (dev s i))" "(\<lambda>i. parent (dev s' i)) = (\<lambda>i. parent (dev s i))"
      "(\<lambda>i. child (dev s' i)) = (\<lambda>i. child (dev s i))"
    using assms(1) by (auto simp: same_links_def)
  then show ?thesis using assms unfolding table_wf_def same_links_def by simp
qed

lemma upd_dev_beyond: "\<not> i < length (g_devices s) \<Longrightarrow> upd_dev i f s = s"
  by (simp add: upd_dev_def list_update_beyond)

lemma same_links_upd: "keeps_links f \<Longrightarrow> same_links s (upd_dev i f s)"
  by (cases "i < length (g_devices s)")
     (auto simp: same_links_def keeps_links_def dev_upd_dev is_free_def upd_dev_beyond)

lemma same_links_emit: "same_links s s' \<Longrightarrow> same_links s (emit e s')"
  by (simp add: same_links_def)

lemma same_links_timer:
  "same_links s s' \<Longrightarrow> same_links s (remove_timer t i s')"
  "t \<noteq> Connection_timer \<Longrightarrow> same_links s s' \<Longrightarrow> same_links s (add_timer t i s')"
  by (auto simp: same_links_def)

lemmas same_links_intros = same_links_emit same_links_timer same_links_upd same_links_trans [OF _ same_links_upd]

lemma keeps_links_setters:
  "keeps_links (uni_hid_device_set_cod c)" "keeps_links (uni_hid_device_set_incoming b)"
  "keeps_links (uni_hid_device_set_name nm)" "keeps_links (uni_hid_device_set_product_id p)"
  "keeps_links (uni_hid_device_set_vendor_id v)" "keeps_links (uni_hid_device_set_connection_handle h)"
  by (auto simp: keeps_links_def uni_hid_device_set_cod_def uni_hid_device_set_incoming_def uni_hid_device_set_name_def
      uni_hid_device_set_product_id_def uni_hid_device_set_vendor_id_def uni_hid_device_set_connection_handle_def
      set_flag_def Let_def)

lemma bredr_disconnect_links: "same_links s (uni_bt_bredr_disconnect gap i s)"
  unfolding uni_bt_bredr_disconnect_def Let_def
  by (auto intro!: same_links_intros same_links_refl simp: keeps_links_def)

lemma disconnect_one_links: "same_links s (disconnect_one gap i s)"
  unfolding disconnect_one_def close_connection_def on_connected_def Let_def
  by (auto intro!: bredr_disconnect_links same_links_trans [OF bredr_disconnect_links same_links_upd] same_links_intros split: gap_connection_type.split
      simp: keeps_links_def uni_bt_conn_disconnect_def uni_bt_conn_set_connected_def)

lemma disconnect_links: "uni_hid_device_disconnect n gap i s = Some s' \<Longrightarrow> same_links s s'"
proof (induction n arbitrary: i s')
  case (Suc n)
  then show ?case
    using disconnect_one_links same_links_trans by (fastforce split: option.splits)
qed simp

lemma connect_links: "same_links s (uni_hid_device_connect i s)"
  unfolding uni_hid_device_connect_def on_connected_def
  by (auto intro!: same_links_intros simp: keeps_links_def uni_bt_conn_set_connected_def)

lemma set_state_links: "same_links s (set_state i st s)"
  unfolding set_state_def by (auto intro!: same_links_upd simp: keeps_links_def uni_bt_conn_set_state_def)

lemma misc_button_links:
  "same_links s (process_misc_button_system m i s)" "same_links s (process_misc_button_home m i s)"
  "same_links s (misc_button_enable_callback i s)"
  unfolding process_misc_button_system_def process_misc_button_home_def misc_button_enable_callback_def Let_def
  by (auto intro!: same_links_intros simp: keeps_links_def)

lemma process_controller_links: "uni_hid_device_process_controller st i s = Some s' \<Longrightarrow> same_links s s'"
  unfolding uni_hid_device_process_controller_def Let_def
  by (auto split: if_splits bind_splits intro!: same_links_trans [OF _ misc_button_links(1)]
      same_links_trans [OF _ misc_button_links(2)] same_links_intros simp: keeps_links_def)

subsection \<open>Creating and deleting keep the invariant\<close>

lemma wf_len: "table_wf s \<Longrightarrow> length (g_devices s) = 4"
  by (simp add: table_wf_def)

lemma wf_links:
  "table_wf s \<Longrightarrow> links_ok (\<lambda>i. is_free (dev s i)) (\<lambda>i. parent (dev s i)) (\<lambda>i. child (dev s i))"
  by (simp add: table_wf_def)

lemma wf_timer: "table_wf s \<Longrightarrow> (Connection_timer, i) \<in> timers s \<Longrightarrow> i < 4 \<and> \<not> is_free (dev s i)"
  by (simp add: table_wf_def)

lemma wf_free: "table_wf s \<Longrightarrow> i < 4 \<Longrightarrow> is_free (dev s i) \<Longrightarrow> parent (dev s i) = None \<and> child (dev s i) = None"
  using links_okD(1) [OF wf_links] by blast

lemma wf_child:
  "table_wf s \<Longrightarrow> i < 4 \<Longrightarrow> child (dev s i) = Some c \<Longrightarrow>
   c < 4 \<and> c \<noteq> i \<and> parent (dev s c) = Some i \<and> child (dev s c) = None"
  using links_okD(2) [OF wf_links] by blast

text \<open>The devices after an update of slots, as functions of the index (only four of them matter).\<close>

lemma links_ok_cong:
  fixes F F' :: "nat \<Rightarrow> bool" and P P' C C' :: "nat \<Rightarrow> nat option"
  assumes e: "\<And>i. i < 4 \<Longrightarrow> F i = F' i" "\<And>i. i < 4 \<Longrightarrow> P i = P' i" "\<And>i. i < 4 \<Longrightarrow> C i = C' i"
    and l: "links_ok F' P' C'"
  shows "links_ok F P C"
proof (rule links_okI)
  fix i :: nat assume i: "i < 4"
  show "F i \<Longrightarrow> P i = None \<and> C i = None" using links_okD(1) [OF l i] e i by auto
  show "c < 4 \<and> c \<noteq> i \<and> P c = Some i \<and> C c = None" if "C i = Some c" for c
    using links_okD(2) [OF l i, of c] e(3) [OF i] e(2,3) [of c] that by auto
  show "p < 4 \<and> p \<noteq> i \<and> C p = Some i" if "P i = Some p" for p
    using links_okD(3) [OF l i, of p] e(2) [OF i] e(3) [of p] that by auto
qed

lemma wf_replace_unlinked:
  assumes w: "table_wf s" and i: "i < 4" "parent (dev s i) = None" "child (dev s i) = None"
    and d: "parent d = None" "child d = None"
    and t: "\<And>j. (Connection_timer, j) \<in> T \<Longrightarrow> (Connection_timer, j) \<in> timers s \<and> j \<noteq> i \<or> j = i \<and> \<not> is_free d"
  shows "table_wf (s\<lparr>g_devices := (g_devices s)[i := d], timers := T\<rparr>)"
proof -
  let ?g = "(g_devices s)[i := d]"
  note len = wf_len [OF w]
  have "links_ok (\<lambda>j. is_free (?g ! j)) (\<lambda>j. parent (?g ! j)) (\<lambda>j. child (?g ! j))"
    by (rule links_ok_cong [OF _ _ _ links_replace [OF wf_links [OF w] i, of "is_free d"]])
       (use len i d in \<open>auto simp: nth_list_update\<close>)
  moreover have "j < 4 \<and> \<not> is_free (?g ! j)" if "(Connection_timer, j) \<in> T" for j
    using t [OF that] wf_timer [OF w, of j] i(1) len by (auto simp: nth_list_update)
  ultimately show ?thesis using len by (simp add: table_wf_def)
qed

lemma create_wf:
  assumes w: "table_wf s" and a: "addr \<noteq> zero_addr"
  shows "table_wf (snd (uni_hid_device_create addr s))"
proof (cases "find_dev is_free s")
  case (Some i)
  let ?d = "device_zero\<lparr>conn := conn_zero\<lparr>btaddr := addr\<rparr>\<rparr>"
  have i: "i < 4" "is_free (dev s i)" using find_dev_Some [OF Some] wf_len [OF w] by simp_all
  have "table_wf (s\<lparr>g_devices := (g_devices s)[i := ?d], timers := insert (Connection_timer, i) (timers s)\<rparr>)"
    using wf_free [OF w i] wf_timer [OF w] i a
    by (intro wf_replace_unlinked [OF w i(1)]) (auto simp: device_zero_def is_free_def)
  then show ?thesis using Some by (simp add: uni_hid_device_create_def add_timer_def upd_dev_def)
qed (use w in \<open>simp add: uni_hid_device_create_def\<close>)

lemma delete_one_eq:
  "delete_one i s = s\<lparr>g_devices := (g_devices s)[i := device_init], timers := timers s - {(Connection_timer, i)}\<rparr>"
  by (simp add: delete_one_def uni_hid_device_init_def upd_dev_def remove_timer_def)

lemma device_init_free: "is_free device_init" "parent device_init = None" "child device_init = None"
  by (simp_all add: device_init_def device_zero_def is_free_def uni_bt_conn_init_def conn_zero_def)

lemma delete_one_wf:
  assumes "table_wf s" "i < 4" "parent (dev s i) = None" "child (dev s i) = None"
  shows "table_wf (delete_one i s)"
  unfolding delete_one_eq
  using wf_replace_unlinked [OF assms, of device_init "timers s - {(Connection_timer, i)}"]
  by (simp add: device_init_free)

text \<open>A device with a child: both links vanish with the two slots.\<close>

lemma delete_two_wf:
  assumes w: "table_wf s" and i: "i < 4" "parent (dev s i) = None" "child (dev s i) = Some c"
  shows "table_wf (delete_one i (delete_one c s))"
proof -
  note len = wf_len [OF w]
  have c: "c < 4" "c \<noteq> i" using wf_child [OF w i(1,3)] by auto
  let ?g = "(g_devices s)[c := device_init, i := device_init]"
  have "links_ok (\<lambda>j. is_free (?g ! j)) (\<lambda>j. parent (?g ! j)) (\<lambda>j. child (?g ! j))"
    by (rule links_ok_cong [OF _ _ _ links_delete2 [OF wf_links [OF w] i]])
       (use len i(1) c in \<open>auto simp: nth_list_update device_init_free\<close>)
  moreover have "j < 4 \<and> \<not> is_free (?g ! j)"
    if "(Connection_timer, j) \<in> timers s - {(Connection_timer, c)} - {(Connection_timer, i)}" for j
    using that wf_timer [OF w, of j] len by (auto simp: nth_list_update)
  ultimately show ?thesis using len by (simp add: table_wf_def delete_one_eq)
qed

lemma delete_wf:
  assumes w: "table_wf s" and i: "i < 4" "parent (dev s i) = None"
  shows "\<exists>s'. uni_hid_device_delete (Suc (Suc n)) i s = Some s' \<and> table_wf s' \<and> is_free (dev s' i)"
proof (cases "child (dev s i)")
  case None
  then show ?thesis
    using delete_one_wf [OF w i None] wf_len [OF w] i(1) by (simp add: delete_one_eq device_init_free)
next
  case (Some c)
  then have "child (dev s c) = None" using wf_child [OF w i(1)] by blast
  then show ?thesis
    using delete_two_wf [OF w i Some] Some wf_len [OF w] i(1) by (simp add: delete_one_eq device_init_free)
qed

lemma disconnect_total:
  assumes w: "table_wf s" and i: "i < 4"
  shows "\<exists>s'. uni_hid_device_disconnect (Suc (Suc n)) gap i s = Some s'"
proof (cases "child (dev s i)")
  case (Some c)
  then have "child (dev s c) = None" using wf_child [OF w i] by blast
  then show ?thesis using Some by simp
qed simp

lemma disconnect_and_delete_wf:
  assumes w: "table_wf s" and i: "i < 4" "parent (dev s i) = None"
  shows "\<exists>s'. disconnect_and_delete (Suc (Suc n)) gap i s = Some s' \<and> table_wf s' \<and> is_free (dev s' i)"
proof -
  obtain s1 where s1: "uni_hid_device_disconnect (Suc (Suc n)) gap i s = Some s1"
    using disconnect_total [OF w i(1)] by blast
  have l: "same_links s s1" by (rule disconnect_links [OF s1])
  have "table_wf s1" "parent (dev s1 i) = None"
    using same_links_wf [OF l w] l i(2) by (simp_all add: same_links_def)
  then obtain s2 where "uni_hid_device_delete (Suc (Suc n)) i s1 = Some s2" "table_wf s2" "is_free (dev s2 i)"
    using delete_wf i(1) by blast
  then show ?thesis unfolding disconnect_and_delete_def s1 by simp
qed

lemma create_virtual_wf:
  assumes w: "table_wf s" and p: "p < 4" "\<not> is_free (dev s p)" "parent (dev s p) = None" "child (dev s p) = None"
  shows "table_wf (snd (uni_hid_device_create_virtual en p s))"
proof (cases "find_dev is_free s")
  case (Some i)
  note len = wf_len [OF w]
  have i: "i < 4" "is_free (dev s i)" using find_dev_Some [OF Some] len by simp_all
  then have ne: "i \<noteq> p" using p(2) by blast
  let ?s = "snd (uni_hid_device_create_virtual True p s)"
  have g: "is_free (dev ?s j) = (((\<lambda>j. is_free (dev s j))(i := False)) j)"
      "parent (dev ?s j) = (((\<lambda>j. parent (dev s j))(i := Some p)) j)"
      "child (dev ?s j) = (((\<lambda>j. child (dev s j))(p := Some i)) j)" if "j < 4" for j
    using Some len i p ne that by (auto simp: uni_hid_device_create_virtual_def Let_def dev_upd_dev is_free_def)
  have r: "timers ?s = timers s" "length (g_devices ?s) = 4"
    using Some len by (simp_all add: uni_hid_device_create_virtual_def Let_def)
  have "links_ok (\<lambda>j. is_free (dev ?s j)) (\<lambda>j. parent (dev ?s j)) (\<lambda>j. child (dev ?s j))"
    by (rule links_ok_cong [OF _ _ _ links_virtual [OF wf_links [OF w] i p]]) (use g in auto)
  moreover have "j < 4 \<and> \<not> is_free (dev ?s j)" if "(Connection_timer, j) \<in> timers s" for j
    using wf_timer [OF w that] g(1) [of j] by auto
  ultimately have "table_wf ?s" using r by (simp add: table_wf_def)
  then show ?thesis using w by (cases en) (simp_all add: uni_hid_device_create_virtual_def)
qed (use w in \<open>simp add: uni_hid_device_create_virtual_def\<close>)

lemma request_inquire_links: "length (g_devices s) = 4 \<Longrightarrow> table_wf s \<Longrightarrow> table_wf (uni_hid_device_request_inquire s)"
proof -
  assume len: "length (g_devices s) = 4" and w: "table_wf s"
  let ?s = "uni_hid_device_request_inquire s"
  have l: "is_free (dev ?s i) = is_free (dev s i)" "parent (dev ?s i) = parent (dev s i)"
      "child (dev ?s i) = child (dev s i)" if "i < 4" for i
    using that len by (simp_all add: uni_hid_device_request_inquire_def is_free_def uni_bt_conn_set_state_def)
  have "links_ok (\<lambda>i. is_free (dev ?s i)) (\<lambda>i. parent (dev ?s i)) (\<lambda>i. child (dev ?s i))"
    by (rule links_ok_cong [OF l(1) l(2) l(3) wf_links [OF w]])
  moreover have "i < 4 \<and> \<not> is_free (dev ?s i)" if "(Connection_timer, i) \<in> timers ?s" for i
    using that wf_timer [OF w, of i] l(1) [of i] by (simp add: uni_hid_device_request_inquire_def)
  moreover have "length (g_devices ?s) = 4" using len by (simp add: uni_hid_device_request_inquire_def)
  ultimately show "table_wf ?s" unfolding table_wf_def by blast
qed

lemma ready_complete_wf:
  assumes w: "table_wf s" and i: "i < 4" "parent (dev s i) = None"
  shows "\<exists>b s'. uni_hid_device_set_ready_complete (Suc (Suc n)) gap acc i s = Some (b, s') \<and> table_wf s'"
proof -
  let ?s = "emit (On_device_ready i) (remove_timer Connection_timer i s)"
  have l: "same_links s ?s" by (intro same_links_intros same_links_refl)
  have p: "table_wf ?s" "parent (dev ?s i) = None" using same_links_wf [OF l w] i(2) by simp_all
  show ?thesis
    using w disconnect_and_delete_wf [OF p(1) i(1) p(2), of n gap] same_links_wf [OF set_state_links p(1)]
    by (auto simp: uni_hid_device_set_ready_complete_def Let_def)
qed

subsection \<open>What holds whatever is released\<close>

text \<open>
  The console and the disconnection handler release any slot, a virtual child included, and do not
  tell its parent: the parent keeps a link to the slot, which may be free or belong to another
  device by then. Over every sequence of calls the table still keeps: free slots are clean, links
  lead to slots, the child links have no cycle (a child is created after its parent, so some rank
  grows along them), and a connection timer runs for a slot in use only.
\<close>

definition ranked :: "(nat \<Rightarrow> nat option) \<Rightarrow> bool" where
  "ranked C \<longleftrightarrow> (\<exists>r :: nat \<Rightarrow> nat. \<forall>i < 4. \<forall>c. C i = Some c \<longrightarrow> c < 4 \<and> r i < r c)"

lemma ranked_cong: "(\<And>i. i < 4 \<Longrightarrow> C i = C' i) \<Longrightarrow> ranked C' \<Longrightarrow> ranked C"
  by (simp add: ranked_def)

lemma ranked_clear: "ranked C \<Longrightarrow> ranked (C(i := None))"
  unfolding ranked_def by (erule exE, rule exI) auto

lemma ranked_link:
  assumes "ranked C" "i < 4" "p < 4" "i \<noteq> p" "C i = None"
  shows "ranked (C(p := Some i))"
proof -
  obtain r :: "nat \<Rightarrow> nat" where r: "\<And>j c. j < 4 \<Longrightarrow> C j = Some c \<Longrightarrow> c < 4 \<and> r j < r c"
    using assms(1) unfolding ranked_def by blast
  let ?r = "r(i := Suc (r 0 + r 1 + r 2 + r 3))"
  have big: "r j \<le> r 0 + r 1 + r 2 + r 3" if "j < 4" for j
  proof -
    have "j = 0 \<or> j = 1 \<or> j = 2 \<or> j = 3" using that by linarith
    then show ?thesis by auto
  qed
  have "c < 4 \<and> ?r j < ?r c" if "j < 4" "(C(p := Some i)) j = Some c" for j c
    using that r [of j c] big [OF that(1)] assms by (cases "j = i") (auto split: if_splits)
  then show ?thesis unfolding ranked_def by blast
qed

definition table_safe :: "hid_state \<Rightarrow> bool" where
  "table_safe s \<longleftrightarrow> length (g_devices s) = 4 \<and>
     (\<forall>i < 4. is_free (dev s i) \<longrightarrow> parent (dev s i) = None \<and> child (dev s i) = None) \<and>
     (\<forall>i < 4. \<forall>p. parent (dev s i) = Some p \<longrightarrow> p < 4) \<and>
     ranked (\<lambda>i. child (dev s i)) \<and>
     (\<forall>i. (Connection_timer, i) \<in> timers s \<longrightarrow> i < 4 \<and> \<not> is_free (dev s i))"

lemma table_safeD:
  assumes "table_safe s"
  shows "length (g_devices s) = 4" "i < 4 \<Longrightarrow> is_free (dev s i) \<Longrightarrow> parent (dev s i) = None \<and> child (dev s i) = None"
    "i < 4 \<Longrightarrow> parent (dev s i) = Some p \<Longrightarrow> p < 4" "ranked (\<lambda>i. child (dev s i))"
    "(Connection_timer, i) \<in> timers s \<Longrightarrow> i < 4 \<and> \<not> is_free (dev s i)"
  using assms unfolding table_safe_def by blast+

text \<open>The same slots, links and timers: enough to look at the four slots.\<close>

lemma table_safe_cong:
  assumes "table_safe s" "length (g_devices s') = 4"
    and "\<And>i. i < 4 \<Longrightarrow> is_free (dev s' i) = is_free (dev s i)" "\<And>i. i < 4 \<Longrightarrow> parent (dev s' i) = parent (dev s i)"
    and "\<And>i. i < 4 \<Longrightarrow> child (dev s' i) = child (dev s i)"
    and "\<And>i. (Connection_timer, i) \<in> timers s' \<Longrightarrow> (Connection_timer, i) \<in> timers s"
  shows "table_safe s'"
proof -
  have "ranked (\<lambda>i. child (dev s' i))" using table_safeD(4) [OF assms(1)] assms(5) by (rule ranked_cong [rotated])
  then show ?thesis using assms(2-6) table_safeD(2,3,5) [OF assms(1)] unfolding table_safe_def by metis
qed

lemma same_links_safe: "same_links s s' \<Longrightarrow> table_safe s \<Longrightarrow> table_safe s'"
  by (rule table_safe_cong [of s]) (auto simp: same_links_def table_safeD(1))

lemma inquire_safe: "table_safe s \<Longrightarrow> table_safe (uni_hid_device_request_inquire s)"
  by (rule table_safe_cong [of s])
     (auto simp: table_safeD(1) uni_hid_device_request_inquire_def is_free_def uni_bt_conn_set_state_def)

text \<open>A slot is replaced by a device without a child.\<close>

lemma replace_safe:
  assumes w: "table_safe s" and i: "i < 4" "child d = None" "parent d = None"
    and t: "\<And>j. (Connection_timer, j) \<in> T \<Longrightarrow> j \<noteq> i \<and> (Connection_timer, j) \<in> timers s \<or> j = i \<and> \<not> is_free d"
  shows "table_safe (s\<lparr>g_devices := (g_devices s)[i := d], timers := T\<rparr>)"
proof -
  have "ranked (\<lambda>j. child ((g_devices s)[i := d] ! j))"
    by (rule ranked_cong [OF _ ranked_clear [OF table_safeD(4) [OF w], of i]])
       (use i table_safeD(1) [OF w] in \<open>auto simp: nth_list_update\<close>)
  moreover have "j < 4 \<and> \<not> is_free ((g_devices s)[i := d] ! j)" if "(Connection_timer, j) \<in> T" for j
    using t [OF that] table_safeD(1,5) [OF w] i(1) by (auto simp: nth_list_update)
  moreover have "parent ((g_devices s)[i := d] ! j) = None \<and> child ((g_devices s)[i := d] ! j) = None"
    if "j < 4" "is_free ((g_devices s)[i := d] ! j)" for j
    using that i table_safeD(1,2) [OF w] by (auto simp: nth_list_update split: if_splits)
  moreover have "p < 4" if "j < 4" "parent ((g_devices s)[i := d] ! j) = Some p" for j p
    using that i table_safeD(1) [OF w] table_safeD(3) [OF w that(1)] by (auto simp: nth_list_update split: if_splits)
  ultimately show ?thesis using table_safeD(1) [OF w] unfolding table_safe_def by simp
qed

lemma create_safe:
  assumes w: "table_safe s" and a: "addr \<noteq> zero_addr"
  shows "table_safe (snd (uni_hid_device_create addr s))"
proof (cases "find_dev is_free s")
  case (Some i)
  let ?d = "device_zero\<lparr>conn := conn_zero\<lparr>btaddr := addr\<rparr>\<rparr>"
  have i: "i < 4" using find_dev_Some [OF Some] table_safeD(1) [OF w] by simp
  have "table_safe (s\<lparr>g_devices := (g_devices s)[i := ?d], timers := insert (Connection_timer, i) (timers s)\<rparr>)"
    using a by (intro replace_safe [OF w i]) (auto simp: device_zero_def is_free_def)
  then show ?thesis using Some by (simp add: uni_hid_device_create_def add_timer_def upd_dev_def)
qed (use w in \<open>simp add: uni_hid_device_create_def\<close>)

lemma create_virtual_safe:
  assumes w: "table_safe s" and p: "p < 4" "\<not> is_free (dev s p)"
  shows "table_safe (snd (uni_hid_device_create_virtual en p s))"
proof (cases "find_dev is_free s")
  case (Some i)
  note len = table_safeD(1) [OF w]
  have i: "i < 4" "is_free (dev s i)" using find_dev_Some [OF Some] len by simp_all
  then have ne: "i \<noteq> p" using p(2) by blast
  let ?s = "snd (uni_hid_device_create_virtual True p s)"
  have g: "is_free (dev ?s j) = (j \<noteq> i \<and> is_free (dev s j))"
      "parent (dev ?s j) = (if j = i then Some p else parent (dev s j))"
      "child (dev ?s j) = ((\<lambda>j. child (dev s j))(p := Some i)) j" if "j < 4" for j
    using Some len i p ne that by (auto simp: uni_hid_device_create_virtual_def Let_def dev_upd_dev is_free_def)
  have r: "timers ?s = timers s" "length (g_devices ?s) = 4"
    using Some len by (simp_all add: uni_hid_device_create_virtual_def Let_def)
  have "ranked (\<lambda>j. child (dev ?s j))"
    using ranked_cong [OF g(3) ranked_link [OF table_safeD(4) [OF w] i(1) p(1) ne]] table_safeD(2) [OF w i] by simp
  moreover have "j < 4 \<and> \<not> is_free (dev ?s j)" if "(Connection_timer, j) \<in> timers s" for j
    using table_safeD(5) [OF w that] g(1) [of j] by auto
  moreover have "parent (dev ?s j) = None \<and> child (dev ?s j) = None" if "j < 4" "is_free (dev ?s j)" for j
    using table_safeD(2) [OF w that(1)] g [OF that(1)] that(2) p(2) by auto
  moreover have "q < 4" if "j < 4" "parent (dev ?s j) = Some q" for j q
    using table_safeD(3) [OF w that(1), of q] g(2) [OF that(1)] that(2) p(1) by (auto split: if_splits)
  ultimately have "table_safe ?s" using r unfolding table_safe_def by simp
  then show ?thesis using w by (cases en) (simp_all add: uni_hid_device_create_virtual_def)
qed (use w in \<open>simp add: uni_hid_device_create_virtual_def\<close>)

lemma delete_one_safe:
  assumes "table_safe s" "i < 4"
  shows "table_safe (delete_one i s) \<and> is_free (dev (delete_one i s) i)"
  using replace_safe [OF assms, of device_init "timers s - {(Connection_timer, i)}"] table_safeD(1) [OF assms(1)] assms(2)
  by (auto simp: delete_one_eq device_init_free)

lemma child_lt: "table_safe s \<Longrightarrow> i < 4 \<Longrightarrow> child (dev s i) = Some c \<Longrightarrow> c < 4"
  using table_safeD(4) unfolding ranked_def by blast

lemma delete_safe:
  "uni_hid_device_delete n i s = Some s' \<Longrightarrow> table_safe s \<Longrightarrow> i < 4 \<Longrightarrow> table_safe s' \<and> is_free (dev s' i)"
proof (induction n arbitrary: i s')
  case (Suc n)
  show ?case
  proof (cases "child (dev s i)")
    case None
    then show ?thesis using Suc.prems delete_one_safe by auto
  next
    case (Some c)
    then obtain s1 where s1: "uni_hid_device_delete n c s = Some s1" "s' = delete_one i s1" using Suc.prems(1) by auto
    show ?thesis
      using Suc.IH [OF s1(1) Suc.prems(2) child_lt [OF Suc.prems(2,3) Some]] delete_one_safe Suc.prems(3) s1(2) by blast
  qed
qed simp

text \<open>The recursion into the child ends: the rank grows along the links, and there are four slots.\<close>

lemma higher_less:
  fixes r :: "nat \<Rightarrow> nat"
  assumes "c < 4" "r i < r c"
  shows "card {j. j < 4 \<and> r c < r j} < card {j. j < 4 \<and> r i < r j}"
  by (rule psubset_card_mono) (use assms in auto)

lemma recursion_ends:
  fixes r :: "nat \<Rightarrow> nat"
  assumes r: "\<And>i c. i < 4 \<Longrightarrow> child (dev s i) = Some c \<Longrightarrow> c < 4 \<and> r i < r c"
  shows "i < 4 \<Longrightarrow> card {j. j < 4 \<and> r i < r j} < n \<Longrightarrow>
    (\<exists>s'. uni_hid_device_delete n i s = Some s') \<and> (\<exists>s'. uni_hid_device_disconnect n gap i s = Some s')"
proof (induction n arbitrary: i)
  case (Suc n)
  show ?case
  proof (cases "child (dev s i)")
    case (Some c)
    have c: "c < 4" "r i < r c" using r Suc.prems(1) Some by blast+
    have "card {j. j < 4 \<and> r c < r j} < n" using higher_less [of c r i] c Suc.prems(2) by simp
    then show ?thesis using Suc.IH [OF c(1)] Some by auto
  qed simp
qed simp

lemma four_levels:
  assumes w: "table_safe s" and i: "i < 4"
  shows "\<exists>s'. uni_hid_device_delete 4 i s = Some s'" "\<exists>s'. uni_hid_device_disconnect 4 gap i s = Some s'"
proof -
  obtain r :: "nat \<Rightarrow> nat" where r: "\<And>j c. j < 4 \<Longrightarrow> child (dev s j) = Some c \<Longrightarrow> c < 4 \<and> r j < r c"
    using table_safeD(4) [OF w] unfolding ranked_def by blast
  have "card {j. j < 4 \<and> r i < r j} < card {..<4 :: nat}" by (rule psubset_card_mono) (use i in auto)
  then have "card {j. j < 4 \<and> r i < r j} < 4" by simp
  note e = recursion_ends [of s r, OF r i this]
  show "\<exists>s'. uni_hid_device_delete 4 i s = Some s'" using e by blast
  show "\<exists>s'. uni_hid_device_disconnect 4 gap i s = Some s'" using e by blast
qed

lemma disconnect_and_delete_safe:
  assumes w: "table_safe s" and i: "i < 4" and d: "disconnect_and_delete n gap i s = Some s'"
  shows "table_safe s' \<and> is_free (dev s' i)"
proof -
  obtain s1 where s1: "uni_hid_device_disconnect n gap i s = Some s1" "uni_hid_device_delete n i s1 = Some s'"
    using d by (auto simp: disconnect_and_delete_def split: option.splits)
  show ?thesis by (rule delete_safe [OF s1(2) same_links_safe [OF disconnect_links [OF s1(1)] w] i])
qed

lemma disconnect_and_delete_ends:
  assumes w: "table_safe s" and i: "i < 4"
  shows "\<exists>s'. disconnect_and_delete 4 gap i s = Some s'"
proof -
  obtain s1 where s1: "uni_hid_device_disconnect 4 gap i s = Some s1" using four_levels(2) [OF w i] by blast
  have "table_safe s1" by (rule same_links_safe [OF disconnect_links [OF s1] w])
  from four_levels(1) [OF this i] s1 show ?thesis by (auto simp: disconnect_and_delete_def)
qed

subsection \<open>Every sequence of operations\<close>

text \<open>
  A step is one call on the table, on any slot: a device is disconnected, deleted, made ready (the
  platform accepts or not) or given up by the connection timer whether it is a physical device or
  a virtual child, and any device in use may be given a virtual child. \<open>attribute\<close> stands for the
  setters, which keep the links (\<open>keeps_links_setters\<close>).
\<close>

inductive table_step :: "hid_state \<Rightarrow> hid_state \<Rightarrow> bool" where
  create: "addr \<noteq> zero_addr \<Longrightarrow> table_step s (snd (uni_hid_device_create addr s))"
| create_virtual: "p < 4 \<Longrightarrow> \<not> is_free (dev s p) \<Longrightarrow> table_step s (snd (uni_hid_device_create_virtual en p s))"
| connect: "table_step s (uni_hid_device_connect i s)"
| disconnect: "uni_hid_device_disconnect n gap i s = Some s' \<Longrightarrow> table_step s s'"
| delete: "i < 4 \<Longrightarrow> uni_hid_device_delete n i s = Some s' \<Longrightarrow> table_step s s'"
| ready: "i < 4 \<Longrightarrow> uni_hid_device_set_ready_complete n gap acc i s = Some (b, s') \<Longrightarrow> table_step s s'"
| timeout: "(Connection_timer, i) \<in> timers s \<Longrightarrow>
    device_connection_timeout n gap i (remove_timer Connection_timer i s) = Some s' \<Longrightarrow> table_step s s'"
| state: "table_step s (set_state i st s)"
| inquire: "table_step s (uni_hid_device_request_inquire s)"
| report: "uni_hid_device_process_controller st i s = Some s' \<Longrightarrow> table_step s s'"
| delay_over: "table_step s (misc_button_enable_callback i (remove_timer Misc_button_delay_timer i s))"
| attribute: "keeps_links f \<Longrightarrow> table_step s (upd_dev i f s)"

lemma table_step_safe: "table_step s s' \<Longrightarrow> table_safe s \<Longrightarrow> table_safe s'"
proof (induction rule: table_step.induct)
  case (ready i n gap acc s b s')
  let ?s = "emit (On_device_ready i) (remove_timer Connection_timer i s)"
  have "table_safe ?s" by (rule same_links_safe [OF _ ready(3)]) (intro same_links_intros same_links_refl)
  then show ?case
    using ready disconnect_and_delete_safe [of ?s i n gap] same_links_safe [OF set_state_links]
    by (auto simp: uni_hid_device_set_ready_complete_def Let_def split: if_splits)
next
  case (timeout i s n gap s')
  have "table_safe (remove_timer Connection_timer i s)"
    by (rule same_links_safe [OF _ timeout(3)]) (intro same_links_timer same_links_refl)
  then show ?case
    using timeout table_safeD(5) [OF timeout(3,1)] disconnect_and_delete_safe [of "remove_timer Connection_timer i s" i n gap s']
    by (auto simp: device_connection_timeout_def split: if_splits)
next
  case (delay_over s i)
  have "same_links s (misc_button_enable_callback i (remove_timer Misc_button_delay_timer i s))"
    by (rule same_links_trans [OF same_links_timer(1) [OF same_links_refl] misc_button_links(3)])
  then show ?case using delay_over by (rule same_links_safe)
qed (auto intro: create_safe create_virtual_safe inquire_safe same_links_safe connect_links disconnect_links
      set_state_links process_controller_links same_links_upd dest: delete_safe)

lemma setup_slot: "i < 4 \<Longrightarrow> dev uni_hid_device_setup i = device_init"
  by (simp add: uni_hid_device_setup_def CONFIG_BLUEPAD32_MAX_DEVICES_def)

lemma setup_safe: "table_safe uni_hid_device_setup"
proof -
  have "length (g_devices uni_hid_device_setup) = 4" "timers uni_hid_device_setup = {}"
    by (simp_all add: uni_hid_device_setup_def CONFIG_BLUEPAD32_MAX_DEVICES_def)
  then show ?thesis by (simp add: table_safe_def ranked_def setup_slot device_init_free)
qed

text \<open>
  C3. Over every sequence of calls on the device table from the set-up on, whichever slots the
  calls release (a virtual child on its own included): there are four slots, a free slot has no
  links, every link leads to one of the slots, and a connection timer only runs for a slot in use,
  so that its handler never meets a deleted device. In every such state, disconnecting and
  deleting any slot ends, within four levels of the recursion into the child, frees the slot
  and keeps all this. That the links lead back to each other holds as long as no virtual
  child is released on its own (\<open>table_links_consistent\<close>), and not otherwise
  (\<open>child_release_dangles\<close>).
\<close>

theorem device_table_safe:
  assumes "table_step\<^sup>*\<^sup>* uni_hid_device_setup s"
  shows "table_safe s \<and> (i < 4 \<longrightarrow>
     (\<exists>s'. disconnect_and_delete 4 gap i s = Some s' \<and> table_safe s' \<and> is_free (dev s' i)))"
proof -
  have w: "table_safe s"
    using assms by (induction rule: rtranclp_induct) (auto intro: setup_safe table_step_safe)
  then show ?thesis
    using disconnect_and_delete_ends [OF w, of i gap] disconnect_and_delete_safe [OF w, of i 4 gap] by blast
qed

subsection \<open>Released by the physical device only\<close>

text \<open>
  An orderly step deletes, readies or gives up a device that is not virtual, and creates a virtual
  device for a device in use that is not virtual itself and has no child, as the DualShock 4 and
  DualSense drivers do once per connection.
\<close>

inductive orderly_step :: "hid_state \<Rightarrow> hid_state \<Rightarrow> bool" where
  create: "addr \<noteq> zero_addr \<Longrightarrow> orderly_step s (snd (uni_hid_device_create addr s))"
| create_virtual: "p < 4 \<Longrightarrow> \<not> is_free (dev s p) \<Longrightarrow> parent (dev s p) = None \<Longrightarrow> child (dev s p) = None \<Longrightarrow>
    orderly_step s (snd (uni_hid_device_create_virtual en p s))"
| connect: "orderly_step s (uni_hid_device_connect i s)"
| disconnect: "uni_hid_device_disconnect n gap i s = Some s' \<Longrightarrow> orderly_step s s'"
| delete: "i < 4 \<Longrightarrow> parent (dev s i) = None \<Longrightarrow> uni_hid_device_delete (Suc (Suc n)) i s = Some s' \<Longrightarrow> orderly_step s s'"
| ready: "i < 4 \<Longrightarrow> parent (dev s i) = None \<Longrightarrow>
    uni_hid_device_set_ready_complete (Suc (Suc n)) gap acc i s = Some (b, s') \<Longrightarrow> orderly_step s s'"
| timeout: "(Connection_timer, i) \<in> timers s \<Longrightarrow> parent (dev s i) = None \<Longrightarrow>
    device_connection_timeout (Suc (Suc n)) gap i (remove_timer Connection_timer i s) = Some s' \<Longrightarrow> orderly_step s s'"
| state: "orderly_step s (set_state i st s)"
| inquire: "orderly_step s (uni_hid_device_request_inquire s)"
| report: "uni_hid_device_process_controller st i s = Some s' \<Longrightarrow> orderly_step s s'"
| delay_over: "orderly_step s (misc_button_enable_callback i (remove_timer Misc_button_delay_timer i s))"
| attribute: "keeps_links f \<Longrightarrow> orderly_step s (upd_dev i f s)"

lemma orderly_step_wf: "orderly_step s s' \<Longrightarrow> table_wf s \<Longrightarrow> table_wf s'"
proof (induction rule: orderly_step.induct)
  case (create addr s)
  then show ?case by (simp add: create_wf)
next
  case (create_virtual p s en)
  then show ?case by (simp add: create_virtual_wf)
next
  case (delete i s n s')
  then show ?case using delete_wf [of s i n] by auto
next
  case (ready i s n gap acc b s')
  then show ?case using ready_complete_wf [of s i n gap acc] by auto
next
  case (timeout i s n gap s')
  have i: "i < 4" using timeout(1,4) wf_timer by blast
  have l: "same_links s (remove_timer Connection_timer i s)" by (intro same_links_timer same_links_refl)
  have w: "table_wf (remove_timer Connection_timer i s)" by (rule same_links_wf [OF l timeout(4)])
  have p: "parent (dev (remove_timer Connection_timer i s) i) = None" using timeout(2) by simp
  show ?case
    using timeout(3) w disconnect_and_delete_wf [OF w i p, of n gap]
    by (auto simp: device_connection_timeout_def split: if_splits)
next
  case (delay_over s i)
  have "same_links s (misc_button_enable_callback i (remove_timer Misc_button_delay_timer i s))"
    by (rule same_links_trans [OF same_links_timer(1) [OF same_links_refl] misc_button_links(3)])
  then show ?case using delay_over by (rule same_links_wf)
next
  case (inquire s)
  then show ?case using request_inquire_links wf_len by blast
qed (auto intro: same_links_wf connect_links disconnect_links set_state_links process_controller_links same_links_upd)

lemma orderly_step_is_step: "orderly_step s s' \<Longrightarrow> table_step s s'"
  by (induction rule: orderly_step.induct) (blast intro: table_step.intros)+

lemma setup_wf: "table_wf uni_hid_device_setup"
proof -
  have "links_ok (\<lambda>i. is_free (dev uni_hid_device_setup i)) (\<lambda>i. parent (dev uni_hid_device_setup i))
      (\<lambda>i. child (dev uni_hid_device_setup i))"
    by (rule links_okI) (simp_all add: setup_slot device_init_free)
  then show ?thesis by (simp add: table_wf_def uni_hid_device_setup_def CONFIG_BLUEPAD32_MAX_DEVICES_def)
qed

text \<open>
  C4. Parent and child links lead back to each other, and never to a free slot, over every sequence
  of calls from the set-up on in which no virtual child is deleted, rejected or timed out on its own
  and a device gets a virtual child only while it has none. In every such state, disconnecting and
  deleting a physical device ends within two levels of the recursion, for a child has no child,
  and frees its slot.
\<close>

theorem table_links_consistent:
  assumes "orderly_step\<^sup>*\<^sup>* uni_hid_device_setup s"
  shows "table_wf s \<and> (i < 4 \<and> parent (dev s i) = None \<longrightarrow>
     (\<exists>s'. disconnect_and_delete 2 gap i s = Some s' \<and> table_wf s' \<and> is_free (dev s' i)))"
proof -
  have w: "table_wf s"
    using assms by (induction rule: rtranclp_induct) (auto intro: setup_wf orderly_step_wf)
  then show ?thesis using disconnect_and_delete_wf [OF w, of i 0 gap] by (simp add: numeral_2_eq_2)
qed

definition addr_example :: bd_addr where "addr_example = [1, 2, 3, 4, 5, 6]"

definition table_example :: hid_state where
  "table_example = snd (uni_hid_device_create_virtual True 0 (snd (uni_hid_device_create addr_example uni_hid_device_setup)))"

lemma table_example_steps: "orderly_step\<^sup>*\<^sup>* uni_hid_device_setup table_example"
proof -
  let ?s = "snd (uni_hid_device_create addr_example uni_hid_device_setup)"
  have a: "addr_example \<noteq> zero_addr" by (simp add: addr_example_def zero_addr_def)
  have c: "btaddr (conn (dev ?s 0)) = addr_example" "parent (dev ?s 0) = None" "child (dev ?s 0) = None"
    by code_simp+
  have "orderly_step ?s table_example"
    unfolding table_example_def by (rule orderly_step.create_virtual) (use a c in \<open>simp_all add: is_free_def\<close>)
  moreover have "orderly_step uni_hid_device_setup ?s" by (rule orderly_step.create [OF a])
  ultimately show ?thesis by simp
qed

theorem table_links_consistent_witness:
  "child (dev table_example 0) = Some 1 \<and>
   (\<exists>s'. disconnect_and_delete 2 (\<lambda>_. GAP_CONNECTION_ACL) 0 table_example = Some s' \<and> is_free (dev s' 0))"
proof -
  have "parent (dev table_example 0) = None" "child (dev table_example 0) = Some 1" by code_simp+
  then show ?thesis using table_links_consistent [OF table_example_steps, of 0] by auto
qed

text \<open>
  The virtual child of the example is disconnected and deleted on its own, as the console command
  for its slot does, and another controller takes the slot. The first controller still has the
  slot as its child.
\<close>

definition child_released :: hid_state where
  "child_released = the (disconnect_and_delete 1 (\<lambda>_. GAP_CONNECTION_ACL) 1 table_example)"

definition other_addr :: bd_addr where "other_addr = [9, 9, 9, 9, 9, 9]"

definition slot_reused :: hid_state where
  "slot_reused = snd (uni_hid_device_create other_addr child_released)"

lemma orderly_steps: "orderly_step\<^sup>*\<^sup>* s s' \<Longrightarrow> table_step\<^sup>*\<^sup>* s s'"
  by (induction rule: rtranclp_induct) (auto intro: rtranclp.rtrancl_into_rtrancl orderly_step_is_step)

lemma slot_reused_steps: "table_step\<^sup>*\<^sup>* uni_hid_device_setup child_released"
  "table_step\<^sup>*\<^sup>* uni_hid_device_setup slot_reused"
proof -
  let ?t = "the (uni_hid_device_disconnect 1 (\<lambda>_. GAP_CONNECTION_ACL) 1 table_example)"
  have d: "uni_hid_device_disconnect 1 (\<lambda>_. GAP_CONNECTION_ACL) 1 table_example = Some ?t"
      "uni_hid_device_delete 1 1 ?t = Some child_released"
    by code_simp+
  have a: "other_addr \<noteq> zero_addr" by (simp add: other_addr_def zero_addr_def)
  have "table_step table_example ?t" by (rule table_step.disconnect [OF d(1)])
  moreover have "table_step ?t child_released" by (rule table_step.delete [OF _ d(2)]) simp
  ultimately show c: "table_step\<^sup>*\<^sup>* uni_hid_device_setup child_released"
    using orderly_steps [OF table_example_steps] by (meson rtranclp.rtrancl_into_rtrancl)
  have "table_step child_released slot_reused" unfolding slot_reused_def by (rule table_step.create [OF a])
  with c show "table_step\<^sup>*\<^sup>* uni_hid_device_setup slot_reused" by (rule rtranclp.rtrancl_into_rtrancl)
qed

text \<open>
  Releasing a virtual child on its own leaves its parent with a link to a free slot; when another
  controller has taken that slot, giving up the first controller disconnects and deletes the
  other one as well.
\<close>

theorem child_release_dangles:
  "is_free (dev child_released 1) \<and> child (dev child_released 0) = Some 1 \<and>
   btaddr (conn (dev slot_reused 1)) = other_addr \<and> parent (dev slot_reused 1) = None \<and>
   (case disconnect_and_delete 4 (\<lambda>_. GAP_CONNECTION_ACL) 0 slot_reused of
      None \<Rightarrow> False
    | Some s' \<Rightarrow> is_free (dev s' 0) \<and> is_free (dev s' 1) \<and> Gap_disconnect 1 \<in> set (events s'))"
  by code_simp

theorem device_table_safe_witness:
  "child (dev slot_reused 0) = Some 1 \<and> parent (dev slot_reused 1) = None \<and> table_safe slot_reused \<and>
   (\<exists>s'. disconnect_and_delete 4 (\<lambda>_. GAP_CONNECTION_ACL) 0 slot_reused = Some s' \<and> is_free (dev s' 0))"
proof -
  have "parent (dev slot_reused 1) = None" "child (dev slot_reused 0) = Some 1" by code_simp+
  then show ?thesis using device_table_safe [OF slot_reused_steps(2), of 0] by auto
qed

subsection \<open>Creating and finding a device\<close>

text \<open>
  A device that was created is found by its address, and creation only fails when all slots are in
  use: after \<open>uni_hid_device_create\<close> returns slot i for an address that no physical device has, the
  search by that address returns i, every other device is found as before, and the connection
  timer of the slot runs.
\<close>

theorem create_then_find:
  assumes "length (g_devices s) = 4" "addr \<noteq> zero_addr" "uni_hid_device_get_instance_for_address addr s = None"
  shows "case uni_hid_device_create addr s of
      (None, s') \<Rightarrow> s' = s \<and> (\<forall>i < 4. \<not> is_free (dev s i))
    | (Some i, s') \<Rightarrow> i < 4 \<and> is_free (dev s i) \<and> uni_hid_device_get_instance_for_address addr s' = Some i \<and>
        (Connection_timer, i) \<in> timers s' \<and> (\<forall>j. j \<noteq> i \<longrightarrow> dev s' j = dev s j)"
proof (cases "find_dev is_free s")
  case None
  moreover have "\<forall>i < 4. \<not> is_free (dev s i)" using None assms(1) by (simp add: find_dev_None)
  ultimately show ?thesis by (simp add: uni_hid_device_create_def)
next
  case (Some i)
  let ?s = "snd (uni_hid_device_create addr s)"
  have i: "i < 4" "is_free (dev s i)" using find_dev_Some [OF Some] assms(1) by auto
  have d: "dev ?s j = (if j = i then device_zero\<lparr>conn := conn_zero\<lparr>btaddr := addr\<rparr>\<rparr> else dev s j)" for j
    using Some i assms(1) by (simp add: uni_hid_device_create_def dev_upd_dev)
  have no: "\<not> (\<not> uni_hid_device_is_virtual_device (dev s j) \<and> addr = btaddr (conn (dev s j)))" if "j < 4" for j
    using assms(1,3) that by (simp add: uni_hid_device_get_instance_for_address_def find_dev_None)
  have len: "length (g_devices ?s) = 4" using Some assms(1) by (simp add: uni_hid_device_create_def)
  have "uni_hid_device_get_instance_for_address addr ?s = Some i"
    unfolding uni_hid_device_get_instance_for_address_def find_dev_def find_Some_iff len
    using i(1) d no by (intro exI [of _ i]) (simp add: uni_hid_device_is_virtual_device_def device_zero_def)
  then show ?thesis
    using Some i d by (simp add: uni_hid_device_create_def)
qed

theorem create_then_find_witness:
  "uni_hid_device_get_instance_for_address addr_example (snd (uni_hid_device_create addr_example uni_hid_device_setup)) = Some 0"
proof -
  have "length (g_devices uni_hid_device_setup) = 4" "addr_example \<noteq> zero_addr"
      "uni_hid_device_get_instance_for_address addr_example uni_hid_device_setup = None"
    by code_simp+
  note f = create_then_find [OF this]
  have "fst (uni_hid_device_create addr_example uni_hid_device_setup) = Some 0" by code_simp
  with f show ?thesis by (cases "uni_hid_device_create addr_example uni_hid_device_setup") auto
qed

text \<open>
  A new device is found by a connection it does not have: \<open>uni_hid_device_create\<close> clears the whole
  device, so that its connection handle is 0 and not the invalid handle that
  \<open>uni_hid_device_init\<close> stores; the search for the device of connection 0, a handle a controller
  may assign, returns the unconnected device.
\<close>

lemma created_device_has_handle_0:
  "uni_hid_device_get_instance_for_connection_handle 0 uni_hid_device_setup = None \<and>
   uni_hid_device_get_instance_for_connection_handle 0 (snd (uni_hid_device_create addr_example uni_hid_device_setup)) = Some 0 \<and>
   connected (conn (dev (snd (uni_hid_device_create addr_example uni_hid_device_setup)) 0)) = False"
  by code_simp

subsection \<open>The HID descriptor\<close>

text \<open>
  The HID descriptor a device reports is stored in an array of 512 bytes. The stored length is
  limited to 512, but the copy is not: a descriptor of more than 512 bytes is written past the
  end of the array; any shorter one is stored completely and read back unchanged.
\<close>

theorem set_hid_descriptor_bounds:
  "(uni_hid_device_set_hid_descriptor descr d = None \<longleftrightarrow> 512 < length descr) \<and>
   (length descr \<le> 512 \<longrightarrow> (\<exists>d'. uni_hid_device_set_hid_descriptor descr d = Some d' \<and>
      take (hid_descriptor_len d') (hid_descriptor d') = descr \<and> uni_hid_device_has_hid_descriptor d'))"
proof -
  have "bit (w OR 0x400) 10" for w :: u32w by (simp add: bit_or_iff)
  then have "(w OR 0x400) AND 0x400 \<noteq> 0" for w :: u32w
    using and_pow2 [of "w OR 0x400" 10] by simp
  then show ?thesis
    by (auto simp: uni_hid_device_set_hid_descriptor_def HID_MAX_DESCRIPTOR_LEN_def
        uni_hid_device_has_hid_descriptor_def set_flag_def)
qed

theorem set_hid_descriptor_bounds_witness:
  "uni_hid_device_set_hid_descriptor (replicate 600 0) device_init = None \<and>
   (\<exists>d'. uni_hid_device_set_hid_descriptor [5, 1] device_init = Some d' \<and>
      take (hid_descriptor_len d') (hid_descriptor d') = [5, 1])"
  using set_hid_descriptor_bounds [of "replicate 600 0" device_init] set_hid_descriptor_bounds [of "[5, 1]" device_init]
  by auto

subsection \<open>The system button\<close>

text \<open>The number of times the button goes down in a sequence of reports.\<close>

fun presses :: "bool \<Rightarrow> u8 list \<Rightarrow> nat" where
  "presses held [] = 0"
| "presses held (m # ms) = (let down = bit m 0 in (if down \<and> \<not> held then 1 else 0) + presses down ms)"

lemma misc_system_step:
  assumes "i < length (g_devices s)" "\<not> requires_delay (controller_type (dev s i))"
  shows "let s' = process_misc_button_system m i s; held = bit (misc_button_wait_release (dev s i)) 0 in
     i < length (g_devices s') \<and> controller_type (dev s' i) = controller_type (dev s i) \<and>
     bit (misc_button_wait_release (dev s' i)) 0 = bit m 0 \<and>
     events s' = events s @ replicate (if bit m 0 \<and> \<not> held then 1 else 0) (On_oob_system_button i)"
proof -
  have m: "m AND 1 = 0 \<longleftrightarrow> \<not> bit m 0" for m :: u8 using and_pow2 [of m 0] by auto
  have r: "r AND 1 = 0 \<longleftrightarrow> \<not> bit r 0" for r :: u32w using and_pow2 [of r 0] by auto
  have e: "events (upd_dev i f s) = events s" for f by (simp add: upd_dev_def)
  show ?thesis
    using assms
    by (simp add: process_misc_button_system_def Let_def m r dev_upd_dev e bit_and_iff bit_or_iff bit_not_iff)
qed

text \<open>
  The system button raises exactly one event per press. For every controller but the Nintendo
  Switch ones, over every sequence of reports, the number of system-button events is the number
  of times the button goes from released to pressed, however long it is held.
\<close>

theorem system_button_once_per_press:
  assumes "i < length (g_devices s)" "\<not> requires_delay (controller_type (dev s i))"
  shows "events (fold (\<lambda>m. process_misc_button_system m i) ms s) =
     events s @ replicate (presses (bit (misc_button_wait_release (dev s i)) 0) ms) (On_oob_system_button i)"
  using assms
proof (induction ms arbitrary: s)
  case (Cons m ms)
  note step = misc_system_step [OF Cons.prems, of m, unfolded Let_def]
  then have "events (fold (\<lambda>m. process_misc_button_system m i) ms (process_misc_button_system m i s)) =
      events (process_misc_button_system m i s) @ replicate (presses (bit m 0) ms) (On_oob_system_button i)"
    using Cons.IH [of "process_misc_button_system m i s"] Cons.prems by simp
  then show ?case using step by (auto simp: Let_def replicate_add)
qed simp

theorem system_button_once_per_press_witness:
  "events (fold (\<lambda>m. process_misc_button_system m 0) [1, 1, 0, 1, 1, 1, 0] uni_hid_device_setup) =
     [On_oob_system_button 0, On_oob_system_button 0]"
proof -
  have "0 < length (g_devices uni_hid_device_setup)" "\<not> requires_delay (controller_type (dev uni_hid_device_setup 0))"
      "bit (misc_button_wait_release (dev uni_hid_device_setup 0)) 0 = False" "events uni_hid_device_setup = []"
    by code_simp+
  then show ?thesis using system_button_once_per_press [of 0 uni_hid_device_setup "[1, 1, 0, 1, 1, 1, 0]"]
    by (simp add: Let_def numeral_2_eq_2)
qed

definition switch_pressed :: hid_state where
  "switch_pressed = process_misc_button_system 1 0 (upd_dev 0 (\<lambda>d. d\<lparr>controller_type := CONTROLLER_TYPE_SwitchProController\<rparr>)
     (snd (uni_hid_device_create addr_example uni_hid_device_setup)))"

text \<open>
  Deleting a device leaves a timer behind. For a Switch controller a press of the system button
  arms the 200 ms delay timer that lies in the device; deleting the device removes its connection
  timer only, so that the delay timer is still in the run loop while the slot it lies in has been
  cleared and is free for the next device.
\<close>

theorem delete_leaves_delay_timer:
  "case disconnect_and_delete 2 (\<lambda>_. GAP_CONNECTION_ACL) 0 switch_pressed of
     None \<Rightarrow> False
   | Some s' \<Rightarrow> is_free (dev s' 0) \<and> timers s' = {(Misc_button_delay_timer, 0)}"
  by code_simp

end
