(* ===== verification/Allowlist.thy ===== *)
theory Allowlist
  imports BtAddr
begin

text \<open>
  The allow list, \<^verbatim>\<open>bluepad32/bt/uni_bt_allowlist.c\<close>: a table of four addresses, free where the
  address is zero, kept in flash as a string of printed addresses, each followed by a comma.
  The two properties in flash are part of the state; whether flash can be written is the argument
  \<open>nvs\<close> of the operations that write. \<open>None\<close> is a write past the 128 bytes of the string buffer.
\<close>

definition CONFIG_BLUEPAD32_MAX_ALLOWLIST :: nat where "CONFIG_BLUEPAD32_MAX_ALLOWLIST = 4"

record allowlist =
  addr_allow_list :: "bd_addr list"
  enforced :: bool
  prop_list :: "string option"
  prop_enabled :: bool

definition list_to_str :: "bd_addr list \<Rightarrow> string" where
  "list_to_str l = concat (map (\<lambda>a. if a = zero_addr then [] else bd_addr_to_str a @ '','') l)"

definition update_allowlist_to_property :: "bool \<Rightarrow> allowlist \<Rightarrow> allowlist option" where
  "update_allowlist_to_property nvs s =
     (if 128 \<le> length (list_to_str (addr_allow_list s)) then None
      else Some (if nvs then s\<lparr>prop_list := Some (list_to_str (addr_allow_list s))\<rparr> else s))"

definition is_address_in_allowlist :: "bd_addr \<Rightarrow> allowlist \<Rightarrow> bool" where
  "is_address_in_allowlist addr s \<longleftrightarrow> addr \<in> set (addr_allow_list s)"

definition uni_bt_allowlist_is_allowed_addr :: "bd_addr \<Rightarrow> allowlist \<Rightarrow> bool" where
  "uni_bt_allowlist_is_allowed_addr addr s \<longleftrightarrow> \<not> enforced s \<or> is_address_in_allowlist addr s"

text \<open>The loops over the table: the first slot that holds an address gets another one.\<close>

fun replace_first :: "bd_addr \<Rightarrow> bd_addr \<Rightarrow> bd_addr list \<Rightarrow> bd_addr list option" where
  "replace_first old new [] = None"
| "replace_first old new (a # l) = (if a = old then Some (new # l) else map_option ((#) a) (replace_first old new l))"

definition uni_bt_allowlist_add_addr :: "bool \<Rightarrow> bd_addr \<Rightarrow> allowlist \<Rightarrow> (bool \<times> allowlist) option" where
  "uni_bt_allowlist_add_addr nvs addr s =
     (if is_address_in_allowlist addr s then Some (False, s)
      else (case replace_first zero_addr addr (addr_allow_list s) of
          None \<Rightarrow> Some (False, s)
        | Some l \<Rightarrow> map_option (Pair True) (update_allowlist_to_property nvs (s\<lparr>addr_allow_list := l\<rparr>))))"

definition uni_bt_allowlist_remove_addr :: "bool \<Rightarrow> bd_addr \<Rightarrow> allowlist \<Rightarrow> (bool \<times> allowlist) option" where
  "uni_bt_allowlist_remove_addr nvs addr s =
     (case replace_first addr zero_addr (addr_allow_list s) of
        None \<Rightarrow> Some (False, s)
      | Some l \<Rightarrow> map_option (Pair True) (update_allowlist_to_property nvs (s\<lparr>addr_allow_list := l\<rparr>)))"

definition uni_bt_allowlist_remove_all :: "bool \<Rightarrow> allowlist \<Rightarrow> (bool \<times> allowlist) option" where
  "uni_bt_allowlist_remove_all nvs s =
     map_option (Pair True) (update_allowlist_to_property nvs
       (s\<lparr>addr_allow_list := replicate (length (addr_allow_list s)) zero_addr\<rparr>))"

definition uni_bt_allowlist_set_enabled :: "bool \<Rightarrow> bool \<Rightarrow> allowlist \<Rightarrow> allowlist" where
  "uni_bt_allowlist_set_enabled nvs en s =
     (if en \<noteq> enforced s then s\<lparr>enforced := en, prop_enabled := (if nvs then en else prop_enabled s)\<rparr> else s)"

text \<open>The loop over the stored string, 18 characters at a time. The string was read once, before the loop.\<close>

function read_addresses :: "bool \<Rightarrow> string \<Rightarrow> allowlist \<Rightarrow> allowlist option" where
  "read_addresses nvs str s =
     (if str = [] then Some s
      else (case sscanf_bd_addr str of
          None \<Rightarrow> Some s
        | Some a \<Rightarrow> (case uni_bt_allowlist_add_addr nvs a s of
              None \<Rightarrow> None
            | Some (_, s') \<Rightarrow> read_addresses nvs (drop 18 str) s')))"
  by pat_completeness auto

termination by (relation "measure (\<lambda>(nvs, str, s). length str)") auto

declare read_addresses.simps [simp del]

definition update_allowlist_from_property :: "bool \<Rightarrow> allowlist \<Rightarrow> allowlist option" where
  "update_allowlist_from_property nvs s = (case prop_list s of None \<Rightarrow> Some s | Some str \<Rightarrow> read_addresses nvs str s)"

definition uni_bt_allowlist_init :: "bool \<Rightarrow> allowlist \<Rightarrow> allowlist option" where
  "uni_bt_allowlist_init nvs s = update_allowlist_from_property nvs (s\<lparr>enforced := prop_enabled s\<rparr>)"

text \<open>A restart: RAM is cleared, flash stays.\<close>

definition restarted :: "allowlist \<Rightarrow> allowlist" where
  "restarted s = s\<lparr>addr_allow_list := replicate CONFIG_BLUEPAD32_MAX_ALLOWLIST zero_addr, enforced := False\<rparr>"

subsection \<open>The invariant of the table\<close>

definition allowed :: "bd_addr list \<Rightarrow> bd_addr list" where
  "allowed l = filter (\<lambda>a. a \<noteq> zero_addr) l"

definition list_ok :: "bd_addr list \<Rightarrow> bool" where
  "list_ok l \<longleftrightarrow> length l = 4 \<and> list_all (\<lambda>a. length a = 6) l \<and> distinct (allowed l)"

definition allowlist_inv :: "allowlist \<Rightarrow> bool" where
  "allowlist_inv s \<longleftrightarrow> list_ok (addr_allow_list s)"

lemma length_zero_addr [simp]: "length zero_addr = 6"
  by (simp add: zero_addr_def)

lemma length_replace_first: "replace_first x y l = Some l' \<Longrightarrow> length l' = length l"
  by (induction l arbitrary: l') (auto split: if_splits)

lemma replace_first_None: "replace_first x y l = None \<longleftrightarrow> x \<notin> set l"
  by (induction l) auto

lemma set_replace_first: "replace_first x y l = Some l' \<Longrightarrow> set l' \<subseteq> insert y (set l)"
  by (induction l arbitrary: l') (auto split: if_splits)

lemma replace_first_all: "replace_first x y l = Some l' \<Longrightarrow> list_all P l \<Longrightarrow> P y \<Longrightarrow> list_all P l'"
  using set_replace_first by (fastforce simp: list_all_iff)

lemma allowed_add:
  assumes "replace_first zero_addr a l = Some l'" "a \<noteq> zero_addr"
  shows "\<exists>xs ys. allowed l = xs @ ys \<and> allowed l' = xs @ a # ys"
  using assms
proof (induction l arbitrary: l')
  case (Cons b l)
  show ?case
  proof (cases "b = zero_addr")
    case True
    then have "allowed (b # l) = [] @ allowed l" "allowed l' = [] @ a # allowed l"
      using Cons.prems by (auto simp: allowed_def)
    then show ?thesis by blast
  next
    case False
    then obtain l1 where "replace_first zero_addr a l = Some l1" "l' = b # l1" using Cons.prems by auto
    moreover from this obtain xs ys where "allowed l = xs @ ys" "allowed l1 = xs @ a # ys"
      using Cons.IH Cons.prems(2) by blast
    ultimately have "allowed (b # l) = (b # xs) @ ys" "allowed l' = (b # xs) @ a # ys"
      using False by (auto simp: allowed_def)
    then show ?thesis by blast
  qed
qed simp

lemma allowed_remove:
  assumes "replace_first a zero_addr l = Some l'" "distinct (allowed l)"
  shows "allowed l' = filter (\<lambda>b. b \<noteq> a) (allowed l)"
  using assms
proof (induction l arbitrary: l')
  case (Cons b l)
  show ?case
  proof (cases "b = a")
    case True
    then have "a = zero_addr \<or> a \<notin> set l" using Cons.prems(2) by (auto simp: allowed_def)
    then have "filter (\<lambda>b. b \<noteq> a) (allowed l) = allowed l"
      by (intro filter_True) (auto simp: allowed_def)
    then show ?thesis using True Cons.prems(1) by (auto simp: allowed_def)
  next
    case False
    then show ?thesis using Cons by (auto simp: allowed_def split: if_splits)
  qed
qed simp

lemma length_list_to_str: "list_all (\<lambda>a. length a = 6) l \<Longrightarrow> length (list_to_str l) \<le> 18 * length l"
  by (induction l) (auto simp: list_to_str_def length_bd_addr_to_str)

lemma to_property_ok:
  assumes "list_ok (addr_allow_list s)"
  shows "update_allowlist_to_property nvs s =
     Some (if nvs then s\<lparr>prop_list := Some (list_to_str (addr_allow_list s))\<rparr> else s)"
  using assms length_list_to_str [of "addr_allow_list s"]
  by (simp add: update_allowlist_to_property_def list_ok_def)


subsection \<open>Operations\<close>

datatype allow_op = Add bd_addr | Remove bd_addr | Remove_all | Set_enabled bool

fun allow_do :: "allow_op \<Rightarrow> allowlist \<Rightarrow> allowlist option" where
  "allow_do (Add a) s = map_option snd (uni_bt_allowlist_add_addr True a s)"
| "allow_do (Remove a) s = map_option snd (uni_bt_allowlist_remove_addr True a s)"
| "allow_do Remove_all s = map_option snd (uni_bt_allowlist_remove_all True s)"
| "allow_do (Set_enabled b) s = Some (uni_bt_allowlist_set_enabled True b s)"

fun allow_run :: "allow_op list \<Rightarrow> allowlist \<Rightarrow> allowlist option" where
  "allow_run [] s = Some s"
| "allow_run (x # xs) s = (case allow_do x s of None \<Rightarrow> None | Some s' \<Rightarrow> allow_run xs s')"

definition allow_start :: allowlist where
  "allow_start = \<lparr>addr_allow_list = replicate CONFIG_BLUEPAD32_MAX_ALLOWLIST zero_addr, enforced = False,
     prop_list = None, prop_enabled = False\<rparr>"

text \<open>What the operations mean: a set of at most four addresses, and the switch.\<close>

fun allow_spec :: "allow_op \<Rightarrow> bd_addr set \<times> bool \<Rightarrow> bd_addr set \<times> bool" where
  "allow_spec (Add a) (A, b) = (if a \<noteq> zero_addr \<and> card A < 4 then insert a A else A, b)"
| "allow_spec (Remove a) (A, b) = (A - {a}, b)"
| "allow_spec Remove_all (A, b) = ({}, b)"
| "allow_spec (Set_enabled e) (A, b) = (A, e)"

fun op_ok :: "allow_op \<Rightarrow> bool" where
  "op_ok (Add a) \<longleftrightarrow> length a = 6"
| "op_ok (Remove a) \<longleftrightarrow> length a = 6"
| "op_ok _ \<longleftrightarrow> True"

definition stored :: "allowlist \<Rightarrow> bool" where
  "stored s \<longleftrightarrow> list_ok (addr_allow_list s) \<and> prop_enabled s = enforced s \<and>
     (prop_list s = Some (list_to_str (addr_allow_list s)) \<or> prop_list s = None \<and> allowed (addr_allow_list s) = [])"

definition abs_list :: "allowlist \<Rightarrow> bd_addr set \<times> bool" where
  "abs_list s = (set (allowed (addr_allow_list s)), enforced s)"

lemma set_allowed: "set (allowed l) = set l - {zero_addr}"
  by (auto simp: allowed_def)

lemma card_allowed:
  assumes "list_ok l"
  shows "card (set (allowed l)) < 4 \<longleftrightarrow> zero_addr \<in> set l"
proof -
  have "card (set (allowed l)) = length (allowed l)" "length l = 4"
    using assms by (auto simp: list_ok_def distinct_card)
  moreover have "length (allowed l) < length l \<longleftrightarrow> zero_addr \<in> set l"
    unfolding allowed_def by (induction l) (auto simp: less_Suc_eq_le)
  ultimately show ?thesis by simp
qed

lemma written:
  assumes "list_ok l"
  shows "update_allowlist_to_property True (s\<lparr>addr_allow_list := l\<rparr>) =
     Some (s\<lparr>addr_allow_list := l, prop_list := Some (list_to_str l)\<rparr>)"
  using to_property_ok [of "s\<lparr>addr_allow_list := l\<rparr>" True] assms by simp

lemma add_refines:
  assumes "stored s" "length a = 6"
  shows "\<exists>s'. allow_do (Add a) s = Some s' \<and> stored s' \<and> abs_list s' = allow_spec (Add a) (abs_list s)"
proof (cases "is_address_in_allowlist a s \<or> replace_first zero_addr a (addr_allow_list s) = None")
  case True
  have ok: "list_ok (addr_allow_list s)" using assms(1) by (simp add: stored_def)
  have "allow_do (Add a) s = Some s"
    using True by (auto simp: uni_bt_allowlist_add_addr_def)
  moreover have "allow_spec (Add a) (abs_list s) = abs_list s"
    using True card_allowed [OF ok]
    by (auto simp: abs_list_def is_address_in_allowlist_def set_allowed replace_first_None)
  ultimately show ?thesis using assms(1) by metis
next
  case False
  have ok: "list_ok (addr_allow_list s)" using assms(1) by (simp add: stored_def)
  from False obtain l where l: "replace_first zero_addr a (addr_allow_list s) = Some l" by auto
  have nz: "a \<noteq> zero_addr" "zero_addr \<in> set (addr_allow_list s)" "a \<notin> set (addr_allow_list s)"
    using False l replace_first_None [of zero_addr a "addr_allow_list s"] by (auto simp: is_address_in_allowlist_def)
  obtain xs ys where xy: "allowed (addr_allow_list s) = xs @ ys" "allowed l = xs @ a # ys"
    using allowed_add [OF l nz(1)] by blast
  have "a \<notin> set (xs @ ys)" using nz(3) set_allowed [of "addr_allow_list s"] unfolding xy(1) by auto
  then have lok: "list_ok l"
    using ok xy length_replace_first [OF l] replace_first_all [OF l, of "\<lambda>a. length a = 6"] assms(2)
    by (auto simp: list_ok_def)
  have "allow_do (Add a) s = Some (s\<lparr>addr_allow_list := l, prop_list := Some (list_to_str l)\<rparr>)"
    using False l written [OF lok, of s] by (simp add: uni_bt_allowlist_add_addr_def)
  moreover have "insert a (set (allowed (addr_allow_list s))) = set (allowed l)" using xy by simp
  ultimately show ?thesis
    using lok assms(1) nz(1,2) card_allowed [OF ok]
    by (intro exI [of _ "s\<lparr>addr_allow_list := l, prop_list := Some (list_to_str l)\<rparr>"] conjI)
       (simp_all add: stored_def abs_list_def)
qed

lemma remove_refines:
  assumes "stored s" "length a = 6"
  shows "\<exists>s'. allow_do (Remove a) s = Some s' \<and> stored s' \<and> abs_list s' = allow_spec (Remove a) (abs_list s)"
proof (cases "replace_first a zero_addr (addr_allow_list s)")
  case None
  then show ?thesis
    using assms(1) replace_first_None [of a zero_addr "addr_allow_list s"]
    by (auto simp: uni_bt_allowlist_remove_addr_def abs_list_def set_allowed)
next
  case (Some l)
  have ok: "list_ok (addr_allow_list s)" using assms(1) by (simp add: stored_def)
  have rem: "allowed l = filter (\<lambda>b. b \<noteq> a) (allowed (addr_allow_list s))"
    by (rule allowed_remove [OF Some]) (use ok in \<open>simp add: list_ok_def\<close>)
  then have lok: "list_ok l"
    using ok length_replace_first [OF Some] replace_first_all [OF Some, of "\<lambda>a. length a = 6"]
    by (auto simp: list_ok_def)
  have "allow_do (Remove a) s = Some (s\<lparr>addr_allow_list := l, prop_list := Some (list_to_str l)\<rparr>)"
    using Some written [OF lok, of s] by (simp add: uni_bt_allowlist_remove_addr_def)
  then show ?thesis
    using lok assms(1) rem by (auto simp: stored_def abs_list_def)
qed

lemma remove_all_refines:
  assumes "stored s"
  shows "\<exists>s'. allow_do Remove_all s = Some s' \<and> stored s' \<and> abs_list s' = allow_spec Remove_all (abs_list s)"
proof -
  let ?l = "replicate (length (addr_allow_list s)) zero_addr"
  have "list_ok ?l" using assms by (auto simp: stored_def list_ok_def allowed_def list_all_iff)
  then show ?thesis
    using assms written [of ?l s]
    by (auto simp: uni_bt_allowlist_remove_all_def stored_def abs_list_def set_allowed)
qed

lemma allow_do_refines:
  assumes "stored s" "op_ok x"
  shows "\<exists>s'. allow_do x s = Some s' \<and> stored s' \<and> abs_list s' = allow_spec x (abs_list s)"
proof (cases x)
  case (Set_enabled b)
  then show ?thesis using assms by (auto simp: uni_bt_allowlist_set_enabled_def stored_def abs_list_def)
qed (use assms add_refines remove_refines remove_all_refines in simp_all)

lemma allow_run_refines:
  "stored s \<Longrightarrow> list_all op_ok xs \<Longrightarrow>
   \<exists>s'. allow_run xs s = Some s' \<and> stored s' \<and> abs_list s' = fold allow_spec xs (abs_list s)"
proof (induction xs arbitrary: s)
  case (Cons x xs)
  obtain s1 where s1: "allow_do x s = Some s1" "stored s1" "abs_list s1 = allow_spec x (abs_list s)"
    using allow_do_refines Cons.prems by fastforce
  then show ?case using Cons.IH [OF s1(2)] Cons.prems(2) by simp
qed simp

subsection \<open>Restart\<close>

lemma list_to_str_allowed: "list_to_str l = concat (map (\<lambda>a. bd_addr_to_str a @ '','') (allowed l))"
  by (induction l) (auto simp: list_to_str_def allowed_def)

lemma replace_first_skip:
  "zero_addr \<notin> set pre \<Longrightarrow> replace_first zero_addr a (pre @ zero_addr # post) = Some (pre @ a # post)"
  by (induction pre) auto

lemma add_at_end:
  assumes "zero_addr \<notin> set pre" "a \<notin> set pre" "a \<noteq> zero_addr" "addr_allow_list s = pre @ replicate (Suc k) zero_addr"
    and "list_ok (pre @ a # replicate k zero_addr)"
  shows "uni_bt_allowlist_add_addr True a s = Some (True, s\<lparr>addr_allow_list := pre @ a # replicate k zero_addr,
     prop_list := Some (list_to_str (pre @ a # replicate k zero_addr))\<rparr>)"
proof -
  have "\<not> is_address_in_allowlist a s"
    using assms(2,3,4) by (auto simp: is_address_in_allowlist_def)
  then show ?thesis
    using replace_first_skip [OF assms(1), of a "replicate k zero_addr"] assms(4) written [OF assms(5), of s]
    by (simp add: uni_bt_allowlist_add_addr_def)
qed

lemma read_printed:
  assumes "addr_allow_list s = pre @ replicate (length as + k) zero_addr" "length pre + length as + k = 4"
    and "distinct (pre @ as)" "zero_addr \<notin> set (pre @ as)" "list_all (\<lambda>a. length a = 6) (pre @ as)"
  shows "\<exists>s'. read_addresses True (concat (map (\<lambda>a. bd_addr_to_str a @ '','') as)) s = Some s' \<and>
     addr_allow_list s' = pre @ as @ replicate k zero_addr \<and> enforced s' = enforced s"
  using assms
proof (induction as arbitrary: pre s)
  case Nil
  then show ?case by (subst read_addresses.simps) simp
next
  case (Cons a as)
  let ?l = "pre @ a # replicate (length as + k) zero_addr"
  let ?s = "s\<lparr>addr_allow_list := ?l, prop_list := Some (list_to_str ?l)\<rparr>"
  let ?t = "concat (map (\<lambda>a. bd_addr_to_str a @ '','') as)"
  have len: "length a = 6" using Cons.prems(5) by simp
  have "filter (\<lambda>a. a \<noteq> zero_addr) pre = pre" using Cons.prems(4) by (auto simp: filter_id_conv)
  then have "list_ok ?l"
    using Cons.prems by (auto simp: list_ok_def allowed_def list_all_iff)
  then have "uni_bt_allowlist_add_addr True a s = Some (True, ?s)"
    using add_at_end [of pre a s "length as + k"] Cons.prems by auto
  moreover have "sscanf_bd_addr (bd_addr_to_str a @ '','' @ ?t) = Some a" by (rule bd_addr_roundtrip [OF len])
  moreover have "drop 18 (bd_addr_to_str a @ '','' @ ?t) = ?t" using length_bd_addr_to_str [OF len] by simp
  moreover have "bd_addr_to_str a @ '','' @ ?t \<noteq> []" by simp
  ultimately have "read_addresses True (bd_addr_to_str a @ '','' @ ?t) s = read_addresses True ?t ?s"
    by (subst read_addresses.simps) simp
  moreover have "\<exists>s'. read_addresses True ?t ?s = Some s' \<and>
      addr_allow_list s' = (pre @ [a]) @ as @ replicate k zero_addr \<and> enforced s' = enforced ?s"
    by (rule Cons.IH) (use Cons.prems in auto)
  ultimately show ?case by simp
qed

lemma restart_restores:
  assumes "stored s"
  shows "\<exists>s'. uni_bt_allowlist_init True (restarted s) = Some s' \<and> abs_list s' = abs_list s"
proof (cases "prop_list s")
  case None
  then show ?thesis
    using assms by (auto simp: stored_def uni_bt_allowlist_init_def update_allowlist_from_property_def restarted_def
        abs_list_def set_allowed)
next
  case (Some str)
  let ?as = "allowed (addr_allow_list s)"
  let ?s = "(restarted s)\<lparr>enforced := prop_enabled s\<rparr>"
  have str: "str = concat (map (\<lambda>a. bd_addr_to_str a @ '','') ?as)" and ok: "list_ok (addr_allow_list s)"
      and en: "prop_enabled s = enforced s"
    using assms Some list_to_str_allowed by (auto simp: stored_def)
  have "length ?as \<le> 4" using ok length_filter_le [of "\<lambda>a. a \<noteq> zero_addr" "addr_allow_list s"]
    by (simp add: list_ok_def allowed_def)
  then have "\<exists>s'. read_addresses True str ?s = Some s' \<and>
      addr_allow_list s' = [] @ ?as @ replicate (4 - length ?as) zero_addr \<and> enforced s' = enforced ?s"
    unfolding str
    by (intro read_printed)
       (use ok in \<open>auto simp: restarted_def CONFIG_BLUEPAD32_MAX_ALLOWLIST_def list_ok_def set_allowed list_all_iff\<close>)
  then obtain s' where s': "read_addresses True str ?s = Some s'"
      "addr_allow_list s' = ?as @ replicate (4 - length ?as) zero_addr" "enforced s' = prop_enabled s"
    by auto
  have "set (allowed (addr_allow_list s')) = set ?as" unfolding s'(2) by (auto simp: set_allowed)
  then show ?thesis
    using s' Some en
    by (simp add: uni_bt_allowlist_init_def update_allowlist_from_property_def restarted_def abs_list_def)
qed

text \<open>
  C14. The allow list does what it says and survives a restart: over every sequence of additions,
  removals and switches, no string is written past its buffer, the table holds exactly the set of at most four
  addresses that the operations describe, and after a restart the list read back from flash allows the
  same addresses.
\<close>

theorem allowlist_survives_restart:
  assumes "list_all op_ok ops"
  shows "\<exists>s s'. allow_run ops allow_start = Some s \<and> abs_list s = fold allow_spec ops ({}, False) \<and>
     uni_bt_allowlist_init True (restarted s) = Some s' \<and> abs_list s' = abs_list s \<and>
     (addr \<noteq> zero_addr \<longrightarrow> uni_bt_allowlist_is_allowed_addr addr s' = uni_bt_allowlist_is_allowed_addr addr s)"
proof -
  have "stored allow_start" "abs_list allow_start = ({}, False)"
    by (auto simp: stored_def allow_start_def list_ok_def allowed_def abs_list_def CONFIG_BLUEPAD32_MAX_ALLOWLIST_def
        list_all_iff)
  then obtain s where s: "allow_run ops allow_start = Some s" "stored s" "abs_list s = fold allow_spec ops ({}, False)"
    using allow_run_refines [OF _ assms] by metis
  then obtain s' where s': "uni_bt_allowlist_init True (restarted s) = Some s'" "abs_list s' = abs_list s"
    using restart_restores by blast
  have "addr \<noteq> zero_addr \<Longrightarrow> uni_bt_allowlist_is_allowed_addr addr s' = uni_bt_allowlist_is_allowed_addr addr s"
    using s'(2)
    by (auto simp: abs_list_def set_allowed uni_bt_allowlist_is_allowed_addr_def is_address_in_allowlist_def)
  then show ?thesis using s(1,3) s' by blast
qed

theorem allowlist_survives_restart_witness:
  "\<exists>s s'. allow_run [Add [1, 2, 3, 4, 5, 0xAB], Set_enabled True, Add [9, 9, 9, 9, 9, 9], Remove [1, 2, 3, 4, 5, 0xAB]]
      allow_start = Some s \<and> uni_bt_allowlist_init True (restarted s) = Some s' \<and>
     abs_list s' = ({[9, 9, 9, 9, 9, 9]}, True)"
proof -
  have "fold allow_spec [Add [1, 2, 3, 4, 5, 0xAB], Set_enabled True, Add [9, 9, 9, 9, 9, 9], Remove [1, 2, 3, 4, 5, 0xAB]]
      ({}, False) = ({[9, 9, 9, 9, 9, 9]}, True)"
    by (simp add: zero_addr_def insert_Diff_if)
  moreover have "list_all op_ok [Add [1, 2, 3, 4, 5, 0xAB], Set_enabled True, Add [9, 9, 9, 9, 9, 9],
      Remove [1, 2, 3, 4, 5, 0xAB]]" by simp
  ultimately show ?thesis
    using allowlist_survives_restart [of "[Add [1, 2, 3, 4, 5, 0xAB], Set_enabled True, Add [9, 9, 9, 9, 9, 9],
      Remove [1, 2, 3, 4, 5, 0xAB]]"] by metis
qed

end
