(* ===== verification/DataElement.thy ===== *)
theory DataElement
  imports Prelude
begin

text \<open>
  SDP data elements, the part of \<^verbatim>\<open>btstack/src/classic/sdp_util.c\<close> that reads them, and the loops of
  \<^verbatim>\<open>bluepad32/bt/uni_bt_sdp.c\<close> that look for HID descriptors. The memory is the buffer \<open>m\<close> of the
  attribute value and a pointer is a position in it; \<open>None\<close> is a read outside of the buffer. The lengths come from
  the remote device. A loop may trap, or run on for ever, so it has fuel and three outcomes.
\<close>

abbreviation (input) "DE_NIL \<equiv> (0 :: nat)"
abbreviation (input) "DE_STRING \<equiv> (4 :: nat)"
abbreviation (input) "DE_DES \<equiv> (6 :: nat)"
abbreviation (input) "DE_SIZE_16 \<equiv> (1 :: nat)"

definition rd :: "u8 list \<Rightarrow> nat \<Rightarrow> nat option" where
  "rd m p = (if p < length m then Some (unat (m ! p)) else None)"

definition de_get_size_type :: "u8 list \<Rightarrow> nat \<Rightarrow> nat option" where
  "de_get_size_type m p = map_option (\<lambda>h. h mod 8) (rd m p)"

definition de_get_element_type :: "u8 list \<Rightarrow> nat \<Rightarrow> nat option" where
  "de_get_element_type m p = map_option (\<lambda>h. h div 8) (rd m p)"

definition de_get_header_size :: "u8 list \<Rightarrow> nat \<Rightarrow> nat option" where
  "de_get_header_size m p = map_option (\<lambda>sz. if sz \<le> 4 then 1 else 1 + 2 ^ (sz - 5)) (de_get_size_type m p)"

definition big_endian_read_16 :: "u8 list \<Rightarrow> nat \<Rightarrow> nat option" where
  "big_endian_read_16 m p = do { a \<leftarrow> rd m p; b \<leftarrow> rd m (p + 1); Some (256 * a + b) }"

definition big_endian_read_32 :: "u8 list \<Rightarrow> nat \<Rightarrow> nat option" where
  "big_endian_read_32 m p = do { a \<leftarrow> big_endian_read_16 m p; b \<leftarrow> big_endian_read_16 m (p + 2); Some (65536 * a + b) }"

definition de_get_data_size :: "u8 list \<Rightarrow> nat \<Rightarrow> nat option" where
  "de_get_data_size m p = do {
     ty \<leftarrow> de_get_element_type m p;
     sz \<leftarrow> de_get_size_type m p;
     if sz = 5 then rd m (p + 1)
     else if sz = 6 then big_endian_read_16 m (p + 1)
     else if sz = 7 then big_endian_read_32 m (p + 1)
     else Some (if ty = DE_NIL then 0 else 2 ^ sz)
   }"

definition de_get_len :: "u8 list \<Rightarrow> nat \<Rightarrow> nat option" where
  "de_get_len m p = do {
     h \<leftarrow> de_get_header_size m p;
     d \<leftarrow> de_get_data_size m p;
     Some ((h + d) mod 2 ^ 32)
   }"

text \<open>\<open>Some None\<close> is the return value false.\<close>

definition de_element_get_uint16 :: "u8 list \<Rightarrow> nat \<Rightarrow> u16 option option" where
  "de_element_get_uint16 m p = do {
     sz \<leftarrow> de_get_size_type m p;
     if sz \<noteq> DE_SIZE_16 then Some None
     else do { h \<leftarrow> de_get_header_size m p; v \<leftarrow> big_endian_read_16 m (p + h); Some (Some (word_of_nat v)) }
   }"

subsection \<open>Iterators over a sequence\<close>

record des_iterator =
  it_element :: nat
  it_pos :: u16
  it_length :: u16

definition des_iterator_init :: "u8 list \<Rightarrow> nat \<Rightarrow> des_iterator option option" where
  "des_iterator_init m p = do {
     ty \<leftarrow> de_get_element_type m p;
     if ty \<noteq> DE_DES then Some None
     else do {
       h \<leftarrow> de_get_header_size m p;
       l \<leftarrow> de_get_len m p;
       Some (Some \<lparr>it_element = p, it_pos = word_of_nat h, it_length = word_of_nat l\<rparr>)
     }
   }"

definition des_iterator_has_more :: "des_iterator \<Rightarrow> bool" where
  "des_iterator_has_more it \<longleftrightarrow> it_pos it < it_length it"

definition des_iterator_get_element :: "des_iterator \<Rightarrow> nat" where
  "des_iterator_get_element it = it_element it + unat (it_pos it)"

definition des_iterator_get_type :: "u8 list \<Rightarrow> des_iterator \<Rightarrow> nat option" where
  "des_iterator_get_type m it = de_get_element_type m (des_iterator_get_element it)"

definition des_iterator_next :: "u8 list \<Rightarrow> des_iterator \<Rightarrow> des_iterator option" where
  "des_iterator_next m it =
     map_option (\<lambda>l. it\<lparr>it_pos := it_pos it + word_of_nat l\<rparr>) (de_get_len m (des_iterator_get_element it))"

subsection \<open>Looking for HID descriptors\<close>

datatype 'a des_result = Des_done 'a | Des_trap | Des_running

text \<open>
  The bytes that \<^verbatim>\<open>memcpy\<close> reads for a string element. \<open>collect\<close> is one turn of a loop: it appends what
  the element contributes and moves on.
\<close>

definition string_at :: "u8 list \<Rightarrow> nat \<Rightarrow> u8 list option" where
  "string_at m p = do {
     h \<leftarrow> de_get_header_size m p;
     n \<leftarrow> de_get_data_size m p;
     if p + h + n \<le> length m then Some (take n (drop (p + h) m)) else None
   }"

definition string_descriptors :: "u8 list \<Rightarrow> des_iterator \<Rightarrow> u8 list list option" where
  "string_descriptors m it = do {
     ty \<leftarrow> des_iterator_get_type m it;
     if ty \<noteq> DE_STRING then Some [] else map_option (\<lambda>d. [d]) (string_at m (des_iterator_get_element it))
   }"

fun inner_loop :: "nat \<Rightarrow> u8 list \<Rightarrow> des_iterator \<Rightarrow> u8 list list des_result" where
  "inner_loop 0 m it = Des_running"
| "inner_loop (Suc n) m it =
     (if \<not> des_iterator_has_more it then Des_done []
      else (case (string_descriptors m it, des_iterator_next m it) of
          (Some ds, Some it') \<Rightarrow> (case inner_loop n m it' of Des_done es \<Rightarrow> Des_done (ds @ es) | r \<Rightarrow> r)
        | _ \<Rightarrow> Des_trap))"

definition element_descriptors :: "nat \<Rightarrow> u8 list \<Rightarrow> des_iterator \<Rightarrow> u8 list list des_result" where
  "element_descriptors n m it =
     (case des_iterator_get_type m it of
        None \<Rightarrow> Des_trap
      | Some ty \<Rightarrow>
          if ty \<noteq> DE_DES then Des_done []
          else (case des_iterator_init m (des_iterator_get_element it) of
              Some (Some it') \<Rightarrow> inner_loop n m it'
            | _ \<Rightarrow> Des_trap))"

fun outer_loop :: "nat \<Rightarrow> nat \<Rightarrow> u8 list \<Rightarrow> des_iterator \<Rightarrow> u8 list list des_result" where
  "outer_loop k 0 m it = Des_running"
| "outer_loop k (Suc n) m it =
     (if \<not> des_iterator_has_more it then Des_done []
      else (case element_descriptors k m it of
          Des_done ds \<Rightarrow>
            (case des_iterator_next m it of
               None \<Rightarrow> Des_trap
             | Some it' \<Rightarrow> (case outer_loop k n m it' of Des_done es \<Rightarrow> Des_done (ds @ es) | r \<Rightarrow> r))
        | r \<Rightarrow> r))"

text \<open>
  The HID descriptors in an attribute value, in the order they are stored. The return value of
  \<open>des_iterator_init\<close> is not tested: a value that is no sequence leaves the iterator uninitialised.
\<close>

definition hid_descriptors :: "nat \<Rightarrow> u8 list \<Rightarrow> u8 list list des_result" where
  "hid_descriptors n m = (case des_iterator_init m 0 of Some (Some it) \<Rightarrow> outer_loop n n m it | _ \<Rightarrow> Des_trap)"

subsection \<open>Encoded elements\<close>

text \<open>An element with a 16-bit length field.\<close>

definition element16 :: "nat \<Rightarrow> u8 list \<Rightarrow> u8 list" where
  "element16 ty xs = [word_of_nat (8 * ty + 6), word_of_nat (length xs div 256), word_of_nat (length xs mod 256)] @ xs"

lemma length_element16 [simp]: "length (element16 ty xs) = length xs + 3"
  by (simp add: element16_def)

text \<open>Memory \<open>m\<close> holds \<open>xs\<close> at position \<open>p\<close>.\<close>

definition holds :: "u8 list \<Rightarrow> nat \<Rightarrow> u8 list \<Rightarrow> bool" where
  "holds m p xs \<longleftrightarrow> p + length xs \<le> length m \<and> take (length xs) (drop p m) = xs"

lemma holds_append: "holds m p (xs @ ys) \<longleftrightarrow> holds m p xs \<and> holds m (p + length xs) ys"
proof
  assume h: "holds m p (xs @ ys)"
  then have t: "take (length xs + length ys) (drop p m) = xs @ ys" by (simp add: holds_def)
  have "take (length xs) (drop p m) = take (length xs) (take (length xs + length ys) (drop p m))" by simp
  then have "take (length xs) (drop p m) = xs" using t by simp
  moreover have "take (length ys) (drop (p + length xs) m) = drop (length xs) (take (length xs + length ys) (drop p m))"
    by (simp add: take_drop add.commute add.left_commute)
  then have "take (length ys) (drop (p + length xs) m) = ys" using t by simp
  ultimately show "holds m p xs \<and> holds m (p + length xs) ys" using h by (simp add: holds_def)
next
  assume h: "holds m p xs \<and> holds m (p + length xs) ys"
  have "take (length xs + length ys) (drop p m) = take (length xs) (drop p m) @ take (length ys) (drop (length xs) (drop p m))"
    by (rule take_add)
  then show "holds m p (xs @ ys)" using h by (simp add: holds_def add.commute)
qed

lemma holds_rd: "holds m p (x # xs) \<Longrightarrow> rd m p = Some (unat x)"
  by (cases "drop p m") (auto simp: holds_def rd_def nth_via_drop)

lemma holds_nth:
  assumes "holds m p xs" "j < length xs"
  shows "rd m (p + j) = Some (unat (xs ! j))"
proof -
  have "xs ! j = take (length xs) (drop p m) ! j" using assms(1) by (simp add: holds_def)
  also have "\<dots> = m ! (p + j)" using assms unfolding holds_def by (subst nth_take) auto
  finally show ?thesis using assms by (simp add: rd_def holds_def)
qed

lemma holds_tl: "holds m p (x # xs) \<Longrightarrow> holds m (Suc p) xs"
  using holds_append [of m p "[x]" xs] by simp

lemma element16_read:
  assumes h: "holds m p (element16 ty xs)" and ty: "ty < 32" and len: "length xs < 65536"
  shows "de_get_element_type m p = Some ty" "de_get_header_size m p = Some 3"
    "de_get_data_size m p = Some (length xs)" "de_get_len m p = Some (length xs + 3)"
proof -
  have h1: "holds m p (word_of_nat (8 * ty + 6) # word_of_nat (length xs div 256) # word_of_nat (length xs mod 256) # xs)"
    using h by (simp add: element16_def)
  note h2 = holds_tl [OF h1] note h3 = holds_tl [OF h2]
  have "unat (word_of_nat (8 * ty + 6) :: u8) = 8 * ty + 6" using ty by (simp only: unat_of_nat) simp
  then have r0: "rd m p = Some (8 * ty + 6)" using holds_rd [OF h1] by simp
  have "length xs div 256 < 256" using len by simp
  then have r1: "rd m (p + 1) = Some (length xs div 256)" using holds_rd [OF h2] by (simp add: unat_of_nat)
  have r2: "rd m (p + 2) = Some (length xs mod 256)" using holds_rd [OF h3] by (simp add: unat_of_nat)
  show t: "de_get_element_type m p = Some ty" by (simp add: de_get_element_type_def r0)
  have s: "de_get_size_type m p = Some 6" unfolding de_get_size_type_def r0 by simp
  show hs: "de_get_header_size m p = Some 3" by (simp add: de_get_header_size_def s)
  have "big_endian_read_16 m (p + 1) = Some (length xs)"
    using r1 r2 by (simp add: big_endian_read_16_def numeral_2_eq_2)
  then show ds: "de_get_data_size m p = Some (length xs)" by (simp add: de_get_data_size_def t s)
  show "de_get_len m p = Some (length xs + 3)" using len by (simp add: de_get_len_def hs ds)
qed

lemma holds_drop: "holds m p (element16 ty xs) \<Longrightarrow> holds m (p + 3) xs"
  using holds_append [of m p "take 3 (element16 ty xs)" xs] by (simp add: element16_def numeral_3_eq_3)

lemma element16_string:
  assumes "holds m p (element16 ty xs)" "ty < 32" "length xs < 65536"
  shows "string_at m p = Some xs"
  using element16_read [OF assms] holds_drop [OF assms(1)] by (simp add: string_at_def holds_def)

lemma element16_init:
  assumes "holds m p (element16 DE_DES xs)" "length xs < 65536"
  shows "des_iterator_init m p = Some (Some \<lparr>it_element = p, it_pos = 3, it_length = word_of_nat (length xs + 3)\<rparr>)"
  using element16_read [OF assms(1) _ assms(2)] by (simp add: des_iterator_init_def)

text \<open>The attribute value of a HID descriptor list with one report descriptor (type 0x22).\<close>

definition descriptor_entry :: "u8 list \<Rightarrow> u8 list" where
  "descriptor_entry d = [0x08, 0x22] @ element16 DE_STRING d"

definition descriptor_list :: "u8 list \<Rightarrow> u8 list" where
  "descriptor_list d = element16 DE_DES (element16 DE_DES (descriptor_entry d))"

lemma length_descriptor_entry [simp]: "length (descriptor_entry d) = length d + 5"
  by (simp add: descriptor_entry_def)

lemma uint8_read:
  assumes "holds m p ([0x08, 0x22] @ xs)"
  shows "de_get_element_type m p = Some 1" "de_get_len m p = Some 2"
proof -
  have "rd m p = Some 8" using assms holds_rd [of m p "0x08" "0x22 # xs"] by simp
  then show "de_get_element_type m p = Some 1" "de_get_len m p = Some 2"
    by (simp_all add: de_get_element_type_def de_get_len_def de_get_header_size_def de_get_data_size_def
        de_get_size_type_def)
qed

text \<open>The iterators hold the length as a 16-bit word.\<close>

lemma unat_len16: "n < 65536 \<Longrightarrow> unat (word_of_nat n :: u16) = n"
  by (simp add: unat_of_nat)

lemma inner_descriptor:
  assumes h: "holds m p (element16 DE_DES (descriptor_entry d))" and len: "length d \<le> 501" and L: "L = word_of_nat (length d + 8)"
  shows "inner_loop (Suc (Suc (Suc n))) m \<lparr>it_element = p, it_pos = 3, it_length = L\<rparr> = Des_done [d]"
proof -
  let ?it = "\<lparr>it_element = p, it_pos = 3, it_length = L\<rparr>"
  let ?it1 = "\<lparr>it_element = p, it_pos = 5, it_length = L\<rparr>"
  let ?it2 = "\<lparr>it_element = p, it_pos = L, it_length = L\<rparr>"
  have e: "holds m (p + 3) ([0x08, 0x22] @ element16 DE_STRING d)"
    using holds_drop [OF h] by (simp add: descriptor_entry_def)
  then have "holds m (p + 3 + length [0x08 :: u8, 0x22]) (element16 DE_STRING d)" using holds_append by blast
  then have s: "holds m (p + 5) (element16 DE_STRING d)" by (simp add: numeral_Bit1)
  have u: "unat L = length d + 8" unfolding L by (rule unat_len16) (use len in simp)
  have more: "des_iterator_has_more ?it" "des_iterator_has_more ?it1" "\<not> des_iterator_has_more ?it2"
    using u by (simp_all add: des_iterator_has_more_def word_less_nat_alt)
  have 0: "string_descriptors m ?it = Some []" "des_iterator_next m ?it = Some ?it1"
    using uint8_read [OF e]
    by (simp_all add: string_descriptors_def des_iterator_get_type_def des_iterator_get_element_def des_iterator_next_def)
  have "(5 :: u16) + word_of_nat (length d + 3) = L" by (simp add: L)
  then have 1: "string_descriptors m ?it1 = Some [d]" "des_iterator_next m ?it1 = Some ?it2"
    using element16_read [OF s] element16_string [OF s] len
    by (simp_all add: string_descriptors_def des_iterator_get_type_def des_iterator_get_element_def des_iterator_next_def)
  show ?thesis by (simp add: more 0 1)
qed

text \<open>
  The report descriptor that a device publishes is found: whatever the rest of the buffer holds from
  earlier attributes, the loops end after three turns and deliver exactly the descriptor.
\<close>

lemma hid_descriptors_published:
  assumes h: "holds m 0 (descriptor_list d)" and len: "length d \<le> 501"
  shows "hid_descriptors (Suc (Suc (Suc n))) m = Des_done [d]"
proof -
  define L :: u16 where "L = word_of_nat (length d + 8)"
  define M :: u16 where "M = word_of_nat (length d + 11)"
  let ?x = "element16 DE_DES (descriptor_entry d)"
  let ?it = "\<lparr>it_element = 0, it_pos = 3, it_length = M\<rparr>"
  let ?it1 = "\<lparr>it_element = 0, it_pos = M, it_length = M\<rparr>"
  have h0: "holds m 0 (element16 DE_DES ?x)" using h by (simp add: descriptor_list_def)
  have h3: "holds m 3 ?x" using holds_drop [OF h0] by simp
  have i0: "des_iterator_init m 0 = Some (Some ?it)"
    using element16_init [OF h0] len unfolding M_def by (simp add: add.commute)
  have i3: "des_iterator_init m 3 = Some (Some \<lparr>it_element = 3, it_pos = 3, it_length = L\<rparr>)"
    using element16_init [OF h3] len unfolding L_def by (simp add: add.commute)
  have u: "unat M = length d + 11" unfolding M_def by (rule unat_len16) (use len in simp)
  have more: "des_iterator_has_more ?it" "\<not> des_iterator_has_more ?it1"
    using u by (simp_all add: des_iterator_has_more_def word_less_nat_alt)
  have "(3 :: u16) + word_of_nat (length d + 8) = M" by (simp add: M_def)
  then have nx: "des_iterator_next m ?it = Some ?it1"
    using element16_read(4) [OF h3] len by (simp add: des_iterator_next_def des_iterator_get_element_def)
  have "element_descriptors (Suc (Suc (Suc n))) m ?it = Des_done [d]"
    using element16_read(1) [OF h3] len i3 inner_descriptor [OF h3 len L_def, of n]
    by (simp add: element_descriptors_def des_iterator_get_type_def des_iterator_get_element_def)
  then show ?thesis by (simp add: hid_descriptors_def i0 more nx)
qed

text \<open>
  A sequence with an element of length \<open>2\<^sup>3\<^sup>2 - 5\<close>: with its header of five bytes the length wraps around to
  0, and the loop never gets past the element.
\<close>

definition endless_list :: "u8 list" where
  "endless_list = [0x35, 5, 0x0f, 0xff, 0xff, 0xff, 0xfb]"

lemma outer_loop_endless:
  assumes "holds m 0 endless_list"
  shows "outer_loop k n m \<lparr>it_element = 0, it_pos = 2, it_length = 7\<rparr> = Des_running"
proof (induction n)
  case (Suc n)
  let ?it = "\<lparr>it_element = 0, it_pos = 2, it_length = 7\<rparr>"
  have "rd m j = Some (unat (endless_list ! j))" if "j < 7" for j
    using holds_nth [OF assms, of j] that by (simp add: endless_list_def)
  from this [of 2] this [of 3] this [of 4] this [of 5] this [of 6]
  have r: "rd m 2 = Some 15" "rd m 3 = Some 255" "rd m 4 = Some 255" "rd m 5 = Some 255" "rd m 6 = Some 251"
    by (simp_all add: endless_list_def)
  have el: "des_iterator_get_element ?it = 2" by (simp add: des_iterator_get_element_def)
  have ty: "de_get_element_type m 2 = Some 1" by (simp add: de_get_element_type_def r)
  have sz: "de_get_size_type m 2 = Some 7" by (simp add: de_get_size_type_def r)
  have "big_endian_read_32 m 3 = Some 4294967291"
    by (simp add: big_endian_read_32_def big_endian_read_16_def r)
  then have "de_get_len m 2 = Some 0"
    by (simp add: de_get_len_def de_get_header_size_def de_get_data_size_def ty sz)
  then have "des_iterator_next m ?it = Some ?it"
    by (simp add: des_iterator_next_def el)
  moreover have "element_descriptors k m ?it = Des_done []"
    by (simp add: element_descriptors_def des_iterator_get_type_def el ty)
  moreover have "des_iterator_has_more ?it" by (simp add: des_iterator_has_more_def)
  ultimately show ?case using Suc by simp
qed simp

lemma hid_descriptors_endless:
  assumes "holds m 0 endless_list"
  shows "hid_descriptors n m = Des_running"
proof -
  have "rd m 0 = Some 0x35" "rd m 1 = Some 5"
    using holds_nth [OF assms, of 0] holds_nth [OF assms, of 1] by (simp_all add: endless_list_def)
  then have "des_iterator_init m 0 = Some (Some \<lparr>it_element = 0, it_pos = 2, it_length = 7\<rparr>)"
    by (simp add: des_iterator_init_def de_get_element_type_def de_get_header_size_def de_get_len_def
        de_get_data_size_def de_get_size_type_def)
  then show ?thesis using outer_loop_endless [OF assms] by (simp add: hid_descriptors_def)
qed

end
