(* ===== verification/BredrConn.thy ===== *)
theory BredrConn
  imports HidTable Allowlist DataElement
begin

text \<open>
  Connecting a Bluetooth Classic controller: the state machine and the event handlers of
  \<^verbatim>\<open>bluepad32/bt/uni_bt_bredr.c\<close>, the SDP queries of \<^verbatim>\<open>bt/uni_bt_sdp.c\<close>, and the disconnection handler of
  \<^verbatim>\<open>bt/uni_bt.c\<close>. The state is the device table together with the static variables of the SDP
  client: the device a query runs for, the query's timer with the device it was started for, and the attribute
  buffer. What the stack and the platform answer while one event is handled is the record
  \<open>bt_env\<close>; the calls themselves are recorded as events. A handler returns \<open>None\<close> when it leaves defined behaviour.
\<close>

record bt_state =
  hid :: hid_state
  sdp_attribute_value :: "u8 list"
  sdp_device :: "nat option"
  sdp_query_timer :: "nat option"
  allow :: allowlist
  bt_allow_incoming_connections :: bool

record bt_env =
  env_gap :: "nat \<Rightarrow> gap_connection_type"
  env_accepts :: bool
  env_l2cap :: "u8 \<times> u16"
  env_sdp :: u8

abbreviation (input) "PSM_HID_CONTROL \<equiv> (0x11 :: u16)"
abbreviation (input) "PSM_HID_INTERRUPT \<equiv> (0x13 :: u16)"
abbreviation (input) "SERVICE_PNP_INFORMATION \<equiv> (0x1200 :: u16)"
abbreviation (input) "SERVICE_HUMAN_INTERFACE_DEVICE \<equiv> (0x1124 :: u16)"
abbreviation (input) "UNI_BT_CLOCK_OFFSET_VALID \<equiv> (0x8000 :: u16)"

definition on_hid :: "(hid_state \<Rightarrow> hid_state) \<Rightarrow> bt_state \<Rightarrow> bt_state" where
  "on_hid f s = s\<lparr>hid := f (hid s)\<rparr>"

abbreviation dv :: "bt_state \<Rightarrow> nat \<Rightarrow> uni_hid_device" where
  "dv s i \<equiv> dev (hid s) i"

definition upd_conn :: "nat \<Rightarrow> (uni_bt_conn \<Rightarrow> uni_bt_conn) \<Rightarrow> hid_state \<Rightarrow> hid_state" where
  "upd_conn i f = upd_dev i (\<lambda>d. d\<lparr>conn := f (conn d)\<rparr>)"

definition drop_device :: "bt_env \<Rightarrow> nat \<Rightarrow> bt_state \<Rightarrow> bt_state option" where
  "drop_device E i s = map_option (\<lambda>h. s\<lparr>hid := h\<rparr>) (disconnect_and_delete 2 (env_gap E) i (hid s))"

definition make_ready :: "bt_env \<Rightarrow> nat \<Rightarrow> bt_state \<Rightarrow> bt_state option" where
  "make_ready E i s = map_option (\<lambda>h. s\<lparr>hid := h\<rparr>) (uni_hid_device_set_ready 2 (env_gap E) (env_accepts E) i (hid s))"

definition l2cap_create_control_connection :: "bt_env \<Rightarrow> nat \<Rightarrow> bt_state \<Rightarrow> bt_state" where
  "l2cap_create_control_connection E i s =
     (let s1 = on_hid (emit (L2cap_create_channel (btaddr (conn (dv s i))) PSM_HID_CONTROL)) s
      in if fst (env_l2cap E) \<noteq> 0 then s1
         else on_hid (set_state i STATE_L2CAP_CONTROL_CONNECTION_REQUESTED)
                (on_hid (upd_conn i (\<lambda>c. c\<lparr>control_cid := snd (env_l2cap E)\<rparr>)) s1))"

definition l2cap_create_interrupt_connection :: "bt_env \<Rightarrow> nat \<Rightarrow> bt_state \<Rightarrow> bt_state" where
  "l2cap_create_interrupt_connection E i s =
     (let s1 = on_hid (emit (L2cap_create_channel (btaddr (conn (dv s i))) PSM_HID_INTERRUPT)) s
      in if fst (env_l2cap E) \<noteq> 0 then s1
         else on_hid (set_state i STATE_L2CAP_INTERRUPT_CONNECTION_REQUESTED)
                (on_hid (upd_conn i (\<lambda>c. c\<lparr>interrupt_cid := snd (env_l2cap E)\<rparr>)) s1))"

subsection \<open>SDP queries\<close>

definition uni_bt_sdp_query_start_vid_pid :: "bt_env \<Rightarrow> nat \<Rightarrow> bt_state \<Rightarrow> bt_state option" where
  "uni_bt_sdp_query_start_vid_pid E i s =
     (let s1 = on_hid (emit (Sdp_client_query (btaddr (conn (dv s i))) SERVICE_PNP_INFORMATION))
            (on_hid (set_state i STATE_SDP_VENDOR_REQUESTED) s)
      in if env_sdp E \<noteq> 0 then drop_device E i s1 else Some s1)"

definition uni_bt_sdp_query_start :: "bt_env \<Rightarrow> nat \<Rightarrow> bt_state \<Rightarrow> bt_state option" where
  "uni_bt_sdp_query_start E i s =
     (if sdp_device s \<noteq> None then drop_device E i s
      else uni_bt_sdp_query_start_vid_pid E i (s\<lparr>sdp_device := Some i, sdp_query_timer := Some i\<rparr>))"

text \<open>The state machine, which these two functions call, is their first argument.\<close>

definition uni_bt_sdp_query_end :: "(nat \<Rightarrow> bt_state \<Rightarrow> bt_state option) \<Rightarrow> nat \<Rightarrow> bt_state \<Rightarrow> bt_state option" where
  "uni_bt_sdp_query_end fsm i s =
     fsm i ((on_hid (set_state i STATE_SDP_HID_DESCRIPTOR_FETCHED) s)\<lparr>sdp_device := None, sdp_query_timer := None\<rparr>)"

definition uni_bt_sdp_query_start_hid_descriptor ::
    "(nat \<Rightarrow> bt_state \<Rightarrow> bt_state option) \<Rightarrow> bt_env \<Rightarrow> nat \<Rightarrow> bt_state \<Rightarrow> bt_state option" where
  "uni_bt_sdp_query_start_hid_descriptor fsm E i s =
     (if \<not> uni_hid_device_does_require_hid_descriptor (dv s i) then uni_bt_sdp_query_end fsm i s
      else if sdp_device s = None then Some s
      else
        let s1 = on_hid (emit (Sdp_client_query (btaddr (conn (dv s i))) SERVICE_HUMAN_INTERFACE_DEVICE))
              (on_hid (set_state i STATE_SDP_HID_DESCRIPTOR_REQUESTED) s)
        in if env_sdp E \<noteq> 0 then drop_device E i (s1\<lparr>sdp_query_timer := None\<rparr>) else Some s1)"

text \<open>The handler of the query's timer; \<open>i\<close> is the device in the timer's context.\<close>

definition sdp_query_timeout :: "nat \<Rightarrow> bt_state \<Rightarrow> bt_state" where
  "sdp_query_timeout i s = (case sdp_device s of
      None \<Rightarrow> s
    | Some j \<Rightarrow> if i \<noteq> j then s else s\<lparr>sdp_device := None\<rparr>)"

subsection \<open>The state machine\<close>

definition request_name :: "nat \<Rightarrow> bt_state \<Rightarrow> bt_state" where
  "request_name i s =
     (let c = conn (dv s i);
          req = (if clock_offset c AND UNI_BT_CLOCK_OFFSET_VALID \<noteq> 0
                 then Remote_name_request (btaddr c) (page_scan_repetition_mode c) (clock_offset c)
                 else Remote_name_request (btaddr c) 0x02 0x0000)
      in on_hid (add_timer Inquiry_remote_name_timer i) (on_hid (set_state i STATE_REMOTE_NAME_INQUIRED) (on_hid (emit req) s)))"

definition name_fetched :: "bt_env \<Rightarrow> nat \<Rightarrow> bt_state \<Rightarrow> bt_state option" where
  "name_fetched E i s =
     (if dev_name (dv s i) = ''Wireless Controller''
      then uni_bt_sdp_query_start E i (on_hid (upd_dev i (\<lambda>d. d\<lparr>sdp_query_type := SDP_QUERY_BEFORE_CONNECT\<rparr>)) s)
      else do {
        (match, d) \<leftarrow> uni_hid_device_guess_controller_type_from_name (dev_name (dv s i)) (dv s i);
        let s1 = on_hid (upd_dev i (\<lambda>_. d)) s;
        let s2 = (if match then on_hid (set_state i STATE_SDP_HID_DESCRIPTOR_FETCHED)
              (on_hid (upd_dev i (\<lambda>d. d\<lparr>sdp_query_type := SDP_QUERY_NOT_NEEDED\<rparr>)) s1) else s1);
        if incoming (conn (dv s2 i))
        then (if sdp_query_type (dv s2 i) = SDP_QUERY_NOT_NEEDED then make_ready E i s2
              else uni_bt_sdp_query_start E i s2)
        else Some (l2cap_create_control_connection E i s2)
      })"

definition descriptor_fetched :: "bt_env \<Rightarrow> nat \<Rightarrow> bt_state \<Rightarrow> bt_state option" where
  "descriptor_fetched E i s =
     (if incoming (conn (dv s i)) then make_ready E i s
      else if sdp_query_type (dv s i) = SDP_QUERY_BEFORE_CONNECT then Some (l2cap_create_control_connection E i s)
      else make_ready E i s)"

definition channels_connected :: "bt_env \<Rightarrow> nat \<Rightarrow> bt_state \<Rightarrow> bt_state option" where
  "channels_connected E i s =
     (if incoming (conn (dv s i)) then Some s
      else if conn_state (conn (dv s i)) = STATE_L2CAP_CONTROL_CONNECTED then Some (l2cap_create_interrupt_connection E i s)
      else if conn_state (conn (dv s i)) = STATE_L2CAP_INTERRUPT_CONNECTED
      then (case sdp_query_type (dv s i) of
          SDP_QUERY_AFTER_CONNECT \<Rightarrow> uni_bt_sdp_query_start E i s
        | _ \<Rightarrow> make_ready E i s)
      else Some s)"

primrec uni_bt_bredr_process_fsm :: "nat \<Rightarrow> bt_env \<Rightarrow> nat \<Rightarrow> bt_state \<Rightarrow> bt_state option" where
  "uni_bt_bredr_process_fsm 0 E i s = None"
| "uni_bt_bredr_process_fsm (Suc n) E i s =
     (let st = conn_state (conn (dv s i))
      in if \<not> uni_hid_device_has_name (dv s i) \<and> (st = STATE_DEVICE_DISCOVERED \<or> st = STATE_L2CAP_INTERRUPT_CONNECTED)
         then Some (request_name i s)
         else if st = STATE_REMOTE_NAME_FETCHED then name_fetched E i s
         else if st = STATE_SDP_VENDOR_FETCHED
         then uni_bt_sdp_query_start_hid_descriptor (uni_bt_bredr_process_fsm n E) E i s
         else if st = STATE_SDP_HID_DESCRIPTOR_FETCHED then descriptor_fetched E i s
         else channels_connected E i s)"

abbreviation bredr_fsm :: "bt_env \<Rightarrow> nat \<Rightarrow> bt_state \<Rightarrow> bt_state option" where
  "bredr_fsm \<equiv> uni_bt_bredr_process_fsm 2"

subsection \<open>Results of the queries\<close>

datatype sdp_event = Attribute_byte u16 u16 u16 u8 | Query_complete

abbreviation (input) "ATTRIBUTE_VENDOR_ID \<equiv> (0x0201 :: u16)"
abbreviation (input) "ATTRIBUTE_PRODUCT_ID \<equiv> (0x0202 :: u16)"
abbreviation (input) "ATTRIBUTE_HID_DESCRIPTOR_LIST \<equiv> (0x0206 :: u16)"

definition MAX_ATTRIBUTE_VALUE_SIZE :: nat where "MAX_ATTRIBUTE_VALUE_SIZE = 512"

text \<open>
  One byte of an attribute value arrives: \<open>Some (complete, s)\<close> tells whether it was the last one.
  The offset is not tested; \<open>None\<close> is a write outside of the buffer.
\<close>

definition store_attribute_byte :: "u16 \<Rightarrow> u16 \<Rightarrow> u8 \<Rightarrow> bt_state \<Rightarrow> (bool \<times> bt_state) option" where
  "store_attribute_byte len offset data s =
     (if unat len \<le> MAX_ATTRIBUTE_VALUE_SIZE
      then if unat offset < length (sdp_attribute_value s)
           then Some (offset + 1 = len, s\<lparr>sdp_attribute_value := (sdp_attribute_value s)[unat offset := data]\<rparr>)
           else None
      else Some (False, s))"

fun store_descriptors :: "u8 list list \<Rightarrow> uni_hid_device \<Rightarrow> uni_hid_device option" where
  "store_descriptors [] d = Some d"
| "store_descriptors (x # xs) d = Option.bind (uni_hid_device_set_hid_descriptor x d) (store_descriptors xs)"

text \<open>\<open>n\<close> bounds the loops over the attribute value: \<open>None\<close> may also mean that they have not ended.\<close>

definition uni_handle_sdp_hid_query_result :: "nat \<Rightarrow> bt_env \<Rightarrow> sdp_event \<Rightarrow> bt_state \<Rightarrow> bt_state option" where
  "uni_handle_sdp_hid_query_result n E ev s = (case sdp_device s of
      None \<Rightarrow> Some s
    | Some i \<Rightarrow> (case ev of
        Attribute_byte aid len offset data \<Rightarrow> do {
          (complete, s1) \<leftarrow> store_attribute_byte len offset data s;
          if complete \<and> aid = ATTRIBUTE_HID_DESCRIPTOR_LIST
          then (case hid_descriptors n (sdp_attribute_value s1) of
              Des_done ds \<Rightarrow> map_option (\<lambda>d. on_hid (upd_dev i (\<lambda>_. d)) s1) (store_descriptors ds (dv s1 i))
            | _ \<Rightarrow> None)
          else Some s1
        }
      | Query_complete \<Rightarrow> uni_bt_sdp_query_end (bredr_fsm E) i s))"

definition uni_handle_sdp_pid_query_result :: "bt_env \<Rightarrow> sdp_event \<Rightarrow> bt_state \<Rightarrow> bt_state option" where
  "uni_handle_sdp_pid_query_result E ev s = (case sdp_device s of
      None \<Rightarrow> Some s
    | Some i \<Rightarrow> (case ev of
        Attribute_byte aid len offset data \<Rightarrow> do {
          (complete, s1) \<leftarrow> store_attribute_byte len offset data s;
          if complete \<and> (aid = ATTRIBUTE_VENDOR_ID \<or> aid = ATTRIBUTE_PRODUCT_ID)
          then do {
            r \<leftarrow> de_element_get_uint16 (sdp_attribute_value s1) 0;
            Some (case r of
                None \<Rightarrow> s1
              | Some v \<Rightarrow> on_hid (upd_dev i (if aid = ATTRIBUTE_VENDOR_ID then uni_hid_device_set_vendor_id v
                                         else uni_hid_device_set_product_id v)) s1)
          }
          else Some s1
        }
      | Query_complete \<Rightarrow> do {
          d \<leftarrow> uni_hid_device_guess_controller_type_from_pid_vid (dv s i);
          bredr_fsm E i (on_hid (set_state i STATE_SDP_VENDOR_FETCHED) (on_hid (upd_dev i (\<lambda>_. d)) s))
        }))"

subsection \<open>Channels\<close>

definition uni_bt_bredr_on_l2cap_incoming_connection ::
    "bt_env \<Rightarrow> u16 \<Rightarrow> u16 \<Rightarrow> u16 \<Rightarrow> bd_addr \<Rightarrow> bt_state \<Rightarrow> bt_state option" where
  "uni_bt_bredr_on_l2cap_incoming_connection E psm handle channel addr s =
     (if \<not> bt_allow_incoming_connections s then Some (on_hid (emit (L2cap_decline channel)) s)
      else if \<not> uni_bt_allowlist_is_allowed_addr addr (allow s) then Some (on_hid (emit (L2cap_decline channel)) s)
      else do {
        let found = uni_hid_device_get_instance_for_address addr (hid s);
        (device, s1) \<leftarrow> (case found of
            Some i \<Rightarrow> if conn_state (conn (dv s i)) = STATE_DEVICE_READY
                      then map_option (Pair None) (drop_device E i s) else Some (Some i, s)
          | None \<Rightarrow> Some (None, s));
        if psm = PSM_HID_CONTROL then
          (let (device', h) = (case device of
               None \<Rightarrow> uni_hid_device_create addr (hid s1) | Some i \<Rightarrow> (Some i, hid s1));
               s2 = s1\<lparr>hid := h\<rparr>
           in case device' of
                None \<Rightarrow> Some (on_hid (emit (L2cap_decline channel)) s2)
              | Some i \<Rightarrow> Some (on_hid (upd_dev i (uni_hid_device_set_incoming True))
                  (on_hid (upd_conn i (\<lambda>c. c\<lparr>control_cid := channel\<rparr>))
                  (on_hid (upd_dev i (uni_hid_device_set_connection_handle handle))
                  (on_hid (emit (L2cap_accept channel)) s2)))))
        else if psm = PSM_HID_INTERRUPT then
          (case device of
             None \<Rightarrow> Some (on_hid (emit (L2cap_decline channel)) s1)
           | Some i \<Rightarrow> Some (on_hid (emit (L2cap_accept channel))
               (on_hid (upd_conn i (\<lambda>c. c\<lparr>interrupt_cid := channel\<rparr>)) s1)))
        else Some s1
      })"

definition uni_bt_bredr_on_l2cap_channel_opened ::
    "bt_env \<Rightarrow> u8 \<Rightarrow> u16 \<Rightarrow> u16 \<Rightarrow> bd_addr \<Rightarrow> bt_state \<Rightarrow> bt_state option" where
  "uni_bt_bredr_on_l2cap_channel_opened E status psm local_cid addr s =
     (case uni_hid_device_get_instance_for_address addr (hid s) of
        None \<Rightarrow> Some s
      | Some i \<Rightarrow>
          if status \<noteq> 0 then drop_device E i (on_hid (emit (Drop_link_key (btaddr (conn (dv s i))))) s)
          else
            let s1 = (if psm = PSM_HID_CONTROL
                  then on_hid (set_state i STATE_L2CAP_CONTROL_CONNECTED)
                         (on_hid (upd_conn i (\<lambda>c. c\<lparr>control_cid := local_cid\<rparr>)) s)
                  else if psm = PSM_HID_INTERRUPT
                  then on_hid (uni_hid_device_connect i)
                         (on_hid (set_state i STATE_L2CAP_INTERRUPT_CONNECTED)
                           (on_hid (upd_conn i (\<lambda>c. c\<lparr>interrupt_cid := local_cid\<rparr>)) s))
                  else s)
            in bredr_fsm E i s1)"

definition uni_bt_bredr_on_l2cap_channel_closed :: "bt_env \<Rightarrow> u16 \<Rightarrow> bt_state \<Rightarrow> bt_state option" where
  "uni_bt_bredr_on_l2cap_channel_closed E local_cid s =
     (case uni_hid_device_get_instance_for_cid local_cid (hid s) of
        None \<Rightarrow> Some s | Some i \<Rightarrow> drop_device E i s)"

text \<open>
  A data packet. \<open>parse\<close> is the report parser of the device, which turns the report into the new
  controller data; the feature reports only concern a parser's own data.
\<close>

definition uni_bt_bredr_on_l2cap_data_packet ::
    "(uni_hid_device \<Rightarrow> u8 list \<Rightarrow> uni_controller option) \<Rightarrow> gamepad_statics \<Rightarrow> u16 \<Rightarrow> u8 list \<Rightarrow> bt_state \<Rightarrow> bt_state option" where
  "uni_bt_bredr_on_l2cap_data_packet parse st channel packet s =
     (case uni_hid_device_get_instance_for_cid channel (hid s) of
        None \<Rightarrow> Some s
      | Some i \<Rightarrow>
          if length packet < 2 then Some s
          else if channel = control_cid (conn (dv s i)) then Some s
          else if channel \<noteq> interrupt_cid (conn (dv s i)) then Some s
          else if hd packet \<noteq> 0xa1 then Some s
          else do {
            c \<leftarrow> parse (dv s i) (tl packet);
            map_option (\<lambda>h. s\<lparr>hid := h\<rparr>)
              (uni_hid_device_process_controller st i (upd_dev i (\<lambda>d. d\<lparr>controller := c\<rparr>) (hid s)))
          })"

subsection \<open>Discovery and connection\<close>

definition uni_bt_bredr_on_gap_inquiry_result ::
    "bt_env \<Rightarrow> (bd_addr \<Rightarrow> string \<Rightarrow> u16 \<Rightarrow> u8 \<Rightarrow> uni_error) option \<Rightarrow> bd_addr \<Rightarrow> u8 \<Rightarrow> u16 \<Rightarrow> u32w \<Rightarrow> u8 \<Rightarrow> string \<Rightarrow>
     bt_state \<Rightarrow> bt_state option" where
  "uni_bt_bredr_on_gap_inquiry_result E platform addr psrm clk c rssi nm s =
     (if length nm > HID_MAX_NAME_LEN then None
      else if uni_hid_device_on_device_discovered (uni_bt_allowlist_is_allowed_addr addr (allow s)) addr nm (ucast c) rssi platform
              \<noteq> UNI_ERROR_SUCCESS then Some s
      else (case uni_hid_device_get_instance_for_address addr (hid s) of
          Some i \<Rightarrow> if conn_state (conn (dv s i)) = STATE_DEVICE_READY then Some s else bredr_fsm E i s
        | None \<Rightarrow> (case uni_hid_device_create addr (hid s) of
              (None, h) \<Rightarrow> Some (s\<lparr>hid := h\<rparr>)
            | (Some i, h) \<Rightarrow>
                let s1 = on_hid (upd_conn i (\<lambda>k. k\<lparr>page_scan_repetition_mode := psrm,
                           clock_offset := clk OR UNI_BT_CLOCK_OFFSET_VALID, conn_rssi := rssi\<rparr>))
                      (on_hid (upd_dev i (uni_hid_device_set_cod c))
                      (on_hid (set_state i STATE_DEVICE_DISCOVERED) (s\<lparr>hid := h\<rparr>)));
                    s2 = (if length nm > 0 \<and> \<not> uni_hid_device_has_name (dv s1 i)
                      then on_hid (set_state i STATE_REMOTE_NAME_FETCHED) (on_hid (upd_dev i (uni_hid_device_set_name nm)) s1)
                      else s1)
                in bredr_fsm E i s2)))"

definition uni_bt_bredr_on_hci_connection_request :: "bd_addr \<Rightarrow> u32w \<Rightarrow> bt_state \<Rightarrow> bt_state" where
  "uni_bt_bredr_on_hci_connection_request addr c s =
     (let (device, h) = (case uni_hid_device_get_instance_for_address addr (hid s) of
            Some i \<Rightarrow> (Some i, hid s) | None \<Rightarrow> uni_hid_device_create addr (hid s))
      in case device of
           None \<Rightarrow> s\<lparr>hid := h\<rparr>
         | Some i \<Rightarrow> on_hid (upd_dev i (uni_hid_device_set_incoming True))
             (on_hid (upd_dev i (uni_hid_device_set_cod c)) (s\<lparr>hid := h\<rparr>)))"

definition uni_bt_bredr_on_hci_connection_complete :: "u8 \<Rightarrow> bd_addr \<Rightarrow> u16 \<Rightarrow> bt_state \<Rightarrow> bt_state" where
  "uni_bt_bredr_on_hci_connection_complete status addr handle s =
     (if status \<noteq> 0 then s
      else (case uni_hid_device_get_instance_for_address addr (hid s) of
          None \<Rightarrow> s
        | Some i \<Rightarrow> on_hid (upd_dev i (uni_hid_device_set_connection_handle handle)) s))"

definition on_hci_disconnection_complete :: "bt_env \<Rightarrow> u16 \<Rightarrow> bt_state \<Rightarrow> bt_state option" where
  "on_hci_disconnection_complete E handle s =
     (case uni_hid_device_get_instance_for_connection_handle handle (hid s) of
        None \<Rightarrow> Some s | Some i \<Rightarrow> drop_device E i s)"

definition uni_bt_bredr_on_hci_pin_code_request :: "bd_addr \<Rightarrow> bd_addr \<Rightarrow> bt_state \<Rightarrow> bt_state" where
  "uni_bt_bredr_on_hci_pin_code_request local_addr addr s =
     (let mouse_or_keyboard = (case uni_hid_device_get_instance_for_address addr (hid s) of
            None \<Rightarrow> False
          | Some i \<Rightarrow> cod (dv s i) AND UNI_BT_COD_MAJOR_MASK = UNI_BT_COD_MAJOR_PERIPHERAL \<and>
              cod (dv s i) AND 0xc0 \<noteq> 0)
      in on_hid (emit (Pin_code_response addr
           (if mouse_or_keyboard then [0x30, 0x30, 0x30, 0x30] else rev local_addr))) s)"

definition uni_bt_bredr_on_hci_remote_name_request_complete ::
    "bt_env \<Rightarrow> u8 \<Rightarrow> bd_addr \<Rightarrow> string \<Rightarrow> bt_state \<Rightarrow> bt_state option" where
  "uni_bt_bredr_on_hci_remote_name_request_complete E status addr nm s =
     (case uni_hid_device_get_instance_for_address addr (hid s) of
        None \<Rightarrow> Some s
      | Some i \<Rightarrow> do {
          let s1 = on_hid (upd_dev i (uni_hid_device_set_name (if status \<noteq> 0 then ''Controller without name'' else nm))) s;
          s2 \<leftarrow> (if conn_state (conn (dv s1 i)) \<in> {STATE_DEVICE_PENDING_READY, STATE_DEVICE_READY} then Some s1
                 else bredr_fsm E i (on_hid (set_state i STATE_REMOTE_NAME_FETCHED) s1));
          Some (on_hid (remove_timer Inquiry_remote_name_timer i) s2)
        })"

definition inquiry_remote_name_timeout_callback :: "bt_env \<Rightarrow> nat \<Rightarrow> bt_state \<Rightarrow> bt_state option" where
  "inquiry_remote_name_timeout_callback E i s =
     bredr_fsm E i (on_hid (set_state i STATE_REMOTE_NAME_FETCHED)
       (on_hid (upd_dev i (uni_hid_device_set_name ''Controller without name'')) s))"

end
