(* ===== verification/BredrSafe.thy ===== *)
theory BredrSafe
  imports BredrConn
begin

text \<open>
  The connection procedure is safe: over every sequence of events of the Bluetooth stack, the device
  table and the SDP client stay consistent, and every handler returns.
\<close>

named_theorems bt_inv_intros

subsection \<open>The table without virtual devices\<close>

definition physical :: "hid_state \<Rightarrow> bool" where
  "physical h \<longleftrightarrow> table_wf h \<and> (\<forall>i < 4. parent (dev h i) = None \<and> child (dev h i) = None)"

lemma physicalD: "physical h \<Longrightarrow> table_wf h" "physical h \<Longrightarrow> length (g_devices h) = 4"
    "physical h \<Longrightarrow> i < 4 \<Longrightarrow> parent (dev h i) = None" "physical h \<Longrightarrow> i < 4 \<Longrightarrow> child (dev h i) = None"
  using wf_len by (auto simp: physical_def)

lemma physical_links: "same_links h h' \<Longrightarrow> physical h \<Longrightarrow> physical h'"
  using same_links_wf by (auto simp: physical_def same_links_def)

lemma delete_one_links:
  assumes "physical h" "i < 4"
  shows "physical (delete_one i h)" "is_free (dev (delete_one i h) i)"
proof -
  have l: "length (g_devices h) = 4" using physicalD(2) [OF assms(1)] .
  have "dev (delete_one i h) j = (if j = i then device_init else dev h j)" for j
    using l assms(2) by (simp add: delete_one_def uni_hid_device_init_def dev_upd_dev)
  then show "physical (delete_one i h)" "is_free (dev (delete_one i h) i)"
    using assms delete_one_wf [of h i] physicalD [OF assms(1)] by (simp_all add: physical_def device_init_free)
qed

lemma drop_physical:
  assumes "physical h" "i < 4"
  shows "\<exists>h'. disconnect_and_delete 2 gap i h = Some h' \<and> physical h' \<and> is_free (dev h' i)"
proof -
  let ?h = "disconnect_one gap i h"
  have p: "physical ?h" using physical_links [OF disconnect_one_links assms(1)] .
  have "disconnect_and_delete 2 gap i h = Some (delete_one i ?h)"
    using physicalD(4) [OF assms] physicalD(4) [OF p assms(2)] by (simp add: disconnect_and_delete_def numeral_2_eq_2)
  then show ?thesis using delete_one_links [OF p assms(2)] by simp
qed

lemma ready_complete_physical:
  assumes "physical h" "i < 4"
  shows "\<exists>b h'. uni_hid_device_set_ready_complete 2 gap acc i h = Some (b, h') \<and> physical h'"
proof -
  let ?h = "emit (On_device_ready i) (remove_timer Connection_timer i h)"
  have "same_links h ?h" by (intro same_links_intros same_links_refl)
  then have p: "physical ?h" using physical_links assms(1) by blast
  show ?thesis
    using assms drop_physical [OF p assms(2), of gap] physical_links [OF set_state_links p]
    by (auto simp: uni_hid_device_set_ready_complete_def Let_def)
qed

lemma set_ready_physical:
  assumes "physical h" "i < 4"
  shows "\<exists>h'. uni_hid_device_set_ready 2 gap acc i h = Some h' \<and> physical h'"
proof -
  have p: "physical (set_state i STATE_DEVICE_PENDING_READY h)" using physical_links [OF set_state_links assms(1)] .
  show ?thesis
    using assms p ready_complete_physical [OF p assms(2), of gap acc]
    by (auto simp: uni_hid_device_set_ready_def Let_def)
qed

lemma create_physical:
  assumes "physical h" "addr \<noteq> zero_addr"
  shows "physical (snd (uni_hid_device_create addr h))"
    "uni_hid_device_create addr h = (Some i, h') \<Longrightarrow> i < 4"
proof -
  have l: "length (g_devices h) = 4" using physicalD(2) [OF assms(1)] .
  show "physical (snd (uni_hid_device_create addr h))"
    using assms create_wf [OF physicalD(1) [OF assms(1)] assms(2)] l
    by (auto simp: physical_def uni_hid_device_create_def dev_upd_dev device_zero_def split: option.splits dest!: find_dev_Some)
  show "i < 4" if "uni_hid_device_create addr h = (Some i, h')"
    using that l by (auto simp: uni_hid_device_create_def split: option.splits dest!: find_dev_Some)
qed

subsection \<open>The invariant of the connection procedure\<close>

definition bt_inv :: "bt_state \<Rightarrow> bool" where
  "bt_inv s \<longleftrightarrow> physical (hid s) \<and> length (sdp_attribute_value s) = MAX_ATTRIBUTE_VALUE_SIZE \<and>
     (\<forall>i. sdp_device s = Some i \<longrightarrow> i < 4) \<and> (\<forall>i. sdp_query_timer s = Some i \<longrightarrow> sdp_device s = Some i)"

definition ok :: "bt_state option \<Rightarrow> bool" where
  "ok r \<longleftrightarrow> (\<exists>s. r = Some s \<and> bt_inv s)"

lemma ok_Some [simp]: "ok (Some s) \<longleftrightarrow> bt_inv s" "\<not> ok None"
  by (simp_all add: ok_def)

lemma on_hid_simps [simp]:
  "hid (on_hid f s) = f (hid s)" "sdp_device (on_hid f s) = sdp_device s" "sdp_query_timer (on_hid f s) = sdp_query_timer s"
  "sdp_attribute_value (on_hid f s) = sdp_attribute_value s" "allow (on_hid f s) = allow s"
  by (simp_all add: on_hid_def)

lemma bt_inv_hid: "bt_inv s \<Longrightarrow> physical h \<Longrightarrow> bt_inv (s\<lparr>hid := h\<rparr>)"
  by (simp add: bt_inv_def)

lemma bt_inv_on_hid: "bt_inv s \<Longrightarrow> same_links (hid s) (f (hid s)) \<Longrightarrow> bt_inv (on_hid f s)"
  using physical_links by (auto simp: bt_inv_def)

lemma bt_inv_emit [bt_inv_intros]: "bt_inv s \<Longrightarrow> bt_inv (on_hid (emit e) s)"
  by (rule bt_inv_on_hid) (auto intro!: same_links_intros)

lemma bt_inv_state [bt_inv_intros]: "bt_inv s \<Longrightarrow> bt_inv (on_hid (set_state i st) s)"
  by (rule bt_inv_on_hid) (auto intro!: set_state_links)

lemma bt_inv_upd [bt_inv_intros]: "bt_inv s \<Longrightarrow> keeps_links f \<Longrightarrow> bt_inv (on_hid (upd_dev i f) s)"
  by (rule bt_inv_on_hid) (auto intro!: same_links_upd)

lemma bt_inv_conn [bt_inv_intros]: "bt_inv s \<Longrightarrow> (\<And>c. btaddr (f c) = btaddr c) \<Longrightarrow> bt_inv (on_hid (upd_conn i f) s)"
  unfolding upd_conn_def by (rule bt_inv_upd) (auto simp: keeps_links_def)

lemma bt_inv_timer [bt_inv_intros]:
  "bt_inv s \<Longrightarrow> bt_inv (on_hid (remove_timer t i) s)"
  "t \<noteq> Connection_timer \<Longrightarrow> bt_inv s \<Longrightarrow> bt_inv (on_hid (add_timer t i) s)"
  by (auto intro!: bt_inv_on_hid same_links_timer)

lemma bt_inv_connect [bt_inv_intros]: "bt_inv s \<Longrightarrow> bt_inv (on_hid (uni_hid_device_connect i) s)"
  by (rule bt_inv_on_hid) (auto intro!: connect_links)

text \<open>A device that a function computed from the one in the slot.\<close>

definition linked :: "uni_hid_device \<Rightarrow> uni_hid_device \<Rightarrow> bool" where
  "linked d d' \<longleftrightarrow> btaddr (conn d') = btaddr (conn d) \<and> parent d' = parent d \<and> child d' = child d"

lemma bt_inv_replace:
  assumes "bt_inv s" "i < 4" "linked (dv s i) d"
  shows "bt_inv (on_hid (upd_dev i (\<lambda>_. d)) s)"
proof (rule bt_inv_on_hid [OF assms(1)])
  have "length (g_devices (hid s)) = 4" using assms(1) physicalD(2) by (simp add: bt_inv_def)
  then show "same_links (hid s) (upd_dev i (\<lambda>_. d) (hid s))"
    using assms(2,3) by (auto simp: same_links_def dev_upd_dev is_free_def linked_def)
qed

lemma bt_inv_sdp [bt_inv_intros]:
  "bt_inv s \<Longrightarrow> i < 4 \<Longrightarrow> bt_inv (s\<lparr>sdp_device := Some i, sdp_query_timer := Some i\<rparr>)"
  "bt_inv s \<Longrightarrow> bt_inv (s\<lparr>sdp_device := None, sdp_query_timer := None\<rparr>)"
  "bt_inv s \<Longrightarrow> bt_inv (s\<lparr>sdp_query_timer := None\<rparr>)"
  by (auto simp: bt_inv_def)

lemma bt_inv_device: "bt_inv s \<Longrightarrow> sdp_device s = Some i \<Longrightarrow> i < 4"
  by (simp add: bt_inv_def)

lemma drop_ok: "bt_inv s \<Longrightarrow> i < 4 \<Longrightarrow> ok (drop_device E i s)"
  using drop_physical [of "hid s" i "env_gap E"] by (auto simp: drop_device_def bt_inv_def)

lemma ready_ok: "bt_inv s \<Longrightarrow> i < 4 \<Longrightarrow> ok (make_ready E i s)"
  using set_ready_physical [of "hid s" i "env_gap E" "env_accepts E"] by (auto simp: make_ready_def bt_inv_def)

lemma create_channel_ok:
  "bt_inv s \<Longrightarrow> bt_inv (l2cap_create_control_connection E i s)"
  "bt_inv s \<Longrightarrow> bt_inv (l2cap_create_interrupt_connection E i s)"
  unfolding l2cap_create_control_connection_def l2cap_create_interrupt_connection_def Let_def
  by (auto intro!: bt_inv_intros)

lemma query_start_ok:
  assumes "bt_inv s" "i < 4"
  shows "ok (uni_bt_sdp_query_start E i s)"
  unfolding uni_bt_sdp_query_start_def uni_bt_sdp_query_start_vid_pid_def Let_def
  using assms by (auto intro!: bt_inv_intros drop_ok)

subsection \<open>Guessing the type keeps the links and never fails\<close>

lemma linked_refl [simp]: "linked d d"
  by (simp add: linked_def)

lemma linked_trans: "linked a b \<Longrightarrow> linked b c \<Longrightarrow> linked a c"
  by (simp add: linked_def)

lemma linked_setters:
  "linked d (uni_hid_device_set_vendor_id v d)" "linked d (uni_hid_device_set_product_id p d)"
  "uni_hid_device_set_hid_descriptor x d = Some d' \<Longrightarrow> linked d d'"
  by (auto simp: linked_def uni_hid_device_set_vendor_id_def uni_hid_device_set_product_id_def set_flag_def
      uni_hid_device_set_hid_descriptor_def split: if_splits)

lemma length_xbox_descriptor: "length xbox_hid_descriptor_4_8_fw \<le> HID_MAX_DESCRIPTOR_LEN"
  by (simp add: xbox_hid_descriptor_4_8_fw_def HID_MAX_DESCRIPTOR_LEN_def)

lemma guess_by_class_linked: "\<exists>t d'. guess_by_class d = Some (t, d') \<and> linked d d'"
proof -
  have "\<exists>b d'. uni_hid_parser_xboxone_does_name_match nm d = Some (b, d') \<and> linked d d'" for nm
  proof (cases "take 25 nm = ''Xbox Wireless Controller''")
    case True
    let ?d = "uni_hid_device_set_product_id 0x02e0 (uni_hid_device_set_vendor_id 0x045e d)"
    obtain d' where d': "uni_hid_device_set_hid_descriptor xbox_hid_descriptor_4_8_fw ?d = Some d'"
      using length_xbox_descriptor by (simp add: uni_hid_device_set_hid_descriptor_def)
    have "linked d d'"
      using linked_setters(3) [OF d'] linked_setters(1,2) linked_trans by blast
    then show ?thesis using True d' by (auto simp: uni_hid_parser_xboxone_does_name_match_def)
  qed (auto simp: uni_hid_parser_xboxone_does_name_match_def)
  then obtain b d' where "uni_hid_parser_xboxone_does_name_match (dev_name d) d = Some (b, d')" "linked d d'" by blast
  then show ?thesis by (simp add: guess_by_class_def)
qed

lemma guess_type_linked: "\<exists>d'. uni_hid_device_guess_controller_type_from_pid_vid d = Some d' \<and> linked d d'"
proof -
  obtain t d1 where g: "guess_by_class d = Some (t, d1)" "linked d d1" using guess_by_class_linked by blast
  have "linked d (set_flag f (d2\<lparr>controller_subtype := a, dev_parser := p, controller_type := b\<rparr>))" if "linked d d2" for d2 f a p b
    using that by (simp add: linked_def set_flag_def)
  then show ?thesis using g by (auto simp: uni_hid_device_guess_controller_type_from_pid_vid_def Let_def)
qed

lemma linked_clone: "linked d (d\<lparr>ds3_clone_controller := b\<rparr>)"
  by (simp add: linked_def)

lemma linked_ids: "linked d d' \<Longrightarrow> linked d (uni_hid_device_set_product_id p (uni_hid_device_set_vendor_id v d'))"
  using linked_trans linked_setters(1,2) by blast

lemma ds3_match_linked: "linked d (snd (uni_hid_parser_ds3_does_name_match nm d))"
  unfolding uni_hid_parser_ds3_does_name_match_def Let_def
  by (simp only: snd_conv o_apply linked_ids linked_clone linked_refl split: if_split) simp

lemma switch_match_linked: "linked d (snd (uni_hid_parser_switch_does_name_match nm d))"
  unfolding uni_hid_parser_switch_does_name_match_def
  by (cases "map_of switch_names nm") (auto intro!: linked_ids)

lemmas name_match_linked = ds3_match_linked switch_match_linked

lemma guess_from_name_linked:
  "\<exists>b d'. uni_hid_device_guess_controller_type_from_name nm d = Some (b, d') \<and> linked d d'"
proof -
  obtain m1 d1 where 1: "uni_hid_parser_ds3_does_name_match nm d = (m1, d1)" "linked d d1"
    using name_match_linked(1) [of d nm] by (cases "uni_hid_parser_ds3_does_name_match nm d") auto
  obtain m2 d2 where 2: "(if m1 then (True, d1) else uni_hid_parser_switch_does_name_match nm d1) = (m2, d2)" "linked d1 d2"
    using name_match_linked(2) [of d1 nm]
    by (cases "uni_hid_parser_switch_does_name_match nm d1") (cases m1; auto)
  obtain d3 where 3: "uni_hid_device_guess_controller_type_from_pid_vid d2 = Some d3" "linked d2 d3"
    using guess_type_linked by blast
  have "linked d d2" "linked d d3" using 1(2) 2(2) 3(2) linked_trans by blast+
  then show ?thesis
    unfolding uni_hid_device_guess_controller_type_from_name_def 1 prod.case 2 using 3 by (cases m2) auto
qed

subsection \<open>The state machine always returns\<close>

lemma dv_state: "bt_inv s \<Longrightarrow> i < 4 \<Longrightarrow> conn_state (conn (dv (on_hid (set_state i st) s) i)) = st"
  using physicalD(2) [of "hid s"] by (simp add: bt_inv_def set_state_def dev_upd_dev uni_bt_conn_set_state_def)

lemma name_fetched_ok:
  assumes "bt_inv s" "i < 4"
  shows "ok (name_fetched E i s)"
proof -
  obtain b d where g: "uni_hid_device_guess_controller_type_from_name (dev_name (dv s i)) (dv s i) = Some (b, d)"
      "linked (dv s i) d"
    using guess_from_name_linked by blast
  have 1: "bt_inv (on_hid (upd_dev i (\<lambda>_. d)) s)" by (rule bt_inv_replace [OF assms g(2)])
  have 0: "bt_inv (on_hid (upd_dev i (\<lambda>d. d\<lparr>sdp_query_type := SDP_QUERY_BEFORE_CONNECT\<rparr>)) s)"
    using assms(1) by (auto intro!: bt_inv_intros simp: keeps_links_def)
  let ?s = "if b then on_hid (set_state i STATE_SDP_HID_DESCRIPTOR_FETCHED)
              (on_hid (upd_dev i (\<lambda>d. d\<lparr>sdp_query_type := SDP_QUERY_NOT_NEEDED\<rparr>)) (on_hid (upd_dev i (\<lambda>_. d)) s))
            else on_hid (upd_dev i (\<lambda>_. d)) s"
  have 2: "bt_inv ?s" using 1 by (auto intro!: bt_inv_intros simp: keeps_links_def)
  have "name_fetched E i s = (if dev_name (dv s i) = ''Wireless Controller''
      then uni_bt_sdp_query_start E i (on_hid (upd_dev i (\<lambda>d. d\<lparr>sdp_query_type := SDP_QUERY_BEFORE_CONNECT\<rparr>)) s)
      else if incoming (conn (dv ?s i))
      then (if sdp_query_type (dv ?s i) = SDP_QUERY_NOT_NEEDED then make_ready E i ?s else uni_bt_sdp_query_start E i ?s)
      else Some (l2cap_create_control_connection E i ?s))"
    by (simp only: name_fetched_def g(1) Option.bind.simps prod.case Let_def)
  then show ?thesis
    using query_start_ok [OF 0 assms(2)] query_start_ok [OF 2 assms(2)] ready_ok [OF 2 assms(2)] create_channel_ok(1) [OF 2]
    by (simp only: ok_Some split: if_split) blast
qed

lemma descriptor_fetched_ok: "bt_inv s \<Longrightarrow> i < 4 \<Longrightarrow> ok (descriptor_fetched E i s)"
  using ready_ok create_channel_ok(1) by (simp add: descriptor_fetched_def)

lemma channels_connected_ok: "bt_inv s \<Longrightarrow> i < 4 \<Longrightarrow> ok (channels_connected E i s)"
  using ready_ok create_channel_ok(2) query_start_ok
  by (simp add: channels_connected_def split: uni_sdp_query_type.split)

lemma request_name_ok: "bt_inv s \<Longrightarrow> bt_inv (request_name i s)"
  unfolding request_name_def Let_def by (intro bt_inv_intros) simp

lemma fsm_descriptor_fetched:
  "conn_state (conn (dv s i)) = STATE_SDP_HID_DESCRIPTOR_FETCHED \<Longrightarrow>
   uni_bt_bredr_process_fsm (Suc n) E i s = descriptor_fetched E i s"
  by simp

lemma query_end_ok:
  assumes "bt_inv s" "i < 4"
  shows "ok (uni_bt_sdp_query_end (uni_bt_bredr_process_fsm (Suc n) E) i s)"
proof -
  let ?s = "(on_hid (set_state i STATE_SDP_HID_DESCRIPTOR_FETCHED) s)\<lparr>sdp_device := None, sdp_query_timer := None\<rparr>"
  have "bt_inv ?s" using assms(1) by (intro bt_inv_intros)
  moreover have "conn_state (conn (dv ?s i)) = STATE_SDP_HID_DESCRIPTOR_FETCHED"
    using dv_state [OF assms] by simp
  ultimately show ?thesis
    unfolding uni_bt_sdp_query_end_def
    using fsm_descriptor_fetched [of ?s i n E] descriptor_fetched_ok [of ?s i E] assms(2) by (simp only:)
qed

lemma process_fsm_ok:
  assumes "bt_inv s" "i < 4"
  shows "ok (bredr_fsm E i s)"
proof -
  have "ok (uni_bt_sdp_query_start_hid_descriptor (uni_bt_bredr_process_fsm (Suc 0) E) E i s)"
    unfolding uni_bt_sdp_query_start_hid_descriptor_def Let_def
    using assms query_end_ok by (auto intro!: bt_inv_intros drop_ok)
  then show ?thesis
    using assms request_name_ok name_fetched_ok descriptor_fetched_ok channels_connected_ok
    by (simp add: numeral_2_eq_2 Let_def)
qed

subsection \<open>The handlers\<close>

lemma find_less: "physical h \<Longrightarrow> find_dev P h = Some i \<Longrightarrow> i < 4"
  using find_dev_Some physicalD(2) by fastforce

lemma instance_less:
  assumes "bt_inv s"
  shows "uni_hid_device_get_instance_for_address addr (hid s) = Some i \<Longrightarrow> i < 4"
    "uni_hid_device_get_instance_for_cid cid (hid s) = Some i \<Longrightarrow> i < 4"
    "uni_hid_device_get_instance_for_connection_handle hnd (hid s) = Some i \<Longrightarrow> i < 4"
  using assms find_less
  by (auto simp: bt_inv_def uni_hid_device_get_instance_for_address_def uni_hid_device_get_instance_for_cid_def
      uni_hid_device_get_instance_for_connection_handle_def split: if_splits)

lemma bt_inv_create:
  assumes "bt_inv s" "addr \<noteq> zero_addr" "uni_hid_device_create addr (hid s) = (r, h)"
  shows "bt_inv (s\<lparr>hid := h\<rparr>)" "r = Some i \<Longrightarrow> i < 4"
  using assms create_physical [of "hid s" addr] by (auto simp: bt_inv_def)

lemma ok_bind: "ok r \<Longrightarrow> (\<And>s. r = Some s \<Longrightarrow> bt_inv s \<Longrightarrow> ok (f s)) \<Longrightarrow> ok (Option.bind r f)"
  by (auto simp: ok_def)

lemma incoming_accepted_ok:
  assumes "bt_inv s" "i < 4"
  shows "bt_inv (on_hid (upd_dev i (uni_hid_device_set_incoming True))
      (on_hid (upd_conn i (\<lambda>c. c\<lparr>control_cid := channel\<rparr>))
      (on_hid (upd_dev i (uni_hid_device_set_connection_handle handle)) (on_hid (emit e) s))))"
  using assms(1) by (auto intro!: bt_inv_intros keeps_links_setters)

lemma incoming_ok:
  assumes s: "bt_inv s" and a: "addr \<noteq> zero_addr"
  shows "ok (uni_bt_bredr_on_l2cap_incoming_connection E psm handle channel addr s)"
proof -
  define r where "r = (case uni_hid_device_get_instance_for_address addr (hid s) of
            Some i \<Rightarrow> if conn_state (conn (dv s i)) = STATE_DEVICE_READY
                      then map_option (Pair None) (drop_device E i s) else Some (Some i, s)
          | None \<Rightarrow> Some (None, s))"
  obtain d s1 where r: "r = Some (d, s1)" and s1: "bt_inv s1" and d: "\<And>i. d = Some i \<Longrightarrow> i < 4"
  proof (cases "uni_hid_device_get_instance_for_address addr (hid s)")
    case None
    then show ?thesis using that [of None s] s by (simp add: r_def)
  next
    case (Some i)
    obtain s' where "drop_device E i s = Some s'" "bt_inv s'"
      using drop_ok [OF s instance_less(1) [OF s Some], of E] by (auto simp: ok_def)
    then show ?thesis
      using that [of None s'] that [of "Some i" s] s instance_less(1) [OF s Some] Some
      by (cases "conn_state (conn (dv s i)) = STATE_DEVICE_READY") (simp_all add: r_def)
  qed
  define c where "c = (case d of None \<Rightarrow> uni_hid_device_create addr (hid s1) | Some i \<Rightarrow> (Some i, hid s1))"
  obtain d' h where c: "c = (d', h)" by (cases c)
  have h: "bt_inv (s1\<lparr>hid := h\<rparr>)" and d': "\<And>i. d' = Some i \<Longrightarrow> i < 4"
    using bt_inv_create [OF s1 a, of d' h] s1 d c by (auto simp: c_def split: option.splits)
  show ?thesis
    unfolding uni_bt_bredr_on_l2cap_incoming_connection_def Let_def r_def [symmetric] r Option.bind.simps prod.case
      c_def [symmetric] c
    using s s1 h d' d incoming_accepted_ok [OF h]
    by (auto intro!: bt_inv_intros split: option.split)
qed

lemma opened_ok:
  assumes "bt_inv s"
  shows "ok (uni_bt_bredr_on_l2cap_channel_opened E status psm cid addr s)"
  using assms instance_less(1) [OF assms]
  by (auto simp: uni_bt_bredr_on_l2cap_channel_opened_def Let_def intro!: process_fsm_ok drop_ok bt_inv_intros split: option.split)

lemma closed_ok: "bt_inv s \<Longrightarrow> ok (uni_bt_bredr_on_l2cap_channel_closed E cid s)"
  using instance_less(2) by (auto simp: uni_bt_bredr_on_l2cap_channel_closed_def intro!: drop_ok split: option.split)

lemma disconnection_ok: "bt_inv s \<Longrightarrow> ok (on_hci_disconnection_complete E hnd s)"
  using instance_less(3) by (auto simp: on_hci_disconnection_complete_def intro!: drop_ok split: option.split)

lemma process_controller_total:
  "remap_controller st (controller (dev h i)) \<noteq> None \<Longrightarrow> \<exists>h'. uni_hid_device_process_controller st i h = Some h'"
  by (auto simp: uni_hid_device_process_controller_def Let_def)

lemma data_ok:
  assumes s: "bt_inv s" and p: "\<And>d r. parse d r \<noteq> None" and m: "\<And>c. remap_controller st c \<noteq> None"
  shows "ok (uni_bt_bredr_on_l2cap_data_packet parse st channel packet s)"
proof (cases "uni_hid_device_get_instance_for_cid channel (hid s)")
  case (Some i)
  obtain c where c: "parse (dv s i) (tl packet) = Some c" using p [of "dv s i" "tl packet"] by auto
  let ?h = "upd_dev i (\<lambda>d. d\<lparr>controller := c\<rparr>) (hid s)"
  obtain h' where h': "uni_hid_device_process_controller st i ?h = Some h'"
    using process_controller_total [OF m] by blast
  have "same_links (hid s) ?h" by (rule same_links_upd) (simp add: keeps_links_def)
  then have "physical h'"
    using physical_links [OF same_links_trans [OF _ process_controller_links [OF h']]] s by (simp add: bt_inv_def)
  then show ?thesis
    using Some c h' s bt_inv_hid [OF s] by (simp add: uni_bt_bredr_on_l2cap_data_packet_def)
qed (use s in \<open>simp add: uni_bt_bredr_on_l2cap_data_packet_def\<close>)

lemma inquiry_ok:
  assumes s: "bt_inv s" and a: "addr \<noteq> zero_addr" "length nm \<le> HID_MAX_NAME_LEN"
  shows "ok (uni_bt_bredr_on_gap_inquiry_result E platform addr psrm clk c rssi nm s)"
proof (cases "uni_hid_device_get_instance_for_address addr (hid s)")
  case (Some i)
  then show ?thesis
    using s a process_fsm_ok [OF s instance_less(1) [OF s Some]] by (simp add: uni_bt_bredr_on_gap_inquiry_result_def)
next
  case None
  obtain r h where c: "uni_hid_device_create addr (hid s) = (r, h)" by (cases "uni_hid_device_create addr (hid s)")
  note h = bt_inv_create [OF s a(1) c]
  show ?thesis
    unfolding uni_bt_bredr_on_gap_inquiry_result_def
    using None c h s a(2)
    by (auto simp: Let_def intro!: process_fsm_ok bt_inv_intros keeps_links_setters split: option.split)
qed

lemma connection_request_ok:
  assumes s: "bt_inv s" and a: "addr \<noteq> zero_addr"
  shows "bt_inv (uni_bt_bredr_on_hci_connection_request addr c s)"
proof -
  define r where "r = (case uni_hid_device_get_instance_for_address addr (hid s) of
      Some i \<Rightarrow> (Some i, hid s) | None \<Rightarrow> uni_hid_device_create addr (hid s))"
  obtain d h where d: "r = (d, h)" by (cases r)
  have "bt_inv (s\<lparr>hid := h\<rparr>)"
    using d bt_inv_create [OF s a, of d h] s by (auto simp: r_def split: option.splits)
  then show ?thesis
    unfolding uni_bt_bredr_on_hci_connection_request_def Let_def r_def [symmetric] d
    by (auto intro!: bt_inv_intros keeps_links_setters split: option.split)
qed

lemma connection_complete_ok: "bt_inv s \<Longrightarrow> bt_inv (uni_bt_bredr_on_hci_connection_complete status addr hnd s)"
  by (auto simp: uni_bt_bredr_on_hci_connection_complete_def intro!: bt_inv_intros keeps_links_setters split: option.split)

lemma pin_code_ok: "bt_inv s \<Longrightarrow> bt_inv (uni_bt_bredr_on_hci_pin_code_request l addr s)"
  by (auto simp: uni_bt_bredr_on_hci_pin_code_request_def Let_def intro!: bt_inv_intros)

lemma remote_name_ok:
  assumes s: "bt_inv s"
  shows "ok (uni_bt_bredr_on_hci_remote_name_request_complete E status addr nm s)"
proof (cases "uni_hid_device_get_instance_for_address addr (hid s)")
  case (Some i)
  show ?thesis
    using s Some instance_less(1) [OF s Some]
    by (auto simp: uni_bt_bredr_on_hci_remote_name_request_complete_def Let_def
        intro!: ok_bind process_fsm_ok bt_inv_intros keeps_links_setters)
qed (use s in \<open>simp add: uni_bt_bredr_on_hci_remote_name_request_complete_def\<close>)

lemma name_timeout_ok: "bt_inv s \<Longrightarrow> i < 4 \<Longrightarrow> ok (inquiry_remote_name_timeout_callback E i s)"
  unfolding inquiry_remote_name_timeout_callback_def by (intro process_fsm_ok bt_inv_intros keeps_links_setters)

subsection \<open>Results of SDP queries\<close>

lemma store_byte_ok:
  assumes "bt_inv s" "offset < len"
  shows "\<exists>b s'. store_attribute_byte len offset data s = Some (b, s') \<and> bt_inv s' \<and> hid s' = hid s \<and> sdp_device s' = sdp_device s"
  using assms by (auto simp: store_attribute_byte_def bt_inv_def word_less_nat_alt)

lemma store_descriptors_linked:
  "list_all (\<lambda>x. length x \<le> HID_MAX_DESCRIPTOR_LEN) xs \<Longrightarrow> \<exists>d'. store_descriptors xs d = Some d' \<and> linked d d'"
proof (induction xs arbitrary: d)
  case (Cons x xs)
  then obtain d1 where d1: "uni_hid_device_set_hid_descriptor x d = Some d1" by (auto simp: uni_hid_device_set_hid_descriptor_def)
  then show ?case using Cons.IH [of d1] Cons.prems linked_setters(3) [OF d1] linked_trans by fastforce
qed simp

text \<open>
  What the handlers rely on: BTstack reports a byte at a position inside of its attribute, and the
  descriptor list is one whose elements lead to an end within the buffer.
\<close>

fun sdp_event_ok :: "nat \<Rightarrow> bool \<Rightarrow> sdp_event \<Rightarrow> bt_state \<Rightarrow> bool" where
  "sdp_event_ok n hid_query Query_complete s \<longleftrightarrow> True"
| "sdp_event_ok n hid_query (Attribute_byte aid len offset data) s \<longleftrightarrow> offset < len \<and>
     (hid_query \<and> aid = ATTRIBUTE_HID_DESCRIPTOR_LIST \<and> offset + 1 = len \<and> unat len \<le> MAX_ATTRIBUTE_VALUE_SIZE \<longrightarrow>
        (\<exists>ds. hid_descriptors n ((sdp_attribute_value s)[unat offset := data]) = Des_done ds \<and>
          list_all (\<lambda>x. length x \<le> HID_MAX_DESCRIPTOR_LEN) ds))"

lemma hid_result_ok:
  assumes s: "bt_inv s" and ev: "sdp_event_ok n True ev s"
  shows "ok (uni_handle_sdp_hid_query_result n E ev s)"
proof (cases "sdp_device s")
  case (Some i)
  have i: "i < 4" by (rule bt_inv_device [OF s Some])
  show ?thesis
  proof (cases ev)
    case Query_complete
    then show ?thesis using Some query_end_ok [OF s i, of "Suc 0" E]
      by (simp add: uni_handle_sdp_hid_query_result_def numeral_2_eq_2)
  next
    case (Attribute_byte aid len offset data)
    obtain b s1 where 1: "store_attribute_byte len offset data s = Some (b, s1)" "bt_inv s1"
      using store_byte_ok [OF s, of offset len data] ev Attribute_byte by auto
    have "ok (case hid_descriptors n (sdp_attribute_value s1) of
        Des_done ds \<Rightarrow> map_option (\<lambda>d. on_hid (upd_dev i (\<lambda>_. d)) s1) (store_descriptors ds (dv s1 i)) | _ \<Rightarrow> None)"
      if b: "b" and aid: "aid = ATTRIBUTE_HID_DESCRIPTOR_LIST"
    proof -
      have "sdp_attribute_value s1 = (sdp_attribute_value s)[unat offset := data]" "offset + 1 = len"
          "unat len \<le> MAX_ATTRIBUTE_VALUE_SIZE"
        using 1(1) b by (auto simp: store_attribute_byte_def split: if_splits)
      then obtain ds where ds: "hid_descriptors n (sdp_attribute_value s1) = Des_done ds"
          "list_all (\<lambda>x. length x \<le> HID_MAX_DESCRIPTOR_LEN) ds"
        using ev Attribute_byte aid by auto
      obtain d where "store_descriptors ds (dv s1 i) = Some d" "linked (dv s1 i) d"
        using store_descriptors_linked [OF ds(2)] by blast
      then show ?thesis using ds(1) bt_inv_replace [OF 1(2) i] by simp
    qed
    then show ?thesis
      using Some Attribute_byte 1 by (simp add: uni_handle_sdp_hid_query_result_def)
  qed
qed (use s in \<open>simp add: uni_handle_sdp_hid_query_result_def\<close>)

lemma get_uint16_ok:
  assumes "3 \<le> length m"
  shows "\<exists>r. de_element_get_uint16 m 0 = Some r"
proof -
  have "rd m 0 \<noteq> None" "rd m 1 \<noteq> None" "rd m 2 \<noteq> None" using assms by (auto simp: rd_def)
  then show ?thesis
    by (auto simp: de_element_get_uint16_def de_get_size_type_def de_get_header_size_def big_endian_read_16_def numeral_2_eq_2)
qed

lemma pid_result_ok:
  assumes s: "bt_inv s" and ev: "sdp_event_ok n False ev s"
  shows "ok (uni_handle_sdp_pid_query_result E ev s)"
proof (cases "sdp_device s")
  case (Some i)
  have i: "i < 4" by (rule bt_inv_device [OF s Some])
  show ?thesis
  proof (cases ev)
    case Query_complete
    obtain d where d: "uni_hid_device_guess_controller_type_from_pid_vid (dv s i) = Some d" "linked (dv s i) d"
      using guess_type_linked by blast
    have "ok (bredr_fsm E i (on_hid (set_state i STATE_SDP_VENDOR_FETCHED) (on_hid (upd_dev i (\<lambda>_. d)) s)))"
      using bt_inv_replace [OF s i d(2)] i by (intro process_fsm_ok bt_inv_state)
    then show ?thesis using Some Query_complete d(1) by (simp add: uni_handle_sdp_pid_query_result_def)
  next
    case (Attribute_byte aid len offset data)
    obtain b s1 where 1: "store_attribute_byte len offset data s = Some (b, s1)" "bt_inv s1"
      using store_byte_ok [OF s, of offset len data] ev Attribute_byte by auto
    have "3 \<le> length (sdp_attribute_value s1)" using 1(2) by (simp add: bt_inv_def MAX_ATTRIBUTE_VALUE_SIZE_def)
    then obtain r where "de_element_get_uint16 (sdp_attribute_value s1) 0 = Some r" using get_uint16_ok by blast
    then show ?thesis
      using Some Attribute_byte 1
      by (auto simp: uni_handle_sdp_pid_query_result_def intro!: bt_inv_intros keeps_links_setters split: option.split)
  qed
qed (use s in \<open>simp add: uni_handle_sdp_pid_query_result_def\<close>)

subsection \<open>Sequences of events\<close>

datatype bt_event =
    Ev_incoming u16 u16 u16 bd_addr
  | Ev_opened u8 u16 u16 bd_addr
  | Ev_closed u16
  | Ev_data u16 "u8 list"
  | Ev_inquiry bd_addr u8 u16 u32w u8 string
  | Ev_connection_request bd_addr u32w
  | Ev_connection_complete u8 bd_addr u16
  | Ev_disconnection_complete u16
  | Ev_pin_code bd_addr bd_addr
  | Ev_remote_name u8 bd_addr string
  | Ev_name_timeout nat
  | Ev_connection_timeout nat
  | Ev_sdp_timeout nat
  | Ev_sdp_pid sdp_event
  | Ev_sdp_hid sdp_event
  | Ev_setup_done nat

text \<open>
  The dispatch of an event, with the parser, the mapping, the platform's discovery callback and the
  bound of the descriptor loops as arguments. A timer that runs out is removed first.
\<close>

record bt_config =
  cfg_parse :: "uni_hid_device \<Rightarrow> u8 list \<Rightarrow> uni_controller option"
  cfg_statics :: gamepad_statics
  cfg_platform :: "(bd_addr \<Rightarrow> string \<Rightarrow> u16 \<Rightarrow> u8 \<Rightarrow> uni_error) option"
  cfg_fuel :: nat

fun bt_handle :: "bt_config \<Rightarrow> bt_env \<Rightarrow> bt_event \<Rightarrow> bt_state \<Rightarrow> bt_state option" where
  "bt_handle C E (Ev_incoming psm hnd ch addr) s = uni_bt_bredr_on_l2cap_incoming_connection E psm hnd ch addr s"
| "bt_handle C E (Ev_opened status psm cid addr) s = uni_bt_bredr_on_l2cap_channel_opened E status psm cid addr s"
| "bt_handle C E (Ev_closed cid) s = uni_bt_bredr_on_l2cap_channel_closed E cid s"
| "bt_handle C E (Ev_data ch packet) s = uni_bt_bredr_on_l2cap_data_packet (cfg_parse C) (cfg_statics C) ch packet s"
| "bt_handle C E (Ev_inquiry addr psrm clk c rssi nm) s =
     uni_bt_bredr_on_gap_inquiry_result E (cfg_platform C) addr psrm clk c rssi nm s"
| "bt_handle C E (Ev_connection_request addr c) s = Some (uni_bt_bredr_on_hci_connection_request addr c s)"
| "bt_handle C E (Ev_connection_complete status addr hnd) s =
     Some (uni_bt_bredr_on_hci_connection_complete status addr hnd s)"
| "bt_handle C E (Ev_disconnection_complete hnd) s = on_hci_disconnection_complete E hnd s"
| "bt_handle C E (Ev_pin_code local addr) s = Some (uni_bt_bredr_on_hci_pin_code_request local addr s)"
| "bt_handle C E (Ev_remote_name status addr nm) s = uni_bt_bredr_on_hci_remote_name_request_complete E status addr nm s"
| "bt_handle C E (Ev_name_timeout i) s =
     inquiry_remote_name_timeout_callback E i (on_hid (remove_timer Inquiry_remote_name_timer i) s)"
| "bt_handle C E (Ev_connection_timeout i) s = map_option (\<lambda>h. s\<lparr>hid := h\<rparr>)
     (device_connection_timeout 2 (env_gap E) i (remove_timer Connection_timer i (hid s)))"
| "bt_handle C E (Ev_sdp_timeout i) s = Some (sdp_query_timeout i (s\<lparr>sdp_query_timer := None\<rparr>))"
| "bt_handle C E (Ev_sdp_pid ev) s = uni_handle_sdp_pid_query_result E ev s"
| "bt_handle C E (Ev_sdp_hid ev) s = uni_handle_sdp_hid_query_result (cfg_fuel C) E ev s"
| "bt_handle C E (Ev_setup_done i) s = map_option (\<lambda>(_, h). s\<lparr>hid := h\<rparr>)
     (uni_hid_device_set_ready_complete 2 (env_gap E) (env_accepts E) i (hid s))"

text \<open>
  What the stack guarantees of an event: addresses are not zero, names fit, timers were started, and
  the parser and the remapping are total on what arrives.
\<close>

fun bt_enabled :: "bt_config \<Rightarrow> bt_event \<Rightarrow> bt_state \<Rightarrow> bool" where
  "bt_enabled C (Ev_incoming psm hnd ch addr) s \<longleftrightarrow> addr \<noteq> zero_addr"
| "bt_enabled C (Ev_data ch packet) s \<longleftrightarrow>
     (\<forall>d r. cfg_parse C d r \<noteq> None) \<and> (\<forall>c. remap_controller (cfg_statics C) c \<noteq> None)"
| "bt_enabled C (Ev_inquiry addr psrm clk c rssi nm) s \<longleftrightarrow> addr \<noteq> zero_addr \<and> length nm \<le> HID_MAX_NAME_LEN"
| "bt_enabled C (Ev_connection_request addr c) s \<longleftrightarrow> addr \<noteq> zero_addr"
| "bt_enabled C (Ev_name_timeout i) s \<longleftrightarrow> i < 4 \<and> (Inquiry_remote_name_timer, i) \<in> timers (hid s)"
| "bt_enabled C (Ev_connection_timeout i) s \<longleftrightarrow> (Connection_timer, i) \<in> timers (hid s)"
| "bt_enabled C (Ev_sdp_timeout i) s \<longleftrightarrow> sdp_query_timer s = Some i"
| "bt_enabled C (Ev_sdp_pid ev) s \<longleftrightarrow> sdp_event_ok (cfg_fuel C) False ev s"
| "bt_enabled C (Ev_sdp_hid ev) s \<longleftrightarrow> sdp_event_ok (cfg_fuel C) True ev s"
| "bt_enabled C (Ev_setup_done i) s \<longleftrightarrow> i < 4"
| "bt_enabled C _ s \<longleftrightarrow> True"

lemma bt_handle_ok:
  assumes s: "bt_inv s" and en: "bt_enabled C ev s"
  shows "ok (bt_handle C E ev s)"
proof (cases ev)
  case (Ev_data ch packet)
  then show ?thesis using s en data_ok [OF s, of "cfg_parse C" "cfg_statics C"] by simp
next
  case (Ev_name_timeout i)
  then show ?thesis using s en name_timeout_ok [OF bt_inv_timer(1) [OF s]] by simp
next
  case (Ev_connection_timeout i)
  let ?h = "remove_timer Connection_timer i (hid s)"
  have p: "physical ?h" using physical_links [OF same_links_timer(1) [OF same_links_refl]] s by (simp add: bt_inv_def)
  have "i < 4" using en Ev_connection_timeout wf_timer s by (auto simp: bt_inv_def physical_def)
  then have "\<exists>h'. device_connection_timeout 2 (env_gap E) i ?h = Some h' \<and> physical h'"
    using drop_physical [OF p, of i "env_gap E"] p by (auto simp: device_connection_timeout_def)
  then show ?thesis using Ev_connection_timeout bt_inv_hid [OF s] by auto
next
  case (Ev_sdp_timeout i)
  have "bt_inv (sdp_query_timeout i (s\<lparr>sdp_query_timer := None\<rparr>))"
    using s by (auto simp: sdp_query_timeout_def bt_inv_def split: option.split)
  then show ?thesis using Ev_sdp_timeout by simp
next
  case (Ev_setup_done i)
  then show ?thesis
    using s en ready_complete_physical [of "hid s" i "env_gap E" "env_accepts E"] by (auto simp: bt_inv_def)
qed (use s en in \<open>simp_all add: incoming_ok opened_ok closed_ok inquiry_ok connection_request_ok connection_complete_ok
      disconnection_ok pin_code_ok remote_name_ok pid_result_ok hid_result_ok\<close>)

end
