(* ===== verification/BredrProps.thy ===== *)
theory BredrProps
  imports BredrSafe
begin

text \<open>
  What the connection procedure does over sequences of events: safety of every reachable state, how a
  HID descriptor reaches a device, and what goes wrong when a query is refused or its device is gone.
\<close>

definition bt_booted :: "allowlist \<Rightarrow> bool \<Rightarrow> bt_state" where
  "bt_booted al inc = \<lparr>hid = uni_hid_device_setup, sdp_attribute_value = replicate MAX_ATTRIBUTE_VALUE_SIZE 0,
     sdp_device = None, sdp_query_timer = None, allow = al, bt_allow_incoming_connections = inc\<rparr>"

inductive bt_reachable :: "bt_config \<Rightarrow> bt_state \<Rightarrow> bool" for C where
  booted: "bt_reachable C (bt_booted al inc)"
| event: "bt_reachable C s \<Longrightarrow> bt_enabled C ev s \<Longrightarrow> bt_handle C E ev s = Some s' \<Longrightarrow> bt_reachable C s'"

text \<open>A sequence of events, each with the answers that its handler gets.\<close>

primrec conn_run :: "bt_config \<Rightarrow> (bt_event \<times> bt_env) list \<Rightarrow> bt_state \<Rightarrow> bt_state option" where
  "conn_run C [] s = Some s"
| "conn_run C (e # es) s = (if bt_enabled C (fst e) s then Option.bind (bt_handle C (snd e) (fst e) s) (conn_run C es) else None)"

lemma conn_run_append: "conn_run C (xs @ ys) s = Option.bind (conn_run C xs s) (conn_run C ys)"
  by (induction xs arbitrary: s) (simp_all split: Option.bind_split)

lemma run_reachable: "bt_reachable C s \<Longrightarrow> conn_run C es s = Some s' \<Longrightarrow> bt_reachable C s'"
proof (induction es arbitrary: s)
  case (Cons e es)
  then obtain s1 where "bt_enabled C (fst e) s" "bt_handle C (snd e) (fst e) s = Some s1" "conn_run C es s1 = Some s'"
    by (auto split: if_splits Option.bind_splits)
  then show ?case using Cons.IH bt_reachable.event [OF Cons.prems(1)] by blast
qed simp

lemma booted_inv: "bt_inv (bt_booted al inc)"
proof -
  have "dev uni_hid_device_setup i = device_init" if "i < 4" for i
    using that by (simp add: uni_hid_device_setup_def CONFIG_BLUEPAD32_MAX_DEVICES_def)
  then have "physical uni_hid_device_setup" using setup_wf by (simp add: physical_def device_init_free)
  then show ?thesis by (simp add: bt_inv_def bt_booted_def)
qed

lemma reachable_inv: "bt_reachable C s \<Longrightarrow> bt_inv s"
proof (induction rule: bt_reachable.induct)
  case (event s ev E s')
  then show ?case using bt_handle_ok [of s C ev E] by simp
qed (rule booted_inv)

text \<open>
  C5. The connection procedure is safe. After every sequence of acceptable events of the Bluetooth
  stack, with every answer of the stack and of the platform, the device table is well-formed, and
  when the timer of an SDP query runs, the query's device is the one the timer was started for, so
  that the two error branches of its handler are never taken. In every such state the handler of
  every acceptable event returns: the state machine, which calls itself through the SDP functions,
  ends within two levels. An event is acceptable (\<open>bt_enabled\<close>) when its address is not
  zero, an inquiry's name fits the name buffer, a timer event comes from a timer that runs, the
  bytes of an SDP attribute lie inside of it, the list of HID descriptors comes to an end within the
  buffer with descriptors of at most 512 bytes, and the parser and the remapping, which are
  parameters here, are total. A list that does not end is a handler that does not return
  (\<open>sdp_descriptor_list_endless\<close>).
\<close>

theorem bredr_safe:
  assumes "bt_reachable C s"
  shows "table_wf (hid s) \<and> (sdp_query_timer s = Some i \<longrightarrow> sdp_device s = Some i \<and> i < 4) \<and>
     (bt_enabled C ev s \<longrightarrow> (\<exists>s'. bt_handle C E ev s = Some s'))"
proof -
  have "bt_inv s" using assms by (rule reachable_inv)
  then show ?thesis using bt_handle_ok [of s C ev E] by (auto simp: bt_inv_def physical_def ok_def)
qed

subsection \<open>Effects on one slot\<close>

lemma bt_inv_length: "bt_inv s \<Longrightarrow> length (g_devices (hid s)) = 4"
  using physicalD(2) by (simp add: bt_inv_def)

lemma dev_set_state:
  "i < length (g_devices h) \<Longrightarrow>
   dev (set_state i st h) j = (if j = i then (dev h i)\<lparr>conn := (conn (dev h i))\<lparr>conn_state := st\<rparr>\<rparr> else dev h j)"
  by (simp add: set_state_def dev_upd_dev uni_bt_conn_set_state_def)

lemma set_state_simps [simp]:
  "length (g_devices (set_state i st h)) = length (g_devices h)" "events (set_state i st h) = events h"
  by (simp_all add: set_state_def upd_dev_def)

lemma events_upd_dev [simp]: "events (upd_dev i f h) = events h"
  by (simp add: upd_dev_def)

lemma events_timer [simp]: "events (remove_timer t i h) = events h" "events (add_timer t i h) = events h"
  by (simp_all add: remove_timer_def add_timer_def)

text \<open>Dropping a device clears its slot and nothing else of the connection state.\<close>

lemma drop_device_eq:
  assumes "bt_inv s" "i < 4"
  shows "\<exists>h. drop_device E i s = Some (s\<lparr>hid := h\<rparr>) \<and> physical h \<and> dev h i = device_init"
proof -
  have p: "physical (hid s)" using assms(1) by (simp add: bt_inv_def)
  let ?h = "disconnect_one (env_gap E) i (hid s)"
  have q: "physical ?h" by (rule physical_links [OF disconnect_one_links p])
  have "disconnect_and_delete 2 (env_gap E) i (hid s) = Some (delete_one i ?h)"
    using physicalD(4) [OF p assms(2)] physicalD(4) [OF q assms(2)] by (simp add: disconnect_and_delete_def numeral_2_eq_2)
  moreover have "dev (delete_one i ?h) i = device_init"
    using physicalD(2) [OF q] assms(2) by (simp add: delete_one_def uni_hid_device_init_def dev_upd_dev)
  ultimately show ?thesis using delete_one_links(1) [OF q assms(2)] by (auto simp: drop_device_def)
qed

subsection \<open>A refused query\<close>

text \<open>
  A refused query blocks all later ones. When the stack refuses the query for the HID descriptor, the
  device is dropped and the query's timer is removed, but the query's device stays set. From then
  on there is no timer that would clear it, and every device that needs an SDP query is
  disconnected and deleted at once, whatever the stack answers.
\<close>

theorem sdp_refused_blocks_queries:
  assumes "bt_reachable C s" "sdp_device s = Some i"
    and "uni_hid_device_guess_controller_type_from_pid_vid (dv s i) = Some d" "uni_hid_device_does_require_hid_descriptor d"
    and "env_sdp E \<noteq> 0"
  shows "\<exists>s'. uni_handle_sdp_pid_query_result E Query_complete s = Some s' \<and> is_free (dv s' i) \<and>
     sdp_device s' = Some i \<and> sdp_query_timer s' = None \<and>
     (\<forall>E' j. j < 4 \<longrightarrow> (\<exists>s''. uni_bt_sdp_query_start E' j s' = Some s'' \<and> is_free (dv s'' j) \<and>
        sdp_device s'' = Some i \<and> sdp_query_timer s'' = None))"
proof -
  have s: "bt_inv s" using assms(1) by (rule reachable_inv)
  have i: "i < 4" by (rule bt_inv_device [OF s assms(2)])
  have d: "linked (dv s i) d" using guess_type_linked [of "dv s i"] assms(3) by simp
  let ?a = "on_hid (set_state i STATE_SDP_VENDOR_FETCHED) (on_hid (upd_dev i (\<lambda>_. d)) s)"
  let ?b = "(on_hid (emit (Sdp_client_query (btaddr (conn (dv ?a i))) SERVICE_HUMAN_INTERFACE_DEVICE))
      (on_hid (set_state i STATE_SDP_HID_DESCRIPTOR_REQUESTED) ?a))\<lparr>sdp_query_timer := None\<rparr>"
  have b: "bt_inv ?b" by (intro bt_inv_sdp(3) bt_inv_emit bt_inv_state bt_inv_replace [OF s i d])
  obtain h where h: "drop_device E i ?b = Some (?b\<lparr>hid := h\<rparr>)" "physical h" "dev h i = device_init"
    using drop_device_eq [OF b i] by blast
  have "dv ?a i = d\<lparr>conn := (conn d)\<lparr>conn_state := STATE_SDP_VENDOR_FETCHED\<rparr>\<rparr>"
    using bt_inv_length [OF s] i by (simp add: dev_set_state dev_upd_dev)
  then have "conn_state (conn (dv ?a i)) = STATE_SDP_VENDOR_FETCHED" "uni_hid_device_does_require_hid_descriptor (dv ?a i)"
    using assms(4) by (simp_all add: uni_hid_device_does_require_hid_descriptor_def)
  then have "bredr_fsm E i ?a = drop_device E i ?b"
    using assms(2,5) by (simp add: numeral_2_eq_2 uni_bt_sdp_query_start_hid_descriptor_def)
  then have r: "uni_handle_sdp_pid_query_result E Query_complete s = Some (?b\<lparr>hid := h\<rparr>)"
    using assms(2,3) h(1) by (simp add: uni_handle_sdp_pid_query_result_def)
  have "\<exists>s''. uni_bt_sdp_query_start E' j (?b\<lparr>hid := h\<rparr>) = Some s'' \<and> is_free (dv s'' j) \<and>
      sdp_device s'' = Some i \<and> sdp_query_timer s'' = None" if "j < 4" for E' j
  proof -
    have "bt_inv (?b\<lparr>hid := h\<rparr>)" by (rule bt_inv_hid [OF b h(2)])
    from drop_device_eq [OF this that, of E'] show ?thesis
      using assms(2) by (auto simp: uni_bt_sdp_query_start_def device_init_free)
  qed
  then show ?thesis using r h(3) assms(2) by (auto simp: device_init_free)
qed

subsection \<open>A result for a device that is gone\<close>

text \<open>
  A device that answered no query has vendor and product id 0, which the controller list knows as an Xbox 360
  controller: the fallbacks for unknown ids, by class of device and by name, are not tried.
\<close>

lemma guess_zero: "uni_guess_controller_type 0 0 = CONTROLLER_TYPE_XBox360Controller"
  by code_simp

lemma guess_init:
  "\<exists>d. uni_hid_device_guess_controller_type_from_pid_vid device_init = Some d \<and> conn d = uni_bt_conn_init \<and>
     dev_parser d = P_generic \<and> sdp_query_type d = SDP_QUERY_AFTER_CONNECT"
  unfolding uni_hid_device_guess_controller_type_from_pid_vid_def
  by (simp add: device_init_def device_zero_def guess_zero uni_hid_device_has_controller_type_def set_flag_def
      parser_for_type_def switch_def)

lemma set_ready_now:
  assumes "length (g_devices h) = 4" "i < 4" "conn_state (conn (dev h i)) = STATE_SDP_HID_DESCRIPTOR_FETCHED"
    and "\<not> setup_waits (dev_parser (dev h i))"
  shows "\<exists>h'. uni_hid_device_set_ready n gap True i h = Some h' \<and> conn_state (conn (dev h' i)) = STATE_DEVICE_READY \<and>
     is_free (dev h' i) = is_free (dev h i) \<and> events h' = events h @ [On_device_ready i] \<and>
     conn (dev h' i) = (conn (dev h i))\<lparr>conn_state := STATE_DEVICE_READY\<rparr>"
  using assms
  by (simp add: uni_hid_device_set_ready_def uni_hid_device_set_ready_complete_def Let_def dev_set_state is_free_def)

lemma hid_query_complete_ready:
  assumes "bt_inv s" "sdp_device s = Some i" "\<not> incoming (conn (dv s i))"
    and "sdp_query_type (dv s i) = SDP_QUERY_AFTER_CONNECT" "\<not> setup_waits (dev_parser (dv s i))" "env_accepts E"
  shows "\<exists>s'. uni_handle_sdp_hid_query_result n E Query_complete s = Some s' \<and>
     conn_state (conn (dv s' i)) = STATE_DEVICE_READY \<and> is_free (dv s' i) = is_free (dv s i) \<and>
     events (hid s') = events (hid s) @ [On_device_ready i] \<and> sdp_device s' = None \<and>
     conn (dv s' i) = (conn (dv s i))\<lparr>conn_state := STATE_DEVICE_READY\<rparr>"
proof -
  have i: "i < 4" by (rule bt_inv_device [OF assms(1,2)])
  let ?s = "(on_hid (set_state i STATE_SDP_HID_DESCRIPTOR_FETCHED) s)\<lparr>sdp_device := None, sdp_query_timer := None\<rparr>"
  have dv: "dv ?s i = (dv s i)\<lparr>conn := (conn (dv s i))\<lparr>conn_state := STATE_SDP_HID_DESCRIPTOR_FETCHED\<rparr>\<rparr>"
    using bt_inv_length [OF assms(1)] i by (simp add: dev_set_state)
  have fsm: "bredr_fsm E i ?s = make_ready E i ?s"
    using fsm_descriptor_fetched [of ?s i "Suc 0" E] dv assms(3,4) by (simp add: numeral_2_eq_2 descriptor_fetched_def)
  obtain h' where h': "uni_hid_device_set_ready 2 (env_gap E) True i (hid ?s) = Some h'"
      "conn_state (conn (dev h' i)) = STATE_DEVICE_READY" "is_free (dev h' i) = is_free (dv ?s i)"
      "events h' = events (hid ?s) @ [On_device_ready i]" "conn (dev h' i) = (conn (dv ?s i))\<lparr>conn_state := STATE_DEVICE_READY\<rparr>"
    using set_ready_now [of "hid ?s" i 2 "env_gap E"] dv assms(5) i bt_inv_length [OF assms(1)] by auto
  have "make_ready E i ?s = Some (?s\<lparr>hid := h'\<rparr>)" using h'(1) assms(6) by (simp add: make_ready_def)
  then have "uni_handle_sdp_hid_query_result n E Query_complete s = Some (?s\<lparr>hid := h'\<rparr>)"
    using fsm assms(2) by (simp add: uni_handle_sdp_hid_query_result_def uni_bt_sdp_query_end_def)
  then show ?thesis using h' dv by (auto simp: is_free_def)
qed

lemma pid_query_complete_next:
  assumes "bt_inv s" "sdp_device s = Some i" "uni_hid_device_guess_controller_type_from_pid_vid (dv s i) = Some d"
    and "uni_hid_device_does_require_hid_descriptor d" "env_sdp E = 0"
  shows "\<exists>s'. uni_handle_sdp_pid_query_result E Query_complete s = Some s' \<and> sdp_device s' = Some i \<and>
     dv s' i = d\<lparr>conn := (conn d)\<lparr>conn_state := STATE_SDP_HID_DESCRIPTOR_REQUESTED\<rparr>\<rparr> \<and>
     events (hid s') = events (hid s) @ [Sdp_client_query (btaddr (conn d)) SERVICE_HUMAN_INTERFACE_DEVICE]"
proof -
  have i: "i < 4" by (rule bt_inv_device [OF assms(1,2)])
  have l: "length (g_devices (hid s)) = 4" by (rule bt_inv_length [OF assms(1)])
  let ?a = "on_hid (set_state i STATE_SDP_VENDOR_FETCHED) (on_hid (upd_dev i (\<lambda>_. d)) s)"
  let ?b = "on_hid (emit (Sdp_client_query (btaddr (conn d)) SERVICE_HUMAN_INTERFACE_DEVICE))
      (on_hid (set_state i STATE_SDP_HID_DESCRIPTOR_REQUESTED) ?a)"
  have dv: "dv ?a i = d\<lparr>conn := (conn d)\<lparr>conn_state := STATE_SDP_VENDOR_FETCHED\<rparr>\<rparr>"
    using l i by (simp add: dev_set_state dev_upd_dev)
  then have "bredr_fsm E i ?a = Some ?b"
    using assms(2,4,5)
    by (simp add: numeral_2_eq_2 uni_bt_sdp_query_start_hid_descriptor_def uni_hid_device_does_require_hid_descriptor_def)
  then show ?thesis
    using assms(2,3) l i by (simp add: uni_handle_sdp_pid_query_result_def dev_set_state dev_upd_dev)
qed

text \<open>
  A result that comes too late revives a deleted device. When a controller is dropped while its SDP query
  runs, its slot is cleared but the query's device is not: the end of the query is taken as an answer for
  the cleared slot, a second query is started with address zero, and the end of that query,
  successful or not, announces the slot to the platform as a ready device, although no controller is
  connected and the slot counts as free.
\<close>

theorem sdp_result_revives_deleted_device:
  assumes "bt_reachable C s" "sdp_device s = Some i" "env_sdp E = 0" "env_accepts E"
  shows "\<exists>s0 s1 s2. drop_device E i s = Some s0 \<and>
     uni_handle_sdp_pid_query_result E Query_complete s0 = Some s1 \<and>
     uni_handle_sdp_hid_query_result n E Query_complete s1 = Some s2 \<and>
     is_free (dv s2 i) \<and> conn_state (conn (dv s2 i)) = STATE_DEVICE_READY \<and>
     events (hid s2) = events (hid s0) @ [Sdp_client_query zero_addr SERVICE_HUMAN_INTERFACE_DEVICE, On_device_ready i]"
proof -
  have s: "bt_inv s" using assms(1) by (rule reachable_inv)
  have i: "i < 4" by (rule bt_inv_device [OF s assms(2)])
  obtain h where h: "drop_device E i s = Some (s\<lparr>hid := h\<rparr>)" "physical h" "dev h i = device_init"
    using drop_device_eq [OF s i] by blast
  have s0: "bt_inv (s\<lparr>hid := h\<rparr>)" by (rule bt_inv_hid [OF s h(2)])
  obtain d where d: "uni_hid_device_guess_controller_type_from_pid_vid device_init = Some d" "conn d = uni_bt_conn_init"
      "dev_parser d = P_generic" "sdp_query_type d = SDP_QUERY_AFTER_CONNECT"
    using guess_init by blast
  have req: "uni_hid_device_does_require_hid_descriptor d" by (simp add: uni_hid_device_does_require_hid_descriptor_def d(3))
  have za: "btaddr uni_bt_conn_init = zero_addr" "\<not> incoming uni_bt_conn_init"
    by (simp_all add: uni_bt_conn_init_def conn_zero_def)
  obtain s1 where s1: "uni_handle_sdp_pid_query_result E Query_complete (s\<lparr>hid := h\<rparr>) = Some s1" "sdp_device s1 = Some i"
      "dv s1 i = d\<lparr>conn := (conn d)\<lparr>conn_state := STATE_SDP_HID_DESCRIPTOR_REQUESTED\<rparr>\<rparr>"
      "events (hid s1) = events h @ [Sdp_client_query zero_addr SERVICE_HUMAN_INTERFACE_DEVICE]"
    using pid_query_complete_next [OF s0, of i d E] assms(2,3) h(3) d(1,2) req za by auto
  have i1: "bt_inv s1" using pid_result_ok [OF s0, of 0 Query_complete E] s1(1) by simp
  obtain s2 where "uni_handle_sdp_hid_query_result n E Query_complete s1 = Some s2"
      "conn_state (conn (dv s2 i)) = STATE_DEVICE_READY" "is_free (dv s2 i) = is_free (dv s1 i)"
      "events (hid s2) = events (hid s1) @ [On_device_ready i]"
    using hid_query_complete_ready [OF i1 s1(2), of E n] s1(3) d za assms(4) by (auto simp: setup_waits_def)
  then show ?thesis using h(1) s1 d(2) za by (auto simp: is_free_def)
qed

subsection \<open>An outgoing connection\<close>

lemma instance_links:
  assumes "length (g_devices h') = length (g_devices h)"
    and "\<And>j. j < length (g_devices h) \<Longrightarrow> btaddr (conn (dev h' j)) = btaddr (conn (dev h j)) \<and> parent (dev h' j) = parent (dev h j)"
  shows "uni_hid_device_get_instance_for_address a h' = uni_hid_device_get_instance_for_address a h"
  using assms
  by (auto simp: uni_hid_device_get_instance_for_address_def find_dev_def uni_hid_device_is_virtual_device_def
      intro!: find_cong)

lemma instance_upd:
  assumes "keeps_links f"
  shows "uni_hid_device_get_instance_for_address a (upd_dev i f h) = uni_hid_device_get_instance_for_address a h"
proof (rule instance_links)
  fix j assume "j < length (g_devices h)"
  then show "btaddr (conn (dev (upd_dev i f h) j)) = btaddr (conn (dev h j)) \<and> parent (dev (upd_dev i f h) j) = parent (dev h j)"
    using assms by (cases "i < length (g_devices h)") (auto simp: dev_upd_dev keeps_links_def upd_dev_beyond)
qed simp

lemma instance_simps [simp]:
  "uni_hid_device_get_instance_for_address a (emit e h) = uni_hid_device_get_instance_for_address a h"
  "uni_hid_device_get_instance_for_address a (set_state i st h) = uni_hid_device_get_instance_for_address a h"
  by (rule instance_links, simp, simp) (simp add: set_state_def uni_bt_conn_set_state_def, rule instance_upd, simp add: keeps_links_def)

text \<open>
  A device in the middle of its connection: it has a name, was not the one that called, and its ids
  are not known.
\<close>

definition young :: "bd_addr \<Rightarrow> uni_hid_device \<Rightarrow> bool" where
  "young a d \<longleftrightarrow> btaddr (conn d) = a \<and> uni_hid_device_has_name d \<and> \<not> incoming (conn d) \<and> sdp_query_type d = SDP_QUERY_AFTER_CONNECT \<and>
     vendor_id d = 0 \<and> product_id d = 0 \<and> \<not> uni_hid_device_has_controller_type d"

lemma young_conn:
  "young a d \<Longrightarrow> btaddr c = a \<Longrightarrow> \<not> incoming c \<Longrightarrow> young a (d\<lparr>conn := c\<rparr>)"
  by (simp add: young_def uni_hid_device_has_name_def uni_hid_device_has_controller_type_def)

lemma guess_young:
  assumes "young a d"
  shows "\<exists>d'. uni_hid_device_guess_controller_type_from_pid_vid d = Some d' \<and> conn d' = conn d \<and> dev_parser d' = P_generic \<and>
     sdp_query_type d' = SDP_QUERY_AFTER_CONNECT"
  using assms
  by (simp add: uni_hid_device_guess_controller_type_from_pid_vid_def young_def guess_zero set_flag_def parser_for_type_def switch_def)

definition progress :: "bd_addr \<Rightarrow> nat \<Rightarrow> nat option \<Rightarrow> dev_event list \<Rightarrow> uni_bt_conn_state \<Rightarrow> bt_state \<Rightarrow> bool" where
  "progress a i q es st s \<longleftrightarrow> bt_inv s \<and> i < 4 \<and> young a (dv s i) \<and> uni_hid_device_get_instance_for_address a (hid s) = Some i \<and>
     sdp_device s = q \<and> events (hid s) = es \<and> conn_state (conn (dv s i)) = st"

lemma opened_control:
  assumes p: "progress a i None es st s" and E: "fst (env_l2cap E) = 0"
  shows "\<exists>s'. bt_handle C E (Ev_opened 0 PSM_HID_CONTROL cid a) s = Some s' \<and>
     progress a i None (es @ [L2cap_create_channel a PSM_HID_INTERRUPT]) STATE_L2CAP_INTERRUPT_CONNECTION_REQUESTED s' \<and>
     control_cid (conn (dv s' i)) = cid"
proof -
  have s: "bt_inv s" "i < 4" "length (g_devices (hid s)) = 4" using p bt_inv_length by (auto simp: progress_def)
  let ?s1 = "on_hid (set_state i STATE_L2CAP_CONTROL_CONNECTED) (on_hid (upd_conn i (\<lambda>c. c\<lparr>control_cid := cid\<rparr>)) s)"
  let ?s2 = "l2cap_create_interrupt_connection E i ?s1"
  have d1: "dv ?s1 i = (dv s i)\<lparr>conn := (conn (dv s i))\<lparr>control_cid := cid, conn_state := STATE_L2CAP_CONTROL_CONNECTED\<rparr>\<rparr>"
    using s by (simp add: dev_set_state upd_conn_def dev_upd_dev)
  have y: "young a (dv ?s1 i)" unfolding d1 using p by (intro young_conn) (auto simp: progress_def young_def)
  have "bredr_fsm E i ?s1 = Some ?s2"
    using y d1 by (simp add: numeral_2_eq_2 young_def channels_connected_def)
  then have h: "bt_handle C E (Ev_opened 0 PSM_HID_CONTROL cid a) s = Some ?s2"
    using p by (simp add: progress_def uni_bt_bredr_on_l2cap_channel_opened_def)
  have d2: "dv ?s2 i = (dv s i)\<lparr>conn := (conn (dv s i))\<lparr>control_cid := cid, interrupt_cid := snd (env_l2cap E),
      conn_state := STATE_L2CAP_INTERRUPT_CONNECTION_REQUESTED\<rparr>\<rparr>"
    using s E by (simp add: l2cap_create_interrupt_connection_def Let_def dev_set_state upd_conn_def dev_upd_dev)
  have "bt_inv ?s2" using opened_ok [OF s(1), of E 0 PSM_HID_CONTROL cid a] h by simp
  moreover have "young a (dv ?s2 i)" unfolding d2 using p by (intro young_conn) (auto simp: progress_def young_def)
  moreover have "uni_hid_device_get_instance_for_address a (hid ?s2) = Some i" "sdp_device ?s2 = None"
      "events (hid ?s2) = es @ [L2cap_create_channel a PSM_HID_INTERRUPT]"
    using p E y by (auto simp: progress_def l2cap_create_interrupt_connection_def Let_def upd_conn_def instance_upd keeps_links_def young_def)
  ultimately have "progress a i None (es @ [L2cap_create_channel a PSM_HID_INTERRUPT]) STATE_L2CAP_INTERRUPT_CONNECTION_REQUESTED ?s2"
    using s(2) d2 by (simp add: progress_def)
  then show ?thesis using h d2 by simp
qed

lemma connect_simps:
  "i < length (g_devices h) \<Longrightarrow>
   dev (uni_hid_device_connect i h) i = (dev h i)\<lparr>conn := (conn (dev h i))\<lparr>connected := True\<rparr>\<rparr>"
  "events (uni_hid_device_connect i h) = events h @ [On_device_connected i]"
  "uni_hid_device_get_instance_for_address a (uni_hid_device_connect i h) = uni_hid_device_get_instance_for_address a h"
  by (simp_all add: uni_hid_device_connect_def on_connected_def dev_upd_dev uni_bt_conn_set_connected_def instance_upd keeps_links_def)

lemma opened_interrupt:
  assumes p: "progress a i None es st s" and E: "env_sdp E = 0"
  shows "\<exists>s'. bt_handle C E (Ev_opened 0 PSM_HID_INTERRUPT cid a) s = Some s' \<and>
     progress a i (Some i) (es @ [On_device_connected i, Sdp_client_query a SERVICE_PNP_INFORMATION]) STATE_SDP_VENDOR_REQUESTED s' \<and>
     connected (conn (dv s' i)) \<and> interrupt_cid (conn (dv s' i)) = cid \<and> control_cid (conn (dv s' i)) = control_cid (conn (dv s i))"
proof -
  have s: "bt_inv s" "i < 4" "length (g_devices (hid s)) = 4" using p bt_inv_length by (auto simp: progress_def)
  let ?s0 = "on_hid (set_state i STATE_L2CAP_INTERRUPT_CONNECTED) (on_hid (upd_conn i (\<lambda>c. c\<lparr>interrupt_cid := cid\<rparr>)) s)"
  let ?s1 = "on_hid (uni_hid_device_connect i) ?s0"
  let ?s2 = "on_hid (emit (Sdp_client_query a SERVICE_PNP_INFORMATION))
      (on_hid (set_state i STATE_SDP_VENDOR_REQUESTED) (?s1\<lparr>sdp_device := Some i, sdp_query_timer := Some i\<rparr>))"
  have d1: "dv ?s1 i = (dv s i)\<lparr>conn := (conn (dv s i))\<lparr>interrupt_cid := cid, conn_state := STATE_L2CAP_INTERRUPT_CONNECTED,
      connected := True\<rparr>\<rparr>"
    using s by (simp add: connect_simps dev_set_state upd_conn_def dev_upd_dev)
  have l1: "length (g_devices (hid ?s1)) = 4"
    using s by (simp add: upd_conn_def uni_hid_device_connect_def on_connected_def)
  have y: "young a (dv ?s1 i)" unfolding d1 using p by (intro young_conn) (auto simp: progress_def young_def)
  have n: "sdp_device ?s1 = None" using p by (simp add: progress_def)
  have "bredr_fsm E i ?s1 = uni_bt_sdp_query_start E i ?s1"
    using y d1 by (simp add: numeral_2_eq_2 young_def channels_connected_def)
  also have "\<dots> = Some ?s2"
  proof -
    have "btaddr (conn (dv (?s1\<lparr>sdp_device := Some i, sdp_query_timer := Some i\<rparr>) i)) = a" using y by (simp add: young_def)
    then show ?thesis using n E by (simp add: uni_bt_sdp_query_start_def uni_bt_sdp_query_start_vid_pid_def)
  qed
  finally have h: "bt_handle C E (Ev_opened 0 PSM_HID_INTERRUPT cid a) s = Some ?s2"
    using p by (simp add: progress_def uni_bt_bredr_on_l2cap_channel_opened_def)
  have d2: "dv ?s2 i = (dv ?s1 i)\<lparr>conn := (conn (dv ?s1 i))\<lparr>conn_state := STATE_SDP_VENDOR_REQUESTED\<rparr>\<rparr>"
    using l1 s(2) by (simp add: dev_set_state)
  have "bt_inv ?s2" using opened_ok [OF s(1), of E 0 PSM_HID_INTERRUPT cid a] h by simp
  moreover have "young a (dv ?s2 i)" unfolding d2 using y by (intro young_conn) (auto simp: young_def)
  moreover have "uni_hid_device_get_instance_for_address a (hid ?s2) = Some i" "sdp_device ?s2 = Some i"
      "events (hid ?s2) = es @ [On_device_connected i, Sdp_client_query a SERVICE_PNP_INFORMATION]"
    using p by (auto simp: progress_def connect_simps upd_conn_def instance_upd keeps_links_def)
  ultimately have "progress a i (Some i) (es @ [On_device_connected i, Sdp_client_query a SERVICE_PNP_INFORMATION])
      STATE_SDP_VENDOR_REQUESTED ?s2"
    using s(2) d2 by (simp add: progress_def)
  then show ?thesis using h d2 d1 by simp
qed

lemma instance_none:
  assumes "uni_hid_device_get_instance_for_address a h = None" "length (g_devices h) = 4"
    and "uni_hid_device_create a h = (Some i, h')"
  shows "uni_hid_device_get_instance_for_address a h' = Some i"
proof -
  have i: "i < 4" "h' = add_timer Connection_timer i (upd_dev i (\<lambda>_. device_zero\<lparr>conn := conn_zero\<lparr>btaddr := a\<rparr>\<rparr>) h)"
    using assms(2,3) by (auto simp: uni_hid_device_create_def split: option.splits dest!: find_dev_Some)
  let ?P = "\<lambda>d. \<not> uni_hid_device_is_virtual_device d \<and> a = btaddr (conn d)"
  have "\<not> ?P (dev h j)" if "j < 4" for j
    using assms(1,2) that by (simp add: uni_hid_device_get_instance_for_address_def find_dev_None)
  then have "?P (dev h' i)" "\<And>j. j < i \<Longrightarrow> \<not> ?P (dev h' j)" "length (g_devices h') = 4"
    using i assms(2) by (auto simp: dev_upd_dev uni_hid_device_is_virtual_device_def device_zero_def)
  then show ?thesis
    using i(1) unfolding uni_hid_device_get_instance_for_address_def find_dev_def find_Some_iff
    by (intro exI [of _ i]) simp
qed

text \<open>A device that the platform lets in, with a name that no matcher knows.\<close>

definition plain_name :: "string \<Rightarrow> bool" where
  "plain_name nm \<longleftrightarrow> nm \<noteq> [] \<and> length nm < HID_MAX_NAME_LEN \<and>
     nm \<notin> {''Wireless Controller'', ''Navigation Controller'', ''Pro Controller'', ''Joy-Con (L)'', ''Joy-Con (R)'', ''SNES Controller''} \<and>
     take 15 nm \<noteq> ''PLAYSTATION(R)3''"

lemma plain_name_guess: "plain_name nm \<Longrightarrow> uni_hid_device_guess_controller_type_from_name nm d = Some (False, d)"
  by (simp add: plain_name_def uni_hid_device_guess_controller_type_from_name_def uni_hid_parser_ds3_does_name_match_def
      uni_hid_parser_switch_does_name_match_def switch_names_def)

lemma name_fetched_plain:
  assumes "bt_inv s" "i < 4" "plain_name (dev_name (dv s i))" "\<not> incoming (conn (dv s i))"
  shows "name_fetched E i s = Some (l2cap_create_control_connection E i s)"
proof -
  have "on_hid (upd_dev i (\<lambda>_. dv s i)) s = s" by (simp add: on_hid_def upd_dev_def)
  then show ?thesis
    using assms plain_name_guess [OF assms(3), of "dv s i"] bt_inv_length [OF assms(1)]
    by (simp add: name_fetched_def plain_name_def dev_upd_dev)
qed

lemma found:
  assumes s: "bt_inv s" "sdp_device s = None" "uni_hid_device_get_instance_for_address a (hid s) = None"
    and free: "find_dev is_free (hid s) = Some i" and a: "a \<noteq> zero_addr" "uni_bt_allowlist_is_allowed_addr a (allow s)"
    and nm: "plain_name nm" and c: "uni_hid_device_is_cod_supported (ucast (ucast c :: u16))" "155 \<le> rssi"
    and cfg: "cfg_platform C = None" and E: "fst (env_l2cap E) = 0"
  shows "\<exists>s'. bt_handle C E (Ev_inquiry a psrm clk c rssi nm) s = Some s' \<and>
     progress a i None (events (hid s) @ [L2cap_create_channel a PSM_HID_CONTROL]) STATE_L2CAP_CONTROL_CONNECTION_REQUESTED s'"
proof -
  have l: "length (g_devices (hid s)) = 4" "i < 4" using bt_inv_length [OF s(1)] find_dev_Some [OF free] by auto
  obtain h where h: "uni_hid_device_create a (hid s) = (Some i, h)" "dev h i = device_zero\<lparr>conn := conn_zero\<lparr>btaddr := a\<rparr>\<rparr>"
      "length (g_devices h) = 4" "events h = events (hid s)"
    using free l by (simp add: uni_hid_device_create_def dev_upd_dev)
  let ?s1 = "on_hid (upd_conn i (\<lambda>k. k\<lparr>page_scan_repetition_mode := psrm,
        clock_offset := clk OR UNI_BT_CLOCK_OFFSET_VALID, conn_rssi := rssi\<rparr>))
      (on_hid (upd_dev i (uni_hid_device_set_cod c)) (on_hid (set_state i STATE_DEVICE_DISCOVERED) (s\<lparr>hid := h\<rparr>)))"
  let ?s2 = "on_hid (set_state i STATE_REMOTE_NAME_FETCHED) (on_hid (upd_dev i (uni_hid_device_set_name nm)) ?s1)"
  let ?s3 = "l2cap_create_control_connection E i ?s2"
  have d1: "dv ?s1 i = uni_hid_device_set_cod c (device_zero\<lparr>conn := conn_zero\<lparr>btaddr := a, conn_state := STATE_DEVICE_DISCOVERED\<rparr>\<rparr>)
      \<lparr>conn := conn_zero\<lparr>btaddr := a, conn_state := STATE_DEVICE_DISCOVERED, page_scan_repetition_mode := psrm,
        clock_offset := clk OR UNI_BT_CLOCK_OFFSET_VALID, conn_rssi := rssi\<rparr>\<rparr>"
    using h l by (simp add: upd_conn_def dev_set_state dev_upd_dev uni_hid_device_set_cod_def set_flag_def Let_def)
  have n1: "\<not> uni_hid_device_has_name (dv ?s1 i)"
    unfolding d1 by (simp add: uni_hid_device_has_name_def uni_hid_device_set_cod_def set_flag_def device_zero_def Let_def)
  have l1: "length (g_devices (hid ?s1)) = 4" using h(3) by (simp add: upd_conn_def)
  have d2: "dv ?s2 i = (uni_hid_device_set_name nm (dv ?s1 i))\<lparr>conn := (conn (dv ?s1 i))\<lparr>conn_state := STATE_REMOTE_NAME_FETCHED\<rparr>\<rparr>"
    using l1 l(2) by (simp add: dev_set_state dev_upd_dev uni_hid_device_set_name_def set_flag_def)
  have nm2: "dev_name (dv ?s2 i) = nm" "\<not> incoming (conn (dv ?s2 i))" "conn_state (conn (dv ?s2 i)) = STATE_REMOTE_NAME_FETCHED"
    using nm unfolding d2 d1 by (simp_all add: uni_hid_device_set_name_def set_flag_def plain_name_def HID_MAX_NAME_LEN_def conn_zero_def)
  have i2: "bt_inv ?s2"
    using bt_inv_create(1) [OF s(1) a(1) h(1)] by (auto intro!: bt_inv_intros keeps_links_setters)
  have fsm: "bredr_fsm E i ?s2 = Some ?s3"
    using name_fetched_plain [OF i2 l(2)] nm nm2 by (simp add: numeral_2_eq_2)
  have hd: "bt_handle C E (Ev_inquiry a psrm clk c rssi nm) s = Some ?s3"
    using s(3) a(2) nm c cfg h(1) n1 fsm
    by (simp add: uni_bt_bredr_on_gap_inquiry_result_def uni_hid_device_on_device_discovered_def plain_name_def Let_def)
  have d3: "dv ?s3 i = (dv ?s2 i)\<lparr>conn := (conn (dv ?s2 i))\<lparr>control_cid := snd (env_l2cap E),
      conn_state := STATE_L2CAP_CONTROL_CONNECTION_REQUESTED\<rparr>\<rparr>"
    using l1 l(2) E by (simp add: l2cap_create_control_connection_def Let_def dev_set_state upd_conn_def dev_upd_dev)
  have y2: "young a (dv ?s2 i)"
    unfolding d2 d1
    by (simp add: young_def uni_hid_device_set_name_def uni_hid_device_set_cod_def uni_hid_device_has_name_def
        uni_hid_device_has_controller_type_def set_flag_def device_zero_def conn_zero_def Let_def)
  have "length nm \<le> HID_MAX_NAME_LEN" using nm by (simp add: plain_name_def)
  then have "bt_inv ?s3" using inquiry_ok [OF s(1) a(1), of nm E "cfg_platform C" psrm clk c rssi] hd by simp
  moreover have "young a (dv ?s3 i)" unfolding d3 using y2 by (intro young_conn) (auto simp: young_def)
  moreover have "uni_hid_device_get_instance_for_address a (hid ?s3) = Some i"
    using instance_none [OF s(3) l(1) h(1)]
    by (simp add: l2cap_create_control_connection_def Let_def upd_conn_def instance_upd keeps_links_def
        uni_hid_device_set_name_def uni_hid_device_set_cod_def set_flag_def)
  moreover have "events (hid ?s3) = events (hid s) @ [L2cap_create_channel a PSM_HID_CONTROL]" "sdp_device ?s3 = None"
    using y2 h(4) E s(2) by (auto simp: l2cap_create_control_connection_def Let_def upd_conn_def young_def)
  ultimately have "progress a i None (events (hid s) @ [L2cap_create_channel a PSM_HID_CONTROL])
      STATE_L2CAP_CONTROL_CONNECTION_REQUESTED ?s3"
    using l(2) d3 by (simp add: progress_def)
  then show ?thesis using hd by blast
qed

lemma query_results:
  assumes p: "progress a i (Some i) es STATE_SDP_VENDOR_REQUESTED s" and E: "env_sdp E = 0" "env_accepts E"
  shows "\<exists>s'. conn_run C [(Ev_sdp_pid Query_complete, E), (Ev_sdp_hid Query_complete, E)] s = Some s' \<and>
     sdp_device s' = None \<and> conn (dv s' i) = (conn (dv s i))\<lparr>conn_state := STATE_DEVICE_READY\<rparr> \<and>
     events (hid s') = es @ [Sdp_client_query a SERVICE_HUMAN_INTERFACE_DEVICE, On_device_ready i]"
proof -
  have s: "bt_inv s" "sdp_device s = Some i" "young a (dv s i)" "events (hid s) = es" using p by (auto simp: progress_def)
  obtain d where d: "uni_hid_device_guess_controller_type_from_pid_vid (dv s i) = Some d" "conn d = conn (dv s i)"
      "dev_parser d = P_generic" "sdp_query_type d = SDP_QUERY_AFTER_CONNECT"
    using guess_young [OF s(3)] by blast
  have req: "uni_hid_device_does_require_hid_descriptor d" by (simp add: uni_hid_device_does_require_hid_descriptor_def d(3))
  obtain s1 where s1: "uni_handle_sdp_pid_query_result E Query_complete s = Some s1" "sdp_device s1 = Some i"
      "dv s1 i = d\<lparr>conn := (conn d)\<lparr>conn_state := STATE_SDP_HID_DESCRIPTOR_REQUESTED\<rparr>\<rparr>"
      "events (hid s1) = es @ [Sdp_client_query (btaddr (conn d)) SERVICE_HUMAN_INTERFACE_DEVICE]"
    using pid_query_complete_next [OF s(1,2) d(1) req E(1)] s(4) by auto
  have "bt_inv s1" using pid_result_ok [OF s(1), of 0 Query_complete E] s1(1) by simp
  then obtain s2 where "uni_handle_sdp_hid_query_result (cfg_fuel C) E Query_complete s1 = Some s2" "sdp_device s2 = None"
      "events (hid s2) = events (hid s1) @ [On_device_ready i]"
      "conn (dv s2 i) = (conn (dv s1 i))\<lparr>conn_state := STATE_DEVICE_READY\<rparr>"
    using hid_query_complete_ready [OF _ s1(2), of E "cfg_fuel C"] s1(3) s(3) d E(2) by (auto simp: setup_waits_def young_def)
  then show ?thesis using s1 s(3) d(2) by (simp add: young_def)
qed

text \<open>The events of a connection that the firmware starts, with a stack that accepts every call.\<close>

definition outgoing_events :: "bd_addr \<Rightarrow> u8 \<Rightarrow> u16 \<Rightarrow> u32w \<Rightarrow> u8 \<Rightarrow> string \<Rightarrow> u16 \<Rightarrow> u16 \<Rightarrow> bt_event list" where
  "outgoing_events a psrm clk c rssi nm cc ic =
     [Ev_inquiry a psrm clk c rssi nm, Ev_opened 0 PSM_HID_CONTROL cc a, Ev_opened 0 PSM_HID_INTERRUPT ic a]"

definition query_events :: "bt_event list" where
  "query_events = [Ev_sdp_pid Query_complete, Ev_sdp_hid Query_complete]"

lemma outgoing_channels:
  assumes s: "bt_inv s" "sdp_device s = None" "uni_hid_device_get_instance_for_address a (hid s) = None"
    and free: "find_dev is_free (hid s) = Some i" and a: "a \<noteq> zero_addr" "uni_bt_allowlist_is_allowed_addr a (allow s)"
    and nm: "plain_name nm" and c: "uni_hid_device_is_cod_supported (ucast (ucast c :: u16))" "155 \<le> rssi"
    and cfg: "cfg_platform C = None" and E: "fst (env_l2cap E) = 0" "env_sdp E = 0"
  shows "\<exists>s'. conn_run C (map (\<lambda>e. (e, E)) (outgoing_events a psrm clk c rssi nm cc ic)) s = Some s' \<and>
     progress a i (Some i) (events (hid s) @ [L2cap_create_channel a PSM_HID_CONTROL, L2cap_create_channel a PSM_HID_INTERRUPT,
       On_device_connected i, Sdp_client_query a SERVICE_PNP_INFORMATION]) STATE_SDP_VENDOR_REQUESTED s' \<and>
     connected (conn (dv s' i)) \<and> interrupt_cid (conn (dv s' i)) = ic \<and> control_cid (conn (dv s' i)) = cc"
proof -
  have en: "bt_enabled C (Ev_inquiry a psrm clk c rssi nm) s" using a nm by (simp add: plain_name_def)
  obtain s1 where 1: "bt_handle C E (Ev_inquiry a psrm clk c rssi nm) s = Some s1"
      "progress a i None (events (hid s) @ [L2cap_create_channel a PSM_HID_CONTROL]) STATE_L2CAP_CONTROL_CONNECTION_REQUESTED s1"
    using found [OF assms(1-11)] by blast
  obtain s2 where 2: "bt_handle C E (Ev_opened 0 PSM_HID_CONTROL cc a) s1 = Some s2"
      "progress a i None ((events (hid s) @ [L2cap_create_channel a PSM_HID_CONTROL]) @ [L2cap_create_channel a PSM_HID_INTERRUPT])
        STATE_L2CAP_INTERRUPT_CONNECTION_REQUESTED s2" "control_cid (conn (dv s2 i)) = cc"
    using opened_control [OF 1(2) E(1)] by blast
  obtain s3 where "bt_handle C E (Ev_opened 0 PSM_HID_INTERRUPT ic a) s2 = Some s3"
      "progress a i (Some i) (((events (hid s) @ [L2cap_create_channel a PSM_HID_CONTROL]) @ [L2cap_create_channel a PSM_HID_INTERRUPT])
        @ [On_device_connected i, Sdp_client_query a SERVICE_PNP_INFORMATION]) STATE_SDP_VENDOR_REQUESTED s3"
      "connected (conn (dv s3 i))" "interrupt_cid (conn (dv s3 i)) = ic" "control_cid (conn (dv s3 i)) = cc"
    using opened_interrupt [OF 2(2) E(2)] 2(3) by metis
  then show ?thesis using en 1(1) 2(1) by (simp add: outgoing_events_def)
qed

text \<open>
  C9. A controller that no name matcher knows gets connected. In every reachable state without a
  running SDP query and with a free slot, for every address that is allowed and not yet known, every
  supported class of device, a signal strength of at least 155 and every name that fits the buffer,
  is not empty and that no name matcher knows (they know ``Wireless Controller'', ``Navigation
  Controller'', the Switch controllers' names and names that begin with ``PLAYSTATION(R)3''), when
  the stack and the platform accept all calls and the two queries end without having delivered ids
  or a descriptor, so that the generic parser serves the device: the device ends as ready, with both
  channel ids, and the calls to the stack and the callbacks of the platform are exactly these six,
  in this order.
\<close>

theorem outgoing_connection_ready:
  assumes "bt_reachable C s" "sdp_device s = None" "uni_hid_device_get_instance_for_address a (hid s) = None"
    and "find_dev is_free (hid s) = Some i" "a \<noteq> zero_addr" "uni_bt_allowlist_is_allowed_addr a (allow s)"
    and "plain_name nm" "uni_hid_device_is_cod_supported (ucast (ucast c :: u16))" "155 \<le> rssi"
    and "cfg_platform C = None" "fst (env_l2cap E) = 0" "env_sdp E = 0" "env_accepts E"
  shows "\<exists>s'. conn_run C (map (\<lambda>e. (e, E)) (outgoing_events a psrm clk c rssi nm cc ic @ query_events)) s = Some s' \<and>
     conn_state (conn (dv s' i)) = STATE_DEVICE_READY \<and> btaddr (conn (dv s' i)) = a \<and> connected (conn (dv s' i)) \<and>
     control_cid (conn (dv s' i)) = cc \<and> interrupt_cid (conn (dv s' i)) = ic \<and> sdp_device s' = None \<and>
     events (hid s') = events (hid s) @ [L2cap_create_channel a PSM_HID_CONTROL, L2cap_create_channel a PSM_HID_INTERRUPT,
       On_device_connected i, Sdp_client_query a SERVICE_PNP_INFORMATION, Sdp_client_query a SERVICE_HUMAN_INTERFACE_DEVICE,
       On_device_ready i]"
proof -
  have "bt_inv s" using assms(1) by (rule reachable_inv)
  from outgoing_channels [OF this assms(2-12)] obtain s1
    where 1: "conn_run C (map (\<lambda>e. (e, E)) (outgoing_events a psrm clk c rssi nm cc ic)) s = Some s1"
      "progress a i (Some i) (events (hid s) @ [L2cap_create_channel a PSM_HID_CONTROL, L2cap_create_channel a PSM_HID_INTERRUPT,
       On_device_connected i, Sdp_client_query a SERVICE_PNP_INFORMATION]) STATE_SDP_VENDOR_REQUESTED s1"
      "connected (conn (dv s1 i))" "interrupt_cid (conn (dv s1 i)) = ic" "control_cid (conn (dv s1 i)) = cc"
    by blast
  have "btaddr (conn (dv s1 i)) = a" using 1(2) by (simp add: progress_def young_def)
  moreover obtain s2 where "conn_run C (map (\<lambda>e. (e, E)) query_events) s1 = Some s2" "sdp_device s2 = None"
      "conn (dv s2 i) = (conn (dv s1 i))\<lparr>conn_state := STATE_DEVICE_READY\<rparr>"
      "events (hid s2) = (events (hid s) @ [L2cap_create_channel a PSM_HID_CONTROL, L2cap_create_channel a PSM_HID_INTERRUPT,
       On_device_connected i, Sdp_client_query a SERVICE_PNP_INFORMATION]) @ [Sdp_client_query a SERVICE_HUMAN_INTERFACE_DEVICE, On_device_ready i]"
    using query_results [OF 1(2) assms(12,13), of C] by (auto simp: query_events_def)
  ultimately show ?thesis using 1 by (simp add: conn_run_append)
qed

subsection \<open>Concrete runs\<close>

definition quiet_env :: bt_env where
  "quiet_env = \<lparr>env_gap = (\<lambda>_. GAP_CONNECTION_INVALID), env_accepts = True, env_l2cap = (0, 0x40), env_sdp = 0\<rparr>"

definition plain_config :: bt_config where
  "plain_config = \<lparr>cfg_parse = (\<lambda>_ _. None), cfg_statics = undefined, cfg_platform = None, cfg_fuel = 8\<rparr>"

definition pad_addr :: bd_addr where
  "pad_addr = [0xe4, 0x17, 0xd8, 1, 2, 3]"

lemma booted_simps:
  "sdp_device (bt_booted al inc) = None" "allow (bt_booted al inc) = al" "events (hid (bt_booted al inc)) = []"
  by (simp_all add: bt_booted_def uni_hid_device_setup_def)

lemma booted_free:
  assumes "a \<noteq> zero_addr"
  shows "find_dev is_free (hid (bt_booted al inc)) = Some 0"
    "uni_hid_device_get_instance_for_address a (hid (bt_booted al inc)) = None"
proof -
  have d: "dev (hid (bt_booted al inc)) i = device_init" "length (g_devices (hid (bt_booted al inc))) = 4" if "i < 4" for i
    using that by (simp_all add: bt_booted_def uni_hid_device_setup_def CONFIG_BLUEPAD32_MAX_DEVICES_def)
  show "find_dev is_free (hid (bt_booted al inc)) = Some 0"
    using d [of 0] device_init_free by (auto simp: find_dev_def find_Some_iff intro!: exI [of _ 0])
  have "btaddr (conn device_init) = zero_addr"
    by (simp add: device_init_def uni_bt_conn_init_def conn_zero_def)
  moreover have "length (g_devices (hid (bt_booted al inc))) = 4" using d(2) [of 0] by simp
  ultimately show "uni_hid_device_get_instance_for_address a (hid (bt_booted al inc)) = None"
    using d(1) assms by (simp add: uni_hid_device_get_instance_for_address_def find_dev_None)
qed

text \<open>A first controller connects; its first SDP query runs.\<close>

abbreviation (input) "pad_events \<equiv> outgoing_events pad_addr 0 0 0x2508 200 ''Gamepad'' 0x40 0x41"

lemma pad_found:
  "bt_reachable C (bt_booted allow_start inc)" "sdp_device (bt_booted allow_start inc) = None"
  "uni_hid_device_get_instance_for_address pad_addr (hid (bt_booted allow_start inc)) = None"
  "find_dev is_free (hid (bt_booted allow_start inc)) = Some 0" "pad_addr \<noteq> zero_addr"
  "uni_bt_allowlist_is_allowed_addr pad_addr (allow (bt_booted allow_start inc))"
  "plain_name ''Gamepad''" "uni_hid_device_is_cod_supported (ucast (ucast (0x2508 :: u32w) :: u16))" "155 \<le> (200 :: u8)"
  "cfg_platform plain_config = None" "fst (env_l2cap quiet_env) = 0" "env_sdp quiet_env = 0" "env_accepts quiet_env"
proof -
  show a: "pad_addr \<noteq> zero_addr" by (simp add: pad_addr_def zero_addr_def)
  show "find_dev is_free (hid (bt_booted allow_start inc)) = Some 0"
    "uni_hid_device_get_instance_for_address pad_addr (hid (bt_booted allow_start inc)) = None"
    by (rule booted_free [OF a])+
  show "uni_hid_device_is_cod_supported (ucast (ucast (0x2508 :: u32w) :: u16))" by code_simp
qed (simp_all add: bt_reachable.booted booted_simps uni_bt_allowlist_is_allowed_addr_def allow_start_def plain_name_def
    HID_MAX_NAME_LEN_def plain_config_def quiet_env_def)

lemma querying:
  "\<exists>s. bt_reachable plain_config s \<and> conn_run plain_config (map (\<lambda>e. (e, quiet_env)) pad_events) (bt_booted allow_start inc) = Some s \<and>
     progress pad_addr 0 (Some 0) [L2cap_create_channel pad_addr PSM_HID_CONTROL, L2cap_create_channel pad_addr PSM_HID_INTERRUPT,
       On_device_connected 0, Sdp_client_query pad_addr SERVICE_PNP_INFORMATION] STATE_SDP_VENDOR_REQUESTED s"
proof -
  let ?s = "bt_booted allow_start inc"
  obtain s where "conn_run plain_config (map (\<lambda>e. (e, quiet_env)) pad_events) ?s = Some s"
     "progress pad_addr 0 (Some 0) [L2cap_create_channel pad_addr PSM_HID_CONTROL, L2cap_create_channel pad_addr PSM_HID_INTERRUPT,
       On_device_connected 0, Sdp_client_query pad_addr SERVICE_PNP_INFORMATION] STATE_SDP_VENDOR_REQUESTED s"
    using outgoing_channels [OF booted_inv pad_found(2-12), of 0 0 "0x40" "0x41"] booted_simps(3) that by simp blast
  then show ?thesis using run_reachable [OF bt_reachable.booted] by blast
qed

theorem outgoing_connection_ready_witness:
  "\<exists>s. conn_run plain_config (map (\<lambda>e. (e, quiet_env)) (pad_events @ query_events)) (bt_booted allow_start True) = Some s \<and>
     conn_state (conn (dv s 0)) = STATE_DEVICE_READY \<and> control_cid (conn (dv s 0)) = 0x40 \<and> interrupt_cid (conn (dv s 0)) = 0x41"
  using outgoing_connection_ready [OF pad_found, of 0 0 "0x40" "0x41"] by blast

theorem bredr_safe_witness:
  "\<exists>s. conn_run plain_config (map (\<lambda>e. (e, quiet_env)) pad_events) (bt_booted allow_start True) = Some s \<and>
     sdp_device s = Some 0 \<and> (\<exists>s'. bt_handle plain_config quiet_env (Ev_closed 0x40) s = Some s')"
proof -
  obtain s where s: "bt_reachable plain_config s" "sdp_device s = Some 0"
      "conn_run plain_config (map (\<lambda>e. (e, quiet_env)) pad_events) (bt_booted allow_start True) = Some s"
    using querying [of True] by (auto simp: progress_def)
  then show ?thesis using bredr_safe [OF s(1), of 0 "Ev_closed 0x40" quiet_env] by auto
qed

theorem sdp_result_revives_deleted_device_witness:
  "\<exists>s s2. bt_reachable plain_config s \<and> sdp_device s = Some 0 \<and> is_free (dv s2 0) \<and>
     conn_state (conn (dv s2 0)) = STATE_DEVICE_READY"
proof -
  obtain s where s: "bt_reachable plain_config s" "sdp_device s = Some 0" using querying by (auto simp: progress_def)
  show ?thesis using sdp_result_revives_deleted_device [OF s pad_found(12,13)] s by blast
qed

theorem sdp_refused_blocks_queries_witness:
  "\<exists>s s'. bt_reachable plain_config s \<and>
     uni_handle_sdp_pid_query_result (quiet_env\<lparr>env_sdp := 12\<rparr>) Query_complete s = Some s' \<and>
     sdp_device s' = Some 0 \<and> sdp_query_timer s' = None \<and> (\<exists>s''. uni_bt_sdp_query_start quiet_env 1 s' = Some s'' \<and> is_free (dv s'' 1))"
proof -
  obtain s where s: "bt_reachable plain_config s" "sdp_device s = Some 0" "young pad_addr (dv s 0)"
    using querying by (auto simp: progress_def)
  obtain d where d: "uni_hid_device_guess_controller_type_from_pid_vid (dv s 0) = Some d" "dev_parser d = P_generic"
    using guess_young [OF s(3)] by blast
  have "uni_hid_device_does_require_hid_descriptor d" by (simp add: uni_hid_device_does_require_hid_descriptor_def d(2))
  from sdp_refused_blocks_queries [OF s(1,2) d(1) this, of "quiet_env\<lparr>env_sdp := 12\<rparr>"]
  obtain s' where s': "uni_handle_sdp_pid_query_result (quiet_env\<lparr>env_sdp := 12\<rparr>) Query_complete s = Some s'"
      "sdp_device s' = Some 0" "sdp_query_timer s' = None"
      "\<forall>E' j. j < 4 \<longrightarrow> (\<exists>s''. uni_bt_sdp_query_start E' j s' = Some s'' \<and> is_free (dv s'' j) \<and>
        sdp_device s'' = Some 0 \<and> sdp_query_timer s'' = None)"
    by auto
  have "\<exists>s''. uni_bt_sdp_query_start quiet_env 1 s' = Some s'' \<and> is_free (dv s'' 1)" using s'(4) [rule_format, of 1 quiet_env] by auto
  then show ?thesis using s(1) s'(1-3) by blast
qed

subsection \<open>The report descriptor\<close>

text \<open>The bytes of an attribute value, as the SDP client delivers them.\<close>

definition attribute_bytes :: "u16 \<Rightarrow> u8 list \<Rightarrow> nat \<Rightarrow> bt_event list" where
  "attribute_bytes aid xs k =
     map (\<lambda>j. Ev_sdp_hid (Attribute_byte aid (word_of_nat (length xs)) (word_of_nat j) (xs ! j))) [0..<k]"

lemma unat_pos16: "n \<le> 512 \<Longrightarrow> unat (word_of_nat n :: u16) = n"
  by (rule unat_len16) simp

lemma next_pos16:
  assumes "j < n" "n \<le> 512"
  shows "(word_of_nat j :: u16) + 1 = word_of_nat n \<longleftrightarrow> Suc j = n"
proof -
  have "(word_of_nat j :: u16) + 1 = word_of_nat (Suc j)" by simp
  moreover have "unat (word_of_nat (Suc j) :: u16) = Suc j" "unat (word_of_nat n :: u16) = n"
    using assms by (simp_all add: unat_pos16 del: of_nat_Suc)
  ultimately show ?thesis by metis
qed

lemma store_attribute_byte_at:
  assumes "length xs \<le> 512" "j < length xs" "length (sdp_attribute_value s) = 512"
  shows "store_attribute_byte (word_of_nat (length xs)) (word_of_nat j) (xs ! j) s =
    Some (Suc j = length xs, s\<lparr>sdp_attribute_value := (sdp_attribute_value s)[j := xs ! j]\<rparr>)"
proof -
  have "unat (word_of_nat j :: u16) = j" "unat (word_of_nat (length xs) :: u16) = length xs"
    using assms by (simp_all add: unat_pos16)
  then show ?thesis
    using assms next_pos16 [of j "length xs"] by (simp add: store_attribute_byte_def MAX_ATTRIBUTE_VALUE_SIZE_def)
qed

lemma update_prefix: "k < length xs \<Longrightarrow> k < length m \<Longrightarrow>
    (take k xs @ drop k m)[k := xs ! k] = take (Suc k) xs @ drop (Suc k) m"
  by (simp add: list_update_append take_Suc_conv_app_nth Cons_nth_drop_Suc [symmetric])

lemma attribute_prefix:
  assumes "bt_inv s" "sdp_device s = Some i" "length xs \<le> 512" "k < length xs"
  shows "conn_run C (map (\<lambda>e. (e, E)) (attribute_bytes aid xs k)) s =
    Some (s\<lparr>sdp_attribute_value := take k xs @ drop k (sdp_attribute_value s)\<rparr>)"
  using assms(4)
proof (induction k)
  case (Suc k)
  have l: "length (sdp_attribute_value s) = 512" using assms(1) by (simp add: bt_inv_def MAX_ATTRIBUTE_VALUE_SIZE_def)
  let ?s = "s\<lparr>sdp_attribute_value := take k xs @ drop k (sdp_attribute_value s)\<rparr>"
  have st: "store_attribute_byte (word_of_nat (length xs)) (word_of_nat k) (xs ! k) ?s =
      Some (False, s\<lparr>sdp_attribute_value := take (Suc k) xs @ drop (Suc k) (sdp_attribute_value s)\<rparr>)"
    using store_attribute_byte_at [of xs k ?s] update_prefix [of k xs "sdp_attribute_value s"] assms(3) Suc.prems l by simp
  have "(word_of_nat k :: u16) < word_of_nat (length xs)" "(word_of_nat k :: u16) + 1 \<noteq> word_of_nat (length xs)"
    using Suc.prems assms(3) next_pos16 [of k "length xs"] unat_pos16 [of k] unat_pos16 [of "length xs"]
    by (simp_all add: word_less_nat_alt del: of_nat_Suc)
  then show ?case
    using Suc st assms(2) by (simp add: attribute_bytes_def conn_run_append uni_handle_sdp_hid_query_result_def)
qed (simp add: attribute_bytes_def)

text \<open>Its last byte finds the whole value in front of what the buffer held before.\<close>

lemma attribute_last:
  assumes "bt_inv s" "sdp_device s = Some i" "length xs \<le> 512" "length xs = Suc k"
  shows "\<exists>s'. conn_run C (map (\<lambda>e. (e, E)) (attribute_bytes aid xs k)) s = Some s' \<and> hid s' = hid s \<and> sdp_device s' = Some i \<and>
     length (sdp_attribute_value s') = 512 \<and>
     (sdp_attribute_value s')[k := xs ! k] = xs @ drop (length xs) (sdp_attribute_value s)"
proof -
  have "length (sdp_attribute_value s) = 512" using assms(1) by (simp add: bt_inv_def MAX_ATTRIBUTE_VALUE_SIZE_def)
  then show ?thesis
    using attribute_prefix [OF assms(1-3), of k] update_prefix [of k xs "sdp_attribute_value s"] assms by simp
qed

lemma flag_or: "(w OR f) AND f = (f :: 'a::len word)"
  by (rule bit_word_eqI) (auto simp: bit_simps)

text \<open>
  C15. The report descriptor that a controller publishes reaches its record. In every reachable state in which a
  query for a HID descriptor runs, when the bytes of a descriptor list with a descriptor of at most
  501 bytes arrive one by one, every handler returns and the device of the query holds
  exactly this descriptor, whatever the attribute buffer held before.
\<close>

theorem sdp_descriptor_stored:
  assumes "bt_reachable C s" "sdp_device s = Some i" "length d \<le> 501" "cfg_fuel C = Suc (Suc (Suc n))"
  shows "\<exists>s'. conn_run C (map (\<lambda>e. (e, E)) (attribute_bytes ATTRIBUTE_HID_DESCRIPTOR_LIST (descriptor_list d)
       (length (descriptor_list d)))) s = Some s' \<and>
     hid_descriptor_len (dv s' i) = length d \<and> take (length d) (hid_descriptor (dv s' i)) = d \<and>
     uni_hid_device_has_hid_descriptor (dv s' i)"
proof -
  have s: "bt_inv s" using assms(1) by (rule reachable_inv)
  let ?xs = "descriptor_list d"
  have len: "length ?xs = Suc (length d + 10)" by (simp add: descriptor_list_def)
  have le: "length ?xs \<le> 512" using len assms(3) by simp
  obtain s1 where s1: "conn_run C (map (\<lambda>e. (e, E)) (attribute_bytes ATTRIBUTE_HID_DESCRIPTOR_LIST ?xs (length d + 10))) s = Some s1"
      "hid s1 = hid s" "sdp_device s1 = Some i" "length (sdp_attribute_value s1) = 512"
      "(sdp_attribute_value s1)[length d + 10 := ?xs ! (length d + 10)] = ?xs @ drop (length ?xs) (sdp_attribute_value s)"
    using attribute_last [OF s assms(2) le len] by blast
  have i: "i < length (g_devices (hid s1))" using s1(2) bt_inv_length [OF s] bt_inv_device [OF s assms(2)] by simp
  have "holds (?xs @ drop (length ?xs) (sdp_attribute_value s)) 0 ?xs" by (simp add: holds_def)
  then have ds: "hid_descriptors (cfg_fuel C) ((sdp_attribute_value s1)[length d + 10 := ?xs ! (length d + 10)]) = Des_done [d]"
    using hid_descriptors_published [OF _ assms(3), of _ n] s1(5) assms(4) by simp
  let ?ev = "Attribute_byte ATTRIBUTE_HID_DESCRIPTOR_LIST (word_of_nat (length ?xs)) (word_of_nat (length d + 10)) (?xs ! (length d + 10))"
  have u: "unat (word_of_nat (length d + 10) :: u16) = length d + 10" "unat (word_of_nat (length ?xs) :: u16) = length ?xs"
    using assms(3) le unat_pos16 [of "length d + 10"] unat_pos16 [OF le] by auto
  have en: "bt_enabled C (Ev_sdp_hid ?ev) s1"
    using u ds assms(3) len by (simp add: word_less_nat_alt HID_MAX_DESCRIPTOR_LEN_def del: of_nat_add)
  have st: "store_attribute_byte (word_of_nat (length ?xs)) (word_of_nat (length d + 10)) (?xs ! (length d + 10)) s1 =
      Some (True, s1\<lparr>sdp_attribute_value := (sdp_attribute_value s1)[length d + 10 := ?xs ! (length d + 10)]\<rparr>)"
    using store_attribute_byte_at [OF le _ s1(4), of "length d + 10"] len by (simp del: of_nat_add)
  let ?d = "set_flag FLAGS_HAS_HID_DESCRIPTOR ((dv s1 i)\<lparr>hid_descriptor := d @ drop (length d) (hid_descriptor (dv s1 i)),
      hid_descriptor_len := length d\<rparr>)"
  have "store_descriptors [d] (dv s1 i) = Some ?d"
    using assms(3) by (simp add: uni_hid_device_set_hid_descriptor_def HID_MAX_DESCRIPTOR_LEN_def)
  then have "bt_handle C E (Ev_sdp_hid ?ev) s1 = Some (on_hid (upd_dev i (\<lambda>_. ?d))
      (s1\<lparr>sdp_attribute_value := (sdp_attribute_value s1)[length d + 10 := ?xs ! (length d + 10)]\<rparr>))" (is "_ = Some ?s2")
    using st ds s1(3) by (simp add: uni_handle_sdp_hid_query_result_def del: store_descriptors.simps of_nat_add)
  moreover have "dv ?s2 i = ?d" using i by (simp add: dev_upd_dev)
  moreover have "attribute_bytes ATTRIBUTE_HID_DESCRIPTOR_LIST ?xs (length ?xs) =
      attribute_bytes ATTRIBUTE_HID_DESCRIPTOR_LIST ?xs (length d + 10) @ [Ev_sdp_hid ?ev]"
    by (simp only: attribute_bytes_def len upt_Suc_append map_append) simp
  ultimately show ?thesis
    using s1(1) en by (simp add: conn_run_append set_flag_def uni_hid_device_has_hid_descriptor_def flag_or del: of_nat_add)
qed

text \<open>
  A controller can hang the Bluetooth task. When the value of the descriptor list is a sequence with an
  element whose 32-bit length is \<open>2\<^sup>3\<^sup>2 - 5\<close>, the first six bytes are stored, and the handler of the
  last byte never returns: its loop is still running for every number of turns.
\<close>

theorem sdp_descriptor_list_endless:
  assumes "bt_reachable C s" "sdp_device s = Some i"
  shows "\<exists>s'. conn_run C (map (\<lambda>e. (e, E)) (attribute_bytes ATTRIBUTE_HID_DESCRIPTOR_LIST endless_list 6)) s = Some s' \<and>
     (\<forall>n. hid_descriptors n ((sdp_attribute_value s')[6 := 0xfb]) = Des_running \<and>
       uni_handle_sdp_hid_query_result n E (Attribute_byte ATTRIBUTE_HID_DESCRIPTOR_LIST 7 6 0xfb) s' = None)"
proof -
  have s: "bt_inv s" using assms(1) by (rule reachable_inv)
  have len: "length endless_list = Suc 6" "length endless_list \<le> 512" "endless_list ! 6 = 0xfb"
    by (simp_all add: endless_list_def)
  obtain s1 where s1: "conn_run C (map (\<lambda>e. (e, E)) (attribute_bytes ATTRIBUTE_HID_DESCRIPTOR_LIST endless_list 6)) s = Some s1"
      "sdp_device s1 = Some i" "length (sdp_attribute_value s1) = 512"
      "(sdp_attribute_value s1)[6 := endless_list ! 6] = endless_list @ drop (length endless_list) (sdp_attribute_value s)"
    using attribute_last [OF s assms(2) len(2,1)] by blast
  have "holds (endless_list @ drop (length endless_list) (sdp_attribute_value s)) 0 endless_list" by (simp add: holds_def)
  then have run: "hid_descriptors n ((sdp_attribute_value s1)[6 := 0xfb]) = Des_running" for n
    using hid_descriptors_endless s1(4) len(3) by metis
  then have "uni_handle_sdp_hid_query_result n E (Attribute_byte ATTRIBUTE_HID_DESCRIPTOR_LIST 7 6 0xfb) s1 = None" for n
    using s1(2,3) by (simp add: uni_handle_sdp_hid_query_result_def store_attribute_byte_def MAX_ATTRIBUTE_VALUE_SIZE_def)
  then show ?thesis using s1(1) run by blast
qed

theorem sdp_descriptor_stored_witness:
  "\<exists>s s'. bt_reachable plain_config s \<and> conn_run plain_config (map (\<lambda>e. (e, quiet_env))
       (attribute_bytes ATTRIBUTE_HID_DESCRIPTOR_LIST (descriptor_list [0x05, 0x01, 0x09, 0x05]) 15)) s = Some s' \<and>
     hid_descriptor_len (dv s' 0) = 4"
proof -
  obtain s where s: "bt_reachable plain_config s" "sdp_device s = Some 0" using querying by (auto simp: progress_def)
  have "length (descriptor_list [0x05, 0x01, 0x09, 0x05]) = 15" by (simp add: descriptor_list_def)
  then show ?thesis
    using sdp_descriptor_stored [OF s, of "[0x05, 0x01, 0x09, 0x05]" 5 quiet_env] s(1)
    by (auto simp: plain_config_def numeral_eq_Suc)
qed

theorem sdp_descriptor_list_endless_witness:
  "\<exists>s s'. bt_reachable plain_config s \<and> conn_run plain_config (map (\<lambda>e. (e, quiet_env))
       (attribute_bytes ATTRIBUTE_HID_DESCRIPTOR_LIST endless_list 6)) s = Some s' \<and>
     hid_descriptors 1000 ((sdp_attribute_value s')[6 := 0xfb]) = Des_running"
proof -
  obtain s where s: "bt_reachable plain_config s" "sdp_device s = Some 0" using querying by (auto simp: progress_def)
  show ?thesis using sdp_descriptor_list_endless [OF s, of quiet_env] s(1) by blast
qed

end
