(* ===== verification/LeConn.thy ===== *)
theory LeConn
  imports BredrProps
begin

text \<open>
  Connecting a Bluetooth LE controller, \<^verbatim>\<open>bluepad32/bt/uni_bt_le.c\<close>, with the dispatcher and the scan commands of
  \<^verbatim>\<open>bt/uni_bt.c\<close> and the iterator over advertising data of BTstack's \<^verbatim>\<open>ad_parser.c\<close>. The state adds the scan
  flags and a log of calls to the stack to the state of the Classic side, so that sequences of events of
  both are sequences over one state.
\<close>

subsection \<open>Advertising data\<close>

text \<open>
  A structure of the data has a length, a type, and one byte less than its length of payload. The
  iterator's offset and length are single bytes; the sums it compares are computed in \<open>unsigned int\<close>.
\<close>

record ad_context =
  ad_data :: "u8 list"
  ad_offset :: u8
  ad_length :: u8

definition ad_iterator_init :: "u8 \<Rightarrow> u8 list \<Rightarrow> ad_context" where
  "ad_iterator_init ad_len data = \<lparr>ad_data = data, ad_offset = 0, ad_length = ad_len\<rparr>"

definition ad_chunk_len :: "ad_context \<Rightarrow> u8" where
  "ad_chunk_len k = ad_data k ! unat (ad_offset k)"

definition ad_iterator_has_more :: "ad_context \<Rightarrow> bool" where
  "ad_iterator_has_more k \<longleftrightarrow> unat (ad_offset k) + 1 < unat (ad_length k) \<and> ad_chunk_len k \<noteq> 0 \<and>
     unat (ad_offset k) + 1 + unat (ad_chunk_len k) \<le> unat (ad_length k)"

definition ad_iterator_next :: "ad_context \<Rightarrow> ad_context" where
  "ad_iterator_next k = k\<lparr>ad_offset := ad_offset k + (1 + ad_chunk_len k)\<rparr>"

definition ad_iterator_get_data_len :: "ad_context \<Rightarrow> u8" where
  "ad_iterator_get_data_len k = ad_chunk_len k - 1"

definition ad_iterator_get_data_type :: "ad_context \<Rightarrow> u8" where
  "ad_iterator_get_data_type k = ad_data k ! (unat (ad_offset k) + 1)"

definition ad_iterator_get_data :: "ad_context \<Rightarrow> u8 list" where
  "ad_iterator_get_data k = drop (unat (ad_offset k) + 2) (ad_data k)"

abbreviation (input) "DATA_TYPE_SHORTENED_LOCAL_NAME \<equiv> (0x08 :: u8)"
abbreviation (input) "DATA_TYPE_COMPLETE_LOCAL_NAME \<equiv> (0x09 :: u8)"
abbreviation (input) "DATA_TYPE_APPEARANCE \<equiv> (0x19 :: u8)"

text \<open>The types whose first two bytes are read: the appearance, and those that are only logged.\<close>

definition reads_16 :: "u8 \<Rightarrow> bool" where
  "reads_16 t \<longleftrightarrow> t = DATA_TYPE_APPEARANCE \<or> t = 0x0d \<or> t = 0x0e \<or> t = 0x0f \<or> t = 0x10"

definition le16_at :: "u8 list \<Rightarrow> nat \<Rightarrow> u16" where
  "le16_at xs i = ucast (xs ! i) OR push_bit 8 (ucast (xs ! Suc i))"

definition c_string :: "u8 list \<Rightarrow> string" where
  "c_string xs = map (\<lambda>b. char_of (unat b)) (takeWhile (\<lambda>b. b \<noteq> 0) xs)"

text \<open>
  The loop body: the appearance and the name, as the C string in an array of 64. \<open>None\<close> is a write past the
  end of that array or a read past the end of the data.
\<close>

definition ad_name_size :: nat where "ad_name_size = 64"

definition ad_structure :: "ad_context \<Rightarrow> u16 \<times> string \<Rightarrow> (u16 \<times> string) option" where
  "ad_structure k r =
     (let t = ad_iterator_get_data_type k; size = unat (ad_iterator_get_data_len k); data = ad_iterator_get_data k
      in if t = DATA_TYPE_SHORTENED_LOCAL_NAME \<or> t = DATA_TYPE_COMPLETE_LOCAL_NAME
         then (if size < ad_name_size then Some (fst r, c_string (take size data)) else None)
         else if reads_16 t
         then (if 1 < length data then Some (if t = DATA_TYPE_APPEARANCE then (le16_at data 0, snd r) else r) else None)
         else Some r)"

lemma ad_next_offset:
  assumes "ad_iterator_has_more k"
  shows "unat (ad_offset (ad_iterator_next k)) = unat (ad_offset k) + (1 + unat (ad_chunk_len k))"
proof -
  have "unat (ad_offset k) + (1 + unat (ad_chunk_len k)) < 256"
    using assms unsigned_less [of "ad_length k", where ?'a = nat] by (simp add: ad_iterator_has_more_def)
  then have "unat (1 + ad_chunk_len k) = 1 + unat (ad_chunk_len k)" by (simp add: unat_word_ariths)
  with \<open>_ < 256\<close> show ?thesis by (simp add: ad_iterator_next_def unat_word_ariths)
qed

function advertisement_loop :: "ad_context \<Rightarrow> u16 \<times> string \<Rightarrow> (u16 \<times> string) option" where
  "advertisement_loop k r =
     (if ad_iterator_has_more k
      then (case ad_structure k r of None \<Rightarrow> None | Some r' \<Rightarrow> advertisement_loop (ad_iterator_next k) r')
      else Some r)"
  by pat_completeness auto
termination
proof (relation "measure (\<lambda>(k, _). unat (ad_length k) - unat (ad_offset k))")
  fix k :: ad_context and r r' :: "u16 \<times> string"
  assume m: "ad_iterator_has_more k"
  then have "unat (ad_offset k) < unat (ad_length k)" by (simp add: ad_iterator_has_more_def)
  moreover have "ad_length (ad_iterator_next k) = ad_length k" by (simp add: ad_iterator_next_def)
  ultimately show "((ad_iterator_next k, r'), k, r) \<in> measure (\<lambda>(k, _). unat (ad_length k) - unat (ad_offset k))"
    using ad_next_offset [OF m] by simp
qed simp

declare advertisement_loop.simps [simp del]

definition get_advertisement_data :: "u8 list \<Rightarrow> u8 \<Rightarrow> u16 \<times> string \<Rightarrow> (u16 \<times> string) option" where
  "get_advertisement_data adv_data adv_size r = advertisement_loop (ad_iterator_init adv_size adv_data) r"

text \<open>The data of the report with the event's length byte, and the variables the handler starts from.\<close>

definition adv_event_get_data :: "u8 list \<Rightarrow> (u16 \<times> string) option" where
  "adv_event_get_data ad = get_advertisement_data ad (word_of_nat (length ad)) (0, '''')"

text \<open>The class of device for an appearance, or none for what is not a controller.\<close>

definition cod_of_appearance :: "u16 \<Rightarrow> u16 option" where
  "cod_of_appearance a = (if a = 0x3c2 then Some (0x500 OR 0x80) else if a = 0x3c3 then Some (0x500 OR 0x04)
     else if a = 0x3c4 then Some (0x500 OR 0x08) else if a = 0x3c1 then Some (0x500 OR 0x40) else None)"

subsection \<open>State\<close>

datatype stack_call =
    Gap_start_scan
  | Gap_stop_scan
  | Gap_connect bd_addr u8
  | Gap_disconnect_handle u16
  | Hids_client_connect u16
  | Hids_client_disconnect u16
  | Device_information_query u16
  | Sm_just_works_confirm u16
  | Sm_numeric_comparison_confirm u16
  | Sm_request_pairing u16
  | Gap_delete_bonding u8 bd_addr
  | Gap_inquiry bool
  | Gap_drop_link_key bd_addr
  | On_oob_bluetooth_enabled bool
  | Set_ble_property bool

record le_state =
  bt :: bt_state
  bt_scanning_enabled :: bool
  is_scanning :: bool
  ble_enabled :: bool
  le_calls :: "stack_call list"

text \<open>
  The answers while one event is handled: the type of a connection handle, the platform's answer, the
  status and the id of a new HID client, the descriptor storage, and the answers of the Classic side.
\<close>

record le_env =
  gap_of :: "u16 \<Rightarrow> gap_connection_type"
  le_accepts :: bool
  hids_answer :: "u8 \<times> u16"
  descriptor_of :: "u16 \<Rightarrow> u8 \<Rightarrow> u8 list"
  le_l2cap :: "u8 \<times> u16"
  le_sdp :: u8

definition classic_env :: "le_env \<Rightarrow> le_state \<Rightarrow> bt_env" where
  "classic_env R s = \<lparr>env_gap = (\<lambda>i. gap_of R (conn_handle (conn (dv (bt s) i)))), env_accepts = le_accepts R,
     env_l2cap = le_l2cap R, env_sdp = le_sdp R\<rparr>"

definition le_call :: "stack_call \<Rightarrow> le_state \<Rightarrow> le_state" where
  "le_call c s = s\<lparr>le_calls := le_calls s @ [c]\<rparr>"

definition on_table :: "(hid_state \<Rightarrow> hid_state) \<Rightarrow> le_state \<Rightarrow> le_state" where
  "on_table f s = s\<lparr>bt := on_hid f (bt s)\<rparr>"

subsection \<open>Scanning, connecting and disconnecting\<close>

definition hog_connect :: "bd_addr \<Rightarrow> u8 \<Rightarrow> le_state \<Rightarrow> le_state" where
  "hog_connect addr addr_type s = le_call (Gap_connect addr addr_type) (le_call Gap_stop_scan s)"

definition resume_scanning_hint :: "le_state \<Rightarrow> le_state" where
  "resume_scanning_hint s = (if is_scanning s then le_call Gap_start_scan s else s)"

definition hog_disconnect :: "le_env \<Rightarrow> u16 \<Rightarrow> le_state \<Rightarrow> le_state" where
  "hog_disconnect R h s =
     (let s1 = (case uni_hid_device_get_instance_for_connection_handle h (hid (bt s)) of
            None \<Rightarrow> s | Some i \<Rightarrow> le_call (Hids_client_disconnect (hids_cid (dv (bt s) i))) s);
          s2 = (if gap_of R h \<noteq> GAP_CONNECTION_INVALID then le_call (Gap_disconnect_handle h) s1 else s1)
      in resume_scanning_hint s2)"

definition uni_bt_le_disconnect :: "le_env \<Rightarrow> nat \<Rightarrow> le_state \<Rightarrow> le_state" where
  "uni_bt_le_disconnect R i s = hog_disconnect R (conn_handle (conn (dv (bt s) i))) s"

definition uni_bt_le_scan_start :: "le_state \<Rightarrow> le_state" where
  "uni_bt_le_scan_start s = (if \<not> ble_enabled s then s else (le_call Gap_start_scan s)\<lparr>is_scanning := True\<rparr>)"

definition uni_bt_le_scan_stop :: "le_state \<Rightarrow> le_state" where
  "uni_bt_le_scan_stop s = (if \<not> ble_enabled s then s else (le_call Gap_stop_scan s)\<lparr>is_scanning := False\<rparr>)"

definition uni_bt_le_set_enabled :: "bool \<Rightarrow> le_state \<Rightarrow> le_state" where
  "uni_bt_le_set_enabled b s = (le_call (Set_ble_property b) s)\<lparr>ble_enabled := b\<rparr>"

definition uni_bt_bredr_scan_start :: "le_state \<Rightarrow> le_state" where
  "uni_bt_bredr_scan_start = le_call (Gap_inquiry True)"

definition uni_bt_bredr_scan_stop :: "le_state \<Rightarrow> le_state" where
  "uni_bt_bredr_scan_stop = le_call (Gap_inquiry False)"

definition start_scan :: "le_state \<Rightarrow> le_state" where
  "start_scan s = uni_bt_le_scan_start (uni_bt_bredr_scan_start s)"

definition stop_scan :: "le_state \<Rightarrow> le_state" where
  "stop_scan s = uni_bt_le_scan_stop (uni_bt_bredr_scan_stop s)"

definition start_scanning :: "bool \<Rightarrow> le_state \<Rightarrow> le_state" where
  "start_scanning b s =
     le_call (On_oob_bluetooth_enabled b)
       (if bt_scanning_enabled s \<noteq> b
        then (if b then start_scan (s\<lparr>bt_scanning_enabled := b\<rparr>) else stop_scan (s\<lparr>bt_scanning_enabled := b\<rparr>))
        else s)"

text \<open>
  The operations of the device table record a call of \<open>uni_bt_le_disconnect\<close> as an event. \<open>settle\<close> carries out the
  calls that such an operation, from \<open>bt s\<close> to \<open>b\<close>, has made.
\<close>

definition settle :: "le_env \<Rightarrow> le_state \<Rightarrow> bt_state \<Rightarrow> le_state" where
  "settle R s b =
     (fold (\<lambda>e s. case e of Le_disconnect i \<Rightarrow> uni_bt_le_disconnect R i s | _ \<Rightarrow> s)
        (drop (length (events (hid (bt s)))) (events (hid b))) s)\<lparr>bt := b\<rparr>"

definition le_drop :: "le_env \<Rightarrow> nat \<Rightarrow> le_state \<Rightarrow> le_state option" where
  "le_drop R i s = map_option (settle R s) (drop_device (classic_env R s) i (bt s))"

definition le_make_ready :: "le_env \<Rightarrow> nat \<Rightarrow> le_state \<Rightarrow> le_state option" where
  "le_make_ready R i s = map_option (settle R s) (make_ready (classic_env R s) i (bt s))"

subsection \<open>Event handlers\<close>

definition uni_bt_le_on_gap_event_advertising_report ::
    "(bd_addr \<Rightarrow> string \<Rightarrow> u16 \<Rightarrow> u8 \<Rightarrow> uni_error) option \<Rightarrow> bd_addr \<Rightarrow> u8 \<Rightarrow> u8 \<Rightarrow> u8 list \<Rightarrow> le_state \<Rightarrow> le_state option" where
  "uni_bt_le_on_gap_event_advertising_report platform addr addr_type rssi ad s =
     (if uni_hid_device_get_instance_for_address addr (hid (bt s)) \<noteq> None then Some s
      else do {
        (appearance, nm) \<leftarrow> adv_event_get_data ad;
        case cod_of_appearance appearance of
          None \<Rightarrow> Some s
        | Some c \<Rightarrow>
            if uni_hid_device_on_device_discovered (uni_bt_allowlist_is_allowed_addr addr (allow (bt s))) addr nm c rssi platform
                 \<noteq> UNI_ERROR_SUCCESS then Some s
            else (case uni_hid_device_create addr (hid (bt s)) of
                (None, h) \<Rightarrow> Some (s\<lparr>bt := (bt s)\<lparr>hid := h\<rparr>\<rparr>)
              | (Some i, h) \<Rightarrow> Some (hog_connect addr addr_type
                  (on_table (upd_conn i (\<lambda>k. (uni_bt_conn_set_state STATE_DEVICE_DISCOVERED
                      (uni_bt_conn_set_protocol PROTOCOL_BLE k))\<lparr>conn_rssi := rssi\<rparr>))
                    (on_table (upd_dev i (\<lambda>d. uni_hid_device_set_name nm (uni_hid_device_set_cod (ucast c) d)))
                      (s\<lparr>bt := (bt s)\<lparr>hid := h\<rparr>\<rparr>)))))
      })"

text \<open>The status of the connection is not read.\<close>

definition uni_bt_le_on_hci_event_le_meta :: "bd_addr \<Rightarrow> u16 \<Rightarrow> le_state \<Rightarrow> le_state" where
  "uni_bt_le_on_hci_event_le_meta addr h s =
     (case uni_hid_device_get_instance_for_address addr (hid (bt s)) of
        None \<Rightarrow> s
      | Some i \<Rightarrow> le_call (Sm_request_pairing h) (on_table (upd_dev i (uni_hid_device_set_connection_handle h)) s))"

definition uni_bt_le_on_hci_event_encryption_change :: "le_env \<Rightarrow> u16 \<Rightarrow> u8 \<Rightarrow> le_state \<Rightarrow> le_state" where
  "uni_bt_le_on_hci_event_encryption_change R h enabled s =
     (if gap_of R h \<noteq> GAP_CONNECTION_LE then s
      else (case uni_hid_device_get_instance_for_connection_handle h (hid (bt s)) of
          None \<Rightarrow> s
        | Some i \<Rightarrow> if conn_protocol (conn (dv (bt s) i)) \<noteq> PROTOCOL_BLE then s
                    else if enabled = 0 then hog_disconnect R h s else s))"

text \<open>Events of the security manager.\<close>

datatype sm_event =
    Just_works_request u16
  | Numeric_comparison_request u16
  | Reencryption_complete u16 u8 bd_addr u8
  | Pairing_complete u16 u8 bd_addr

definition request_information :: "u16 \<Rightarrow> le_state \<Rightarrow> le_state" where
  "request_information h s = (if h = UNI_BT_CONN_HANDLE_INVALID then s else le_call (Device_information_query h) s)"

fun uni_sm_packet_handler :: "le_env \<Rightarrow> sm_event \<Rightarrow> le_state \<Rightarrow> le_state" where
  "uni_sm_packet_handler R (Just_works_request h) s = le_call (Sm_just_works_confirm h) s"
| "uni_sm_packet_handler R (Numeric_comparison_request h) s = le_call (Sm_numeric_comparison_confirm h) s"
| "uni_sm_packet_handler R (Reencryption_complete h status addr addr_type) s =
     (if status = 0 then request_information h s
      else if status = 0x08 \<or> status = 0x13 then hog_disconnect R h s
      else if status = 0x06 then le_call (Sm_request_pairing h) (le_call (Gap_delete_bonding addr_type addr) s)
      else s)"
| "uni_sm_packet_handler R (Pairing_complete h status addr) s =
     (case uni_hid_device_get_instance_for_address addr (hid (bt s)) of
        None \<Rightarrow> hog_disconnect R h s
      | Some i \<Rightarrow> if status = 0 then request_information h s else s)"

text \<open>Events of the device information service. The ids are stored even when they could not be read.\<close>

datatype information_event =
    Information_done u8 u16
  | Pnp_id u8 u16 u16 u16

fun uni_device_information_packet_handler :: "le_env \<Rightarrow> information_event \<Rightarrow> le_state \<Rightarrow> le_state" where
  "uni_device_information_packet_handler R (Information_done status h) s =
     (if status \<noteq> 0 then hog_disconnect R h s
      else (case uni_hid_device_get_instance_for_connection_handle h (hid (bt s)) of
          None \<Rightarrow> s
        | Some i \<Rightarrow>
            let s1 = le_call (Hids_client_connect h) s
            in if fst (hids_answer R) \<noteq> 0 then hog_disconnect R h s1
               else on_table (upd_dev i (\<lambda>d. d\<lparr>hids_cid := snd (hids_answer R)\<rparr>)) s1))"
| "uni_device_information_packet_handler R (Pnp_id status h vid pid) s =
     (case uni_hid_device_get_instance_for_connection_handle h (hid (bt s)) of
        None \<Rightarrow> s
      | Some i \<Rightarrow> on_table (upd_dev i (\<lambda>d. uni_hid_device_set_product_id pid (uni_hid_device_set_vendor_id vid d))) s)"

text \<open>Events of the HID client.\<close>

definition hid_service_connected :: "le_env \<Rightarrow> u8 \<Rightarrow> u16 \<Rightarrow> le_state \<Rightarrow> le_state option" where
  "hid_service_connected R status cid s =
     (if status \<noteq> 0 then Some s
      else (case uni_hid_device_get_instance_for_hids_cid cid (hid (bt s)) of
          None \<Rightarrow> Some s
        | Some i \<Rightarrow> do {
            d \<leftarrow> uni_hid_device_guess_controller_type_from_pid_vid (dv (bt s) i);
            s1 \<leftarrow> le_make_ready R i (on_table (uni_hid_device_connect i) (on_table (upd_dev i (\<lambda>_. d)) s));
            Some (resume_scanning_hint s1)
          }))"

definition parse_report :: "bt_config \<Rightarrow> le_env \<Rightarrow> u16 \<Rightarrow> u8 \<Rightarrow> u8 list \<Rightarrow> le_state \<Rightarrow> le_state option" where
  "parse_report C R cid service report s =
     (case uni_hid_device_get_instance_for_hids_cid cid (hid (bt s)) of
        None \<Rightarrow> Some s
      | Some i \<Rightarrow> do {
          d \<leftarrow> (if hid_descriptor_len (dv (bt s) i) = 0
                then uni_hid_device_set_hid_descriptor (descriptor_of R cid service) (dv (bt s) i)
                else Some (dv (bt s) i));
          c \<leftarrow> cfg_parse C d report;
          h \<leftarrow> uni_hid_device_process_controller (cfg_statics C) i (upd_dev i (\<lambda>_. d\<lparr>controller := c\<rparr>) (hid (bt s)));
          Some (s\<lparr>bt := (bt s)\<lparr>hid := h\<rparr>\<rparr>)
        })"

text \<open>The end of a connection, from \<^verbatim>\<open>uni_bt.c\<close>: its type is asked for before the device is deleted.\<close>

definition uni_bt_le_on_hci_disconnection_complete :: "le_state \<Rightarrow> le_state" where
  "uni_bt_le_on_hci_disconnection_complete = resume_scanning_hint"

definition disconnection_complete :: "le_env \<Rightarrow> u16 \<Rightarrow> le_state \<Rightarrow> le_state option" where
  "disconnection_complete R h s =
     (let found = uni_hid_device_get_instance_for_connection_handle h (hid (bt s))
      in map_option (\<lambda>b. let s1 = settle R s b
           in if found \<noteq> None \<and> gap_of R h = GAP_CONNECTION_LE then uni_bt_le_on_hci_disconnection_complete s1 else s1)
           (on_hci_disconnection_complete (classic_env R s) h (bt s)))"

text \<open>The command that disconnects a device; its index arrives in the upper half of the context.\<close>

definition disconnect_device :: "le_env \<Rightarrow> u16 \<Rightarrow> le_state \<Rightarrow> le_state option" where
  "disconnect_device R args s =
     (case uni_hid_device_get_instance_for_idx (uint args) (hid (bt s)) of
        None \<Rightarrow> Some s | Some i \<Rightarrow> le_drop R i s)"

text \<open>
  The command that deletes all keys. The stored keys are the stack's: an iterator over link keys, which a port need
  not have, and a table with unused entries.
\<close>

definition uni_bt_bredr_delete_bonded_keys :: "bd_addr list option \<Rightarrow> le_state \<Rightarrow> le_state" where
  "uni_bt_bredr_delete_bonded_keys keys s = (case keys of
      None \<Rightarrow> s | Some addrs \<Rightarrow> fold (\<lambda>addr. le_call (Gap_drop_link_key addr)) addrs s)"

abbreviation (input) "BD_ADDR_TYPE_UNKNOWN \<equiv> (0xfe :: u8)"

definition uni_bt_le_delete_bonded_keys :: "(u8 \<times> bd_addr) list \<Rightarrow> le_state \<Rightarrow> le_state" where
  "uni_bt_le_delete_bonded_keys db s =
     (if \<not> ble_enabled s then s
      else fold (\<lambda>(t, addr) s. if t = BD_ADDR_TYPE_UNKNOWN then s else le_call (Gap_delete_bonding t addr) s) db s)"

definition bluetooth_del_keys :: "bd_addr list option \<Rightarrow> (u8 \<times> bd_addr) list \<Rightarrow> le_state \<Rightarrow> le_state" where
  "bluetooth_del_keys keys db s = uni_bt_le_delete_bonded_keys db (uni_bt_bredr_delete_bonded_keys keys s)"

definition uni_bt_allow_incoming_connections :: "bool \<Rightarrow> le_state \<Rightarrow> le_state" where
  "uni_bt_allow_incoming_connections b s = s\<lparr>bt := (bt s)\<lparr>bt_allow_incoming_connections := b\<rparr>\<rparr>"

subsection \<open>The dispatcher\<close>

datatype le_event =
    Classic bt_event
  | Advertising_report bd_addr u8 u8 "u8 list"
  | Le_connection_complete bd_addr u16
  | Encryption_change u16 u8
  | Security sm_event
  | Information information_event
  | Hid_service_connected u8 u16
  | Hid_report u16 u8 "u8 list"
  | Disconnection_complete u16
  | Rssi_measurement u16 u8
  | Cmd_scanning bool
  | Cmd_disconnect u16
  | Cmd_ble_enabled bool
  | Cmd_delete_keys "bd_addr list option" "(u8 \<times> bd_addr) list"
  | Cmd_allow_incoming bool

definition rssi_measurement :: "u16 \<Rightarrow> u8 \<Rightarrow> le_state \<Rightarrow> le_state" where
  "rssi_measurement h rssi s =
     (case uni_hid_device_get_instance_for_connection_handle h (hid (bt s)) of
        None \<Rightarrow> s | Some i \<Rightarrow> on_table (upd_conn i (\<lambda>k. k\<lparr>conn_rssi := rssi\<rparr>)) s)"

fun le_handle :: "bt_config \<Rightarrow> le_env \<Rightarrow> le_event \<Rightarrow> le_state \<Rightarrow> le_state option" where
  "le_handle C R (Classic ev) s = map_option (settle R s) (bt_handle C (classic_env R s) ev (bt s))"
| "le_handle C R (Advertising_report addr addr_type rssi ad) s =
     uni_bt_le_on_gap_event_advertising_report (cfg_platform C) addr addr_type rssi ad s"
| "le_handle C R (Le_connection_complete addr h) s = Some (uni_bt_le_on_hci_event_le_meta addr h s)"
| "le_handle C R (Encryption_change h enabled) s = Some (uni_bt_le_on_hci_event_encryption_change R h enabled s)"
| "le_handle C R (Security ev) s = Some (uni_sm_packet_handler R ev s)"
| "le_handle C R (Information ev) s = Some (uni_device_information_packet_handler R ev s)"
| "le_handle C R (Hid_service_connected status cid) s = hid_service_connected R status cid s"
| "le_handle C R (Hid_report cid service report) s = parse_report C R cid service report s"
| "le_handle C R (Disconnection_complete h) s = disconnection_complete R h s"
| "le_handle C R (Rssi_measurement h rssi) s = Some (rssi_measurement h rssi s)"
| "le_handle C R (Cmd_scanning b) s = Some (start_scanning b s)"
| "le_handle C R (Cmd_disconnect args) s = disconnect_device R args s"
| "le_handle C R (Cmd_ble_enabled b) s = Some (uni_bt_le_set_enabled b s)"
| "le_handle C R (Cmd_delete_keys keys db) s = Some (bluetooth_del_keys keys db s)"
| "le_handle C R (Cmd_allow_incoming b) s = Some (uni_bt_allow_incoming_connections b s)"

end
