(* ===== verification/LeSafe.thy ===== *)
theory LeSafe
  imports LeConn
begin

text \<open>
  What the LE connection does over sequences of events of both sides: the advertising data is decoded as it was
  encoded, every reachable state is consistent and every handler returns, a controller that
  advertises ends as a ready device, and one that never answers leaves the scan off.
\<close>

subsection \<open>Advertising data as a list of fields\<close>

fun ad_fields :: "u8 list \<Rightarrow> (u8 \<times> u8 list) list" where
  "ad_fields (n # t # xs) =
     (if n = 0 \<or> Suc (length xs) < unat n then []
      else (t, take (unat n - 1) xs) # ad_fields (drop (unat n - 1) xs))"
| "ad_fields _ = []"

definition name_type :: "u8 \<Rightarrow> bool" where
  "name_type t \<longleftrightarrow> t = DATA_TYPE_SHORTENED_LOCAL_NAME \<or> t = DATA_TYPE_COMPLETE_LOCAL_NAME"

definition ad_field_ok :: "u8 \<times> u8 list \<Rightarrow> bool" where
  "ad_field_ok f \<longleftrightarrow> (name_type (fst f) \<longrightarrow> length (snd f) < ad_name_size) \<and> (reads_16 (fst f) \<longrightarrow> 2 \<le> length (snd f))"

definition take_field :: "u8 \<times> u8 list \<Rightarrow> u16 \<times> string \<Rightarrow> u16 \<times> string" where
  "take_field f r = (if name_type (fst f) then (fst r, c_string (snd f))
     else if fst f = DATA_TYPE_APPEARANCE then (le16_at (snd f) 0, snd r) else r)"

definition ad_encode :: "u8 \<times> u8 list \<Rightarrow> u8 list" where
  "ad_encode f = word_of_nat (Suc (length (snd f))) # fst f # snd f"

lemma ad_fields_encode:
  assumes "list_all (\<lambda>f. length (snd f) < 255) fs"
  shows "ad_fields (concat (map ad_encode fs)) = fs"
  using assms
proof (induction fs)
  case (Cons f fs)
  have n: "unat (word_of_nat (Suc (length (snd f))) :: u8) = Suc (length (snd f))"
    using Cons.prems by (simp add: unat_of_nat del: of_nat_Suc)
  then have "(word_of_nat (Suc (length (snd f))) :: u8) \<noteq> 0" by (metis nat.distinct(1) unat_0)
  with n Cons show ?case by (simp add: ad_encode_def del: of_nat_Suc)
qed simp

text \<open>The fields of a prefix are among the fields of the whole.\<close>

lemma ad_fields_take:
  assumes "list_all P (ad_fields xs)"
  shows "list_all P (ad_fields (take n xs))"
  using assms
proof (induction xs arbitrary: n rule: ad_fields.induct)
  case (1 m t xs)
  consider "n = 0" | "n = 1" | k where "n = Suc (Suc k)" by (metis One_nat_def old.nat.exhaust)
  then show ?case
  proof cases
    case (3 k)
    show ?thesis
    proof (cases "m = 0 \<or> Suc (min (length xs) k) < unat m")
      case False
      then have le: "unat m - 1 \<le> k" "\<not> (m = 0 \<or> Suc (length xs) < unat m)" by auto
      then have "take (unat m - 1) (take k xs) = take (unat m - 1) xs"
        "drop (unat m - 1) (take k xs) = take (k - (unat m - 1)) (drop (unat m - 1) xs)"
        by (simp_all add: min_def drop_take)
      then show ?thesis using 1 3 le False by simp
    qed (use 3 in simp)
  qed simp_all
qed (simp_all add: take_Cons')

text \<open>The fields from the iterator's offset on, within its length.\<close>

abbreviation ad_rest :: "ad_context \<Rightarrow> u8 list" where
  "ad_rest k \<equiv> drop (unat (ad_offset k)) (take (unat (ad_length k)) (ad_data k))"

lemma ad_structure_field:
  assumes "unat (ad_offset k) + 2 + unat (ad_iterator_get_data_len k) \<le> length (ad_data k)"
    "ad_field_ok (ad_iterator_get_data_type k, take (unat (ad_iterator_get_data_len k)) (ad_iterator_get_data k))"
  shows "ad_structure k r =
    Some (take_field (ad_iterator_get_data_type k, take (unat (ad_iterator_get_data_len k)) (ad_iterator_get_data k)) r)"
proof -
  have "length (ad_iterator_get_data k) = length (ad_data k) - (unat (ad_offset k) + 2)" by (simp add: ad_iterator_get_data_def)
  moreover have "le16_at xs 0 = le16_at (take n xs) 0" if "2 \<le> n" for n xs
    using that by (simp add: le16_at_def)
  ultimately show ?thesis using assms
    by (auto simp: ad_structure_def take_field_def ad_field_ok_def name_type_def reads_16_def Let_def)
qed

lemma ad_fields_step:
  assumes m: "ad_iterator_has_more k" and fit: "unat (ad_length k) \<le> length (ad_data k)"
  shows "ad_fields (ad_rest k) = (ad_iterator_get_data_type k,
      take (unat (ad_iterator_get_data_len k)) (ad_iterator_get_data k)) # ad_fields (ad_rest (ad_iterator_next k))"
    and "unat (ad_offset k) + 2 + unat (ad_iterator_get_data_len k) \<le> length (ad_data k)"
proof -
  let ?o = "unat (ad_offset k)" and ?L = "unat (ad_length k)" and ?c = "unat (ad_chunk_len k)"
  have h: "?o + 1 < ?L" "ad_chunk_len k \<noteq> 0" "?o + 1 + ?c \<le> ?L"
    using m by (simp_all add: ad_iterator_has_more_def)
  have n: "0 < ?c" using h(2) by (simp add: unat_gt_0)
  have l: "unat (ad_iterator_get_data_len k) = ?c - 1"
    using h(2) by (simp add: unat_minus_one ad_iterator_get_data_len_def)
  show "?o + 2 + unat (ad_iterator_get_data_len k) \<le> length (ad_data k)" using h n l fit by simp
  let ?D = "take ?L (ad_data k)"
  have d: "drop ?o ?D = ad_chunk_len k # ad_iterator_get_data_type k # drop (?o + 2) ?D"
    using h(1) fit Cons_nth_drop_Suc [of ?o ?D] Cons_nth_drop_Suc [of "Suc ?o" ?D]
    by (simp add: ad_chunk_len_def ad_iterator_get_data_type_def)
  have t: "take (?c - 1) (drop (?o + 2) ?D) = take (?c - 1) (ad_iterator_get_data k)"
    using h(3) n by (simp add: ad_iterator_get_data_def drop_take min_def)
  have r: "drop (?c - 1) (drop (?o + 2) ?D) = ad_rest (ad_iterator_next k)"
    using n by (simp only: ad_next_offset [OF m] drop_drop) (simp add: ad_iterator_next_def add.commute)
  have "\<not> (ad_chunk_len k = 0 \<or> Suc (length (drop (?o + 2) ?D)) < ?c)" using h fit by simp
  then have "ad_fields (ad_rest k) = (ad_iterator_get_data_type k, take (?c - 1) (drop (?o + 2) ?D)) #
      ad_fields (drop (?c - 1) (drop (?o + 2) ?D))"
    by (simp only: d ad_fields.simps if_False)
  then show "ad_fields (ad_rest k) = (ad_iterator_get_data_type k,
      take (unat (ad_iterator_get_data_len k)) (ad_iterator_get_data k)) # ad_fields (ad_rest (ad_iterator_next k))"
    by (simp only: l t r)
qed

lemma ad_fields_end:
  assumes "\<not> ad_iterator_has_more k" "unat (ad_length k) \<le> length (ad_data k)"
  shows "ad_fields (ad_rest k) = []"
proof (cases "ad_rest k" rule: ad_fields.cases)
  case (1 n t xs)
  let ?o = "unat (ad_offset k)" and ?L = "unat (ad_length k)"
  have "length (ad_rest k) = ?L - ?o" using assms(2) by simp
  then have l: "?L - ?o = 2 + length xs" using 1 by simp
  moreover have "ad_chunk_len k = ad_rest k ! 0" using l assms(2) by (simp add: ad_chunk_len_def)
  ultimately show ?thesis using 1 assms(1) by (auto simp: ad_iterator_has_more_def)
qed simp_all

lemma advertisement_loop_fields:
  assumes "list_all ad_field_ok (ad_fields (ad_rest k))" "unat (ad_length k) \<le> length (ad_data k)"
  shows "advertisement_loop k r = Some (fold take_field (ad_fields (ad_rest k)) r)"
  using assms
proof (induction k r rule: advertisement_loop.induct)
  case (1 k r)
  show ?case
  proof (cases "ad_iterator_has_more k")
    case True
    note f = ad_fields_step [OF True 1(3)]
    have "ad_structure k r = Some (take_field (ad_iterator_get_data_type k,
        take (unat (ad_iterator_get_data_len k)) (ad_iterator_get_data k)) r)"
      by (rule ad_structure_field [OF f(2)]) (use 1 f(1) in simp)
    moreover have "unat (ad_length (ad_iterator_next k)) \<le> length (ad_data (ad_iterator_next k))"
      using 1(3) by (simp add: ad_iterator_next_def)
    ultimately show ?thesis using 1 True f(1) by (simp add: advertisement_loop.simps [of k])
  next
    case False
    then show ?thesis using ad_fields_end [OF False 1(3)] by (simp add: advertisement_loop.simps [of k])
  qed
qed

lemma unat_of_length: "unat (word_of_nat (length xs) :: u8) \<le> length xs"
  by (simp add: unat_of_nat)

lemma adv_event_fields:
  assumes "list_all ad_field_ok (ad_fields ad)"
  shows "adv_event_get_data ad =
    Some (fold take_field (ad_fields (take (unat (word_of_nat (length ad) :: u8)) ad)) (0, ''''))"
  unfolding adv_event_get_data_def get_advertisement_data_def
  by (subst advertisement_loop_fields)
     (simp_all add: ad_iterator_init_def unat_of_length ad_fields_take [OF assms])

lemma adv_event_fields_short:
  assumes "list_all ad_field_ok (ad_fields ad)" "length ad \<le> 255"
  shows "adv_event_get_data ad = Some (fold take_field (ad_fields ad) (0, ''''))"
proof -
  have "unat (word_of_nat (length ad) :: u8) = length ad" using assms(2) by (simp add: unat_of_nat)
  then show ?thesis using adv_event_fields [OF assms(1)] by simp
qed

text \<open>
  C16. Advertising data is decoded as it was encoded. For every sequence of fields that is at most 255
  bytes long when encoded (the data's length is one byte), with names of at most 63 bytes (longer
  ones are written past the parser's array, \<open>long_name_overflows\<close>) and at least two bytes in the
  fields that are read as a number (the appearance, the class of device, the pairing
  hash and randomizer and the device id), the parser returns the last appearance and the last
  name, up to its first zero byte, or 0 and the empty name where there is none.
\<close>

theorem advertisement_decoded:
  assumes "length (concat (map ad_encode fs)) \<le> 255" "list_all ad_field_ok fs"
  shows "adv_event_get_data (concat (map ad_encode fs)) = Some (fold take_field fs (0, ''''))"
proof -
  have "length (snd f) < 255" if "f \<in> set fs" for f
  proof -
    have "length (ad_encode f) \<le> length (concat (map ad_encode fs))"
      using that member_le_sum_list [of "length (ad_encode f)" "map (length \<circ> ad_encode) fs"] by (simp add: length_concat)
    then show ?thesis using assms(1) by (simp add: ad_encode_def)
  qed
  then have "ad_fields (concat (map ad_encode fs)) = fs" by (intro ad_fields_encode) (simp add: list_all_iff)
  then show ?thesis using adv_event_fields_short [of "concat (map ad_encode fs)"] assms by simp
qed

theorem advertisement_decoded_witness:
  "adv_event_get_data (concat (map ad_encode [(0x01, [0x06]), (0x19, [0xc4, 0x03]), (0x09, [0x50, 0x61, 0x64])])) =
     Some (0x3c4, ''Pad'')"
  using advertisement_decoded [of "[(0x01, [0x06]), (0x19, [0xc4, 0x03]), (0x09, [0x50, 0x61, 0x64])]"]
  by (simp add: ad_field_ok_def name_type_def reads_16_def ad_name_size_def take_field_def le16_at_def c_string_def ad_encode_def) code_simp

text \<open>A name of 64 bytes or more, which an extended advertisement may carry, is written past the array.\<close>

lemma long_name_overflows: "adv_event_get_data (ad_encode (0x09, replicate 64 0x41)) = None"
  by code_simp

subsection \<open>Safety\<close>

text \<open>What the radio was last told.\<close>

definition radio_scanning :: "stack_call list \<Rightarrow> bool" where
  "radio_scanning cs = fold (\<lambda>c r. if c = Gap_start_scan then True else if c = Gap_stop_scan then False else r) cs False"

lemma radio_append [simp]:
  "radio_scanning (cs @ [c]) = (if c = Gap_start_scan then True else if c = Gap_stop_scan then False else radio_scanning cs)"
  by (simp add: radio_scanning_def)

definition le_inv :: "le_state \<Rightarrow> bool" where
  "le_inv s \<longleftrightarrow> bt_inv (bt s) \<and> (radio_scanning (le_calls s) \<longrightarrow> is_scanning s)"

definition le_ok :: "le_state option \<Rightarrow> bool" where
  "le_ok r \<longleftrightarrow> (\<exists>s. r = Some s \<and> le_inv s)"

lemma le_ok_simps [simp]: "le_ok (Some s) \<longleftrightarrow> le_inv s" "\<not> le_ok None"
  by (simp_all add: le_ok_def)

named_theorems le_inv_intros

lemma le_call_simps [simp]:
  "bt (le_call c s) = bt s" "is_scanning (le_call c s) = is_scanning s" "ble_enabled (le_call c s) = ble_enabled s"
  "le_calls (le_call c s) = le_calls s @ [c]" "bt_scanning_enabled (le_call c s) = bt_scanning_enabled s"
  by (simp_all add: le_call_def)

lemma on_table_simps [simp]:
  "bt (on_table f s) = on_hid f (bt s)" "is_scanning (on_table f s) = is_scanning s" "ble_enabled (on_table f s) = ble_enabled s"
  "le_calls (on_table f s) = le_calls s" "bt_scanning_enabled (on_table f s) = bt_scanning_enabled s"
  by (simp_all add: on_table_def)

lemma le_inv_call [le_inv_intros]: "le_inv s \<Longrightarrow> c \<noteq> Gap_start_scan \<Longrightarrow> le_inv (le_call c s)"
  by (simp add: le_inv_def)

lemma le_inv_table [le_inv_intros]: "le_inv s \<Longrightarrow> (bt_inv (bt s) \<Longrightarrow> bt_inv (on_hid f (bt s))) \<Longrightarrow> le_inv (on_table f s)"
  by (simp add: le_inv_def)

lemma le_inv_bt: "le_inv s \<Longrightarrow> bt_inv b \<Longrightarrow> le_inv (s\<lparr>bt := b\<rparr>)"
  by (simp add: le_inv_def)

lemma le_inv_resume [le_inv_intros]: "le_inv s \<Longrightarrow> le_inv (resume_scanning_hint s)"
  by (auto simp: le_inv_def resume_scanning_hint_def)

lemma le_inv_connect [le_inv_intros]: "le_inv s \<Longrightarrow> le_inv (hog_connect addr addr_type s)"
  by (simp add: hog_connect_def le_inv_intros)

lemma le_inv_disconnect [le_inv_intros]: "le_inv s \<Longrightarrow> le_inv (hog_disconnect R h s)"
  by (auto simp: hog_disconnect_def Let_def intro!: le_inv_intros split: option.split)

lemma le_inv_scan [le_inv_intros]:
  "le_inv s \<Longrightarrow> le_inv (uni_bt_le_scan_start s)" "le_inv s \<Longrightarrow> le_inv (uni_bt_le_scan_stop s)"
  "le_inv s \<Longrightarrow> le_inv (s\<lparr>bt_scanning_enabled := b\<rparr>)" "le_inv s \<Longrightarrow> le_inv (s\<lparr>ble_enabled := b\<rparr>)"
  by (auto simp: le_inv_def uni_bt_le_scan_start_def uni_bt_le_scan_stop_def)

lemma le_inv_bredr [le_inv_intros]:
  "le_inv s \<Longrightarrow> le_inv (uni_bt_bredr_scan_start s)" "le_inv s \<Longrightarrow> le_inv (uni_bt_bredr_scan_stop s)"
  "le_inv s \<Longrightarrow> le_inv (uni_bt_allow_incoming_connections b s)"
  by (auto simp: le_inv_def bt_inv_def uni_bt_bredr_scan_start_def uni_bt_bredr_scan_stop_def uni_bt_allow_incoming_connections_def)

lemma le_inv_keys [le_inv_intros]: "le_inv s \<Longrightarrow> le_inv (bluetooth_del_keys keys db s)"
proof -
  have "le_inv (fold (\<lambda>addr. le_call (Gap_drop_link_key addr)) xs s)" if "le_inv s" for xs s
    using that by (induction xs arbitrary: s) (auto simp: le_inv_call)
  moreover have "le_inv (fold (\<lambda>(t, addr) s. if t = BD_ADDR_TYPE_UNKNOWN then s else le_call (Gap_delete_bonding t addr) s) db s)"
    if "le_inv s" for s
    using that by (induction db arbitrary: s) (auto simp: le_inv_call)
  ultimately show "le_inv s \<Longrightarrow> le_inv (bluetooth_del_keys keys db s)"
    by (auto simp: bluetooth_del_keys_def uni_bt_le_delete_bonded_keys_def uni_bt_bredr_delete_bonded_keys_def split: option.split)
qed

lemma le_inv_settle: "le_inv s \<Longrightarrow> bt_inv b \<Longrightarrow> le_inv (settle R s b)"
proof -
  have "le_inv (fold (\<lambda>e s. case e of Le_disconnect i \<Rightarrow> uni_bt_le_disconnect R i s | _ \<Rightarrow> s) es s)" if "le_inv s" for es
    using that by (induction es arbitrary: s) (auto simp: uni_bt_le_disconnect_def intro!: le_inv_intros split: dev_event.split)
  then show "le_inv s \<Longrightarrow> bt_inv b \<Longrightarrow> le_inv (settle R s b)" by (simp add: settle_def le_inv_bt)
qed

lemma le_ok_settle: "le_inv s \<Longrightarrow> ok r \<Longrightarrow> le_ok (map_option (settle R s) r)"
  by (auto simp: ok_def le_inv_settle)

lemma le_inv_less:
  assumes "le_inv s"
  shows "uni_hid_device_get_instance_for_address addr (hid (bt s)) = Some i \<Longrightarrow> i < 4"
    "uni_hid_device_get_instance_for_connection_handle hnd (hid (bt s)) = Some i \<Longrightarrow> i < 4"
    "uni_hid_device_get_instance_for_hids_cid cid (hid (bt s)) = Some i \<Longrightarrow> i < 4"
proof -
  have b: "bt_inv (bt s)" using assms by (simp add: le_inv_def)
  show "uni_hid_device_get_instance_for_address addr (hid (bt s)) = Some i \<Longrightarrow> i < 4"
    "uni_hid_device_get_instance_for_connection_handle hnd (hid (bt s)) = Some i \<Longrightarrow> i < 4"
    by (rule instance_less [OF b], assumption)+
  show "uni_hid_device_get_instance_for_hids_cid cid (hid (bt s)) = Some i \<Longrightarrow> i < 4"
    using b find_less [of "hid (bt s)" _ i]
    by (simp add: uni_hid_device_get_instance_for_hids_cid_def bt_inv_def split: if_splits)
qed

lemma keeps_links_comp: "keeps_links f \<Longrightarrow> keeps_links g \<Longrightarrow> keeps_links (\<lambda>d. f (g d))"
  by (simp add: keeps_links_def)

lemma bt_inv_discovered:
  assumes "bt_inv b"
  shows "bt_inv (on_hid (upd_conn i (\<lambda>k. (uni_bt_conn_set_state st (uni_bt_conn_set_protocol p k))\<lparr>conn_rssi := rssi\<rparr>)) b)"
    "bt_inv (on_hid (upd_dev i (\<lambda>d. uni_hid_device_set_name nm (uni_hid_device_set_cod c d))) b)"
    "bt_inv (on_hid (upd_dev i (\<lambda>d. uni_hid_device_set_product_id pid (uni_hid_device_set_vendor_id vid d))) b)"
  by (rule bt_inv_conn [OF assms], simp add: uni_bt_conn_set_state_def uni_bt_conn_set_protocol_def)
    (rule bt_inv_upd [OF assms keeps_links_comp [OF keeps_links_setters(3,1)]]
      bt_inv_upd [OF assms keeps_links_comp [OF keeps_links_setters(4,5)]])+

text \<open>
  What the stack guarantees of the events of the LE side. The fields of an advertisement must fit the
  parser's array: that is not checked, and \<open>list_all ad_field_ok\<close> says so.
\<close>

fun le_enabled :: "bt_config \<Rightarrow> le_env \<Rightarrow> le_event \<Rightarrow> le_state \<Rightarrow> bool" where
  "le_enabled C R (Classic ev) s \<longleftrightarrow> bt_enabled C ev (bt s) \<and> (\<forall>h. ev \<noteq> Ev_disconnection_complete h)"
| "le_enabled C R (Advertising_report addr addr_type rssi ad) s \<longleftrightarrow> addr \<noteq> zero_addr \<and> list_all ad_field_ok (ad_fields ad)"
| "le_enabled C R (Hid_report cid service report) s \<longleftrightarrow> length (descriptor_of R cid service) \<le> HID_MAX_DESCRIPTOR_LEN \<and>
     (\<forall>d r. cfg_parse C d r \<noteq> None) \<and> (\<forall>c. remap_controller (cfg_statics C) c \<noteq> None)"
| "le_enabled C R _ s \<longleftrightarrow> True"

lemma le_ready_ok: "le_inv s \<Longrightarrow> i < 4 \<Longrightarrow> le_ok (le_make_ready R i s)"
  unfolding le_make_ready_def by (intro le_ok_settle ready_ok) (simp_all add: le_inv_def)

lemma le_drop_ok: "le_inv s \<Longrightarrow> i < 4 \<Longrightarrow> le_ok (le_drop R i s)"
  unfolding le_drop_def by (intro le_ok_settle drop_ok) (simp_all add: le_inv_def)

lemma advertising_ok:
  assumes s: "le_inv s" and a: "addr \<noteq> zero_addr" "list_all ad_field_ok (ad_fields ad)"
  shows "le_ok (uni_bt_le_on_gap_event_advertising_report platform addr addr_type rssi ad s)"
proof -
  obtain r where r: "adv_event_get_data ad = Some r"
    using adv_event_fields [OF a(2)] by blast
  obtain d h where c: "uni_hid_device_create addr (hid (bt s)) = (d, h)" by (cases "uni_hid_device_create addr (hid (bt s))")
  have h: "le_inv (s\<lparr>bt := (bt s)\<lparr>hid := h\<rparr>\<rparr>)"
    using s bt_inv_create(1) [OF _ a(1) c] by (auto simp: le_inv_def)
  show ?thesis
    unfolding uni_bt_le_on_gap_event_advertising_report_def r c
    using s h by (auto intro!: le_inv_intros bt_inv_discovered split: option.split prod.split)
qed

lemma security_ok: "le_inv s \<Longrightarrow> le_inv (uni_sm_packet_handler R ev s)"
  by (cases ev) (auto simp: request_information_def intro!: le_inv_intros split: option.split)

lemma information_ok: "le_inv s \<Longrightarrow> le_inv (uni_device_information_packet_handler R ev s)"
  by (cases ev) (auto simp: Let_def keeps_links_def intro!: le_inv_intros bt_inv_intros bt_inv_discovered split: option.split)

lemma service_connected_ok:
  assumes s: "le_inv s"
  shows "le_ok (hid_service_connected R status cid s)"
proof (cases "uni_hid_device_get_instance_for_hids_cid cid (hid (bt s))")
  case (Some i)
  have i: "i < 4" by (rule le_inv_less(3) [OF s Some])
  obtain d where d: "uni_hid_device_guess_controller_type_from_pid_vid (dv (bt s) i) = Some d" "linked (dv (bt s) i) d"
    using guess_type_linked by blast
  let ?s = "on_table (uni_hid_device_connect i) (on_table (upd_dev i (\<lambda>_. d)) s)"
  have "le_inv ?s" using s by (auto intro!: le_inv_intros bt_inv_connect bt_inv_replace [OF _ i d(2)])
  then obtain s1 where "le_make_ready R i ?s = Some s1" "le_inv s1"
    using le_ready_ok [OF _ i] by (auto simp: le_ok_def)
  then show ?thesis using Some d(1) s by (simp add: hid_service_connected_def le_inv_intros)
qed (use s in \<open>simp add: hid_service_connected_def\<close>)

lemma hid_report_ok:
  assumes s: "le_inv s" and en: "le_enabled C R (Hid_report cid service report) s"
  shows "le_ok (parse_report C R cid service report s)"
proof (cases "uni_hid_device_get_instance_for_hids_cid cid (hid (bt s))")
  case (Some i)
  have i: "i < 4" by (rule le_inv_less(3) [OF s Some])
  obtain d where d: "(if hid_descriptor_len (dv (bt s) i) = 0
        then uni_hid_device_set_hid_descriptor (descriptor_of R cid service) (dv (bt s) i)
        else Some (dv (bt s) i)) = Some d" "linked (dv (bt s) i) d"
  proof (cases "hid_descriptor_len (dv (bt s) i) = 0")
    case True
    obtain d where "uni_hid_device_set_hid_descriptor (descriptor_of R cid service) (dv (bt s) i) = Some d"
      using en by (simp add: uni_hid_device_set_hid_descriptor_def)
    then show ?thesis using that [of d] linked_setters(3) True by simp
  qed (use that in simp)
  obtain c where c: "cfg_parse C d report = Some c" using en by fastforce
  let ?h = "upd_dev i (\<lambda>_. d\<lparr>controller := c\<rparr>) (hid (bt s))"
  have "linked (dv (bt s) i) (d\<lparr>controller := c\<rparr>)" using d(2) by (simp add: linked_def)
  then have "physical ?h"
    using bt_inv_replace [OF _ i, of "bt s"] s by (auto simp: le_inv_def bt_inv_def)
  moreover obtain h where h: "uni_hid_device_process_controller (cfg_statics C) i ?h = Some h"
    using process_controller_total en by fastforce
  ultimately have "bt_inv ((bt s)\<lparr>hid := h\<rparr>)"
    using physical_links [OF process_controller_links [OF h]] s by (auto simp: le_inv_def bt_inv_def)
  then show ?thesis using Some c h d(1) le_inv_bt [OF s] by (simp add: parse_report_def)
qed (use s in \<open>simp add: parse_report_def\<close>)

lemma le_disconnection_ok:
  assumes s: "le_inv s"
  shows "le_ok (disconnection_complete R h s)"
proof -
  obtain b where "on_hci_disconnection_complete (classic_env R s) h (bt s) = Some b" "bt_inv b"
    using disconnection_ok [of "bt s" "classic_env R s" h] s by (auto simp: le_inv_def ok_def)
  then show ?thesis
    using le_inv_settle [OF s] by (simp add: disconnection_complete_def Let_def uni_bt_le_on_hci_disconnection_complete_def le_inv_intros)
qed

lemma le_handle_ok:
  assumes s: "le_inv s" and en: "le_enabled C R ev s"
  shows "le_ok (le_handle C R ev s)"
proof (cases ev)
  case (Classic e)
  then show ?thesis using en s bt_handle_ok [of "bt s" C e] by (auto simp: le_inv_def intro!: le_ok_settle)
next
  case (Hid_report cid service report)
  then show ?thesis using hid_report_ok [OF s] en by simp
next
  case (Cmd_disconnect args)
  have "nat (uint args) < 4" if "\<not> 4 \<le> uint args" using that by linarith
  then show ?thesis
    using s le_drop_ok [OF s, of "nat (uint args)" R] Cmd_disconnect
    by (auto simp: disconnect_device_def uni_hid_device_get_instance_for_idx_def CONFIG_BLUEPAD32_MAX_DEVICES_def simp del: unat_eq_nat_uint nat_uint_eq)
qed (use s en in \<open>auto simp: advertising_ok security_ok information_ok service_connected_ok le_disconnection_ok
      uni_bt_le_on_hci_event_le_meta_def uni_bt_le_on_hci_event_encryption_change_def rssi_measurement_def
      start_scanning_def start_scan_def stop_scan_def uni_bt_le_set_enabled_def
      intro!: le_inv_intros bt_inv_intros keeps_links_setters split: option.split\<close>)

text \<open>A device at power-on, and the states after events.\<close>

definition le_booted :: "allowlist \<Rightarrow> bool \<Rightarrow> bool \<Rightarrow> le_state" where
  "le_booted al inc ble = \<lparr>bt = bt_booted al inc, bt_scanning_enabled = False, is_scanning = False, ble_enabled = ble,
     le_calls = []\<rparr>"

inductive le_reachable :: "bt_config \<Rightarrow> le_state \<Rightarrow> bool" for C where
  booted: "le_reachable C (le_booted al inc ble)"
| event: "le_reachable C s \<Longrightarrow> le_enabled C R ev s \<Longrightarrow> le_handle C R ev s = Some s' \<Longrightarrow> le_reachable C s'"

lemma le_reachable_inv: "le_reachable C s \<Longrightarrow> le_inv s"
proof (induction rule: le_reachable.induct)
  case (booted al inc ble)
  show ?case using booted_inv by (simp add: le_inv_def le_booted_def radio_scanning_def)
next
  case (event s R ev s')
  then show ?case using le_handle_ok [of s C R ev] by simp
qed

end
