(* ===== verification/BtService.thy ===== *)
theory BtService
  imports LeSafe
begin

text \<open>
  The Bluetooth start-up, \<^verbatim>\<open>bluepad32/bt/uni_bt_setup.c\<close>, and the GATT service for configuration,
  \<^verbatim>\<open>bt/uni_bt_service.c\<close> with \<^verbatim>\<open>uni_virtual_device.c\<close>: the characteristics that a client can read and write, and
  the notifications about connected controllers. The handles of the characteristics come from a
  generated header, so that a handle is a constructor here. The service's state contains the state of the connection
  layer, which writes change. The hooks for devices, which the device table calls, get the device's record.
\<close>

subsection \<open>Start-up of the stack\<close>

datatype setup_state = SETUP_STATE_BTSTACK_IN_PROGRESS | SETUP_STATE_BLUEPAD32_IN_PROGRESS | SETUP_STATE_READY

datatype setup_call = Write_simple_pairing_mode bool | Set_event_filter_inquiry_cod u8 u8 u32w u32w | On_init_complete | Service_init

record bt_setup =
  setup_state :: setup_state
  setup_fn_idx :: nat
  setup_calls :: "setup_call list"

datatype setup_event = State_working | State_other | Poweron_failed | Other_event | No_hci_event

text \<open>What the stack answers: whether a command can be sent, and the status of sending it.\<close>

record setup_env =
  can_send_command :: bool
  command_status :: u8
  service_wanted :: bool

definition bt_setup_start :: bt_setup where
  "bt_setup_start = \<lparr>setup_state = SETUP_STATE_BTSTACK_IN_PROGRESS, setup_fn_idx = 0, setup_calls = []\<rparr>"

definition setup_fns :: "setup_call list" where
  "setup_fns = [Write_simple_pairing_mode True,
     Set_event_filter_inquiry_cod 0x01 0x01 UNI_BT_COD_MAJOR_PERIPHERAL UNI_BT_COD_MAJOR_MASK]"

text \<open>The call of a function that fails is not recorded. \<open>None\<close> is an access outside of the array.\<close>

definition setup_call_next_fn :: "setup_env \<Rightarrow> bt_setup \<Rightarrow> bt_setup option" where
  "setup_call_next_fn R s =
     (if \<not> can_send_command R then Some s
      else if setup_fn_idx s \<ge> length setup_fns then None
      else if command_status R \<noteq> 0 then Some s
      else
        let s1 = s\<lparr>setup_fn_idx := Suc (setup_fn_idx s), setup_calls := setup_calls s @ [setup_fns ! setup_fn_idx s]\<rparr>
        in Some (if setup_fn_idx s1 = length setup_fns
             then s1\<lparr>setup_state := SETUP_STATE_READY,
               setup_calls := setup_calls s1 @ [On_init_complete] @ (if service_wanted R then [Service_init] else [])\<rparr>
             else s1))"

text \<open>Once the start-up is ready, events go to the handlers of the connection layer.\<close>

definition uni_bt_setup_packet_handler :: "setup_env \<Rightarrow> setup_event \<Rightarrow> bt_setup \<Rightarrow> bt_setup option" where
  "uni_bt_setup_packet_handler R ev s =
     (if ev = No_hci_event then Some s
      else if setup_state s = SETUP_STATE_BLUEPAD32_IN_PROGRESS then setup_call_next_fn R s
      else if ev = State_working
      then setup_call_next_fn R (s\<lparr>setup_state := SETUP_STATE_BLUEPAD32_IN_PROGRESS\<rparr>)
      else Some s)"

definition uni_bt_setup_is_ready :: "bt_setup \<Rightarrow> bool" where
  "uni_bt_setup_is_ready s \<longleftrightarrow> setup_state s = SETUP_STATE_READY"

primrec bt_setup_run :: "(setup_event \<times> setup_env) list \<Rightarrow> bt_setup \<Rightarrow> bt_setup option" where
  "bt_setup_run [] s = Some s"
| "bt_setup_run (e # es) s =
     (if uni_bt_setup_is_ready s then Some s
      else Option.bind (uni_bt_setup_packet_handler (snd e) (fst e) s) (bt_setup_run es))"

subsection \<open>State of the service\<close>

abbreviation (input) "HCI_CON_HANDLE_INVALID \<equiv> (0xffff :: u16)"

record compact_device =
  cd_idx :: u8
  cd_addr :: bd_addr
  cd_vendor_id :: u16
  cd_product_id :: u16
  cd_state :: u8
  cd_incoming :: u8
  cd_controller_type :: u16
  cd_controller_subtype :: u32w

definition compact_zero :: "nat \<Rightarrow> compact_device" where
  "compact_zero i = \<lparr>cd_idx = word_of_nat i, cd_addr = zero_addr, cd_vendor_id = 0, cd_product_id = 0, cd_state = 0,
     cd_incoming = 0, cd_controller_type = 0, cd_controller_subtype = 0\<rparr>"

record client_connection =
  notification_enabled :: bool
  value_handle :: u16
  connection_handle :: u16

definition client_zero :: client_connection where
  "client_zero = \<lparr>notification_enabled = False, value_handle = 0, connection_handle = HCI_CON_HANDLE_INVALID\<rparr>"

definition MAX_NR_CLIENT_CONNECTIONS :: nat where "MAX_NR_CLIENT_CONNECTIONS = 1"

datatype svc_call =
    Att_server_notify u16 u16 compact_device
  | Att_server_init
  | Att_server_register_packet_handler
  | Gap_advertisements_set_params u16 u16 u8
  | Gap_advertisements_set_data "u8 list"
  | Att_server_deinit
  | Gap_advertisements_enable bool
  | Property_virtual_device bool
  | System_reboot

text \<open>
  \<open>can_send\<close> is the stack's registration for the event that notifications wait for: requests while one is
  pending add nothing, since there is a single registration.
\<close>

record svc_state =
  le :: le_state
  statics :: gamepad_statics
  virtual_device_enabled :: bool
  service_enabled :: bool
  client_connections :: "client_connection list"
  notification_device_idx :: nat
  compact_devices :: "compact_device list"
  can_send :: bool
  svc_calls :: "svc_call list"

record svc_env =
  le_answers :: le_env
  property_writes :: bool
  link_keys :: "bd_addr list option"
  le_device_db :: "(u8 \<times> bd_addr) list"

definition svc_call :: "svc_call \<Rightarrow> svc_state \<Rightarrow> svc_state" where
  "svc_call c s = s\<lparr>svc_calls := svc_calls s @ [c]\<rparr>"

definition att_server_request_can_send_now_event :: "svc_state \<Rightarrow> svc_state" where
  "att_server_request_can_send_now_event s = s\<lparr>can_send := True\<rparr>"

subsection \<open>Notifications\<close>

definition client_valid :: "client_connection \<Rightarrow> bool" where
  "client_valid c \<longleftrightarrow> connection_handle c \<noteq> HCI_CON_HANDLE_INVALID \<and> notification_enabled c"

text \<open>The index of the client that is notified is always 0.\<close>

definition is_notify_client_valid :: "svc_state \<Rightarrow> bool" where
  "is_notify_client_valid s \<longleftrightarrow> client_valid (client_connections s ! 0)"

definition next_notify_device :: "svc_state \<Rightarrow> bool \<times> svc_state" where
  "next_notify_device s =
     (let i = Suc (notification_device_idx s)
      in if i = CONFIG_BLUEPAD32_MAX_DEVICES then (True, s\<lparr>notification_device_idx := 0\<rparr>)
         else (False, s\<lparr>notification_device_idx := i\<rparr>))"

definition notify_client :: "svc_state \<Rightarrow> svc_state" where
  "notify_client s =
     (if \<not> is_notify_client_valid s then s
      else
        let c = client_connections s ! 0;
            (finish_round, s1) = next_notify_device
              (svc_call (Att_server_notify (connection_handle c) (value_handle c) (compact_devices s ! notification_device_idx s)) s)
        in if \<not> finish_round then att_server_request_can_send_now_event s1 else s1)"

definition maybe_notify_client :: "svc_state \<Rightarrow> svc_state" where
  "maybe_notify_client s =
     (if list_ex client_valid (client_connections s) then att_server_request_can_send_now_event s else s)"

subsection \<open>Hooks of the device table\<close>

definition upd_compact :: "nat \<Rightarrow> (compact_device \<Rightarrow> compact_device) \<Rightarrow> svc_state \<Rightarrow> svc_state" where
  "upd_compact i f s = s\<lparr>compact_devices := (compact_devices s)[i := f (compact_devices s ! i)]\<rparr>"

definition conn_state_code :: "uni_bt_conn_state \<Rightarrow> u8" where
  "conn_state_code st = (case st of
     STATE_DEVICE_NONE \<Rightarrow> 0 | STATE_DEVICE_DISCOVERED \<Rightarrow> 1 | STATE_REMOTE_NAME_REQUEST \<Rightarrow> 2 | STATE_REMOTE_NAME_INQUIRED \<Rightarrow> 3
   | STATE_REMOTE_NAME_FETCHED \<Rightarrow> 4 | STATE_SDP_VENDOR_REQUESTED \<Rightarrow> 5 | STATE_SDP_VENDOR_FETCHED \<Rightarrow> 6
   | STATE_SDP_HID_DESCRIPTOR_REQUESTED \<Rightarrow> 7 | STATE_SDP_HID_DESCRIPTOR_FETCHED \<Rightarrow> 8
   | STATE_L2CAP_CONTROL_CONNECTION_REQUESTED \<Rightarrow> 9 | STATE_L2CAP_CONTROL_CONNECTED \<Rightarrow> 10
   | STATE_L2CAP_INTERRUPT_CONNECTION_REQUESTED \<Rightarrow> 11 | STATE_L2CAP_INTERRUPT_CONNECTED \<Rightarrow> 12
   | STATE_DEVICE_PENDING_READY \<Rightarrow> 13 | STATE_DEVICE_READY \<Rightarrow> 14)"

definition uni_bt_service_on_device_ready :: "nat \<Rightarrow> uni_hid_device \<Rightarrow> svc_state \<Rightarrow> svc_state" where
  "uni_bt_service_on_device_ready i d s =
     (if \<not> service_enabled s then s
      else maybe_notify_client (upd_compact i (\<lambda>c. c\<lparr>cd_controller_subtype := word_of_int (controller_subtype d),
             cd_state := of_bool (connected (conn d))\<rparr>) s))"

definition uni_bt_service_on_device_connected :: "nat \<Rightarrow> uni_hid_device \<Rightarrow> svc_state \<Rightarrow> svc_state" where
  "uni_bt_service_on_device_connected i d s =
     (if \<not> service_enabled s then s
      else maybe_notify_client (upd_compact i (\<lambda>c. c\<lparr>cd_vendor_id := vendor_id d, cd_product_id := product_id d,
             cd_controller_type := word_of_int (controller_type d), cd_controller_subtype := word_of_int (controller_subtype d),
             cd_addr := btaddr (conn d), cd_state := conn_state_code (conn_state (conn d)),
             cd_incoming := of_bool (incoming (conn d))\<rparr>) s))"

definition uni_bt_service_on_device_disconnected :: "nat \<Rightarrow> svc_state \<Rightarrow> svc_state" where
  "uni_bt_service_on_device_disconnected i s =
     (if \<not> service_enabled s then s else maybe_notify_client (upd_compact i (\<lambda>_. compact_zero i) s))"

subsection \<open>Start and end of the service\<close>

definition adv_data :: "u8 list" where
  "adv_data = [2, 0x01, 0x06, 5, 0x09, 0x42, 0x50, 0x33, 0x32, 17, 0x07,
     0x63, 0x7F, 0xBF, 0xC1, 0xC5, 0xAF, 0x88, 0xB6, 0xB9, 0x46, 0x00, 0xAC, 0xA4, 0xC4, 0x27, 0x46]"

definition uni_bt_service_init :: "svc_state \<Rightarrow> svc_state" where
  "uni_bt_service_init s =
     fold svc_call [Att_server_register_packet_handler, Gap_advertisements_set_params 0x30 0x30 0,
         Gap_advertisements_set_data adv_data, Gap_advertisements_enable True]
       ((svc_call Att_server_init s)\<lparr>compact_devices := map compact_zero [0..<CONFIG_BLUEPAD32_MAX_DEVICES],
          client_connections := replicate MAX_NR_CLIENT_CONNECTIONS client_zero\<rparr>)"

definition uni_bt_service_deinit :: "svc_state \<Rightarrow> svc_state" where
  "uni_bt_service_deinit s = svc_call (Gap_advertisements_enable False) (svc_call Att_server_deinit s)"

definition uni_bt_service_set_enabled :: "bool \<Rightarrow> svc_state \<Rightarrow> svc_state" where
  "uni_bt_service_set_enabled b s =
     (if b = service_enabled s then s
      else if b then uni_bt_service_init (s\<lparr>service_enabled := b\<rparr>) else uni_bt_service_deinit (s\<lparr>service_enabled := b\<rparr>))"

subsection \<open>Clients\<close>

definition connection_for_conn_handle :: "u16 \<Rightarrow> svc_state \<Rightarrow> nat option" where
  "connection_for_conn_handle h s =
     find (\<lambda>i. connection_handle (client_connections s ! i) = h) [0..<length (client_connections s)]"

definition upd_client :: "nat \<Rightarrow> (client_connection \<Rightarrow> client_connection) \<Rightarrow> svc_state \<Rightarrow> svc_state" where
  "upd_client i f s = s\<lparr>client_connections := (client_connections s)[i := f (client_connections s ! i)]\<rparr>"

datatype att_event = Att_connected u16 | Att_mtu_exchange u16 | Att_can_send_now | Att_disconnected u16

fun uni_att_packet_handler :: "att_event \<Rightarrow> svc_state \<Rightarrow> svc_state" where
  "uni_att_packet_handler (Att_connected h) s = (case connection_for_conn_handle HCI_CON_HANDLE_INVALID s of
      None \<Rightarrow> s | Some i \<Rightarrow> upd_client i (\<lambda>c. c\<lparr>connection_handle := h\<rparr>) s)"
| "uni_att_packet_handler (Att_mtu_exchange h) s = s"
| "uni_att_packet_handler Att_can_send_now s = notify_client s"
| "uni_att_packet_handler (Att_disconnected h) s = (case connection_for_conn_handle h s of
      None \<Rightarrow> s | Some i \<Rightarrow> upd_client i (\<lambda>_. client_zero) s)"

subsection \<open>Characteristics\<close>

datatype characteristic =
    Version_value
  | Max_connections_value
  | Ble_enabled_value
  | Scan_value
  | Connected_devices_value
  | Notify_devices_value
  | Notify_devices_configuration
  | Mappings_type_value
  | Allowlist_enabled_value
  | Allowlist_addresses_value
  | Virtual_devices_value
  | Disconnect_device_value
  | Delete_keys_value
  | Reset_device_value
  | Other_handle

abbreviation (input) "ATT_ERROR_SUCCESS \<equiv> (0 :: u8)"
abbreviation (input) "ATT_ERROR_REQUEST_NOT_SUPPORTED \<equiv> (0x06 :: u8)"
abbreviation (input) "ATT_ERROR_ATTRIBUTE_NOT_FOUND \<equiv> (0x0a :: u8)"

definition uni_virtual_device_set_enabled :: "bool \<Rightarrow> svc_state \<Rightarrow> svc_state" where
  "uni_virtual_device_set_enabled b s =
     (if b \<noteq> virtual_device_enabled s then svc_call (Property_virtual_device b) (s\<lparr>virtual_device_enabled := b\<rparr>) else s)"

definition set_allowlist_enabled :: "svc_env \<Rightarrow> bool \<Rightarrow> svc_state \<Rightarrow> svc_state" where
  "set_allowlist_enabled R b s = s\<lparr>le := (le s)\<lparr>bt := (bt (le s))\<lparr>allow :=
     uni_bt_allowlist_set_enabled (property_writes R) b (allow (bt (le s)))\<rparr>\<rparr>\<rparr>"

definition disconnect_idx :: "svc_env \<Rightarrow> nat \<Rightarrow> svc_state \<Rightarrow> svc_state option" where
  "disconnect_idx R i s =
     map_option (\<lambda>h. s\<lparr>le := settle (le_answers R) (le s) ((bt (le s))\<lparr>hid := h\<rparr>)\<rparr>)
       (uni_hid_device_disconnect 2 (env_gap (classic_env (le_answers R) (le s))) i (hid (bt (le s))))"

definition mappings_of_code :: "u8 \<Rightarrow> mappings_type option" where
  "mappings_of_code t = (if t = 0 then Some TYPE_XBOX else if t = 1 then Some TYPE_SWITCH else if t = 2 then Some TYPE_CUSTOM else None)"

text \<open>
  The effect of writing one byte; all writable values but the configuration of the notifications are of this form.
\<close>

definition write_byte :: "svc_env \<Rightarrow> characteristic \<Rightarrow> u8 \<Rightarrow> svc_state \<Rightarrow> (u8 \<times> svc_state) option" where
  "write_byte R ch v s = (case ch of
     Ble_enabled_value \<Rightarrow> Some (ATT_ERROR_SUCCESS, s\<lparr>le := uni_bt_le_set_enabled (v \<noteq> 0) (le s)\<rparr>)
   | Scan_value \<Rightarrow> Some (ATT_ERROR_SUCCESS, s\<lparr>le := start_scanning (v \<noteq> 0) (le s)\<rparr>)
   | Mappings_type_value \<Rightarrow> Some (ATT_ERROR_SUCCESS, case mappings_of_code v of
        None \<Rightarrow> s | Some t \<Rightarrow> s\<lparr>statics := uni_gamepad_set_mappings_type t (statics s)\<rparr>)
   | Allowlist_enabled_value \<Rightarrow> Some (ATT_ERROR_SUCCESS, set_allowlist_enabled R (v \<noteq> 0) s)
   | Virtual_devices_value \<Rightarrow> Some (ATT_ERROR_SUCCESS, uni_virtual_device_set_enabled (v \<noteq> 0) s)
   | Disconnect_device_value \<Rightarrow>
       if unat v \<ge> CONFIG_BLUEPAD32_MAX_DEVICES then Some (ATT_ERROR_REQUEST_NOT_SUPPORTED, s)
       else map_option (Pair ATT_ERROR_SUCCESS) (disconnect_idx R (unat v) s)
   | Delete_keys_value \<Rightarrow>
       if v = 0 then Some (ATT_ERROR_REQUEST_NOT_SUPPORTED, s)
       else Some (ATT_ERROR_SUCCESS, s\<lparr>le := bluetooth_del_keys (link_keys R) (le_device_db R) (le s)\<rparr>)
   | Reset_device_value \<Rightarrow>
       if v = 0 then Some (ATT_ERROR_REQUEST_NOT_SUPPORTED, s) else Some (ATT_ERROR_SUCCESS, svc_call System_reboot s)
   | _ \<Rightarrow> Some (ATT_ERROR_ATTRIBUTE_NOT_FOUND, s))"

text \<open>The configuration is read from two bytes whatever the size of the buffer: \<open>None\<close> is a read past its end.\<close>

definition write_configuration :: "u16 \<Rightarrow> u16 \<Rightarrow> u8 list \<Rightarrow> svc_state \<Rightarrow> (u8 \<times> svc_state) option" where
  "write_configuration notify_handle h buffer s =
     (case connection_for_conn_handle h s of
        None \<Rightarrow> Some (ATT_ERROR_REQUEST_NOT_SUPPORTED, s)
      | Some i \<Rightarrow>
          if length buffer < 2 then None
          else
            let s1 = upd_client i (\<lambda>c. c\<lparr>notification_enabled := (le16_at buffer 0 = 1), value_handle := notify_handle\<rparr>) s
            in Some (ATT_ERROR_SUCCESS,
                 if notification_enabled (client_connections s1 ! i) then att_server_request_can_send_now_event s1 else s1))"

definition byte_value :: "characteristic \<Rightarrow> bool" where
  "byte_value ch \<longleftrightarrow> ch \<in> {Ble_enabled_value, Scan_value, Mappings_type_value, Allowlist_enabled_value, Virtual_devices_value,
     Disconnect_device_value, Delete_keys_value, Reset_device_value}"

definition uni_att_write_callback ::
    "svc_env \<Rightarrow> u16 \<Rightarrow> u16 \<Rightarrow> characteristic \<Rightarrow> nat \<Rightarrow> u8 list \<Rightarrow> svc_state \<Rightarrow> (u8 \<times> svc_state) option" where
  "uni_att_write_callback R notify_handle h ch offset buffer s =
     (if ch = Notify_devices_configuration then write_configuration notify_handle h buffer s
      else if ch = Allowlist_addresses_value then Some (ATT_ERROR_SUCCESS, s)
      else if byte_value ch
      then (if length buffer \<noteq> 1 \<or> offset \<noteq> 0 then Some (ATT_ERROR_REQUEST_NOT_SUPPORTED, s) else write_byte R ch (hd buffer) s)
      else Some (ATT_ERROR_ATTRIBUTE_NOT_FOUND, s))"

text \<open>Reading: the bytes of the value, of which a read returns what fits behind its offset.\<close>

definition le16_bytes :: "u16 \<Rightarrow> u8 list" where
  "le16_bytes w = [ucast w, ucast (drop_bit 8 w)]"

definition le32_bytes :: "u32w \<Rightarrow> u8 list" where
  "le32_bytes w = [ucast w, ucast (drop_bit 8 w), ucast (drop_bit 16 w), ucast (drop_bit 24 w)]"

definition compact_bytes :: "compact_device \<Rightarrow> u8 list" where
  "compact_bytes c = cd_idx c # cd_addr c @ le16_bytes (cd_vendor_id c) @ le16_bytes (cd_product_id c) @
     [cd_state c, cd_incoming c] @ le16_bytes (cd_controller_type c) @ le32_bytes (cd_controller_subtype c)"

definition mappings_code :: "mappings_type \<Rightarrow> u8" where
  "mappings_code t = (case t of TYPE_XBOX \<Rightarrow> 0 | TYPE_SWITCH \<Rightarrow> 1 | TYPE_CUSTOM \<Rightarrow> 2)"

definition characteristic_value :: "u8 list \<Rightarrow> characteristic \<Rightarrow> svc_state \<Rightarrow> u8 list option" where
  "characteristic_value version ch s = (case ch of
     Version_value \<Rightarrow> Some version
   | Max_connections_value \<Rightarrow> Some [word_of_nat CONFIG_BLUEPAD32_MAX_DEVICES]
   | Ble_enabled_value \<Rightarrow> Some [of_bool (ble_enabled (le s))]
   | Scan_value \<Rightarrow> Some [of_bool (bt_scanning_enabled (le s))]
   | Connected_devices_value \<Rightarrow> Some (concat (map compact_bytes (compact_devices s)))
   | Mappings_type_value \<Rightarrow> Some [mappings_code (uni_gamepad_get_mappings_type (statics s))]
   | Allowlist_enabled_value \<Rightarrow> Some [of_bool (enforced (allow (bt (le s))))]
   | Allowlist_addresses_value \<Rightarrow> Some (concat (addr_allow_list (allow (bt (le s)))))
   | Virtual_devices_value \<Rightarrow> Some [of_bool (virtual_device_enabled s)]
   | _ \<Rightarrow> None)"

text \<open>A read gives a number and the bytes it stores; without a buffer, the number is the size of the value.\<close>

definition att_read_callback_handle_blob :: "u8 list \<Rightarrow> nat \<Rightarrow> nat option \<Rightarrow> nat \<times> u8 list" where
  "att_read_callback_handle_blob blob offset buffer = (case buffer of
     None \<Rightarrow> (length blob, [])
   | Some buffer_size \<Rightarrow>
       let bytes_to_copy = (if length blob \<ge> offset then min (length blob - offset) buffer_size else 0)
       in (bytes_to_copy, take bytes_to_copy (drop offset blob)))"

definition uni_att_read_callback :: "u8 list \<Rightarrow> characteristic \<Rightarrow> nat \<Rightarrow> nat option \<Rightarrow> svc_state \<Rightarrow> nat \<times> u8 list" where
  "uni_att_read_callback version ch offset buffer s = (case characteristic_value version ch s of
      None \<Rightarrow> (0, []) | Some blob \<Rightarrow> att_read_callback_handle_blob blob offset buffer)"

subsection \<open>Events\<close>

datatype svc_event =
    Att att_event
  | Att_write u16 u16 characteristic nat "u8 list"
  | Device_connected nat uni_hid_device
  | Device_ready nat uni_hid_device
  | Device_disconnected nat
  | Cmd_service bool
  | Bluetooth le_event

fun svc_handle :: "bt_config \<Rightarrow> svc_env \<Rightarrow> svc_event \<Rightarrow> svc_state \<Rightarrow> svc_state option" where
  "svc_handle C R (Att ev) s = Some (uni_att_packet_handler ev (if ev = Att_can_send_now then s\<lparr>can_send := False\<rparr> else s))"
| "svc_handle C R (Att_write nh h ch offset buffer) s = map_option snd (uni_att_write_callback R nh h ch offset buffer s)"
| "svc_handle C R (Device_connected i d) s = Some (uni_bt_service_on_device_connected i d s)"
| "svc_handle C R (Device_ready i d) s = Some (uni_bt_service_on_device_ready i d s)"
| "svc_handle C R (Device_disconnected i) s = Some (uni_bt_service_on_device_disconnected i s)"
| "svc_handle C R (Cmd_service b) s = Some (uni_bt_service_set_enabled b s)"
| "svc_handle C R (Bluetooth ev) s = map_option (\<lambda>l. s\<lparr>le := l\<rparr>) (le_handle (C\<lparr>cfg_statics := statics s\<rparr>) (le_answers R) ev (le s))"

end
