(* ===== verification/LeProps.thy ===== *)
theory LeProps
  imports LeSafe
begin

text \<open>
  What happens to one LE controller over a sequence of events: the way of a controller from its
  advertisement to a ready device, and what goes wrong when it never answers, when a
  device with handle 0 is there already, or when LE is disabled during a scan.
\<close>


primrec le_run :: "bt_config \<Rightarrow> (le_event \<times> le_env) list \<Rightarrow> le_state \<Rightarrow> le_state option" where
  "le_run C [] s = Some s"
| "le_run C (e # es) s =
     (if le_enabled C (snd e) (fst e) s then Option.bind (le_handle C (snd e) (fst e) s) (le_run C es) else None)"

lemma le_run_append: "le_run C (xs @ ys) s = Option.bind (le_run C xs s) (le_run C ys)"
  by (induction xs arbitrary: s) (simp_all split: Option.bind_split)

lemma le_run_reachable: "le_reachable C s \<Longrightarrow> le_run C es s = Some s' \<Longrightarrow> le_reachable C s'"
proof (induction es arbitrary: s)
  case (Cons e es)
  then obtain s1 where "le_enabled C (snd e) (fst e) s" "le_handle C (snd e) (fst e) s = Some s1" "le_run C es s1 = Some s'"
    by (auto split: if_splits Option.bind_splits)
  then show ?case using Cons.IH le_reachable.event [OF Cons.prems(1)] by blast
qed simp

subsection \<open>One device among the others\<close>

text \<open>Slot \<open>i\<close> holds the device \<open>d\<close>, all others are as in \<open>s0\<close>, and the radio was told \<open>cs\<close> since.\<close>

definition stage :: "le_state \<Rightarrow> nat \<Rightarrow> uni_hid_device \<Rightarrow> stack_call list \<Rightarrow> le_state \<Rightarrow> bool" where
  "stage s0 i d cs s \<longleftrightarrow> length (g_devices (hid (bt s))) = 4 \<and> i < 4 \<and> dv (bt s) i = d \<and>
     (\<forall>j < 4. j \<noteq> i \<longrightarrow> dv (bt s) j = dv (bt s0) j) \<and> is_scanning s = is_scanning s0 \<and> allow (bt s) = allow (bt s0) \<and>
     le_calls s = le_calls s0 @ cs"

lemma find_unique:
  assumes "length (g_devices h) = 4" "i < 4" "P (dev h i)" "\<And>j. j < 4 \<Longrightarrow> j \<noteq> i \<Longrightarrow> \<not> P (dev h j)"
  shows "find_dev P h = Some i"
proof (cases "find_dev P h")
  case None
  then show ?thesis using assms(1-3) by (simp add: find_dev_None)
next
  case (Some k)
  then show ?thesis using find_dev_Some [OF Some] assms(1,4) by auto
qed

lemma stage_call: "stage s0 i d cs s \<Longrightarrow> stage s0 i d (cs @ [c]) (le_call c s)"
  by (simp add: stage_def)

lemma stage_upd: "stage s0 i d cs s \<Longrightarrow> stage s0 i (f d) cs (on_table (upd_dev i f) s)"
  by (simp add: stage_def dev_upd_dev)

lemma stage_emit: "stage s0 i d cs s \<Longrightarrow> stage s0 i d cs (on_table (emit e) s)"
  by (simp add: stage_def)

lemma stage_connect:
  "stage s0 i d cs s \<Longrightarrow> stage s0 i (d\<lparr>conn := uni_bt_conn_set_connected True (conn d)\<rparr>) cs (on_table (uni_hid_device_connect i) s)"
  by (simp add: stage_def uni_hid_device_connect_def on_connected_def dev_upd_dev)

lemma stage_resume: "stage s0 i d cs s \<Longrightarrow> stage s0 i d (cs @ (if is_scanning s0 then [Gap_start_scan] else [])) (resume_scanning_hint s)"
  by (simp add: stage_def resume_scanning_hint_def)

lemma stage_address:
  assumes "stage s0 i d cs s" "btaddr (conn d) = a" "parent d = None" "uni_hid_device_get_instance_for_address a (hid (bt s0)) = None"
    and "length (g_devices (hid (bt s0))) = 4"
  shows "uni_hid_device_get_instance_for_address a (hid (bt s)) = Some i"
  unfolding uni_hid_device_get_instance_for_address_def
  using assms by (intro find_unique)
    (auto simp: stage_def uni_hid_device_is_virtual_device_def uni_hid_device_get_instance_for_address_def find_dev_None)

lemma stage_handle:
  assumes "stage s0 i d cs s" "conn_handle (conn d) = h" "h \<noteq> UNI_BT_CONN_HANDLE_INVALID"
    and "\<forall>j < 4. j \<noteq> i \<longrightarrow> conn_handle (conn (dv (bt s0) j)) \<noteq> h"
  shows "uni_hid_device_get_instance_for_connection_handle h (hid (bt s)) = Some i"
  using assms find_unique [of "hid (bt s)" i "\<lambda>d. conn_handle (conn d) = h"]
  by (simp add: stage_def uni_hid_device_get_instance_for_connection_handle_def)

lemma stage_hids:
  assumes "stage s0 i d cs s" "hids_cid d = c" "c \<noteq> 0" "\<forall>j < 4. j \<noteq> i \<longrightarrow> hids_cid (dv (bt s0) j) \<noteq> c"
  shows "uni_hid_device_get_instance_for_hids_cid c (hid (bt s)) = Some i"
  using assms find_unique [of "hid (bt s)" i "\<lambda>d. hids_cid d = c"]
  by (simp add: stage_def uni_hid_device_get_instance_for_hids_cid_def)

subsection \<open>An advertisement\<close>

text \<open>The table as it is when an acceptable advertisement arrives.\<close>

definition acceptable :: "bt_config \<Rightarrow> bd_addr \<Rightarrow> u8 \<Rightarrow> u8 list \<Rightarrow> string \<Rightarrow> u16 \<Rightarrow> nat \<Rightarrow> le_state \<Rightarrow> bool" where
  "acceptable C addr rssi ad nm c i s \<longleftrightarrow> addr \<noteq> zero_addr \<and> list_all ad_field_ok (ad_fields ad) \<and>
     map_option (\<lambda>r. (cod_of_appearance (fst r), snd r)) (adv_event_get_data ad) = Some (Some c, nm) \<and>
     uni_hid_device_get_instance_for_address addr (hid (bt s)) = None \<and> find_dev is_free (hid (bt s)) = Some i \<and>
     uni_hid_device_on_device_discovered (uni_bt_allowlist_is_allowed_addr addr (allow (bt s))) addr nm c rssi (cfg_platform C)
       = UNI_ERROR_SUCCESS"

definition discovered_device :: "bd_addr \<Rightarrow> u8 \<Rightarrow> string \<Rightarrow> u16 \<Rightarrow> uni_hid_device" where
  "discovered_device addr rssi nm c =
     (let d = uni_hid_device_set_name nm (uni_hid_device_set_cod (ucast c) (device_zero\<lparr>conn := conn_zero\<lparr>btaddr := addr\<rparr>\<rparr>))
      in d\<lparr>conn := (uni_bt_conn_set_state STATE_DEVICE_DISCOVERED (uni_bt_conn_set_protocol PROTOCOL_BLE (conn d)))\<lparr>conn_rssi := rssi\<rparr>\<rparr>)"

lemma le_length: "le_inv s \<Longrightarrow> length (g_devices (hid (bt s))) = 4"
  using bt_inv_length by (simp add: le_inv_def)

lemma discovered:
  assumes s: "le_inv s" and a: "acceptable C addr rssi ad nm c i s"
  shows "\<exists>s'. le_handle C R (Advertising_report addr t rssi ad) s = Some s' \<and>
     stage s i (discovered_device addr rssi nm c) [Gap_stop_scan, Gap_connect addr t] s' \<and>
     timers (hid (bt s')) = insert (Connection_timer, i) (timers (hid (bt s))) \<and> events (hid (bt s')) = events (hid (bt s))"
proof -
  obtain r where r: "adv_event_get_data ad = Some r" "cod_of_appearance (fst r) = Some c" "snd r = nm"
    using a by (auto simp: acceptable_def)
  let ?h = "add_timer Connection_timer i (upd_dev i (\<lambda>_. device_zero\<lparr>conn := conn_zero\<lparr>btaddr := addr\<rparr>\<rparr>) (hid (bt s)))"
  have c: "uni_hid_device_create addr (hid (bt s)) = (Some i, ?h)"
    using a by (simp add: acceptable_def uni_hid_device_create_def)
  have i: "i < 4" using a le_length [OF s] find_dev_Some [of is_free "hid (bt s)" i] by (simp add: acceptable_def)
  have "stage s i (device_zero\<lparr>conn := conn_zero\<lparr>btaddr := addr\<rparr>\<rparr>) [] (s\<lparr>bt := (bt s)\<lparr>hid := ?h\<rparr>\<rparr>)"
    using i le_length [OF s] by (simp add: stage_def dev_upd_dev)
  note st = stage_call [OF stage_call [OF stage_upd [where f = "\<lambda>d. d\<lparr>conn := (uni_bt_conn_set_state STATE_DEVICE_DISCOVERED
      (uni_bt_conn_set_protocol PROTOCOL_BLE (conn d)))\<lparr>conn_rssi := rssi\<rparr>\<rparr>",
      OF stage_upd [where f = "\<lambda>d. uni_hid_device_set_name nm (uni_hid_device_set_cod (ucast c) d)", OF this]],
      of Gap_stop_scan], of "Gap_connect addr t"]
  let ?s = "hog_connect addr t (on_table (upd_conn i (\<lambda>k. (uni_bt_conn_set_state STATE_DEVICE_DISCOVERED
                      (uni_bt_conn_set_protocol PROTOCOL_BLE k))\<lparr>conn_rssi := rssi\<rparr>))
                    (on_table (upd_dev i (\<lambda>d. uni_hid_device_set_name nm (uni_hid_device_set_cod (ucast c) d)))
                      (s\<lparr>bt := (bt s)\<lparr>hid := ?h\<rparr>\<rparr>)))"
  have "le_handle C R (Advertising_report addr t rssi ad) s = Some ?s"
    using a r c by (cases r) (simp add: uni_bt_le_on_gap_event_advertising_report_def acceptable_def)
  moreover have "stage s i (discovered_device addr rssi nm c) [Gap_stop_scan, Gap_connect addr t] ?s"
    using st by (simp add: hog_connect_def upd_conn_def discovered_device_def Let_def)
  moreover have "timers (hid (bt ?s)) = insert (Connection_timer, i) (timers (hid (bt s)))" "events (hid (bt ?s)) = events (hid (bt s))"
    by (simp_all add: hog_connect_def upd_conn_def)
  ultimately show ?thesis by blast
qed

subsection \<open>The way to a ready device\<close>

lemma discovered_device_simps [simp]:
  "conn (discovered_device addr rssi nm c) =
     conn_zero\<lparr>btaddr := addr, conn_state := STATE_DEVICE_DISCOVERED, conn_protocol := PROTOCOL_BLE, conn_rssi := rssi\<rparr>"
  "parent (discovered_device addr rssi nm c) = None" "vendor_id (discovered_device addr rssi nm c) = 0"
  "\<not> uni_hid_device_has_controller_type (discovered_device addr rssi nm c)"
  by (auto simp: discovered_device_def uni_hid_device_set_name_def uni_hid_device_set_cod_def set_flag_def Let_def
      uni_bt_conn_set_state_def uni_bt_conn_set_protocol_def device_zero_def uni_hid_device_has_controller_type_def)

definition information_device :: "u16 \<Rightarrow> u16 \<Rightarrow> u16 \<Rightarrow> u16 \<Rightarrow> uni_hid_device \<Rightarrow> uni_hid_device" where
  "information_device h vid pid cid d =
     (uni_hid_device_set_product_id pid (uni_hid_device_set_vendor_id vid (uni_hid_device_set_connection_handle h d)))\<lparr>hids_cid := cid\<rparr>"

lemma has_type_setters [simp]:
  "uni_hid_device_has_controller_type (uni_hid_device_set_product_id p d) = uni_hid_device_has_controller_type d"
  "uni_hid_device_has_controller_type (uni_hid_device_set_vendor_id v d) = uni_hid_device_has_controller_type d"
  "uni_hid_device_has_controller_type (uni_hid_device_set_connection_handle h d) = uni_hid_device_has_controller_type d"
  "uni_hid_device_has_controller_type (d\<lparr>hids_cid := cid\<rparr>) = uni_hid_device_has_controller_type d"
  by (auto simp: uni_hid_device_has_controller_type_def uni_hid_device_set_product_id_def uni_hid_device_set_vendor_id_def
      uni_hid_device_set_connection_handle_def set_flag_def bit.conj_disj_distrib2)

lemma id_setters [simp]:
  "conn (uni_hid_device_set_product_id p d) = conn d" "conn (uni_hid_device_set_vendor_id v d) = conn d"
  "conn (uni_hid_device_set_connection_handle h d) = (conn d)\<lparr>conn_handle := h\<rparr>"
  "parent (uni_hid_device_set_product_id p d) = parent d" "parent (uni_hid_device_set_vendor_id v d) = parent d"
  "parent (uni_hid_device_set_connection_handle h d) = parent d"
  "product_id (uni_hid_device_set_product_id p d) = p" "v \<noteq> 0 \<Longrightarrow> vendor_id (uni_hid_device_set_vendor_id v d) = v"
  "vendor_id (uni_hid_device_set_product_id p d) = vendor_id d" "hids_cid (uni_hid_device_set_product_id p d) = hids_cid d"
  by (simp_all add: uni_hid_device_set_product_id_def uni_hid_device_set_vendor_id_def uni_hid_device_set_connection_handle_def set_flag_def)

text \<open>The events from the connection to the HID client, with the calls that they make.\<close>

definition paired_events :: "bd_addr \<Rightarrow> u16 \<Rightarrow> u16 \<Rightarrow> u16 \<Rightarrow> le_event list" where
  "paired_events addr h vid pid =
     [Le_connection_complete addr h, Security (Pairing_complete h 0 addr), Information (Pnp_id 0 h vid pid), Information (Information_done 0 h)]"

lemma paired:
  assumes st: "stage s0 i d cs s" "btaddr (conn d) = addr" "parent d = None"
    and s0: "uni_hid_device_get_instance_for_address addr (hid (bt s0)) = None" "length (g_devices (hid (bt s0))) = 4"
    and h: "h \<noteq> UNI_BT_CONN_HANDLE_INVALID" "\<forall>j < 4. j \<noteq> i \<longrightarrow> conn_handle (conn (dv (bt s0) j)) \<noteq> h"
    and R: "hids_answer R = (0, cid)"
  shows "\<exists>s'. le_run C (map (\<lambda>e. (e, R)) (paired_events addr h vid pid)) s = Some s' \<and>
     stage s0 i (information_device h vid pid cid d) (cs @ [Sm_request_pairing h, Device_information_query h, Hids_client_connect h]) s'"
proof -
  let ?d = "uni_hid_device_set_connection_handle h d"
  let ?s1 = "le_call (Sm_request_pairing h) (on_table (upd_dev i (uni_hid_device_set_connection_handle h)) s)"
  let ?s2 = "le_call (Device_information_query h) ?s1"
  let ?s3 = "on_table (upd_dev i (\<lambda>d. uni_hid_device_set_product_id pid (uni_hid_device_set_vendor_id vid d))) ?s2"
  let ?s4 = "on_table (upd_dev i (\<lambda>d. d\<lparr>hids_cid := cid\<rparr>)) (le_call (Hids_client_connect h) ?s3)"
  have 1: "stage s0 i ?d (cs @ [Sm_request_pairing h]) ?s1"
    by (rule stage_call [OF stage_upd [OF st(1)]])
  have 2: "stage s0 i ?d (cs @ [Sm_request_pairing h, Device_information_query h]) ?s2"
    using stage_call [OF 1] by simp
  note 3 = stage_upd [where f = "\<lambda>d. uni_hid_device_set_product_id pid (uni_hid_device_set_vendor_id vid d)", OF 2]
  have 4: "stage s0 i (information_device h vid pid cid d)
      (cs @ [Sm_request_pairing h, Device_information_query h, Hids_client_connect h]) ?s4"
    using stage_upd [where f = "\<lambda>d. d\<lparr>hids_cid := cid\<rparr>", OF stage_call [OF 3, of "Hids_client_connect h"]]
    by (simp add: information_device_def)
  have a: "uni_hid_device_get_instance_for_address addr (hid (bt s)) = Some i"
      "uni_hid_device_get_instance_for_address addr (hid (bt ?s1)) = Some i"
    using stage_address [OF st s0] stage_address [OF 1 _ _ s0] st(2,3) by simp_all
  have b: "uni_hid_device_get_instance_for_connection_handle h (hid (bt ?s2)) = Some i"
      "uni_hid_device_get_instance_for_connection_handle h (hid (bt ?s3)) = Some i"
    using stage_handle [OF 2 _ h] stage_handle [OF 3 _ h] by simp_all
  have "le_handle C R (Le_connection_complete addr h) s = Some ?s1"
    using a(1) by (simp add: uni_bt_le_on_hci_event_le_meta_def)
  moreover have "le_handle C R (Security (Pairing_complete h 0 addr)) ?s1 = Some ?s2"
    using a(2) h(1) by (simp add: request_information_def)
  moreover have "le_handle C R (Information (Pnp_id 0 h vid pid)) ?s2 = Some ?s3"
    using b(1) by simp
  moreover have "le_handle C R (Information (Information_done 0 h)) ?s3 = Some ?s4"
    using b(2) R by simp
  ultimately have "le_run C (map (\<lambda>e. (e, R)) (paired_events addr h vid pid)) s = Some ?s4"
    by (simp add: paired_events_def del: le_handle.simps)
  then show ?thesis using 4 by blast
qed

lemma settle_quiet:
  assumes "events (hid b) = events (hid (bt s)) @ es" "\<forall>i. Le_disconnect i \<notin> set es"
  shows "settle R s b = s\<lparr>bt := b\<rparr>"
proof -
  have "fold (\<lambda>e s. case e of Le_disconnect i \<Rightarrow> uni_bt_le_disconnect R i s | _ \<Rightarrow> s) es s = s"
    using assms(2) by (induction es) (auto split: dev_event.split)
  then show ?thesis using assms(1) by (simp add: settle_def)
qed

lemma set_ready_discovered:
  assumes "length (g_devices h) = 4" "i < 4" "conn_state (conn (dev h i)) = STATE_DEVICE_DISCOVERED"
  shows "\<exists>h' es. uni_hid_device_set_ready n gap True i h = Some h' \<and> events h' = events h @ es \<and>
     (\<forall>i. Le_disconnect i \<notin> set es) \<and> length (g_devices h') = 4 \<and>
     (\<forall>j. dev h' j = (if j = i then (dev h i)\<lparr>conn := (conn (dev h i))\<lparr>conn_state :=
       if setup_waits (dev_parser (dev h i)) then STATE_DEVICE_PENDING_READY else STATE_DEVICE_READY\<rparr>\<rparr> else dev h j))"
proof (cases "setup_waits (dev_parser (dev h i))")
  case True
  then have "has_setup (dev_parser (dev h i))" by (auto simp: has_setup_def setup_waits_def)
  then show ?thesis using True assms by (simp add: uni_hid_device_set_ready_def dev_set_state)
next
  case False
  then show ?thesis
    using assms by (simp add: uni_hid_device_set_ready_def uni_hid_device_set_ready_complete_def Let_def dev_set_state)
qed

lemma stage_ready:
  assumes st: "stage s0 i d cs s" "conn_state (conn d) = STATE_DEVICE_DISCOVERED" and R: "le_accepts R"
  shows "\<exists>s'. le_make_ready R i s = Some s' \<and>
     stage s0 i (d\<lparr>conn := (conn d)\<lparr>conn_state :=
       if setup_waits (dev_parser d) then STATE_DEVICE_PENDING_READY else STATE_DEVICE_READY\<rparr>\<rparr>) cs s'"
proof -
  have l: "length (g_devices (hid (bt s))) = 4" "i < 4" "dv (bt s) i = d" using st by (simp_all add: stage_def)
  obtain h es where h: "uni_hid_device_set_ready 2 (env_gap (classic_env R s)) True i (hid (bt s)) = Some h"
      "events h = events (hid (bt s)) @ es" "\<forall>i. Le_disconnect i \<notin> set es" "length (g_devices h) = 4"
      "\<And>j. dev h j = (if j = i then d\<lparr>conn := (conn d)\<lparr>conn_state :=
         if setup_waits (dev_parser d) then STATE_DEVICE_PENDING_READY else STATE_DEVICE_READY\<rparr>\<rparr> else dv (bt s) j)"
    using set_ready_discovered [OF l(1,2), of 2 "env_gap (classic_env R s)"] l(3) st(2) by auto
  have "le_make_ready R i s = Some (s\<lparr>bt := (bt s)\<lparr>hid := h\<rparr>\<rparr>)"
    using h(1-3) R settle_quiet [of "(bt s)\<lparr>hid := h\<rparr>" s es R]
    by (auto simp: le_make_ready_def make_ready_def classic_env_def)
  moreover have "stage s0 i (d\<lparr>conn := (conn d)\<lparr>conn_state :=
       if setup_waits (dev_parser d) then STATE_DEVICE_PENDING_READY else STATE_DEVICE_READY\<rparr>\<rparr>) cs (s\<lparr>bt := (bt s)\<lparr>hid := h\<rparr>\<rparr>)"
    using st(1) h(4,5) by (simp add: stage_def)
  ultimately show ?thesis by blast
qed

definition known_type :: "int \<Rightarrow> bool" where
  "known_type t \<longleftrightarrow> t \<noteq> CONTROLLER_TYPE_Unknown \<and> t \<noteq> CONTROLLER_TYPE_UnknownNonSteamController \<and>
     t \<noteq> CONTROLLER_TYPE_UnknownSteamController"

definition typed_device :: "int \<Rightarrow> uni_hid_device \<Rightarrow> uni_hid_device" where
  "typed_device t d = set_flag FLAGS_HAS_CONTROLLER_TYPE
     (d\<lparr>controller_subtype := 0, dev_parser := parser_for_type t d, controller_type := t\<rparr>)"

lemma guess_known:
  "\<not> uni_hid_device_has_controller_type d \<Longrightarrow> uni_guess_controller_type (vendor_id d) (product_id d) = t \<Longrightarrow> known_type t \<Longrightarrow>
   uni_hid_device_guess_controller_type_from_pid_vid d = Some (typed_device t d)"
  by (simp add: uni_hid_device_guess_controller_type_from_pid_vid_def known_type_def typed_device_def Let_def)

lemma typed_device_simps [simp]:
  "conn (typed_device t d) = conn d" "dev_parser (typed_device t d) = parser_for_type t d" "controller_type (typed_device t d) = t"
  "vendor_id (typed_device t d) = vendor_id d" "product_id (typed_device t d) = product_id d" "hids_cid (typed_device t d) = hids_cid d"
  by (simp_all add: typed_device_def set_flag_def)

lemma service_ready:
  assumes st: "stage s0 i d cs s" "conn_state (conn d) = STATE_DEVICE_DISCOVERED" "\<not> uni_hid_device_has_controller_type d"
    and t: "uni_guess_controller_type (vendor_id d) (product_id d) = t" "known_type t"
    and c: "hids_cid d = cid" "cid \<noteq> 0" "\<forall>j < 4. j \<noteq> i \<longrightarrow> hids_cid (dv (bt s0) j) \<noteq> cid"
    and R: "le_accepts R"
  shows "\<exists>s'. le_handle C R (Hid_service_connected 0 cid) s = Some s' \<and>
     stage s0 i ((typed_device t d)\<lparr>conn := (uni_bt_conn_set_connected True (conn d))\<lparr>conn_state :=
       if setup_waits (parser_for_type t d) then STATE_DEVICE_PENDING_READY else STATE_DEVICE_READY\<rparr>\<rparr>)
       (cs @ (if is_scanning s0 then [Gap_start_scan] else [])) s'"
proof -
  let ?s1 = "on_table (uni_hid_device_connect i) (on_table (upd_dev i (\<lambda>_. typed_device t d)) s)"
  let ?d = "(typed_device t d)\<lparr>conn := uni_bt_conn_set_connected True (conn d)\<rparr>"
  have i: "uni_hid_device_get_instance_for_hids_cid cid (hid (bt s)) = Some i" using stage_hids [OF st(1) c] .
  have d: "uni_hid_device_guess_controller_type_from_pid_vid (dv (bt s) i) = Some (typed_device t d)"
    using guess_known [OF st(3) t] st(1) by (simp add: stage_def)
  have 1: "stage s0 i ?d cs ?s1"
    using stage_connect [OF stage_upd [where f = "\<lambda>_. typed_device t d", OF st(1)]] by simp
  have 2: "conn_state (conn ?d) = STATE_DEVICE_DISCOVERED" using st(2) by (simp add: uni_bt_conn_set_connected_def)
  obtain s2 where s2: "le_make_ready R i ?s1 = Some s2"
      "stage s0 i (?d\<lparr>conn := (conn ?d)\<lparr>conn_state :=
         if setup_waits (dev_parser ?d) then STATE_DEVICE_PENDING_READY else STATE_DEVICE_READY\<rparr>\<rparr>) cs s2"
    using stage_ready [OF 1 2 R] by blast
  then have "le_handle C R (Hid_service_connected 0 cid) s = Some (resume_scanning_hint s2)"
    using i d by (simp add: hid_service_connected_def)
  then show ?thesis using stage_resume [OF s2(2)] by simp
qed

text \<open>The whole way, as it is for a controller that pairs and is known by its ids.\<close>

definition ready_events :: "bd_addr \<Rightarrow> u8 \<Rightarrow> u8 \<Rightarrow> u8 list \<Rightarrow> u16 \<Rightarrow> u16 \<Rightarrow> u16 \<Rightarrow> u16 \<Rightarrow> le_event list" where
  "ready_events addr t rssi ad h vid pid cid =
     Advertising_report addr t rssi ad # paired_events addr h vid pid @ [Hid_service_connected 0 cid]"

definition ready_device :: "bd_addr \<Rightarrow> u8 \<Rightarrow> string \<Rightarrow> u16 \<Rightarrow> u16 \<Rightarrow> u16 \<Rightarrow> u16 \<Rightarrow> u16 \<Rightarrow> int \<Rightarrow> uni_hid_device" where
  "ready_device addr rssi nm c h vid pid cid type =
     (let d = information_device h vid pid cid (discovered_device addr rssi nm c)
      in (typed_device type d)\<lparr>conn := (uni_bt_conn_set_connected True (conn d))\<lparr>conn_state :=
         if setup_waits (parser_for_type type d) then STATE_DEVICE_PENDING_READY else STATE_DEVICE_READY\<rparr>\<rparr>)"

lemma ready_device_simps:
  assumes "vid \<noteq> 0" "ready_device addr rssi nm c h vid pid cid type = d"
  shows "btaddr (conn d) = addr" "conn_handle (conn d) = h" "hids_cid d = cid" "vendor_id d = vid" "product_id d = pid"
    "controller_type d = type" "dev_parser d = parser_for_type type d" "connected (conn d)"
    "conn_state (conn d) = (if setup_waits (dev_parser d) then STATE_DEVICE_PENDING_READY else STATE_DEVICE_READY)"
proof -
  let ?e = "information_device h vid pid cid (discovered_device addr rssi nm c)"
  have e: "vendor_id ?e = vid" "product_id ?e = pid" using assms(1) by (simp_all add: information_device_def)
  have d: "vendor_id d = vid" "product_id d = pid" using e assms(2) by (auto simp: ready_device_def Let_def)
  have "parser_for_type type d = parser_for_type type ?e" using d e by (simp add: parser_for_type_def)
  then show "btaddr (conn d) = addr" "conn_handle (conn d) = h" "hids_cid d = cid" "vendor_id d = vid" "product_id d = pid"
    "controller_type d = type" "dev_parser d = parser_for_type type d" "connected (conn d)"
    "conn_state (conn d) = (if setup_waits (dev_parser d) then STATE_DEVICE_PENDING_READY else STATE_DEVICE_READY)"
    using assms(2) d
    by (auto simp: ready_device_def Let_def information_device_def uni_bt_conn_set_connected_def conn_zero_def)
qed

lemma ready_run:
  assumes s: "le_inv s" "acceptable C addr rssi ad nm c i s"
    and h: "h \<noteq> UNI_BT_CONN_HANDLE_INVALID" "\<forall>j < 4. j \<noteq> i \<longrightarrow> conn_handle (conn (dv (bt s) j)) \<noteq> h"
    and cid: "cid \<noteq> 0" "\<forall>j < 4. j \<noteq> i \<longrightarrow> hids_cid (dv (bt s) j) \<noteq> cid"
    and type: "vid \<noteq> 0" "uni_guess_controller_type vid pid = type" "known_type type"
    and R: "hids_answer R = (0, cid)" "le_accepts R"
  shows "\<exists>s'. le_run C (map (\<lambda>e. (e, R)) (ready_events addr t rssi ad h vid pid cid)) s = Some s' \<and>
     stage s i (ready_device addr rssi nm c h vid pid cid type)
       ([Gap_stop_scan, Gap_connect addr t, Sm_request_pairing h, Device_information_query h, Hids_client_connect h] @
        (if is_scanning s then [Gap_start_scan] else [])) s'"
proof -
  let ?d = "discovered_device addr rssi nm c"
  let ?e = "information_device h vid pid cid ?d"
  obtain s1 where s1: "le_handle C R (Advertising_report addr t rssi ad) s = Some s1"
      "stage s i ?d [Gap_stop_scan, Gap_connect addr t] s1"
    using discovered [OF s] by blast
  have a: "le_enabled C R (Advertising_report addr t rssi ad) s"
    "uni_hid_device_get_instance_for_address addr (hid (bt s)) = None"
    using s(2) by (simp_all add: acceptable_def)
  obtain s2 where s2: "le_run C (map (\<lambda>e. (e, R)) (paired_events addr h vid pid)) s1 = Some s2"
      "stage s i ?e ([Gap_stop_scan, Gap_connect addr t] @ [Sm_request_pairing h, Device_information_query h, Hids_client_connect h]) s2"
    using paired [where C = C and vid = vid and pid = pid, OF s1(2) _ _ a(2) le_length [OF s(1)] h R(1)] by auto
  have e: "conn_state (conn ?e) = STATE_DEVICE_DISCOVERED" "\<not> uni_hid_device_has_controller_type ?e" "hids_cid ?e = cid"
      "uni_guess_controller_type (vendor_id ?e) (product_id ?e) = type"
    using type by (simp_all add: information_device_def)
  obtain s3 where s3: "le_handle C R (Hid_service_connected 0 cid) s2 = Some s3"
      "stage s i (ready_device addr rssi nm c h vid pid cid type)
         (([Gap_stop_scan, Gap_connect addr t] @ [Sm_request_pairing h, Device_information_query h, Hids_client_connect h]) @
          (if is_scanning s then [Gap_start_scan] else [])) s3"
    using service_ready [where C = C, OF s2(2) e(1,2,4) type(3) e(3) cid R(2)] unfolding ready_device_def Let_def by blast
  have "le_run C (map (\<lambda>e. (e, R)) (ready_events addr t rssi ad h vid pid cid)) s = Some s3"
    using s1(1) s2(1) s3(1) a(1) by (simp add: ready_events_def le_run_append del: le_handle.simps)
  then show ?thesis using s3(2) by auto
qed

text \<open>
  C10. A controller that advertises and is in the controller list becomes a ready device, or one that
  waits for its parser's set-up. When its advertisement is acceptable, its vendor is not 0, its ids
  have a type in the list, its connection handle is valid and no other slot's, its HID client id is
  not 0 and no other slot's, the HID client connects and the platform accepts: after the
  advertisement, the connection, the pairing, the answer of its information service and the
  connection of the HID client, its slot holds its address, handle, ids and HID client, and the type
  and the parser of its ids; it is ready, or pending for the DualSense, Wii, Switch and Steam
  parsers, whose set-up waits for answers; no other slot has changed; and of the stack exactly these
  calls were made: the scan stopped for the connection, and started again at the end only when the
  scan flag was on.
\<close>

theorem le_connection_ready:
  assumes "le_reachable C s" "acceptable C addr rssi ad nm c i s"
    and "h \<noteq> UNI_BT_CONN_HANDLE_INVALID" "\<forall>j < 4. j \<noteq> i \<longrightarrow> conn_handle (conn (dv (bt s) j)) \<noteq> h"
    and "cid \<noteq> 0" "\<forall>j < 4. j \<noteq> i \<longrightarrow> hids_cid (dv (bt s) j) \<noteq> cid"
    and "vid \<noteq> 0" "uni_guess_controller_type vid pid = type" "known_type type"
    and "hids_answer R = (0, cid)" "le_accepts R"
  shows "\<exists>s'. le_run C (map (\<lambda>e. (e, R)) (ready_events addr t rssi ad h vid pid cid)) s = Some s' \<and>
     (let d = dv (bt s') i
      in btaddr (conn d) = addr \<and> conn_handle (conn d) = h \<and> hids_cid d = cid \<and> vendor_id d = vid \<and> product_id d = pid \<and>
         controller_type d = type \<and> dev_parser d = parser_for_type type d \<and> connected (conn d) \<and>
         conn_state (conn d) = (if setup_waits (dev_parser d) then STATE_DEVICE_PENDING_READY else STATE_DEVICE_READY)) \<and>
     (\<forall>j < 4. j \<noteq> i \<longrightarrow> dv (bt s') j = dv (bt s) j) \<and>
     le_calls s' = le_calls s @ [Gap_stop_scan, Gap_connect addr t, Sm_request_pairing h, Device_information_query h,
       Hids_client_connect h] @ (if is_scanning s then [Gap_start_scan] else [])"
proof -
  obtain s' where s': "le_run C (map (\<lambda>e. (e, R)) (ready_events addr t rssi ad h vid pid cid)) s = Some s'"
     "stage s i (ready_device addr rssi nm c h vid pid cid type)
       ([Gap_stop_scan, Gap_connect addr t, Sm_request_pairing h, Device_information_query h, Hids_client_connect h] @
        (if is_scanning s then [Gap_start_scan] else [])) s'"
    using ready_run [OF le_reachable_inv [OF assms(1)] assms(2-11)] by blast
  then have "ready_device addr rssi nm c h vid pid cid type = dv (bt s') i" by (simp add: stage_def)
  note d = ready_device_simps [OF assms(7) this]
  show ?thesis
    by (rule exI [of _ s'], unfold Let_def, intro conjI) (use s' d in \<open>simp_all add: stage_def\<close>)
qed

subsection \<open>A device that never answers\<close>

text \<open>What deleting a device of the table makes, when its handle has no connection, or one of LE.\<close>

lemma drop_device_calls:
  assumes "physical h" "i < 4" "gap i = GAP_CONNECTION_INVALID \<or> gap i = GAP_CONNECTION_LE"
  shows "\<exists>h'. disconnect_and_delete 2 gap i h = Some h' \<and>
     events h' = events h @ (if gap i = GAP_CONNECTION_LE then [Le_disconnect i] else []) @
       (if connected (conn (dev h i)) then [On_device_disconnected i] else []) \<and>
     length (g_devices h') = 4 \<and> (\<forall>j. dev h' j = (if j = i then device_init else dev h j))"
proof -
  let ?h = "disconnect_one gap i h"
  have l: "length (g_devices h) = 4" using physicalD(2) [OF assms(1)] .
  have q: "physical ?h" by (rule physical_links [OF disconnect_one_links assms(1)])
  have "disconnect_and_delete 2 gap i h = Some (delete_one i ?h)"
    using physicalD(4) [OF assms(1,2)] physicalD(4) [OF q assms(2)] by (simp add: disconnect_and_delete_def numeral_2_eq_2)
  then show ?thesis
    using assms l physicalD(3) [OF assms(1,2)]
    by (auto simp: disconnect_one_def close_connection_def delete_one_def uni_hid_device_init_def Let_def dev_upd_dev
        on_connected_def uni_hid_device_is_virtual_device_def)
qed

text \<open>The timer of a device that has not become ready runs out.\<close>

lemma connection_timeout:
  assumes s: "le_inv s" "i < 4" "dv (bt s) i = d" "conn_state (conn d) \<noteq> STATE_DEVICE_READY" "\<not> connected (conn d)"
    and g: "gap_of R (conn_handle (conn d)) = GAP_CONNECTION_INVALID \<or> gap_of R (conn_handle (conn d)) = GAP_CONNECTION_LE"
  shows "\<exists>b. le_handle C R (Classic (Ev_connection_timeout i)) s =
       Some ((if gap_of R (conn_handle (conn d)) = GAP_CONNECTION_LE then hog_disconnect R (conn_handle (conn d)) s else s)\<lparr>bt := b\<rparr>) \<and>
     (\<forall>j. dv b j = (if j = i then device_init else dv (bt s) j))"
proof -
  let ?h = "remove_timer Connection_timer i (hid (bt s))"
  have p: "physical ?h"
    using physical_links [OF same_links_timer(1) [OF same_links_refl]] s(1) by (simp add: le_inv_def bt_inv_def)
  obtain h where h: "disconnect_and_delete 2 (env_gap (classic_env R s)) i ?h = Some h"
      "events h = events (hid (bt s)) @ (if gap_of R (conn_handle (conn d)) = GAP_CONNECTION_LE then [Le_disconnect i] else [])"
      "\<forall>j. dev h j = (if j = i then device_init else dv (bt s) j)"
    using drop_device_calls [OF p s(2), of "env_gap (classic_env R s)"] g s(3,5) by (auto simp: classic_env_def)
  have "device_connection_timeout 2 (env_gap (classic_env R s)) i ?h = Some h"
    using h(1) s(3,4) by (simp add: device_connection_timeout_def)
  then show ?thesis
    using h(2,3) s(3)
    by (intro exI [of _ "(bt s)\<lparr>hid := h\<rparr>"]) (simp add: settle_def uni_bt_le_disconnect_def)
qed


text \<open>
  C39. A new device has the handle 0 until it is connected, which can be the handle of another LE device. When the connection
  timer of the new device runs out, the other device, which is first in the table, is disconnected: its HID client and its
  connection are closed.
\<close>

theorem le_timeout_disconnects_other:
  assumes "le_reachable C s" "acceptable C addr rssi ad nm c i s"
    and "uni_hid_device_get_instance_for_connection_handle 0 (hid (bt s)) = Some j" "j < i" "gap_of R' 0 = GAP_CONNECTION_LE"
  shows "\<exists>s'. le_run C [(Advertising_report addr t rssi ad, R), (Classic (Ev_connection_timeout i), R')] s = Some s' \<and>
     is_free (dv (bt s') i) \<and> dv (bt s') j = dv (bt s) j \<and>
     le_calls s' = le_calls s @ [Gap_stop_scan, Gap_connect addr t, Hids_client_disconnect (hids_cid (dv (bt s) j)),
       Gap_disconnect_handle 0] @ (if is_scanning s then [Gap_start_scan] else [])"
proof -
  have s: "le_inv s" using assms(1) by (rule le_reachable_inv)
  let ?d = "discovered_device addr rssi nm c"
  obtain s1 where s1: "le_handle C R (Advertising_report addr t rssi ad) s = Some s1"
      "stage s i ?d [Gap_stop_scan, Gap_connect addr t] s1" "(Connection_timer, i) \<in> timers (hid (bt s1))"
    using discovered [OF s assms(2)] by blast
  have a: "le_enabled C R (Advertising_report addr t rssi ad) s" using assms(2) by (simp add: acceptable_def)
  have i: "le_inv s1" using le_handle_ok [OF s a] s1(1) by simp
  have j: "conn_handle (conn (dv (bt s) j)) = 0" "\<And>k. k < j \<Longrightarrow> conn_handle (conn (dv (bt s) k)) \<noteq> 0"
    using find_dev_Some assms(3) by (fastforce simp: uni_hid_device_get_instance_for_connection_handle_def split: if_splits)+
  have f: "uni_hid_device_get_instance_for_connection_handle 0 (hid (bt s1)) = Some j"
    using j assms(4) s1(2)
    by (auto simp: uni_hid_device_get_instance_for_connection_handle_def UNI_BT_CONN_HANDLE_INVALID_def find_dev_def
        find_Some_iff stage_def intro!: exI [of _ j])
  have "\<exists>b. le_handle C R' (Classic (Ev_connection_timeout i)) s1 = Some ((hog_disconnect R' 0 s1)\<lparr>bt := b\<rparr>) \<and>
      (\<forall>j. dv b j = (if j = i then device_init else dv (bt s1) j))"
    using connection_timeout [OF i, of i ?d R' C] s1(2) assms(5) by (auto simp: stage_def conn_zero_def)
  then obtain b where b: "le_handle C R' (Classic (Ev_connection_timeout i)) s1 = Some ((hog_disconnect R' 0 s1)\<lparr>bt := b\<rparr>)"
      "\<And>j. dv b j = (if j = i then device_init else dv (bt s1) j)"
    by blast
  have "le_run C [(Advertising_report addr t rssi ad, R), (Classic (Ev_connection_timeout i), R')] s =
      Some ((hog_disconnect R' 0 s1)\<lparr>bt := b\<rparr>)"
    using s1(1,3) a b(1) by (simp del: le_handle.simps)
  moreover have "le_calls (hog_disconnect R' 0 s1) = le_calls s @ [Gap_stop_scan, Gap_connect addr t,
      Hids_client_disconnect (hids_cid (dv (bt s) j)), Gap_disconnect_handle 0] @ (if is_scanning s then [Gap_start_scan] else [])"
    using f s1(2) assms(4,5) by (simp add: hog_disconnect_def Let_def resume_scanning_hint_def stage_def)
  ultimately show ?thesis using b(2) s1(2) assms(4) by (auto simp: stage_def device_init_free)
qed

text \<open>
  When LE is disabled during a scan, the command that stops scanning does not stop the radio.
\<close>

lemma le_disabled_scan_goes_on:
  assumes "radio_scanning (le_calls s)" "bt_scanning_enabled s"
  shows "\<exists>s'. le_run C [(Cmd_ble_enabled False, R), (Cmd_scanning False, R')] s = Some s' \<and>
     \<not> bt_scanning_enabled s' \<and> is_scanning s' = is_scanning s \<and> radio_scanning (le_calls s')"
  using assms by (simp add: uni_bt_le_set_enabled_def start_scanning_def stop_scan_def uni_bt_bredr_scan_stop_def uni_bt_le_scan_stop_def le_call_def radio_scanning_def)

subsection \<open>A controller on a scanning device\<close>

definition le_quiet :: le_env where
  "le_quiet = \<lparr>gap_of = (\<lambda>_. GAP_CONNECTION_INVALID), le_accepts = True, hids_answer = (0, 1), descriptor_of = (\<lambda>_ _. []),
     le_l2cap = (0, 0x40), le_sdp = 0\<rparr>"

definition gamepad_ad :: "u8 list" where
  "gamepad_ad = concat (map ad_encode [(0x01, [0x06]), (0x19, [0xc4, 0x03])])"

definition pad2_addr :: bd_addr where
  "pad2_addr = [0xe4, 0x17, 0xd8, 4, 5, 6]"

abbreviation (input) "le_scanning \<equiv> start_scanning True (le_booted allow_start True True)"

lemma le_scanning_simps:
  "bt le_scanning = bt_booted allow_start True" "is_scanning le_scanning" "bt_scanning_enabled le_scanning"
  "le_calls le_scanning = [Gap_inquiry True, Gap_start_scan, On_oob_bluetooth_enabled True]"
  by (simp_all add: start_scanning_def start_scan_def uni_bt_bredr_scan_start_def uni_bt_le_scan_start_def le_booted_def le_call_def)

lemma le_scanning_reachable: "le_reachable C le_scanning"
  by (rule le_reachable.event [OF le_reachable.booted, where ev = "Cmd_scanning True" and R = le_quiet]) simp_all

lemma gamepad_ad_fields:
  "ad_fields gamepad_ad = [(0x01, [0x06]), (0x19, [0xc4, 0x03])]" "list_all ad_field_ok (ad_fields gamepad_ad)"
  "adv_event_get_data gamepad_ad = Some (0x3c4, '''')"
proof -
  show f: "ad_fields gamepad_ad = [(0x01, [0x06]), (0x19, [0xc4, 0x03])]"
    unfolding gamepad_ad_def by (rule ad_fields_encode) simp
  show g: "list_all ad_field_ok (ad_fields gamepad_ad)"
    by (simp add: f ad_field_ok_def name_type_def reads_16_def)
  show "adv_event_get_data gamepad_ad = Some (0x3c4, '''')"
    using adv_event_fields_short [OF g] by (simp add: f take_field_def name_type_def le16_at_def) (simp add: gamepad_ad_def ad_encode_def)
qed

lemma gamepad_acceptable:
  assumes "addr = pad_addr \<or> addr = pad2_addr" "uni_hid_device_get_instance_for_address addr (hid (bt s)) = None"
    "find_dev is_free (hid (bt s)) = Some i" "allow (bt s) = allow_start"
  shows "acceptable plain_config addr 200 gamepad_ad '''' 0x508 i s"
proof -
  have "addr \<noteq> zero_addr" using assms(1) by (auto simp: pad_addr_def pad2_addr_def zero_addr_def)
  moreover have "uni_hid_device_is_cod_supported 0x508" by code_simp
  ultimately show ?thesis
    using assms(2-) gamepad_ad_fields
    by (simp add: acceptable_def cod_of_appearance_def uni_hid_device_on_device_discovered_def plain_config_def
        uni_bt_allowlist_is_allowed_addr_def allow_start_def)
qed

lemma le_scanning_acceptable: "acceptable plain_config pad_addr 200 gamepad_ad '''' 0x508 0 le_scanning"
  using pad_found(3,4) by (intro gamepad_acceptable) (simp_all add: le_scanning_simps booted_simps)

lemma le_scanning_slots: "j < 4 \<Longrightarrow> dv (bt le_scanning) j = device_init"
  by (simp add: le_scanning_simps bt_booted_def uni_hid_device_setup_def CONFIG_BLUEPAD32_MAX_DEVICES_def)

text \<open>The ids of a Stadia controller.\<close>

lemma guess_stadia: "uni_guess_controller_type 0x18d1 0x9400 = CONTROLLER_TYPE_AndroidController"
  by code_simp

lemma le_free_ids:
  "\<forall>j < 4. j \<noteq> 0 \<longrightarrow> conn_handle (conn (dv (bt le_scanning) j)) \<noteq> 0" "\<forall>j < 4. j \<noteq> 0 \<longrightarrow> hids_cid (dv (bt le_scanning) j) \<noteq> 1"
  "known_type CONTROLLER_TYPE_AndroidController" "hids_answer le_quiet = (0, 1)" "le_accepts le_quiet"
  "(0 :: u16) \<noteq> UNI_BT_CONN_HANDLE_INVALID"
  by (simp_all add: le_scanning_slots device_init_def uni_bt_conn_init_def UNI_BT_CONN_HANDLE_INVALID_def known_type_def le_quiet_def)

theorem le_connection_ready_witness:
  "\<exists>s. le_run plain_config (map (\<lambda>e. (e, le_quiet)) (ready_events pad_addr 0 200 gamepad_ad 0 0x18d1 0x9400 1)) le_scanning = Some s \<and>
     conn_state (conn (dv (bt s) 0)) = STATE_DEVICE_READY \<and> dev_parser (dv (bt s) 0) = P_stadia"
proof -
  obtain s where s: "le_run plain_config (map (\<lambda>e. (e, le_quiet)) (ready_events pad_addr 0 200 gamepad_ad 0 0x18d1 0x9400 1)) le_scanning = Some s"
      "dev_parser (dv (bt s) 0) = parser_for_type CONTROLLER_TYPE_AndroidController (dv (bt s) 0)"
      "vendor_id (dv (bt s) 0) = 0x18d1" "product_id (dv (bt s) 0) = 0x9400"
      "conn_state (conn (dv (bt s) 0)) = (if setup_waits (dev_parser (dv (bt s) 0)) then STATE_DEVICE_PENDING_READY else STATE_DEVICE_READY)"
    using le_connection_ready [OF le_scanning_reachable le_scanning_acceptable le_free_ids(6,1) _ le_free_ids(2)
        _ guess_stadia le_free_ids(3,4,5), of 0]
    by (auto simp: Let_def)
  moreover have "parser_for_type CONTROLLER_TYPE_AndroidController (dv (bt s) 0) = P_stadia"
    using s(3,4) by (simp add: parser_for_type_def switch_def)
  ultimately show ?thesis by (auto simp: setup_waits_def)
qed



lemma two_controllers:
  "\<exists>s. le_reachable plain_config s \<and> acceptable plain_config pad2_addr 200 gamepad_ad '''' 0x508 1 s \<and> is_scanning s \<and>
     uni_hid_device_get_instance_for_connection_handle 0 (hid (bt s)) = Some 0 \<and> hids_cid (dv (bt s) 0) = 1"
proof -
  obtain s cs where r: "le_run plain_config (map (\<lambda>e. (e, le_quiet)) (ready_events pad_addr 0 200 gamepad_ad 0 0x18d1 0x9400 1)) le_scanning = Some s"
     "stage le_scanning 0 (ready_device pad_addr 200 '''' 0x508 0 0x18d1 0x9400 1 CONTROLLER_TYPE_AndroidController) cs s"
    using ready_run [OF le_reachable_inv [OF le_scanning_reachable] le_scanning_acceptable le_free_ids(6,1) _ le_free_ids(2)
        _ guess_stadia le_free_ids(3,4,5), of 0] by auto
  have d: "dv (bt s) 0 = ready_device pad_addr 200 '''' 0x508 0 0x18d1 0x9400 1 CONTROLLER_TYPE_AndroidController"
      "length (g_devices (hid (bt s))) = 4"
    and s: "is_scanning s" "allow (bt s) = allow_start" and o: "\<And>j. j < 4 \<Longrightarrow> j \<noteq> 0 \<Longrightarrow> dv (bt s) j = device_init"
    using r(2) le_scanning_slots by (simp_all add: stage_def le_scanning_simps booted_simps)
  note 0 = ready_device_simps [OF _ d(1) [symmetric], simplified]
  have n: "pad2_addr \<noteq> pad_addr" "pad2_addr \<noteq> zero_addr" "pad_addr \<noteq> zero_addr"
    by (simp_all add: pad_addr_def pad2_addr_def zero_addr_def)
  have f: "find_dev is_free (hid (bt s)) = Some 1"
    using d(2) 0(1) n(3) o [of 1] device_init_free
    by (auto simp: find_dev_def find_Some_iff is_free_def less_Suc_eq_0_disj intro!: exI [of _ 1])
  have "btaddr (conn device_init) = zero_addr" by (simp add: device_init_def uni_bt_conn_init_def conn_zero_def)
  then have a: "uni_hid_device_get_instance_for_address pad2_addr (hid (bt s)) = None"
    using d(2) 0(1) n o unfolding uni_hid_device_get_instance_for_address_def find_dev_None by (metis (no_types, lifting))
  have h: "uni_hid_device_get_instance_for_connection_handle 0 (hid (bt s)) = Some 0"
    using stage_handle [OF r(2) _ le_free_ids(6,1)] 0(2) d(1) by simp
  show ?thesis
    using le_run_reachable [OF le_scanning_reachable r(1)] gamepad_acceptable [OF _ a f s(2)] s(1) h 0(3) by auto
qed

theorem le_timeout_disconnects_other_witness:
  "\<exists>s s'. le_reachable plain_config s \<and> conn_state (conn (dv (bt s) 0)) = conn_state (conn (dv (bt s') 0)) \<and>
     le_run plain_config [(Advertising_report pad2_addr 0 200 gamepad_ad, le_quiet),
       (Classic (Ev_connection_timeout 1), le_quiet\<lparr>gap_of := \<lambda>_. GAP_CONNECTION_LE\<rparr>)] s = Some s' \<and>
     le_calls s' = le_calls s @ [Gap_stop_scan, Gap_connect pad2_addr 0, Hids_client_disconnect 1, Gap_disconnect_handle 0, Gap_start_scan]"
proof -
  obtain s where s: "le_reachable plain_config s" "acceptable plain_config pad2_addr 200 gamepad_ad '''' 0x508 1 s" "is_scanning s"
      "uni_hid_device_get_instance_for_connection_handle 0 (hid (bt s)) = Some 0" "hids_cid (dv (bt s) 0) = 1"
    using two_controllers by blast
  show ?thesis
    using le_timeout_disconnects_other [OF s(1,2,4), of "le_quiet\<lparr>gap_of := \<lambda>_. GAP_CONNECTION_LE\<rparr>" 0 le_quiet] s
    by (auto simp del: le_run.simps)
qed

end
