(* ===== verification/BtServiceProps.thy ===== *)
theory BtServiceProps
  imports BtService LeProps
begin

text \<open>
  What the start-up and the GATT service promise: the commands of the start-up are sent in order and its end is
  announced once; the service keeps its tables in shape and every handler returns; a round of
  notifications reports every controller; and the changes that a client is never told about.
\<close>

subsection \<open>Start-up\<close>

definition setup_inv :: "bt_setup \<Rightarrow> bool" where
  "setup_inv s \<longleftrightarrow> setup_fn_idx s \<le> 2 \<and> (uni_bt_setup_is_ready s \<longleftrightarrow> setup_fn_idx s = 2) \<and>
     (\<exists>w. setup_calls s = take (setup_fn_idx s) setup_fns @
       (if uni_bt_setup_is_ready s then On_init_complete # (if w then [Service_init] else []) else []))"

lemma length_setup_fns: "length setup_fns = 2"
  by (simp add: setup_fns_def)

lemma setup_next:
  assumes "setup_inv s" "\<not> uni_bt_setup_is_ready s"
  shows "\<exists>s'. setup_call_next_fn R s = Some s' \<and> setup_inv s'"
proof -
  have c: "setup_calls s = take (setup_fn_idx s) setup_fns" and r: "setup_state s \<noteq> SETUP_STATE_READY"
    using assms by (auto simp: setup_inv_def uni_bt_setup_is_ready_def)
  consider "setup_fn_idx s = 0" | "setup_fn_idx s = 1"
    using assms by (auto simp: setup_inv_def le_Suc_eq numeral_2_eq_2)
  then show ?thesis
  proof cases
    case 1
    then show ?thesis using c r assms
      by (simp add: setup_call_next_fn_def setup_inv_def uni_bt_setup_is_ready_def setup_fns_def Let_def)
  next
    case 2
    then show ?thesis using c r
      by (auto simp: setup_call_next_fn_def setup_inv_def uni_bt_setup_is_ready_def setup_fns_def Let_def)
  qed
qed

lemma bt_setup_step:
  assumes "setup_inv s" "\<not> uni_bt_setup_is_ready s"
  shows "\<exists>s'. uni_bt_setup_packet_handler R ev s = Some s' \<and> setup_inv s'"
proof -
  have "setup_inv (s\<lparr>setup_state := SETUP_STATE_BLUEPAD32_IN_PROGRESS\<rparr>)"
      "\<not> uni_bt_setup_is_ready (s\<lparr>setup_state := SETUP_STATE_BLUEPAD32_IN_PROGRESS\<rparr>)"
    using assms by (auto simp: setup_inv_def uni_bt_setup_is_ready_def)
  from setup_next [OF this, of R] setup_next [OF assms, of R] show ?thesis
    using assms(1) by (simp add: uni_bt_setup_packet_handler_def)
qed

lemma setup_run_inv: "setup_inv s \<Longrightarrow> \<exists>s'. bt_setup_run es s = Some s' \<and> setup_inv s'"
proof (induction es arbitrary: s)
  case (Cons e es)
  then show ?case using bt_setup_step [OF Cons.prems, of "snd e" "fst e"] by fastforce
qed simp

text \<open>
  C13. The start-up sends its two commands in order, each once, however often the stack was busy or
  refused one, never reads outside of its table, and announces its end exactly once, after both: over every
  sequence of events. Two events that find the stack willing, after the one that says it works, complete it.
\<close>

theorem setup_in_order:
  "(\<exists>s w. bt_setup_run es bt_setup_start = Some s \<and> setup_fn_idx s \<le> 2 \<and> (uni_bt_setup_is_ready s \<longleftrightarrow> setup_fn_idx s = 2) \<and>
     setup_calls s = take (setup_fn_idx s)
         [Write_simple_pairing_mode True, Set_event_filter_inquiry_cod 1 1 UNI_BT_COD_MAJOR_PERIPHERAL UNI_BT_COD_MAJOR_MASK] @
       (if uni_bt_setup_is_ready s then On_init_complete # (if w then [Service_init] else []) else [])) \<and>
   bt_setup_run [(State_working, \<lparr>can_send_command = True, command_status = 0, service_wanted = w1\<rparr>),
       (Other_event, \<lparr>can_send_command = True, command_status = 0, service_wanted = w\<rparr>)] bt_setup_start =
     Some \<lparr>setup_state = SETUP_STATE_READY, setup_fn_idx = 2, setup_calls = setup_fns @ On_init_complete # (if w then [Service_init] else [])\<rparr>"
proof
  have "setup_inv bt_setup_start"
    by (simp add: setup_inv_def bt_setup_start_def uni_bt_setup_is_ready_def)
  then show "\<exists>s w. bt_setup_run es bt_setup_start = Some s \<and> setup_fn_idx s \<le> 2 \<and> (uni_bt_setup_is_ready s \<longleftrightarrow> setup_fn_idx s = 2) \<and>
     setup_calls s = take (setup_fn_idx s)
         [Write_simple_pairing_mode True, Set_event_filter_inquiry_cod 1 1 UNI_BT_COD_MAJOR_PERIPHERAL UNI_BT_COD_MAJOR_MASK] @
       (if uni_bt_setup_is_ready s then On_init_complete # (if w then [Service_init] else []) else [])"
    using setup_run_inv [of bt_setup_start es] unfolding setup_inv_def setup_fns_def [symmetric] by blast
qed (simp add: bt_setup_start_def uni_bt_setup_is_ready_def uni_bt_setup_packet_handler_def setup_call_next_fn_def setup_fns_def)

subsection \<open>Shape of the service's state\<close>

definition svc_inv :: "svc_state \<Rightarrow> bool" where
  "svc_inv s \<longleftrightarrow> le_inv (le s) \<and> notification_device_idx s < 4 \<and> length (client_connections s) = 1 \<and>
     length (compact_devices s) = 4 \<and> (\<forall>i < 4. cd_idx (compact_devices s ! i) = word_of_nat i)"

lemma svc_call_simps [simp]:
  "le (svc_call c s) = le s" "notification_device_idx (svc_call c s) = notification_device_idx s"
  "client_connections (svc_call c s) = client_connections s" "compact_devices (svc_call c s) = compact_devices s"
  "can_send (svc_call c s) = can_send s" "svc_calls (svc_call c s) = svc_calls s @ [c]" "service_enabled (svc_call c s) = service_enabled s"
  by (simp_all add: svc_call_def)

lemma request_simps [simp]:
  "le (att_server_request_can_send_now_event s) = le s" "can_send (att_server_request_can_send_now_event s)"
  "notification_device_idx (att_server_request_can_send_now_event s) = notification_device_idx s"
  "client_connections (att_server_request_can_send_now_event s) = client_connections s"
  "compact_devices (att_server_request_can_send_now_event s) = compact_devices s"
  "svc_calls (att_server_request_can_send_now_event s) = svc_calls s"
  by (simp_all add: att_server_request_can_send_now_event_def)

lemma maybe_notify_simps [simp]:
  "le (maybe_notify_client s) = le s" "notification_device_idx (maybe_notify_client s) = notification_device_idx s"
  "client_connections (maybe_notify_client s) = client_connections s" "compact_devices (maybe_notify_client s) = compact_devices s"
  "svc_calls (maybe_notify_client s) = svc_calls s"
  by (simp_all add: maybe_notify_client_def)

lemma svc_inv_call: "svc_inv s \<Longrightarrow> svc_inv (svc_call c s)"
  by (simp add: svc_inv_def)

lemma svc_inv_le: "svc_inv s \<Longrightarrow> le_inv l \<Longrightarrow> svc_inv (s\<lparr>le := l\<rparr>)"
  by (simp add: svc_inv_def)

lemma svc_inv_compact:
  assumes "svc_inv s" "\<And>c. cd_idx c = word_of_nat i \<Longrightarrow> cd_idx (f c) = word_of_nat i"
  shows "svc_inv (maybe_notify_client (upd_compact i f s))"
  using assms by (cases "i < 4") (auto simp: svc_inv_def upd_compact_def nth_list_update)

lemma svc_inv_client: "svc_inv s \<Longrightarrow> svc_inv (upd_client i f s)"
  by (simp add: svc_inv_def upd_client_def)

lemma svc_inv_notify: "svc_inv s \<Longrightarrow> svc_inv (notify_client s)"
  by (simp add: notify_client_def next_notify_device_def svc_inv_def Let_def CONFIG_BLUEPAD32_MAX_DEVICES_def)

lemma svc_inv_att: "svc_inv s \<Longrightarrow> svc_inv (uni_att_packet_handler ev s)"
  by (cases ev) (auto simp: svc_inv_client svc_inv_notify split: option.split)

lemma svc_inv_enabled: "svc_inv s \<Longrightarrow> svc_inv (uni_bt_service_set_enabled b s)"
  by (simp add: uni_bt_service_set_enabled_def uni_bt_service_init_def uni_bt_service_deinit_def svc_inv_def compact_zero_def
      CONFIG_BLUEPAD32_MAX_DEVICES_def MAX_NR_CLIENT_CONNECTIONS_def)

definition svc_ok :: "svc_state option \<Rightarrow> bool" where
  "svc_ok r \<longleftrightarrow> (\<exists>s. r = Some s \<and> svc_inv s)"

lemma svc_ok_simps [simp]: "svc_ok (Some s) \<longleftrightarrow> svc_inv s" "\<not> svc_ok None"
  by (simp_all add: svc_ok_def)

lemma start_scanning_inv: "le_inv l \<Longrightarrow> le_inv (start_scanning b l)"
  using le_handle_ok [of l undefined undefined "Cmd_scanning b"] by simp

lemma disconnect_idx_ok:
  assumes s: "svc_inv s" and i: "i < 4"
  shows "svc_ok (disconnect_idx R i s)"
proof -
  have l: "le_inv (le s)" "physical (hid (bt (le s)))" using s by (auto simp: svc_inv_def le_inv_def bt_inv_def)
  let ?h = "disconnect_one (env_gap (classic_env (le_answers R) (le s))) i (hid (bt (le s)))"
  have "physical ?h" by (rule physical_links [OF disconnect_one_links l(2)])
  then have "bt_inv ((bt (le s))\<lparr>hid := ?h\<rparr>)" using l(1) by (auto simp: le_inv_def bt_inv_def)
  then have "svc_inv (s\<lparr>le := settle (le_answers R) (le s) ((bt (le s))\<lparr>hid := ?h\<rparr>)\<rparr>)"
    by (intro svc_inv_le [OF s] le_inv_settle [OF l(1)])
  moreover have "uni_hid_device_disconnect 2 (env_gap (classic_env (le_answers R) (le s))) i (hid (bt (le s))) = Some ?h"
    using physicalD(4) [OF l(2) i] by (simp add: numeral_2_eq_2)
  ultimately show ?thesis by (simp add: disconnect_idx_def)
qed

lemma write_byte_ok:
  assumes s: "svc_inv s"
  shows "svc_ok (map_option snd (write_byte R ch v s))"
proof -
  have l: "le_inv (le s)" using s by (simp add: svc_inv_def)
  have a: "le_inv ((le s)\<lparr>bt := (bt (le s))\<lparr>allow := al\<rparr>\<rparr>)" for al using l by (simp add: le_inv_def bt_inv_def)
  have m: "svc_inv (s\<lparr>statics := st\<rparr>)" "svc_inv (s\<lparr>virtual_device_enabled := w\<rparr>)" for st w
    using s by (simp_all add: svc_inv_def)
  have d: "svc_ok (map_option snd (map_option (Pair e) r)) = svc_ok r" for e r by (cases r) simp_all
  have "svc_inv (s\<lparr>le := uni_bt_le_set_enabled b (le s)\<rparr>)" for b
    using l by (intro svc_inv_le [OF s]) (simp add: uni_bt_le_set_enabled_def le_inv_scan le_inv_call)
  moreover have "svc_inv (s\<lparr>le := start_scanning b (le s)\<rparr>)" for b
    by (rule svc_inv_le [OF s start_scanning_inv [OF l]])
  moreover have "svc_inv (set_allowlist_enabled R b s)" for b
    unfolding set_allowlist_enabled_def by (rule svc_inv_le [OF s a])
  moreover have "svc_inv (uni_virtual_device_set_enabled b s)" for b
    using m(2) s by (simp add: uni_virtual_device_set_enabled_def svc_inv_call)
  moreover have "svc_ok (disconnect_idx R (unat v) s)" if "\<not> 4 \<le> unat v"
    using that by (intro disconnect_idx_ok [OF s]) simp
  moreover have "svc_inv (s\<lparr>le := bluetooth_del_keys ks db (le s)\<rparr>)" for ks db
    by (rule svc_inv_le [OF s le_inv_keys [OF l]])
  ultimately show ?thesis
    using s m(1)
    by (cases ch) (simp_all add: write_byte_def d svc_inv_call CONFIG_BLUEPAD32_MAX_DEVICES_def split: option.split)
qed

text \<open>
  What the stack guarantees: the event for notifications comes only when it was asked for, the hooks get
  a device of the table, and a client writes its configuration with two bytes, which is not checked.
\<close>

fun svc_enabled :: "bt_config \<Rightarrow> svc_env \<Rightarrow> svc_event \<Rightarrow> svc_state \<Rightarrow> bool" where
  "svc_enabled C R (Att ev) s \<longleftrightarrow> (ev = Att_can_send_now \<longrightarrow> can_send s)"
| "svc_enabled C R (Att_write nh h ch offset buffer) s \<longleftrightarrow> (ch = Notify_devices_configuration \<longrightarrow> 2 \<le> length buffer)"
| "svc_enabled C R (Device_connected i d) s \<longleftrightarrow> i < 4"
| "svc_enabled C R (Device_ready i d) s \<longleftrightarrow> i < 4"
| "svc_enabled C R (Device_disconnected i) s \<longleftrightarrow> i < 4"
| "svc_enabled C R (Cmd_service b) s \<longleftrightarrow> True"
| "svc_enabled C R (Bluetooth ev) s \<longleftrightarrow> le_enabled (C\<lparr>cfg_statics := statics s\<rparr>) (le_answers R) ev (le s)"

lemma write_ok:
  assumes s: "svc_inv s" and e: "svc_enabled C R (Att_write nh h ch offset buffer) s"
  shows "svc_ok (map_option snd (uni_att_write_callback R nh h ch offset buffer s))"
proof -
  have "svc_inv (att_server_request_can_send_now_event t)" if "svc_inv t" for t using that by (simp add: svc_inv_def)
  then have "svc_ok (map_option snd (write_configuration nh h buffer s))" if "2 \<le> length buffer"
    using that s by (auto simp: write_configuration_def Let_def svc_inv_client split: option.split)
  then show ?thesis using e s write_byte_ok [OF s] by (simp add: uni_att_write_callback_def)
qed

lemma svc_handle_ok:
  assumes s: "svc_inv s" and e: "svc_enabled C R ev s"
  shows "svc_ok (svc_handle C R ev s)"
proof (cases ev)
  case (Att a)
  have "svc_inv (s\<lparr>can_send := False\<rparr>)" using s by (simp add: svc_inv_def)
  then show ?thesis using Att s by (simp add: svc_inv_att del: uni_att_packet_handler.simps)
next
  case (Att_write nh h ch offset buffer)
  then show ?thesis using write_ok [OF s] e by simp
next
  case (Bluetooth b)
  have "le_ok (le_handle (C\<lparr>cfg_statics := statics s\<rparr>) (le_answers R) b (le s))"
    using s e Bluetooth by (intro le_handle_ok) (simp_all add: svc_inv_def)
  then show ?thesis using Bluetooth svc_inv_le [OF s] by (auto simp: le_ok_def)
qed (use s in \<open>simp_all add: svc_inv_enabled uni_bt_service_on_device_connected_def uni_bt_service_on_device_ready_def
      uni_bt_service_on_device_disconnected_def svc_inv_compact compact_zero_def\<close>)

text \<open>A device at power-on: the service has not been started, and its tables are zero.\<close>

definition svc_booted :: "allowlist \<Rightarrow> bool \<Rightarrow> bool \<Rightarrow> gamepad_statics \<Rightarrow> bool \<Rightarrow> svc_state" where
  "svc_booted al inc ble st virt = \<lparr>le = le_booted al inc ble, statics = st, virtual_device_enabled = virt, service_enabled = False,
     client_connections = [client_zero\<lparr>connection_handle := 0\<rparr>], notification_device_idx = 0,
     compact_devices = replicate 4 (compact_zero 0), can_send = False, svc_calls = []\<rparr>"

text \<open>The states after the first start of the service.\<close>

inductive svc_reachable :: "bt_config \<Rightarrow> svc_state \<Rightarrow> bool" for C where
  started: "svc_reachable C (uni_bt_service_set_enabled True (svc_booted al inc ble st virt))"
| event: "svc_reachable C s \<Longrightarrow> svc_enabled C R ev s \<Longrightarrow> svc_handle C R ev s = Some s' \<Longrightarrow> svc_reachable C s'"

lemma svc_reachable_inv: "svc_reachable C s \<Longrightarrow> svc_inv s"
proof (induction rule: svc_reachable.induct)
  case (started al inc ble st virt)
  have "le_inv (le_booted al inc ble)" by (rule le_reachable_inv [OF le_reachable.booted])
  then show ?case
    by (simp add: uni_bt_service_set_enabled_def uni_bt_service_init_def svc_booted_def svc_inv_def compact_zero_def
        CONFIG_BLUEPAD32_MAX_DEVICES_def MAX_NR_CLIENT_CONNECTIONS_def)
next
  case (event s R ev s')
  then show ?case using svc_handle_ok [of s C R ev] by simp
qed

primrec svc_run :: "bt_config \<Rightarrow> svc_env \<Rightarrow> svc_event list \<Rightarrow> svc_state \<Rightarrow> svc_state option" where
  "svc_run C R [] s = Some s"
| "svc_run C R (e # es) s = (if svc_enabled C R e s then Option.bind (svc_handle C R e s) (svc_run C R es) else None)"

lemma svc_run_reachable: "svc_reachable C s \<Longrightarrow> svc_run C R es s = Some s' \<Longrightarrow> svc_reachable C s'"
proof (induction es arbitrary: s)
  case (Cons e es)
  then obtain s1 where "svc_enabled C R e s" "svc_handle C R e s = Some s1" "svc_run C R es s1 = Some s'"
    by (auto split: if_splits Option.bind_splits)
  then show ?case using Cons.IH svc_reachable.event [OF Cons.prems(1)] by blast
qed simp

text \<open>
  The configuration service is safe. After every sequence of events of clients, devices and commands, and of
  everything the connection layer sees in between, the index of the next notification and the four entries that it
  selects from stay in shape, the connection layer keeps its invariant, and every handler returns.
\<close>

theorem service_safe:
  assumes "svc_reachable C s"
  shows "notification_device_idx s < length (compact_devices s) \<and> length (compact_devices s) = 4 \<and>
     (\<forall>i < 4. cd_idx (compact_devices s ! i) = word_of_nat i) \<and> table_wf (hid (bt (le s))) \<and>
     (svc_enabled C R ev s \<longrightarrow> (\<exists>s'. svc_handle C R ev s = Some s'))"
proof -
  have "svc_inv s" using assms by (rule svc_reachable_inv)
  then show ?thesis
    using svc_handle_ok [of s C R ev] by (auto simp: svc_inv_def le_inv_def bt_inv_def physical_def svc_ok_def)
qed

subsection \<open>Rounds of notifications\<close>

text \<open>What the client is sent for controller \<open>i\<close>.\<close>

definition notification :: "svc_state \<Rightarrow> nat \<Rightarrow> svc_call" where
  "notification s i = (let c = client_connections s ! 0 in Att_server_notify (connection_handle c) (value_handle c) (compact_devices s ! i))"

lemma notify_step:
  assumes "is_notify_client_valid s" "notification_device_idx s < 4" "can_send s"
  shows "svc_handle C R (Att Att_can_send_now) s = Some (s\<lparr>svc_calls := svc_calls s @ [notification s (notification_device_idx s)],
     notification_device_idx := Suc (notification_device_idx s) mod 4, can_send := Suc (notification_device_idx s) < 4\<rparr>)"
proof -
  have "Suc (notification_device_idx s) = 4 \<or> Suc (notification_device_idx s) < 4" using assms(2) by linarith
  then show ?thesis
    using assms(1,3)
    by (auto simp: notify_client_def is_notify_client_valid_def next_notify_device_def notification_def Let_def svc_call_def
        att_server_request_can_send_now_event_def CONFIG_BLUEPAD32_MAX_DEVICES_def)
qed

lemma notify_rest:
  assumes "is_notify_client_valid s" "notification_device_idx s + n = 4" "can_send s" "0 < n"
  shows "svc_run C R (replicate n (Att Att_can_send_now)) s =
     Some (s\<lparr>svc_calls := svc_calls s @ map (notification s) [notification_device_idx s..<4], notification_device_idx := 0, can_send := False\<rparr>)"
  using assms
proof (induction n arbitrary: s)
  case (Suc n)
  let ?k = "notification_device_idx s"
  let ?s = "s\<lparr>svc_calls := svc_calls s @ [notification s ?k], notification_device_idx := Suc ?k mod 4, can_send := Suc ?k < 4\<rparr>"
  have k: "?k < 4" using Suc.prems by simp
  have h: "svc_handle C R (Att Att_can_send_now) s = Some ?s" by (rule notify_step [OF Suc.prems(1) k Suc.prems(3)])
  have u: "[?k..<4] = ?k # [Suc ?k..<4]" using k by (simp add: upt_conv_Cons)
  have v: "is_notify_client_valid ?s" "notification ?s = notification s"
    using Suc.prems(1) by (auto simp: is_notify_client_valid_def notification_def)
  show ?case
  proof (cases "n = 0")
    case True
    then show ?thesis using Suc.prems h u by (simp del: svc_handle.simps)
  next
    case False
    then have "svc_run C R (replicate n (Att Att_can_send_now)) ?s =
        Some (?s\<lparr>svc_calls := svc_calls ?s @ map (notification ?s) [notification_device_idx ?s..<4],
          notification_device_idx := 0, can_send := False\<rparr>)"
      using Suc.prems v(1) by (intro Suc.IH) simp_all
    then show ?thesis using Suc.prems h u v(2) False by (simp del: svc_handle.simps)
  qed
qed simp

text \<open>
  C12. A client that enables notifications is told about the controllers from the current index on. When it
  has connected as the only client and written its configuration, and nothing else happens in
  between, the next events of the stack send the entries of the table from the index of the next
  notification to the last one in order, to the client's handle and the characteristic's; then
  the index is 0 again and no further event is requested. The index is 0, and all four entries are sent, unless
  an earlier client left in the middle of its round: then the new client does not get the
  entries before the index.
\<close>

theorem service_notifies_all:
  assumes "svc_reachable C s" "client_connections s = [client_zero]" "h \<noteq> 0xffff"
  shows "\<exists>s'. svc_run C R ([Att (Att_connected h), Att_write nh h Notify_devices_configuration 0 [1, 0]] @
         replicate (4 - notification_device_idx s) (Att Att_can_send_now)) s = Some s' \<and>
     svc_calls s' = svc_calls s @ map (\<lambda>i. Att_server_notify h nh (compact_devices s ! i)) [notification_device_idx s..<4] \<and>
     notification_device_idx s < 4 \<and> notification_device_idx s' = 0 \<and> \<not> can_send s'"
proof -
  let ?c = "\<lparr>notification_enabled = True, value_handle = nh, connection_handle = h\<rparr>"
  let ?s = "s\<lparr>client_connections := [?c], can_send := True\<rparr>"
  have k: "notification_device_idx s < 4" using svc_reachable_inv [OF assms(1)] by (simp add: svc_inv_def)
  have f: "connection_for_conn_handle 0xffff s = Some 0"
    using assms(2) by (simp add: connection_for_conn_handle_def client_zero_def)
  have "svc_handle C R (Att (Att_connected h)) s = Some (s\<lparr>client_connections := [client_zero\<lparr>connection_handle := h\<rparr>]\<rparr>)"
    using f assms(2) by (simp add: upd_client_def)
  moreover have "svc_handle C R (Att_write nh h Notify_devices_configuration 0 [1, 0])
      (s\<lparr>client_connections := [client_zero\<lparr>connection_handle := h\<rparr>]\<rparr>) = Some ?s"
    by (simp add: uni_att_write_callback_def write_configuration_def connection_for_conn_handle_def upd_client_def client_zero_def
        le16_at_def att_server_request_can_send_now_event_def)
  moreover have "svc_run C R (replicate (4 - notification_device_idx s) (Att Att_can_send_now)) ?s =
      Some (?s\<lparr>svc_calls := svc_calls ?s @ map (notification ?s) [notification_device_idx ?s..<4], notification_device_idx := 0, can_send := False\<rparr>)"
    using assms(3) k by (intro notify_rest) (simp_all add: is_notify_client_valid_def client_valid_def)
  ultimately show ?thesis
    using k by (simp add: notification_def del: svc_handle.simps replicate.simps)
qed

text \<open>
  C40. A change during a round is lost. When controller \<open>j\<close> becomes ready after its turn in the current round, the
  rest of the round sends only later entries, and then nothing is pending: the client keeps the old entry
  of controller \<open>j\<close> until something else changes.
\<close>

theorem service_change_lost:
  assumes "svc_reachable C s" "is_notify_client_valid s" "can_send s" "service_enabled s"
    and "j < notification_device_idx s"
  shows "\<exists>s'. svc_run C R (Device_ready j d # replicate (4 - notification_device_idx s) (Att Att_can_send_now)) s = Some s' \<and>
     cd_state (compact_devices s' ! j) = of_bool (connected (conn d)) \<and> \<not> can_send s' \<and>
     (\<exists>cs. svc_calls s' = svc_calls s @ cs \<and> (\<forall>h nh c. Att_server_notify h nh c \<in> set cs \<longrightarrow> cd_idx c \<noteq> word_of_nat j))"
proof -
  have i: "svc_inv s" using assms(1) by (rule svc_reachable_inv)
  let ?k = "notification_device_idx s"
  let ?f = "\<lambda>c. c\<lparr>cd_controller_subtype := word_of_int (controller_subtype d), cd_state := of_bool (connected (conn d))\<rparr>"
  let ?s = "maybe_notify_client (upd_compact j ?f s)"
  have k: "?k < 4" "j < 4" using i assms(5) by (auto simp: svc_inv_def)
  have h: "svc_handle C R (Device_ready j d) s = Some ?s"
    using assms(4) by (simp add: uni_bt_service_on_device_ready_def)
  have v: "is_notify_client_valid ?s" "can_send ?s" "notification_device_idx ?s = ?k"
    using assms(2,3) by (simp_all add: is_notify_client_valid_def upd_compact_def maybe_notify_client_def)
  have "svc_run C R (replicate (4 - ?k) (Att Att_can_send_now)) ?s =
      Some (?s\<lparr>svc_calls := svc_calls ?s @ map (notification ?s) [?k..<4], notification_device_idx := 0, can_send := False\<rparr>)"
    using notify_rest [of ?s "4 - ?k" C R] v k by simp
  then have r: "svc_run C R (Device_ready j d # replicate (4 - ?k) (Att Att_can_send_now)) s =
      Some (?s\<lparr>svc_calls := svc_calls ?s @ map (notification ?s) [?k..<4], notification_device_idx := 0, can_send := False\<rparr>)"
    using h k by (simp del: svc_handle.simps)
  have c: "cd_idx (compact_devices ?s ! l) = word_of_nat l" if "l < 4" for l
    using i that k by (auto simp: svc_inv_def upd_compact_def nth_list_update)
  have "(word_of_nat l :: u8) \<noteq> word_of_nat j" if "?k \<le> l" "l < 4" for l
  proof -
    have "unat (word_of_nat l :: u8) = l" "unat (word_of_nat j :: u8) = j" using that k by (simp_all add: unat_of_nat)
    then show ?thesis using that assms(5) by auto
  qed
  then have "\<forall>h nh c. Att_server_notify h nh c \<in> set (map (notification ?s) [?k..<4]) \<longrightarrow> cd_idx c \<noteq> word_of_nat j"
    using c by (auto simp: notification_def Let_def)
  moreover have "cd_state (compact_devices ?s ! j) = of_bool (connected (conn d))" "svc_calls ?s = svc_calls s"
    using i k by (simp_all add: svc_inv_def upd_compact_def)
  ultimately show ?thesis using r by (intro exI [of _ "?s\<lparr>svc_calls := svc_calls ?s @ map (notification ?s) [?k..<4],
      notification_device_idx := 0, can_send := False\<rparr>"] conjI) auto
qed

subsection \<open>Reading a value in parts\<close>

lemma parts_of_list: "concat (map (\<lambda>i. take n (drop (i * n) xs)) [0..<k]) = take (k * n) xs"
  by (induction k) (simp_all add: take_add [symmetric] add.commute)

lemma read_part:
  "characteristic_value version ch s = Some blob \<Longrightarrow>
   snd (uni_att_read_callback version ch offset (Some n) s) = take n (drop offset blob)"
  by (auto simp: uni_att_read_callback_def att_read_callback_handle_blob_def Let_def min_def)

text \<open>
  A value that is longer than a packet is read in parts, each at the end of the one before: together they
  are the value, as soon as there are enough of them for the size that a read without a buffer announces.
\<close>

lemma value_read_in_parts:
  assumes "characteristic_value version ch s = Some blob"
    and "fst (uni_att_read_callback version ch 0 None s) \<le> k * n"
  shows "concat (map (\<lambda>i. snd (uni_att_read_callback version ch (i * n) (Some n) s)) [0..<k]) = blob"
  using assms
  by (simp add: read_part parts_of_list) (simp add: uni_att_read_callback_def att_read_callback_handle_blob_def)

text \<open>Switching the service off and on forgets the controllers that are connected.\<close>

lemma service_restart_forgets:
  assumes "service_enabled s"
  shows "\<exists>s'. svc_run C R [Cmd_service False, Cmd_service True] s = Some s' \<and> le s' = le s \<and>
     compact_devices s' = map compact_zero [0..<4]"
  using assms
  by (simp add: uni_bt_service_set_enabled_def uni_bt_service_init_def uni_bt_service_deinit_def CONFIG_BLUEPAD32_MAX_DEVICES_def)

subsection \<open>A client at work\<close>

definition svc_quiet :: svc_env where
  "svc_quiet = \<lparr>le_answers = le_quiet, property_writes = True, link_keys = None, le_device_db = []\<rparr>"

abbreviation (input) "svc_started \<equiv> uni_bt_service_set_enabled True (svc_booted allow_start True True undefined False)"

lemma svc_started_simps:
  "client_connections svc_started = [client_zero]" "notification_device_idx svc_started = 0" "service_enabled svc_started"
  "svc_calls svc_started = [Att_server_init, Att_server_register_packet_handler, Gap_advertisements_set_params 48 48 0,
     Gap_advertisements_set_data adv_data, Gap_advertisements_enable True]"
  by (simp_all add: uni_bt_service_set_enabled_def uni_bt_service_init_def svc_booted_def MAX_NR_CLIENT_CONNECTIONS_def)

theorem service_notifies_all_witness:
  "\<exists>s. svc_run plain_config svc_quiet ([Att (Att_connected 5), Att_write 20 5 Notify_devices_configuration 0 [1, 0]] @
         replicate 4 (Att Att_can_send_now)) svc_started = Some s \<and> length (svc_calls s) = 9"
  using service_notifies_all [OF svc_reachable.started svc_started_simps(1), of 5 plain_config svc_quiet 20] svc_started_simps(2,4)
  by (auto simp del: svc_run.simps replicate.simps)

theorem service_safe_witness:
  "svc_reachable plain_config svc_started \<and>
     (\<exists>s. svc_handle plain_config svc_quiet (Att_write 20 5 Scan_value 0 [1]) svc_started = Some s)"
  using service_safe [OF svc_reachable.started, of allow_start True True undefined False plain_config svc_quiet
      "Att_write 20 5 Scan_value 0 [1]"] svc_reachable.started by auto

lemma in_round:
  "\<exists>s. svc_reachable plain_config s \<and> is_notify_client_valid s \<and> can_send s \<and> service_enabled s \<and> notification_device_idx s = 1"
proof -
  let ?es = "[Att (Att_connected 5), Att_write 20 5 Notify_devices_configuration 0 [1, 0], Att Att_can_send_now]"
  let ?c = "\<lparr>notification_enabled = True, value_handle = 20, connection_handle = 5\<rparr>"
  let ?s = "svc_started\<lparr>client_connections := [?c], can_send := True\<rparr>"
  have 1: "svc_handle plain_config svc_quiet (Att (Att_connected 5)) svc_started =
      Some (svc_started\<lparr>client_connections := [client_zero\<lparr>connection_handle := 5\<rparr>]\<rparr>)"
    using svc_started_simps(1) by (simp add: upd_client_def connection_for_conn_handle_def client_zero_def)
  have 2: "svc_handle plain_config svc_quiet (Att_write 20 5 Notify_devices_configuration 0 [1, 0])
      (svc_started\<lparr>client_connections := [client_zero\<lparr>connection_handle := 5\<rparr>]\<rparr>) = Some ?s"
    by (simp add: uni_att_write_callback_def write_configuration_def connection_for_conn_handle_def upd_client_def client_zero_def
        le16_at_def att_server_request_can_send_now_event_def)
  have v: "is_notify_client_valid ?s" by (simp add: is_notify_client_valid_def client_valid_def)
  have 3: "svc_handle plain_config svc_quiet (Att Att_can_send_now) ?s =
      Some (?s\<lparr>svc_calls := svc_calls ?s @ [notification ?s 0], notification_device_idx := 1, can_send := True\<rparr>)"
    using notify_step [OF v, of plain_config svc_quiet] svc_started_simps(2) by simp
  have "svc_run plain_config svc_quiet ?es svc_started =
      Some (?s\<lparr>svc_calls := svc_calls ?s @ [notification ?s 0], notification_device_idx := 1, can_send := True\<rparr>)"
    using 1 2 3 by (simp del: svc_handle.simps)
  note r = svc_run_reachable [OF svc_reachable.started this]
  show ?thesis by (rule exI, intro conjI, rule r) (use v svc_started_simps(3) in \<open>simp_all add: is_notify_client_valid_def\<close>)
qed

theorem service_change_lost_witness:
  "\<exists>s s'. svc_reachable plain_config s \<and>
     svc_run plain_config svc_quiet (Device_ready 0 (device_init\<lparr>conn := (conn device_init)\<lparr>connected := True\<rparr>\<rparr>) #
       replicate 3 (Att Att_can_send_now)) s = Some s' \<and> cd_state (compact_devices s' ! 0) = 1 \<and> \<not> can_send s'"
proof -
  obtain s where s: "svc_reachable plain_config s" "is_notify_client_valid s" "can_send s" "service_enabled s" "notification_device_idx s = 1"
    using in_round by blast
  show ?thesis
    using service_change_lost [OF s(1-4), of 0 svc_quiet "device_init\<lparr>conn := (conn device_init)\<lparr>connected := True\<rparr>\<rparr>"] s
    by (auto simp del: svc_run.simps replicate.simps)
qed

end
