(* ===== verification/FullRange.thy ===== *)
theory FullRange
  imports XboxOne
begin

text \<open>
  When a HID descriptor is enough. The parsers promise stick values in range for fields whose values
  lie within their logical limits (\<open>usage_parser\<close>). Here the condition is moved from the report to
  the descriptor: the usages a descriptor declares do not depend on the contents of a report
  except for its report id (\<open>report_items\<close>), and a field that uses its full range of values cannot
  leave its limits. For such a descriptor every report, whatever its bytes, is parsed safely.
\<close>

subsection \<open>The usages of a descriptor\<close>

function report_items :: "u8 list \<Rightarrow> usage_iterator \<Rightarrow> (hid_globals \<times> hid_usage_item) list option" where
  "report_items report it =
     (case parser_has_more report it of
        None \<Rightarrow> None
      | Some (None, it') \<Rightarrow> Some []
      | Some (Some item, it') \<Rightarrow> map_option (Cons (globals_of it', item)) (report_items report it'))"
  by pat_completeness auto

termination report_items
  by (relation "inv_image (usage_left\<^sup>+) snd")
     (auto simp: wf_trancl wf_usage_left intro: parser_has_more_progress)

declare report_items.simps [simp del]

lemma parser_has_more_head: "parser_has_more (r0 # rs) it = parser_has_more [r0] it"
proof (induction "[r0]" it rule: parser_has_more.induct)
  case (1 it)
  show ?case
    by (subst (1 2) parser_has_more.simps) (auto split: option.splits prod.splits intro: 1)
qed

definition matches :: "(hid_globals \<Rightarrow> hid_usage_item \<Rightarrow> int \<Rightarrow> bool) \<Rightarrow> hid_globals \<times> hid_usage_item \<Rightarrow>
    hid_globals \<times> u16 \<times> u16 \<times> int \<Rightarrow> bool" where
  "matches Q gi f = (case (gi, f) of ((g, item), (g', page, usage, v)) \<Rightarrow>
     g' = g \<and> page = u_usage_page item \<and> usage = u_usage item \<and> Q g item v)"

lemma report_fields_items:
  assumes "report_items [r0] it = Some items"
    and "\<And>g item. (g, item) \<in> set items \<Longrightarrow>
      \<exists>v. btstack_hid_parser_get_field item (r0 # rs) = Some (u_usage_page item, u_usage item, v) \<and> Q g item v"
  shows "\<exists>fs. report_fields (r0 # rs) it = Some fs \<and> list_all2 (matches Q) items fs"
  using assms
proof (induction "[r0]" it arbitrary: items rule: report_items.induct)
  case (1 it)
  note ri = report_items.simps [of "[r0]" it] and rf = report_fields.simps [of "r0 # rs" it, unfolded parser_has_more_head [of r0 rs]]
  obtain o' it' where m: "parser_has_more [r0] it = Some (o', it')"
    using "1.prems"(1) ri by (cases "parser_has_more [r0] it") auto
  show ?case
  proof (cases o')
    case None
    then show ?thesis using m ri rf "1.prems"(1) by simp
  next
    case (Some item)
    then obtain rest where rest: "report_items [r0] it' = Some rest" "items = (globals_of it', item) # rest"
      using m ri "1.prems"(1) by (cases "report_items [r0] it'") auto
    obtain v where v: "btstack_hid_parser_get_field item (r0 # rs) = Some (u_usage_page item, u_usage item, v)"
        "Q (globals_of it') item v"
      using "1.prems"(2) rest(2) by auto
    obtain fs where "report_fields (r0 # rs) it' = Some fs" "list_all2 (matches Q) rest fs"
      using "1.hyps" [OF m refl Some rest(1)] "1.prems"(2) rest(2) by auto
    then show ?thesis
      using m Some rf v rest(2) by (simp add: matches_def)
  qed
qed

subsection \<open>Fields that cannot leave their limits\<close>

definition full_range :: "nat \<Rightarrow> hid_globals \<times> hid_usage_item \<Rightarrow> bool" where
  "full_range len gi = (case gi of (g, item) \<Rightarrow>
     let n = unat (u_size item) in
     1 \<le> n \<and> n \<le> 20 \<and> field_pos item + n \<le> 8 * len \<and> (field_pos item + n - 1) div 8 < field_pos item div 8 + 4 \<and>
     is_variable (u_item item) \<and> u_logical_minimum item = logical_minimum g \<and>
     (if u_usage_page item = 1 \<and> u_usage item = 0x39 then 0 \<le> logical_minimum g \<and> logical_minimum g \<le> 2 ^ 20
      else logical_minimum g = 0 \<and> logical_maximum g = 2 ^ n - 1 \<or>
           logical_minimum g = - (2 ^ (n - 1)) \<and> logical_maximum g = 2 ^ (n - 1) - 1 \<and> 2 \<le> n))"

lemma uint_low_bits: "(\<And>j. bit u j \<Longrightarrow> j < n) \<Longrightarrow> uint u < 2 ^ n" for u :: u32w
proof -
  assume "\<And>j. bit u j \<Longrightarrow> j < n"
  then have "take_bit n u = u" by (intro bit_word_eqI) (auto simp: bit_take_bit_iff)
  then have "uint u = take_bit n (uint u)" by (metis unsigned_take_bit_eq)
  then show ?thesis using take_bit_int_less_exp [of n "uint u"] by simp
qed

lemma pow2_le_20: "n \<le> 20 \<Longrightarrow> (2 :: int) ^ n \<le> 2 ^ 20"
  by (rule power_increasing) simp_all

lemma unsigned_field_ok:
  assumes "n \<le> 20" "logical_minimum g = 0" "logical_maximum g = 2 ^ n - 1" "0 \<le> v" "v < 2 ^ n"
  shows "field_ok g v"
proof -
  define r :: int where "r = 2 ^ n"
  have r: "r \<le> 2 ^ 20" "1 \<le> r" using assms(1) pow2_le_20 by (auto simp: r_def)
  then have "axis_range g = Some r"
    using assms(2,3) [folded r_def] by (simp add: axis_range_def axis_max_def chk32_def s32_ok_def)
  then show ?thesis using assms [folded r_def] r by (simp add: field_ok_def)
qed

lemma signed_field_ok:
  assumes "2 \<le> n" "n \<le> 20" "logical_minimum g = - (2 ^ (n - 1))" "logical_maximum g = 2 ^ (n - 1) - 1"
    "- (2 ^ (n - 1)) \<le> v" "v < 2 ^ (n - 1)"
  shows "field_ok g v"
proof -
  obtain k where n: "n = Suc k" using assms(1) by (cases n) auto
  define r :: int where "r = 2 ^ (n - 1)"
  have "(2 :: int) ^ k \<le> 2 ^ 19" using assms(2) n by (intro power_increasing) auto
  moreover have "(2 :: int) ^ 1 \<le> 2 ^ k" using assms(1) n by (intro power_increasing) auto
  ultimately have r: "r \<le> 2 ^ 19" "2 \<le> r" by (simp_all add: r_def n)
  then have "axis_range g = Some (2 * r)"
    using assms(3,4) [folded r_def] by (auto simp: axis_range_def axis_max_def chk32_def s32_ok_def)
  then show ?thesis using assms(3-6) [folded r_def] r by (simp add: field_ok_def)
qed

lemma full_range_field:
  assumes "full_range (length report) (g, item)"
  shows "\<exists>v. btstack_hid_parser_get_field item report = Some (u_usage_page item, u_usage item, v) \<and>
     usage_ok g (u_usage_page item) (u_usage item) v"
proof -
  let ?n = "unat (u_size item)" and ?m = "logical_minimum g"
  have f: "1 \<le> ?n" "?n \<le> 20" "field_pos item + ?n \<le> 8 * length report"
      "(field_pos item + ?n - 1) div 8 < field_pos item div 8 + 4" "is_variable (u_item item)"
      "u_logical_minimum item = ?m"
    using assms by (simp_all add: full_range_def Let_def)
  have "?n \<le> 31" using f(2) by simp
  from get_field_exact_bits [OF f(1) this f(3,4)] obtain u :: u32w where
    u: "\<forall>j. bit u j \<longleftrightarrow> j < ?n \<and> report_bit report (field_pos item + j)"
      "btstack_hid_parser_get_field item report = Some (u_usage_page item, u_usage item,
         if ?m < 0 then signed_take_bit (?n - 1) (uint u) else uint u)"
    using f(5,6) by auto
  let ?v = "if ?m < 0 then signed_take_bit (?n - 1) (uint u) else uint u"
  have r: "0 \<le> uint u" "uint u < 2 ^ ?n" using u(1) uint_low_bits [of u ?n] by auto
  have p: "(2 :: int) ^ ?n \<le> 2 ^ 20" using f(2) pow2_le_20 by blast
  have b: "- (2 ^ 20) \<le> uint u" "uint u \<le> 2 ^ 20" using r p by linarith+
  have s: "- (2 ^ (?n - 1)) \<le> signed_take_bit (?n - 1) (uint u)" "signed_take_bit (?n - 1) (uint u) < 2 ^ (?n - 1)"
    using signed_take_bit_int_greater_eq_minus_exp signed_take_bit_int_less_exp by blast+
  have h: "(2 :: int) ^ (?n - 1) \<le> 2 ^ 20" using f(2) pow2_le_20 [of "?n - 1"] by simp
  have "usage_ok g (u_usage_page item) (u_usage item) ?v"
  proof (cases "u_usage_page item = 1 \<and> u_usage item = 0x39")
    case True
    then have m: "0 \<le> ?m" "?m \<le> 2 ^ 20" using assms by (simp_all add: full_range_def Let_def)
    then have "?v = uint u" by simp
    then show ?thesis using m b True by (simp add: usage_ok_def)
  next
    case False
    then consider "?m = 0" "logical_maximum g = 2 ^ ?n - 1"
      | "?m = - (2 ^ (?n - 1))" "logical_maximum g = 2 ^ (?n - 1) - 1" "2 \<le> ?n"
      using assms by (auto simp: full_range_def Let_def)
    then show ?thesis
    proof cases
      case 1
      then show ?thesis using b unsigned_field_ok [OF f(2) 1 r] by (simp add: usage_ok_def)
    next
      case 2
      have "?m < 0" using 2(1) by simp
      moreover have "- (2 ^ 20) \<le> ?m" "?m \<le> 2 ^ 20" using 2(1) h \<open>?m < 0\<close> by linarith+
      moreover have "- (2 ^ 20) \<le> signed_take_bit (?n - 1) (uint u)" "signed_take_bit (?n - 1) (uint u) \<le> 2 ^ 20"
        using s h by linarith+
      ultimately show ?thesis
        using signed_field_ok [OF 2(3) f(2) 2(1,2) s] by (simp add: usage_ok_def)
    qed
  qed
  with u(2) show ?thesis by blast
qed

subsection \<open>Every report is safe\<close>

lemma full_range_fields:
  assumes items: "report_items [r0] (btstack_hid_usage_iterator_init descr HID_INPUT) = Some items"
    and full: "list_all (full_range len) items" and len: "len \<le> length (r0 # rs)"
  shows "\<exists>fs. btstack_hid_parser_fields descr HID_INPUT (r0 # rs) = Some fs \<and> length fs = length items \<and>
     list_all (\<lambda>(g, page, usage, v). usage_ok g page usage v) fs"
proof -
  have "full_range (length (r0 # rs)) gi" if "full_range len gi" for gi
    using that len by (auto simp: full_range_def Let_def split: prod.splits)
  then have "\<exists>v. btstack_hid_parser_get_field item (r0 # rs) = Some (u_usage_page item, u_usage item, v) \<and>
      usage_ok g (u_usage_page item) (u_usage item) v" if "(g, item) \<in> set items" for g item
    using full that full_range_field by (auto simp: list_all_iff)
  then have "\<exists>fs. report_fields (r0 # rs) (btstack_hid_usage_iterator_init descr HID_INPUT) = Some fs \<and>
      list_all2 (matches (\<lambda>g item v. usage_ok g (u_usage_page item) (u_usage item) v)) items fs"
    by (intro report_fields_items [OF items]) blast
  then obtain fs where fs: "btstack_hid_parser_fields descr HID_INPUT (r0 # rs) = Some fs"
      "list_all2 (matches (\<lambda>g item v. usage_ok g (u_usage_page item) (u_usage item) v)) items fs"
    unfolding btstack_hid_parser_fields_def by blast
  from fs(2) have "list_all (\<lambda>(g, page, usage, v). usage_ok g page usage v) fs"
    by (induction rule: list_all2_induct) (auto simp: matches_def)
  with fs list_all2_lengthD [OF fs(2)] show ?thesis by auto
qed

text \<open>
  C6. A full-range descriptor makes every report safe for four parsers. If every usage a descriptor
  declares for a report id is a variable of at most 20 bits that lies in the report, spans at most
  four bytes and uses the full range of its bits, with limits from 0 to \<open>2\<^sup>n - 1\<close>
  or in two's complement (a hat may be neutral outside its limits, its minimum is in
  0..\<open>2\<^sup>2\<^sup>0\<close>), then every report with that id that is long enough, whatever
  its bytes, is split into fields without undefined behaviour, and the Android, 8BitDo, OUYA and
  Xbox parsers turn it into a gamepad with all stick axes in -512..511.
\<close>

theorem full_range_reports_safe:
  assumes items: "report_items [r0] (btstack_hid_usage_iterator_init descr HID_INPUT) = Some items"
    and full: "list_all (full_range len) items" and len: "len \<le> length (r0 # rs)"
  shows "(\<exists>fs. btstack_hid_parser_fields descr HID_INPUT (r0 # rs) = Some fs \<and> length fs = length items) \<and>
     (\<forall>(init, parse) \<in> {(uni_hid_parser_android_init_report, uni_hid_parser_android_parse_usage),
         (uni_hid_parser_8bitdo_init_report, uni_hid_parser_8bitdo_parse_usage),
         (uni_hid_parser_ouya_init_report, uni_hid_parser_ouya_parse_usage)}.
        \<exists>c'. uni_hid_parse_input_report (usage_rp init parse) descr (r0 # rs) c = Some c' \<and> axes_ok (- 512) 511 c') \<and>
     (\<exists>d'. uni_hid_parse_input_report (usage_rp uni_hid_parser_xboxone_init_report uni_hid_parser_xboxone_parse_usage)
        descr (r0 # rs) d = Some d' \<and> axes_ok (- 512) 511 (x_controller d'))"
proof -
  obtain fs where fs: "btstack_hid_parser_fields descr HID_INPUT (r0 # rs) = Some fs" "length fs = length items"
      "list_all (\<lambda>(g, page, usage, v). usage_ok g page usage v) fs"
    using full_range_fields [OF items full len] by blast
  show ?thesis
    using android.report_ok [OF fs(1)] bitdo.report_ok [OF fs(1)] ouya.report_ok [OF fs(1)]
      xboxone.report_ok [OF fs(1)] fs
    unfolding android.fields_ok_def bitdo.fields_ok_def ouya.fields_ok_def xboxone.fields_ok_def by simp
qed

definition stick_items :: "(hid_globals \<times> hid_usage_item) list" where
  "stick_items = (case report_items [7] (btstack_hid_usage_iterator_init stick_descriptor HID_INPUT) of
     Some items \<Rightarrow> items | None \<Rightarrow> [])"

lemma stick_items_full:
  "report_items [7] (btstack_hid_usage_iterator_init stick_descriptor HID_INPUT) = Some stick_items"
  "list_all (full_range 2) stick_items"
  by code_simp+

theorem full_range_reports_safe_witness:
  "\<forall>y :: u8. \<exists>c'. uni_hid_parse_input_report
     (usage_rp uni_hid_parser_android_init_report uni_hid_parser_android_parse_usage)
     stick_descriptor [7, y] clean_gamepad = Some c' \<and> axes_ok (- 512) 511 c'"
proof
  fix y :: u8
  show "\<exists>c'. uni_hid_parse_input_report
     (usage_rp uni_hid_parser_android_init_report uni_hid_parser_android_parse_usage)
     stick_descriptor [7, y] clean_gamepad = Some c' \<and> axes_ok (- 512) 511 c'"
    using full_range_reports_safe [OF stick_items_full, of "[y]" clean_gamepad xboxone_start] by simp
qed

end
