(* ===== verification/Icade.thy ===== *)
theory Icade
  imports UsageParsers
begin

text \<open>
  The iCade parser, \<^verbatim>\<open>parser/uni_hid_parser_icade.c\<close>. An iCade is a keyboard that types one letter
  when a switch closes and another when it opens, so that, unlike the other parsers, it keeps the
  gamepad from report to report. The abstract view is the set of closed switches; the refinement
  theorem shows that the gamepad bits track it over every sequence of keys, for both models.
\<close>

subsection \<open>Model\<close>

datatype icade_model = ICADE_CABINET | ICADE_8BITTY

record icade_device =
  ic_vendor_id :: u16
  ic_product_id :: u16
  ic_model :: icade_model
  ic_controller :: uni_controller

definition uni_hid_parser_icade_setup :: "icade_device \<Rightarrow> icade_device" where
  "uni_hid_parser_icade_setup d =
     (if ic_vendor_id d = 0x15e4 \<and> ic_product_id d \<noteq> 0 then d\<lparr>ic_model := ICADE_CABINET\<rparr>
      else if ic_vendor_id d = 0x0a5c \<and> ic_product_id d = 0x8502 then d\<lparr>ic_model := ICADE_8BITTY\<rparr>
      else d)"

definition release :: "u16 \<Rightarrow> usage_action" where
  "release b = on_gamepad (\<lambda>gp. gp\<lparr>buttons := buttons gp AND NOT b\<rparr>)"

definition release_misc :: "u8 \<Rightarrow> usage_action" where
  "release_misc b = on_gamepad (\<lambda>gp. gp\<lparr>misc_buttons := misc_buttons gp AND NOT b\<rparr>)"

definition release_dpad :: "u8 \<Rightarrow> usage_action" where
  "release_dpad b = on_gamepad (\<lambda>gp. gp\<lparr>dpad := dpad gp AND NOT b\<rparr>)"

text \<open>A letter is \<^verbatim>\<open>HID_USAGE_KB_A\<close> (0x04) plus its position in the alphabet.\<close>

definition icade_dpad_keys :: "(u16 \<times> usage_action) list" where
  "icade_dpad_keys =
     [(0x1a, press_dpad DPAD_UP 1), (0x08, release_dpad DPAD_UP),
      (0x07, press_dpad DPAD_RIGHT 1), (0x06, release_dpad DPAD_RIGHT),
      (0x1b, press_dpad DPAD_DOWN 1), (0x1d, release_dpad DPAD_DOWN),
      (0x04, press_dpad DPAD_LEFT 1), (0x14, release_dpad DPAD_LEFT)]"

definition icade_keys_1 :: "icade_model \<Rightarrow> (u16 \<times> usage_action) list" where
  "icade_keys_1 m =
     [(0x1c, if m = ICADE_CABINET then press BUTTON_A 1 else press_misc MISC_BUTTON_SYSTEM 1),
      (0x17, if m = ICADE_CABINET then release BUTTON_A else release_misc MISC_BUTTON_SYSTEM),
      (0x0b, if m = ICADE_CABINET then press BUTTON_B 1 else press BUTTON_SHOULDER_L 1),
      (0x15, if m = ICADE_CABINET then release BUTTON_B else release BUTTON_SHOULDER_L),
      (0x18, if m = ICADE_CABINET then press BUTTON_X 1 else press_misc MISC_BUTTON_START 1),
      (0x09, if m = ICADE_CABINET then release BUTTON_X else release_misc MISC_BUTTON_START),
      (0x0d, if m = ICADE_CABINET then press BUTTON_Y 1 else press BUTTON_SHOULDER_R 1),
      (0x11, if m = ICADE_CABINET then release BUTTON_Y else release BUTTON_SHOULDER_R)]"

definition icade_keys_2 :: "icade_model \<Rightarrow> (u16 \<times> usage_action) list" where
  "icade_keys_2 m =
     [(0x12, if m = ICADE_CABINET then press_misc MISC_BUTTON_SYSTEM 1 else press BUTTON_Y 1),
      (0x0a, if m = ICADE_CABINET then release_misc MISC_BUTTON_SYSTEM else release BUTTON_Y),
      (0x0c, if m = ICADE_CABINET then press_misc MISC_BUTTON_START 1 else press BUTTON_X 1),
      (0x10, if m = ICADE_CABINET then release_misc MISC_BUTTON_START else release BUTTON_X),
      (0x0e, if m = ICADE_CABINET then press BUTTON_SHOULDER_L 1 else press BUTTON_A 1),
      (0x13, if m = ICADE_CABINET then release BUTTON_SHOULDER_L else release BUTTON_A),
      (0x0f, if m = ICADE_CABINET then press BUTTON_SHOULDER_R 1 else press BUTTON_B 1),
      (0x19, if m = ICADE_CABINET then release BUTTON_SHOULDER_R else release BUTTON_B)]"

text \<open>
  The class is set without clearing the union: the gamepad bytes are those of the last report.
  Every other member of the union is a trap, as in \<open>on_gamepad\<close>.
\<close>

definition as_gamepad :: usage_action where
  "as_gamepad c = (case ctl_data c of
      Class_none gp \<Rightarrow> Some (c\<lparr>ctl_data := Class_gamepad gp, battery := 0\<rparr>)
    | Class_gamepad gp \<Rightarrow> Some (c\<lparr>battery := 0\<rparr>)
    | _ \<Rightarrow> None)"

definition icade_action :: "icade_model \<Rightarrow> u16 \<Rightarrow> u16 \<Rightarrow> usage_action" where
  "icade_action m page usage = and_then as_gamepad
     (if page \<noteq> HID_USAGE_PAGE_KEYBOARD_KEYPAD then Some
      else switch usage (icade_dpad_keys @ icade_keys_1 m @ icade_keys_2 m) Some)"

definition uni_hid_parser_icade_parse_usage ::
    "hid_globals \<Rightarrow> u16 \<Rightarrow> u16 \<Rightarrow> int \<Rightarrow> icade_device \<Rightarrow> icade_device option" where
  "uni_hid_parser_icade_parse_usage g page usage v d =
     (case icade_action (ic_model d) page usage (ic_controller d) of
        None \<Rightarrow> None
      | Some c \<Rightarrow> Some (d\<lparr>ic_controller := c\<rparr>))"

subsection \<open>Specification: the set of closed switches\<close>

datatype icade_switch = Up | Right | Down | Left | SwA | SwB | SwC | SwX | SwY | SwZ | SwL | SwR

text \<open>The key table of the comment at the top of the file: switch, key when it closes, key when it opens.\<close>

definition icade_table :: "(icade_switch \<times> char \<times> char) list" where
  "icade_table =
     [(Up, CHR ''w'', CHR ''e''), (Right, CHR ''d'', CHR ''c''), (Down, CHR ''x'', CHR ''z''),
      (Left, CHR ''a'', CHR ''q''), (SwA, CHR ''y'', CHR ''t''), (SwB, CHR ''h'', CHR ''r''),
      (SwC, CHR ''u'', CHR ''f''), (SwX, CHR ''j'', CHR ''n''), (SwY, CHR ''i'', CHR ''m''),
      (SwZ, CHR ''k'', CHR ''p''), (SwL, CHR ''o'', CHR ''g''), (SwR, CHR ''l'', CHR ''v'')]"

definition key_code :: "char \<Rightarrow> u16" where
  "key_code ch = of_nat (of_char ch - of_char CHR ''a'') + 0x04"

definition icade_event :: "u16 \<Rightarrow> (icade_switch \<times> bool) option" where
  "icade_event usage =
     (case find (\<lambda>(sw, on, off). key_code on = usage \<or> key_code off = usage) icade_table of
        None \<Rightarrow> None
      | Some (sw, on, off) \<Rightarrow> Some (sw, key_code on = usage))"

definition icade_spec :: "u16 \<times> u16 \<Rightarrow> icade_switch set \<Rightarrow> icade_switch set" where
  "icade_spec k S = (case k of (page, usage) \<Rightarrow>
     if page \<noteq> HID_USAGE_PAGE_KEYBOARD_KEYPAD then S
     else (case icade_event usage of
        None \<Rightarrow> S | Some (sw, True) \<Rightarrow> insert sw S | Some (sw, False) \<Rightarrow> S - {sw}))"

text \<open>Where a switch is found in the gamepad: a bit of the d-pad, the buttons or the misc buttons.\<close>

datatype pad_bit = Dpad nat | Btn nat | Misc nat

fun pad_bit_set :: "pad_bit \<Rightarrow> uni_gamepad \<Rightarrow> bool" where
  "pad_bit_set (Dpad n) gp = bit (dpad gp) n"
| "pad_bit_set (Btn n) gp = bit (buttons gp) n"
| "pad_bit_set (Misc n) gp = bit (misc_buttons gp) n"

fun icade_bit :: "icade_model \<Rightarrow> icade_switch \<Rightarrow> pad_bit" where
  "icade_bit m Up = Dpad 0"
| "icade_bit m Down = Dpad 1"
| "icade_bit m Right = Dpad 2"
| "icade_bit m Left = Dpad 3"
| "icade_bit ICADE_CABINET SwA = Btn 0"
| "icade_bit ICADE_CABINET SwB = Btn 1"
| "icade_bit ICADE_CABINET SwC = Btn 2"
| "icade_bit ICADE_CABINET SwX = Btn 3"
| "icade_bit ICADE_CABINET SwY = Misc 2"
| "icade_bit ICADE_CABINET SwZ = Btn 4"
| "icade_bit ICADE_CABINET SwL = Misc 0"
| "icade_bit ICADE_CABINET SwR = Btn 5"
| "icade_bit ICADE_8BITTY SwA = Misc 0"
| "icade_bit ICADE_8BITTY SwB = Btn 4"
| "icade_bit ICADE_8BITTY SwC = Misc 2"
| "icade_bit ICADE_8BITTY SwX = Btn 5"
| "icade_bit ICADE_8BITTY SwY = Btn 2"
| "icade_bit ICADE_8BITTY SwZ = Btn 0"
| "icade_bit ICADE_8BITTY SwL = Btn 3"
| "icade_bit ICADE_8BITTY SwR = Btn 1"

definition closed :: "icade_device \<Rightarrow> icade_switch set" where
  "closed d = (case ctl_data (ic_controller d) of
      Class_none gp \<Rightarrow> {sw. pad_bit_set (icade_bit (ic_model d) sw) gp}
    | Class_gamepad gp \<Rightarrow> {sw. pad_bit_set (icade_bit (ic_model d) sw) gp}
    | _ \<Rightarrow> {})"

subsection \<open>Refinement\<close>

fun set_bit_of :: "pad_bit \<Rightarrow> bool \<Rightarrow> usage_action" where
  "set_bit_of (Dpad n) b = (if b then press_dpad (2 ^ n) 1 else release_dpad (2 ^ n))"
| "set_bit_of (Btn n) b = (if b then press (2 ^ n) 1 else release (2 ^ n))"
| "set_bit_of (Misc n) b = (if b then press_misc (2 ^ n) 1 else release_misc (2 ^ n))"

lemma icade_bit_inj: "icade_bit m sw = icade_bit m sw' \<longleftrightarrow> sw = sw'"
  by (cases m; cases sw; cases sw') simp_all

fun in_word :: "pad_bit \<Rightarrow> bool" where
  "in_word (Dpad n) = (n < 8)"
| "in_word (Btn n) = (n < 16)"
| "in_word (Misc n) = (n < 8)"

lemma icade_bit_in_word: "in_word (icade_bit m sw)"
  by (cases m; cases sw) simp_all

fun write_bit :: "pad_bit \<Rightarrow> bool \<Rightarrow> uni_gamepad \<Rightarrow> uni_gamepad" where
  "write_bit (Dpad n) b gp = gp\<lparr>dpad := (if b then dpad gp OR 2 ^ n else dpad gp AND NOT (2 ^ n))\<rparr>"
| "write_bit (Btn n) b gp = gp\<lparr>buttons := (if b then buttons gp OR 2 ^ n else buttons gp AND NOT (2 ^ n))\<rparr>"
| "write_bit (Misc n) b gp =
     gp\<lparr>misc_buttons := (if b then misc_buttons gp OR 2 ^ n else misc_buttons gp AND NOT (2 ^ n))\<rparr>"

lemma pad_bit_write:
  "in_word p \<Longrightarrow> pad_bit_set q (write_bit p b gp) \<longleftrightarrow> (if q = p then b else pad_bit_set q gp)"
  by (cases p; cases q) (auto simp: bit_or_iff bit_and_iff bit_not_iff bit_pow2 dest: bit_imp_le_length)

lemma set_bit_of_write: "set_bit_of p b = on_gamepad (write_bit p b)"
  by (cases p) (simp_all add: fun_eq_iff press_dpad_def press_def press_misc_def release_dpad_def release_def
      release_misc_def on_gamepad_def split: uni_controller_data.split)

lemma icade_keys_event:
  "switch usage (icade_dpad_keys @ icade_keys_1 m @ icade_keys_2 m) Some =
     (case icade_event usage of None \<Rightarrow> Some | Some (sw, b) \<Rightarrow> set_bit_of (icade_bit m sw) b)"
  by (cases m)
     (simp_all add: icade_event_def icade_table_def key_code_def switch_def icade_dpad_keys_def icade_keys_1_def
       icade_keys_2_def)

definition gamepad_stored :: "uni_controller \<Rightarrow> bool" where
  "gamepad_stored c \<longleftrightarrow> (case ctl_data c of Class_none gp \<Rightarrow> True | Class_gamepad gp \<Rightarrow> True | _ \<Rightarrow> False)"

lemma icade_step:
  assumes "gamepad_stored (ic_controller d)"
  shows "\<exists>d'. uni_hid_parser_icade_parse_usage g page usage v d = Some d' \<and> ic_model d' = ic_model d \<and>
     gamepad_stored (ic_controller d') \<and> closed d' = icade_spec (page, usage) (closed d)"
proof -
  obtain gp where c: "as_gamepad (ic_controller d) = Some \<lparr>ctl_data = Class_gamepad gp, battery = 0\<rparr>"
      "closed d = {sw. pad_bit_set (icade_bit (ic_model d) sw) gp}"
    using assms by (cases "ic_controller d")
      (auto simp: gamepad_stored_def as_gamepad_def closed_def split: uni_controller_data.splits)
  show ?thesis
    using c
    by (auto simp: uni_hid_parser_icade_parse_usage_def icade_action_def and_then_def icade_keys_event
        icade_spec_def set_bit_of_write on_gamepad_def gamepad_stored_def closed_def pad_bit_write
        icade_bit_in_word icade_bit_inj split: option.splits bool.splits)
qed

text \<open>
  C25. The iCade parser tracks the switches. From every state with a gamepad in the controller, over
  every sequence of fields a device reports, the parser succeeds, and the bits it keeps in the
  gamepad are exactly the set of switches that the key table in the comment of the source
  says are closed: a switch is pressed if and only if its last key was the closing one. Both
  models keep each of the twelve switches in a bit of its own.
\<close>

theorem icade_tracks_switches:
  assumes "gamepad_stored (ic_controller d)"
  shows "\<exists>d'. parse_fields uni_hid_parser_icade_parse_usage fs d = Some d' \<and>
     closed d' = fold icade_spec (map (\<lambda>(g, page, usage, v). (page, usage)) fs) (closed d)"
  using assms
proof (induction fs arbitrary: d)
  case (Cons f fs)
  obtain g page usage v where f: "f = (g, page, usage, v)" by (cases f)
  obtain d1 where d1: "uni_hid_parser_icade_parse_usage g page usage v d = Some d1"
      "gamepad_stored (ic_controller d1)" "closed d1 = icade_spec (page, usage) (closed d)"
    using icade_step [OF Cons.prems] by blast
  with Cons.IH [OF d1(2)] f show ?case by simp
qed simp

definition icade_start :: icade_device where
  "icade_start = uni_hid_parser_icade_setup
     \<lparr>ic_vendor_id = 0x0a5c, ic_product_id = 0x8502, ic_model = ICADE_CABINET,
      ic_controller = \<lparr>ctl_data = Class_none gamepad0, battery = 0\<rparr>\<rparr>"

definition key_field :: "char \<Rightarrow> hid_globals \<times> u16 \<times> u16 \<times> int" where
  "key_field ch = (buttons_globals, 7, key_code ch, 1)"

theorem icade_tracks_switches_witness:
  "\<exists>d'. parse_fields uni_hid_parser_icade_parse_usage
       (map key_field [CHR ''w'', CHR ''k'', CHR ''e'', CHR ''j'']) icade_start = Some d' \<and>
     closed d' = {SwZ, SwX}"
proof -
  have c: "closed icade_start = {}" and s: "gamepad_stored (ic_controller icade_start)"
    by (auto simp: closed_def icade_start_def uni_hid_parser_icade_setup_def gamepad0_def gamepad_stored_def
        elim: pad_bit_set.elims)
  have "fold icade_spec [(7, key_code CHR ''w''), (7, key_code CHR ''k''), (7, key_code CHR ''e''),
      (7, key_code CHR ''j'')] {} = {SwZ, SwX}"
    by (auto simp: icade_spec_def icade_event_def icade_table_def key_code_def)
  then show ?thesis
    using icade_tracks_switches [OF s, of "map key_field [CHR ''w'', CHR ''k'', CHR ''e'', CHR ''j'']"] c
    by (simp add: key_field_def)
qed

text \<open>
  The product id of the cabinet is only tested for being non-zero: every device of vendor 0x15e4
  with any product id is taken for a cabinet.
\<close>

lemma icade_setup_any_product:
  "ic_vendor_id d = 0x15e4 \<Longrightarrow> ic_product_id d \<noteq> 0 \<Longrightarrow> ic_model (uni_hid_parser_icade_setup d) = ICADE_CABINET"
  by (simp add: uni_hid_parser_icade_setup_def)

end
