(* ===== verification/CircularBuffer.thy ===== *)
theory CircularBuffer
  imports Prelude "HOL-Library.Multiset"
begin

text \<open>
  The circular buffer of outgoing reports, \<^verbatim>\<open>uni_circular_buffer.c\<close>, as the code has it (an array of 32
  slots and two indices), the contract of a bounded first-in first-out queue as the locale
  \<open>bounded_fifo\<close>, and the interpretation of the contract on the buffer. The client of the buffer is
  the sending of queued reports in \<^verbatim>\<open>uni_hid_device.c\<close>, modelled here as well: it loses and
  duplicates nothing, but a report the radio refuses moves behind the others.
\<close>

subsection \<open>The buffer\<close>

definition UNI_CIRCULAR_BUFFER_SIZE :: nat where "UNI_CIRCULAR_BUFFER_SIZE = 32"
definition UNI_CIRCULAR_BUFFER_DATA_SIZE :: nat where "UNI_CIRCULAR_BUFFER_DATA_SIZE = 128"

record uni_circular_buffer_data =
  slot_cid :: u16
  slot_data :: "u8 list"
  slot_len :: nat

record uni_circular_buffer =
  cb_buffer :: "uni_circular_buffer_data list"
  head_idx :: nat
  tail_idx :: nat

datatype cb_error = BUFFER_OK | BUFFER_FULL | BUFFER_EMPTY | BUFFER_TOO_BIG

definition uni_circular_buffer_is_empty :: "uni_circular_buffer \<Rightarrow> bool" where
  "uni_circular_buffer_is_empty b \<longleftrightarrow> head_idx b = tail_idx b"

definition uni_circular_buffer_is_full :: "uni_circular_buffer \<Rightarrow> bool" where
  "uni_circular_buffer_is_full b \<longleftrightarrow>
     tail_idx b + 1 = head_idx b \<or> head_idx b = 0 \<and> tail_idx b = UNI_CIRCULAR_BUFFER_SIZE - 1"

definition uni_circular_buffer_reset :: "uni_circular_buffer \<Rightarrow> uni_circular_buffer" where
  "uni_circular_buffer_reset b = b\<lparr>head_idx := 0, tail_idx := 0\<rparr>"

text \<open>An index after its increment.\<close>

definition next_idx :: "nat \<Rightarrow> nat" where
  "next_idx i = (if i + 1 = UNI_CIRCULAR_BUFFER_SIZE then 0 else i + 1)"

definition slot_write :: "u16 \<Rightarrow> u8 list \<Rightarrow> uni_circular_buffer_data \<Rightarrow> uni_circular_buffer_data" where
  "slot_write cid bs s = \<lparr>slot_cid = cid, slot_data = bs @ drop (length bs) (slot_data s), slot_len = length bs\<rparr>"

definition uni_circular_buffer_put ::
    "u16 \<Rightarrow> u8 list \<Rightarrow> uni_circular_buffer \<Rightarrow> cb_error \<times> uni_circular_buffer" where
  "uni_circular_buffer_put cid bs b =
     (if uni_circular_buffer_is_full b then (BUFFER_FULL, b)
      else if length bs \<ge> UNI_CIRCULAR_BUFFER_DATA_SIZE then (BUFFER_TOO_BIG, b)
      else (BUFFER_OK, b\<lparr>cb_buffer := (cb_buffer b)[tail_idx b := slot_write cid bs (cb_buffer b ! tail_idx b)],
                         tail_idx := next_idx (tail_idx b)\<rparr>))"

definition slot_read :: "uni_circular_buffer_data \<Rightarrow> u16 \<times> u8 list" where
  "slot_read s = (slot_cid s, take (slot_len s) (slot_data s))"

definition uni_circular_buffer_get ::
    "uni_circular_buffer \<Rightarrow> (cb_error + (u16 \<times> u8 list)) \<times> uni_circular_buffer" where
  "uni_circular_buffer_get b =
     (if uni_circular_buffer_is_empty b then (Inl BUFFER_EMPTY, b)
      else (Inr (slot_read (cb_buffer b ! head_idx b)), b\<lparr>head_idx := next_idx (head_idx b)\<rparr>))"

text \<open>The zeroed buffer of a new device.\<close>

definition cb_zero :: uni_circular_buffer where
  "cb_zero = \<lparr>cb_buffer = replicate UNI_CIRCULAR_BUFFER_SIZE \<lparr>slot_cid = 0,
     slot_data = replicate UNI_CIRCULAR_BUFFER_DATA_SIZE 0, slot_len = 0\<rparr>, head_idx = 0, tail_idx = 0\<rparr>"

subsection \<open>The contract of a bounded queue\<close>

locale bounded_fifo =
  fixes inv :: "'q \<Rightarrow> bool"
    and elems :: "'q \<Rightarrow> 'a list"
    and cap :: nat
    and accepts :: "'a \<Rightarrow> bool"
    and put :: "'a \<Rightarrow> 'q \<Rightarrow> 'q option"
    and get :: "'q \<Rightarrow> ('a \<times> 'q) option"
  assumes put_some: "inv q \<Longrightarrow> accepts x \<Longrightarrow> length (elems q) < cap \<Longrightarrow>
        \<exists>q'. put x q = Some q' \<and> inv q' \<and> elems q' = elems q @ [x]"
    and put_none: "inv q \<Longrightarrow> \<not> (accepts x \<and> length (elems q) < cap) \<Longrightarrow> put x q = None"
    and get_none: "inv q \<Longrightarrow> elems q = [] \<Longrightarrow> get q = None"
    and get_some: "inv q \<Longrightarrow> elems q = x # xs \<Longrightarrow> \<exists>q'. get q = Some (x, q') \<and> inv q' \<and> elems q' = xs"
begin

text \<open>
  A sequence of operations, \<open>Some x\<close> to put and \<open>None\<close> to get, and what it delivers: on the queue, and
  on a list bounded by \<open>cap\<close>.
\<close>

primrec run :: "'a option list \<Rightarrow> 'q \<Rightarrow> 'a list" where
  "run [] q = []"
| "run (c # cs) q = (case c of
      Some x \<Rightarrow> (case put x q of None \<Rightarrow> run cs q | Some q' \<Rightarrow> run cs q')
    | None \<Rightarrow> (case get q of None \<Rightarrow> run cs q | Some (x, q') \<Rightarrow> x # run cs q'))"

primrec run_list :: "'a option list \<Rightarrow> 'a list \<Rightarrow> 'a list" where
  "run_list [] xs = []"
| "run_list (c # cs) xs = (case c of
      Some x \<Rightarrow> run_list cs (if accepts x \<and> length xs < cap then xs @ [x] else xs)
    | None \<Rightarrow> (case xs of [] \<Rightarrow> run_list cs [] | x # xs' \<Rightarrow> x # run_list cs xs'))"

lemma run_refines: "inv q \<Longrightarrow> run cs q = run_list cs (elems q)"
proof (induction cs arbitrary: q)
  case (Cons c cs)
  show ?case
  proof (cases c)
    case None
    then show ?thesis
      using Cons get_none [of q] get_some [of q] by (cases "elems q") fastforce+
  next
    case (Some x)
    show ?thesis
    proof (cases "accepts x \<and> length (elems q) < cap")
      case True
      then obtain q' where "put x q = Some q'" "inv q'" "elems q' = elems q @ [x]"
        using put_some Cons.prems by blast
      with Some True Cons.IH show ?thesis by simp
    next
      case False
      then show ?thesis using Some Cons put_none [of q x] by auto
    qed
  qed
qed simp

lemma get_put_some:
  assumes "inv q" "elems q = x # xs" "accepts x" "length (elems q) \<le> cap"
  shows "\<exists>q1 q2. get q = Some (x, q1) \<and> put x q1 = Some q2 \<and> inv q2 \<and> elems q2 = xs @ [x]"
proof -
  obtain q1 where q1: "get q = Some (x, q1)" "inv q1" "elems q1 = xs"
    using get_some assms(1,2) by blast
  then show ?thesis using put_some [OF q1(2) assms(3)] assms(2,4) by auto
qed

end

subsection \<open>The buffer satisfies the contract\<close>

definition cb_count :: "uni_circular_buffer \<Rightarrow> nat" where
  "cb_count b = (if head_idx b \<le> tail_idx b then tail_idx b - head_idx b
     else UNI_CIRCULAR_BUFFER_SIZE + tail_idx b - head_idx b)"

definition cb_elems :: "uni_circular_buffer \<Rightarrow> (u16 \<times> u8 list) list" where
  "cb_elems b = map (\<lambda>k. slot_read (cb_buffer b ! ((head_idx b + k) mod UNI_CIRCULAR_BUFFER_SIZE))) [0..<cb_count b]"

definition cb_inv :: "uni_circular_buffer \<Rightarrow> bool" where
  "cb_inv b \<longleftrightarrow> length (cb_buffer b) = UNI_CIRCULAR_BUFFER_SIZE \<and> head_idx b < UNI_CIRCULAR_BUFFER_SIZE \<and>
     tail_idx b < UNI_CIRCULAR_BUFFER_SIZE \<and>
     list_all (\<lambda>s. length (slot_data s) = UNI_CIRCULAR_BUFFER_DATA_SIZE) (cb_buffer b) \<and>
     list_all (\<lambda>(cid, bs). length bs < UNI_CIRCULAR_BUFFER_DATA_SIZE) (cb_elems b)"

definition cb_put :: "u16 \<times> u8 list \<Rightarrow> uni_circular_buffer \<Rightarrow> uni_circular_buffer option" where
  "cb_put x b = (case uni_circular_buffer_put (fst x) (snd x) b of (BUFFER_OK, b') \<Rightarrow> Some b' | _ \<Rightarrow> None)"

definition cb_get :: "uni_circular_buffer \<Rightarrow> ((u16 \<times> u8 list) \<times> uni_circular_buffer) option" where
  "cb_get b = (case uni_circular_buffer_get b of (Inr x, b') \<Rightarrow> Some (x, b') | _ \<Rightarrow> None)"

definition cb_accepts :: "u16 \<times> u8 list \<Rightarrow> bool" where
  "cb_accepts x \<longleftrightarrow> length (snd x) < UNI_CIRCULAR_BUFFER_DATA_SIZE"

lemmas cb_sizes = UNI_CIRCULAR_BUFFER_SIZE_def UNI_CIRCULAR_BUFFER_DATA_SIZE_def

lemma length_cb_elems [simp]: "length (cb_elems b) = cb_count b"
  by (simp add: cb_elems_def)

lemma cb_full_count:
  "head_idx b < 32 \<Longrightarrow> tail_idx b < 32 \<Longrightarrow> uni_circular_buffer_is_full b \<longleftrightarrow> \<not> cb_count b < 31"
  by (auto simp: uni_circular_buffer_is_full_def cb_count_def cb_sizes)

lemma wrap32: "i < 64 \<Longrightarrow> i mod 32 = (if i < 32 then i else i - 32)" for i :: nat
  by (simp add: mod_if)

lemma cb_tail: "head_idx b < 32 \<Longrightarrow> tail_idx b < 32 \<Longrightarrow> tail_idx b = (head_idx b + cb_count b) mod 32"
  by (simp add: cb_count_def cb_sizes wrap32)

lemma cb_index_ne:
  assumes "head_idx b < 32" "tail_idx b < 32" "k < cb_count b"
  shows "(head_idx b + k) mod 32 \<noteq> tail_idx b"
proof -
  have "k < 32" using assms by (simp add: cb_count_def cb_sizes split: if_splits)
  then have "(head_idx b + k) mod 32 = (if head_idx b + k < 32 then head_idx b + k else head_idx b + k - 32)"
    using assms(1) by (intro wrap32) simp
  then show ?thesis using assms by (simp add: cb_count_def cb_sizes split: if_splits)
qed

lemma slot_read_write: "length bs \<le> length (slot_data s) \<Longrightarrow> slot_read (slot_write cid bs s) = (cid, bs)"
  by (simp add: slot_read_def slot_write_def)

lemma cb_put_some:
  assumes "cb_inv b" "cb_accepts x" "length (cb_elems b) < 31"
  shows "\<exists>b'. cb_put x b = Some b' \<and> cb_inv b' \<and> cb_elems b' = cb_elems b @ [x]"
proof -
  obtain cid bs where x: "x = (cid, bs)" by (cases x)
  have i: "length (cb_buffer b) = 32" "head_idx b < 32" "tail_idx b < 32"
    and l: "length (slot_data (cb_buffer b ! tail_idx b)) = 128"
    using assms(1) by (auto simp: cb_inv_def cb_sizes list_all_length)
  let ?s = "slot_write cid bs (cb_buffer b ! tail_idx b)"
  let ?b = "b\<lparr>cb_buffer := (cb_buffer b)[tail_idx b := ?s], tail_idx := next_idx (tail_idx b)\<rparr>"
  have n: "cb_count b < 31" using assms(3) by simp
  have c: "cb_count ?b = Suc (cb_count b)" and t: "next_idx (tail_idx b) < 32"
    using i n by (auto simp: cb_count_def next_idx_def cb_sizes split: if_splits)
  have "slot_read (cb_buffer ?b ! ((head_idx b + k) mod 32)) = slot_read (cb_buffer b ! ((head_idx b + k) mod 32))"
    if "k < cb_count b" for k using cb_index_ne [OF i(2,3) that] by simp
  moreover have "slot_read (cb_buffer ?b ! ((head_idx b + cb_count b) mod 32)) = (cid, bs)"
    using i l assms(2) x cb_tail [OF i(2,3)] by (simp add: slot_read_write cb_accepts_def cb_sizes)
  ultimately have e: "cb_elems ?b = cb_elems b @ [x]"
    by (simp add: cb_elems_def c x cb_sizes)
  have "length (slot_data ?s) = 128" using l assms(2) x by (simp add: slot_write_def cb_accepts_def cb_sizes)
  then have "cb_inv ?b"
    using assms(1,2) i t x unfolding cb_inv_def e
    by (auto simp: cb_sizes list_all_iff cb_accepts_def dest!: set_update_subset_insert [THEN subsetD])
  moreover have "cb_put x b = Some ?b"
    using n assms(2) x i by (simp add: cb_put_def uni_circular_buffer_put_def cb_full_count cb_accepts_def)
  ultimately show ?thesis using e by blast
qed

lemma cb_put_none:
  "cb_inv b \<Longrightarrow> \<not> (cb_accepts x \<and> length (cb_elems b) < 31) \<Longrightarrow> cb_put x b = None"
  by (auto simp: cb_put_def uni_circular_buffer_put_def cb_full_count cb_accepts_def cb_inv_def cb_sizes)

lemma cb_empty_count:
  "head_idx b < 32 \<Longrightarrow> tail_idx b < 32 \<Longrightarrow> uni_circular_buffer_is_empty b \<longleftrightarrow> cb_count b = 0"
  by (auto simp: uni_circular_buffer_is_empty_def cb_count_def cb_sizes)

lemma cb_get_none: "cb_inv b \<Longrightarrow> cb_elems b = [] \<Longrightarrow> cb_get b = None"
  by (simp add: cb_get_def uni_circular_buffer_get_def cb_inv_def cb_empty_count cb_sizes
      flip: length_0_conv)

lemma cb_get_some:
  assumes "cb_inv b" "cb_elems b = x # xs"
  shows "\<exists>b'. cb_get b = Some (x, b') \<and> cb_inv b' \<and> cb_elems b' = xs"
proof -
  have i: "head_idx b < 32" "tail_idx b < 32" using assms(1) by (simp_all add: cb_inv_def cb_sizes)
  obtain n where n: "cb_count b = Suc n" using assms(2) by (metis length_Cons length_cb_elems)
  let ?b = "b\<lparr>head_idx := next_idx (head_idx b)\<rparr>"
  have h: "next_idx (head_idx b) = (head_idx b + 1) mod 32"
    using i by (simp add: next_idx_def cb_sizes wrap32)
  have c: "cb_count ?b = n" using i n by (auto simp: cb_count_def next_idx_def cb_sizes split: if_splits)
  have ix: "(head_idx ?b + k) mod 32 = (head_idx b + Suc k) mod 32" for k
    by (simp add: h mod_simps)
  have e: "cb_elems b = slot_read (cb_buffer b ! head_idx b) # cb_elems ?b"
    unfolding cb_elems_def c n upt_conv_Cons [OF zero_less_Suc] list.map
    using i ix by (simp add: cb_sizes comp_def map_Suc_upt [symmetric] del: upt_Suc)
  then have x: "slot_read (cb_buffer b ! head_idx b) = x" "cb_elems ?b = xs" using assms(2) by simp_all
  have "cb_get b = Some (x, ?b)"
    using x(1) n i by (simp add: cb_get_def uni_circular_buffer_get_def cb_empty_count)
  moreover have "cb_inv ?b"
    using assms(1) h e unfolding cb_inv_def by (simp add: cb_sizes)
  ultimately show ?thesis using x(2) by blast
qed

interpretation cb: bounded_fifo cb_inv cb_elems 31 cb_accepts cb_put cb_get
  by unfold_locales (auto intro: cb_put_some cb_put_none cb_get_none cb_get_some)

lemma cb_zero_inv: "cb_inv cb_zero" "cb_elems cb_zero = []"
  by (simp_all add: cb_inv_def cb_zero_def cb_elems_def cb_count_def cb_sizes list_all_iff)

lemma cb_elems_bounds: "cb_inv b \<Longrightarrow> length (cb_elems b) \<le> 31 \<and> list_all cb_accepts (cb_elems b)"
  by (auto simp: cb_inv_def cb_count_def cb_sizes cb_accepts_def list_all_iff)

text \<open>
  C8. The circular buffer is a queue of at most 31 reports: over every sequence of puts and gets on a
  new buffer, what the gets deliver, and in which order, is what a plain list would deliver in
  which a put appends when fewer than 31 reports are queued and the report is shorter than 128
  bytes, and a get removes the first one. Nothing is delivered twice, lost or torn by the
  wrap-around of the indices.
\<close>

theorem circular_buffer_is_fifo: "cb.run ops cb_zero = cb.run_list ops []"
  using cb.run_refines [OF cb_zero_inv(1), of ops] by (simp add: cb_zero_inv(2))

subsection \<open>Sending reports\<close>

text \<open>
  The part of a device the functions below touch: the queue, the reports handed to L2CAP that it
  accepted, and the channels for which a "can send now" event was requested. What \<^verbatim>\<open>l2cap_send\<close> returns is
  an argument.
\<close>

record outgoing =
  outgoing_buffer :: uni_circular_buffer
  l2cap_sent :: "(u16 \<times> u8 list) list"
  can_send_requests :: "u16 list"

definition uni_hid_device_send_report :: "int \<Rightarrow> u16 \<Rightarrow> u8 list \<Rightarrow> outgoing \<Rightarrow> outgoing" where
  "uni_hid_device_send_report err cid report d =
     (if cid = 0 \<or> report = [] then d
      else
        let d1 = (if err = 0 then d\<lparr>l2cap_sent := l2cap_sent d @ [(cid, report)]\<rparr>
                  else d\<lparr>outgoing_buffer := snd (uni_circular_buffer_put cid report (outgoing_buffer d))\<rparr>)
        in d1\<lparr>can_send_requests := can_send_requests d1 @ [cid]\<rparr>)"

definition uni_hid_device_send_queued_reports :: "int \<Rightarrow> outgoing \<Rightarrow> outgoing" where
  "uni_hid_device_send_queued_reports err d =
     (if uni_circular_buffer_is_empty (outgoing_buffer d) then d
      else (case uni_circular_buffer_get (outgoing_buffer d) of
          (Inl e, b) \<Rightarrow> d\<lparr>outgoing_buffer := b\<rparr>
        | (Inr (cid, report), b) \<Rightarrow> uni_hid_device_send_report err cid report (d\<lparr>outgoing_buffer := b\<rparr>)))"

definition queued :: "outgoing \<Rightarrow> (u16 \<times> u8 list) list" where
  "queued d = cb_elems (outgoing_buffer d)"

definition out_inv :: "outgoing \<Rightarrow> bool" where
  "out_inv d \<longleftrightarrow> cb_inv (outgoing_buffer d) \<and> list_all (\<lambda>(cid, bs). cid \<noteq> 0 \<and> bs \<noteq> []) (queued d)"

lemma put_snd: "snd (uni_circular_buffer_put cid bs b) = (case cb_put (cid, bs) b of None \<Rightarrow> b | Some b' \<Rightarrow> b')"
  by (simp add: cb_put_def uni_circular_buffer_put_def)

lemma get_cases:
  "uni_circular_buffer_get b = (case cb_get b of None \<Rightarrow> (Inl BUFFER_EMPTY, b) | Some (x, b') \<Rightarrow> (Inr x, b'))"
  by (simp add: cb_get_def uni_circular_buffer_get_def)

lemma send_report_out:
  assumes "out_inv d" "cid \<noteq> 0" "report \<noteq> []"
  shows "out_inv (uni_hid_device_send_report err cid report d)"
    "queued (uni_hid_device_send_report err cid report d) =
       (if err = 0 then queued d
        else if length report < 128 \<and> length (queued d) < 31 then queued d @ [(cid, report)] else queued d)"
    "l2cap_sent (uni_hid_device_send_report err cid report d) =
       (if err = 0 then l2cap_sent d @ [(cid, report)] else l2cap_sent d)"
proof -
  let ?x = "(cid, report)"
  have p: "case cb_put ?x (outgoing_buffer d) of
      None \<Rightarrow> \<not> (length report < 128 \<and> length (queued d) < 31)
    | Some b \<Rightarrow> length report < 128 \<and> length (queued d) < 31 \<and> cb_inv b \<and> cb_elems b = queued d @ [?x]"
    using cb.put_some [of "outgoing_buffer d" ?x] cb.put_none [of "outgoing_buffer d" ?x] assms(1)
    by (cases "length report < 128 \<and> length (queued d) < 31")
       (auto simp: out_inv_def queued_def cb_accepts_def cb_sizes)
  then show "queued (uni_hid_device_send_report err cid report d) =
       (if err = 0 then queued d
        else if length report < 128 \<and> length (queued d) < 31 then queued d @ [(cid, report)] else queued d)"
    using assms by (auto simp: uni_hid_device_send_report_def put_snd queued_def split: option.splits)
  from p show "out_inv (uni_hid_device_send_report err cid report d)"
    using assms
    by (auto simp: uni_hid_device_send_report_def put_snd out_inv_def queued_def Let_def split: option.splits)
  show "l2cap_sent (uni_hid_device_send_report err cid report d) =
       (if err = 0 then l2cap_sent d @ [(cid, report)] else l2cap_sent d)"
    using assms by (simp add: uni_hid_device_send_report_def Let_def)
qed

lemma send_queued_cases:
  assumes "out_inv d"
  shows "queued d = [] \<Longrightarrow> uni_hid_device_send_queued_reports err d = d"
    and "queued d = (cid, bs) # xs \<Longrightarrow> out_inv (uni_hid_device_send_queued_reports err d) \<and>
       queued (uni_hid_device_send_queued_reports err d) = (if err = 0 then xs else xs @ [(cid, bs)]) \<and>
       l2cap_sent (uni_hid_device_send_queued_reports err d) =
         (if err = 0 then l2cap_sent d @ [(cid, bs)] else l2cap_sent d)"
proof -
  have i: "cb_inv (outgoing_buffer d)" using assms by (simp add: out_inv_def)
  then have em: "uni_circular_buffer_is_empty (outgoing_buffer d) \<longleftrightarrow> queued d = []"
    by (simp add: queued_def cb_inv_def cb_sizes cb_empty_count flip: length_0_conv)
  show "queued d = [] \<Longrightarrow> uni_hid_device_send_queued_reports err d = d"
    using em by (simp add: uni_hid_device_send_queued_reports_def)
  assume q: "queued d = (cid, bs) # xs"
  obtain b where b: "cb_get (outgoing_buffer d) = Some ((cid, bs), b)" "cb_inv b" "cb_elems b = xs"
    using cb.get_some [OF i] q by (auto simp: queued_def)
  have o: "out_inv (d\<lparr>outgoing_buffer := b\<rparr>)" "queued (d\<lparr>outgoing_buffer := b\<rparr>) = xs" "cid \<noteq> 0" "bs \<noteq> []"
    using assms b q by (auto simp: out_inv_def queued_def)
  have l: "length bs < 128" "length xs < 31"
    using cb_elems_bounds [OF i] q by (auto simp: queued_def cb_accepts_def cb_sizes simp del: length_cb_elems)
  have s: "uni_hid_device_send_queued_reports err d =
      uni_hid_device_send_report err cid bs (d\<lparr>outgoing_buffer := b\<rparr>)"
    using em q b(1) by (simp add: uni_hid_device_send_queued_reports_def get_cases)
  show "out_inv (uni_hid_device_send_queued_reports err d) \<and>
       queued (uni_hid_device_send_queued_reports err d) = (if err = 0 then xs else xs @ [(cid, bs)]) \<and>
       l2cap_sent (uni_hid_device_send_queued_reports err d) =
         (if err = 0 then l2cap_sent d @ [(cid, bs)] else l2cap_sent d)"
    unfolding s using send_report_out [OF o(1,3,4), of err] o(2) l by simp
qed

text \<open>
  Sending from the queue loses nothing and duplicates nothing: over every sequence of "can send
  now" events, whatever L2CAP answers to each, the reports sent and the reports still queued are
  together exactly those that were sent or queued before; and when L2CAP accepts every one, a
  queue of n reports is delivered completely and in order by n events.
\<close>

theorem send_queued_lossless:
  assumes "out_inv d"
  shows "mset (l2cap_sent (fold uni_hid_device_send_queued_reports errs d)) +
           mset (queued (fold uni_hid_device_send_queued_reports errs d)) = mset (l2cap_sent d) + mset (queued d) \<and>
         l2cap_sent ((uni_hid_device_send_queued_reports 0 ^^ length (queued d)) d) = l2cap_sent d @ queued d"
proof
  show "mset (l2cap_sent (fold uni_hid_device_send_queued_reports errs d)) +
      mset (queued (fold uni_hid_device_send_queued_reports errs d)) = mset (l2cap_sent d) + mset (queued d)"
    using assms
  proof (induction errs arbitrary: d)
    case (Cons e errs)
    note c = send_queued_cases [OF Cons.prems]
    show ?case
    proof (cases "queued d")
      case Nil
      then show ?thesis using c(1) Cons.IH [OF Cons.prems] by simp
    next
      case (Cons p xs)
      obtain cid bs where p: "p = (cid, bs)" by (cases p)
      note s = c(2) [OF Cons [unfolded p], of e]
      show ?thesis using Cons.IH [of "uni_hid_device_send_queued_reports e d"] s Cons p by simp
    qed
  qed simp
next
  have "\<forall>d. out_inv d \<longrightarrow> length (queued d) = n \<longrightarrow>
      l2cap_sent ((uni_hid_device_send_queued_reports 0 ^^ n) d) = l2cap_sent d @ queued d" for n
  proof (induction n)
    case (Suc n)
    show ?case
    proof (intro allI impI)
      fix d assume d: "out_inv d" "length (queued d) = Suc n"
      then obtain cid bs xs where q: "queued d = (cid, bs) # xs" by (cases "queued d") auto
      note s = send_queued_cases(2) [OF d(1) q, of 0]
      then have "l2cap_sent ((uni_hid_device_send_queued_reports 0 ^^ n) (uni_hid_device_send_queued_reports 0 d)) =
          l2cap_sent d @ [(cid, bs)] @ xs" using Suc d q by simp
      then show "l2cap_sent ((uni_hid_device_send_queued_reports 0 ^^ Suc n) d) = l2cap_sent d @ queued d"
        using q by (simp add: funpow_swap1)
    qed
  qed simp
  then show "l2cap_sent ((uni_hid_device_send_queued_reports 0 ^^ length (queued d)) d) = l2cap_sent d @ queued d"
    using assms by blast
qed

definition out_start :: outgoing where
  "out_start = \<lparr>outgoing_buffer = cb_zero, l2cap_sent = [], can_send_requests = []\<rparr>"

text \<open>Two reports on channel 0x41 that L2CAP refused at first.\<close>

definition out_two :: outgoing where
  "out_two = uni_hid_device_send_report 1 0x41 [0xa2, 2] (uni_hid_device_send_report 1 0x41 [0xa2, 1] out_start)"

lemma out_two_queued: "out_inv out_two" "queued out_two = [(0x41, [0xa2, 1]), (0x41, [0xa2, 2])]" "l2cap_sent out_two = []"
proof -
  have s: "out_inv out_start" "queued out_start = []" "l2cap_sent out_start = []"
    by (simp_all add: out_inv_def out_start_def queued_def cb_zero_inv)
  note a = send_report_out [OF s(1), of "0x41" "[0xa2, 1]" 1, simplified]
  note b = send_report_out [OF a(1), of "0x41" "[0xa2, 2]" 1, simplified]
  show "out_inv out_two" "queued out_two = [(0x41, [0xa2, 1]), (0x41, [0xa2, 2])]" "l2cap_sent out_two = []"
    unfolding out_two_def using a b s by simp_all
qed

theorem send_queued_lossless_witness:
  "l2cap_sent ((uni_hid_device_send_queued_reports 0 ^^ 2) out_two) = [(0x41, [0xa2, 1]), (0x41, [0xa2, 2])]"
  using send_queued_lossless [OF out_two_queued(1)] out_two_queued(2,3) by (simp add: numeral_2_eq_2)

text \<open>
  A refused report loses its place: when the report taken from the queue is refused once more, it
  is queued again behind the reports that came after it, so that the two reports, queued in the
  order 1, 2, are delivered in the order 2, 1.
\<close>

lemma send_queued_reorders:
  "l2cap_sent (fold uni_hid_device_send_queued_reports [1, 0, 0] out_two) = [(0x41, [0xa2, 2]), (0x41, [0xa2, 1])]"
proof -
  note a = send_queued_cases(2) [OF out_two_queued(1,2), of 1, simplified]
  note b = send_queued_cases(2) [OF a [THEN conjunct1] a [THEN conjunct2, THEN conjunct1], of 0, simplified]
  note c = send_queued_cases(2) [OF b [THEN conjunct1] b [THEN conjunct2, THEN conjunct1], of 0, simplified]
  show ?thesis using a b c out_two_queued(3) by simp
qed

end
