(* ===== verification/RawDevice.thy ===== *)
theory RawDevice
  imports HidParser
begin

text \<open>
  What the parsers of raw reports share (\<^verbatim>\<open>parser/uni_hid_parser_ds3.c\<close> and its siblings): the part
  of a device they use, byte access, the packed integers of a report, the checksum of
  \<^verbatim>\<open>uni_utils.c\<close> and the scaling of \<^verbatim>\<open>uni_common.h\<close>, the flags of a button byte, and the contract
  \<open>raw_parser\<close> of a parser that reads the report itself.

  A report is the list of the bytes received. A read past its end is a trap (\<open>None\<close>), as is an
  assertion that fails or a division by zero.
\<close>

subsection \<open>The device\<close>

text \<open>The calls a parser makes, in order: reports it sends, and the device functions it calls.\<close>

datatype dev_call =
    Intr_sent "u8 list"
  | Ctrl_sent "u8 list"
  | Gatt_sent u8 "u8 list"
  | Ready_complete

record raw_device =
  raw_controller :: uni_controller
  calls :: "dev_call list"

definition call :: "dev_call \<Rightarrow> 'a raw_device_scheme \<Rightarrow> 'a raw_device_scheme" where
  "call c d = d\<lparr>calls := calls d @ [c]\<rparr>"

lemma call_simps [simp]:
  "raw_controller (call c d) = raw_controller d" "calls (call c d) = calls d @ [c]"
  "raw_device.more (call c d) = raw_device.more d"
  by (simp_all add: call_def)

definition on_raw :: "(uni_gamepad \<Rightarrow> uni_gamepad) \<Rightarrow> 'a raw_device_scheme \<Rightarrow> 'a raw_device_scheme option" where
  "on_raw f d = map_option (\<lambda>c. d\<lparr>raw_controller := c\<rparr>) (on_gamepad f (raw_controller d))"

definition set_battery :: "u8 \<Rightarrow> 'a raw_device_scheme \<Rightarrow> 'a raw_device_scheme" where
  "set_battery b d = d\<lparr>raw_controller := (raw_controller d)\<lparr>battery := b\<rparr>\<rparr>"

text \<open>The \<open>init_report\<close> of the gamepads: the controller zeroed, then the class stored.\<close>

definition init_gamepad :: "'a raw_device_scheme \<Rightarrow> 'a raw_device_scheme" where
  "init_gamepad d = d\<lparr>raw_controller := clean_gamepad\<rparr>"

subsection \<open>Bytes of a report\<close>

text \<open>A field of a packed structure at offset \<open>i\<close> is read only when it lies in the report.\<close>

definition reads :: "nat \<Rightarrow> u8 list \<Rightarrow> 'b option \<Rightarrow> 'b option" where
  "reads n report r = (if n \<le> length report then r else None)"

lemma reads_ok [simp]: "n \<le> length report \<Longrightarrow> reads n report r = r"
  by (simp add: reads_def)

definition u16_at :: "u8 list \<Rightarrow> nat \<Rightarrow> int" where
  "u16_at r i = uint (r ! i) + 256 * uint (r ! Suc i)"

definition s16_at :: "u8 list \<Rightarrow> nat \<Rightarrow> int" where
  "s16_at r i = s16 (u16_at r i)"

lemma u8_range: "0 \<le> uint (b :: u8)" "uint b < 256"
  using uint_lt2p [of b] by simp_all

lemma u16_at_range: "0 \<le> u16_at r i \<and> u16_at r i < 2 ^ 16"
  using u8_range [of "r ! i"] u8_range [of "r ! Suc i"] by (simp add: u16_at_def)

lemma s16_at_range: "- 32768 \<le> s16_at r i \<and> s16_at r i \<le> 32767"
  using s16_bounds [of "u16_at r i"] by (simp add: s16_at_def)

definition le_bytes :: "u32w \<Rightarrow> u8 list" where
  "le_bytes w = [ucast w, ucast (drop_bit 8 w), ucast (drop_bit 16 w), ucast (drop_bit 24 w)]"

subsection \<open>The checksum\<close>

lemma le_bytes_inj: "le_bytes v = le_bytes w \<Longrightarrow> v = w"
proof (rule bit_word_eqI)
  fix n
  assume e: "le_bytes v = le_bytes w" and n: "n < LENGTH(32)"
  have b: "bit (ucast (drop_bit k v) :: u8) m = bit (ucast (drop_bit k w) :: u8) m" if "k \<in> {0, 8, 16, 24}" for k m
    using e that by (auto simp: le_bytes_def)
  obtain k m where "k \<in> {0, 8, 16, 24}" "m < 8" "n = k + m"
  proof -
    have "n = 8 * (n div 8) + n mod 8" "n div 8 < 4" "n mod 8 < 8" using n by simp_all
    moreover from this(2) have "8 * (n div 8) \<in> {0, 8, 16, 24}" by auto
    ultimately show thesis using that [of "8 * (n div 8)" "n mod 8"] by blast
  qed
  with b [of k m] show "bit v n = bit w n" by (simp add: bit_ucast_iff bit_drop_bit_eq)
qed

definition crc_bit :: "u32w \<Rightarrow> u32w" where
  "crc_bit crc = drop_bit 1 crc XOR (if crc AND 1 \<noteq> 0 then 0xedb88320 else 0)"

definition crc_byte :: "u8 \<Rightarrow> u32w \<Rightarrow> u32w" where
  "crc_byte b crc = (crc_bit ^^ 8) (crc XOR ucast b)"

definition uni_crc32_le :: "u32w \<Rightarrow> u8 list \<Rightarrow> u32w" where
  "uni_crc32_le crc bytes = fold crc_byte bytes crc"

text \<open>
  One step of the checksum is injective: the top bit of the polynomial is set, so the top bit of the
  result tells whether the polynomial was added.
\<close>

lemma crc_bit_top: "bit (crc_bit c) 31 \<longleftrightarrow> bit c 0"
proof -
  have "bit (drop_bit 1 c) 31 = False" by (auto simp: bit_drop_bit_eq dest: bit_imp_le_length)
  moreover have "bit (0xedb88320 :: u32w) 31" by simp
  ultimately show ?thesis
    using and_flag(1) [of c] by (simp add: crc_bit_def bit_xor_iff)
qed

lemma xor_left_cancel: "a XOR b = a XOR c \<longleftrightarrow> b = c" for a b c :: "'a::len word"
  by (metis xor.assoc xor.left_neutral xor_self_eq)

lemma crc_bit_inj: "crc_bit c = crc_bit c' \<Longrightarrow> c = c'"
proof -
  assume e: "crc_bit c = crc_bit c'"
  have z: "bit c 0 = bit c' 0" using crc_bit_top [of c] crc_bit_top [of c'] e by simp
  then have "(c AND 1 \<noteq> 0) = (c' AND 1 \<noteq> 0)" using and_flag(1) [of c] and_flag(1) [of c'] by simp
  then have d: "drop_bit 1 c = drop_bit 1 c'" using e xor_left_cancel [of "0xedb88320 :: u32w"] by (auto simp: crc_bit_def xor.commute)
  show "c = c'"
  proof (rule bit_word_eqI)
    fix n
    show "bit c n = bit c' n"
    proof (cases n)
      case (Suc m)
      have "bit (drop_bit 1 c) m = bit (drop_bit 1 c') m" using d by simp
      then show ?thesis using Suc by (simp add: bit_drop_bit_eq)
    qed (simp add: z)
  qed
qed

lemma crc_bits_inj: "(crc_bit ^^ n) c = (crc_bit ^^ n) c' \<Longrightarrow> c = c'"
  by (induction n) (auto dest: crc_bit_inj)

lemma crc_byte_inj: "crc_byte b c = crc_byte b' c' \<Longrightarrow> c XOR ucast b = c' XOR ucast b'"
  unfolding crc_byte_def by (rule crc_bits_inj)

lemma crc_byte_state_inj: "crc_byte b c = crc_byte b c' \<Longrightarrow> c = c'"
  using crc_byte_inj [of b c b c'] by (metis xor.commute xor_left_cancel)

lemma ucast_u8_inj: "(ucast b :: u32w) = ucast b' \<Longrightarrow> b = b'" for b b' :: u8
proof (rule bit_word_eqI)
  fix n
  assume e: "(ucast b :: u32w) = ucast b'" and n: "n < LENGTH(8)"
  have "bit (ucast b :: u32w) n = bit (ucast b' :: u32w) n" using e by simp
  with n show "bit b n = bit b' n" by (simp add: bit_ucast_iff)
qed

lemma crc_state_inj: "uni_crc32_le c bytes = uni_crc32_le c' bytes \<Longrightarrow> c = c'"
  unfolding uni_crc32_le_def by (induction bytes arbitrary: c c') (auto dest: crc_byte_state_inj)

lemma crc_detects_byte:
  assumes "b \<noteq> b'"
  shows "uni_crc32_le c (pre @ b # post) \<noteq> uni_crc32_le c (pre @ b' # post)"
proof
  assume "uni_crc32_le c (pre @ b # post) = uni_crc32_le c (pre @ b' # post)"
  then have "crc_byte b (fold crc_byte pre c) = crc_byte b' (fold crc_byte pre c)"
    using crc_state_inj [of _ post] by (simp add: uni_crc32_le_def)
  from crc_byte_inj [OF this] have "(ucast b :: u32w) = ucast b'" by (simp add: xor_left_cancel)
  with assms show False using ucast_u8_inj by blast
qed

subsection \<open>Scaling\<close>

text \<open>
  \<^verbatim>\<open>intmax_t\<close> has 64 bits; the callers' values have 32, so that no product overflows. The result is
  exact: it equals the quotient of the full product.
\<close>

definition crem :: "int \<Rightarrow> int \<Rightarrow> int" where
  "crem a b = a - b * cdiv a b"

definition mult_frac :: "int \<Rightarrow> int \<Rightarrow> int \<Rightarrow> int option" where
  "mult_frac x multiplier divisor =
     (if divisor = 0 then None
      else Some (cdiv x divisor * multiplier + cdiv (crem x divisor * multiplier) divisor))"

lemma sgn_zmult: "sgn (a * b) * (\<bar>a * b\<bar> :: int) = a * b"
  by (simp add: sgn_mult_abs)

lemma crem_abs: "b \<noteq> 0 \<Longrightarrow> crem a b = sgn a * (\<bar>a\<bar> mod \<bar>b\<bar>)"
proof -
  assume "b \<noteq> 0"
  have "a = sgn a * (\<bar>b\<bar> * (\<bar>a\<bar> div \<bar>b\<bar>) + \<bar>a\<bar> mod \<bar>b\<bar>)"
    using mult_div_mod_eq [of "\<bar>b\<bar>" "\<bar>a\<bar>"] by (simp add: sgn_mult_abs)
  moreover have "b * cdiv a b = sgn a * (\<bar>b\<bar> * (\<bar>a\<bar> div \<bar>b\<bar>))"
    by (simp add: cdiv_def ac_simps abs_sgn)
  ultimately have "crem a b = sgn a * (\<bar>b\<bar> * (\<bar>a\<bar> div \<bar>b\<bar>) + \<bar>a\<bar> mod \<bar>b\<bar>) - sgn a * (\<bar>b\<bar> * (\<bar>a\<bar> div \<bar>b\<bar>))"
    unfolding crem_def by presburger
  then show ?thesis by (simp only: distrib_left add_diff_cancel_left')
qed

lemma cdiv_abs: "cdiv (sgn a * n) b = sgn a * sgn b * (n div \<bar>b\<bar>)" if "0 \<le> n" for n :: int
proof (cases "n = 0 \<or> a = 0")
  case False
  with that have "sgn (sgn a * n) = sgn a" "\<bar>sgn a * n\<bar> = n" by (simp_all add: sgn_mult abs_mult)
  then show ?thesis by (simp add: cdiv_def)
qed (auto simp: cdiv_def)

lemma mult_frac_exact:
  assumes "divisor \<noteq> 0"
  shows "mult_frac x m divisor = Some (cdiv (x * m) divisor)"
proof -
  let ?d = "\<bar>divisor\<bar>"
  have m: "m = sgn m * \<bar>m\<bar>" by (simp add: sgn_mult_abs)
  have r: "crem x divisor * m = sgn (x * m) * ((\<bar>x\<bar> mod ?d) * \<bar>m\<bar>)"
    using crem_abs [OF assms, of x] m by (metis (no_types) mult.assoc mult.left_commute sgn_mult)
  have "cdiv (crem x divisor * m) divisor = sgn (x * m) * sgn divisor * (((\<bar>x\<bar> mod ?d) * \<bar>m\<bar>) div ?d)"
    unfolding r by (rule cdiv_abs) (use assms in simp)
  moreover have "cdiv x divisor * m = sgn (x * m) * sgn divisor * ((\<bar>x\<bar> div ?d) * \<bar>m\<bar>)"
    using m by (metis (no_types) cdiv_def mult.assoc mult.left_commute sgn_mult)
  moreover have "\<bar>x * m\<bar> div ?d = (\<bar>x\<bar> div ?d) * \<bar>m\<bar> + ((\<bar>x\<bar> mod ?d) * \<bar>m\<bar>) div ?d"
  proof -
    have "\<bar>x * m\<bar> = ?d * ((\<bar>x\<bar> div ?d) * \<bar>m\<bar>) + (\<bar>x\<bar> mod ?d) * \<bar>m\<bar>"
      using mult_div_mod_eq [of ?d "\<bar>x\<bar>"] by (metis abs_mult distrib_right mult.assoc)
    then show ?thesis using assms by simp
  qed
  ultimately show ?thesis
    using assms by (simp add: mult_frac_def cdiv_def [of "x * m"] distrib_left)
qed

subsection \<open>Flags of a button byte\<close>

definition press_flags :: "(u8 \<times> u16) list \<Rightarrow> u8 \<Rightarrow> uni_gamepad \<Rightarrow> uni_gamepad" where
  "press_flags fs b gp =
     fold (\<lambda>(mask, button) gp. if b AND mask \<noteq> 0 then gp\<lparr>buttons := buttons gp OR button\<rparr> else gp) fs gp"

definition press_misc_flags :: "(u8 \<times> u8) list \<Rightarrow> u8 \<Rightarrow> uni_gamepad \<Rightarrow> uni_gamepad" where
  "press_misc_flags fs b gp =
     fold (\<lambda>(mask, button) gp. if b AND mask \<noteq> 0 then gp\<lparr>misc_buttons := misc_buttons gp OR button\<rparr> else gp) fs gp"

definition press_dpad_flags :: "(u8 \<times> u8) list \<Rightarrow> u8 \<Rightarrow> uni_gamepad \<Rightarrow> uni_gamepad" where
  "press_dpad_flags fs b gp =
     fold (\<lambda>(mask, d) gp. if b AND mask \<noteq> 0 then gp\<lparr>dpad := dpad gp OR d\<rparr> else gp) fs gp"

named_theorems gamepad_frame \<open>members of the gamepad that an update leaves alone\<close>

lemma press_flags_frame [gamepad_frame]:
  "axis_x (press_flags fs b gp) = axis_x gp" "axis_y (press_flags fs b gp) = axis_y gp"
  "axis_rx (press_flags fs b gp) = axis_rx gp" "axis_ry (press_flags fs b gp) = axis_ry gp"
  "brake (press_flags fs b gp) = brake gp" "throttle (press_flags fs b gp) = throttle gp"
  "dpad (press_flags fs b gp) = dpad gp" "misc_buttons (press_flags fs b gp) = misc_buttons gp"
  unfolding press_flags_def by (induction fs arbitrary: gp) auto

lemma press_misc_flags_frame [gamepad_frame]:
  "axis_x (press_misc_flags fs b gp) = axis_x gp" "axis_y (press_misc_flags fs b gp) = axis_y gp"
  "axis_rx (press_misc_flags fs b gp) = axis_rx gp" "axis_ry (press_misc_flags fs b gp) = axis_ry gp"
  "brake (press_misc_flags fs b gp) = brake gp" "throttle (press_misc_flags fs b gp) = throttle gp"
  "dpad (press_misc_flags fs b gp) = dpad gp" "buttons (press_misc_flags fs b gp) = buttons gp"
  unfolding press_misc_flags_def by (induction fs arbitrary: gp) auto

lemma press_dpad_flags_frame [gamepad_frame]:
  "axis_x (press_dpad_flags fs b gp) = axis_x gp" "axis_y (press_dpad_flags fs b gp) = axis_y gp"
  "axis_rx (press_dpad_flags fs b gp) = axis_rx gp" "axis_ry (press_dpad_flags fs b gp) = axis_ry gp"
  "brake (press_dpad_flags fs b gp) = brake gp" "throttle (press_dpad_flags fs b gp) = throttle gp"
  "buttons (press_dpad_flags fs b gp) = buttons gp" "misc_buttons (press_dpad_flags fs b gp) = misc_buttons gp"
  unfolding press_dpad_flags_def by (induction fs arbitrary: gp) auto

subsection \<open>The contract of a raw parser\<close>

text \<open>
  \<open>inv\<close> holds between reports, \<open>ready\<close> once \<open>init_report\<close> has run, \<open>fits\<close> is what the parser needs of a report.

  What holds of the gamepad after a report: sticks and pedals in the ranges the parser promises. The
  pedals are checked too, because the platform reads them.
\<close>

definition pads_ok :: "int \<Rightarrow> int \<Rightarrow> int \<Rightarrow> uni_controller \<Rightarrow> bool" where
  "pads_ok lo hi pedal c \<longleftrightarrow> (case ctl_data c of
      Class_gamepad gp \<Rightarrow>
        list_all (\<lambda>a. lo \<le> a \<and> a \<le> hi) [axis_x gp, axis_y gp, axis_rx gp, axis_ry gp] \<and>
        0 \<le> brake gp \<and> brake gp \<le> pedal \<and> 0 \<le> throttle gp \<and> throttle gp \<le> pedal
    | _ \<Rightarrow> False)"

lemma pads_ok_clean: "lo \<le> 0 \<Longrightarrow> 0 \<le> hi \<Longrightarrow> 0 \<le> pedal \<Longrightarrow> pads_ok lo hi pedal clean_gamepad"
  by (simp add: pads_ok_def clean_gamepad_def gamepad0_def)

lemma pads_okE:
  assumes "pads_ok lo hi pedal (raw_controller d)"
  obtains gp where "ctl_data (raw_controller d) = Class_gamepad gp"
    "pads_ok lo hi pedal \<lparr>ctl_data = Class_gamepad gp, battery = 0\<rparr>"
  using assms by (auto simp: pads_ok_def split: uni_controller_data.splits)

lemma on_raw_gamepad:
  "ctl_data (raw_controller d) = Class_gamepad gp \<Longrightarrow>
   on_raw f d = Some (d\<lparr>raw_controller := (raw_controller d)\<lparr>ctl_data := Class_gamepad (f gp)\<rparr>\<rparr>)"
  by (simp add: on_raw_def on_gamepad_def)

lemma raw_frame [simp]:
  "ctl_data (raw_controller (set_battery b d)) = ctl_data (raw_controller d)"
  "calls (set_battery b d) = calls d" "raw_device.more (set_battery b d) = raw_device.more d"
  "raw_controller (init_gamepad d) = clean_gamepad" "calls (init_gamepad d) = calls d"
  "raw_device.more (init_gamepad d) = raw_device.more d"
  "ctl_data clean_gamepad = Class_gamepad gamepad0"
  by (simp_all add: set_battery_def init_gamepad_def clean_gamepad_def)

primrec process_reports ::
    "('d \<Rightarrow> 'd) \<Rightarrow> (u8 list \<Rightarrow> 'd \<Rightarrow> 'd option) \<Rightarrow> u8 list list \<Rightarrow> 'd \<Rightarrow> 'd option" where
  "process_reports init parse [] d = Some d"
| "process_reports init parse (r # rs) d =
     (case uni_hid_parse_input_report
        \<lparr>rp_init_report = Some init, rp_parse_input_report = Some parse, rp_parse_usage = None\<rparr> [] r d of
        None \<Rightarrow> None | Some d' \<Rightarrow> process_reports init parse rs d')"

locale raw_parser =
  fixes ctl_of :: "'d \<Rightarrow> uni_controller"
    and init :: "'d \<Rightarrow> 'd"
    and parse :: "u8 list \<Rightarrow> 'd \<Rightarrow> 'd option"
    and inv ready :: "'d \<Rightarrow> bool"
    and fits :: "u8 list \<Rightarrow> bool"
    and lo hi pedal :: int
  assumes init_ok: "inv d \<Longrightarrow> ready (init d) \<and> pads_ok lo hi pedal (ctl_of (init d))"
    and parse_ok: "ready d \<Longrightarrow> fits r \<Longrightarrow> pads_ok lo hi pedal (ctl_of d) \<Longrightarrow>
          \<exists>d'. parse r d = Some d' \<and> ready d' \<and> pads_ok lo hi pedal (ctl_of d')"
    and ready_inv: "ready d \<Longrightarrow> inv d"
begin

lemma report_ok:
  assumes "inv d" "fits r"
  shows "\<exists>d'. uni_hid_parse_input_report
      \<lparr>rp_init_report = Some init, rp_parse_input_report = Some parse, rp_parse_usage = None\<rparr> [] r d = Some d' \<and>
      inv d' \<and> pads_ok lo hi pedal (ctl_of d')"
  using init_ok [OF assms(1)] parse_ok [of "init d" r] assms(2) ready_inv
  by (auto simp: uni_hid_parse_input_report_def Let_def)

lemma reports_ok:
  assumes "inv d" "pads_ok lo hi pedal (ctl_of d)" "list_all fits rs"
  shows "\<exists>d'. process_reports init parse rs d = Some d' \<and> inv d' \<and> pads_ok lo hi pedal (ctl_of d')"
  using assms
proof (induction rs arbitrary: d)
  case (Cons r rs)
  obtain d' where "uni_hid_parse_input_report
      \<lparr>rp_init_report = Some init, rp_parse_input_report = Some parse, rp_parse_usage = None\<rparr> [] r d = Some d'"
      "inv d'" "pads_ok lo hi pedal (ctl_of d')"
    using report_ok [OF Cons.prems(1)] Cons.prems(3) by auto
  with Cons.IH [of d'] Cons.prems(3) show ?case by simp
qed simp

end

end
