(* ===== verification/Rumble.thy ===== *)
theory Rumble
  imports RawDevice
begin

text \<open>
  The rumble motors of the raw parsers. \<^verbatim>\<open>uni_hid_parser_ds3_play_dual_rumble\<close> and its siblings for the
  DualShock 4, DualSense, PS Move, Switch, Wii and Stadia controllers have the same text: two timers, a state, and
  two functions of the controller, to play now and to stop now. That text is here once; the
  controllers' functions are its arguments. \<open>rumble_motor\<close> states what it needs of them, and its
  lemmas show that the motors never run without a timer that stops them, for the durations
  \<open>fine\<close> that the controller's functions handle in every state.
\<close>

subsection \<open>State and operations\<close>

datatype state_rumble = STATE_RUMBLE_DISABLED | STATE_RUMBLE_DELAYED | STATE_RUMBLE_IN_PROGRESS

lemma state_disabled: "s \<noteq> STATE_RUMBLE_DELAYED \<Longrightarrow> s \<noteq> STATE_RUMBLE_IN_PROGRESS \<Longrightarrow> s = STATE_RUMBLE_DISABLED"
  by (cases s) auto

text \<open>A timer is \<open>None\<close>, or the milliseconds it was armed with.\<close>

record rumble_device = raw_device +
  timer_duration :: "nat option"
  timer_delayed_start :: "nat option"
  motor_state :: state_rumble
  weak_magnitude :: u8
  strong_magnitude :: u8
  duration_ms :: u16

type_synonym 'a play_now = "u16 \<Rightarrow> u8 \<Rightarrow> u8 \<Rightarrow> 'a rumble_device_scheme \<Rightarrow> 'a rumble_device_scheme option"
type_synonym 'a stop_now = "'a rumble_device_scheme \<Rightarrow> 'a rumble_device_scheme option"

definition cancel_rumble :: "'a rumble_device_scheme \<Rightarrow> 'a rumble_device_scheme" where
  "cancel_rumble d = (case motor_state d of
      STATE_RUMBLE_DELAYED \<Rightarrow> d\<lparr>timer_delayed_start := None\<rparr>
    | STATE_RUMBLE_IN_PROGRESS \<Rightarrow> d\<lparr>timer_duration := None\<rparr>
    | STATE_RUMBLE_DISABLED \<Rightarrow> d)"

definition play_dual_rumble ::
    "'a play_now \<Rightarrow> u16 \<Rightarrow> u16 \<Rightarrow> u8 \<Rightarrow> u8 \<Rightarrow> 'a rumble_device_scheme \<Rightarrow> 'a rumble_device_scheme option" where
  "play_dual_rumble now start_delay duration weak strong d =
     (if start_delay = 0 then now duration weak strong (cancel_rumble d)
      else Some ((cancel_rumble d)\<lparr>motor_state := STATE_RUMBLE_DELAYED, duration_ms := duration,
             strong_magnitude := strong, weak_magnitude := weak,
             timer_delayed_start := Some (unat start_delay)\<rparr>))"

definition set_rumble_on :: "'a play_now \<Rightarrow> 'a rumble_device_scheme \<Rightarrow> 'a rumble_device_scheme option" where
  "set_rumble_on now d = now (duration_ms d) (weak_magnitude d) (strong_magnitude d) d"

text \<open>The end of \<open>play_now\<close>: the motors run, and a timer will stop them.\<close>

definition start_duration :: "u16 \<Rightarrow> 'a rumble_device_scheme \<Rightarrow> 'a rumble_device_scheme" where
  "start_duration duration d =
     d\<lparr>motor_state := STATE_RUMBLE_IN_PROGRESS, timer_duration := Some (unat duration)\<rparr>"

text \<open>
  The events. The run loop removes a timer before it calls the timer's handler; a timer that is not armed
  does not run out, so that its event is skipped.
\<close>

datatype motor_event =
    Play_rumble u16 u16 u8 u8
  | Delay_ends
  | Duration_ends

fun motor_enabled :: "motor_event \<Rightarrow> 'a rumble_device_scheme \<Rightarrow> bool" where
  "motor_enabled (Play_rumble _ _ _ _) d = True"
| "motor_enabled Delay_ends d = (timer_delayed_start d \<noteq> None)"
| "motor_enabled Duration_ends d = (timer_duration d \<noteq> None)"

fun motor_step ::
    "'a play_now \<Rightarrow> 'a stop_now \<Rightarrow> motor_event \<Rightarrow> 'a rumble_device_scheme \<Rightarrow> 'a rumble_device_scheme option" where
  "motor_step now stop (Play_rumble delay duration weak strong) d = play_dual_rumble now delay duration weak strong d"
| "motor_step now stop Delay_ends d = set_rumble_on now (d\<lparr>timer_delayed_start := None\<rparr>)"
| "motor_step now stop Duration_ends d = stop (d\<lparr>timer_duration := None\<rparr>)"

primrec motor_run ::
    "'a play_now \<Rightarrow> 'a stop_now \<Rightarrow> motor_event list \<Rightarrow> 'a rumble_device_scheme \<Rightarrow> 'a rumble_device_scheme option" where
  "motor_run now stop [] d = Some d"
| "motor_run now stop (e # es) d =
     (if motor_enabled e d
      then (case motor_step now stop e d of None \<Rightarrow> None | Some d' \<Rightarrow> motor_run now stop es d')
      else motor_run now stop es d)"

definition no_rumble :: "'a rumble_device_scheme \<Rightarrow> bool" where
  "no_rumble d \<longleftrightarrow> motor_state d = STATE_RUMBLE_DISABLED \<and> timer_duration d = None \<and> timer_delayed_start d = None"

definition pending_events :: "'a rumble_device_scheme \<Rightarrow> motor_event list" where
  "pending_events d = (case motor_state d of
      STATE_RUMBLE_DISABLED \<Rightarrow> []
    | STATE_RUMBLE_DELAYED \<Rightarrow> [Delay_ends, Duration_ends]
    | STATE_RUMBLE_IN_PROGRESS \<Rightarrow> [Duration_ends])"

fun event_duration :: "motor_event \<Rightarrow> u16 option" where
  "event_duration (Play_rumble _ duration _ _) = Some duration"
| "event_duration _ = None"

lemma cancel_rumble_simps [simp]:
  "raw_controller (cancel_rumble d) = raw_controller d" "calls (cancel_rumble d) = calls d"
  "motor_state (cancel_rumble d) = motor_state d" "rumble_device.more (cancel_rumble d) = rumble_device.more d"
  by (auto simp: cancel_rumble_def split: state_rumble.splits)

text \<open>The last report on the interrupt channel, which tells the controller what its motors do.\<close>

definition last_intr :: "dev_call list \<Rightarrow> u8 list option" where
  "last_intr cs = fold (\<lambda>c m. case c of Intr_sent r \<Rightarrow> Some r | _ \<Rightarrow> m) cs None"

lemma last_intr_simps [simp]:
  "last_intr [] = None" "last_intr (cs @ [Intr_sent r]) = Some r" "last_intr (cs @ [Ctrl_sent r]) = last_intr cs"
  "last_intr (cs @ [Gatt_sent i r]) = last_intr cs" "last_intr (cs @ [Ready_complete]) = last_intr cs"
  by (simp_all add: last_intr_def)

lemma last_intr_append:
  "last_intr (cs @ ds) = fold (\<lambda>c m. case c of Intr_sent r \<Rightarrow> Some r | _ \<Rightarrow> m) ds (last_intr cs)"
  by (simp add: last_intr_def)

definition motors_off :: "nat list \<Rightarrow> dev_call list \<Rightarrow> bool" where
  "motors_off is cs = (case last_intr cs of None \<Rightarrow> True | Some r \<Rightarrow> list_all (\<lambda>i. r ! i = 0) is)"

subsection \<open>The contract\<close>

text \<open>
  \<open>still\<close> says that the last report switched the motors off; it depends on the calls only. Playing
  with duration 0 must stop the motors; a controller promises it for the durations \<open>fine\<close> in
  every state, and for all durations while no delayed rumble is pending.
\<close>

definition timers :: "'a rumble_device_scheme \<Rightarrow> nat option \<times> nat option" where
  "timers d = (timer_duration d, timer_delayed_start d)"

locale rumble_motor =
  fixes now :: "'a play_now"
    and stop :: "'a stop_now"
    and still :: "dev_call list \<Rightarrow> bool"
    and fine :: "u16 \<Rightarrow> bool"
  assumes still_start: "still []"
    and stop_law: "motor_state d = STATE_RUMBLE_IN_PROGRESS \<Longrightarrow>
      \<exists>d'. stop d = Some d' \<and> motor_state d' = STATE_RUMBLE_DISABLED \<and> still (calls d') \<and> timers d' = timers d"
    and play_law: "duration \<noteq> 0 \<Longrightarrow>
      \<exists>d'. now duration weak strong d = Some d' \<and> motor_state d' = STATE_RUMBLE_IN_PROGRESS \<and>
        timers d' = (Some (unat duration), timer_delayed_start d)"
    and zero_law: "fine 0 \<or> motor_state d \<noteq> STATE_RUMBLE_DELAYED \<Longrightarrow>
      \<exists>d'. now 0 weak strong d = Some d' \<and> motor_state d' = STATE_RUMBLE_DISABLED \<and> timers d' = timers d \<and>
        (if motor_state d = STATE_RUMBLE_DISABLED then calls d' = calls d else still (calls d'))"
    and fine_nonzero: "duration \<noteq> 0 \<Longrightarrow> fine duration"
begin

definition motor_inv :: "'a rumble_device_scheme \<Rightarrow> bool" where
  "motor_inv d \<longleftrightarrow> (case motor_state d of
      STATE_RUMBLE_DISABLED \<Rightarrow> timers d = (None, None) \<and> still (calls d)
    | STATE_RUMBLE_DELAYED \<Rightarrow> timer_duration d = None \<and> timer_delayed_start d \<noteq> None \<and> fine (duration_ms d)
    | STATE_RUMBLE_IN_PROGRESS \<Rightarrow> timer_duration d \<noteq> None \<and> timer_delayed_start d = None)"

lemma motor_inv_start: "no_rumble d \<Longrightarrow> calls d = [] \<Longrightarrow> motor_inv d"
  by (simp add: no_rumble_def motor_inv_def timers_def still_start)

lemma play_now_ok:
  assumes "fine duration" "timers d = (None, None)"
    "motor_state d = STATE_RUMBLE_DISABLED \<Longrightarrow> still (calls d)"
  shows "\<exists>d'. now duration weak strong d = Some d' \<and> motor_inv d' \<and> motor_state d' \<noteq> STATE_RUMBLE_DELAYED"
proof (cases "duration = 0")
  case True
  then show ?thesis
    using zero_law [of d weak strong] assms by (auto simp: motor_inv_def split: if_splits)
next
  case False
  then show ?thesis
    using play_law [of duration weak strong d] assms(2) by (auto simp: motor_inv_def timers_def)
qed

lemma cancelled_timers: "motor_inv d \<Longrightarrow> timers (cancel_rumble d) = (None, None)"
  by (auto simp: motor_inv_def cancel_rumble_def timers_def split: state_rumble.splits)

lemma motor_step_ok:
  assumes "motor_inv d" "motor_enabled e d" "\<forall>duration. event_duration e = Some duration \<longrightarrow> fine duration"
  shows "\<exists>d'. motor_step now stop e d = Some d' \<and> motor_inv d'"
proof (cases e)
  case (Play_rumble delay duration weak strong)
  have c: "timers (cancel_rumble d) = (None, None)" using assms(1) by (rule cancelled_timers)
  show ?thesis
  proof (cases "delay = 0")
    case True
    have "motor_state d = STATE_RUMBLE_DISABLED \<Longrightarrow> still (calls d)"
      using assms(1) by (simp add: motor_inv_def)
    with play_now_ok [OF _ c, of duration weak strong] assms(3) True Play_rumble show ?thesis
      by (auto simp: play_dual_rumble_def)
  next
    case False
    with c assms(3) Play_rumble show ?thesis
      by (auto simp: play_dual_rumble_def motor_inv_def timers_def)
  qed
next
  case Delay_ends
  with assms have s: "motor_state d = STATE_RUMBLE_DELAYED" "timer_duration d = None" "fine (duration_ms d)"
    by (auto simp: motor_inv_def timers_def split: state_rumble.splits)
  then show ?thesis
    using play_now_ok [of "duration_ms d" "d\<lparr>timer_delayed_start := None\<rparr>" "weak_magnitude d" "strong_magnitude d"]
      Delay_ends by (auto simp: set_rumble_on_def timers_def)
next
  case Duration_ends
  with assms have s: "motor_state d = STATE_RUMBLE_IN_PROGRESS" "timer_delayed_start d = None"
    by (auto simp: motor_inv_def timers_def split: state_rumble.splits)
  then show ?thesis
    using stop_law [of "d\<lparr>timer_duration := None\<rparr>"] Duration_ends
    by (auto simp: motor_inv_def timers_def)
qed

lemma motor_run_ok:
  assumes "motor_inv d" "\<forall>e \<in> set es. \<forall>duration. event_duration e = Some duration \<longrightarrow> fine duration"
  shows "\<exists>d'. motor_run now stop es d = Some d' \<and> motor_inv d'"
  using assms
proof (induction es arbitrary: d)
  case (Cons e es)
  show ?case
  proof (cases "motor_enabled e d")
    case True
    then obtain d' where "motor_step now stop e d = Some d'" "motor_inv d'"
      using motor_step_ok [OF Cons.prems(1) True] Cons.prems(2) by auto
    with Cons.IH [of d'] Cons.prems(2) True show ?thesis by simp
  qed (use Cons in simp)
qed simp

lemma in_progress_stops:
  assumes "motor_inv d" "motor_state d \<noteq> STATE_RUMBLE_DELAYED"
  shows "\<exists>d'. motor_run now stop [Duration_ends] d = Some d' \<and> no_rumble d' \<and> still (calls d')"
proof (cases "motor_state d")
  case STATE_RUMBLE_IN_PROGRESS
  with assms have t: "timer_duration d \<noteq> None" "timer_delayed_start d = None"
    by (simp_all add: motor_inv_def)
  then show ?thesis
    using stop_law [of "d\<lparr>timer_duration := None\<rparr>"] STATE_RUMBLE_IN_PROGRESS
    by (auto simp: no_rumble_def timers_def)
qed (use assms in \<open>auto simp: motor_inv_def timers_def no_rumble_def\<close>)

text \<open>The motors are switched off as soon as the timers that run have run out.\<close>

lemma motors_stop:
  assumes "motor_inv d"
  shows "\<exists>d'. motor_run now stop (pending_events d) d = Some d' \<and> no_rumble d' \<and> still (calls d')"
proof (cases "motor_state d")
  case STATE_RUMBLE_DELAYED
  with assms have s: "timer_duration d = None" "fine (duration_ms d)" "timer_delayed_start d \<noteq> None"
    by (auto simp: motor_inv_def)
  obtain d1 where "motor_step now stop Delay_ends d = Some d1" "motor_inv d1" "motor_state d1 \<noteq> STATE_RUMBLE_DELAYED"
    using play_now_ok [of "duration_ms d" "d\<lparr>timer_delayed_start := None\<rparr>" "weak_magnitude d" "strong_magnitude d"]
      s STATE_RUMBLE_DELAYED by (auto simp: set_rumble_on_def timers_def)
  with in_progress_stops [of d1] s STATE_RUMBLE_DELAYED show ?thesis
    by (auto simp: pending_events_def)
next
  case STATE_RUMBLE_IN_PROGRESS
  with in_progress_stops [OF assms] show ?thesis by (simp add: pending_events_def)
next
  case STATE_RUMBLE_DISABLED
  with assms show ?thesis by (simp add: pending_events_def motor_inv_def no_rumble_def timers_def)
qed

lemma run_then_stop:
  assumes "no_rumble d" "calls d = []" "\<forall>e \<in> set es. \<forall>duration. event_duration e = Some duration \<longrightarrow> fine duration"
  shows "\<exists>d1 d2. motor_run now stop es d = Some d1 \<and>
    (timer_duration d1 = None \<or> timer_delayed_start d1 = None) \<and>
    motor_run now stop (pending_events d1) d1 = Some d2 \<and> no_rumble d2 \<and> still (calls d2)"
proof -
  obtain d1 where d1: "motor_run now stop es d = Some d1" "motor_inv d1"
    using motor_run_ok [OF motor_inv_start [OF assms(1,2)] assms(3)] by blast
  then have "timer_duration d1 = None \<or> timer_delayed_start d1 = None"
    by (auto simp: motor_inv_def timers_def split: state_rumble.splits)
  with d1 motors_stop [OF d1(2)] show ?thesis by blast
qed

end

end
