(* ===== verification/Ds4.thy ===== *)
theory Ds4
  imports Rumble
begin

text \<open>
  The DualShock 4 parser, \<^verbatim>\<open>parser/uni_hid_parser_ds4.c\<close>: input reports 0x01 and 0x11, the calibration
  of the motion sensors from a feature report, the touchpad as a virtual mouse, the light bar and
  the rumble motors. The calibration, the layout of the buttons and the touchpad are the same text
  in the DualSense parser, which uses the definitions of this theory.
\<close>

subsection \<open>Calibration\<close>

record calibration =
  sens_bias :: int
  sens_numer :: int
  sens_denom :: int

type_synonym calibration3 = "calibration \<times> calibration \<times> calibration"

definition DS4_ACC_RES_PER_G :: int where "DS4_ACC_RES_PER_G = 8192"
definition DS4_ACC_RANGE :: int where "DS4_ACC_RANGE = 4 * DS4_ACC_RES_PER_G"
definition DS4_GYRO_RES_PER_DEG_S :: int where "DS4_GYRO_RES_PER_DEG_S = 1024"
definition DS4_GYRO_RANGE :: int where "DS4_GYRO_RANGE = 2048 * DS4_GYRO_RES_PER_DEG_S"
definition INT16_MAX :: int where "INT16_MAX = 32767"

definition default_gyro :: calibration where
  "default_gyro = \<lparr>sens_bias = 0, sens_numer = DS4_GYRO_RANGE, sens_denom = INT16_MAX\<rparr>"

definition default_accel :: calibration where
  "default_accel = \<lparr>sens_bias = 0, sens_numer = DS4_ACC_RANGE, sens_denom = INT16_MAX\<rparr>"

text \<open>One axis: the values of the report, and the sanity check that replaces a denominator of 0.\<close>

definition gyro_calibration :: "int \<Rightarrow> int \<Rightarrow> calibration" where
  "gyro_calibration speed_2x denom =
     (if denom = 0 then default_gyro
      else \<lparr>sens_bias = 0, sens_numer = speed_2x * DS4_GYRO_RES_PER_DEG_S, sens_denom = denom\<rparr>)"

definition accel_calibration :: "int \<Rightarrow> int \<Rightarrow> calibration" where
  "accel_calibration hi lo =
     (let range_2g = hi - lo
      in if range_2g = 0 then default_accel
         else \<lparr>sens_bias = s16 (hi - cdiv range_2g 2), sens_numer = 2 * DS4_ACC_RES_PER_G, sens_denom = range_2g\<rparr>)"

text \<open>The pitch axis adds the bias to the minus value where the other axes subtract it.\<close>

definition pitch_denom :: "int \<Rightarrow> int \<Rightarrow> int \<Rightarrow> int" where
  "pitch_denom hi lo bias = \<bar>hi - bias\<bar> + \<bar>lo + bias\<bar>"

definition axis_denom :: "int \<Rightarrow> int \<Rightarrow> int \<Rightarrow> int" where
  "axis_denom hi lo bias = \<bar>hi - bias\<bar> + \<bar>lo - bias\<bar>"

definition calibrated :: "calibration \<Rightarrow> int \<Rightarrow> int option" where
  "calibrated c raw = map_option s32 (mult_frac (sens_numer c) raw (sens_denom c))"

fun calibrated3 :: "calibration3 \<Rightarrow> vec3 \<Rightarrow> vec3 option" where
  "calibrated3 (cx, cy, cz) (x, y, z) = do {
     x' \<leftarrow> calibrated cx x;
     y' \<leftarrow> calibrated cy y;
     z' \<leftarrow> calibrated cz z;
     Some (x', y', z')
   }"

fun calibration3_ok :: "calibration3 \<Rightarrow> bool" where
  "calibration3_ok (cx, cy, cz) \<longleftrightarrow> sens_denom cx \<noteq> 0 \<and> sens_denom cy \<noteq> 0 \<and> sens_denom cz \<noteq> 0"

lemma sens_denom_ok [simp]:
  "sens_denom (gyro_calibration s n) \<noteq> 0" "sens_denom (accel_calibration hi lo) \<noteq> 0"
  "sens_denom default_gyro \<noteq> 0" "sens_denom default_accel \<noteq> 0"
  by (simp_all add: gyro_calibration_def accel_calibration_def default_gyro_def default_accel_def INT16_MAX_def
      Let_def)

lemma calibrated3_ok: "calibration3_ok c \<Longrightarrow> \<exists>v. calibrated3 c raw = Some v"
  by (cases c; cases raw) (simp add: calibrated_def mult_frac_def)

subsection \<open>Input reports\<close>

definition stick :: "u8 \<Rightarrow> int" where
  "stick b = (uint b - 127) * 4"

lemma stick_range: "- 508 \<le> stick b \<and> stick b \<le> 512"
  using u8_range [of b] by (simp add: stick_def)

definition hat_of :: "u8 \<Rightarrow> u8" where
  "hat_of b = (let v = b AND 0xf in uni_hid_parser_hat_to_dpad (if v > 7 then 0xff else v))"

text \<open>
  Sticks, hat and buttons, pedals. The arguments are the offsets of the sticks, of the buttons and of
  the pedals.
\<close>

definition ds_gamepad :: "u8 list \<Rightarrow> nat \<Rightarrow> nat \<Rightarrow> nat \<Rightarrow> uni_gamepad \<Rightarrow> uni_gamepad" where
  "ds_gamepad r s b p gp =
     (let gp1 = gp\<lparr>axis_x := stick (r ! s), axis_y := stick (r ! (s + 1)), axis_rx := stick (r ! (s + 2)),
                axis_ry := stick (r ! (s + 3)), dpad := hat_of (r ! b)\<rparr>;
          gp2 = press_flags [(0x10, BUTTON_X), (0x20, BUTTON_A), (0x40, BUTTON_B), (0x80, BUTTON_Y)] (r ! b) gp1;
          gp3 = press_flags [(0x01, BUTTON_SHOULDER_L), (0x02, BUTTON_SHOULDER_R), (0x04, BUTTON_TRIGGER_L),
                (0x08, BUTTON_TRIGGER_R), (0x40, BUTTON_THUMB_L), (0x80, BUTTON_THUMB_R)] (r ! (b + 1)) gp2;
          gp4 = press_misc_flags [(0x10, MISC_BUTTON_SELECT), (0x20, MISC_BUTTON_START)] (r ! (b + 1)) gp3;
          gp5 = press_misc_flags [(0x01, MISC_BUTTON_SYSTEM)] (r ! (b + 2)) gp4
      in gp5\<lparr>brake := uint (r ! p) * 4, throttle := uint (r ! (p + 1)) * 4\<rparr>)"

definition ds_pads_ok :: "uni_controller \<Rightarrow> bool" where
  "ds_pads_ok = pads_ok (- 508) 512 1020"

lemma ds_pads_ok_gamepad:
  "ctl_data c = Class_gamepad ((ds_gamepad r s b p gp)\<lparr>gyro := g, accel := a\<rparr>) \<Longrightarrow> ds_pads_ok c"
  "ctl_data c = Class_gamepad (ds_gamepad r s b p gp) \<Longrightarrow> ds_pads_ok c"
  using u8_range [of "r ! p"] u8_range [of "r ! (p + 1)"]
  by (simp_all add: ds_pads_ok_def pads_ok_def ds_gamepad_def Let_def gamepad_frame stick_range)

text \<open>The level goes from 0 to 10; 1 is added because a battery of 0 means that it is not known.\<close>

definition ds_battery :: "u8 \<Rightarrow> u8" where
  "ds_battery status = word_of_int (uint (status AND 0xf) * 25 + 1)"

subsection \<open>The touchpad, a virtual mouse\<close>

abbreviation (input) "UNI_MOUSE_BUTTON_LEFT \<equiv> (1 :: u16)"
abbreviation (input) "UNI_MOUSE_BUTTON_RIGHT \<equiv> (2 :: u16)"

text \<open>
  The child device of the gamepad: its controller, the previous touch, and the controllers that were
  handed to \<^verbatim>\<open>uni_hid_device_process_controller\<close>.
\<close>

record touch_mouse =
  t_controller :: uni_controller
  x_prev :: int
  y_prev :: int
  prev_touch_active :: bool
  t_processed :: "uni_controller list"

definition mouse0 :: uni_mouse where
  "mouse0 = \<lparr>delta_x = 0, delta_y = 0, m_buttons = 0, scroll_wheel = 0, m_misc_buttons = 0\<rparr>"

definition clean_mouse :: uni_controller where
  "clean_mouse = \<lparr>ctl_data = Class_mouse mouse0, battery = 0\<rparr>"

definition touch0 :: touch_mouse where
  "touch0 = \<lparr>t_controller = \<lparr>ctl_data = Class_none gamepad0, battery = 0\<rparr>, x_prev = 0, y_prev = 0,
     prev_touch_active = False, t_processed = []\<rparr>"

definition on_mouse :: "(uni_mouse \<Rightarrow> uni_mouse) \<Rightarrow> uni_controller \<Rightarrow> uni_controller option" where
  "on_mouse f c = (case ctl_data c of Class_mouse m \<Rightarrow> Some (c\<lparr>ctl_data := Class_mouse (f m)\<rparr>) | _ \<Rightarrow> None)"

text \<open>A touch point has four bytes: contact, the low bits of x, four bits of x and y each, the high bits of y.\<close>

definition touch_x :: "u8 list \<Rightarrow> nat \<Rightarrow> int" where
  "touch_x r p = 2 ^ 8 * uint (r ! (p + 2) AND 0xf) + uint (r ! (p + 1))"

definition touch_y :: "u8 list \<Rightarrow> nat \<Rightarrow> int" where
  "touch_y r p = 2 ^ 4 * uint (r ! (p + 3)) + uint (drop_bit 4 (r ! (p + 2)))"

text \<open>\<open>click\<close> is the button byte with the touchpad's button, \<open>p\<close> the offset of the first touch point.\<close>

definition track_touch :: "u8 list \<Rightarrow> nat \<Rightarrow> u8 \<Rightarrow> touch_mouse \<Rightarrow> touch_mouse option" where
  "track_touch r p click t = do {
     let x = touch_x r p;
     let y = touch_y r p;
     let delta = (if prev_touch_active t then (x - x_prev t, y - y_prev t) else (0, 0));
     c \<leftarrow> on_mouse (\<lambda>m. m\<lparr>delta_x := fst delta, delta_y := snd delta,
            m_buttons := (if click AND 0x02 \<noteq> 0
               then m_buttons m OR (if x < 1440 then UNI_MOUSE_BUTTON_LEFT else UNI_MOUSE_BUTTON_RIGHT)
               else m_buttons m)\<rparr>) (t_controller t);
     Some (t\<lparr>t_controller := c, prev_touch_active := (r ! p AND 0x80 = 0), x_prev := x, y_prev := y,
            t_processed := t_processed t @ [c]\<rparr>)
   }"

definition clean_touch :: "touch_mouse \<Rightarrow> touch_mouse" where
  "clean_touch t = t\<lparr>t_controller := clean_mouse\<rparr>"

definition touch_ok :: "touch_mouse option \<Rightarrow> bool" where
  "touch_ok t \<longleftrightarrow> (case t of None \<Rightarrow> True | Some t \<Rightarrow> \<exists>m. ctl_data (t_controller t) = Class_mouse m)"

lemma track_touch_ok:
  "touch_ok (Some t) \<Longrightarrow> \<exists>t'. track_touch r p click t = Some t' \<and> touch_ok (Some t')"
  by (auto simp: touch_ok_def track_touch_def on_mouse_def Let_def)

subsection \<open>The device\<close>

record ds4_device = rumble_device +
  fw_version :: u16
  hw_version :: u16
  gyro_calib_data :: calibration3
  accel_calib_data :: calibration3
  prev_color :: "u8 \<times> u8 \<times> u8"
  prev_rumble_weak :: u8
  prev_rumble_strong :: u8
  ds4_child :: "touch_mouse option"

subsection \<open>Output reports\<close>

definition DS4_FF_FLAG_BLINK_COLOR_RUMBLE :: u8 where
  "DS4_FF_FLAG_BLINK_COLOR_RUMBLE = 1 OR 2 OR 4"

text \<open>
  The structure of an output report, with the fields that the callers set; the others are zero. The bytes are
  79: the transaction type, the report id and a third constant, which the sender writes, the flags at
  4, the motors at 7 and 8, the colour at 9 to 11, and the checksum of everything before it.
\<close>

record ds4_output_report_t =
  ds4_flags :: u8
  ds4_motor_right :: u8
  ds4_motor_left :: u8
  ds4_led_red :: u8
  ds4_led_green :: u8
  ds4_led_blue :: u8

definition ds4_output_report :: "u8 \<Rightarrow> u8 \<Rightarrow> u8 \<times> u8 \<times> u8 \<Rightarrow> ds4_output_report_t" where
  "ds4_output_report right left color = (case color of (red, green, blue) \<Rightarrow>
     \<lparr>ds4_flags = DS4_FF_FLAG_BLINK_COLOR_RUMBLE, ds4_motor_right = right, ds4_motor_left = left,
      ds4_led_red = red, ds4_led_green = green, ds4_led_blue = blue\<rparr>)"

definition ds4_output_bytes :: "ds4_output_report_t \<Rightarrow> u8 list" where
  "ds4_output_bytes out =
     [0xa2, 0x11, 0xc4, 0, ds4_flags out, 0, 0, ds4_motor_right out, ds4_motor_left out,
      ds4_led_red out, ds4_led_green out, ds4_led_blue out, 0, 0] @ replicate 61 0"

definition ds4_send_output_report :: "ds4_output_report_t \<Rightarrow> ds4_device \<Rightarrow> ds4_device" where
  "ds4_send_output_report out d =
     call (Intr_sent (ds4_output_bytes out @ le_bytes (NOT (uni_crc32_le 0xffffffff (ds4_output_bytes out))))) d"

definition ds4_request_calibration_report :: "ds4_device \<Rightarrow> ds4_device" where
  "ds4_request_calibration_report = call (Ctrl_sent [0x43, 0x02])"

definition ds4_request_firmware_version_report :: "ds4_device \<Rightarrow> ds4_device" where
  "ds4_request_firmware_version_report = call (Ctrl_sent [0x43, 0xa3])"

definition ds4_send_enable_lightbar_report :: "ds4_device \<Rightarrow> ds4_device" where
  "ds4_send_enable_lightbar_report d =
     ds4_send_output_report (ds4_output_report 0 0 (0, 0, 0x40))
       (d\<lparr>prev_color := (0, 0, 0x40), prev_rumble_weak := 0, prev_rumble_strong := 0\<rparr>)"

definition uni_hid_parser_ds4_set_lightbar_color :: "u8 \<Rightarrow> u8 \<Rightarrow> u8 \<Rightarrow> ds4_device \<Rightarrow> ds4_device" where
  "uni_hid_parser_ds4_set_lightbar_color r g b d =
     ds4_send_output_report (ds4_output_report (prev_rumble_weak d) (prev_rumble_strong d) (r, g, b))
       (d\<lparr>prev_color := (r, g, b)\<rparr>)"

subsection \<open>Set-up and feature reports\<close>

text \<open>
  The arguments of the set-up are the results of the device functions it calls: whether the platform
  accepts the gamepad, whether a virtual device could be created, and whether the platform accepts
  that one.
\<close>

definition attach_touchpad :: "bool \<Rightarrow> bool \<Rightarrow> bool \<Rightarrow> touch_mouse option \<Rightarrow> touch_mouse option" where
  "attach_touchpad accepted created child_accepted old =
     (if \<not> accepted then old
      else if \<not> created then old
      else if child_accepted then Some touch0 else None)"

definition uni_hid_parser_ds4_setup :: "bool \<Rightarrow> bool \<Rightarrow> bool \<Rightarrow> ds4_device \<Rightarrow> ds4_device" where
  "uni_hid_parser_ds4_setup accepted created child_accepted d =
     (let d1 = d\<lparr>timer_duration := None, timer_delayed_start := None, motor_state := STATE_RUMBLE_DISABLED,
            weak_magnitude := 0, strong_magnitude := 0, duration_ms := 0, fw_version := 0, hw_version := 0,
            gyro_calib_data := (default_gyro, default_gyro, default_gyro),
            accel_calib_data := (default_accel, default_accel, default_accel),
            prev_color := (0, 0, 0), prev_rumble_weak := 0, prev_rumble_strong := 0\<rparr>;
          d2 = call Ready_complete (ds4_request_calibration_report (ds4_send_enable_lightbar_report d1))
      in d2\<lparr>ds4_child := attach_touchpad accepted created child_accepted (ds4_child d2)\<rparr>)"

definition uni_hid_parser_ds4_init_report :: "ds4_device \<Rightarrow> ds4_device" where
  "uni_hid_parser_ds4_init_report d = (init_gamepad d)\<lparr>ds4_child := map_option clean_touch (ds4_child d)\<rparr>"

text \<open>
  A report of another size than the structure is logged and then read all the same. The calibration
  is read up to byte 34, the versions at 35 and 41. The date at 1 and the time at 17 are logged as strings,
  which are read up to a zero byte wherever it is; \<open>None\<close> when the report holds none.
\<close>

definition logs_string :: "nat \<Rightarrow> u8 list \<Rightarrow> ds4_device option \<Rightarrow> ds4_device option" where
  "logs_string i r x = (if 0 \<in> set (drop i r) then x else None)"

definition ds4_calibration_report :: "u8 list \<Rightarrow> ds4_device \<Rightarrow> ds4_device option" where
  "ds4_calibration_report r d = reads 35 r (Some (
     let speed_2x = s16_at r 19 + s16_at r 21;
         gyro = gyro_calibration speed_2x
     in ds4_request_firmware_version_report (d\<lparr>
          gyro_calib_data :=
            (gyro (pitch_denom (s16_at r 7) (s16_at r 13) (s16_at r 1)),
             gyro (axis_denom (s16_at r 9) (s16_at r 15) (s16_at r 3)),
             gyro (axis_denom (s16_at r 11) (s16_at r 17) (s16_at r 5))),
          accel_calib_data :=
            (accel_calibration (s16_at r 23) (s16_at r 25),
             accel_calibration (s16_at r 27) (s16_at r 29),
             accel_calibration (s16_at r 31) (s16_at r 33))\<rparr>)))"

definition ds4_firmware_report :: "u8 list \<Rightarrow> ds4_device \<Rightarrow> ds4_device option" where
  "ds4_firmware_report r d = reads 43 r (logs_string 1 r (logs_string 17 r (Some
     (d\<lparr>hw_version := word_of_int (u16_at r 35), fw_version := word_of_int (u16_at r 41)\<rparr>))))"

definition uni_hid_parser_ds4_parse_feature_report :: "u8 list \<Rightarrow> ds4_device \<Rightarrow> ds4_device option" where
  "uni_hid_parser_ds4_parse_feature_report r d = reads 1 r (
     if r ! 0 = 0x02 then ds4_calibration_report r d
     else if r ! 0 = 0xa3 then ds4_firmware_report r d
     else Some d)"

subsection \<open>Input reports, whole\<close>

definition ds4_parse_input_report_01 :: "u8 list \<Rightarrow> ds4_device \<Rightarrow> ds4_device option" where
  "ds4_parse_input_report_01 r d = reads 10 r (on_raw (ds_gamepad r 1 5 8) d)"

definition ds4_parse_mouse :: "u8 list \<Rightarrow> touch_mouse \<Rightarrow> touch_mouse option" where
  "ds4_parse_mouse r t =
     (if r ! 35 < 1 then Some (t\<lparr>prev_touch_active := False\<rparr>)
      else track_touch r 37 (r ! 9) t)"

definition ds4_parse_input_report_11 :: "u8 list \<Rightarrow> ds4_device \<Rightarrow> ds4_device option" where
  "ds4_parse_input_report_11 r d = reads 78 r (do {
     g \<leftarrow> calibrated3 (gyro_calib_data d) (s16_at r 15, s16_at r 17, s16_at r 19);
     a \<leftarrow> calibrated3 (accel_calib_data d) (s16_at r 21, s16_at r 23, s16_at r 25);
     d1 \<leftarrow> on_raw (\<lambda>gp. (ds_gamepad r 3 7 10 gp)\<lparr>gyro := g, accel := a\<rparr>) d;
     let d2 = set_battery (ds_battery (r ! 32)) d1;
     (case ds4_child d2 of
        None \<Rightarrow> Some d2
      | Some t \<Rightarrow> map_option (\<lambda>t'. d2\<lparr>ds4_child := Some t'\<rparr>) (ds4_parse_mouse r t))
   })"

definition uni_hid_parser_ds4_parse_input_report :: "u8 list \<Rightarrow> ds4_device \<Rightarrow> ds4_device option" where
  "uni_hid_parser_ds4_parse_input_report r d = reads 1 r (
     if r ! 0 = 0x11 \<and> length r = 78 then ds4_parse_input_report_11 r d
     else if r ! 0 = 0x01 \<and> length r = 10 then ds4_parse_input_report_01 r d
     else Some d)"

subsection \<open>Rumble\<close>

definition ds4_stop_rumble_now :: "ds4_device \<Rightarrow> ds4_device option" where
  "ds4_stop_rumble_now d =
     (if motor_state d \<noteq> STATE_RUMBLE_IN_PROGRESS then None
      else Some (ds4_send_output_report (ds4_output_report 0 0 (prev_color d))
             (d\<lparr>motor_state := STATE_RUMBLE_DISABLED, prev_rumble_weak := 0, prev_rumble_strong := 0\<rparr>)))"

definition ds4_play_dual_rumble_now :: "u16 \<Rightarrow> u8 \<Rightarrow> u8 \<Rightarrow> ds4_device \<Rightarrow> ds4_device option" where
  "ds4_play_dual_rumble_now duration weak strong d =
     (if duration = 0
      then (if motor_state d \<noteq> STATE_RUMBLE_DISABLED then ds4_stop_rumble_now d else Some d)
      else Some (start_duration duration (ds4_send_output_report (ds4_output_report weak strong (prev_color d))
             (d\<lparr>prev_rumble_weak := weak, prev_rumble_strong := strong\<rparr>))))"

definition uni_hid_parser_ds4_play_dual_rumble ::
    "u16 \<Rightarrow> u16 \<Rightarrow> u8 \<Rightarrow> u8 \<Rightarrow> ds4_device \<Rightarrow> ds4_device option" where
  "uni_hid_parser_ds4_play_dual_rumble = play_dual_rumble ds4_play_dual_rumble_now"

definition on_ds4_set_rumble_on :: "ds4_device \<Rightarrow> ds4_device option" where
  "on_ds4_set_rumble_on = set_rumble_on ds4_play_dual_rumble_now"

definition on_ds4_set_rumble_off :: "ds4_device \<Rightarrow> ds4_device option" where
  "on_ds4_set_rumble_off = ds4_stop_rumble_now"

subsection \<open>Correctness\<close>

lemma ds4_send_simps [simp]:
  "raw_controller (ds4_send_output_report out d) = raw_controller d"
  "\<exists>r. calls (ds4_send_output_report out d) = calls d @ [Intr_sent r]"
  by (simp_all add: ds4_send_output_report_def)

definition ds4_still :: "dev_call list \<Rightarrow> bool" where
  "ds4_still = motors_off [7, 8]"

lemma ds4_still_snoc [simp]:
  "ds4_still []" "ds4_still (cs @ [Ctrl_sent r]) = ds4_still cs" "ds4_still (cs @ [Ready_complete]) = ds4_still cs"
  "ds4_still (cs @ [Intr_sent (ds4_output_bytes (ds4_output_report right left color) @ crc)]) \<longleftrightarrow> right = 0 \<and> left = 0"
  "ds4_still (cs @ [Intr_sent (ds4_output_bytes (ds4_output_report right left color) @ crc), Ctrl_sent r, Ready_complete]) \<longleftrightarrow>
     right = 0 \<and> left = 0"
  by (auto simp: ds4_still_def motors_off_def last_intr_append ds4_output_report_def ds4_output_bytes_def split: prod.splits)

lemmas ds4_rumble_defs = ds4_stop_rumble_now_def ds4_play_dual_rumble_now_def ds4_send_output_report_def
  start_duration_def call_def timers_def

interpretation ds4_motor: rumble_motor ds4_play_dual_rumble_now ds4_stop_rumble_now ds4_still "\<lambda>duration. duration \<noteq> 0"
  by unfold_locales (auto simp: ds4_rumble_defs intro: state_disabled split: if_splits)

definition ds4_calibrated :: "ds4_device \<Rightarrow> bool" where
  "ds4_calibrated d \<longleftrightarrow> calibration3_ok (gyro_calib_data d) \<and> calibration3_ok (accel_calib_data d)"

definition ds4_report_ready :: "ds4_device \<Rightarrow> bool" where
  "ds4_report_ready d \<longleftrightarrow> ds4_calibrated d \<and> touch_ok (ds4_child d)"

lemma ds4_init_ready:
  "ds4_calibrated d \<Longrightarrow>
   ds4_report_ready (uni_hid_parser_ds4_init_report d) \<and>
   pads_ok (- 508) 512 1020 (raw_controller (uni_hid_parser_ds4_init_report d))"
  by (auto simp: ds4_report_ready_def ds4_calibrated_def uni_hid_parser_ds4_init_report_def init_gamepad_def
      pads_ok_clean touch_ok_def clean_touch_def clean_mouse_def split: option.splits)

lemma ds4_parse_mouse_ok:
  "touch_ok (Some t) \<Longrightarrow> \<exists>t'. ds4_parse_mouse r t = Some t' \<and> touch_ok (Some t')"
  using track_touch_ok [of t r 37 "r ! 9"] by (auto simp: ds4_parse_mouse_def touch_ok_def)

lemma ds4_parse_11_ok:
  assumes "ds4_report_ready d" "ctl_data (raw_controller d) = Class_gamepad gp" "length r = 78"
  shows "\<exists>d'. ds4_parse_input_report_11 r d = Some d' \<and> ds4_report_ready d' \<and> ds_pads_ok (raw_controller d')"
proof -
  obtain g where g: "calibrated3 (gyro_calib_data d) (s16_at r 15, s16_at r 17, s16_at r 19) = Some g"
    using assms(1) calibrated3_ok unfolding ds4_report_ready_def ds4_calibrated_def by blast
  obtain a where a: "calibrated3 (accel_calib_data d) (s16_at r 21, s16_at r 23, s16_at r 25) = Some a"
    using assms(1) calibrated3_ok unfolding ds4_report_ready_def ds4_calibrated_def by blast
  let ?c = "\<lparr>ctl_data = Class_gamepad ((ds_gamepad r 3 7 10 gp)\<lparr>gyro := g, accel := a\<rparr>),
      battery = ds_battery (r ! 32)\<rparr>"
  have p: "ds_pads_ok ?c" by (rule ds_pads_ok_gamepad(1)) simp
  have c: "(raw_controller d)\<lparr>ctl_data := v, battery := b\<rparr> = \<lparr>ctl_data = v, battery = b\<rparr>" for v b
    by simp
  show ?thesis
  proof (cases "ds4_child d")
    case None
    with assms g a p show ?thesis
      by (simp add: ds4_parse_input_report_11_def on_raw_gamepad set_battery_def ds4_report_ready_def
          ds4_calibrated_def c Let_def)
  next
    case (Some t)
    then obtain t' where "ds4_parse_mouse r t = Some t'" "touch_ok (Some t')"
      using ds4_parse_mouse_ok [of t r] assms(1) by (auto simp: ds4_report_ready_def)
    with assms g a p Some show ?thesis
      by (simp add: ds4_parse_input_report_11_def on_raw_gamepad set_battery_def ds4_report_ready_def
          ds4_calibrated_def c Let_def)
  qed
qed

lemma ds4_parse_01_ok:
  assumes "ds4_report_ready d" "ctl_data (raw_controller d) = Class_gamepad gp" "length r = 10"
  shows "\<exists>d'. ds4_parse_input_report_01 r d = Some d' \<and> ds4_report_ready d' \<and> ds_pads_ok (raw_controller d')"
  using assms
  by (auto simp: ds4_parse_input_report_01_def on_raw_gamepad ds4_report_ready_def ds4_calibrated_def
      intro!: ds_pads_ok_gamepad(2))

lemma pads_ok_class: "pads_ok lo hi pedal c \<Longrightarrow> \<exists>gp. ctl_data c = Class_gamepad gp"
  by (auto simp: pads_ok_def split: uni_controller_data.splits)

lemma ds4_parse_ready:
  assumes "ds4_report_ready d" "r \<noteq> []" "pads_ok (- 508) 512 1020 (raw_controller d)"
  shows "\<exists>d'. uni_hid_parser_ds4_parse_input_report r d = Some d' \<and> ds4_report_ready d' \<and>
     pads_ok (- 508) 512 1020 (raw_controller d')"
proof -
  obtain gp where gp: "ctl_data (raw_controller d) = Class_gamepad gp" using pads_ok_class [OF assms(3)] by blast
  have "1 \<le> length r" using assms(2) by (cases r) auto
  with ds4_parse_11_ok [OF assms(1) gp] ds4_parse_01_ok [OF assms(1) gp] assms show ?thesis
    by (auto simp: uni_hid_parser_ds4_parse_input_report_def ds_pads_ok_def)
qed

interpretation ds4_raw: raw_parser raw_controller uni_hid_parser_ds4_init_report
    uni_hid_parser_ds4_parse_input_report ds4_calibrated ds4_report_ready "\<lambda>r. r \<noteq> []" "- 508" 512 1020
proof unfold_locales
  show "ds4_report_ready d \<Longrightarrow> ds4_calibrated d" for d by (simp add: ds4_report_ready_def)
qed (use ds4_init_ready ds4_parse_ready in blast)+

text \<open>The parser as a whole: input and feature reports, the platform's calls, and the timers.\<close>

datatype ds4_event =
    Ds4_input "u8 list"
  | Ds4_feature "u8 list"
  | Ds4_lightbar u8 u8 u8
  | Ds4_motor motor_event

fun ds4_handle :: "ds4_event \<Rightarrow> ds4_device \<Rightarrow> ds4_device option" where
  "ds4_handle (Ds4_input r) d = uni_hid_parse_input_report
     \<lparr>rp_init_report = Some uni_hid_parser_ds4_init_report,
      rp_parse_input_report = Some uni_hid_parser_ds4_parse_input_report, rp_parse_usage = None\<rparr> [] r d"
| "ds4_handle (Ds4_feature r) d = uni_hid_parser_ds4_parse_feature_report r d"
| "ds4_handle (Ds4_lightbar r g b) d = Some (uni_hid_parser_ds4_set_lightbar_color r g b d)"
| "ds4_handle (Ds4_motor e) d = motor_run ds4_play_dual_rumble_now ds4_stop_rumble_now [e] d"

primrec ds4_run :: "ds4_event list \<Rightarrow> ds4_device \<Rightarrow> ds4_device option" where
  "ds4_run [] d = Some d"
| "ds4_run (e # es) d = (case ds4_handle e d of None \<Rightarrow> None | Some d' \<Rightarrow> ds4_run es d')"

fun ds4_event_ok :: "ds4_event \<Rightarrow> bool" where
  "ds4_event_ok (Ds4_input r) \<longleftrightarrow> r \<noteq> []"
| "ds4_event_ok (Ds4_feature r) \<longleftrightarrow>
     r \<noteq> [] \<and> (r ! 0 = 0x02 \<longrightarrow> 35 \<le> length r) \<and>
     (r ! 0 = 0xa3 \<longrightarrow> 43 \<le> length r \<and> 0 \<in> set (drop 17 r))"
| "ds4_event_ok (Ds4_lightbar _ _ _) \<longleftrightarrow> True"
| "ds4_event_ok (Ds4_motor e) \<longleftrightarrow> event_duration e \<noteq> Some 0"

definition ds4_inv :: "ds4_device \<Rightarrow> bool" where
  "ds4_inv d \<longleftrightarrow> ds4_calibrated d \<and> ds4_motor.motor_inv d \<and>
     (motor_state d = STATE_RUMBLE_DISABLED \<longrightarrow> prev_rumble_weak d = 0 \<and> prev_rumble_strong d = 0)"

lemma ds4_motor_inv_cong:
  "motor_state d' = motor_state d \<Longrightarrow> timers d' = timers d \<Longrightarrow> duration_ms d' = duration_ms d \<Longrightarrow>
   (ds4_still (calls d) \<Longrightarrow> ds4_still (calls d')) \<Longrightarrow> ds4_motor.motor_inv d \<Longrightarrow> ds4_motor.motor_inv d'"
  by (auto simp: ds4_motor.motor_inv_def timers_def split: state_rumble.splits)

text \<open>What an input report leaves alone, and what the motors leave alone.\<close>

definition motor_frame :: "ds4_device \<Rightarrow> ds4_device \<Rightarrow> bool" where
  "motor_frame d d' \<longleftrightarrow> motor_state d' = motor_state d \<and> timers d' = timers d \<and> duration_ms d' = duration_ms d \<and>
     calls d' = calls d \<and> prev_rumble_weak d' = prev_rumble_weak d \<and> prev_rumble_strong d' = prev_rumble_strong d"

lemma on_raw_motor_frame: "on_raw f d = Some d' \<Longrightarrow> motor_frame d d' \<and> ds4_child d' = ds4_child d"
  by (auto simp: on_raw_def motor_frame_def timers_def)

lemma ds4_input_frame:
  assumes "ds4_handle (Ds4_input r) d = Some d'"
  shows "motor_frame d d'"
proof -
  have i: "motor_frame d (uni_hid_parser_ds4_init_report d)"
    by (simp add: motor_frame_def uni_hid_parser_ds4_init_report_def init_gamepad_def timers_def)
  have "motor_frame d0 d'" if "uni_hid_parser_ds4_parse_input_report r d0 = Some d'" for d0
    using that
    by (auto simp: uni_hid_parser_ds4_parse_input_report_def ds4_parse_input_report_11_def
        ds4_parse_input_report_01_def reads_def set_battery_def motor_frame_def timers_def Let_def
        dest!: on_raw_motor_frame split: if_splits bind_splits option.splits)
  with i assms show ?thesis
    by (auto simp: uni_hid_parse_input_report_def Let_def motor_frame_def split: bind_splits)
qed

lemma zero_behind: "0 \<in> set (drop 17 r) \<Longrightarrow> 0 \<in> set (drop (Suc 0) r)" for r :: "u8 list"
  using set_drop_subset_set_drop [of "Suc 0" 17 r] by auto

lemma ds4_handle_ok:
  assumes "ds4_inv d" "ds4_event_ok e"
  shows "\<exists>d'. ds4_handle e d = Some d' \<and> ds4_inv d'"
proof (cases e)
  case (Ds4_input r)
  then obtain d' where d': "ds4_handle e d = Some d'" "ds4_calibrated d'"
    using ds4_raw.report_ok [of d r] assms by (auto simp: ds4_inv_def)
  with ds4_input_frame [of r d d'] Ds4_input assms(1) show ?thesis
    by (auto simp: ds4_inv_def motor_frame_def intro: ds4_motor_inv_cong)
next
  case (Ds4_feature r)
  have "1 \<le> length r" using assms(2) Ds4_feature by (cases r) auto
  with Ds4_feature assms show ?thesis
    by (auto simp: uni_hid_parser_ds4_parse_feature_report_def ds4_calibration_report_def ds4_firmware_report_def
        logs_string_def zero_behind ds4_request_firmware_version_report_def ds4_inv_def ds4_calibrated_def call_def timers_def Let_def
        intro!: ds4_motor_inv_cong [of _ d])
next
  case (Ds4_lightbar r g b)
  with assms show ?thesis
    by (auto simp: uni_hid_parser_ds4_set_lightbar_color_def ds4_send_output_report_def call_def ds4_inv_def
        ds4_calibrated_def ds4_motor.motor_inv_def timers_def split: state_rumble.splits)
next
  case (Ds4_motor m)
  show ?thesis
  proof (cases "motor_enabled m d")
    case True
    then obtain d' where d': "motor_step ds4_play_dual_rumble_now ds4_stop_rumble_now m d = Some d'"
        "ds4_motor.motor_inv d'"
      using ds4_motor.motor_step_ok [of d m] assms Ds4_motor by (auto simp: ds4_inv_def)
    have "ds4_calibrated d' \<and>
        (motor_state d' = STATE_RUMBLE_DISABLED \<longrightarrow> prev_rumble_weak d' = 0 \<and> prev_rumble_strong d' = 0)"
      using d'(1) assms(1)
      by (cases m) (auto simp: ds4_inv_def ds4_calibrated_def play_dual_rumble_def set_rumble_on_def ds4_rumble_defs
          cancel_rumble_def split: if_splits state_rumble.splits)
    with d' True Ds4_motor show ?thesis by (simp add: ds4_inv_def)
  qed (use assms Ds4_motor in simp)
qed

lemma ds4_run_ok:
  "ds4_inv d \<Longrightarrow> list_all ds4_event_ok es \<Longrightarrow> \<exists>d'. ds4_run es d = Some d' \<and> ds4_inv d'"
proof (induction es arbitrary: d)
  case (Cons e es)
  obtain d' where "ds4_handle e d = Some d'" "ds4_inv d'"
    using ds4_handle_ok [of d e] Cons.prems by auto
  with Cons.IH [of d'] Cons.prems show ?case by simp
qed simp

lemma ds4_setup_inv: "ds4_still (calls d) \<Longrightarrow> ds4_inv (uni_hid_parser_ds4_setup accepted created child_accepted d)"
  by (simp add: ds4_inv_def uni_hid_parser_ds4_setup_def ds4_motor.motor_inv_def timers_def ds4_calibrated_def
      ds4_request_calibration_report_def ds4_send_enable_lightbar_report_def ds4_send_output_report_def call_def Let_def)

text \<open>
  C18. The DualShock 4 parser is safe for every content of the reports. After the set-up, over every
  sequence of input reports, feature reports that are as long as the fields the parser reads and in
  which the logged build time ends (\<open>ds4_firmware_string_unterminated\<close>), light bar calls, rumble calls with a duration other than 0 and timer events, no
  assertion fails, no calibration divides by 0 and no byte past a report is read; the next input
  report leaves every stick within -508 to 512 and the pedals within 0 to 1020; at most one
  rumble timer runs, and when the running timers run out the last report sent has switched
  the motors off.
\<close>

theorem ds4_safe:
  assumes "ds4_still (calls d)" "list_all ds4_event_ok es" "r \<noteq> []"
  shows "\<exists>d1 d2 d3. ds4_run es (uni_hid_parser_ds4_setup accepted created child_accepted d) = Some d1 \<and>
     (timer_duration d1 = None \<or> timer_delayed_start d1 = None) \<and>
     ds4_handle (Ds4_input r) d1 = Some d2 \<and> pads_ok (- 508) 512 1020 (raw_controller d2) \<and>
     motor_run ds4_play_dual_rumble_now ds4_stop_rumble_now (pending_events d1) d1 = Some d3 \<and>
     no_rumble d3 \<and> ds4_still (calls d3)"
proof -
  obtain d1 where d1: "ds4_run es (uni_hid_parser_ds4_setup accepted created child_accepted d) = Some d1" "ds4_inv d1"
    using ds4_run_ok [OF ds4_setup_inv [OF assms(1)] assms(2)] by blast
  moreover have "timer_duration d1 = None \<or> timer_delayed_start d1 = None"
    using d1(2) by (auto simp: ds4_inv_def ds4_motor.motor_inv_def timers_def split: state_rumble.splits)
  moreover obtain d2 where "ds4_handle (Ds4_input r) d1 = Some d2" "pads_ok (- 508) 512 1020 (raw_controller d2)"
    using ds4_raw.report_ok [of d1 r] d1(2) assms(3) by (auto simp: ds4_inv_def)
  moreover obtain d3 where "motor_run ds4_play_dual_rumble_now ds4_stop_rumble_now (pending_events d1) d1 = Some d3"
      "no_rumble d3" "ds4_still (calls d3)"
    using ds4_motor.motors_stop [of d1] d1(2) by (auto simp: ds4_inv_def)
  ultimately show ?thesis by blast
qed

definition ds4_fresh :: ds4_device where
  "ds4_fresh = \<lparr>raw_controller = \<lparr>ctl_data = Class_none gamepad0, battery = 0\<rparr>, calls = [], timer_duration = None,
     timer_delayed_start = None, motor_state = STATE_RUMBLE_DISABLED, weak_magnitude = 0, strong_magnitude = 0,
     duration_ms = 0, fw_version = 0, hw_version = 0, gyro_calib_data = (default_gyro, default_gyro, default_gyro),
     accel_calib_data = (default_accel, default_accel, default_accel), prev_color = (0, 0, 0),
     prev_rumble_weak = 0, prev_rumble_strong = 0, ds4_child = None\<rparr>"

definition ds4_session :: "ds4_event list" where
  "ds4_session = [Ds4_feature (0x02 # replicate 36 0), Ds4_input (0x11 # replicate 77 0),
     Ds4_motor (Play_rumble 0 500 128 255), Ds4_lightbar 1 2 3, Ds4_motor (Play_rumble 100 500 128 255),
     Ds4_motor Delay_ends]"

theorem ds4_safe_witness:
  "\<exists>d1 d3. ds4_run ds4_session (uni_hid_parser_ds4_setup True True True ds4_fresh) = Some d1 \<and>
     motor_run ds4_play_dual_rumble_now ds4_stop_rumble_now (pending_events d1) d1 = Some d3 \<and> no_rumble d3"
proof -
  have "ds4_still (calls ds4_fresh)" "list_all ds4_event_ok ds4_session"
    by (simp_all add: ds4_fresh_def ds4_session_def)
  from ds4_safe [OF this, of "[0x01]" True True True] show ?thesis by auto
qed

text \<open>
  A rumble call with duration 0, which means to stop, makes the assertion of
  \<^verbatim>\<open>ds4_stop_rumble_now\<close> fail when a delayed rumble is pending: \<^verbatim>\<open>ds4_play_dual_rumble_now\<close> stops in every
  state but the disabled one, the assertion allows only a rumble in progress.
\<close>

theorem ds4_stop_pending_rumble_aborts:
  assumes "no_rumble d" "delay \<noteq> 0"
  shows "motor_run ds4_play_dual_rumble_now ds4_stop_rumble_now
     [Play_rumble delay duration weak strong, Play_rumble 0 0 0 0] d = None"
  using assms by (simp add: no_rumble_def play_dual_rumble_def cancel_rumble_def ds4_rumble_defs)

theorem ds4_stop_pending_rumble_aborts_witness:
  "motor_run ds4_play_dual_rumble_now ds4_stop_rumble_now [Play_rumble 100 500 128 255, Play_rumble 0 0 0 0] ds4_fresh = None"
  by (rule ds4_stop_pending_rumble_aborts) (simp_all add: no_rumble_def ds4_fresh_def)

text \<open>
  A firmware report without a zero byte from its build time on is read past its end by the log.
\<close>

lemma ds4_firmware_string_unterminated:
  "uni_hid_parser_ds4_parse_feature_report (0xa3 # replicate 48 0x41) d = None"
  by (simp add: uni_hid_parser_ds4_parse_feature_report_def ds4_firmware_report_def logs_string_def reads_def)

text \<open>
  C31. The checksum of an output report detects an error in any one byte: when a single one of the 75 bytes
  before it is changed in a report that the DualShock 4 parser has sent, the checksum of the changed
  bytes is not the one the report carries.
\<close>

theorem ds4_checksum_detects_byte:
  assumes "b \<noteq> b'" "length crc = 4"
    and "last_intr (calls (ds4_send_output_report out d)) = Some (xs @ b # ys @ crc)"
  shows "length (xs @ b # ys) = 75 \<and> le_bytes (NOT (uni_crc32_le 0xffffffff (xs @ b # ys))) = crc \<and>
     le_bytes (NOT (uni_crc32_le 0xffffffff (xs @ b' # ys))) \<noteq> crc"
proof -
  let ?o = "ds4_output_bytes out"
  have "xs @ b # ys @ crc = ?o @ le_bytes (NOT (uni_crc32_le 0xffffffff ?o))"
    using assms(3) by (simp add: ds4_send_output_report_def)
  then have "(xs @ b # ys) @ crc = ?o @ le_bytes (NOT (uni_crc32_le 0xffffffff ?o))" by simp
  moreover have "length crc = length (le_bytes (NOT (uni_crc32_le 0xffffffff ?o)))" using assms(2) by (simp add: le_bytes_def)
  ultimately have o: "xs @ b # ys = ?o" "crc = le_bytes (NOT (uni_crc32_le 0xffffffff ?o))"
    using append_eq_append_conv [of "xs @ b # ys" ?o crc "le_bytes (NOT (uni_crc32_le 0xffffffff ?o))"] by blast+
  have "length ?o = 75" by (simp add: ds4_output_bytes_def)
  moreover have "le_bytes (NOT (uni_crc32_le 0xffffffff (xs @ b' # ys))) \<noteq> le_bytes (NOT (uni_crc32_le 0xffffffff (xs @ b # ys)))"
  proof
    assume "le_bytes (NOT (uni_crc32_le 0xffffffff (xs @ b' # ys))) = le_bytes (NOT (uni_crc32_le 0xffffffff (xs @ b # ys)))"
    then have "NOT (NOT (uni_crc32_le 0xffffffff (xs @ b # ys))) = NOT (NOT (uni_crc32_le 0xffffffff (xs @ b' # ys)))"
      using le_bytes_inj by metis
    then show False using crc_detects_byte [OF assms(1), of "0xffffffff" xs ys] by simp
  qed
  ultimately show ?thesis using o by metis
qed

theorem ds4_checksum_detects_byte_witness:
  "le_bytes (NOT (uni_crc32_le 0xffffffff ([0xa2, 0x12] @ drop 2 (ds4_output_bytes (ds4_output_report 1 2 (3, 4, 5)))))) \<noteq>
     drop 75 (the (last_intr (calls (ds4_send_output_report (ds4_output_report 1 2 (3, 4, 5)) ds4_fresh))))"
proof -
  let ?o = "ds4_output_report 1 2 (3, 4, 5)"
  let ?r = "ds4_output_bytes ?o"
  let ?crc = "le_bytes (NOT (uni_crc32_le 0xffffffff ?r))"
  have r: "?r = [0xa2] @ 0x11 # drop 2 ?r" "length ?r = 75" by (simp_all add: ds4_output_bytes_def)
  have s: "last_intr (calls (ds4_send_output_report ?o ds4_fresh)) = Some (?r @ ?crc)"
    by (simp add: ds4_send_output_report_def)
  moreover have "?r @ ?crc = [0xa2] @ 0x11 # drop 2 ?r @ ?crc" using r(1) by (metis append.assoc append_Cons)
  moreover have "length ?crc = 4" "(0x11 :: u8) \<noteq> 0x12" by (simp_all add: le_bytes_def)
  ultimately have "le_bytes (NOT (uni_crc32_le 0xffffffff ([0xa2] @ 0x12 # drop 2 ?r))) \<noteq> ?crc"
    using ds4_checksum_detects_byte [of "0x11" "0x12" ?crc ?o ds4_fresh "[0xa2]" "drop 2 ?r"] by simp
  then show ?thesis using s r(2) by simp
qed

end
