(* ===== verification/Ds5.thy ===== *)
theory Ds5
  imports Ds4
begin

text \<open>
  The DualSense parser, \<^verbatim>\<open>parser/uni_hid_parser_ds5.c\<close>: the set-up as a chain of feature reports,
  input report 0x31, the touchpad, output reports with a sequence number, lights, rumble, and the
  effects of the adaptive triggers.
\<close>

subsection \<open>State\<close>

datatype ds5_state =
    DS5_STATE_INITIAL
  | DS5_STATE_PAIRING_INFO_REQUEST
  | DS5_STATE_FIRMWARE_VERSION_REQUEST
  | DS5_STATE_CALIBRATION_REQUEST
  | DS5_STATE_READY

record ds5_device = rumble_device +
  output_seq :: u8
  ds5_state :: ds5_state
  ds5_hw_version :: u32w
  ds5_fw_version :: u32w
  update_version :: u16
  use_vibration2 :: bool
  ds5_gyro_calib_data :: calibration3
  ds5_accel_calib_data :: calibration3
  ds5_child :: "touch_mouse option"

subsection \<open>Output reports\<close>

text \<open>The members of the report that some function sets; the others are 0.\<close>

record ds5_output_report =
  valid_flag0 :: u8
  valid_flag1 :: u8
  motor_right :: u8
  motor_left :: u8
  right_trigger_ffb :: "u8 list"
  left_trigger_ffb :: "u8 list"
  valid_flag2 :: u8
  lightbar_setup :: u8
  player_leds :: u8
  lightbar :: "u8 \<times> u8 \<times> u8"

definition ds5_output0 :: ds5_output_report where
  "ds5_output0 = \<lparr>valid_flag0 = 0, valid_flag1 = 0, motor_right = 0, motor_left = 0,
     right_trigger_ffb = replicate 11 0, left_trigger_ffb = replicate 11 0, valid_flag2 = 0, lightbar_setup = 0,
     player_leds = 0, lightbar = (0, 0, 0)\<rparr>"

definition ds5_report_bytes :: "u8 \<Rightarrow> ds5_output_report \<Rightarrow> u8 list" where
  "ds5_report_bytes seq_tag out = (case lightbar out of (red, green, blue) \<Rightarrow>
     [0xa2, 0x31, seq_tag, 0x10, valid_flag0 out, valid_flag1 out, motor_right out, motor_left out] @
     replicate 6 0 @ right_trigger_ffb out @ left_trigger_ffb out @ replicate 6 0 @
     [valid_flag2 out, 0, 0, lightbar_setup out, 0, player_leds out, red, green, blue] @ replicate 24 0)"

definition ds5_send_output_report :: "ds5_output_report \<Rightarrow> ds5_device \<Rightarrow> ds5_device" where
  "ds5_send_output_report out d =
     (let bytes = ds5_report_bytes (push_bit 4 (output_seq d)) out;
          next_seq = output_seq d + 1
      in call (Intr_sent (bytes @ le_bytes (NOT (uni_crc32_le 0xffffffff bytes))))
           (d\<lparr>output_seq := (if next_seq = 15 then 0 else next_seq)\<rparr>))"

abbreviation (input) "DS5_FLAG0_COMPATIBLE_VIBRATION \<equiv> (1 :: u8)"
abbreviation (input) "DS5_FLAG0_HAPTICS_SELECT \<equiv> (2 :: u8)"
abbreviation (input) "DS5_FLAG0_FFB_RIGHT \<equiv> (4 :: u8)"
abbreviation (input) "DS5_FLAG0_FFB_LEFT \<equiv> (8 :: u8)"
abbreviation (input) "DS5_FLAG1_LIGHTBAR_CONTROL_ENABLE \<equiv> (4 :: u8)"
abbreviation (input) "DS5_FLAG1_PLAYER_LED_CONTROL_ENABLE \<equiv> (16 :: u8)"
abbreviation (input) "DS5_FLAG2_LIGHTBAR_SETUP_CONTROL_ENABLE \<equiv> (2 :: u8)"
abbreviation (input) "DS5_FLAG2_COMPATIBLE_VIBRATION2 \<equiv> (4 :: u8)"
abbreviation (input) "DS5_LIGHTBAR_SETUP_LIGHT_OUT \<equiv> (2 :: u8)"

definition ds5_led_values :: "u8 list" where
  "ds5_led_values = [0, 4, 2 OR 8, 1 OR 4 OR 16, 1 OR 2 OR 8 OR 16]"

definition uni_hid_parser_ds5_set_player_leds :: "u8 \<Rightarrow> ds5_device \<Rightarrow> ds5_device" where
  "uni_hid_parser_ds5_set_player_leds v = ds5_send_output_report
     (ds5_output0\<lparr>player_leds := ds5_led_values ! (unat v mod 5), valid_flag1 := DS5_FLAG1_PLAYER_LED_CONTROL_ENABLE\<rparr>)"

definition uni_hid_parser_ds5_set_lightbar_color :: "u8 \<Rightarrow> u8 \<Rightarrow> u8 \<Rightarrow> ds5_device \<Rightarrow> ds5_device" where
  "uni_hid_parser_ds5_set_lightbar_color r g b = ds5_send_output_report
     (ds5_output0\<lparr>lightbar := (r, g, b), valid_flag1 := DS5_FLAG1_LIGHTBAR_CONTROL_ENABLE\<rparr>)"

subsection \<open>Adaptive triggers\<close>

text \<open>
  An effect is its number and ten bytes. For an invalid effect the code leaves the bytes
  uninitialised; nothing reads them then, and the model leaves them out.
\<close>

type_synonym trigger_effect = "u8 \<times> u8 list"

datatype adaptive_trigger = UNI_ADAPTIVE_TRIGGER_TYPE_LEFT | UNI_ADAPTIVE_TRIGGER_TYPE_RIGHT

definition ds5_new_adaptive_trigger_effect_off :: trigger_effect where
  "ds5_new_adaptive_trigger_effect_off = (0x05, replicate 10 0)"

text \<open>The loop over the zones \<open>i \<le> 9\<close> from the position: three bits of force per zone, one bit of the mask.\<close>

definition zone_step :: "u8 \<Rightarrow> nat \<Rightarrow> u32w \<times> u16 \<Rightarrow> u32w \<times> u16" where
  "zone_step force i z = (fst z OR push_bit (i * 3) (ucast force), snd z OR push_bit i 1)"

definition zones :: "u8 \<Rightarrow> u8 \<Rightarrow> u32w \<times> u16" where
  "zones position force = fold (zone_step force) [unat position ..< 10] (0, 0)"

definition zone_bytes :: "u32w \<times> u16 \<Rightarrow> u8 list" where
  "zone_bytes z = [ucast (snd z), ucast (drop_bit 8 (snd z))] @ le_bytes (fst z)"

definition ds5_new_adaptive_trigger_effect_feedback :: "u8 \<Rightarrow> u8 \<Rightarrow> trigger_effect" where
  "ds5_new_adaptive_trigger_effect_feedback position strength =
     (if position > 9 \<or> strength > 8 then (0, [])
      else (0x21, zone_bytes (zones position ((strength - 1) AND 7)) @ replicate 4 0))"

definition ds5_new_adaptive_trigger_effect_weapon :: "u8 \<Rightarrow> u8 \<Rightarrow> u8 \<Rightarrow> trigger_effect" where
  "ds5_new_adaptive_trigger_effect_weapon start_position end_position strength =
     (if start_position < 2 \<or> start_position > 7 \<or> end_position \<le> start_position \<or> end_position > 8 \<or> strength > 8
      then (0, [])
      else let z = push_bit (unat start_position) 1 OR push_bit (unat end_position) (1 :: u16)
           in (0x25, [ucast z, ucast (drop_bit 8 z), strength - 1] @ replicate 7 0))"

definition ds5_new_adaptive_trigger_effect_vibration :: "u8 \<Rightarrow> u8 \<Rightarrow> u8 \<Rightarrow> trigger_effect" where
  "ds5_new_adaptive_trigger_effect_vibration position amplitude frequency =
     (if position > 9 \<or> amplitude > 8 then (0, [])
      else (0x26, zone_bytes (zones position ((amplitude - 1) AND 7)) @ [0, 0, frequency, 0]))"

definition ds5_set_adaptive_trigger_effect :: "adaptive_trigger \<Rightarrow> trigger_effect \<Rightarrow> ds5_device \<Rightarrow> ds5_device" where
  "ds5_set_adaptive_trigger_effect trigger e d =
     (if fst e = 0 then d
      else case trigger of
          UNI_ADAPTIVE_TRIGGER_TYPE_LEFT \<Rightarrow> ds5_send_output_report
            (ds5_output0\<lparr>valid_flag0 := DS5_FLAG0_FFB_LEFT, left_trigger_ffb := fst e # snd e\<rparr>) d
        | UNI_ADAPTIVE_TRIGGER_TYPE_RIGHT \<Rightarrow> ds5_send_output_report
            (ds5_output0\<lparr>valid_flag0 := DS5_FLAG0_FFB_RIGHT, right_trigger_ffb := fst e # snd e\<rparr>) d)"

subsection \<open>Set-up and feature reports\<close>

definition ds5_request_pairing_info_report :: "ds5_device \<Rightarrow> ds5_device" where
  "ds5_request_pairing_info_report d = call (Ctrl_sent [0x43, 0x09]) (d\<lparr>ds5_state := DS5_STATE_PAIRING_INFO_REQUEST\<rparr>)"

definition ds5_request_firmware_version_report :: "ds5_device \<Rightarrow> ds5_device" where
  "ds5_request_firmware_version_report d =
     call (Ctrl_sent [0x43, 0x20]) (d\<lparr>ds5_state := DS5_STATE_FIRMWARE_VERSION_REQUEST\<rparr>)"

definition ds5_request_calibration_report :: "ds5_device \<Rightarrow> ds5_device" where
  "ds5_request_calibration_report d =
     call (Ctrl_sent [0x43, 0x05]) (d\<lparr>ds5_state := DS5_STATE_CALIBRATION_REQUEST\<rparr>)"

text \<open>The results of the device functions are an argument, as in the set-up of the DualShock 4.\<close>

type_synonym platform_answers = "bool \<times> bool \<times> bool"

definition ds5_send_enable_lightbar_report :: "platform_answers \<Rightarrow> ds5_device \<Rightarrow> ds5_device" where
  "ds5_send_enable_lightbar_report answers d = (case answers of (accepted, created, child_accepted) \<Rightarrow>
     let d1 = ds5_send_output_report (ds5_output0\<lparr>lightbar := (0, 0, 255),
            valid_flag1 := DS5_FLAG1_LIGHTBAR_CONTROL_ENABLE,
            valid_flag2 := DS5_FLAG2_LIGHTBAR_SETUP_CONTROL_ENABLE,
            lightbar_setup := DS5_LIGHTBAR_SETUP_LIGHT_OUT\<rparr>) d;
         d2 = call Ready_complete (d1\<lparr>ds5_state := DS5_STATE_READY\<rparr>)
     in d2\<lparr>ds5_child := attach_touchpad accepted created child_accepted (ds5_child d2)\<rparr>)"

definition uni_hid_parser_ds5_setup :: "ds5_device \<Rightarrow> ds5_device" where
  "uni_hid_parser_ds5_setup d = ds5_request_pairing_info_report (d\<lparr>
     timer_duration := None, timer_delayed_start := None, motor_state := STATE_RUMBLE_DISABLED,
     weak_magnitude := 0, strong_magnitude := 0, duration_ms := 0, output_seq := 0, ds5_state := DS5_STATE_INITIAL,
     ds5_hw_version := 0, ds5_fw_version := 0, update_version := 0, use_vibration2 := False,
     ds5_gyro_calib_data := (default_gyro, default_gyro, default_gyro),
     ds5_accel_calib_data := (default_accel, default_accel, default_accel)\<rparr>)"

definition uni_hid_parser_ds5_init_report :: "ds5_device \<Rightarrow> ds5_device" where
  "uni_hid_parser_ds5_init_report d = (init_gamepad d)\<lparr>ds5_child := map_option clean_touch (ds5_child d)\<rparr>"

definition u32_at :: "u8 list \<Rightarrow> nat \<Rightarrow> u32w" where
  "u32_at r i = word_of_int (u16_at r i + 2 ^ 16 * u16_at r (i + 2))"

definition DS5_EDGE_PID :: u16 where "DS5_EDGE_PID = 0x0df2"

definition ds5_firmware_report :: "u16 \<Rightarrow> u8 list \<Rightarrow> ds5_device \<Rightarrow> ds5_device option" where
  "ds5_firmware_report product_id r d = reads 46 r (Some (
     let v = word_of_int (u16_at r 44)
     in ds5_request_calibration_report (d\<lparr>ds5_hw_version := u32_at r 24, ds5_fw_version := u32_at r 28,
          update_version := v, use_vibration2 := (product_id = DS5_EDGE_PID \<or> v \<ge> 0x215)\<rparr>)))"

definition ds5_calibration_report :: "platform_answers \<Rightarrow> u8 list \<Rightarrow> ds5_device \<Rightarrow> ds5_device option" where
  "ds5_calibration_report answers r d = reads 35 r (Some (
     let speed_2x = s16_at r 19 + s16_at r 21;
         gyro = gyro_calibration speed_2x
     in ds5_send_enable_lightbar_report answers (d\<lparr>
          ds5_gyro_calib_data :=
            (gyro (pitch_denom (s16_at r 7) (s16_at r 9) (s16_at r 1)),
             gyro (axis_denom (s16_at r 11) (s16_at r 13) (s16_at r 3)),
             gyro (axis_denom (s16_at r 15) (s16_at r 17) (s16_at r 5))),
          ds5_accel_calib_data :=
            (accel_calibration (s16_at r 23) (s16_at r 25),
             accel_calibration (s16_at r 27) (s16_at r 29),
             accel_calibration (s16_at r 31) (s16_at r 33))\<rparr>)))"

definition uni_hid_parser_ds5_parse_feature_report ::
    "u16 \<Rightarrow> platform_answers \<Rightarrow> u8 list \<Rightarrow> ds5_device \<Rightarrow> ds5_device option" where
  "uni_hid_parser_ds5_parse_feature_report product_id answers r d = reads 1 r (
     if r ! 0 = 0x09 then Some (ds5_request_firmware_version_report d)
     else if r ! 0 = 0x20 then ds5_firmware_report product_id r d
     else if r ! 0 = 0x05 then ds5_calibration_report answers r d
     else Some d)"

subsection \<open>Input reports\<close>

definition ds5_parse_report :: "u8 list \<Rightarrow> ds5_device \<Rightarrow> ds5_device option" where
  "ds5_parse_report r d = do {
     g \<leftarrow> calibrated3 (ds5_gyro_calib_data d) (s16_at r 17, s16_at r 19, s16_at r 21);
     a \<leftarrow> calibrated3 (ds5_accel_calib_data d) (s16_at r 23, s16_at r 25, s16_at r 27);
     d1 \<leftarrow> on_raw (\<lambda>gp. (ds_gamepad r 2 9 6
            (press_misc_flags [(0x04, MISC_BUTTON_CAPTURE)] (r ! 11) gp))\<lparr>gyro := g, accel := a\<rparr>) d;
     let d2 = set_battery (ds_battery (r ! 54)) d1;
     (case ds5_child d2 of
        None \<Rightarrow> Some d2
      | Some t \<Rightarrow> map_option (\<lambda>t'. d2\<lparr>ds5_child := Some t'\<rparr>) (track_touch r 34 (r ! 11) t))
   }"

definition uni_hid_parser_ds5_parse_input_report :: "u8 list \<Rightarrow> ds5_device \<Rightarrow> ds5_device option" where
  "uni_hid_parser_ds5_parse_input_report r d =
     (if ds5_state d \<noteq> DS5_STATE_READY then Some d
      else reads 1 r (
        if r ! 0 \<noteq> 0x31 then Some d
        else if length r \<noteq> 78 then Some d
        else ds5_parse_report r d))"

subsection \<open>Rumble\<close>

definition vibration :: "bool \<Rightarrow> ds5_output_report \<Rightarrow> ds5_output_report" where
  "vibration v2 out =
     (if v2 then out\<lparr>valid_flag2 := valid_flag2 out OR DS5_FLAG2_COMPATIBLE_VIBRATION2\<rparr>
      else out\<lparr>valid_flag0 := valid_flag0 out OR DS5_FLAG0_COMPATIBLE_VIBRATION\<rparr>)"

definition ds5_stop_rumble_now :: "ds5_device \<Rightarrow> ds5_device option" where
  "ds5_stop_rumble_now d =
     (if motor_state d = STATE_RUMBLE_DISABLED then None
      else Some (ds5_send_output_report
             (vibration (use_vibration2 d) (ds5_output0\<lparr>valid_flag0 := DS5_FLAG0_HAPTICS_SELECT\<rparr>))
             (d\<lparr>motor_state := STATE_RUMBLE_DISABLED\<rparr>)))"

definition ds5_play_dual_rumble_now :: "u16 \<Rightarrow> u8 \<Rightarrow> u8 \<Rightarrow> ds5_device \<Rightarrow> ds5_device option" where
  "ds5_play_dual_rumble_now duration weak strong d =
     (if duration = 0
      then (if motor_state d \<noteq> STATE_RUMBLE_DISABLED then ds5_stop_rumble_now d else Some d)
      else Some (start_duration duration (ds5_send_output_report
             (vibration (use_vibration2 d) (ds5_output0\<lparr>valid_flag0 := DS5_FLAG0_HAPTICS_SELECT,
                motor_right := weak, motor_left := strong\<rparr>)) d)))"

definition uni_hid_parser_ds5_play_dual_rumble ::
    "u16 \<Rightarrow> u16 \<Rightarrow> u8 \<Rightarrow> u8 \<Rightarrow> ds5_device \<Rightarrow> ds5_device option" where
  "uni_hid_parser_ds5_play_dual_rumble = play_dual_rumble ds5_play_dual_rumble_now"

definition on_ds5_set_rumble_on :: "ds5_device \<Rightarrow> ds5_device option" where
  "on_ds5_set_rumble_on = set_rumble_on ds5_play_dual_rumble_now"

definition on_ds5_set_rumble_off :: "ds5_device \<Rightarrow> ds5_device option" where
  "on_ds5_set_rumble_off = ds5_stop_rumble_now"

subsection \<open>Correctness of the parts\<close>

text \<open>The motors follow the last report that selects the haptics; other reports leave them alone.\<close>

definition selects_haptics :: "dev_call \<Rightarrow> bool" where
  "selects_haptics c \<longleftrightarrow> (case c of Intr_sent r \<Rightarrow> r ! 4 AND DS5_FLAG0_HAPTICS_SELECT \<noteq> 0 | _ \<Rightarrow> False)"

definition ds5_still :: "dev_call list \<Rightarrow> bool" where
  "ds5_still cs = motors_off [6, 7] (filter selects_haptics cs)"

lemma ds5_report_flags:
  "selects_haptics (Intr_sent (ds5_report_bytes s out @ crc)) \<longleftrightarrow> valid_flag0 out AND DS5_FLAG0_HAPTICS_SELECT \<noteq> 0"
  "\<not> selects_haptics (Ctrl_sent r)" "\<not> selects_haptics Ready_complete"
  by (simp_all add: selects_haptics_def ds5_report_bytes_def split: prod.splits)

lemma ds5_still_snoc [simp]:
  "ds5_still []" "ds5_still (cs @ [Ctrl_sent r]) = ds5_still cs" "ds5_still (cs @ [Ready_complete]) = ds5_still cs"
  "ds5_still (cs @ [Intr_sent (ds5_report_bytes s out @ crc)]) \<longleftrightarrow>
     (if valid_flag0 out AND DS5_FLAG0_HAPTICS_SELECT \<noteq> 0 then motor_right out = 0 \<and> motor_left out = 0 else ds5_still cs)"
  by (simp_all add: ds5_still_def ds5_report_flags motors_off_def)
     (auto simp: ds5_report_bytes_def split: prod.splits)

lemma vibration_simps [simp]:
  "motor_right (vibration v out) = motor_right out" "motor_left (vibration v out) = motor_left out"
  "valid_flag0 out = 2 \<Longrightarrow> valid_flag0 (vibration v out) AND 2 \<noteq> 0"
  by (simp_all add: vibration_def)

lemma ds5_output0_simps [simp]:
  "motor_right ds5_output0 = 0" "motor_left ds5_output0 = 0" "valid_flag0 ds5_output0 = 0"
  by (simp_all add: ds5_output0_def)

lemma ds5_send_simps [simp]:
  "raw_controller (ds5_send_output_report out d) = raw_controller d"
  "motor_state (ds5_send_output_report out d) = motor_state d"
  "timer_duration (ds5_send_output_report out d) = timer_duration d"
  "timer_delayed_start (ds5_send_output_report out d) = timer_delayed_start d"
  "duration_ms (ds5_send_output_report out d) = duration_ms d"
  "ds5_state (ds5_send_output_report out d) = ds5_state d"
  "ds5_gyro_calib_data (ds5_send_output_report out d) = ds5_gyro_calib_data d"
  "ds5_accel_calib_data (ds5_send_output_report out d) = ds5_accel_calib_data d"
  "ds5_child (ds5_send_output_report out d) = ds5_child d"
  "ds5_still (calls (ds5_send_output_report out d)) \<longleftrightarrow>
     (if valid_flag0 out AND DS5_FLAG0_HAPTICS_SELECT \<noteq> 0 then motor_right out = 0 \<and> motor_left out = 0
      else ds5_still (calls d))"
  by (simp_all add: ds5_send_output_report_def call_def Let_def)

lemmas ds5_rumble_defs = ds5_stop_rumble_now_def ds5_play_dual_rumble_now_def start_duration_def timers_def

interpretation ds5_motor: rumble_motor ds5_play_dual_rumble_now ds5_stop_rumble_now ds5_still "\<lambda>duration. True"
  by unfold_locales (auto simp: ds5_rumble_defs split: if_splits)

text \<open>The sequence numbers of the reports on the interrupt channel: 0 to 14, and again.\<close>

fun seq_tag :: "dev_call \<Rightarrow> u8 list" where
  "seq_tag (Intr_sent r) = [r ! 2]"
| "seq_tag _ = []"

definition seq_tags :: "dev_call list \<Rightarrow> u8 list" where
  "seq_tags cs = concat (map seq_tag cs)"

definition tags_from_start :: "nat \<Rightarrow> u8 list" where
  "tags_from_start n = map (\<lambda>i. word_of_nat (i mod 15 * 16)) [0 ..< n]"

definition seq_ok :: "ds5_device \<Rightarrow> bool" where
  "seq_ok d \<longleftrightarrow> (\<exists>n. seq_tags (calls d) = tags_from_start n \<and> output_seq d = word_of_nat (n mod 15))"

lemma next_seq: "(if word_of_nat (n mod 15) + 1 = (15 :: u8) then 0 else word_of_nat (n mod 15) + 1) = (word_of_nat (Suc n mod 15) :: u8)"
proof -
  have "n mod 15 \<in> set [0 ..< 15]" by simp
  then show ?thesis by (simp only: mod_Suc) (auto simp: upt_rec)
qed

lemma seq_tag_byte: "push_bit 4 (word_of_nat (n mod 15)) = (word_of_nat (n mod 15 * 16) :: u8)"
  by (simp add: push_bit_eq_mult ac_simps)

lemma seq_ok_send [simp]: "seq_ok d \<Longrightarrow> seq_ok (ds5_send_output_report out d)"
proof -
  assume "seq_ok d"
  then obtain n where n: "seq_tags (calls d) = tags_from_start n" "output_seq d = word_of_nat (n mod 15)"
    by (auto simp: seq_ok_def)
  have "seq_tags (calls (ds5_send_output_report out d)) = tags_from_start (Suc n)"
    using n by (simp add: ds5_send_output_report_def call_def seq_tags_def tags_from_start_def ds5_report_bytes_def
        seq_tag_byte Let_def split: prod.splits)
  moreover have "output_seq (ds5_send_output_report out d) = word_of_nat (Suc n mod 15)"
    using n next_seq [of n] by (simp add: ds5_send_output_report_def call_def Let_def)
  ultimately show ?thesis by (auto simp: seq_ok_def)
qed

lemma seq_tags_append: "seq_tags (cs @ cs') = seq_tags cs @ seq_tags cs'"
  by (simp add: seq_tags_def)

lemma seq_ok_cong: "calls d' = calls d @ cs \<Longrightarrow> seq_tags cs = [] \<Longrightarrow> output_seq d' = output_seq d \<Longrightarrow> seq_ok d \<Longrightarrow> seq_ok d'"
  by (simp add: seq_ok_def seq_tags_append)

lemma seq_tags_quiet [simp]: "seq_tags [] = []" "seq_tags [Ctrl_sent r] = []" "seq_tags [Ready_complete] = []"
  by (simp_all add: seq_tags_def)

definition ds5_calibrated :: "ds5_device \<Rightarrow> bool" where
  "ds5_calibrated d \<longleftrightarrow> calibration3_ok (ds5_gyro_calib_data d) \<and> calibration3_ok (ds5_accel_calib_data d)"

definition ds5_report_ready :: "ds5_device \<Rightarrow> bool" where
  "ds5_report_ready d \<longleftrightarrow> ds5_calibrated d \<and> touch_ok (ds5_child d)"

lemma ds5_init_ready:
  "ds5_calibrated d \<Longrightarrow>
   ds5_report_ready (uni_hid_parser_ds5_init_report d) \<and>
   pads_ok (- 508) 512 1020 (raw_controller (uni_hid_parser_ds5_init_report d))"
  by (auto simp: ds5_report_ready_def ds5_calibrated_def uni_hid_parser_ds5_init_report_def init_gamepad_def
      pads_ok_clean touch_ok_def clean_touch_def clean_mouse_def split: option.splits)

lemma ds5_parse_report_ok:
  assumes "ds5_report_ready d" "ctl_data (raw_controller d) = Class_gamepad gp"
  shows "\<exists>d'. ds5_parse_report r d = Some d' \<and> ds5_report_ready d' \<and> ds_pads_ok (raw_controller d')"
proof -
  obtain g where g: "calibrated3 (ds5_gyro_calib_data d) (s16_at r 17, s16_at r 19, s16_at r 21) = Some g"
    using assms(1) calibrated3_ok unfolding ds5_report_ready_def ds5_calibrated_def by blast
  obtain a where a: "calibrated3 (ds5_accel_calib_data d) (s16_at r 23, s16_at r 25, s16_at r 27) = Some a"
    using assms(1) calibrated3_ok unfolding ds5_report_ready_def ds5_calibrated_def by blast
  let ?gp = "press_misc_flags [(0x04, MISC_BUTTON_CAPTURE)] (r ! 11) gp"
  have p: "ds_pads_ok \<lparr>ctl_data = Class_gamepad ((ds_gamepad r 2 9 6 ?gp)\<lparr>gyro := g, accel := a\<rparr>),
      battery = ds_battery (r ! 54)\<rparr>"
    by (rule ds_pads_ok_gamepad(1)) simp
  have c: "(raw_controller d)\<lparr>ctl_data := v, battery := b\<rparr> = \<lparr>ctl_data = v, battery = b\<rparr>" for v b
    by simp
  show ?thesis
  proof (cases "ds5_child d")
    case None
    with assms g a p show ?thesis
      by (simp add: ds5_parse_report_def on_raw_gamepad set_battery_def ds5_report_ready_def
          ds5_calibrated_def c Let_def)
  next
    case (Some t)
    then obtain t' where "track_touch r 34 (r ! 11) t = Some t'" "touch_ok (Some t')"
      using track_touch_ok [of t r 34 "r ! 11"] assms(1) by (auto simp: ds5_report_ready_def)
    with assms g a p Some show ?thesis
      by (simp add: ds5_parse_report_def on_raw_gamepad set_battery_def ds5_report_ready_def
          ds5_calibrated_def c Let_def)
  qed
qed

lemma ds5_parse_ready:
  assumes "ds5_report_ready d" "r \<noteq> []" "pads_ok (- 508) 512 1020 (raw_controller d)"
  shows "\<exists>d'. uni_hid_parser_ds5_parse_input_report r d = Some d' \<and> ds5_report_ready d' \<and>
     pads_ok (- 508) 512 1020 (raw_controller d')"
proof -
  obtain gp where gp: "ctl_data (raw_controller d) = Class_gamepad gp" using pads_ok_class [OF assms(3)] by blast
  have "1 \<le> length r" using assms(2) by (cases r) auto
  with ds5_parse_report_ok [OF assms(1) gp, of r] assms show ?thesis
    by (auto simp: uni_hid_parser_ds5_parse_input_report_def ds_pads_ok_def)
qed

interpretation ds5_raw: raw_parser raw_controller uni_hid_parser_ds5_init_report
    uni_hid_parser_ds5_parse_input_report ds5_calibrated ds5_report_ready "\<lambda>r. r \<noteq> []" "- 508" 512 1020
proof unfold_locales
  show "ds5_report_ready d \<Longrightarrow> ds5_calibrated d" for d by (simp add: ds5_report_ready_def)
qed (use ds5_init_ready ds5_parse_ready in blast)+

subsection \<open>The parser as a whole\<close>

datatype ds5_event =
    Ds5_input "u8 list"
  | Ds5_feature u16 platform_answers "u8 list"
  | Ds5_leds u8
  | Ds5_lightbar u8 u8 u8
  | Ds5_trigger adaptive_trigger trigger_effect
  | Ds5_motor motor_event

fun ds5_handle :: "ds5_event \<Rightarrow> ds5_device \<Rightarrow> ds5_device option" where
  "ds5_handle (Ds5_input r) d = uni_hid_parse_input_report
     \<lparr>rp_init_report = Some uni_hid_parser_ds5_init_report,
      rp_parse_input_report = Some uni_hid_parser_ds5_parse_input_report, rp_parse_usage = None\<rparr> [] r d"
| "ds5_handle (Ds5_feature product_id answers r) d = uni_hid_parser_ds5_parse_feature_report product_id answers r d"
| "ds5_handle (Ds5_leds v) d = Some (uni_hid_parser_ds5_set_player_leds v d)"
| "ds5_handle (Ds5_lightbar r g b) d = Some (uni_hid_parser_ds5_set_lightbar_color r g b d)"
| "ds5_handle (Ds5_trigger t e) d = Some (ds5_set_adaptive_trigger_effect t e d)"
| "ds5_handle (Ds5_motor e) d = motor_run ds5_play_dual_rumble_now ds5_stop_rumble_now [e] d"

primrec ds5_run :: "ds5_event list \<Rightarrow> ds5_device \<Rightarrow> ds5_device option" where
  "ds5_run [] d = Some d"
| "ds5_run (e # es) d = (case ds5_handle e d of None \<Rightarrow> None | Some d' \<Rightarrow> ds5_run es d')"

fun ds5_event_ok :: "ds5_event \<Rightarrow> bool" where
  "ds5_event_ok (Ds5_input r) \<longleftrightarrow> r \<noteq> []"
| "ds5_event_ok (Ds5_feature _ _ r) \<longleftrightarrow>
     r \<noteq> [] \<and> (r ! 0 = 0x05 \<longrightarrow> 35 \<le> length r) \<and> (r ! 0 = 0x20 \<longrightarrow> 46 \<le> length r)"
| "ds5_event_ok _ \<longleftrightarrow> True"

definition ds5_inv :: "ds5_device \<Rightarrow> bool" where
  "ds5_inv d \<longleftrightarrow> ds5_calibrated d \<and> ds5_motor.motor_inv d \<and> seq_ok d"

lemma ds5_motor_inv_cong:
  "motor_state d' = motor_state d \<Longrightarrow> timers d' = timers d \<Longrightarrow> duration_ms d' = duration_ms d \<Longrightarrow>
   (ds5_still (calls d) \<Longrightarrow> ds5_still (calls d')) \<Longrightarrow> ds5_motor.motor_inv d \<Longrightarrow> ds5_motor.motor_inv d'"
  by (auto simp: ds5_motor.motor_inv_def timers_def split: state_rumble.splits)

definition ds5_frame :: "ds5_device \<Rightarrow> ds5_device \<Rightarrow> bool" where
  "ds5_frame d d' \<longleftrightarrow> motor_state d' = motor_state d \<and> timers d' = timers d \<and> duration_ms d' = duration_ms d \<and>
     calls d' = calls d \<and> output_seq d' = output_seq d"

lemma on_raw_ds5_frame: "on_raw f d = Some d' \<Longrightarrow> ds5_frame d d' \<and> ds5_child d' = ds5_child d"
  by (auto simp: on_raw_def ds5_frame_def timers_def)

lemma ds5_input_frame:
  assumes "ds5_handle (Ds5_input r) d = Some d'"
  shows "ds5_frame d d'"
proof -
  have i: "ds5_frame d (uni_hid_parser_ds5_init_report d)"
    by (simp add: ds5_frame_def uni_hid_parser_ds5_init_report_def init_gamepad_def timers_def)
  have "ds5_frame d0 d'" if "uni_hid_parser_ds5_parse_input_report r d0 = Some d'" for d0
    using that
    by (auto simp: uni_hid_parser_ds5_parse_input_report_def ds5_parse_report_def
        reads_def set_battery_def ds5_frame_def timers_def Let_def
        dest!: on_raw_ds5_frame split: if_splits bind_splits option.splits)
  with i assms show ?thesis
    by (auto simp: uni_hid_parse_input_report_def Let_def ds5_frame_def split: bind_splits)
qed

lemma ds5_send_ok:
  "ds5_inv d \<Longrightarrow> valid_flag0 out AND DS5_FLAG0_HAPTICS_SELECT = 0 \<Longrightarrow> ds5_inv (ds5_send_output_report out d)"
  by (auto simp: ds5_inv_def ds5_calibrated_def timers_def intro: ds5_motor_inv_cong [of _ d])

lemma ds5_call_ok:
  "ds5_inv d \<Longrightarrow> c = Ready_complete \<or> (\<exists>r. c = Ctrl_sent r) \<Longrightarrow> ds5_inv (call c d)"
  by (auto simp: ds5_inv_def ds5_calibrated_def timers_def call_def
      intro!: ds5_motor_inv_cong [of _ d] seq_ok_cong [of _ d "[c]"])

lemma ds5_update_ok:
  "ds5_inv d \<Longrightarrow> ds5_inv (d\<lparr>ds5_state := s\<rparr>)" "ds5_inv d \<Longrightarrow> ds5_inv (d\<lparr>ds5_child := c\<rparr>)"
  "ds5_inv d \<Longrightarrow> ds5_inv (d\<lparr>ds5_hw_version := h, ds5_fw_version := f, update_version := u, use_vibration2 := v\<rparr>)"
  "ds5_inv d \<Longrightarrow> calibration3_ok g \<Longrightarrow> calibration3_ok a \<Longrightarrow>
     ds5_inv (d\<lparr>ds5_gyro_calib_data := g, ds5_accel_calib_data := a\<rparr>)"
  by (auto simp: ds5_inv_def ds5_calibrated_def timers_def
      intro!: ds5_motor_inv_cong [of _ d] seq_ok_cong [of _ d "[]"])

lemma ds5_feature_ok:
  assumes "ds5_inv d" "ds5_event_ok (Ds5_feature product_id answers r)"
  shows "\<exists>d'. uni_hid_parser_ds5_parse_feature_report product_id answers r d = Some d' \<and> ds5_inv d'"
proof -
  have "1 \<le> length r" using assms(2) by (cases r) auto
  with assms show ?thesis
    by (auto simp: uni_hid_parser_ds5_parse_feature_report_def ds5_calibration_report_def ds5_firmware_report_def
        ds5_request_firmware_version_report_def ds5_request_calibration_report_def
        ds5_send_enable_lightbar_report_def Let_def
        intro!: ds5_call_ok ds5_update_ok ds5_send_ok split: prod.splits)
qed

lemma ds5_handle_ok:
  assumes "ds5_inv d" "ds5_event_ok e"
  shows "\<exists>d'. ds5_handle e d = Some d' \<and> ds5_inv d'"
proof (cases e)
  case (Ds5_input r)
  then obtain d' where d': "ds5_handle e d = Some d'" "ds5_calibrated d'"
    using ds5_raw.report_ok [of d r] assms by (auto simp: ds5_inv_def)
  with ds5_input_frame [of r d d'] Ds5_input assms(1) show ?thesis
    by (auto simp: ds5_inv_def ds5_frame_def intro: ds5_motor_inv_cong seq_ok_cong [of _ d "[]"])
next
  case (Ds5_motor m)
  show ?thesis
  proof (cases "motor_enabled m d")
    case True
    then obtain d' where d': "motor_step ds5_play_dual_rumble_now ds5_stop_rumble_now m d = Some d'"
        "ds5_motor.motor_inv d'"
      using ds5_motor.motor_step_ok [of d m] assms Ds5_motor by (auto simp: ds5_inv_def)
    have "ds5_calibrated d' \<and> seq_ok d'"
    proof -
      have c: "seq_ok (d\<lparr>timer_delayed_start := t\<rparr>)" "seq_ok (d\<lparr>timer_duration := t\<rparr>)"
          "seq_ok (cancel_rumble d)" for t
        using assms(1) by (auto simp: ds5_inv_def cancel_rumble_def intro!: seq_ok_cong [of _ d "[]"]
            split: state_rumble.splits)
      have "seq_ok (d\<lparr>motor_state := s\<rparr>)" if "seq_ok d" for s and d :: ds5_device
        using that by (auto intro: seq_ok_cong [of _ d "[]"])
      moreover have "seq_ok (d\<lparr>motor_state := s, timer_duration := t\<rparr>)" if "seq_ok d" for s t and d :: ds5_device
        using that by (auto intro: seq_ok_cong [of _ d "[]"])
      moreover have "seq_ok (d\<lparr>motor_state := s, duration_ms := x, strong_magnitude := y, weak_magnitude := z,
          timer_delayed_start := t\<rparr>)" if "seq_ok d" for s t x y z and d :: ds5_device
        using that by (auto intro: seq_ok_cong [of _ d "[]"])
      ultimately show ?thesis
        using d'(1) assms(1) c
        by (cases m) (auto simp: ds5_inv_def ds5_calibrated_def play_dual_rumble_def set_rumble_on_def
            ds5_rumble_defs cancel_rumble_def split: if_splits state_rumble.splits)
    qed
    with d' True Ds5_motor show ?thesis by (simp add: ds5_inv_def)
  qed (use assms Ds5_motor in simp)
qed (use assms ds5_feature_ok in \<open>auto simp: uni_hid_parser_ds5_set_player_leds_def
    uni_hid_parser_ds5_set_lightbar_color_def ds5_set_adaptive_trigger_effect_def
    intro!: ds5_send_ok split: adaptive_trigger.splits\<close>)

lemma ds5_run_ok:
  "ds5_inv d \<Longrightarrow> list_all ds5_event_ok es \<Longrightarrow> \<exists>d'. ds5_run es d = Some d' \<and> ds5_inv d'"
proof (induction es arbitrary: d)
  case (Cons e es)
  obtain d' where "ds5_handle e d = Some d'" "ds5_inv d'"
    using ds5_handle_ok [of d e] Cons.prems by auto
  with Cons.IH [of d'] Cons.prems show ?case by simp
qed simp

lemma ds5_setup_inv: "calls d = [] \<Longrightarrow> ds5_inv (uni_hid_parser_ds5_setup d)"
  by (auto simp: ds5_inv_def uni_hid_parser_ds5_setup_def ds5_request_pairing_info_report_def
      ds5_motor.motor_inv_def timers_def ds5_calibrated_def call_def seq_ok_def tags_from_start_def
      ds5_still_def ds5_report_flags motors_off_def intro!: exI [of _ 0])

text \<open>
  C17. The DualSense parser is safe: after its set-up, over every sequence of input reports, feature
  reports as long as the fields the parser reads, calls for the lights, the triggers and the rumble
  motors with any duration, and timer events, no assertion fails, nothing divides by 0 and no byte past
  a report is read; sticks and pedals keep their ranges; the reports sent carry the sequence
  numbers 0 to 14 in turn; at most one rumble timer runs, and when the running timers run out the
  motors are off.
\<close>

theorem ds5_safe:
  assumes "calls d = []" "list_all ds5_event_ok es" "r \<noteq> []"
  shows "\<exists>d1 d2 d3 n. ds5_run es (uni_hid_parser_ds5_setup d) = Some d1 \<and>
     (timer_duration d1 = None \<or> timer_delayed_start d1 = None) \<and>
     seq_tags (calls d1) = tags_from_start n \<and>
     ds5_handle (Ds5_input r) d1 = Some d2 \<and> pads_ok (- 508) 512 1020 (raw_controller d2) \<and>
     motor_run ds5_play_dual_rumble_now ds5_stop_rumble_now (pending_events d1) d1 = Some d3 \<and>
     no_rumble d3 \<and> ds5_still (calls d3)"
proof -
  obtain d1 where d1: "ds5_run es (uni_hid_parser_ds5_setup d) = Some d1" "ds5_inv d1"
    using ds5_run_ok [OF ds5_setup_inv [OF assms(1)] assms(2)] by blast
  moreover have "timer_duration d1 = None \<or> timer_delayed_start d1 = None"
    using d1(2) by (auto simp: ds5_inv_def ds5_motor.motor_inv_def timers_def split: state_rumble.splits)
  moreover obtain n where "seq_tags (calls d1) = tags_from_start n"
    using d1(2) by (auto simp: ds5_inv_def seq_ok_def)
  moreover obtain d2 where "ds5_handle (Ds5_input r) d1 = Some d2" "pads_ok (- 508) 512 1020 (raw_controller d2)"
    using ds5_raw.report_ok [of d1 r] d1(2) assms(3) by (auto simp: ds5_inv_def)
  moreover obtain d3 where "motor_run ds5_play_dual_rumble_now ds5_stop_rumble_now (pending_events d1) d1 = Some d3"
      "no_rumble d3" "ds5_still (calls d3)"
    using ds5_motor.motors_stop [of d1] d1(2) by (auto simp: ds5_inv_def)
  ultimately show ?thesis by blast
qed

definition ds5_fresh :: ds5_device where
  "ds5_fresh = \<lparr>raw_controller = \<lparr>ctl_data = Class_none gamepad0, battery = 0\<rparr>, calls = [], timer_duration = None,
     timer_delayed_start = None, motor_state = STATE_RUMBLE_DISABLED, weak_magnitude = 0, strong_magnitude = 0,
     duration_ms = 0, output_seq = 0, ds5_state = DS5_STATE_INITIAL, ds5_hw_version = 0, ds5_fw_version = 0,
     update_version = 0, use_vibration2 = False,
     ds5_gyro_calib_data = (default_gyro, default_gyro, default_gyro),
     ds5_accel_calib_data = (default_accel, default_accel, default_accel), ds5_child = None\<rparr>"

definition ds5_session :: "ds5_event list" where
  "ds5_session = [Ds5_feature 0x0ce6 (True, True, True) (0x09 # replicate 19 0),
     Ds5_feature 0x0ce6 (True, True, True) (0x20 # replicate 63 0),
     Ds5_feature 0x0ce6 (True, True, True) (0x05 # replicate 40 0),
     Ds5_input (0x31 # replicate 77 0), Ds5_motor (Play_rumble 100 500 128 255), Ds5_motor (Play_rumble 0 0 0 0),
     Ds5_trigger UNI_ADAPTIVE_TRIGGER_TYPE_LEFT (ds5_new_adaptive_trigger_effect_feedback 3 5)]"

theorem ds5_safe_witness:
  "\<exists>d1 d3 n. ds5_run ds5_session (uni_hid_parser_ds5_setup ds5_fresh) = Some d1 \<and>
     seq_tags (calls d1) = tags_from_start n \<and>
     motor_run ds5_play_dual_rumble_now ds5_stop_rumble_now (pending_events d1) d1 = Some d3 \<and> no_rumble d3"
proof -
  have "calls ds5_fresh = []" "list_all ds5_event_ok ds5_session" "[0x31 :: u8] \<noteq> []"
    by (simp_all add: ds5_fresh_def ds5_session_def)
  from ds5_safe [OF this] show ?thesis by blast
qed

text \<open>
  The strengths of a trigger effect are 1 to 8: a call with strength 0, which the interface
  allows, gives the same report as the strongest, strength 8.
\<close>

theorem trigger_strength_zero_is_strongest:
  "ds5_new_adaptive_trigger_effect_feedback position 0 = ds5_new_adaptive_trigger_effect_feedback position 8 \<and>
   ds5_new_adaptive_trigger_effect_vibration position 0 frequency =
     ds5_new_adaptive_trigger_effect_vibration position 8 frequency"
  by (simp add: ds5_new_adaptive_trigger_effect_feedback_def ds5_new_adaptive_trigger_effect_vibration_def)

end
