(* ===== verification/Ps3.thy ===== *)
theory Ps3
  imports Ds4
begin

text \<open>
  The DualShock 3 and PS Move parsers, \<^verbatim>\<open>parser/uni_hid_parser_ds3.c\<close> and
  \<^verbatim>\<open>parser/uni_hid_parser_psmove.c\<close>. Both stop the motors only while a rumble is in progress, so that
  they promise \<open>rumble_motor\<close> for durations other than 0 only; the theorems show what happens with 0.
\<close>

subsection \<open>DualShock 3\<close>

datatype ds3_fsm = DS3_FSM_0 | DS3_FSM_REQUIRES_LED_UPDATE | DS3_FSM_LED_UPDATED

record ds3_device = rumble_device +
  ds3_state :: ds3_fsm
  ds3_player_leds :: u8
  clone_controller :: bool

definition ds3_led_blink :: "u8 list" where
  "ds3_led_blink = [0xff, 0x27, 0x10, 0x00, 0x32, 0xff, 0x27, 0x10, 0x00, 0x32,
     0xff, 0x27, 0x10, 0x00, 0x32, 0xff, 0x27, 0x10, 0x00, 0x32]"

text \<open>
  The report: duration and switch of the right motor, duration and force of the left one, the LEDs and
  how they blink. It goes to the control channel, and to the interrupt channel of a clone too.
\<close>

definition ds3_output_report :: "u8 list \<Rightarrow> u8 \<Rightarrow> u8 list" where
  "ds3_output_report motors leds = [0x52, 0x01, 0] @ motors @ [0, 0, 0, 0, leds] @ ds3_led_blink @ replicate 5 0"

definition ds3_send_output_report :: "u8 list \<Rightarrow> ds3_device \<Rightarrow> ds3_device" where
  "ds3_send_output_report out d =
     (let d1 = call (Ctrl_sent out) d in if clone_controller d then call (Intr_sent out) d1 else d1)"

definition ds3_update_led :: "u8 \<Rightarrow> ds3_device \<Rightarrow> ds3_device" where
  "ds3_update_led leds d =
     ds3_send_output_report (ds3_output_report [0, 0, 0, 0] (push_bit 1 leds)) (d\<lparr>ds3_state := DS3_FSM_LED_UPDATED\<rparr>)"

definition uni_hid_parser_ds3_set_player_leds :: "u8 \<Rightarrow> ds3_device \<Rightarrow> ds3_device" where
  "uni_hid_parser_ds3_set_player_leds leds d =
     (let d1 = d\<lparr>ds3_player_leds := leds\<rparr>
      in if ds3_state d1 \<in> {DS3_FSM_0, DS3_FSM_REQUIRES_LED_UPDATE}
         then d1\<lparr>ds3_state := DS3_FSM_REQUIRES_LED_UPDATE\<rparr>
         else ds3_update_led leds d1)"

definition uni_hid_parser_ds3_setup :: "ds3_device \<Rightarrow> ds3_device" where
  "uni_hid_parser_ds3_setup d = call Ready_complete (call (Ctrl_sent [0x53, 0xf4, 0x42, 0x03, 0x00, 0x00]) d)"

definition ds3_battery :: "u8 \<Rightarrow> u8 option" where
  "ds3_battery status = switch status
     [(1, Some 0), (2, Some 64), (3, Some 128), (4, Some 192), (5, Some 255), (0xee, Some 255)] None"

definition ds3_gamepad :: "u8 list \<Rightarrow> uni_gamepad \<Rightarrow> uni_gamepad" where
  "ds3_gamepad r gp =
     (let gp1 = gp\<lparr>axis_x := stick (r ! 6), axis_y := stick (r ! 7), axis_rx := stick (r ! 8), axis_ry := stick (r ! 9),
            brake := uint (r ! 18) * 4, throttle := uint (r ! 19) * 4\<rparr>;
          gp2 = press_misc_flags [(0x01, MISC_BUTTON_SELECT), (0x08, MISC_BUTTON_START)] (r ! 2) gp1;
          gp3 = press_flags [(0x02, BUTTON_THUMB_L), (0x04, BUTTON_THUMB_R)] (r ! 2) gp2;
          gp4 = press_dpad_flags [(0x10, DPAD_UP), (0x20, DPAD_RIGHT), (0x40, DPAD_DOWN), (0x80, DPAD_LEFT)] (r ! 2) gp3;
          gp5 = press_flags [(0x01, BUTTON_TRIGGER_L), (0x02, BUTTON_TRIGGER_R), (0x04, BUTTON_SHOULDER_L),
                (0x08, BUTTON_SHOULDER_R), (0x10, BUTTON_Y), (0x20, BUTTON_B), (0x40, BUTTON_A), (0x80, BUTTON_X)]
                (r ! 3) gp4
      in press_misc_flags [(0x01, MISC_BUTTON_SYSTEM)] (r ! 4) gp5)"

text \<open>The length is checked for 30 bytes; the battery is the 31st.\<close>

definition uni_hid_parser_ds3_parse_input_report :: "u8 list \<Rightarrow> ds3_device \<Rightarrow> ds3_device option" where
  "uni_hid_parser_ds3_parse_input_report r d =
     (let d1 = (if ds3_state d = DS3_FSM_REQUIRES_LED_UPDATE then ds3_update_led (ds3_player_leds d) d else d)
      in if length r < 30 then Some d1
         else if r ! 0 \<noteq> 0x01 then Some d1
         else reads 31 r (map_option
           (\<lambda>d2. case ds3_battery (r ! 30) of None \<Rightarrow> d2 | Some b \<Rightarrow> set_battery b d2)
           (on_raw (ds3_gamepad r) d1)))"

definition ds3_stop_rumble_now :: "ds3_device \<Rightarrow> ds3_device option" where
  "ds3_stop_rumble_now d =
     (if motor_state d \<noteq> STATE_RUMBLE_IN_PROGRESS then None
      else Some (ds3_send_output_report (ds3_output_report [0, 0, 0, 0] (push_bit 1 (ds3_player_leds d)))
             (d\<lparr>motor_state := STATE_RUMBLE_DISABLED\<rparr>)))"

definition ds3_play_dual_rumble_now :: "u16 \<Rightarrow> u8 \<Rightarrow> u8 \<Rightarrow> ds3_device \<Rightarrow> ds3_device option" where
  "ds3_play_dual_rumble_now duration weak strong d =
     (if duration = 0
      then (if motor_state d = STATE_RUMBLE_IN_PROGRESS then ds3_stop_rumble_now d else Some d)
      else Some (start_duration duration (ds3_send_output_report
             (ds3_output_report [0xff, if weak \<noteq> 0 then 1 else 0, 0xff, strong] (push_bit 1 (ds3_player_leds d))) d)))"

definition uni_hid_parser_ds3_play_dual_rumble ::
    "u16 \<Rightarrow> u16 \<Rightarrow> u8 \<Rightarrow> u8 \<Rightarrow> ds3_device \<Rightarrow> ds3_device option" where
  "uni_hid_parser_ds3_play_dual_rumble = play_dual_rumble ds3_play_dual_rumble_now"

definition on_ds3_set_rumble_on :: "ds3_device \<Rightarrow> ds3_device option" where
  "on_ds3_set_rumble_on = set_rumble_on ds3_play_dual_rumble_now"

definition on_ds3_set_rumble_off :: "ds3_device \<Rightarrow> ds3_device option" where
  "on_ds3_set_rumble_off = ds3_stop_rumble_now"

text \<open>The motors follow the last output report on the control channel.\<close>

definition last_ds3_report :: "dev_call list \<Rightarrow> u8 list option" where
  "last_ds3_report cs =
     fold (\<lambda>c m. case c of Ctrl_sent r \<Rightarrow> if r ! 0 = 0x52 then Some r else m | _ \<Rightarrow> m) cs None"

definition ds3_still :: "dev_call list \<Rightarrow> bool" where
  "ds3_still cs = (case last_ds3_report cs of None \<Rightarrow> True | Some r \<Rightarrow> r ! 4 = 0 \<and> r ! 6 = 0)"

lemma last_ds3_report_append:
  "last_ds3_report (cs @ ds) =
   fold (\<lambda>c m. case c of Ctrl_sent r \<Rightarrow> if r ! 0 = 0x52 then Some r else m | _ \<Rightarrow> m) ds (last_ds3_report cs)"
  by (simp add: last_ds3_report_def)

lemma ds3_still_start [simp]: "ds3_still []"
  by (simp add: ds3_still_def last_ds3_report_def)

lemma ds3_still_send [simp]:
  "ds3_still (calls (ds3_send_output_report (ds3_output_report [dr, en, dl, force] leds) d)) \<longleftrightarrow> en = 0 \<and> force = 0"
  by (simp add: ds3_still_def ds3_send_output_report_def call_def last_ds3_report_append ds3_output_report_def Let_def)

lemma ds3_send_simps [simp]:
  "raw_controller (ds3_send_output_report out d) = raw_controller d"
  "motor_state (ds3_send_output_report out d) = motor_state d"
  "timer_duration (ds3_send_output_report out d) = timer_duration d"
  "timer_delayed_start (ds3_send_output_report out d) = timer_delayed_start d"
  by (simp_all add: ds3_send_output_report_def call_def Let_def)

lemmas ds3_rumble_defs = ds3_stop_rumble_now_def ds3_play_dual_rumble_now_def start_duration_def timers_def

interpretation ds3_motor: rumble_motor ds3_play_dual_rumble_now ds3_stop_rumble_now ds3_still "\<lambda>duration. duration \<noteq> 0"
  by unfold_locales (auto simp: ds3_rumble_defs intro: state_disabled split: if_splits)

lemma ds3_pads_ok:
  "ctl_data c = Class_gamepad (ds3_gamepad r gp) \<Longrightarrow> pads_ok (- 508) 512 1020 c"
  using u8_range [of "r ! 18"] u8_range [of "r ! 19"]
  by (simp add: pads_ok_def ds3_gamepad_def Let_def gamepad_frame stick_range)

lemma ds3_parse_ready:
  assumes "length r \<noteq> 30" "pads_ok (- 508) 512 1020 (raw_controller d)"
  shows "\<exists>d'. uni_hid_parser_ds3_parse_input_report r d = Some d' \<and> pads_ok (- 508) 512 1020 (raw_controller d')"
proof -
  let ?d = "if ds3_state d = DS3_FSM_REQUIRES_LED_UPDATE then ds3_update_led (ds3_player_leds d) d else d"
  have c: "raw_controller ?d = raw_controller d" by (simp add: ds3_update_led_def)
  obtain gp where "ctl_data (raw_controller ?d) = Class_gamepad gp"
    using pads_ok_class [OF assms(2)] c by metis
  from on_raw_gamepad [OF this, of "ds3_gamepad r"] show ?thesis
    using assms c
    by (cases "ds3_battery (r ! 30)")
       (auto simp: uni_hid_parser_ds3_parse_input_report_def Let_def set_battery_def simp del: c
         intro!: ds3_pads_ok)
qed

interpretation ds3_raw: raw_parser raw_controller init_gamepad uni_hid_parser_ds3_parse_input_report
    "\<lambda>d. True" "\<lambda>d. True" "\<lambda>r. length r \<noteq> 30" "- 508" 512 1020
  by unfold_locales (auto simp: pads_ok_clean intro: ds3_parse_ready)

text \<open>
  A DualShock 3 report of 30 bytes is read past its end: the parser asks for 30 bytes and reads the
  battery from the 31st.
\<close>

theorem ds3_short_report_overread:
  assumes "length r = 30" "r ! 0 = 0x01"
  shows "uni_hid_parser_ds3_parse_input_report r d = None"
  using assms by (simp add: uni_hid_parser_ds3_parse_input_report_def reads_def Let_def)

definition ds3_fresh :: ds3_device where
  "ds3_fresh = \<lparr>raw_controller = \<lparr>ctl_data = Class_none gamepad0, battery = 0\<rparr>, calls = [], timer_duration = None,
     timer_delayed_start = None, motor_state = STATE_RUMBLE_DISABLED, weak_magnitude = 0, strong_magnitude = 0,
     duration_ms = 0, ds3_state = DS3_FSM_0, ds3_player_leds = 0, clone_controller = False\<rparr>"

theorem ds3_short_report_overread_witness:
  "uni_hid_parser_ds3_parse_input_report (0x01 # replicate 29 0) ds3_fresh = None"
  by (rule ds3_short_report_overread) simp_all

text \<open>
  A stop call can leave the motors of a DualShock 3 running for ever. While a rumble is in progress,
  a delayed rumble removes the timer that stops it; a call with duration 0 then removes the
  delayed one too and sends nothing: no timer is left, and the last report has the motors on.
\<close>

theorem ds3_rumble_never_stops:
  assumes "no_rumble d" "duration \<noteq> 0" "delay \<noteq> 0" "weak \<noteq> 0 \<or> strong \<noteq> 0"
  shows "\<exists>d'. motor_run ds3_play_dual_rumble_now ds3_stop_rumble_now
       [Play_rumble 0 duration weak strong, Play_rumble delay duration weak strong, Play_rumble 0 0 0 0] d = Some d' \<and>
     timers d' = (None, None) \<and> \<not> ds3_still (calls d') \<and>
     motor_run ds3_play_dual_rumble_now ds3_stop_rumble_now [Duration_ends, Delay_ends, Play_rumble 0 0 0 0] d' = Some d'"
  using assms
  by (auto simp: no_rumble_def play_dual_rumble_def cancel_rumble_def ds3_rumble_defs)

theorem ds3_rumble_never_stops_witness:
  "\<exists>d'. motor_run ds3_play_dual_rumble_now ds3_stop_rumble_now
       [Play_rumble 0 500 255 0, Play_rumble 100 500 255 0, Play_rumble 0 0 0 0] ds3_fresh = Some d' \<and>
     timers d' = (None, None) \<and> \<not> ds3_still (calls d')"
proof -
  have "no_rumble ds3_fresh" by (simp add: no_rumble_def ds3_fresh_def)
  from ds3_rumble_never_stops [OF this, of 500 100 255 0] show ?thesis by auto
qed

subsection \<open>PS Move\<close>

datatype psmove_model = PSMOVE_MODEL_UNK | PSMOVE_MODEL_ZCM1 | PSMOVE_MODEL_ZCM2

text \<open>The one magnitude of the PS Move is \<open>weak_magnitude\<close> of the record.\<close>

record psmove_device = rumble_device +
  psmove_model :: psmove_model
  led_rgb :: "u8 \<times> u8 \<times> u8"

definition psmove_send_output_report :: "u8 \<times> u8 \<times> u8 \<Rightarrow> u8 \<Rightarrow> psmove_device \<Rightarrow> psmove_device" where
  "psmove_send_output_report rgb rumble = (case rgb of (r, g, b) \<Rightarrow>
     call (Intr_sent [0xa2, 0x06, 0, r, g, b, 0, rumble, 0, 0]))"

definition uni_hid_parser_psmove_set_lightbar_color :: "u8 \<Rightarrow> u8 \<Rightarrow> u8 \<Rightarrow> psmove_device \<Rightarrow> psmove_device" where
  "uni_hid_parser_psmove_set_lightbar_color r g b d =
     psmove_send_output_report (r, g, b) (weak_magnitude d) (d\<lparr>led_rgb := (r, g, b)\<rparr>)"

definition uni_hid_parser_psmove_setup :: "u16 \<Rightarrow> psmove_device \<Rightarrow> psmove_device" where
  "uni_hid_parser_psmove_setup product_id d = call Ready_complete (d\<lparr>
     psmove_model := (if product_id = 0x0c5e then PSMOVE_MODEL_ZCM2 else PSMOVE_MODEL_ZCM1), led_rgb := (0, 0, 0),
     timer_duration := None, timer_delayed_start := None, motor_state := STATE_RUMBLE_DISABLED,
     weak_magnitude := 0, duration_ms := 0\<rparr>)"

definition psmove_gamepad :: "u8 list \<Rightarrow> uni_gamepad \<Rightarrow> uni_gamepad" where
  "psmove_gamepad r gp =
     (let gp1 = press_misc_flags [(0x01, MISC_BUTTON_SELECT), (0x08, MISC_BUTTON_START)] (r ! 1) gp;
          gp2 = press_flags [(0x01, BUTTON_TRIGGER_L), (0x02, BUTTON_TRIGGER_R), (0x04, BUTTON_SHOULDER_L),
                (0x08, BUTTON_SHOULDER_R), (0x10, BUTTON_Y), (0x20, BUTTON_B), (0x40, BUTTON_A), (0x80, BUTTON_X)]
                (r ! 2) gp1;
          gp3 = press_misc_flags [(0x01, MISC_BUTTON_SYSTEM)] (r ! 3) gp2;
          gp4 = press_flags [(0x08, BUTTON_THUMB_R), (0x10, BUTTON_TRIGGER_R)] (r ! 3) gp3
      in gp4\<lparr>throttle := uint (r ! 5) * 4, accel := (u16_at r 13, u16_at r 15, u16_at r 17),
            gyro := (u16_at r 25, u16_at r 27, u16_at r 29)\<rparr>)"

definition uni_hid_parser_psmove_parse_input_report :: "u8 list \<Rightarrow> psmove_device \<Rightarrow> psmove_device option" where
  "uni_hid_parser_psmove_parse_input_report r d =
     (if length r < 39 then Some d
      else if r ! 0 \<noteq> 0x01 then Some d
      else map_option (\<lambda>d1. if r ! 12 \<le> 5 then set_battery (r ! 12 * 51) d1 else d1) (on_raw (psmove_gamepad r) d))"

definition psmove_stop_rumble_now :: "psmove_device \<Rightarrow> psmove_device option" where
  "psmove_stop_rumble_now d =
     (if motor_state d \<noteq> STATE_RUMBLE_IN_PROGRESS then None
      else Some (psmove_send_output_report (led_rgb d) 0
             (d\<lparr>motor_state := STATE_RUMBLE_DISABLED, weak_magnitude := 0\<rparr>)))"

definition psmove_play_dual_rumble_now :: "u16 \<Rightarrow> u8 \<Rightarrow> u8 \<Rightarrow> psmove_device \<Rightarrow> psmove_device option" where
  "psmove_play_dual_rumble_now duration magnitude unused d =
     (if duration = 0
      then (if motor_state d = STATE_RUMBLE_IN_PROGRESS then psmove_stop_rumble_now d else Some d)
      else Some (start_duration duration
             (psmove_send_output_report (led_rgb d) magnitude (d\<lparr>weak_magnitude := magnitude\<rparr>))))"

definition uni_hid_parser_psmove_play_dual_rumble ::
    "u16 \<Rightarrow> u16 \<Rightarrow> u8 \<Rightarrow> u8 \<Rightarrow> psmove_device \<Rightarrow> psmove_device option" where
  "uni_hid_parser_psmove_play_dual_rumble start_delay duration weak strong =
     play_dual_rumble psmove_play_dual_rumble_now start_delay duration (max weak strong) 0"

definition on_psmove_set_rumble_on :: "psmove_device \<Rightarrow> psmove_device option" where
  "on_psmove_set_rumble_on = set_rumble_on psmove_play_dual_rumble_now"

definition on_psmove_set_rumble_off :: "psmove_device \<Rightarrow> psmove_device option" where
  "on_psmove_set_rumble_off = psmove_stop_rumble_now"

definition psmove_still :: "dev_call list \<Rightarrow> bool" where
  "psmove_still = motors_off [7]"

lemma psmove_still_start [simp]: "psmove_still []"
  by (simp add: psmove_still_def motors_off_def)

lemma psmove_send_simps [simp]:
  "motor_state (psmove_send_output_report rgb v d) = motor_state d"
  "timer_duration (psmove_send_output_report rgb v d) = timer_duration d"
  "timer_delayed_start (psmove_send_output_report rgb v d) = timer_delayed_start d"
  "psmove_still (calls (psmove_send_output_report rgb v d)) \<longleftrightarrow> v = 0"
  by (cases rgb; simp add: psmove_send_output_report_def call_def psmove_still_def motors_off_def)+

lemmas psmove_rumble_defs = psmove_stop_rumble_now_def psmove_play_dual_rumble_now_def start_duration_def timers_def

interpretation psmove_motor: rumble_motor psmove_play_dual_rumble_now psmove_stop_rumble_now psmove_still
    "\<lambda>duration. duration \<noteq> 0"
  by unfold_locales (auto simp: psmove_rumble_defs intro: state_disabled split: if_splits)

lemma psmove_parse_ready:
  assumes "pads_ok 0 0 1020 (raw_controller d)"
  shows "\<exists>d'. uni_hid_parser_psmove_parse_input_report r d = Some d' \<and> pads_ok 0 0 1020 (raw_controller d')"
proof -
  obtain gp where "ctl_data (raw_controller d) = Class_gamepad gp" using pads_ok_class [OF assms] by blast
  from on_raw_gamepad [OF this, of "psmove_gamepad r"] this show ?thesis
    using assms u8_range [of "r ! 5"]
    by (auto simp: uni_hid_parser_psmove_parse_input_report_def set_battery_def pads_ok_def psmove_gamepad_def
        gamepad_frame Let_def)
qed

interpretation psmove_raw: raw_parser raw_controller init_gamepad uni_hid_parser_psmove_parse_input_report
    "\<lambda>d. True" "\<lambda>d. True" "\<lambda>r. True" 0 0 1020
  by unfold_locales (auto simp: pads_ok_clean intro: psmove_parse_ready)

text \<open>
  The magnitude of a pending rumble is the one the light bar sends along: a change of colour starts the
  motor at once, before the delay.
\<close>

lemma psmove_lightbar_starts_rumble:
  assumes "no_rumble d" "delay \<noteq> 0" "magnitude \<noteq> 0"
  shows "\<exists>d'. uni_hid_parser_psmove_play_dual_rumble delay duration magnitude magnitude d = Some d' \<and>
     \<not> psmove_still (calls (uni_hid_parser_psmove_set_lightbar_color r g b d'))"
  using assms
  by (auto simp: uni_hid_parser_psmove_play_dual_rumble_def play_dual_rumble_def
      uni_hid_parser_psmove_set_lightbar_color_def)

end
