(* ===== verification/RawPads.thy ===== *)
theory RawPads
  imports Ds4
begin

text \<open>
  Three smaller parsers: the rumble motors of the Stadia controller over GATT
  (\<^verbatim>\<open>parser/uni_hid_parser_stadia.c\<close>, whose input is parsed as Android's), the Atari joystick
  (\<^verbatim>\<open>uni_hid_parser_atari.c\<close>), and the Steam controller (\<^verbatim>\<open>uni_hid_parser_steam.c\<close>), whose set-up is a
  state machine over the events of the GATT client.
\<close>

subsection \<open>Stadia\<close>

abbreviation (input) "GATT_SUCCESS \<equiv> (0 :: u8)"
abbreviation (input) "GATT_DISALLOWED \<equiv> (0x0c :: u8)"

definition STADIA_RUMBLE_REPORT_ID :: u8 where "STADIA_RUMBLE_REPORT_ID = 0x05"
definition STADIA_RETRY_MS :: nat where "STADIA_RETRY_MS = 50"

type_synonym stadia_device = rumble_device

text \<open>Two 16-bit magnitudes, the byte shifted into the high one. The status is what the GATT client returns.\<close>

definition stadia_ff_report :: "u8 \<Rightarrow> u8 \<Rightarrow> u8 list" where
  "stadia_ff_report strong weak = [0, strong, 0, weak]"

definition uni_hid_parser_stadia_setup :: "stadia_device \<Rightarrow> stadia_device" where
  "uni_hid_parser_stadia_setup d = call Ready_complete (d\<lparr>timer_duration := None, timer_delayed_start := None,
     motor_state := STATE_RUMBLE_DISABLED, weak_magnitude := 0, strong_magnitude := 0, duration_ms := 0\<rparr>)"

definition stadia_stop_rumble_now :: "u8 \<Rightarrow> stadia_device \<Rightarrow> stadia_device option" where
  "stadia_stop_rumble_now status d =
     (if motor_state d = STATE_RUMBLE_DISABLED then None
      else let d1 = call (Gatt_sent STADIA_RUMBLE_REPORT_ID (stadia_ff_report 0 0)) (d\<lparr>motor_state := STATE_RUMBLE_DISABLED\<rparr>)
           in Some (if status = GATT_DISALLOWED
                    then d1\<lparr>motor_state := STATE_RUMBLE_IN_PROGRESS, timer_duration := Some STADIA_RETRY_MS\<rparr> else d1))"

definition stadia_play_dual_rumble_now :: "u8 \<Rightarrow> u16 \<Rightarrow> u8 \<Rightarrow> u8 \<Rightarrow> stadia_device \<Rightarrow> stadia_device option" where
  "stadia_play_dual_rumble_now status duration weak strong d =
     (if duration = 0
      then (if motor_state d \<noteq> STATE_RUMBLE_DISABLED then stadia_stop_rumble_now status d else Some d)
      else
        let d1 = call (Gatt_sent STADIA_RUMBLE_REPORT_ID (stadia_ff_report strong weak)) d
        in if status = GATT_DISALLOWED
           then Some (d1\<lparr>motor_state := STATE_RUMBLE_DELAYED, timer_delayed_start := Some STADIA_RETRY_MS\<rparr>)
           else if status \<noteq> GATT_SUCCESS then Some d1
           else Some (start_duration duration d1))"

definition uni_hid_parser_stadia_play_dual_rumble ::
    "u8 \<Rightarrow> u16 \<Rightarrow> u16 \<Rightarrow> u8 \<Rightarrow> u8 \<Rightarrow> stadia_device \<Rightarrow> stadia_device option" where
  "uni_hid_parser_stadia_play_dual_rumble status = play_dual_rumble (stadia_play_dual_rumble_now status)"

definition on_stadia_set_rumble_on :: "u8 \<Rightarrow> stadia_device \<Rightarrow> stadia_device option" where
  "on_stadia_set_rumble_on status = set_rumble_on (stadia_play_dual_rumble_now status)"

definition on_stadia_set_rumble_off :: "u8 \<Rightarrow> stadia_device \<Rightarrow> stadia_device option" where
  "on_stadia_set_rumble_off status = stadia_stop_rumble_now status"

definition last_gatt :: "dev_call list \<Rightarrow> u8 list option" where
  "last_gatt cs = fold (\<lambda>c m. case c of Gatt_sent i r \<Rightarrow> Some r | _ \<Rightarrow> m) cs None"

definition stadia_still :: "dev_call list \<Rightarrow> bool" where
  "stadia_still cs = (case last_gatt cs of None \<Rightarrow> True | Some r \<Rightarrow> r = stadia_ff_report 0 0)"

lemma stadia_still_snoc [simp]:
  "stadia_still []" "stadia_still (cs @ [Gatt_sent i r]) \<longleftrightarrow> r = stadia_ff_report 0 0"
  "stadia_still (cs @ [c, Gatt_sent i r]) \<longleftrightarrow> r = stadia_ff_report 0 0"
  by (simp_all add: stadia_still_def last_gatt_def)

lemmas stadia_rumble_defs = stadia_stop_rumble_now_def stadia_play_dual_rumble_now_def start_duration_def timers_def
  call_def Let_def

text \<open>While every write succeeds, the Stadia controller keeps the contract for all durations.\<close>

interpretation stadia_motor: rumble_motor "stadia_play_dual_rumble_now GATT_SUCCESS"
    "stadia_stop_rumble_now GATT_SUCCESS" stadia_still "\<lambda>duration. True"
  by unfold_locales (auto simp: stadia_rumble_defs split: if_splits)

text \<open>Each event with the status of the write it may cause.\<close>

primrec stadia_run :: "(u8 \<times> motor_event) list \<Rightarrow> stadia_device \<Rightarrow> stadia_device option" where
  "stadia_run [] d = Some d"
| "stadia_run (e # es) d =
     (case motor_run (stadia_play_dual_rumble_now (fst e)) (stadia_stop_rumble_now (fst e)) [snd e] d of
        None \<Rightarrow> None | Some d' \<Rightarrow> stadia_run es d')"

definition stadia_inv :: "stadia_device \<Rightarrow> bool" where
  "stadia_inv d \<longleftrightarrow> (timer_duration d \<noteq> None \<longrightarrow> motor_state d = STATE_RUMBLE_IN_PROGRESS) \<and>
     (timer_delayed_start d \<noteq> None \<longrightarrow> motor_state d = STATE_RUMBLE_DELAYED)"

lemma stadia_step_ok:
  assumes "stadia_inv d" "motor_enabled e d"
  shows "\<exists>d'. motor_step (stadia_play_dual_rumble_now st) (stadia_stop_rumble_now st) e d = Some d' \<and> stadia_inv d'"
  using assms
  by (cases e; cases "motor_state d")
     (auto simp: stadia_inv_def play_dual_rumble_def set_rumble_on_def cancel_rumble_def stadia_rumble_defs)

text \<open>
  The assertion of the Stadia parser never fails and its timers never overlap, over every sequence of
  rumble calls and timer events and whatever status the GATT client returns for each write; and
  while the motors are in progress with the timer running, refused stop reports are repeated
  until one is accepted, which leaves the motors off.
\<close>

theorem stadia_rumble_safe:
  assumes "no_rumble d"
  shows "\<exists>d'. stadia_run es d = Some d' \<and> (timer_duration d' = None \<or> timer_delayed_start d' = None) \<and>
     (timer_duration d' \<noteq> None \<longrightarrow> (\<exists>d''. stadia_run (replicate n (GATT_DISALLOWED, Duration_ends) @ [(GATT_SUCCESS, Duration_ends)]) d'
        = Some d'' \<and> no_rumble d'' \<and> stadia_still (calls d'')))"
proof -
  have run: "stadia_inv d \<Longrightarrow> \<exists>d'. stadia_run es d = Some d' \<and> stadia_inv d'" for d
  proof (induction es arbitrary: d)
    case (Cons e es)
    have "\<exists>d'. motor_run (stadia_play_dual_rumble_now (fst e)) (stadia_stop_rumble_now (fst e)) [snd e] d = Some d' \<and>
        stadia_inv d'"
      using stadia_step_ok [OF Cons.prems, of "snd e" "fst e"] Cons.prems by auto
    with Cons.IH show ?case by auto
  qed simp
  have stop: "\<exists>d''. stadia_run (replicate n (GATT_DISALLOWED, Duration_ends) @ [(GATT_SUCCESS, Duration_ends)]) d
      = Some d'' \<and> no_rumble d'' \<and> stadia_still (calls d'')"
    if "stadia_inv d" "timer_duration d \<noteq> None" for d
    using that
  proof (induction n arbitrary: d)
    case 0
    then show ?case by (auto simp: stadia_inv_def stadia_rumble_defs no_rumble_def)
  next
    case (Suc n)
    let ?d = "call (Gatt_sent STADIA_RUMBLE_REPORT_ID (stadia_ff_report 0 0))
        (d\<lparr>motor_state := STATE_RUMBLE_IN_PROGRESS, timer_duration := Some STADIA_RETRY_MS\<rparr>)"
    have "motor_run (stadia_play_dual_rumble_now GATT_DISALLOWED) (stadia_stop_rumble_now GATT_DISALLOWED)
        [Duration_ends] d = Some ?d"
      using Suc.prems by (auto simp: stadia_inv_def stadia_rumble_defs)
    moreover have "stadia_inv ?d" "timer_duration ?d \<noteq> None"
      using Suc.prems by (auto simp: stadia_inv_def call_def)
    ultimately show ?case using Suc.IH [of ?d] by (simp del: motor_run.simps)
  qed
  have "stadia_inv d" using assms by (simp add: stadia_inv_def no_rumble_def)
  with run stop show ?thesis by (fastforce simp: stadia_inv_def)
qed

definition stadia_fresh :: stadia_device where
  "stadia_fresh = \<lparr>raw_controller = \<lparr>ctl_data = Class_none gamepad0, battery = 0\<rparr>, calls = [], timer_duration = None,
     timer_delayed_start = None, motor_state = STATE_RUMBLE_DISABLED, weak_magnitude = 0, strong_magnitude = 0,
     duration_ms = 0\<rparr>"

theorem stadia_rumble_safe_witness:
  "\<exists>d'. stadia_run [(0x0c, Play_rumble 0 500 255 128), (0, Delay_ends)] stadia_fresh = Some d' \<and>
     (timer_duration d' = None \<or> timer_delayed_start d' = None)"
proof -
  have "no_rumble stadia_fresh" by (simp add: no_rumble_def stadia_fresh_def)
  from stadia_rumble_safe [OF this, of "[(0x0c, Play_rumble 0 500 255 128), (0, Delay_ends)]"] show ?thesis by blast
qed

text \<open>
  A write that fails with any other status leaves the state as it is: a rumble in progress whose timer the
  call has just removed keeps running with no timer to stop it.
\<close>

lemma stadia_failed_write_keeps_motors:
  assumes "no_rumble d" "weak \<noteq> 0"
  shows "\<exists>d'. stadia_run [(GATT_SUCCESS, Play_rumble 0 500 weak strong), (0x01, Play_rumble 0 500 weak strong)] d = Some d' \<and>
     timers d' = (None, None) \<and> motor_state d' = STATE_RUMBLE_IN_PROGRESS \<and> \<not> stadia_still (calls d')"
  using assms
  by (auto simp: no_rumble_def play_dual_rumble_def cancel_rumble_def stadia_rumble_defs stadia_ff_report_def)

subsection \<open>Atari joystick\<close>

definition atari_dpad_map :: "u8 list" where
  "atari_dpad_map = [0, DPAD_UP, DPAD_UP OR DPAD_RIGHT, DPAD_RIGHT, DPAD_DOWN OR DPAD_RIGHT, DPAD_DOWN,
     DPAD_DOWN OR DPAD_LEFT, DPAD_LEFT, DPAD_UP OR DPAD_LEFT]"

text \<open>The direction has four bits; the table has nine entries, and an access past it is a trap.\<close>

definition atari_parse_report_id_01 :: "u8 list \<Rightarrow> raw_device \<Rightarrow> raw_device option" where
  "atari_parse_report_id_01 r d =
     (if length r \<noteq> 5 then Some d
      else let joy = unat (drop_bit 4 (r ! 2))
           in if joy \<ge> length atari_dpad_map then None
              else on_raw (\<lambda>gp.
                let gp1 = press_flags [(0x01, BUTTON_A), (0x02, BUTTON_B)] (r ! 1) gp;
                    gp2 = press_misc_flags [(0x01, MISC_BUTTON_SYSTEM), (0x02, MISC_BUTTON_SELECT),
                          (0x04, MISC_BUTTON_START)] (r ! 2) gp1
                in gp2\<lparr>dpad := atari_dpad_map ! joy, throttle := u16_at r 3 mod 1024\<rparr>) d)"

definition uni_hid_parser_atari_setup :: "raw_device \<Rightarrow> raw_device" where
  "uni_hid_parser_atari_setup = call Ready_complete"

text \<open>Reports 2 and 3 are only logged.\<close>

definition uni_hid_parser_atari_parse_input_report :: "u8 list \<Rightarrow> raw_device \<Rightarrow> raw_device option" where
  "uni_hid_parser_atari_parse_input_report r d = reads 1 r (
     if r ! 0 = 0x01 then atari_parse_report_id_01 r d else Some d)"

definition atari_fits :: "u8 list \<Rightarrow> bool" where
  "atari_fits r \<longleftrightarrow> r \<noteq> [] \<and> (r ! 0 = 0x01 \<longrightarrow> length r = 5 \<longrightarrow> unat (drop_bit 4 (r ! 2)) < 9)"

lemma atari_parse_ready:
  assumes "atari_fits r" "pads_ok 0 0 1023 (raw_controller d)"
  shows "\<exists>d'. uni_hid_parser_atari_parse_input_report r d = Some d' \<and> pads_ok 0 0 1023 (raw_controller d')"
proof -
  obtain gp where "ctl_data (raw_controller d) = Class_gamepad gp" using pads_ok_class [OF assms(2)] by blast
  moreover have "u16_at r 3 mod 1024 \<le> 1023" using pos_mod_bound [of 1024 "u16_at r 3"] by simp
  moreover have "1 \<le> length r" using assms(1) by (cases r) (auto simp: atari_fits_def)
  ultimately show ?thesis
    using assms
    by (auto simp: uni_hid_parser_atari_parse_input_report_def atari_parse_report_id_01_def on_raw_gamepad
        pads_ok_def gamepad_frame atari_fits_def atari_dpad_map_def Let_def)
qed

interpretation atari_raw: raw_parser raw_controller init_gamepad uni_hid_parser_atari_parse_input_report
    "\<lambda>d. True" "\<lambda>d. True" atari_fits 0 0 1023
  by unfold_locales (auto simp: pads_ok_clean intro: atari_parse_ready)

text \<open>
  An Atari report whose direction is above 8 reads past the table of directions: the four bits are
  used as an index into nine entries without a check.
\<close>

theorem atari_direction_overread:
  assumes "length r = 5" "r ! 0 = 0x01" "8 < unat (drop_bit 4 (r ! 2))"
  shows "uni_hid_parser_atari_parse_input_report r d = None"
  using assms
  by (simp add: uni_hid_parser_atari_parse_input_report_def atari_parse_report_id_01_def atari_dpad_map_def)

theorem atari_direction_overread_witness:
  "uni_hid_parser_atari_parse_input_report [0x01, 0, 0x90, 0, 0] \<lparr>raw_controller = clean_gamepad, calls = []\<rparr> = None"
  by (rule atari_direction_overread) (simp_all add: drop_bit_eq_div)

subsection \<open>Steam controller: input reports\<close>

text \<open>A 16-bit axis, negated in 16 bits where the code negates it, and shifted down to ten bits.\<close>

definition steam_axis :: "int \<Rightarrow> int" where
  "steam_axis v = v div 2 ^ 6"

definition steam_parse_buttons :: "u8 list \<Rightarrow> nat \<Rightarrow> uni_gamepad \<Rightarrow> uni_gamepad" where
  "steam_parse_buttons r i gp =
     (let gp0 = gp\<lparr>dpad := 0, buttons := 0, misc_buttons := 0\<rparr>;
          gp1 = press_flags [(0x01, BUTTON_TRIGGER_R), (0x02, BUTTON_TRIGGER_L), (0x04, BUTTON_SHOULDER_R),
                (0x08, BUTTON_SHOULDER_L), (0x10, BUTTON_Y), (0x20, BUTTON_B), (0x40, BUTTON_X), (0x80, BUTTON_A)]
                (r ! i) gp0;
          gp2 = press_dpad_flags [(0x01, DPAD_UP), (0x02, DPAD_RIGHT), (0x04, DPAD_LEFT), (0x08, DPAD_DOWN)]
                (r ! (i + 1)) gp1;
          gp3 = press_misc_flags [(0x10, MISC_BUTTON_SELECT), (0x20, MISC_BUTTON_SYSTEM), (0x40, MISC_BUTTON_START)]
                (r ! (i + 1)) gp2;
          gp4 = press_flags [(0x80, BUTTON_A)] (r ! (i + 1)) gp3
      in press_flags [(0x01, BUTTON_X), (0x40, BUTTON_THUMB_L)] (r ! (i + 2)) gp4)"

definition steam_parse_triggers :: "u8 list \<Rightarrow> nat \<Rightarrow> uni_gamepad \<Rightarrow> uni_gamepad" where
  "steam_parse_triggers r i gp = gp\<lparr>brake := uint (r ! i) * 4, throttle := uint (r ! (i + 1)) * 4\<rparr>"

definition steam_parse_thumbstick :: "u8 list \<Rightarrow> nat \<Rightarrow> uni_gamepad \<Rightarrow> uni_gamepad" where
  "steam_parse_thumbstick r i gp =
     gp\<lparr>axis_x := steam_axis (s16_at r i), axis_y := steam_axis (s16 (- s16_at r (i + 2)))\<rparr>"

definition steam_parse_right_pad :: "u8 list \<Rightarrow> nat \<Rightarrow> uni_gamepad \<Rightarrow> uni_gamepad" where
  "steam_parse_right_pad r i gp =
     gp\<lparr>axis_rx := steam_axis (s16_at r i), axis_ry := steam_axis (s16 (- s16_at r (i + 2)))\<rparr>"

text \<open>
  The flags: buttons, triggers and thumbstick are bits 4, 5 and 7 of byte 2; the pads bits 0 and 1 of
  byte 3. Only the left pad advances the index.
\<close>

definition steam_gamepad :: "u8 list \<Rightarrow> uni_gamepad \<Rightarrow> uni_gamepad" where
  "steam_gamepad r gp =
     (let gp1 = (if r ! 2 AND 0x10 \<noteq> 0 then steam_parse_buttons r 4 gp else gp);
          gp2 = (if r ! 2 AND 0x20 \<noteq> 0 then steam_parse_triggers r 4 gp1 else gp1);
          gp3 = (if r ! 2 AND 0x80 \<noteq> 0 then steam_parse_thumbstick r 4 gp2 else gp2);
          i = (if r ! 3 AND 0x01 \<noteq> 0 then 8 else 4)
      in if r ! 3 AND 0x02 \<noteq> 0 then steam_parse_right_pad r i gp3 else gp3)"

definition uni_hid_parser_steam_parse_input_report :: "u8 list \<Rightarrow> raw_device \<Rightarrow> raw_device option" where
  "uni_hid_parser_steam_parse_input_report r d =
     (if length r \<noteq> 20 then Some d
      else if r ! 0 \<noteq> 0x03 then Some d
      else if r ! 1 \<noteq> 0xc0 then Some d
      else if r ! 2 AND 0x0f \<noteq> 0x04 then Some d
      else on_raw (steam_gamepad r) d)"

lemma steam_axis_range: "- 32768 \<le> v \<Longrightarrow> v \<le> 32767 \<Longrightarrow> - 512 \<le> steam_axis v \<and> steam_axis v \<le> 511"
  by (simp add: steam_axis_def) linarith

lemma steam_axes:
  "- 512 \<le> steam_axis (s16_at r i)" "steam_axis (s16_at r i) \<le> 511"
  "- 512 \<le> steam_axis (s16 v)" "steam_axis (s16 v) \<le> 511"
  using steam_axis_range [of "s16_at r i"] s16_at_range [of r i] steam_axis_range [of "s16 v"] s16_bounds [of v]
  by auto

lemma steam_gamepad_ok:
  assumes "pads_ok (- 512) 511 1020 \<lparr>ctl_data = Class_gamepad gp, battery = b\<rparr>"
  shows "pads_ok (- 512) 511 1020 \<lparr>ctl_data = Class_gamepad (steam_gamepad r gp), battery = b\<rparr>"
proof -
  let ?ok = "\<lambda>gp. pads_ok (- 512) 511 1020 \<lparr>ctl_data = Class_gamepad gp, battery = b\<rparr>"
  have "?ok gp \<Longrightarrow> ?ok (steam_parse_buttons r i gp)" for gp i
    by (simp add: pads_ok_def steam_parse_buttons_def gamepad_frame Let_def)
  moreover have "?ok gp \<Longrightarrow> ?ok (steam_parse_triggers r i gp)" for gp i
    using u8_range [of "r ! i"] u8_range [of "r ! (i + 1)"] by (simp add: pads_ok_def steam_parse_triggers_def)
  moreover have "?ok gp \<Longrightarrow> ?ok (steam_parse_thumbstick r i gp)" for gp i
    by (simp add: pads_ok_def steam_parse_thumbstick_def steam_axes)
  moreover have "?ok gp \<Longrightarrow> ?ok (steam_parse_right_pad r i gp)" for gp i
    by (simp add: pads_ok_def steam_parse_right_pad_def steam_axes)
  ultimately show ?thesis using assms by (simp add: steam_gamepad_def Let_def)
qed

lemma steam_parse_ready:
  assumes "pads_ok (- 512) 511 1020 (raw_controller d)"
  shows "\<exists>d'. uni_hid_parser_steam_parse_input_report r d = Some d' \<and> pads_ok (- 512) 511 1020 (raw_controller d')"
proof -
  obtain gp where gp: "ctl_data (raw_controller d) = Class_gamepad gp" using pads_ok_class [OF assms] by blast
  have "pads_ok (- 512) 511 1020 \<lparr>ctl_data = Class_gamepad gp, battery = battery (raw_controller d)\<rparr>"
    using assms gp by (simp add: pads_ok_def)
  from steam_gamepad_ok [OF this, of r] assms show ?thesis
    by (simp add: uni_hid_parser_steam_parse_input_report_def on_raw_gamepad [OF gp] pads_ok_def)
qed

text \<open>The \<open>init_report\<close> keeps the controller: the state between reports is the gamepad's.\<close>

interpretation steam_raw: raw_parser raw_controller id uni_hid_parser_steam_parse_input_report
    "\<lambda>d. pads_ok (- 512) 511 1020 (raw_controller d)" "\<lambda>d. pads_ok (- 512) 511 1020 (raw_controller d)"
    "\<lambda>r. True" "- 512" 511 1020
  by unfold_locales (auto intro: steam_parse_ready)

text \<open>
  The sections of a Steam report overlap: in a report with buttons and triggers the trigger values are
  read from the bytes of the buttons, because the index is not advanced past them: the button Y,
  bit 4 of the first byte, presses the left trigger as well.
\<close>

theorem steam_sections_overlap:
  assumes "r ! 2 AND 0x10 \<noteq> 0" "r ! 2 AND 0x20 \<noteq> 0"
  shows "brake (steam_gamepad r gp) = 4 * uint (r ! 4) \<and> throttle (steam_gamepad r gp) = 4 * uint (r ! 5) \<and>
     buttons (steam_gamepad r gp) = buttons (steam_parse_buttons r 4 gp)"
  using assms
  by (simp add: steam_gamepad_def steam_parse_triggers_def steam_parse_thumbstick_def steam_parse_right_pad_def Let_def)

theorem steam_sections_overlap_witness:
  "brake (steam_gamepad ([0x03, 0xc0, 0x34, 0, 0x10] @ replicate 15 0) gamepad0) = 64"
  using steam_sections_overlap [of "[0x03, 0xc0, 0x34, 0, 0x10] @ replicate 15 0" gamepad0] by simp

subsection \<open>Steam controller: set-up\<close>

text \<open>
  The set-up keeps its state in global variables, one set for all controllers. A service is a number; of
  a characteristic only the value handle is used.
\<close>

datatype steam_query_state =
    STATE_QUERY_SERVICE
  | STATE_QUERY_CHARACTERISTIC_REPORT
  | STATE_QUERY_CLEAR_MAPPINGS
  | STATE_QUERY_DISABLE_LIZARD
  | STATE_QUERY_FORCEFEEDBACK
  | STATE_QUERY_END

datatype steam_call =
    Discover_service u16
  | Discover_characteristic u16 nat
  | Write_value u16 u16 "u8 list"
  | Steam_ready nat

datatype gatt_event =
    Service_query_result nat
  | Characteristic_query_result u16
  | Query_complete u8
  | Other_gatt_event

record steam_state =
  steam_service :: nat
  steam_value_handle :: u16
  steam_connection :: u16
  steam_device :: nat
  query_state :: steam_query_state
  steam_calls :: "steam_call list"

definition cmd_clear_mappings :: "u8 list" where
  "cmd_clear_mappings = [0xc0, 0x81, 0x01]"

definition cmd_disable_lizard :: "u8 list" where
  "cmd_disable_lizard = [0xc0, 0x87, 0x0f, 0x30, 0x00, 0x00, 0x07, 0x07, 0x00, 0x08, 0x07, 0x00,
     0x18, 0x00, 0x00, 0x2d, 0x64, 0x00]"

definition steam_emit :: "steam_call \<Rightarrow> steam_query_state \<Rightarrow> steam_state \<Rightarrow> steam_state" where
  "steam_emit c q s = s\<lparr>steam_calls := steam_calls s @ [c], query_state := q\<rparr>"

definition uni_hid_parser_steam_setup :: "nat \<Rightarrow> u16 \<Rightarrow> steam_state \<Rightarrow> steam_state" where
  "uni_hid_parser_steam_setup d handle s =
     steam_emit (Discover_service handle) STATE_QUERY_SERVICE (s\<lparr>steam_device := d, steam_connection := handle\<rparr>)"

text \<open>An event that its state does not expect, and a query that fails, are only logged.\<close>

fun uni_steam_handle_gatt_client_event :: "gatt_event \<Rightarrow> steam_state \<Rightarrow> steam_state" where
  "uni_steam_handle_gatt_client_event (Service_query_result v) s =
     (if query_state s = STATE_QUERY_SERVICE then s\<lparr>steam_service := v\<rparr> else s)"
| "uni_steam_handle_gatt_client_event (Characteristic_query_result h) s =
     (if query_state s = STATE_QUERY_CHARACTERISTIC_REPORT then s\<lparr>steam_value_handle := h\<rparr> else s)"
| "uni_steam_handle_gatt_client_event (Query_complete status) s =
     (if status \<noteq> 0 then s
      else case query_state s of
          STATE_QUERY_SERVICE \<Rightarrow> steam_emit (Discover_characteristic (steam_connection s) (steam_service s))
            STATE_QUERY_CHARACTERISTIC_REPORT s
        | STATE_QUERY_CHARACTERISTIC_REPORT \<Rightarrow>
            steam_emit (Write_value (steam_connection s) (steam_value_handle s) cmd_clear_mappings)
              STATE_QUERY_CLEAR_MAPPINGS s
        | STATE_QUERY_CLEAR_MAPPINGS \<Rightarrow>
            steam_emit (Write_value (steam_connection s) (steam_value_handle s) cmd_disable_lizard)
              STATE_QUERY_DISABLE_LIZARD s
        | STATE_QUERY_DISABLE_LIZARD \<Rightarrow> steam_emit (Steam_ready (steam_device s)) STATE_QUERY_END s
        | _ \<Rightarrow> s)"
| "uni_steam_handle_gatt_client_event Other_gatt_event s = s"

definition steam_run :: "gatt_event list \<Rightarrow> steam_state \<Rightarrow> steam_state" where
  "steam_run = fold uni_steam_handle_gatt_client_event"

fun steam_progress :: "steam_query_state \<Rightarrow> nat" where
  "steam_progress STATE_QUERY_SERVICE = 1"
| "steam_progress STATE_QUERY_CHARACTERISTIC_REPORT = 2"
| "steam_progress STATE_QUERY_CLEAR_MAPPINGS = 3"
| "steam_progress STATE_QUERY_DISABLE_LIZARD = 4"
| "steam_progress STATE_QUERY_FORCEFEEDBACK = 5"
| "steam_progress STATE_QUERY_END = 5"

definition steam_script :: "nat \<Rightarrow> u16 \<Rightarrow> nat \<Rightarrow> u16 \<Rightarrow> steam_call list" where
  "steam_script d c v h = [Discover_service c, Discover_characteristic c v, Write_value c h cmd_clear_mappings,
     Write_value c h cmd_disable_lizard, Steam_ready d]"

definition successes :: "gatt_event list \<Rightarrow> nat" where
  "successes es = length (filter (\<lambda>e. e = Query_complete 0) es)"

text \<open>Where the calls of the set-up are in the script, state by state.\<close>

definition steam_inv :: "nat \<Rightarrow> u16 \<Rightarrow> steam_call list \<Rightarrow> steam_state \<Rightarrow> bool" where
  "steam_inv d c old s \<longleftrightarrow> steam_device s = d \<and> steam_connection s = c \<and>
     (let h = steam_value_handle s
      in case query_state s of
          STATE_QUERY_SERVICE \<Rightarrow> steam_calls s = old @ [Discover_service c]
        | STATE_QUERY_CHARACTERISTIC_REPORT \<Rightarrow> (\<exists>v. steam_calls s = old @ [Discover_service c, Discover_characteristic c v])
        | STATE_QUERY_CLEAR_MAPPINGS \<Rightarrow> (\<exists>v. steam_calls s =
            old @ [Discover_service c, Discover_characteristic c v, Write_value c h cmd_clear_mappings])
        | STATE_QUERY_DISABLE_LIZARD \<Rightarrow> (\<exists>v. steam_calls s = old @ [Discover_service c, Discover_characteristic c v,
            Write_value c h cmd_clear_mappings, Write_value c h cmd_disable_lizard])
        | STATE_QUERY_END \<Rightarrow> (\<exists>v. steam_calls s = old @ steam_script d c v h)
        | STATE_QUERY_FORCEFEEDBACK \<Rightarrow> False)"

lemma steam_step_inv:
  assumes "steam_inv d c old s"
  shows "steam_inv d c old (uni_steam_handle_gatt_client_event e s)"
    "steam_progress (query_state (uni_steam_handle_gatt_client_event e s)) =
       min 5 (steam_progress (query_state s) + (if e = Query_complete 0 then 1 else 0))"
  using assms
  by (cases e; cases "query_state s"; auto simp: steam_inv_def steam_emit_def steam_script_def Let_def)+

lemma steam_run_inv:
  "steam_inv d c old s \<Longrightarrow> steam_inv d c old (steam_run es s) \<and>
   steam_progress (query_state (steam_run es s)) = min 5 (steam_progress (query_state s) + successes es)"
proof (induction es arbitrary: s)
  case Nil
  then show ?case by (cases "query_state s") (auto simp: steam_run_def successes_def)
next
  case (Cons e es)
  note st = steam_step_inv [OF Cons.prems, of e]
  from Cons.IH [OF st(1)] st(2) show ?case by (auto simp: steam_run_def successes_def)
qed

lemma steam_inv_calls:
  assumes "steam_inv d c old s"
  shows "\<exists>v h. steam_calls s = old @ take (steam_progress (query_state s)) (steam_script d c v h)"
  using assms by (cases "query_state s") (auto simp: steam_inv_def steam_script_def numeral_eq_Suc Let_def)

lemma steam_setup_inv: "steam_inv d c (steam_calls s) (uni_hid_parser_steam_setup d c s)"
  by (simp add: steam_inv_def uni_hid_parser_steam_setup_def steam_emit_def Let_def)

text \<open>
  The set-up of a Steam controller follows its script. Whatever events the GATT client sends after it,
  the calls made are the first ones of the script, one more for each query that completed with
  success: find the service, find the characteristic, clear the mappings, disable the lizard mode,
  ready; so the controller is ready exactly after the fourth success, no step is
  skipped or repeated, and failed queries and unexpected events do nothing.
\<close>

theorem steam_setup_script:
  "\<exists>v h. steam_calls (steam_run es (uni_hid_parser_steam_setup d c s)) =
     steam_calls s @ take (min 5 (1 + successes es)) (steam_script d c v h)"
proof -
  let ?s = "uni_hid_parser_steam_setup d c s"
  have r: "steam_inv d c (steam_calls s) (steam_run es ?s)"
    "steam_progress (query_state (steam_run es ?s)) = min 5 (1 + successes es)"
    using steam_run_inv [OF steam_setup_inv, of d c s es]
    by (simp_all add: uni_hid_parser_steam_setup_def steam_emit_def)
  from steam_inv_calls [OF r(1)] r(2) show ?thesis by simp
qed

text \<open>
  A second Steam controller that connects while the first is still in its set-up takes over the
  global state: whatever follows, the first controller never becomes ready.
\<close>

theorem steam_second_controller_wins:
  assumes "d2 \<noteq> d1" "successes es1 < 4" "Steam_ready d1 \<notin> set (steam_calls s)"
  shows "Steam_ready d1 \<notin> set (steam_calls
     (steam_run es2 (uni_hid_parser_steam_setup d2 c2 (steam_run es1 (uni_hid_parser_steam_setup d1 c1 s)))))"
proof -
  let ?s1 = "steam_run es1 (uni_hid_parser_steam_setup d1 c1 s)"
  obtain v1 h1 where "steam_calls ?s1 = steam_calls s @ take (min 5 (1 + successes es1)) (steam_script d1 c1 v1 h1)"
    using steam_setup_script by blast
  moreover have "Steam_ready d1 \<notin> set (take n (steam_script d1 c1 v1 h1))" if "n \<le> 4" for n
    using that by (auto simp: steam_script_def take_Cons split: nat.splits)
  ultimately have "Steam_ready d1 \<notin> set (steam_calls ?s1)" using assms(2,3) by simp
  moreover have "Steam_ready d1 \<notin> set (take n (steam_script d2 c2 v h))" for n v h
    using assms(1) by (auto simp: steam_script_def dest!: in_set_takeD)
  moreover obtain v h where "steam_calls (steam_run es2 (uni_hid_parser_steam_setup d2 c2 ?s1)) =
      steam_calls ?s1 @ take (min 5 (1 + successes es2)) (steam_script d2 c2 v h)"
    using steam_setup_script by blast
  ultimately show ?thesis by simp
qed

definition steam_start :: steam_state where
  "steam_start = \<lparr>steam_service = 0, steam_value_handle = 0, steam_connection = 0, steam_device = 0,
     query_state = STATE_QUERY_SERVICE, steam_calls = []\<rparr>"

theorem steam_second_controller_wins_witness:
  "Steam_ready 0 \<notin> set (steam_calls (steam_run (replicate 8 (Query_complete 0))
     (uni_hid_parser_steam_setup 1 65 (steam_run [Query_complete 0] (uni_hid_parser_steam_setup 0 64 steam_start)))))"
  by (rule steam_second_controller_wins) (simp_all add: successes_def steam_start_def)

end
