(* ===== verification/KeyMouse.thy ===== *)
theory KeyMouse
  imports UsageParsers CFloat RawDevice
begin

text \<open>
  The keyboard parser, \<^verbatim>\<open>parser/uni_hid_parser_keyboard.c\<close>, with the special case of the JX-05 remote
  control, and the mouse parser, \<^verbatim>\<open>parser/uni_hid_parser_mouse.c\<close>, which scales the movements in
  single precision. Both receive the fields of a report one by one.
\<close>

subsection \<open>Keyboard\<close>

definition UNI_KEYBOARD_PRESSED_KEYS_MAX :: nat where "UNI_KEYBOARD_PRESSED_KEYS_MAX = 10"

record keyboard_device =
  kb_controller :: uni_controller
  pressed_key_index :: nat
  using_jx_05 :: bool
  jx_x :: int
  jx_y :: int
  ready_to_process :: bool
  last_report :: bool
  is_down_or_button :: bool

definition keyboard0 :: uni_keyboard where
  "keyboard0 = \<lparr>modifiers = 0, pressed_keys = replicate UNI_KEYBOARD_PRESSED_KEYS_MAX 0\<rparr>"

definition on_keyboard :: "(uni_keyboard \<Rightarrow> uni_keyboard option) \<Rightarrow> keyboard_device \<Rightarrow> keyboard_device option" where
  "on_keyboard f d = (case ctl_data (kb_controller d) of
      Class_keyboard kb \<Rightarrow>
        map_option (\<lambda>kb'. d\<lparr>kb_controller := (kb_controller d)\<lparr>ctl_data := Class_keyboard kb'\<rparr>\<rparr>) (f kb)
    | _ \<Rightarrow> None)"

text \<open>A key is stored without a check of the index, which is a trap past the array.\<close>

definition put_key :: "nat \<Rightarrow> u8 \<Rightarrow> keyboard_device \<Rightarrow> keyboard_device option" where
  "put_key idx key = on_keyboard (\<lambda>kb.
     if idx < length (pressed_keys kb) then Some (kb\<lparr>pressed_keys := (pressed_keys kb)[idx := key]\<rparr>) else None)"

definition add_key :: "u8 \<Rightarrow> keyboard_device \<Rightarrow> keyboard_device option" where
  "add_key key d = map_option (\<lambda>d'. d'\<lparr>pressed_key_index := pressed_key_index d + 1\<rparr>)
     (put_key (pressed_key_index d) key d)"

definition uni_hid_parser_keyboard_setup :: "u16 \<Rightarrow> u16 \<Rightarrow> keyboard_device \<Rightarrow> keyboard_device" where
  "uni_hid_parser_keyboard_setup vid pid d =
     (let jx = (vid = 0x05ac \<and> pid = 0x022c)
      in d\<lparr>pressed_key_index := 0, using_jx_05 := jx, jx_x := 0, jx_y := 0, ready_to_process := jx,
           last_report := False, is_down_or_button := False\<rparr>)"

definition uni_hid_parser_keyboard_init_report :: "keyboard_device \<Rightarrow> keyboard_device" where
  "uni_hid_parser_keyboard_init_report d =
     d\<lparr>pressed_key_index := 0, kb_controller := \<lparr>ctl_data = Class_keyboard keyboard0, battery = 0\<rparr>\<rparr>"

subsubsection \<open>JX-05\<close>

abbreviation (input) "HID_USAGE_PAGE_DIGITIZER \<equiv> (0x0d :: u16)"
abbreviation (input) "HID_USAGE_TIP_SWITCH \<equiv> (0x42 :: u16)"
abbreviation (input) "HID_USAGE_CONTACT_COUNT \<equiv> (0x54 :: u16)"

definition jx_tip_switch :: "int \<Rightarrow> keyboard_device \<Rightarrow> keyboard_device" where
  "jx_tip_switch v d =
     (if v \<noteq> 0 \<and> last_report d then d\<lparr>ready_to_process := True\<rparr> else d)\<lparr>last_report := (v = 0)\<rparr>"

text \<open>
  The end of a report. The first key may follow from the previous report; the index is stored only when
  this report is processed, too.
\<close>

definition jx_pending_key :: "keyboard_device \<Rightarrow> (nat \<times> keyboard_device) option" where
  "jx_pending_key d =
     (let idx = pressed_key_index d
      in if is_down_or_button d
         then map_option (Pair (idx + 1))
           (put_key idx (if jx_x d = - 260 \<and> jx_y d = 145 then 0x2c else 0x51) (d\<lparr>is_down_or_button := False\<rparr>))
         else Some (idx, d))"

definition jx_processed :: "nat \<Rightarrow> keyboard_device \<Rightarrow> keyboard_device" where
  "jx_processed idx d = d\<lparr>pressed_key_index := idx, ready_to_process := False\<rparr>"

definition jx_key :: "nat \<Rightarrow> u8 \<Rightarrow> keyboard_device \<Rightarrow> keyboard_device option" where
  "jx_key idx key d = map_option (jx_processed (idx + 1)) (put_key idx key d)"

definition jx_contact_count :: "keyboard_device \<Rightarrow> keyboard_device option" where
  "jx_contact_count d0 = do {
     (idx, d) \<leftarrow> jx_pending_key d0;
     if \<not> ready_to_process d then Some d
     else if jx_x d = - 260 \<and> jx_y d = - 222 then jx_key idx 0x52 d
     else if jx_x d = - 260 \<and> jx_y d = 145 then Some (jx_processed idx (d\<lparr>is_down_or_button := True\<rparr>))
     else if jx_x d = - 387 \<and> jx_y d = 251 then jx_key idx 0x50 d
     else if jx_x d = - 48 \<and> jx_y d = 251 then jx_key idx 0x4f d
     else Some d
   }"

definition jx_05_parse_usage :: "hid_globals \<Rightarrow> u16 \<Rightarrow> u16 \<Rightarrow> int \<Rightarrow> keyboard_device \<Rightarrow> keyboard_device option" where
  "jx_05_parse_usage g page usage v d =
     (if page = HID_USAGE_PAGE_GENERIC_DESKTOP \<and> usage = HID_USAGE_AXIS_X
      then map_option (\<lambda>x. d\<lparr>jx_x := x\<rparr>) (uni_hid_parser_process_axis g v)
      else if page = HID_USAGE_PAGE_GENERIC_DESKTOP \<and> usage = HID_USAGE_AXIS_Y
      then map_option (\<lambda>y. d\<lparr>jx_y := y\<rparr>) (uni_hid_parser_process_axis g v)
      else if page = HID_USAGE_PAGE_DIGITIZER \<and> usage = HID_USAGE_TIP_SWITCH then Some (jx_tip_switch v d)
      else if page = HID_USAGE_PAGE_DIGITIZER \<and> usage = HID_USAGE_CONTACT_COUNT then jx_contact_count d
      else Some d)"

subsubsection \<open>Fields\<close>

abbreviation (input) "HID_USAGE_KB_LEFT_CONTROL \<equiv> (0xe0 :: u16)"
abbreviation (input) "HID_USAGE_KB_RIGHT_GUI \<equiv> (0xe7 :: u16)"

text \<open>Only the keys of the keypad page are counted against the size of the array.\<close>

definition keyboard_keypad :: "u16 \<Rightarrow> keyboard_device \<Rightarrow> keyboard_device option" where
  "keyboard_keypad usage d =
     (if usage < HID_USAGE_KB_LEFT_CONTROL
      then (if pressed_key_index d \<ge> UNI_KEYBOARD_PRESSED_KEYS_MAX then Some d else add_key (ucast usage) d)
      else if usage \<le> HID_USAGE_KB_RIGHT_GUI
      then on_keyboard (\<lambda>kb. Some (kb\<lparr>modifiers := modifiers kb OR push_bit (unat (usage - HID_USAGE_KB_LEFT_CONTROL)) 1\<rparr>)) d
      else Some d)"

definition consumer_keys :: "(u16 \<times> u8) list" where
  "consumer_keys = [(0x30, 0x66), (0xe9, 0x80), (0xea, 0x81), (0x223, 0x4a), (0x233, 0x4b), (0x234, 0x4e),
     (0xb5, 0x4f), (0xb6, 0x50), (0xcd, 0x48)]"

definition keyboard_consumer :: "u16 \<Rightarrow> keyboard_device \<Rightarrow> keyboard_device option" where
  "keyboard_consumer usage d = (case map_of consumer_keys usage of None \<Rightarrow> Some d | Some key \<Rightarrow> add_key key d)"

definition uni_hid_parser_keyboard_parse_usage ::
    "hid_globals \<Rightarrow> u16 \<Rightarrow> u16 \<Rightarrow> int \<Rightarrow> keyboard_device \<Rightarrow> keyboard_device option" where
  "uni_hid_parser_keyboard_parse_usage g page usage v d0 = do {
     d \<leftarrow> (if using_jx_05 d0 then jx_05_parse_usage g page usage v d0 else Some d0);
     if v = 0 then Some d
     else if page = HID_USAGE_PAGE_KEYBOARD_KEYPAD then keyboard_keypad usage d
     else if page = HID_USAGE_PAGE_CONSUMER then keyboard_consumer usage d
     else Some d
   }"

text \<open>The LEDs are set over GATT only; a failed write is logged.\<close>

definition uni_hid_parser_keyboard_set_leds :: "bool \<Rightarrow> u8 \<Rightarrow> dev_call list" where
  "uni_hid_parser_keyboard_set_leds connection_le leds = (if connection_le then [Gatt_sent 1 [leds]] else [])"

subsubsection \<open>What a report means\<close>

fun pressed_usages :: "(hid_globals \<times> u16 \<times> u16 \<times> int) list \<Rightarrow> u8 list" where
  "pressed_usages [] = []"
| "pressed_usages ((g, page, usage, v) # fs) =
     (if v \<noteq> 0 \<and> usage < HID_USAGE_KB_LEFT_CONTROL then [ucast usage] else []) @ pressed_usages fs"

definition modifier_pressed :: "nat \<Rightarrow> (hid_globals \<times> u16 \<times> u16 \<times> int) list \<Rightarrow> bool" where
  "modifier_pressed n fs \<longleftrightarrow> (\<exists>(g, page, usage, v) \<in> set fs. v \<noteq> 0 \<and> usage = HID_USAGE_KB_LEFT_CONTROL + word_of_nat n)"

definition keyboard_holds :: "u8 list \<Rightarrow> u8 \<Rightarrow> keyboard_device \<Rightarrow> bool" where
  "keyboard_holds ks m d \<longleftrightarrow> length ks \<le> 10 \<and> pressed_key_index d = length ks \<and> \<not> using_jx_05 d \<and>
     ctl_data (kb_controller d) = Class_keyboard \<lparr>modifiers = m, pressed_keys = ks @ replicate (10 - length ks) 0\<rparr>"

lemma take_first_ten: "length ks = 10 \<Longrightarrow> take 10 (ks @ xs) = ks"
  by simp

lemma keyboard_step:
  assumes "keyboard_holds ks m d"
  shows "\<exists>d' ks' m'. uni_hid_parser_keyboard_parse_usage g 0x07 usage v d = Some d' \<and> keyboard_holds ks' m' d' \<and>
     ks' = take 10 (ks @ (if v \<noteq> 0 \<and> usage < HID_USAGE_KB_LEFT_CONTROL then [ucast usage] else [])) \<and>
     m' = m OR (if v \<noteq> 0 \<and> HID_USAGE_KB_LEFT_CONTROL \<le> usage \<and> usage \<le> HID_USAGE_KB_RIGHT_GUI
        then push_bit (unat (usage - HID_USAGE_KB_LEFT_CONTROL)) 1 else 0)"
proof -
  have d: "length ks \<le> 10" "pressed_key_index d = length ks" "\<not> using_jx_05 d"
      "ctl_data (kb_controller d) = Class_keyboard \<lparr>modifiers = m, pressed_keys = ks @ replicate (10 - length ks) 0\<rparr>"
    using assms by (auto simp: keyboard_holds_def)
  consider (none) "v = 0 \<or> HID_USAGE_KB_RIGHT_GUI < usage"
    | (full) "v \<noteq> 0" "usage < HID_USAGE_KB_LEFT_CONTROL" "length ks = 10"
    | (key) "v \<noteq> 0" "usage < HID_USAGE_KB_LEFT_CONTROL" "length ks < 10"
    | (modifier) "v \<noteq> 0" "HID_USAGE_KB_LEFT_CONTROL \<le> usage" "usage \<le> HID_USAGE_KB_RIGHT_GUI"
    using d(1) by (meson le_neq_implies_less not_le)
  then show ?thesis
  proof cases
    case none
    then have "\<not> usage < HID_USAGE_KB_LEFT_CONTROL \<or> v = 0" by (auto simp: word_less_nat_alt)
    with none d show ?thesis
      by (auto simp: uni_hid_parser_keyboard_parse_usage_def keyboard_keypad_def keyboard_holds_def not_le)
  next
    case full
    with d show ?thesis
      by (auto simp: uni_hid_parser_keyboard_parse_usage_def keyboard_keypad_def keyboard_holds_def
          UNI_KEYBOARD_PRESSED_KEYS_MAX_def not_le)
  next
    case key
    then have "(ks @ replicate (10 - length ks) (0 :: u8))[length ks := ucast usage] =
        (ks @ [ucast usage]) @ replicate (10 - length (ks @ [ucast usage])) 0"
      by (cases "10 - length ks") (auto simp: list_update_append)
    with key d show ?thesis
      by (auto simp: uni_hid_parser_keyboard_parse_usage_def keyboard_keypad_def keyboard_holds_def
          UNI_KEYBOARD_PRESSED_KEYS_MAX_def add_key_def put_key_def on_keyboard_def not_le)
  next
    case modifier
    with d show ?thesis
      by (auto simp: uni_hid_parser_keyboard_parse_usage_def keyboard_keypad_def keyboard_holds_def
          on_keyboard_def not_le not_less)
  qed
qed

definition fields_modifiers :: "(hid_globals \<times> u16 \<times> u16 \<times> int) list \<Rightarrow> u8 \<Rightarrow> u8" where
  "fields_modifiers fs m = fold (\<lambda>(g, page, usage, v) m.
     m OR (if v \<noteq> 0 \<and> HID_USAGE_KB_LEFT_CONTROL \<le> usage \<and> usage \<le> HID_USAGE_KB_RIGHT_GUI
       then push_bit (unat (usage - HID_USAGE_KB_LEFT_CONTROL)) 1 else 0)) fs m"

lemma bit_modifier:
  assumes "n < 8"
  shows "bit (if v \<noteq> 0 \<and> HID_USAGE_KB_LEFT_CONTROL \<le> usage \<and> usage \<le> HID_USAGE_KB_RIGHT_GUI
       then push_bit (unat (usage - HID_USAGE_KB_LEFT_CONTROL)) 1 else (0 :: u8)) n \<longleftrightarrow>
     v \<noteq> 0 \<and> usage = HID_USAGE_KB_LEFT_CONTROL + word_of_nat n"
proof -
  have e: "HID_USAGE_KB_LEFT_CONTROL \<le> usage \<and> usage \<le> HID_USAGE_KB_RIGHT_GUI \<and>
      unat (usage - HID_USAGE_KB_LEFT_CONTROL) = n \<longleftrightarrow> usage = HID_USAGE_KB_LEFT_CONTROL + word_of_nat n"
  proof
    assume a: "HID_USAGE_KB_LEFT_CONTROL \<le> usage \<and> usage \<le> HID_USAGE_KB_RIGHT_GUI \<and>
      unat (usage - HID_USAGE_KB_LEFT_CONTROL) = n"
    then have "usage - HID_USAGE_KB_LEFT_CONTROL = word_of_nat n" by auto
    then show "usage = HID_USAGE_KB_LEFT_CONTROL + word_of_nat n" by (simp add: algebra_simps)
  next
    assume a: "usage = HID_USAGE_KB_LEFT_CONTROL + word_of_nat n"
    have "n \<in> set [0 ..< 8]" using assms by simp
    then show "HID_USAGE_KB_LEFT_CONTROL \<le> usage \<and> usage \<le> HID_USAGE_KB_RIGHT_GUI \<and>
      unat (usage - HID_USAGE_KB_LEFT_CONTROL) = n"
      unfolding a by (auto simp: upt_rec)
  qed
  have b: "bit (2 ^ k :: u8) n \<longleftrightarrow> k = n" for k
    using assms by (auto simp: bit_pow2)
  show ?thesis using e by (auto simp: b)
qed

lemma bit_fields_modifiers:
  assumes "n < 8"
  shows "bit (fields_modifiers fs m) n \<longleftrightarrow> bit m n \<or> modifier_pressed n fs"
proof (induction fs arbitrary: m)
  case Nil
  show ?case by (simp add: fields_modifiers_def modifier_pressed_def)
next
  case (Cons f fs)
  obtain g page usage v where f: "f = (g, page, usage, v)" by (cases f)
  let ?m = "if v \<noteq> 0 \<and> HID_USAGE_KB_LEFT_CONTROL \<le> usage \<and> usage \<le> HID_USAGE_KB_RIGHT_GUI
       then push_bit (unat (usage - HID_USAGE_KB_LEFT_CONTROL)) 1 else (0 :: u8)"
  have "fields_modifiers (f # fs) m = fields_modifiers fs (m OR ?m)" by (simp add: fields_modifiers_def f)
  with Cons.IH [of "m OR ?m"] bit_modifier [OF assms, of v usage] show ?case
    by (auto simp: bit_or_iff modifier_pressed_def f)
qed

lemma keyboard_fields:
  assumes "keyboard_holds ks m d" "\<forall>(g, page, usage, v) \<in> set fs. page = 0x07"
  shows "\<exists>d'. parse_fields uni_hid_parser_keyboard_parse_usage fs d = Some d' \<and>
     keyboard_holds (take 10 (ks @ pressed_usages fs)) (fields_modifiers fs m) d'"
  using assms
proof (induction fs arbitrary: ks m d)
  case Nil
  then show ?case by (auto simp: fields_modifiers_def keyboard_holds_def)
next
  case (Cons f fs)
  obtain g usage v where f: "f = (g, 0x07, usage, v)" using Cons.prems(2) by (cases f) auto
  from keyboard_step [OF Cons.prems(1), of g usage v] obtain d1 ks1 m1 where
    d1: "uni_hid_parser_keyboard_parse_usage g 0x07 usage v d = Some d1" "keyboard_holds ks1 m1 d1"
      "ks1 = take 10 (ks @ (if v \<noteq> 0 \<and> usage < HID_USAGE_KB_LEFT_CONTROL then [ucast usage] else []))"
      "fields_modifiers fs m1 = fields_modifiers (f # fs) m"
    by (auto simp: f fields_modifiers_def)
  have "take 10 (take 10 xs @ ys) = take 10 (xs @ ys)" for xs ys :: "u8 list"
    by (cases "length xs \<le> 10") auto
  then have "take 10 (ks1 @ pressed_usages fs) = take 10 (ks @ pressed_usages (f # fs))"
    unfolding d1(3) f by (simp del: take_append)
  with Cons.IH [OF d1(2)] Cons.prems(2) d1 show ?case by (simp add: f)
qed

text \<open>
  C29. A keyboard report on the keypad page is represented exactly. For every sequence of such fields the
  parser returns; the pressed keys are the first ten usages below 0xe0 with a value, in the
  order of the report, the rest of the array is 0, and a modifier bit is set exactly when one of the
  fields presses that modifier.
\<close>

theorem keyboard_report_exact:
  assumes "\<not> using_jx_05 d" "\<forall>(g, page, usage, v) \<in> set fs. page = 0x07"
  shows "\<exists>d' kb. parse_fields uni_hid_parser_keyboard_parse_usage fs (uni_hid_parser_keyboard_init_report d) = Some d' \<and>
     ctl_data (kb_controller d') = Class_keyboard kb \<and>
     pressed_keys kb = take 10 (pressed_usages fs @ replicate 10 0) \<and>
     (\<forall>n < 8. bit (modifiers kb) n \<longleftrightarrow> modifier_pressed n fs)"
proof -
  have h: "keyboard_holds [] 0 (uni_hid_parser_keyboard_init_report d)"
    using assms(1) by (simp add: keyboard_holds_def uni_hid_parser_keyboard_init_report_def keyboard0_def
        UNI_KEYBOARD_PRESSED_KEYS_MAX_def)
  obtain d' where d': "parse_fields uni_hid_parser_keyboard_parse_usage fs (uni_hid_parser_keyboard_init_report d) = Some d'"
      "keyboard_holds (take 10 (pressed_usages fs)) (fields_modifiers fs 0) d'"
    using keyboard_fields [OF h assms(2)] by auto
  have "take 10 xs @ replicate (10 - length (take 10 xs)) 0 = take 10 (xs @ replicate 10 0)" for xs :: "u8 list"
    by (cases "length xs \<le> 10") auto
  with d' bit_fields_modifiers [of _ fs 0] show ?thesis
    by (intro exI [of _ d'] exI [of _ "\<lparr>modifiers = fields_modifiers fs 0,
          pressed_keys = take 10 (pressed_usages fs @ replicate 10 0)\<rparr>"])
       (auto simp: keyboard_holds_def)
qed

definition keyboard_fresh :: keyboard_device where
  "keyboard_fresh = uni_hid_parser_keyboard_init_report \<lparr>kb_controller = clean_gamepad, pressed_key_index = 0,
     using_jx_05 = False, jx_x = 0, jx_y = 0, ready_to_process = False, last_report = False, is_down_or_button = False\<rparr>"

definition keypad_globals :: hid_globals where
  "keypad_globals = \<lparr>logical_minimum = 0, logical_maximum = 101, usage_page = 7, report_size = 8, report_count = 6, report_id = 1\<rparr>"

theorem keyboard_report_exact_witness:
  "\<exists>d' kb. parse_fields uni_hid_parser_keyboard_parse_usage [(keypad_globals, 7, 0xe1, 1), (keypad_globals, 7, 0x04, 1)]
       (uni_hid_parser_keyboard_init_report keyboard_fresh) = Some d' \<and>
     ctl_data (kb_controller d') = Class_keyboard kb \<and> pressed_keys kb = 0x04 # replicate 9 0"
proof -
  have "\<not> using_jx_05 keyboard_fresh"
    by (simp add: keyboard_fresh_def uni_hid_parser_keyboard_init_report_def)
  moreover have "\<forall>(g, page, usage, v) \<in> set [(keypad_globals, 7 :: u16, 0xe1 :: u16, 1 :: int), (keypad_globals, 7, 0x04, 1)]. page = 0x07"
    by simp
  moreover have "take 10 (pressed_usages [(keypad_globals, 7, 0xe1, 1), (keypad_globals, 7, 0x04, 1)] @ replicate 10 0) =
      0x04 # replicate 9 0"
    by simp
  ultimately show ?thesis
    using keyboard_report_exact [of keyboard_fresh "[(keypad_globals, 7, 0xe1, 1), (keypad_globals, 7, 0x04, 1)]"] by metis
qed

text \<open>
  Media keys overflow the array of pressed keys. Fields of the consumer page store their key
  without the check that the keypad page has: the eleventh such field of a report writes past the
  ten keys, whatever key it is.
\<close>

theorem keyboard_consumer_overflow:
  assumes "\<not> using_jx_05 d" "usage \<in> fst ` set consumer_keys"
  shows "parse_fields uni_hid_parser_keyboard_parse_usage (replicate 11 (g, 0x0c, usage, 1))
     (uni_hid_parser_keyboard_init_report d) = None"
proof -
  have "map_of consumer_keys usage \<noteq> None" using assms(2) by (simp add: map_of_eq_None_iff)
  then obtain key where key: "map_of consumer_keys usage = Some key" by blast
  have step: "uni_hid_parser_keyboard_parse_usage g 0x0c usage 1 d = add_key key d" if "\<not> using_jx_05 d" for d
    using that key by (simp add: uni_hid_parser_keyboard_parse_usage_def keyboard_consumer_def)
  have "parse_fields uni_hid_parser_keyboard_parse_usage (replicate (11 - i) (g, 0x0c, usage, 1)) d = None"
    if "pressed_key_index d = i" "i \<le> 10" "\<not> using_jx_05 d"
      "ctl_data (kb_controller d) = Class_keyboard kb" "length (pressed_keys kb) = 10" for i d kb
    using that
  proof (induction "10 - i" arbitrary: i d kb)
    case 0
    then have "i = 10" by simp
    with 0 show ?case by (simp add: step add_key_def put_key_def on_keyboard_def numeral_eq_Suc)
  next
    case (Suc n)
    let ?kb = "kb\<lparr>pressed_keys := (pressed_keys kb)[i := key]\<rparr>"
    let ?d = "d\<lparr>kb_controller := (kb_controller d)\<lparr>ctl_data := Class_keyboard ?kb\<rparr>, pressed_key_index := Suc i\<rparr>"
    have "parse_fields uni_hid_parser_keyboard_parse_usage (replicate (11 - Suc i) (g, 0x0c, usage, 1)) ?d = None"
      using Suc.prems Suc.hyps(2) by (intro Suc.hyps(1) [where kb = ?kb]) simp_all
    moreover have "11 - i = Suc (11 - Suc i)" using Suc.hyps(2) by simp
    moreover have "uni_hid_parser_keyboard_parse_usage g 0x0c usage 1 d = Some ?d"
      using Suc.prems Suc.hyps(2) by (simp add: step add_key_def put_key_def on_keyboard_def)
    ultimately show ?case by simp
  qed
  from this [of "uni_hid_parser_keyboard_init_report d" 0 keyboard0] assms(1) show ?thesis
    by (simp add: uni_hid_parser_keyboard_init_report_def keyboard0_def UNI_KEYBOARD_PRESSED_KEYS_MAX_def)
qed

theorem keyboard_consumer_overflow_witness:
  "parse_fields uni_hid_parser_keyboard_parse_usage (replicate 11 (keypad_globals, 0x0c, 0xe9, 1))
     (uni_hid_parser_keyboard_init_report keyboard_fresh) = None"
proof (rule keyboard_consumer_overflow)
  show "\<not> using_jx_05 keyboard_fresh"
    by (simp add: keyboard_fresh_def uni_hid_parser_keyboard_init_report_def)
qed (simp add: consumer_keys_def)

subsection \<open>Mouse\<close>

record mouse_device =
  ms_controller :: uni_controller
  ms_scale :: fp

text \<open>The literals are doubles, rounded to single precision in the table.\<close>

definition scale_literal :: "rat \<Rightarrow> fp" where
  "scale_literal x = fcvt f32 (flit f64 x)"

definition resolutions :: "(u16 \<times> u16 \<times> string option \<times> fp) list" where
  "resolutions = [
     (0x05ac, 0x030d, None, scale_literal (2 / 10)),
     (0x05ac, 0x0269, None, scale_literal (2 / 10)),
     (0x004c, 0x0269, None, scale_literal (2 / 10)),
     (0x05ac, 0x030e, None, scale_literal (47 / 100)),
     (0x0a5c, 0x4503, Some ''BM30X mouse'', scale_literal (3334 / 10000)),
     (0x0a5c, 0x4503, Some ''Adesso Bluetooth 3.0 Mouse'', scale_literal (5 / 10)),
     (0x0a5c, 0x0001, Some ''BORND Bluetooth Mouse'', scale_literal (6667 / 10000)),
     (0x046d, 0xb016, Some ''Bluetooth Mouse M336/M337/M535'', scale_literal (3334 / 10000)),
     (0x046d, 0xb007, Some ''Logitech MX Revolution Mouse'', scale_literal (3334 / 10000)),
     (0xae24, 0x8618, Some ''BT3.0 Mouse'', scale_literal (2 / 10)),
     (0xae24, 0x8618, Some ''BM20X-3.0'', scale_literal (2 / 10)),
     (0x03f0, 0x084c, Some ''HP Bluetooth Mouse Z5000'', scale_literal (5 / 10)),
     (0x046d, 0xb016, Some ''ID0078A'', scale_literal (3334 / 10000)),
     (0x248a, 0x8266, None, scale_literal (75 / 100))]"

definition mouse_scale :: "u16 \<Rightarrow> u16 \<Rightarrow> string \<Rightarrow> fp" where
  "mouse_scale vid pid name = (case find (\<lambda>(v, p, n, _). v = vid \<and> p = pid \<and> (n = None \<or> n = Some name)) resolutions of
      None \<Rightarrow> flit f32 1 | Some (_, _, _, s) \<Rightarrow> s)"

definition uni_hid_parser_mouse_setup :: "u16 \<Rightarrow> u16 \<Rightarrow> string \<Rightarrow> mouse_device \<Rightarrow> mouse_device" where
  "uni_hid_parser_mouse_setup vid pid name d = d\<lparr>ms_scale := mouse_scale vid pid name\<rparr>"

text \<open>\<open>roundf\<close> rounds to the nearest integer, halves away from 0; the conversion of no number is undefined.\<close>

fun froundf :: "fp \<Rightarrow> int option" where
  "froundf (FFin s m) = Some (if s then - \<lfloor>m + 1 / 2\<rfloor> else \<lfloor>m + 1 / 2\<rfloor>)"
| "froundf _ = None"

definition process_mouse_delta :: "fp \<Rightarrow> int \<Rightarrow> int option" where
  "process_mouse_delta scale v =
     (if v = 0 then Some 0
      else do {
        let r0 = fmul f32 (fof_int f32 v) scale;
        let r1 = (if flt r0 (FFin True 127) then FFin True 127 else r0);
        let r2 = (if flt (FFin False 127) r1 then FFin False 127 else r1);
        i \<leftarrow> froundf r2;
        Some (if i = 0 then (if v < 0 then - 1 else 1) else i)
      })"

definition on_mouse_field :: "(uni_mouse \<Rightarrow> uni_mouse) \<Rightarrow> mouse_device \<Rightarrow> mouse_device option" where
  "on_mouse_field f d = (case ctl_data (ms_controller d) of
      Class_mouse m \<Rightarrow> Some (d\<lparr>ms_controller := (ms_controller d)\<lparr>ctl_data := Class_mouse (f m)\<rparr>\<rparr>)
    | _ \<Rightarrow> None)"

definition uni_hid_parser_mouse_init_report :: "mouse_device \<Rightarrow> mouse_device" where
  "uni_hid_parser_mouse_init_report d = d\<lparr>ms_controller := \<lparr>ctl_data = Class_mouse
     \<lparr>delta_x = 0, delta_y = 0, m_buttons = 0, scroll_wheel = 0, m_misc_buttons = 0\<rparr>, battery = 0\<rparr>\<rparr>"

text \<open>Buttons 1 to 8 are the bits 0 to 7; the other usages of the pages are ignored or logged.\<close>

definition mouse_button :: "u16 \<Rightarrow> int \<Rightarrow> mouse_device \<Rightarrow> mouse_device option" where
  "mouse_button usage v d =
     (if 1 \<le> usage \<and> usage \<le> 8 \<and> v \<noteq> 0
      then on_mouse_field (\<lambda>m. m\<lparr>m_buttons := m_buttons m OR push_bit (unat usage - 1) 1\<rparr>) d
      else Some d)"

definition mouse_desktop :: "u16 \<Rightarrow> int \<Rightarrow> mouse_device \<Rightarrow> mouse_device option" where
  "mouse_desktop usage v d =
     (if usage = HID_USAGE_AXIS_X
      then process_mouse_delta (ms_scale d) v \<bind> (\<lambda>x. on_mouse_field (\<lambda>m. m\<lparr>delta_x := x\<rparr>) d)
      else if usage = HID_USAGE_AXIS_Y
      then process_mouse_delta (ms_scale d) v \<bind> (\<lambda>y. on_mouse_field (\<lambda>m. m\<lparr>delta_y := y\<rparr>) d)
      else if usage = 0x38 then on_mouse_field (\<lambda>m. m\<lparr>scroll_wheel := word_of_int v\<rparr>) d
      else Some d)"

definition uni_hid_parser_mouse_parse_usage ::
    "hid_globals \<Rightarrow> u16 \<Rightarrow> u16 \<Rightarrow> int \<Rightarrow> mouse_device \<Rightarrow> mouse_device option" where
  "uni_hid_parser_mouse_parse_usage g page usage v d =
     (if page = HID_USAGE_PAGE_GENERIC_DESKTOP then mouse_desktop usage v d
      else if page = HID_USAGE_PAGE_BUTTON then mouse_button usage v d
      else if page = HID_USAGE_PAGE_GENERIC_DEVICE_CONTROLS \<and> usage = HID_USAGE_BATTERY_STRENGTH
      then Some (d\<lparr>ms_controller := (ms_controller d)\<lparr>battery := word_of_int v\<rparr>\<rparr>)
      else Some d)"

subsubsection \<open>Movements\<close>

definition scale_ok :: "fp \<Rightarrow> bool" where
  "scale_ok s \<longleftrightarrow> frange 0 1 s"

lemma find_in_set: "find P xs = Some x \<Longrightarrow> x \<in> set xs"
  by (induction xs) (auto split: if_splits)

lemma frep_f64_1 [simp]: "frep f64 1"
  using frep_f64_numeral [of num.One] by simp

lemma frep_f32_int32 [simp]: "frep f32 2147483648"
  using frep_f32_pow [of 31] by simp

lemma scale_literal_ok: "0 \<le> x \<Longrightarrow> x \<le> 1 \<Longrightarrow> scale_ok (scale_literal x)"
  unfolding scale_ok_def scale_literal_def
  by (rule fcvt_frange [where lo = 0 and hi = 1]) (auto intro!: flit_frange)

lemma mouse_scale_ok: "scale_ok (mouse_scale vid pid name)"
proof -
  have "\<forall>(v, p, n, s) \<in> set resolutions. scale_ok s"
    by (simp add: resolutions_def scale_literal_ok)
  moreover have "scale_ok (flit f32 1)" by (auto simp: scale_ok_def intro!: flit_frange)
  ultimately show ?thesis
    by (auto simp: mouse_scale_def split: option.splits dest!: find_in_set)
qed

lemma froundf_range:
  assumes "frange lo hi v" "lo = of_int a" "hi = of_int b"
  shows "\<exists>i. froundf v = Some i \<and> a \<le> i \<and> i \<le> b"
proof -
  obtain s m where v: "v = FFin s m" "0 \<le> m" "lo \<le> sval s m" "sval s m \<le> hi" using assms(1) by (rule frangeE)
  show ?thesis
  proof (cases s)
    case True
    then have "- of_int b \<le> m" "m \<le> - of_int a" using v assms(2,3) by (auto simp: sval_def)
    then have "\<lfloor>m + 1 / 2\<rfloor> \<le> - a" "- b \<le> \<lfloor>m + 1 / 2\<rfloor>" by (auto simp: floor_le_iff le_floor_iff)
    then show ?thesis using v(1) True by auto
  next
    case False
    then have "of_int a \<le> m" "m \<le> of_int b" using v assms(2,3) by (auto simp: sval_def)
    then have "\<lfloor>m + 1 / 2\<rfloor> \<le> b" "a \<le> \<lfloor>m + 1 / 2\<rfloor>" by (auto simp: floor_le_iff le_floor_iff)
    then show ?thesis using v(1) False by auto
  qed
qed

lemma mouse_delta_ok:
  assumes "scale_ok s" "- (2 ^ 31) \<le> v" "v < 2 ^ 31"
  shows "\<exists>i. process_mouse_delta s v = Some i \<and> - 127 \<le> i \<and> i \<le> 127 \<and> sgn i = sgn v"
proof (cases v "0 :: int" rule: linorder_cases)
  case equal
  then show ?thesis by (simp add: process_mouse_delta_def)
next
  case greater
  have "(of_int v :: rat) < of_int (2 ^ 31)" using assms(3) by (simp only: of_int_less_iff)
  then have "frange 0 (2 ^ 31) (fof_int f32 v)"
    using greater by (intro fof_int_frange) (auto intro: frep_f32_pow)
  then have r0: "frange 0 (2 ^ 31) (fmul f32 (fof_int f32 v) s)"
    using assms(1) by (intro fmul_frange_nonneg [where A = "2 ^ 31" and B = 1]) (auto simp: scale_ok_def intro: frep_f32_pow)
  then obtain sg m where m: "fmul f32 (fof_int f32 v) s = FFin sg m" "0 \<le> m" "0 \<le> sval sg m" by (rule frangeE)
  let ?r2 = "if flt (FFin False 127) (FFin sg m) then FFin False 127 else FFin sg m"
  have "frange (of_int 0) (of_int 127) ?r2" using m(2,3) by (auto simp: sval_def split: if_splits)
  then obtain i where "froundf ?r2 = Some i" "0 \<le> i" "i \<le> 127" using froundf_range by blast
  moreover have "\<not> flt (FFin sg m) (FFin True 127)" using m(3) by (simp add: sval_def)
  ultimately have "process_mouse_delta s v = Some (if i = 0 then 1 else i)"
    using greater m(1) by (simp add: process_mouse_delta_def Let_def del: froundf.simps flt.simps cong: if_cong split del: if_split)
  with greater \<open>0 \<le> i\<close> \<open>i \<le> 127\<close> show ?thesis by auto
next
  case less
  have "(of_int (- (2 ^ 31)) :: rat) \<le> of_int v" using assms(2) by (simp only: of_int_le_iff)
  then have "frange (- (2 ^ 31)) 0 (fof_int f32 v)"
    using less by (intro fof_int_frange) (auto intro: frep_f32_pow)
  then obtain sa a where a: "fof_int f32 v = FFin sa a" "- (2 ^ 31) \<le> sval sa a" "sval sa a \<le> 0" by (rule frangeE)
  obtain sb b where b: "s = FFin sb b" "0 \<le> sval sb b" "sval sb b \<le> 1"
    using assms(1) unfolding scale_ok_def by (rule frangeE)
  have "- (2 ^ 31) \<le> sval sa a * sval sb b" "sval sa a * sval sb b \<le> 0"
    using a b mult_left_le [of "sval sb b" "- sval sa a"] by (auto simp: mult_nonpos_nonneg)
  then have "frange (- (2 ^ 31)) 0 (fround f32 (sa \<noteq> sb) (sval sa a * sval sb b))"
    by (intro fround_frange) (auto intro: frep_f32_pow)
  then obtain sg m where m: "fround f32 (sa \<noteq> sb) (sval sa a * sval sb b) = FFin sg m" "0 \<le> m" "sval sg m \<le> 0"
    by (rule frangeE)
  let ?r1 = "if flt (FFin sg m) (FFin True 127) then FFin True 127 else FFin sg m"
  have "frange (of_int (- 127)) (of_int 0) ?r1" using m(2,3) by (auto simp: sval_def split: if_splits)
  then obtain i where "froundf ?r1 = Some i" "- 127 \<le> i" "i \<le> 0" using froundf_range by blast
  moreover have "\<not> flt (FFin False 127) ?r1" using m(3) by (simp add: sval_def)
  ultimately have "process_mouse_delta s v = Some (if i = 0 then - 1 else i)"
    using less a(1) b(1) m(1) by (simp add: process_mouse_delta_def Let_def del: froundf.simps flt.simps cong: if_cong split del: if_split)
  with less \<open>- 127 \<le> i\<close> \<open>i \<le> 0\<close> show ?thesis by auto
qed

text \<open>
  Mouse movements are scaled safely for every model of the table: for every 32-bit value of a field
  the conversion from single precision is defined, the result lies within -127 to 127, and it has
  the direction of the value: no movement gets lost by rounding, and none appears.
\<close>

theorem mouse_movement_scaled:
  assumes "- (2 ^ 31) \<le> v" "v < 2 ^ 31" "usage = HID_USAGE_AXIS_X \<or> usage = HID_USAGE_AXIS_Y"
  shows "\<exists>d' m. uni_hid_parser_mouse_parse_usage g HID_USAGE_PAGE_GENERIC_DESKTOP usage v
       (uni_hid_parser_mouse_init_report (uni_hid_parser_mouse_setup vid pid name d)) = Some d' \<and>
     ctl_data (ms_controller d') = Class_mouse m \<and>
     (let delta = (if usage = HID_USAGE_AXIS_X then delta_x m else delta_y m)
      in - 127 \<le> delta \<and> delta \<le> 127 \<and> sgn delta = sgn v)"
proof -
  obtain i where "process_mouse_delta (mouse_scale vid pid name) v = Some i" "- 127 \<le> i" "i \<le> 127" "sgn i = sgn v"
    using mouse_delta_ok [OF mouse_scale_ok assms(1,2)] by blast
  then show ?thesis
    using assms(3) by (auto simp: uni_hid_parser_mouse_parse_usage_def mouse_desktop_def
        uni_hid_parser_mouse_init_report_def uni_hid_parser_mouse_setup_def on_mouse_field_def)
qed

theorem mouse_movement_scaled_witness:
  "\<exists>d' m. uni_hid_parser_mouse_parse_usage keypad_globals 1 0x30 (- 2)
       (uni_hid_parser_mouse_init_report (uni_hid_parser_mouse_setup 0x05ac 0x030d ''x''
          \<lparr>ms_controller = clean_gamepad, ms_scale = c0\<rparr>)) = Some d' \<and>
     ctl_data (ms_controller d') = Class_mouse m \<and> sgn (delta_x m) = - 1"
  using mouse_movement_scaled [of "- 2" "0x30" keypad_globals "0x05ac" "0x030d" "''x''"
      "\<lparr>ms_controller = clean_gamepad, ms_scale = c0\<rparr>"] by (auto simp: Let_def)

end
