(* ===== verification/SwitchPad.thy ===== *)
theory SwitchPad
  imports Ds4
begin

text \<open>
  The Nintendo Switch parser, \<^verbatim>\<open>parser/uni_hid_parser_switch.c\<close>: the set-up, a state machine of
  subcommands that each wait for a reply, the calibration of sticks and motion sensors read from the
  controller's flash, the reports of the Pro Controller, the Joy-Cons and the SNES controller, and
  the rumble encoding with its frequency and amplitude tables. The configuration of the source is
  the one modelled: motion sensors enabled, no dump of the flash.
\<close>

subsection \<open>State\<close>

datatype switch_state =
    STATE_UNINIT
  | STATE_SETUP
  | STATE_REQ_DEV_INFO
  | STATE_READ_FACTORY_STICK_CALIBRATION
  | STATE_READ_USER_STICK_CALIBRATION
  | STATE_READ_FACTORY_IMU_CALIBRATION
  | STATE_SET_FULL_REPORT
  | STATE_ENABLE_IMU
  | STATE_DUMP_FLASH
  | STATE_UPDATE_LED
  | STATE_READY

datatype switch_mode = SWITCH_MODE_NONE | SWITCH_MODE_NORMAL | SWITCH_MODE_IMU

abbreviation (input) "SWITCH_CONTROLLER_TYPE_JCL \<equiv> (0x01 :: u8)"
abbreviation (input) "SWITCH_CONTROLLER_TYPE_JCR \<equiv> (0x02 :: u8)"
abbreviation (input) "SWITCH_CONTROLLER_TYPE_PRO \<equiv> (0x03 :: u8)"
abbreviation (input) "SWITCH_CONTROLLER_TYPE_SNES \<equiv> (0x0b :: u8)"

record cal_stick =
  cal_min :: int
  cal_center :: int
  cal_max :: int

record cal_imu =
  imu_offset :: vec3
  imu_scale :: vec3

text \<open>\<open>packet_num\<close> is a static variable that all controllers share.\<close>

record switch_device = rumble_device +
  setup_timer :: "nat option"
  sw_state :: switch_state
  sw_mode :: switch_mode
  firmware_version_hi :: u8
  firmware_version_lo :: u8
  sw_type :: u8
  gamepad_seat :: u8
  cal_x :: cal_stick
  cal_y :: cal_stick
  cal_rx :: cal_stick
  cal_ry :: cal_stick
  cal_accel :: cal_imu
  cal_gyro :: cal_imu
  accel_divisor :: vec3
  gyro_divisor :: vec3
  packet_num :: u8

definition SWITCH_SETUP_TIMEOUT_MS :: nat where "SWITCH_SETUP_TIMEOUT_MS = 800"

fun vsub :: "vec3 \<Rightarrow> vec3 \<Rightarrow> vec3" where
  "vsub (a, b, c) (x, y, z) = (a - x, b - y, c - z)"

subsection \<open>Subcommands\<close>

text \<open>A request: report id, packet number, the two encoded rumbles, subcommand, data.\<close>

definition send_subcmd :: "u8 \<Rightarrow> u8 list \<Rightarrow> switch_device \<Rightarrow> switch_device" where
  "send_subcmd rid payload d =
     call (Intr_sent ([0xa2, rid, packet_num d] @ payload))
       (d\<lparr>packet_num := (if packet_num d + 1 > 0x0f then 0 else packet_num d + 1)\<rparr>)"

definition subcmd :: "u8 \<Rightarrow> u8 list \<Rightarrow> switch_device \<Rightarrow> switch_device" where
  "subcmd subcmd_id data = send_subcmd 0x01 (replicate 8 0 @ [subcmd_id] @ data)"

text \<open>The flash is read from a 16-bit address, least significant byte first.\<close>

definition spi_read :: "u16 \<Rightarrow> u8 \<Rightarrow> switch_device \<Rightarrow> switch_device" where
  "spi_read addr bytes = subcmd 0x10 [ucast addr, ucast (drop_bit 8 addr), 0, 0, bytes]"

definition fsm_request_device_info :: "switch_device \<Rightarrow> switch_device" where
  "fsm_request_device_info d = subcmd 0x02 [] (d\<lparr>sw_state := STATE_REQ_DEV_INFO\<rparr>)"

definition fsm_read_factory_stick_calibration :: "switch_device \<Rightarrow> switch_device" where
  "fsm_read_factory_stick_calibration d =
     spi_read (if sw_type d = SWITCH_CONTROLLER_TYPE_JCR then 0x6046 else 0x603d)
       (if sw_type d = SWITCH_CONTROLLER_TYPE_PRO then 18 else 9)
       (d\<lparr>sw_state := STATE_READ_FACTORY_STICK_CALIBRATION\<rparr>)"

definition fsm_read_user_stick_calibration :: "switch_device \<Rightarrow> switch_device" where
  "fsm_read_user_stick_calibration d =
     spi_read (if sw_type d = SWITCH_CONTROLLER_TYPE_JCR then 0x801b else 0x8010)
       (if sw_type d = SWITCH_CONTROLLER_TYPE_PRO then 22 else 11)
       (d\<lparr>sw_state := STATE_READ_USER_STICK_CALIBRATION\<rparr>)"

definition fsm_read_factory_imu_calibration :: "switch_device \<Rightarrow> switch_device" where
  "fsm_read_factory_imu_calibration d = spi_read 0x6020 24 (d\<lparr>sw_state := STATE_READ_FACTORY_IMU_CALIBRATION\<rparr>)"

definition fsm_set_full_report :: "switch_device \<Rightarrow> switch_device" where
  "fsm_set_full_report d = subcmd 0x03 [0x30] (d\<lparr>sw_state := STATE_SET_FULL_REPORT\<rparr>)"

definition fsm_enable_imu :: "switch_device \<Rightarrow> switch_device" where
  "fsm_enable_imu d = subcmd 0x40 [if sw_mode d = SWITCH_MODE_IMU then 1 else 0] (d\<lparr>sw_state := STATE_ENABLE_IMU\<rparr>)"

definition set_led :: "u8 \<Rightarrow> switch_device \<Rightarrow> switch_device" where
  "set_led leds d = subcmd 0x30 [leds AND 0x0f] (d\<lparr>gamepad_seat := leds\<rparr>)"

definition fsm_update_led :: "switch_device \<Rightarrow> switch_device" where
  "fsm_update_led d = set_led (gamepad_seat d) (d\<lparr>sw_state := STATE_UPDATE_LED\<rparr>)"

definition uni_hid_parser_switch_set_player_leds :: "u8 \<Rightarrow> switch_device \<Rightarrow> switch_device" where
  "uni_hid_parser_switch_set_player_leds leds d =
     (let d1 = d\<lparr>gamepad_seat := leds\<rparr> in if sw_state d1 = STATE_READY then set_led leds d1 else d1)"

subsection \<open>The state machine\<close>

fun state_rank :: "switch_state \<Rightarrow> nat" where
  "state_rank STATE_UNINIT = 0"
| "state_rank STATE_SETUP = 1"
| "state_rank STATE_REQ_DEV_INFO = 2"
| "state_rank STATE_READ_FACTORY_STICK_CALIBRATION = 3"
| "state_rank STATE_READ_USER_STICK_CALIBRATION = 4"
| "state_rank STATE_READ_FACTORY_IMU_CALIBRATION = 5"
| "state_rank STATE_SET_FULL_REPORT = 6"
| "state_rank STATE_ENABLE_IMU = 7"
| "state_rank STATE_DUMP_FLASH = 8"
| "state_rank STATE_UPDATE_LED = 9"
| "state_rank STATE_READY = 10"

text \<open>
  Without a dump the step after the sensors removes the timer and goes on at once; so does the step to
  the ready state. The recursion ends because the state only moves forward.
\<close>

function process_fsm :: "switch_device \<Rightarrow> switch_device" where
  "process_fsm d = (case sw_state d of
      STATE_SETUP \<Rightarrow> fsm_request_device_info (d\<lparr>setup_timer := Some SWITCH_SETUP_TIMEOUT_MS\<rparr>)
    | STATE_REQ_DEV_INFO \<Rightarrow> fsm_read_factory_stick_calibration d
    | STATE_READ_FACTORY_STICK_CALIBRATION \<Rightarrow> fsm_read_user_stick_calibration d
    | STATE_READ_USER_STICK_CALIBRATION \<Rightarrow> fsm_read_factory_imu_calibration d
    | STATE_READ_FACTORY_IMU_CALIBRATION \<Rightarrow> fsm_set_full_report d
    | STATE_SET_FULL_REPORT \<Rightarrow> fsm_enable_imu d
    | STATE_ENABLE_IMU \<Rightarrow> process_fsm (d\<lparr>sw_state := STATE_DUMP_FLASH, setup_timer := None\<rparr>)
    | STATE_DUMP_FLASH \<Rightarrow> fsm_update_led d
    | STATE_UPDATE_LED \<Rightarrow> process_fsm (call Ready_complete (d\<lparr>sw_state := STATE_READY\<rparr>))
    | STATE_READY \<Rightarrow> d\<lparr>setup_timer := None\<rparr>
    | STATE_UNINIT \<Rightarrow> d)"
  by pat_completeness auto
termination
  by (relation "measure (\<lambda>d. 10 - state_rank (sw_state d))") (auto simp: call_def)

declare process_fsm.simps [simp del]

definition default_cal_stick :: cal_stick where
  "default_cal_stick = \<lparr>cal_min = 512, cal_center = 2048, cal_max = 3583\<rparr>"

definition uni_hid_parser_switch_setup :: "switch_device \<Rightarrow> switch_device" where
  "uni_hid_parser_switch_setup d = process_fsm (d\<lparr>
     timer_duration := None, timer_delayed_start := None, motor_state := STATE_RUMBLE_DISABLED,
     weak_magnitude := 0, strong_magnitude := 0, duration_ms := 0, setup_timer := None,
     sw_state := STATE_SETUP, sw_mode := SWITCH_MODE_NONE, firmware_version_hi := 0, firmware_version_lo := 0,
     sw_type := SWITCH_CONTROLLER_TYPE_PRO, gamepad_seat := 0,
     cal_x := default_cal_stick, cal_y := default_cal_stick, cal_rx := default_cal_stick, cal_ry := default_cal_stick,
     cal_accel := \<lparr>imu_offset = (0, 0, 0), imu_scale = (16384, 16384, 16384)\<rparr>,
     cal_gyro := \<lparr>imu_offset = (0, 0, 0), imu_scale = (13371, 13371, 13371)\<rparr>,
     accel_divisor := (16384, 16384, 16384), gyro_divisor := (13371, 13371, 13371),
     raw_controller := clean_gamepad\<rparr>)"

definition switch_setup_timeout_callback :: "switch_device \<Rightarrow> switch_device" where
  "switch_setup_timeout_callback = process_fsm"

subsection \<open>Calibration from the flash\<close>

text \<open>Two values of 12 bits in three bytes.\<close>

definition u12_first :: "u8 list \<Rightarrow> nat \<Rightarrow> int" where
  "u12_first r i = uint (r ! i) + 2 ^ 8 * uint (r ! (i + 1) AND 0x0f)"

definition u12_second :: "u8 list \<Rightarrow> nat \<Rightarrow> int" where
  "u12_second r i = uint (drop_bit 4 (r ! (i + 1))) + 2 ^ 4 * uint (r ! (i + 2))"

definition cal_of :: "int \<Rightarrow> int \<Rightarrow> int \<Rightarrow> cal_stick" where
  "cal_of c lo hi = \<lparr>cal_min = c - lo, cal_center = c, cal_max = c + hi\<rparr>"

text \<open>The left stick has maximum, centre and minimum in this order, the right one centre, minimum, maximum.\<close>

definition parse_stick_calibration :: "u8 list \<Rightarrow> nat \<Rightarrow> bool \<Rightarrow> cal_stick \<times> cal_stick" where
  "parse_stick_calibration r i is_left =
     (if is_left
      then (cal_of (u12_first r (i + 3)) (u12_first r (i + 6)) (u12_first r i),
            cal_of (u12_second r (i + 3)) (u12_second r (i + 6)) (u12_second r i))
      else (cal_of (u12_first r i) (u12_first r (i + 3)) (u12_first r (i + 6)),
            cal_of (u12_second r i) (u12_second r (i + 3)) (u12_second r (i + 6))))"

definition store_left :: "u8 list \<Rightarrow> nat \<Rightarrow> switch_device \<Rightarrow> switch_device" where
  "store_left r i d = (case parse_stick_calibration r i True of (x, y) \<Rightarrow> d\<lparr>cal_x := x, cal_y := y\<rparr>)"

definition store_right :: "u8 list \<Rightarrow> nat \<Rightarrow> switch_device \<Rightarrow> switch_device" where
  "store_right r i d = (case parse_stick_calibration r i False of (x, y) \<Rightarrow> d\<lparr>cal_rx := x, cal_ry := y\<rparr>)"

text \<open>
  The replies: \<open>r\<close> is the whole report, whose data starts at 20; \<open>mem_len\<close> is the number of bytes the
  controller says it sends, which is not compared with the length of the report. Stick data that is too
  short is refused, but dumped to the log, as many bytes of it as the controller says.
\<close>

definition hexdump_data :: "u8 list \<Rightarrow> nat \<Rightarrow> switch_device \<Rightarrow> switch_device option" where
  "hexdump_data r mem_len d = reads (20 + mem_len) r (Some d)"

definition process_reply_read_spi_factory_stick_calibration ::
    "u8 list \<Rightarrow> nat \<Rightarrow> switch_device \<Rightarrow> switch_device option" where
  "process_reply_read_spi_factory_stick_calibration r mem_len d =
     (if sw_type d = SWITCH_CONTROLLER_TYPE_PRO
      then (if mem_len < 18 then hexdump_data r mem_len d else reads 38 r (Some (store_right r 29 (store_left r 20 d))))
      else if mem_len < 9 then hexdump_data r mem_len d
      else reads 29 r (Some (if sw_type d = SWITCH_CONTROLLER_TYPE_JCL then store_left r 20 d else store_right r 20 d)))"

definition user_calibrated :: "u8 list \<Rightarrow> nat \<Rightarrow> bool" where
  "user_calibrated r i \<longleftrightarrow> r ! i = 0xb2 \<and> r ! (i + 1) = 0xa1"

definition process_reply_read_spi_user_stick_calibration ::
    "u8 list \<Rightarrow> nat \<Rightarrow> switch_device \<Rightarrow> switch_device option" where
  "process_reply_read_spi_user_stick_calibration r mem_len d = reads 22 r (
     if sw_type d = SWITCH_CONTROLLER_TYPE_PRO
     then if mem_len < 18 then hexdump_data r mem_len d
       else reads 33 r (do {
         d1 \<leftarrow> (if user_calibrated r 20 then Some (store_left r 22 d) else Some d);
         if user_calibrated r 31 then reads 42 r (Some (store_right r 33 d1)) else Some d1
       })
     else if mem_len < 9 then hexdump_data r mem_len d
       else if user_calibrated r 20
       then reads 31 r (Some (if sw_type d = SWITCH_CONTROLLER_TYPE_JCL then store_left r 22 d else store_right r 22 d))
       else Some d)"

definition s16x3_at :: "u8 list \<Rightarrow> nat \<Rightarrow> vec3" where
  "s16x3_at r i = (s16_at r i, s16_at r (i + 2), s16_at r (i + 4))"

definition process_reply_read_spi_factory_imu_calibration ::
    "u8 list \<Rightarrow> nat \<Rightarrow> switch_device \<Rightarrow> switch_device option" where
  "process_reply_read_spi_factory_imu_calibration r mem_len d =
     (if mem_len \<noteq> 24 then Some d
      else reads 44 r (Some (d\<lparr>
        cal_accel := \<lparr>imu_offset = s16x3_at r 20, imu_scale = s16x3_at r 26\<rparr>,
        cal_gyro := \<lparr>imu_offset = s16x3_at r 32, imu_scale = s16x3_at r 38\<rparr>,
        accel_divisor := vsub (s16x3_at r 26) (s16x3_at r 20),
        gyro_divisor := vsub (s16x3_at r 38) (s16x3_at r 32)\<rparr>)))"

definition process_reply_spi_flash_read :: "u8 list \<Rightarrow> switch_device \<Rightarrow> switch_device option" where
  "process_reply_spi_flash_read r d =
     (if length r < 20 then Some d
      else let mem_len = unat (r ! 19)
           in case sw_state d of
               STATE_READ_FACTORY_STICK_CALIBRATION \<Rightarrow> process_reply_read_spi_factory_stick_calibration r mem_len d
             | STATE_READ_USER_STICK_CALIBRATION \<Rightarrow> process_reply_read_spi_user_stick_calibration r mem_len d
             | STATE_READ_FACTORY_IMU_CALIBRATION \<Rightarrow> process_reply_read_spi_factory_imu_calibration r mem_len d
             | _ \<Rightarrow> Some d)"

definition process_reply_req_dev_info :: "u8 list \<Rightarrow> switch_device \<Rightarrow> switch_device option" where
  "process_reply_req_dev_info r d = reads 18 r (Some (
     let d1 = (if sw_state d \<notin> {STATE_UNINIT, STATE_SETUP} \<and> sw_mode d = SWITCH_MODE_NONE
               then d\<lparr>sw_mode := SWITCH_MODE_IMU\<rparr> else d)
     in d1\<lparr>firmware_version_hi := r ! 15, firmware_version_lo := r ! 16, sw_type := r ! 17\<rparr>))"

definition switch_battery :: "u8 \<Rightarrow> u8 option" where
  "switch_battery bat_con = switch (drop_bit 5 bat_con)
     [(0, Some 1), (1, Some 64), (2, Some 128), (3, Some 192), (4, Some 255)] None"

text \<open>A reply that reports failure is only logged; every reply moves the state machine on.\<close>

definition process_input_subcmd_reply :: "u8 list \<Rightarrow> switch_device \<Rightarrow> switch_device option" where
  "process_input_subcmd_reply r d = reads 15 r (do {
     d1 \<leftarrow> (if r ! 14 = 0x02 then process_reply_req_dev_info r d
            else if r ! 14 = 0x10 then process_reply_spi_flash_read r d
            else Some d);
     Some (process_fsm (case switch_battery (r ! 2) of None \<Rightarrow> d1 | Some b \<Rightarrow> set_battery b d1))
   })"

subsection \<open>Sticks, buttons and motion sensors\<close>

definition calibrate_axis :: "int \<Rightarrow> cal_stick \<Rightarrow> int option" where
  "calibrate_axis v cal = do {
     let up = v > cal_center cal;
     let num = (if up then cdiv ((v - cal_center cal) * AXIS_NORMALIZE_RANGE) 2
                else cdiv ((cal_center cal - v) * - AXIS_NORMALIZE_RANGE) 2);
     let den = (if up then cal_max cal - cal_center cal else cal_center cal - cal_min cal);
     if den = 0 then None else Some (max (- 512) (min 512 (cdiv num den)))
   }"

definition calibrate_stick :: "u8 list \<Rightarrow> nat \<Rightarrow> cal_stick \<Rightarrow> cal_stick \<Rightarrow> (int \<times> int) option" where
  "calibrate_stick r i cx cy = do {
     x \<leftarrow> calibrate_axis (u12_first r i) cx;
     y \<leftarrow> calibrate_axis (u12_second r i) cy;
     Some (x, y)
   }"

text \<open>The bytes of report 0x30: right buttons 3, shared buttons 4, left buttons 5, sticks 6 and 9.\<close>

definition pro_buttons :: "u8 list \<Rightarrow> uni_gamepad \<Rightarrow> uni_gamepad" where
  "pro_buttons r gp =
     (let gp1 = press_flags [(0x01, BUTTON_X), (0x02, BUTTON_Y), (0x04, BUTTON_A), (0x08, BUTTON_B),
            (0x40, BUTTON_SHOULDER_R), (0x80, BUTTON_TRIGGER_R)] (r ! 3) gp;
          gp2 = press_dpad_flags [(0x01, DPAD_DOWN), (0x02, DPAD_UP), (0x04, DPAD_RIGHT), (0x08, DPAD_LEFT)] (r ! 5) gp1;
          gp3 = press_flags [(0x40, BUTTON_SHOULDER_L), (0x80, BUTTON_TRIGGER_L)] (r ! 5) gp2
      in press_misc_flags [(0x01, MISC_BUTTON_SELECT), (0x02, MISC_BUTTON_START), (0x10, MISC_BUTTON_SYSTEM),
            (0x20, MISC_BUTTON_CAPTURE)] (r ! 4) gp3)"

definition parse_report_30_pro_controller :: "u8 list \<Rightarrow> switch_device \<Rightarrow> switch_device option" where
  "parse_report_30_pro_controller r d =
     (if sw_type d = SWITCH_CONTROLLER_TYPE_PRO
      then do {
        (x, y) \<leftarrow> calibrate_stick r 6 (cal_x d) (cal_y d);
        (rx, ry) \<leftarrow> calibrate_stick r 9 (cal_rx d) (cal_ry d);
        on_raw (\<lambda>gp. (press_flags [(0x04, BUTTON_THUMB_R), (0x08, BUTTON_THUMB_L)] (r ! 4) (pro_buttons r gp))
          \<lparr>axis_x := x, axis_y := - y, axis_rx := rx, axis_ry := - ry\<rparr>) d
      }
      else on_raw (pro_buttons r) d)"

text \<open>The Joy-Cons are held sideways: their axes and buttons are turned.\<close>

definition parse_report_30_joycon_left :: "u8 list \<Rightarrow> switch_device \<Rightarrow> switch_device option" where
  "parse_report_30_joycon_left r d = do {
     (x, y) \<leftarrow> calibrate_stick r 6 (cal_x d) (cal_y d);
     on_raw (\<lambda>gp.
       let gp1 = gp\<lparr>axis_x := - y, axis_y := - x\<rparr>;
           gp2 = press_flags [(0x01, BUTTON_B), (0x02, BUTTON_X), (0x04, BUTTON_Y), (0x08, BUTTON_A),
             (0x10, BUTTON_SHOULDER_R), (0x20, BUTTON_SHOULDER_L), (0x40, BUTTON_TRIGGER_L), (0x80, BUTTON_TRIGGER_R)]
             (r ! 5) gp1;
           gp3 = press_flags [(0x08, BUTTON_THUMB_L)] (r ! 4) gp2
       in press_misc_flags [(0x01, MISC_BUTTON_SELECT), (0x20, MISC_BUTTON_START)] (r ! 4) gp3) d
   }"

definition parse_report_30_joycon_right :: "u8 list \<Rightarrow> switch_device \<Rightarrow> switch_device option" where
  "parse_report_30_joycon_right r d = do {
     (x, y) \<leftarrow> calibrate_stick r 9 (cal_rx d) (cal_ry d);
     on_raw (\<lambda>gp.
       let gp1 = gp\<lparr>axis_x := y, axis_y := x\<rparr>;
           gp2 = press_flags [(0x01, BUTTON_Y), (0x02, BUTTON_B), (0x04, BUTTON_X), (0x08, BUTTON_A),
             (0x10, BUTTON_SHOULDER_R), (0x20, BUTTON_SHOULDER_L), (0x40, BUTTON_TRIGGER_L), (0x80, BUTTON_TRIGGER_R)]
             (r ! 3) gp1;
           gp3 = press_flags [(0x04, BUTTON_THUMB_L)] (r ! 4) gp2
       in press_misc_flags [(0x10, MISC_BUTTON_SELECT), (0x02, MISC_BUTTON_START)] (r ! 4) gp3) d
   }"

text \<open>
  The last of the three samples, at 37. The product of the accelerometer fits 32 bits; the gyroscope is
  computed in 64 bits and stored in 32. Only the accelerometer's divisor is checked.
\<close>

definition imu_accel :: "int \<Rightarrow> int \<Rightarrow> int \<Rightarrow> int" where
  "imu_accel raw scale divisor = (if divisor = 0 then raw else cdiv (raw * scale) divisor)"

definition imu_gyro :: "int \<Rightarrow> int \<Rightarrow> int \<Rightarrow> int \<Rightarrow> int option" where
  "imu_gyro raw offset scale divisor = map_option s32 (mult_frac (1000 * (raw - offset)) scale divisor)"

fun accel3 :: "vec3 \<Rightarrow> vec3 \<Rightarrow> vec3 \<Rightarrow> vec3" where
  "accel3 (x, y, z) (sx, sy, sz) (dx, dy, dz) = (imu_accel x sx dx, imu_accel y sy dy, imu_accel z sz dz)"

fun gyro3 :: "vec3 \<Rightarrow> vec3 \<Rightarrow> vec3 \<Rightarrow> vec3 \<Rightarrow> vec3 option" where
  "gyro3 (x, y, z) (ox, oy, oz) (sx, sy, sz) (dx, dy, dz) = do {
     gx \<leftarrow> imu_gyro x ox sx dx;
     gy \<leftarrow> imu_gyro y oy sy dy;
     gz \<leftarrow> imu_gyro z oz sz dz;
     Some (gx, gy, gz)
   }"

fun negate_yz :: "vec3 \<Rightarrow> vec3 option" where
  "negate_yz (x, y, z) = do {
     y' \<leftarrow> chk32 (- y);
     z' \<leftarrow> chk32 (- z);
     Some (x, y', z')
   }"

definition parse_imu :: "u8 list \<Rightarrow> switch_device \<Rightarrow> switch_device option" where
  "parse_imu r d = reads 49 r (do {
     let a = accel3 (s16x3_at r 37) (imu_scale (cal_accel d)) (accel_divisor d);
     g \<leftarrow> gyro3 (s16x3_at r 43) (imu_offset (cal_gyro d)) (imu_scale (cal_gyro d)) (gyro_divisor d);
     a' \<leftarrow> (if sw_type d = SWITCH_CONTROLLER_TYPE_JCR then negate_yz a else Some a);
     g' \<leftarrow> (if sw_type d = SWITCH_CONTROLLER_TYPE_JCR then negate_yz g else Some g);
     on_raw (\<lambda>gp. gp\<lparr>accel := a', gyro := g'\<rparr>) d
   })"

definition parse_report_30 :: "u8 list \<Rightarrow> switch_device \<Rightarrow> switch_device option" where
  "parse_report_30 r d = do {
     d0 \<leftarrow> on_raw (\<lambda>gp. gamepad0) d;
     d1 \<leftarrow> reads 12 r (
       if sw_type d = SWITCH_CONTROLLER_TYPE_JCL then parse_report_30_joycon_left r d0
       else if sw_type d = SWITCH_CONTROLLER_TYPE_JCR then parse_report_30_joycon_right r d0
       else if sw_type d = SWITCH_CONTROLLER_TYPE_PRO \<or> sw_type d = SWITCH_CONTROLLER_TYPE_SNES
       then parse_report_30_pro_controller r d0
       else Some d0);
     if sw_mode d1 = SWITCH_MODE_IMU then parse_imu r d1 else Some d1
   }"

definition axis_3f :: "int \<Rightarrow> int" where
  "axis_3f v = cdiv (v * AXIS_NORMALIZE_RANGE) 65536 - 512"

definition gamepad_3f :: "u8 list \<Rightarrow> uni_gamepad" where
  "gamepad_3f r =
     (let gp1 = press_flags [(0x01, BUTTON_A), (0x02, BUTTON_B), (0x04, BUTTON_X), (0x08, BUTTON_Y),
            (0x10, BUTTON_SHOULDER_L), (0x20, BUTTON_SHOULDER_R), (0x40, BUTTON_TRIGGER_L), (0x80, BUTTON_TRIGGER_R)]
            (r ! 1) gamepad0;
          gp2 = press_misc_flags [(0x01, MISC_BUTTON_SELECT), (0x02, MISC_BUTTON_START), (0x10, MISC_BUTTON_SYSTEM),
            (0x20, MISC_BUTTON_CAPTURE)] (r ! 2) gp1;
          gp3 = press_flags [(0x04, BUTTON_THUMB_L), (0x08, BUTTON_THUMB_R)] (r ! 2) gp2
      in gp3\<lparr>dpad := uni_hid_parser_hat_to_dpad (r ! 3), axis_x := axis_3f (u16_at r 4), axis_y := axis_3f (u16_at r 6),
           axis_rx := axis_3f (u16_at r 8), axis_ry := axis_3f (u16_at r 10)\<rparr>)"

definition parse_report_3f :: "u8 list \<Rightarrow> switch_device \<Rightarrow> switch_device option" where
  "parse_report_3f r = on_raw (\<lambda>gp. gamepad_3f r)"

definition uni_hid_parser_switch_parse_input_report :: "u8 list \<Rightarrow> switch_device \<Rightarrow> switch_device option" where
  "uni_hid_parser_switch_parse_input_report r d =
     (if length r < 12 then Some d
      else if r ! 0 = 0x21 then process_input_subcmd_reply r d
      else if r ! 0 = 0x30 then parse_report_30 r d
      else if r ! 0 = 0x3f then parse_report_3f r d
      else Some d)"

fun switch_run :: "u8 list list \<Rightarrow> switch_device \<Rightarrow> switch_device option" where
  "switch_run [] d = Some d"
| "switch_run (r # rs) d = Option.bind (uni_hid_parser_switch_parse_input_report r d) (switch_run rs)"

subsection \<open>Rumble\<close>

text \<open>Entries: high band, low band, and the frequency or amplitude.\<close>

definition rumble_freqs :: "(u16 \<times> u8 \<times> nat) list" where
  "rumble_freqs = [
     (0x0000, 0x01, 41), (0x0000, 0x02, 42), (0x0000, 0x03, 43), (0x0000, 0x04, 44), (0x0000, 0x05, 45),
     (0x0000, 0x06, 46), (0x0000, 0x07, 47), (0x0000, 0x08, 48), (0x0000, 0x09, 49), (0x0000, 0x0a, 50),
     (0x0000, 0x0b, 51), (0x0000, 0x0c, 52), (0x0000, 0x0d, 53), (0x0000, 0x0e, 54), (0x0000, 0x0f, 55),
     (0x0000, 0x10, 57), (0x0000, 0x11, 58), (0x0000, 0x12, 59), (0x0000, 0x13, 60), (0x0000, 0x14, 62),
     (0x0000, 0x15, 63), (0x0000, 0x16, 64), (0x0000, 0x17, 66), (0x0000, 0x18, 67), (0x0000, 0x19, 69),
     (0x0000, 0x1a, 70), (0x0000, 0x1b, 72), (0x0000, 0x1c, 73), (0x0000, 0x1d, 75), (0x0000, 0x1e, 77),
     (0x0000, 0x1f, 78), (0x0000, 0x20, 80), (0x0400, 0x21, 82), (0x0800, 0x22, 84), (0x0c00, 0x23, 85),
     (0x1000, 0x24, 87), (0x1400, 0x25, 89), (0x1800, 0x26, 91), (0x1c00, 0x27, 93), (0x2000, 0x28, 95),
     (0x2400, 0x29, 97), (0x2800, 0x2a, 99), (0x2c00, 0x2b, 102), (0x3000, 0x2c, 104), (0x3400, 0x2d, 106),
     (0x3800, 0x2e, 108), (0x3c00, 0x2f, 111), (0x4000, 0x30, 113), (0x4400, 0x31, 116), (0x4800, 0x32, 118),
     (0x4c00, 0x33, 121), (0x5000, 0x34, 123), (0x5400, 0x35, 126), (0x5800, 0x36, 129), (0x5c00, 0x37, 132),
     (0x6000, 0x38, 135), (0x6400, 0x39, 137), (0x6800, 0x3a, 141), (0x6c00, 0x3b, 144), (0x7000, 0x3c, 147),
     (0x7400, 0x3d, 150), (0x7800, 0x3e, 153), (0x7c00, 0x3f, 157), (0x8000, 0x40, 160), (0x8400, 0x41, 164),
     (0x8800, 0x42, 167), (0x8c00, 0x43, 171), (0x9000, 0x44, 174), (0x9400, 0x45, 178), (0x9800, 0x46, 182),
     (0x9c00, 0x47, 186), (0xa000, 0x48, 190), (0xa400, 0x49, 194), (0xa800, 0x4a, 199), (0xac00, 0x4b, 203),
     (0xb000, 0x4c, 207), (0xb400, 0x4d, 212), (0xb800, 0x4e, 217), (0xbc00, 0x4f, 221), (0xc000, 0x50, 226),
     (0xc400, 0x51, 231), (0xc800, 0x52, 236), (0xcc00, 0x53, 241), (0xd000, 0x54, 247), (0xd400, 0x55, 252),
     (0xd800, 0x56, 258), (0xdc00, 0x57, 263), (0xe000, 0x58, 269), (0xe400, 0x59, 275), (0xe800, 0x5a, 281),
     (0xec00, 0x5b, 287), (0xf000, 0x5c, 293), (0xf400, 0x5d, 300), (0xf800, 0x5e, 306), (0xfc00, 0x5f, 313),
     (0x0001, 0x60, 320), (0x0401, 0x61, 327), (0x0801, 0x62, 334), (0x0c01, 0x63, 341), (0x1001, 0x64, 349),
     (0x1401, 0x65, 357), (0x1801, 0x66, 364), (0x1c01, 0x67, 372), (0x2001, 0x68, 381), (0x2401, 0x69, 389),
     (0x2801, 0x6a, 397), (0x2c01, 0x6b, 406), (0x3001, 0x6c, 415), (0x3401, 0x6d, 424), (0x3801, 0x6e, 433),
     (0x3c01, 0x6f, 443), (0x4001, 0x70, 453), (0x4401, 0x71, 462), (0x4801, 0x72, 473), (0x4c01, 0x73, 483),
     (0x5001, 0x74, 494), (0x5401, 0x75, 504), (0x5801, 0x76, 515), (0x5c01, 0x77, 527), (0x6001, 0x78, 538),
     (0x6401, 0x79, 550), (0x6801, 0x7a, 562), (0x6c01, 0x7b, 574), (0x7001, 0x7c, 587), (0x7401, 0x7d, 600),
     (0x7801, 0x7e, 613), (0x7c01, 0x7f, 626), (0x8001, 0x00, 640), (0x8401, 0x00, 654), (0x8801, 0x00, 668),
     (0x8c01, 0x00, 683), (0x9001, 0x00, 698), (0x9401, 0x00, 713), (0x9801, 0x00, 729), (0x9c01, 0x00, 745),
     (0xa001, 0x00, 761), (0xa401, 0x00, 778), (0xa801, 0x00, 795), (0xac01, 0x00, 812), (0xb001, 0x00, 830),
     (0xb401, 0x00, 848), (0xb801, 0x00, 867), (0xbc01, 0x00, 886), (0xc001, 0x00, 905), (0xc401, 0x00, 925),
     (0xc801, 0x00, 945), (0xcc01, 0x00, 966), (0xd001, 0x00, 987), (0xd401, 0x00, 1009), (0xd801, 0x00, 1031),
     (0xdc01, 0x00, 1053), (0xe001, 0x00, 1076), (0xe401, 0x00, 1100), (0xe801, 0x00, 1124), (0xec01, 0x00, 1149),
     (0xf001, 0x00, 1174), (0xf401, 0x00, 1199), (0xf801, 0x00, 1226), (0xfc01, 0x00, 1253)]"

definition rumble_amps :: "(u8 \<times> u16 \<times> nat) list" where
  "rumble_amps = [
     (0x00, 0x0040, 0), (0x02, 0x8040, 10), (0x04, 0x0041, 12), (0x06, 0x8041, 14), (0x08, 0x0042, 17),
     (0x0a, 0x8042, 20), (0x0c, 0x0043, 24), (0x0e, 0x8043, 28), (0x10, 0x0044, 33), (0x12, 0x8044, 40),
     (0x14, 0x0045, 47), (0x16, 0x8045, 56), (0x18, 0x0046, 67), (0x1a, 0x8046, 80), (0x1c, 0x0047, 95),
     (0x1e, 0x8047, 112), (0x20, 0x0048, 117), (0x22, 0x8048, 123), (0x24, 0x0049, 128), (0x26, 0x8049, 134),
     (0x28, 0x004a, 140), (0x2a, 0x804a, 146), (0x2c, 0x004b, 152), (0x2e, 0x804b, 159), (0x30, 0x004c, 166),
     (0x32, 0x804c, 173), (0x34, 0x004d, 181), (0x36, 0x804d, 189), (0x38, 0x004e, 198), (0x3a, 0x804e, 206),
     (0x3c, 0x004f, 215), (0x3e, 0x804f, 225), (0x40, 0x0050, 230), (0x42, 0x8050, 235), (0x44, 0x0051, 240),
     (0x46, 0x8051, 245), (0x48, 0x0052, 251), (0x4a, 0x8052, 256), (0x4c, 0x0053, 262), (0x4e, 0x8053, 268),
     (0x50, 0x0054, 273), (0x52, 0x8054, 279), (0x54, 0x0055, 286), (0x56, 0x8055, 292), (0x58, 0x0056, 298),
     (0x5a, 0x8056, 305), (0x5c, 0x0057, 311), (0x5e, 0x8057, 318), (0x60, 0x0058, 325), (0x62, 0x8058, 332),
     (0x64, 0x0059, 340), (0x66, 0x8059, 347), (0x68, 0x005a, 355), (0x6a, 0x805a, 362), (0x6c, 0x005b, 370),
     (0x6e, 0x805b, 378), (0x70, 0x005c, 387), (0x72, 0x805c, 395), (0x74, 0x005d, 404), (0x76, 0x805d, 413),
     (0x78, 0x005e, 422), (0x7a, 0x805e, 431), (0x7c, 0x005f, 440), (0x7e, 0x805f, 450), (0x80, 0x0060, 460),
     (0x82, 0x8060, 470), (0x84, 0x0061, 480), (0x86, 0x8061, 491), (0x88, 0x0062, 501), (0x8a, 0x8062, 512),
     (0x8c, 0x0063, 524), (0x8e, 0x8063, 535), (0x90, 0x0064, 547), (0x92, 0x8064, 559), (0x94, 0x0065, 571),
     (0x96, 0x8065, 584), (0x98, 0x0066, 596), (0x9a, 0x8066, 609), (0x9c, 0x0067, 623), (0x9e, 0x8067, 636),
     (0xa0, 0x0068, 650), (0xa2, 0x8068, 665), (0xa4, 0x0069, 679), (0xa6, 0x8069, 694), (0xa8, 0x006a, 709),
     (0xaa, 0x806a, 725), (0xac, 0x006b, 741), (0xae, 0x806b, 757), (0xb0, 0x006c, 773), (0xb2, 0x806c, 790),
     (0xb4, 0x006d, 808), (0xb6, 0x806d, 825), (0xb8, 0x006e, 843), (0xba, 0x806e, 862), (0xbc, 0x006f, 881),
     (0xbe, 0x806f, 900), (0xc0, 0x0070, 920), (0xc2, 0x8070, 940), (0xc4, 0x0071, 960), (0xc6, 0x8071, 981),
     (0xc8, 0x0072, 1003)]"

definition entry_value :: "'a \<times> 'b \<times> nat \<Rightarrow> nat" where
  "entry_value e = snd (snd e)"

text \<open>The loop: the first index below \<open>n\<close> whose interval contains the value, or \<open>n\<close>.\<close>

function scan_table :: "('a \<times> 'b \<times> nat) list \<Rightarrow> nat \<Rightarrow> nat \<Rightarrow> nat \<Rightarrow> nat" where
  "scan_table t v n i =
     (if i < n
      then if v > entry_value (t ! (i - 1)) \<and> v \<le> entry_value (t ! i) then i else scan_table t v n (i + 1)
      else i)"
  by pat_completeness auto
termination
  by (relation "measure (\<lambda>(t, v, n, i). n - i)") auto

declare scan_table.simps [simp del]

definition table_index :: "('a \<times> 'b \<times> nat) list \<Rightarrow> nat \<Rightarrow> nat" where
  "table_index t v = (if v > entry_value (t ! 0) then scan_table t v (length t - 1) 1 else 0)"

definition find_rumble_freq :: "nat \<Rightarrow> u16 \<times> u8 \<times> nat" where
  "find_rumble_freq freq = rumble_freqs ! table_index rumble_freqs freq"

definition find_rumble_amp :: "nat \<Rightarrow> u8 \<times> u16 \<times> nat" where
  "find_rumble_amp amp = rumble_amps ! table_index rumble_amps amp"

definition switch_encode_rumble :: "nat \<Rightarrow> nat \<Rightarrow> nat \<Rightarrow> u8 list" where
  "switch_encode_rumble freq_low freq_high amp =
     (case find_rumble_freq freq_low of (_, low, _) \<Rightarrow>
      case find_rumble_freq freq_high of (high, _, _) \<Rightarrow>
      case find_rumble_amp amp of (amp_high, amp_low, _) \<Rightarrow>
        [ucast (drop_bit 8 high), ucast high + amp_high, low + ucast (drop_bit 8 amp_low), ucast amp_low])"

text \<open>Requests that only rumble end before the subcommand. The magnitudes are used as frequencies.\<close>

definition rumble_default :: "u8 list" where
  "rumble_default = [0x00, 0x01, 0x40, 0x40]"

definition switch_stop_rumble_now :: "switch_device \<Rightarrow> switch_device option" where
  "switch_stop_rumble_now d =
     (if motor_state d \<noteq> STATE_RUMBLE_IN_PROGRESS then None
      else Some (send_subcmd 0x10 (rumble_default @ rumble_default) (d\<lparr>motor_state := STATE_RUMBLE_DISABLED\<rparr>)))"

definition switch_rumble_payload :: "u8 \<Rightarrow> u8 \<Rightarrow> u8 list" where
  "switch_rumble_payload weak strong =
     switch_encode_rumble (4 * unat weak) (unat weak) 500 @ switch_encode_rumble (4 * unat strong) (unat strong) 500"

definition switch_play_dual_rumble_now :: "u16 \<Rightarrow> u8 \<Rightarrow> u8 \<Rightarrow> switch_device \<Rightarrow> switch_device option" where
  "switch_play_dual_rumble_now duration weak strong d =
     (if duration = 0
      then (if motor_state d \<noteq> STATE_RUMBLE_DISABLED then switch_stop_rumble_now d else Some d)
      else Some (start_duration duration (send_subcmd 0x10 (switch_rumble_payload weak strong) d)))"

definition uni_hid_parser_switch_play_dual_rumble ::
    "u16 \<Rightarrow> u16 \<Rightarrow> u8 \<Rightarrow> u8 \<Rightarrow> switch_device \<Rightarrow> switch_device option" where
  "uni_hid_parser_switch_play_dual_rumble = play_dual_rumble switch_play_dual_rumble_now"

definition on_switch_set_rumble_on :: "switch_device \<Rightarrow> switch_device option" where
  "on_switch_set_rumble_on = set_rumble_on switch_play_dual_rumble_now"

definition on_switch_set_rumble_off :: "switch_device \<Rightarrow> switch_device option" where
  "on_switch_set_rumble_off = switch_stop_rumble_now"

subsection \<open>The table look-up\<close>

lemma scan_table_spec:
  "i \<le> n \<Longrightarrow> 1 \<le> i \<Longrightarrow> \<forall>k < i. entry_value (t ! k) < v \<Longrightarrow>
     scan_table t v n i \<le> n \<and> (\<forall>k < scan_table t v n i. entry_value (t ! k) < v) \<and>
     (scan_table t v n i < n \<longrightarrow> v \<le> entry_value (t ! scan_table t v n i))"
proof (induction "n - i" arbitrary: i)
  case 0
  then have "scan_table t v n i = i" by (subst scan_table.simps) simp
  with 0 show ?case by simp
next
  case (Suc m)
  have low: "entry_value (t ! (i - 1)) < v" using Suc.prems by simp
  have lt: "i < n" using Suc.hyps(2) by linarith
  show ?case
  proof (cases "entry_value (t ! i) < v")
    case True
    have step: "scan_table t v n i = scan_table t v n (i + 1)"
      using True lt by (subst scan_table.simps) simp
    have "m = n - (i + 1)" "i + 1 \<le> n" "1 \<le> i + 1" using Suc.hyps(2) by linarith+
    moreover have "\<forall>k < i + 1. entry_value (t ! k) < v" using Suc.prems(3) True by (auto simp: less_Suc_eq)
    ultimately show ?thesis unfolding step by (rule Suc.hyps(1))
  next
    case False
    have stop: "scan_table t v n i = i"
      using False low lt by (subst scan_table.simps) (simp add: not_less)
    show ?thesis unfolding stop using Suc.prems False by (simp add: not_less)
  qed
qed

lemma find_nth_first:
  "j < length t \<Longrightarrow> P (t ! j) \<Longrightarrow> \<forall>k < j. \<not> P (t ! k) \<Longrightarrow> find P t = Some (t ! j)"
  by (auto simp: find_Some_iff)

lemma first_or_last:
  assumes "j < length t" "\<forall>k < j. \<not> P (t ! k)" "j < length t - 1 \<longrightarrow> P (t ! j)"
  shows "t ! j = (case find P t of Some e \<Rightarrow> e | None \<Rightarrow> last t)"
proof (cases "P (t ! j)")
  case True
  with assms find_nth_first [of j t P] show ?thesis by simp
next
  case False
  then have j: "j = length t - 1" using assms(1,3) by linarith
  have "\<not> P (t ! k)" if "k < length t" for k
    using assms(2) False j that by (cases "k = j") simp_all
  then have "find P t = None" by (simp add: find_None_iff in_set_conv_nth) blast
  moreover have "t \<noteq> []" using assms(1) by auto
  ultimately show ?thesis using j by (simp add: last_conv_nth)
qed

lemma table_index_spec:
  assumes "2 \<le> length t"
  shows "t ! table_index t v = (case find (\<lambda>e. v \<le> entry_value e) t of Some e \<Rightarrow> e | None \<Rightarrow> last t)"
proof (cases "entry_value (t ! 0) < v")
  case False
  then have "table_index t v = 0" by (simp add: table_index_def)
  moreover have "0 < length t" using assms by linarith
  ultimately show ?thesis using False first_or_last [of 0 t "\<lambda>e. v \<le> entry_value e"] by simp
next
  case True
  let ?n = "length t - 1"
  have i: "table_index t v = scan_table t v ?n 1" using True by (simp add: table_index_def)
  have "scan_table t v ?n 1 \<le> ?n \<and> (\<forall>k < scan_table t v ?n 1. entry_value (t ! k) < v) \<and>
      (scan_table t v ?n 1 < ?n \<longrightarrow> v \<le> entry_value (t ! scan_table t v ?n 1))"
    using True assms by (intro scan_table_spec) auto
  moreover have "?n < length t" using assms by linarith
  ultimately show ?thesis unfolding i by (intro first_or_last) (auto simp: not_le)
qed

lemma rumble_tables_freq:
  "find_rumble_freq freq = (case find (\<lambda>e. freq \<le> entry_value e) rumble_freqs of Some e \<Rightarrow> e | None \<Rightarrow> last rumble_freqs)"
  unfolding find_rumble_freq_def by (rule table_index_spec) (simp add: rumble_freqs_def)

lemma rumble_tables_amp:
  "find_rumble_amp amp = (case find (\<lambda>e. amp \<le> entry_value e) rumble_amps of Some e \<Rightarrow> e | None \<Rightarrow> last rumble_amps)"
  unfolding find_rumble_amp_def by (rule table_index_spec) (simp add: rumble_amps_def)

text \<open>
  The look-up loops of the rumble encoder find what they are meant to find: the first entry of the
  table that is not below the value, and the last entry for a value beyond the table, for every
  frequency and every amplitude.
\<close>

theorem rumble_tables_lookup:
  "find_rumble_freq freq = (case find (\<lambda>e. freq \<le> entry_value e) rumble_freqs of Some e \<Rightarrow> e | None \<Rightarrow> last rumble_freqs) \<and>
   find_rumble_amp amp = (case find (\<lambda>e. amp \<le> entry_value e) rumble_amps of Some e \<Rightarrow> e | None \<Rightarrow> last rumble_amps)"
  by (rule conjI [OF rumble_tables_freq rumble_tables_amp])

lemma amp_500: "find_rumble_amp 500 = (0x88, 0x0062, 501)"
proof -
  have "find (\<lambda>e. 500 \<le> entry_value e) rumble_amps = Some (0x88, 0x0062, 501)"
    by (simp add: rumble_amps_def entry_value_def)
  with rumble_tables_amp [of 500] show ?thesis by simp
qed

text \<open>
  A magnitude of 0 does not switch a motor of a Switch controller off: the magnitudes choose the
  frequencies only, and the amplitude is the same for every call, so that no call produces the
  neutral bytes of the stop report in either half.
\<close>

theorem switch_magnitude_keeps_amplitude:
  "take 4 (switch_rumble_payload weak strong) \<noteq> rumble_default \<and>
   drop 4 (switch_rumble_payload weak strong) \<noteq> rumble_default"
  by (auto simp: switch_rumble_payload_def switch_encode_rumble_def amp_500 rumble_default_def split: prod.splits)

subsection \<open>Correctness of the rumble motors\<close>

lemma send_subcmd_simps [simp]:
  "raw_controller (send_subcmd rid p d) = raw_controller d" "motor_state (send_subcmd rid p d) = motor_state d"
  "timer_duration (send_subcmd rid p d) = timer_duration d"
  "timer_delayed_start (send_subcmd rid p d) = timer_delayed_start d"
  "sw_state (send_subcmd rid p d) = sw_state d" "setup_timer (send_subcmd rid p d) = setup_timer d"
  "\<exists>n. calls (send_subcmd rid p d) = calls d @ [Intr_sent ([0xa2, rid, n] @ p)]"
  by (simp_all add: send_subcmd_def call_def)

definition is_rumble :: "dev_call \<Rightarrow> bool" where
  "is_rumble c \<longleftrightarrow> (case c of Intr_sent r \<Rightarrow> r ! 1 = 0x10 | _ \<Rightarrow> False)"

definition switch_still :: "dev_call list \<Rightarrow> bool" where
  "switch_still cs = (case last_intr (filter is_rumble cs) of None \<Rightarrow> True | Some r \<Rightarrow> drop 3 r = rumble_default @ rumble_default)"

lemma switch_still_snoc [simp]:
  "switch_still []"
  "switch_still (calls (send_subcmd 0x10 p d)) \<longleftrightarrow> p = rumble_default @ rumble_default"
  by (simp_all add: switch_still_def send_subcmd_def call_def is_rumble_def)

lemmas switch_rumble_defs = switch_stop_rumble_now_def switch_play_dual_rumble_now_def start_duration_def timers_def

interpretation switch_motor: rumble_motor switch_play_dual_rumble_now switch_stop_rumble_now switch_still
    "\<lambda>duration. duration \<noteq> 0"
  by unfold_locales (auto simp: switch_rumble_defs intro: state_disabled split: if_splits)

lemma switch_stop_pending_rumble_aborts:
  assumes "no_rumble d" "delay \<noteq> 0"
  shows "motor_run switch_play_dual_rumble_now switch_stop_rumble_now
     [Play_rumble delay duration weak strong, Play_rumble 0 0 0 0] d = None"
  using assms by (simp add: no_rumble_def play_dual_rumble_def cancel_rumble_def switch_rumble_defs)

text \<open>
  Over every sequence of rumble calls with a duration other than 0 and timer events, the assertion
  of the Switch parser holds, at most one rumble timer runs, and when the running timers run out
  the last rumble report is the neutral one.
\<close>

theorem switch_rumble_stops:
  assumes "no_rumble d" "calls d = []" "list_all (\<lambda>e. event_duration e \<noteq> Some 0) es"
  shows "\<exists>d1 d2. motor_run switch_play_dual_rumble_now switch_stop_rumble_now es d = Some d1 \<and>
    (timer_duration d1 = None \<or> timer_delayed_start d1 = None) \<and>
    motor_run switch_play_dual_rumble_now switch_stop_rumble_now (pending_events d1) d1 = Some d2 \<and>
    no_rumble d2 \<and> switch_still (calls d2)"
  by (rule switch_motor.run_then_stop [OF assms(1,2)]) (use assms(3) in \<open>auto simp: list_all_iff\<close>)

definition switch_fresh :: switch_device where
  "switch_fresh = \<lparr>raw_controller = \<lparr>ctl_data = Class_none gamepad0, battery = 0\<rparr>, calls = [], timer_duration = None,
     timer_delayed_start = None, motor_state = STATE_RUMBLE_DISABLED, weak_magnitude = 0, strong_magnitude = 0,
     duration_ms = 0, setup_timer = None, sw_state = STATE_UNINIT, sw_mode = SWITCH_MODE_NONE,
     firmware_version_hi = 0, firmware_version_lo = 0, sw_type = 0, gamepad_seat = 0, cal_x = default_cal_stick,
     cal_y = default_cal_stick, cal_rx = default_cal_stick, cal_ry = default_cal_stick,
     cal_accel = \<lparr>imu_offset = (0, 0, 0), imu_scale = (0, 0, 0)\<rparr>,
     cal_gyro = \<lparr>imu_offset = (0, 0, 0), imu_scale = (0, 0, 0)\<rparr>, accel_divisor = (0, 0, 0), gyro_divisor = (0, 0, 0),
     packet_num = 0\<rparr>"

theorem switch_rumble_stops_witness:
  "\<exists>d1 d2. motor_run switch_play_dual_rumble_now switch_stop_rumble_now
      [Play_rumble 100 500 10 20, Delay_ends, Play_rumble 0 200 1 2] switch_fresh = Some d1 \<and>
    motor_run switch_play_dual_rumble_now switch_stop_rumble_now (pending_events d1) d1 = Some d2 \<and>
    no_rumble d2 \<and> switch_still (calls d2)"
proof -
  have "no_rumble switch_fresh" "calls switch_fresh = []" by (simp_all add: no_rumble_def switch_fresh_def)
  from switch_rumble_stops [OF this, of "[Play_rumble 100 500 10 20, Delay_ends, Play_rumble 0 200 1 2]"]
  show ?thesis by auto
qed

subsection \<open>Progress of the set-up\<close>

text \<open>The states in which the controller waits for a reply, by the number of replies received.\<close>

definition setup_stages :: "switch_state list" where
  "setup_stages = [STATE_REQ_DEV_INFO, STATE_READ_FACTORY_STICK_CALIBRATION, STATE_READ_USER_STICK_CALIBRATION,
     STATE_READ_FACTORY_IMU_CALIBRATION, STATE_SET_FULL_REPORT, STATE_ENABLE_IMU, STATE_UPDATE_LED, STATE_READY]"

definition is_reply :: "u8 list \<Rightarrow> bool" where
  "is_reply r \<longleftrightarrow> 12 \<le> length r \<and> r ! 0 = 0x21"

text \<open>
  What the set-up relies on: replies and gamepad reports hold the bytes that the parser reads. A controller
  sends gamepad reports from the request for full reports on, in the middle of the set-up.
\<close>

definition setup_report :: "u8 list \<Rightarrow> bool" where
  "setup_report r \<longleftrightarrow> (r ! 0 = 0x21 \<longrightarrow> 44 \<le> length r) \<and> (r ! 0 = 0x30 \<longrightarrow> 49 \<le> length r)"

text \<open>A range of a stick or of the gyroscope, in what has been read of the calibration, is empty.\<close>

definition flat :: "cal_stick \<Rightarrow> bool" where
  "flat c \<longleftrightarrow> cal_max c = cal_center c \<or> cal_center c = cal_min c"

definition zero_divisor :: "vec3 \<Rightarrow> bool" where
  "zero_divisor v \<longleftrightarrow> (case v of (x, y, z) \<Rightarrow> x = 0 \<or> y = 0 \<or> z = 0)"

definition zero_calibration :: "switch_device \<Rightarrow> bool" where
  "zero_calibration d \<longleftrightarrow> flat (cal_x d) \<or> flat (cal_y d) \<or> flat (cal_rx d) \<or> flat (cal_ry d) \<or> zero_divisor (gyro_divisor d)"

definition is_gamepad :: "switch_device \<Rightarrow> bool" where
  "is_gamepad d \<longleftrightarrow> (\<exists>gp. ctl_data (raw_controller d) = Class_none gp \<or> ctl_data (raw_controller d) = Class_gamepad gp)"

definition ready_calls :: "switch_device \<Rightarrow> nat" where
  "ready_calls d = length (filter (\<lambda>c. c = Ready_complete) (calls d))"

definition setup_at :: "nat \<Rightarrow> switch_device \<Rightarrow> bool" where
  "setup_at n d \<longleftrightarrow> sw_state d = setup_stages ! min 7 n \<and> ready_calls d = (if n < 7 then 0 else 1) \<and>
     (6 \<le> n \<longrightarrow> setup_timer d = None) \<and> is_gamepad d"

lemma store_simps [simp]:
  "sw_state (store_left r i d) = sw_state d" "calls (store_left r i d) = calls d"
  "setup_timer (store_left r i d) = setup_timer d" "sw_type (store_left r i d) = sw_type d"
  "sw_state (store_right r i d) = sw_state d" "calls (store_right r i d) = calls d"
  "setup_timer (store_right r i d) = setup_timer d" "sw_type (store_right r i d) = sw_type d"
  "raw_controller (store_left r i d) = raw_controller d" "raw_controller (store_right r i d) = raw_controller d"
  by (simp_all add: store_left_def store_right_def split: prod.splits)

definition same_stage :: "switch_device \<Rightarrow> switch_device \<Rightarrow> bool" where
  "same_stage d d' \<longleftrightarrow> sw_state d' = sw_state d \<and> calls d' = calls d \<and> setup_timer d' = setup_timer d \<and>
     is_gamepad d' = is_gamepad d"

lemma spi_reply_same_stage:
  assumes "44 \<le> length r"
  shows "\<exists>d'. process_reply_spi_flash_read r d = Some d' \<and> same_stage d d'"
  using assms
  by (auto simp: process_reply_spi_flash_read_def process_reply_read_spi_factory_stick_calibration_def
      process_reply_read_spi_user_stick_calibration_def process_reply_read_spi_factory_imu_calibration_def
      hexdump_data_def reads_def same_stage_def is_gamepad_def Let_def split: switch_state.splits)

lemma reply_same_stage:
  assumes "44 \<le> length r"
  shows "\<exists>d'. process_input_subcmd_reply r d = Some (process_fsm d') \<and> same_stage d d'"
proof -
  have info: "\<exists>d'. process_reply_req_dev_info r d = Some d' \<and> same_stage d d'"
    using assms by (simp add: process_reply_req_dev_info_def reads_def same_stage_def is_gamepad_def)
  have battery: "same_stage d d' \<Longrightarrow> same_stage d (set_battery b d')" for d' b
    by (simp add: same_stage_def set_battery_def is_gamepad_def)
  have "\<exists>d1. (if r ! 14 = 0x02 then process_reply_req_dev_info r d
      else if r ! 14 = 0x10 then process_reply_spi_flash_read r d else Some d) = Some d1 \<and> same_stage d d1"
    using info spi_reply_same_stage [OF assms, of d] by (auto simp: same_stage_def)
  then obtain d1 where d1: "(if r ! 14 = 0x02 then process_reply_req_dev_info r d
      else if r ! 14 = 0x10 then process_reply_spi_flash_read r d else Some d) = Some d1" "same_stage d d1"
    by blast
  then show ?thesis
    using assms battery unfolding process_input_subcmd_reply_def reads_def
    by (cases "switch_battery (r ! 2)") auto
qed

lemmas fsm_defs = fsm_request_device_info_def fsm_read_factory_stick_calibration_def
  fsm_read_user_stick_calibration_def fsm_read_factory_imu_calibration_def fsm_set_full_report_def
  fsm_enable_imu_def fsm_update_led_def set_led_def spi_read_def subcmd_def send_subcmd_def call_def

lemma fsm_step:
  "sw_state d = STATE_REQ_DEV_INFO \<Longrightarrow> process_fsm d = fsm_read_factory_stick_calibration d"
  "sw_state d = STATE_READ_FACTORY_STICK_CALIBRATION \<Longrightarrow> process_fsm d = fsm_read_user_stick_calibration d"
  "sw_state d = STATE_READ_USER_STICK_CALIBRATION \<Longrightarrow> process_fsm d = fsm_read_factory_imu_calibration d"
  "sw_state d = STATE_READ_FACTORY_IMU_CALIBRATION \<Longrightarrow> process_fsm d = fsm_set_full_report d"
  "sw_state d = STATE_SET_FULL_REPORT \<Longrightarrow> process_fsm d = fsm_enable_imu d"
  "sw_state d = STATE_ENABLE_IMU \<Longrightarrow>
     process_fsm d = fsm_update_led (d\<lparr>sw_state := STATE_DUMP_FLASH, setup_timer := None\<rparr>)"
  "sw_state d = STATE_UPDATE_LED \<Longrightarrow>
     process_fsm d = (call Ready_complete (d\<lparr>sw_state := STATE_READY\<rparr>))\<lparr>setup_timer := None\<rparr>"
  "sw_state d = STATE_READY \<Longrightarrow> process_fsm d = d\<lparr>setup_timer := None\<rparr>"
  by (simp_all add: process_fsm.simps [of d] process_fsm.simps [of "d\<lparr>sw_state := STATE_DUMP_FLASH, setup_timer := None\<rparr>"]
      process_fsm.simps [of "d\<lparr>sw_state := STATE_READY, calls := calls d @ [Ready_complete]\<rparr>"] call_def)

lemma nat_upto_7: "n = 0 \<or> n = 1 \<or> n = 2 \<or> n = 3 \<or> n = 4 \<or> n = 5 \<or> n = 6 \<or> 7 \<le> (n :: nat)"
  by presburger

lemma setup_step:
  assumes "setup_at n d"
  shows "setup_at (n + 1) (process_fsm d)"
  using nat_upto_7 [of n] assms
  by (elim disjE) (simp_all add: setup_at_def setup_stages_def fsm_step fsm_defs ready_calls_def min_def is_gamepad_def)

lemma setup_same_stage: "same_stage d d' \<Longrightarrow> setup_at n d \<Longrightarrow> setup_at n d'"
  by (simp add: same_stage_def setup_at_def ready_calls_def)

text \<open>A gamepad report changes the gamepad only, and is handled unless it divides by zero.\<close>

lemma on_raw_same_stage: "on_raw f d = Some d' \<Longrightarrow> same_stage d d' \<and> sw_mode d' = sw_mode d \<and> zero_calibration d' = zero_calibration d \<and> sw_type d' = sw_type d"
  by (auto simp: on_raw_def on_gamepad_def same_stage_def is_gamepad_def zero_calibration_def split: uni_controller_data.splits)

lemma on_raw_total: "is_gamepad d \<Longrightarrow> \<exists>d'. on_raw f d = Some d'"
  by (auto simp: on_raw_def on_gamepad_def is_gamepad_def)

lemma same_stage_trans: "same_stage a b \<Longrightarrow> same_stage b c \<Longrightarrow> same_stage a c"
  by (simp add: same_stage_def)

lemma calibrate_stick_total: "\<not> flat cx \<Longrightarrow> \<not> flat cy \<Longrightarrow> \<exists>x y. calibrate_stick r i cx cy = Some (x, y)"
  by (simp add: calibrate_stick_def calibrate_axis_def flat_def Let_def)

definition sticks_30 :: "u8 list \<Rightarrow> switch_device \<Rightarrow> switch_device option" where
  "sticks_30 r d = (if sw_type d = SWITCH_CONTROLLER_TYPE_JCL then parse_report_30_joycon_left r d
     else if sw_type d = SWITCH_CONTROLLER_TYPE_JCR then parse_report_30_joycon_right r d
     else if sw_type d = SWITCH_CONTROLLER_TYPE_PRO \<or> sw_type d = SWITCH_CONTROLLER_TYPE_SNES
     then parse_report_30_pro_controller r d else Some d)"

lemma sticks_30_stage:
  assumes "sticks_30 r d = Some d'"
  shows "same_stage d d' \<and> sw_mode d' = sw_mode d \<and> zero_calibration d' = zero_calibration d \<and> sw_type d' = sw_type d"
proof (cases "d' = d")
  case False
  then obtain f where "on_raw f d = Some d'"
    using assms unfolding sticks_30_def parse_report_30_joycon_left_def parse_report_30_joycon_right_def
      parse_report_30_pro_controller_def
    by (auto split: if_splits bind_splits)
  then show ?thesis by (rule on_raw_same_stage)
qed (simp add: same_stage_def)

lemma sticks_30_total:
  assumes "is_gamepad d" "\<not> zero_calibration d"
  shows "\<exists>d'. sticks_30 r d = Some d'"
proof -
  obtain x y where 1: "calibrate_stick r 6 (cal_x d) (cal_y d) = Some (x, y)"
    using calibrate_stick_total assms(2) unfolding zero_calibration_def by blast
  obtain u v where 2: "calibrate_stick r 9 (cal_rx d) (cal_ry d) = Some (u, v)"
    using calibrate_stick_total assms(2) unfolding zero_calibration_def by blast
  show ?thesis
    using on_raw_total [OF assms(1)]
    by (simp add: sticks_30_def parse_report_30_joycon_left_def parse_report_30_joycon_right_def parse_report_30_pro_controller_def 1 2)
qed

lemma gyro3_total: "\<not> zero_divisor dv \<Longrightarrow> \<exists>g. gyro3 x o' s dv = Some g"
  by (cases x; cases o'; cases s; cases dv) (simp add: zero_divisor_def imu_gyro_def mult_frac_def)

lemma parse_report_30_eq:
  assumes "49 \<le> length r"
  shows "parse_report_30 r d = do {
     d0 \<leftarrow> on_raw (\<lambda>gp. gamepad0) d; d1 \<leftarrow> sticks_30 r d0; if sw_mode d1 = SWITCH_MODE_IMU then parse_imu r d1 else Some d1}"
proof (cases "on_raw (\<lambda>gp. gamepad0) d")
  case (Some d0)
  then have "sw_type d0 = sw_type d" using on_raw_same_stage by blast
  with Some assms show ?thesis by (simp add: parse_report_30_def sticks_30_def reads_def)
qed (simp add: parse_report_30_def)

lemma parse_imu_stage: "parse_imu r d = Some d' \<Longrightarrow> same_stage d d'"
  unfolding parse_imu_def reads_def Let_def by (auto split: if_splits bind_splits dest: on_raw_same_stage)

lemma report_30_stage:
  assumes "49 \<le> length r" "parse_report_30 r d = Some d'"
  shows "same_stage d d'"
  using assms unfolding parse_report_30_eq [OF assms(1)]
  by (auto split: bind_splits if_splits dest!: on_raw_same_stage sticks_30_stage parse_imu_stage intro: same_stage_trans)

lemma report_30_total:
  assumes "49 \<le> length r" "is_gamepad d" "\<not> zero_calibration d" "sw_type d \<noteq> SWITCH_CONTROLLER_TYPE_JCR"
  shows "\<exists>d'. parse_report_30 r d = Some d'"
proof -
  obtain d0 where 0: "on_raw (\<lambda>gp. gamepad0) d = Some d0" using on_raw_total [OF assms(2)] by blast
  note f = on_raw_same_stage [OF 0]
  obtain d1 where 1: "sticks_30 r d0 = Some d1"
    using sticks_30_total [of d0 r] f assms(2,3) by (auto simp: same_stage_def)
  note g = sticks_30_stage [OF 1]
  have z: "\<not> zero_divisor (gyro_divisor d1)" "is_gamepad d1" "sw_type d1 \<noteq> SWITCH_CONTROLLER_TYPE_JCR"
    using f g assms by (auto simp: same_stage_def zero_calibration_def)
  obtain v where v: "gyro3 (s16x3_at r 43) (imu_offset (cal_gyro d1)) (imu_scale (cal_gyro d1)) (gyro_divisor d1) = Some v"
    using gyro3_total [OF z(1)] by blast
  have "\<exists>d'. parse_imu r d1 = Some d'"
    using assms(1) z(3) on_raw_total [OF z(2)] by (simp add: parse_imu_def reads_def v Let_def)
  then show ?thesis by (simp add: parse_report_30_eq [OF assms(1)] 0 1)
qed

lemma other_report_stage:
  assumes "\<not> is_reply r" "setup_report r" "is_gamepad d"
  shows "case uni_hid_parser_switch_parse_input_report r d of
      Some d' \<Rightarrow> same_stage d d'
    | None \<Rightarrow> r ! 0 = 0x30 \<and> parse_report_30 r d = None \<and> (zero_calibration d \<or> sw_type d = SWITCH_CONTROLLER_TYPE_JCR)"
proof -
  have t: "same_stage d d" by (simp add: same_stage_def)
  consider "length r < 12 \<or> r ! 0 \<noteq> 0x30 \<and> r ! 0 \<noteq> 0x3f" | "12 \<le> length r" "r ! 0 = 0x30" | "12 \<le> length r" "r ! 0 = 0x3f"
    by linarith
  then show ?thesis
  proof cases
    case 1
    then have "uni_hid_parser_switch_parse_input_report r d = Some d"
      using assms(1) by (auto simp: uni_hid_parser_switch_parse_input_report_def is_reply_def)
    then show ?thesis using t by simp
  next
    case 2
    then have "uni_hid_parser_switch_parse_input_report r d = parse_report_30 r d" "49 \<le> length r"
      using assms(2) by (simp_all add: uni_hid_parser_switch_parse_input_report_def setup_report_def)
    moreover have "zero_calibration d \<or> sw_type d = SWITCH_CONTROLLER_TYPE_JCR" if "parse_report_30 r d = None"
      using report_30_total [OF \<open>49 \<le> length r\<close> assms(3)] that by auto
    ultimately show ?thesis
      using 2 report_30_stage [of r d] by (simp split: option.split)
  next
    case 3
    then have "uni_hid_parser_switch_parse_input_report r d = on_raw (\<lambda>gp. gamepad_3f r) d"
      by (simp add: uni_hid_parser_switch_parse_input_report_def parse_report_3f_def)
    moreover obtain d' where "on_raw (\<lambda>gp. gamepad_3f r) d = Some d'" using on_raw_total [OF assms(3)] by blast
    ultimately show ?thesis using on_raw_same_stage by simp
  qed
qed

lemma reply_step:
  assumes "is_reply r" "setup_report r" "setup_at n d"
  shows "\<exists>d'. uni_hid_parser_switch_parse_input_report r d = Some d' \<and> setup_at (n + 1) d'"
proof -
  have len: "44 \<le> length r" using assms(1,2) by (simp add: is_reply_def setup_report_def)
  from reply_same_stage [OF len, of d] obtain d1 where d1:
    "process_input_subcmd_reply r d = Some (process_fsm d1)" "same_stage d d1" by blast
  have "uni_hid_parser_switch_parse_input_report r d = Some (process_fsm d1)"
    using assms(1) d1(1) by (simp add: uni_hid_parser_switch_parse_input_report_def is_reply_def)
  with setup_step [OF setup_same_stage [OF d1(2) assms(3)]] show ?thesis by blast
qed

text \<open>The first report on which the parser divides by zero, or negates the smallest value.\<close>

definition stops_at_report_30 :: "u8 list list \<Rightarrow> switch_device \<Rightarrow> bool" where
  "stops_at_report_30 rs d \<longleftrightarrow> (\<exists>pre r post d1. rs = pre @ r # post \<and> switch_run pre d = Some d1 \<and>
     r ! 0 = 0x30 \<and> parse_report_30 r d1 = None \<and> (zero_calibration d1 \<or> sw_type d1 = SWITCH_CONTROLLER_TYPE_JCR))"

lemma stops_later:
  assumes "uni_hid_parser_switch_parse_input_report x d = Some d1" "stops_at_report_30 rs d1"
  shows "stops_at_report_30 (x # rs) d"
proof -
  obtain pre r post d2 where "rs = pre @ r # post" "switch_run pre d1 = Some d2" "r ! 0 = 0x30" "parse_report_30 r d2 = None"
      "zero_calibration d2 \<or> sw_type d2 = SWITCH_CONTROLLER_TYPE_JCR"
    using assms(2) unfolding stops_at_report_30_def by blast
  then show ?thesis
    using assms(1) unfolding stops_at_report_30_def
    by (intro exI [of _ "x # pre"] exI [of _ r] exI [of _ post] exI [of _ d2]) simp
qed

lemma setup_run:
  assumes "setup_at n d" "list_all setup_report rs"
  shows "case switch_run rs d of
      Some d' \<Rightarrow> setup_at (n + length (filter is_reply rs)) d'
    | None \<Rightarrow> stops_at_report_30 rs d"
  using assms
proof (induction rs arbitrary: n d)
  case (Cons r rs)
  have g: "is_gamepad d" "setup_report r" using Cons.prems by (simp_all add: setup_at_def)
  show ?case
  proof (cases "uni_hid_parser_switch_parse_input_report r d")
    case None
    then have "\<not> is_reply r" using reply_step [OF _ g(2) Cons.prems(1)] by auto
    then have "stops_at_report_30 (r # rs) d"
      using other_report_stage [OF _ g(2,1)] None unfolding stops_at_report_30_def
      by (intro exI [of _ "[]"] exI [of _ r] exI [of _ rs] exI [of _ d]) simp
    then show ?thesis using None by simp
  next
    case (Some d1)
    have "setup_at (n + (if is_reply r then 1 else 0)) d1"
      using reply_step [OF _ g(2) Cons.prems(1)] other_report_stage [OF _ g(2,1)] Some setup_same_stage Cons.prems(1)
      by (cases "is_reply r") fastforce+
    from Cons.IH [OF this] Cons.prems(2) have
      "case switch_run rs d1 of Some d' \<Rightarrow> setup_at (n + length (filter is_reply (r # rs))) d' | None \<Rightarrow> stops_at_report_30 rs d1"
      by (simp add: ac_simps split: if_splits option.splits)
    then show ?thesis using Some stops_later [OF Some, of rs] by (auto split: option.splits)
  qed
qed simp

lemma setup_start:
  assumes "Ready_complete \<notin> set (calls d)"
  shows "setup_at 0 (uni_hid_parser_switch_setup d)"
  using assms
  by (simp add: uni_hid_parser_switch_setup_def process_fsm.simps fsm_defs setup_at_def setup_stages_def ready_calls_def
      filter_empty_conv is_gamepad_def clean_gamepad_def) auto

lemma no_report_30: "list_all (\<lambda>r. r ! 0 \<noteq> 0x30) rs \<Longrightarrow> \<not> stops_at_report_30 rs d"
  by (auto simp: stops_at_report_30_def)

text \<open>
  C21. The set-up of a Switch controller follows its seven replies: after n of them the parser is in the
  n-th state of its sequence, it declares the controller ready exactly once and exactly with the
  seventh reply, and the set-up timer no longer runs from the sixth on, whatever other reports come in
  between; no reply, even one whose data is refused, leaves the machine waiting. Replies
  (0x21) are of at least 44 bytes and gamepad reports (0x30) of at least 49. The one way in which the
  parser does not get to the end of the reports is a gamepad report that divides by zero, when the
  calibration read so far has an empty range, or, for a right Joy-Con, negates the smallest
  32-bit value; it never happens without a report 0x30.
\<close>

theorem switch_setup_by_replies:
  assumes "Ready_complete \<notin> set (calls d)" "list_all setup_report rs"
  shows "(case switch_run rs (uni_hid_parser_switch_setup d) of
      Some d' \<Rightarrow> sw_state d' = setup_stages ! min 7 (length (filter is_reply rs)) \<and>
        ready_calls d' = (if length (filter is_reply rs) < 7 then 0 else 1) \<and>
        (6 \<le> length (filter is_reply rs) \<longrightarrow> setup_timer d' = None)
    | None \<Rightarrow> stops_at_report_30 rs (uni_hid_parser_switch_setup d)) \<and>
    (list_all (\<lambda>r. r ! 0 \<noteq> 0x30) rs \<longrightarrow> switch_run rs (uni_hid_parser_switch_setup d) \<noteq> None)"
  using setup_run [OF setup_start [OF assms(1)] assms(2)] no_report_30 [of rs]
  by (auto simp: setup_at_def split: option.splits)

definition switch_session :: "u8 list list" where
  "switch_session = replicate 5 (0x21 # replicate 43 0) @ [0x30 # replicate 48 0] @ replicate 2 (0x21 # replicate 43 0)"

theorem switch_setup_by_replies_witness:
  "\<exists>d'. switch_run switch_session (uni_hid_parser_switch_setup switch_fresh) = Some d' \<and>
     sw_state d' = STATE_READY \<and> ready_calls d' = 1"
proof -
  have "Ready_complete \<notin> set (calls switch_fresh)" by (simp add: switch_fresh_def)
  moreover have "list_all setup_report switch_session"
    by (simp add: list_all_iff setup_report_def switch_session_def)
  moreover have "switch_run switch_session (uni_hid_parser_switch_setup switch_fresh) \<noteq> None" by code_simp
  moreover have "length (filter is_reply switch_session) = 7" by (simp add: switch_session_def is_reply_def)
  ultimately show ?thesis
    using switch_setup_by_replies [of switch_fresh switch_session] by (auto simp: setup_stages_def)
qed

text \<open>
  Calibration data of zeros, which the parser accepts, makes every later gamepad report of a Pro
  Controller divide by zero: neither of the two ranges of a stick is checked before the division.
\<close>

theorem switch_zero_calibration_crashes:
  assumes "sw_state d = STATE_READ_FACTORY_STICK_CALIBRATION" "sw_type d = SWITCH_CONTROLLER_TYPE_PRO"
    and "12 \<le> length r" "r ! 0 = 0x30"
  shows "\<exists>d'. uni_hid_parser_switch_parse_input_report (0x21 # replicate 13 0 @ [0x10] @ replicate 4 0 @ [18] @ replicate 18 0) d
      = Some d' \<and> uni_hid_parser_switch_parse_input_report r d' = None"
proof -
  let ?r = "0x21 # replicate 13 0 @ [0x10] @ replicate 4 0 @ [18] @ replicate 18 (0 :: u8)"
  let ?z = "\<lparr>cal_min = 0, cal_center = 0, cal_max = 0\<rparr>"
  have zero: "calibrate_axis v ?z = None" for v by (simp add: calibrate_axis_def Let_def)
  have "\<exists>d'. uni_hid_parser_switch_parse_input_report ?r d = Some d' \<and> cal_x d' = ?z \<and>
      sw_type d' = SWITCH_CONTROLLER_TYPE_PRO"
    using assms(1,2)
    by (simp add: uni_hid_parser_switch_parse_input_report_def process_input_subcmd_reply_def reads_def
        process_reply_spi_flash_read_def process_reply_read_spi_factory_stick_calibration_def store_left_def
        store_right_def parse_stick_calibration_def cal_of_def u12_first_def u12_second_def switch_battery_def
        switch_def set_battery_def fsm_step fsm_defs nth_append nth_Cons')
  then obtain d' where d': "uni_hid_parser_switch_parse_input_report ?r d = Some d'" "cal_x d' = ?z"
      "sw_type d' = SWITCH_CONTROLLER_TYPE_PRO" by blast
  have keep: "on_raw f d' = Some d2 \<Longrightarrow> cal_x d2 = ?z \<and> sw_type d2 = SWITCH_CONTROLLER_TYPE_PRO" for f d2
    using d' by (auto simp: on_raw_def)
  have "uni_hid_parser_switch_parse_input_report r d' = None"
    using assms(3,4) d'(3) keep
    by (auto simp: uni_hid_parser_switch_parse_input_report_def parse_report_30_def parse_report_30_pro_controller_def
        calibrate_stick_def zero reads_def split: option.splits bind_split)
  with d'(1) show ?thesis by blast
qed

theorem switch_zero_calibration_crashes_witness:
  "\<exists>d'. uni_hid_parser_switch_parse_input_report (0x21 # replicate 13 0 @ [0x10] @ replicate 4 0 @ [18] @ replicate 18 0)
      (switch_fresh\<lparr>sw_state := STATE_READ_FACTORY_STICK_CALIBRATION, sw_type := SWITCH_CONTROLLER_TYPE_PRO\<rparr>) = Some d' \<and>
    uni_hid_parser_switch_parse_input_report (0x30 # replicate 11 0) d' = None"
  by (rule switch_zero_calibration_crashes) simp_all

end
