(* ===== verification/WiiPad.thy ===== *)
theory WiiPad
  imports Rumble CFloat
begin

text \<open>
  The Nintendo Wii parser, \<^verbatim>\<open>parser/uni_hid_parser_wii.c\<close>: the set-up, a state machine that finds out which
  remote and which extension is connected, the reports of the remote, the Nunchuk, the uDraw tablet,
  the Classic and the Wii U Pro controller and the Balance Board with its calibration, and the
  rumble motor. The dump of the EEPROM is compiled out, as in the source. The lemmas show how
  the set-up reaches the ready state, that the parser is safe for the reports it is made for, and
  what the interpolation of the Balance Board computes.
\<close>

subsection \<open>State\<close>

datatype wii_devtype = WII_DEVTYPE_UNK | WII_DEVTYPE_PRO_CONTROLLER | WII_DEVTYPE_REMOTE | WII_DEVTYPE_REMOTE_MP

datatype wii_exttype =
    WII_EXT_NONE
  | WII_EXT_UNK
  | WII_EXT_NUNCHUK
  | WII_EXT_CLASSIC_CONTROLLER
  | WII_EXT_U_PRO_CONTROLLER
  | WII_EXT_BALANCE_BOARD
  | WII_EXT_UDRAW_TABLET

datatype wii_fsm =
    WII_FSM_UNINIT
  | WII_FSM_SETUP
  | WII_FSM_DUMP_EEPROM_IN_PROGRESS
  | WII_FSM_DUMP_EEPROM_FINISHED
  | WII_FSM_DID_REQ_STATUS
  | WII_FSM_DEV_UNK
  | WII_FSM_EXT_UNK
  | WII_FSM_EXT_DID_INIT
  | WII_FSM_EXT_DID_NO_ENCRYPTION
  | WII_FSM_EXT_DID_READ_REGISTER
  | WII_FSM_BALANCE_BOARD_READ_CALIBRATION
  | WII_FSM_BALANCE_BOARD_READ_CALIBRATION2
  | WII_FSM_BALANCE_BOARD_DID_READ_CALIBRATION
  | WII_FSM_BALANCE_BOARD_DID_READ_CALIBRATION2
  | WII_FSM_DEV_GUESSED
  | WII_FSM_DEV_ASSIGNED
  | WII_FSM_LED_UPDATED

datatype wii_mode = WII_MODE_HORIZONTAL | WII_MODE_VERTICAL | WII_MODE_ACCEL

datatype wii_subtype =
    CONTROLLER_SUBTYPE_NONE
  | CONTROLLER_SUBTYPE_WIIMOTE_HORIZONTAL
  | CONTROLLER_SUBTYPE_WIIMOTE_VERTICAL
  | CONTROLLER_SUBTYPE_WIIMOTE_ACCEL
  | CONTROLLER_SUBTYPE_WIIMOTE_NUNCHUK
  | CONTROLLER_SUBTYPE_WIIMOTE_NUNCHUK_ACCEL
  | CONTROLLER_SUBTYPE_WII_CLASSIC
  | CONTROLLER_SUBTYPE_WIIUPRO
  | CONTROLLER_SUBTYPE_WII_BALANCE_BOARD
  | CONTROLLER_SUBTYPE_WIIMOTE_UDRAW_TABLET

text \<open>The four sensors of a Balance Board: top right, bottom right, top left, bottom left.\<close>

type_synonym board_sensors = "u16 \<times> u16 \<times> u16 \<times> u16"

record wii_device = rumble_device +
  wii_product_id :: u16
  wii_controller_subtype :: wii_subtype
  wii_state :: wii_fsm
  register_address :: u8
  wii_mode :: wii_mode
  dev_type :: wii_devtype
  ext_type :: wii_exttype
  wii_seat :: u8
  kg0 :: board_sensors
  kg17 :: board_sensors
  kg34 :: board_sensors

abbreviation (input) "WIIPROTO_REQ_RUMBLE \<equiv> (0x10 :: u8)"
abbreviation (input) "WIIPROTO_REQ_LED \<equiv> (0x11 :: u8)"
abbreviation (input) "WIIPROTO_REQ_DRM \<equiv> (0x12 :: u8)"
abbreviation (input) "WIIPROTO_REQ_SREQ \<equiv> (0x15 :: u8)"
abbreviation (input) "WIIPROTO_REQ_WMEM \<equiv> (0x16 :: u8)"
abbreviation (input) "WIIPROTO_REQ_RMEM \<equiv> (0x17 :: u8)"
abbreviation (input) "WIIPROTO_REQ_STATUS \<equiv> (0x20 :: u8)"
abbreviation (input) "WIIPROTO_REQ_DATA \<equiv> (0x21 :: u8)"
abbreviation (input) "WIIPROTO_REQ_RETURN \<equiv> (0x22 :: u8)"
abbreviation (input) "WII_REPORT_TYPE_K \<equiv> (0x30 :: u8)"
abbreviation (input) "WII_REPORT_TYPE_KA \<equiv> (0x31 :: u8)"
abbreviation (input) "WII_REPORT_TYPE_KE \<equiv> (0x32 :: u8)"
abbreviation (input) "WII_REPORT_TYPE_KEE \<equiv> (0x34 :: u8)"
abbreviation (input) "WII_REPORT_TYPE_KAE \<equiv> (0x35 :: u8)"
abbreviation (input) "WII_REPORT_TYPE_E \<equiv> (0x3d :: u8)"

subsection \<open>Requests\<close>

definition wii_send :: "u8 list \<Rightarrow> wii_device \<Rightarrow> wii_device" where
  "wii_send r = call (Intr_sent r)"

text \<open>The offset has 24 bits, from the register bank and a 16-bit address.\<close>

definition wii_read_mem :: "u8 \<Rightarrow> u16 \<Rightarrow> wii_device \<Rightarrow> wii_device" where
  "wii_read_mem addr len d = wii_send [0xa2, WIIPROTO_REQ_RMEM, 0x04, register_address d, 0, addr,
     ucast (drop_bit 8 len), ucast len] d"

definition wii_write_register :: "u8 \<Rightarrow> u8 \<Rightarrow> wii_device \<Rightarrow> wii_device" where
  "wii_write_register addr byte d = wii_send ([0xa2, WIIPROTO_REQ_WMEM, 0x04, register_address d, 0, addr, 0x01, byte]
     @ replicate 15 0) d"

definition wii_fsm_req_status :: "wii_device \<Rightarrow> wii_device" where
  "wii_fsm_req_status d = wii_send [0xa2, WIIPROTO_REQ_SREQ, 0] (d\<lparr>wii_state := WII_FSM_DID_REQ_STATUS\<rparr>)"

definition wii_fsm_ext_init :: "wii_device \<Rightarrow> wii_device" where
  "wii_fsm_ext_init d = wii_write_register 0xf0 0x55 (d\<lparr>wii_state := WII_FSM_EXT_DID_INIT\<rparr>)"

definition wii_fsm_ext_encrypt_off :: "wii_device \<Rightarrow> wii_device" where
  "wii_fsm_ext_encrypt_off d = wii_write_register 0xfb 0x00 (d\<lparr>wii_state := WII_FSM_EXT_DID_NO_ENCRYPTION\<rparr>)"

definition wii_fsm_ext_read_register :: "wii_device \<Rightarrow> wii_device" where
  "wii_fsm_ext_read_register d = wii_read_mem 0xfa 6 (d\<lparr>wii_state := WII_FSM_EXT_DID_READ_REGISTER\<rparr>)"

definition wii_fsm_balance_board_read_calibration :: "wii_device \<Rightarrow> wii_device" where
  "wii_fsm_balance_board_read_calibration d =
     wii_read_mem 0x24 16 (d\<lparr>wii_state := WII_FSM_BALANCE_BOARD_DID_READ_CALIBRATION\<rparr>)"

definition wii_fsm_balance_board_read_calibration2 :: "wii_device \<Rightarrow> wii_device" where
  "wii_fsm_balance_board_read_calibration2 d =
     wii_read_mem 0x34 8 (d\<lparr>wii_state := WII_FSM_BALANCE_BOARD_DID_READ_CALIBRATION2\<rparr>)"

definition uni_hid_parser_wii_request_report_type :: "u8 \<Rightarrow> wii_device \<Rightarrow> wii_device" where
  "uni_hid_parser_wii_request_report_type t = wii_send [0xa2, WIIPROTO_REQ_DRM, 0, t]"

definition wii_set_led :: "u8 \<Rightarrow> wii_device \<Rightarrow> wii_device" where
  "wii_set_led seat d =
     (let led0 = push_bit 4 seat;
          led1 = (if wii_mode d = WII_MODE_VERTICAL then led0 OR 0x80 else led0);
          led2 = (if wii_mode d = WII_MODE_ACCEL then led1 OR 0x40 else led1);
          led3 = (if motor_state d = STATE_RUMBLE_IN_PROGRESS then led2 OR 0x01 else led2)
      in wii_send [0xa2, WIIPROTO_REQ_LED, led3] d)"

text \<open>The subtype and the report type of the device that was found.\<close>

fun assigned_report :: "wii_devtype \<Rightarrow> wii_exttype \<Rightarrow> wii_mode \<Rightarrow> wii_subtype \<times> u8" where
  "assigned_report WII_DEVTYPE_PRO_CONTROLLER ext mode = (CONTROLLER_SUBTYPE_WIIUPRO, WII_REPORT_TYPE_KEE)"
| "assigned_report dev WII_EXT_NUNCHUK mode =
     (if mode = WII_MODE_ACCEL then (CONTROLLER_SUBTYPE_WIIMOTE_NUNCHUK_ACCEL, WII_REPORT_TYPE_KAE)
      else (CONTROLLER_SUBTYPE_WIIMOTE_NUNCHUK, WII_REPORT_TYPE_KE))"
| "assigned_report dev WII_EXT_CLASSIC_CONTROLLER mode = (CONTROLLER_SUBTYPE_WII_CLASSIC, WII_REPORT_TYPE_E)"
| "assigned_report dev WII_EXT_BALANCE_BOARD mode = (CONTROLLER_SUBTYPE_WII_BALANCE_BOARD, WII_REPORT_TYPE_KEE)"
| "assigned_report dev WII_EXT_UDRAW_TABLET mode = (CONTROLLER_SUBTYPE_WIIMOTE_UDRAW_TABLET, WII_REPORT_TYPE_KE)"
| "assigned_report dev ext WII_MODE_ACCEL = (CONTROLLER_SUBTYPE_WIIMOTE_ACCEL, WII_REPORT_TYPE_KA)"
| "assigned_report dev ext WII_MODE_VERTICAL = (CONTROLLER_SUBTYPE_WIIMOTE_VERTICAL, WII_REPORT_TYPE_K)"
| "assigned_report dev ext WII_MODE_HORIZONTAL = (CONTROLLER_SUBTYPE_WIIMOTE_HORIZONTAL, WII_REPORT_TYPE_K)"

definition assign_device :: "wii_device \<Rightarrow> wii_device" where
  "assign_device d = (case assigned_report (dev_type d) (ext_type d) (wii_mode d) of (subtype, t) \<Rightarrow>
     (uni_hid_parser_wii_request_report_type t (d\<lparr>wii_controller_subtype := subtype\<rparr>))\<lparr>wii_state := WII_FSM_DEV_ASSIGNED\<rparr>)"

subsection \<open>The state machine\<close>

fun fsm_rank :: "wii_fsm \<Rightarrow> nat" where
  "fsm_rank WII_FSM_SETUP = 1"
| "fsm_rank WII_FSM_DUMP_EEPROM_IN_PROGRESS = 1"
| "fsm_rank WII_FSM_DEV_GUESSED = 2"
| "fsm_rank WII_FSM_DEV_ASSIGNED = 1"
| "fsm_rank _ = 0"

text \<open>
  \<open>wii_fsm_dump_eeprom\<close>, \<open>wii_fsm_assign_device\<close> and \<open>wii_fsm_update_led\<close> call the machine again in the
  state they have set; the ready event follows the last of these calls.
\<close>

function wii_process_fsm :: "wii_device \<Rightarrow> wii_device" where
  "wii_process_fsm d = (case wii_state d of
      WII_FSM_SETUP \<Rightarrow> wii_process_fsm (d\<lparr>wii_state := WII_FSM_DUMP_EEPROM_FINISHED\<rparr>)
    | WII_FSM_DUMP_EEPROM_IN_PROGRESS \<Rightarrow> wii_process_fsm (d\<lparr>wii_state := WII_FSM_DUMP_EEPROM_FINISHED\<rparr>)
    | WII_FSM_DUMP_EEPROM_FINISHED \<Rightarrow> wii_fsm_req_status d
    | WII_FSM_DID_REQ_STATUS \<Rightarrow> d
    | WII_FSM_DEV_UNK \<Rightarrow> wii_fsm_ext_init d
    | WII_FSM_EXT_UNK \<Rightarrow> wii_fsm_ext_init d
    | WII_FSM_EXT_DID_INIT \<Rightarrow> wii_fsm_ext_encrypt_off d
    | WII_FSM_EXT_DID_NO_ENCRYPTION \<Rightarrow> wii_fsm_ext_read_register d
    | WII_FSM_EXT_DID_READ_REGISTER \<Rightarrow> d
    | WII_FSM_DEV_GUESSED \<Rightarrow> wii_process_fsm (assign_device d)
    | WII_FSM_BALANCE_BOARD_READ_CALIBRATION \<Rightarrow> wii_fsm_balance_board_read_calibration d
    | WII_FSM_BALANCE_BOARD_READ_CALIBRATION2 \<Rightarrow> wii_fsm_balance_board_read_calibration2 d
    | WII_FSM_BALANCE_BOARD_DID_READ_CALIBRATION \<Rightarrow> d
    | WII_FSM_BALANCE_BOARD_DID_READ_CALIBRATION2 \<Rightarrow> d
    | WII_FSM_DEV_ASSIGNED \<Rightarrow>
        call Ready_complete (wii_process_fsm ((wii_set_led (wii_seat d) d)\<lparr>wii_state := WII_FSM_LED_UPDATED\<rparr>))
    | WII_FSM_LED_UPDATED \<Rightarrow> d
    | WII_FSM_UNINIT \<Rightarrow> d)"
  by pat_completeness auto
termination
  by (relation "measure (\<lambda>d. fsm_rank (wii_state d))") (auto simp: assign_device_def split: prod.splits)

declare wii_process_fsm.simps [simp del]

definition uni_hid_parser_wii_setup :: "wii_device \<Rightarrow> wii_device" where
  "uni_hid_parser_wii_setup d = wii_process_fsm (d\<lparr>
     timer_duration := None, timer_delayed_start := None, motor_state := STATE_RUMBLE_DISABLED, weak_magnitude := 0,
     strong_magnitude := 0, duration_ms := 0, wii_state := WII_FSM_SETUP, register_address := 0xa4, wii_mode := WII_MODE_HORIZONTAL,
     dev_type := WII_DEVTYPE_UNK, ext_type := WII_EXT_NONE, wii_seat := 0,
     kg0 := (0, 0, 0, 0), kg17 := (0, 0, 0, 0), kg34 := (0, 0, 0, 0)\<rparr>)"

subsection \<open>Replies of the set-up\<close>

text \<open>A status reply: the remote, whether it has an extension, and the mode that its buttons choose.\<close>

definition guess_from_status :: "u8 list \<Rightarrow> wii_device \<Rightarrow> wii_device" where
  "guess_from_status r d =
     (let extension = (r ! 3 AND 0x02 \<noteq> 0);
        d1 = (if wii_product_id d = 0x0306
              then d\<lparr>wii_state := WII_FSM_DEV_GUESSED, dev_type := WII_DEVTYPE_REMOTE\<rparr>
              else if wii_product_id d = 0x0330
              then (if \<not> extension then d\<lparr>wii_state := WII_FSM_DEV_GUESSED, dev_type := WII_DEVTYPE_REMOTE_MP\<rparr>
                    else d\<lparr>wii_state := WII_FSM_DEV_UNK\<rparr>)
              else d);
        d2 = (if extension then d1\<lparr>wii_state := WII_FSM_EXT_UNK, ext_type := WII_EXT_UNK\<rparr>
              else d1\<lparr>ext_type := WII_EXT_NONE\<rparr>)
      in (if r ! 2 AND 0x08 \<noteq> 0 then d2\<lparr>wii_mode := WII_MODE_ACCEL\<rparr>
          else if r ! 1 AND 0x10 \<noteq> 0 then d2\<lparr>wii_mode := WII_MODE_VERTICAL\<rparr>
          else d2))"

definition process_req_status :: "u8 list \<Rightarrow> wii_device \<Rightarrow> wii_device" where
  "process_req_status r d =
     (if length r < 7 \<or> wii_state d \<noteq> WII_FSM_DID_REQ_STATUS then d else wii_process_fsm (guess_from_status r d))"

text \<open>Memory replies: byte 3 holds the size less one and the error, 4 and 5 the address, 6 onwards the data.\<close>

definition guess_device :: "u8 list \<Rightarrow> wii_device \<Rightarrow> wii_device" where
  "guess_device r d =
     (if r ! 10 = 0x01 \<and> r ! 11 = 0x20
      then d\<lparr>dev_type := WII_DEVTYPE_PRO_CONTROLLER, ext_type := WII_EXT_U_PRO_CONTROLLER\<rparr>
      else if dev_type d = WII_DEVTYPE_UNK
      then (if wii_product_id d = 0x0330 then d\<lparr>dev_type := WII_DEVTYPE_REMOTE_MP\<rparr>
            else if wii_product_id d = 0x0306 then d\<lparr>dev_type := WII_DEVTYPE_REMOTE\<rparr>
            else d)
      else d)"

definition guess_extension :: "u8 list \<Rightarrow> wii_device \<Rightarrow> wii_device" where
  "guess_extension r d =
     (if ext_type d \<noteq> WII_EXT_UNK then d
      else if r ! 10 = 0x00 \<and> r ! 11 = 0x00
      then d\<lparr>ext_type := WII_EXT_NUNCHUK, wii_mode := WII_MODE_VERTICAL\<rparr>
      else if r ! 10 = 0x04 \<and> r ! 11 = 0x02 then d\<lparr>ext_type := WII_EXT_BALANCE_BOARD\<rparr>
      else if r ! 10 = 0x01 \<and> r ! 11 = 0x01 then d\<lparr>ext_type := WII_EXT_CLASSIC_CONTROLLER\<rparr>
      else if r ! 10 = 0x01 \<and> r ! 11 = 0x12
      then d\<lparr>ext_type := WII_EXT_UDRAW_TABLET, wii_mode := WII_MODE_VERTICAL\<rparr>
      else d)"

definition reply_error :: "u8 list \<Rightarrow> bool" where
  "reply_error r \<longleftrightarrow> r ! 3 AND 0x0f \<noteq> 0"

definition reply_holds :: "u8 \<Rightarrow> u8 \<Rightarrow> u8 list \<Rightarrow> bool" where
  "reply_holds len addr r \<longleftrightarrow> drop_bit 4 (r ! 3) = len \<and> r ! 4 = 0x00 \<and> r ! 5 = addr"

definition process_req_data_read_register :: "u8 list \<Rightarrow> wii_device \<Rightarrow> wii_device" where
  "process_req_data_read_register r d =
     (if reply_error r \<or> \<not> reply_holds 5 0xfa r then d
      else let d1 = guess_extension r (guess_device r d)
           in wii_process_fsm (d1\<lparr>wii_state := (if ext_type d1 = WII_EXT_BALANCE_BOARD
                then WII_FSM_BALANCE_BOARD_READ_CALIBRATION else WII_FSM_DEV_GUESSED)\<rparr>))"

definition be16_at :: "u8 list \<Rightarrow> nat \<Rightarrow> u16" where
  "be16_at r i = push_bit 8 (ucast (r ! i)) + ucast (r ! Suc i)"

definition sensors_at :: "u8 list \<Rightarrow> nat \<Rightarrow> board_sensors" where
  "sensors_at r i = (be16_at r i, be16_at r (i + 2), be16_at r (i + 4), be16_at r (i + 6))"

definition process_req_data_read_calibration_data :: "u8 list \<Rightarrow> wii_device \<Rightarrow> wii_device" where
  "process_req_data_read_calibration_data r d =
     (if reply_error r then d
      else wii_process_fsm ((if reply_holds 15 0x24 r then d\<lparr>kg0 := sensors_at r 6, kg17 := sensors_at r 14\<rparr> else d)
             \<lparr>wii_state := WII_FSM_BALANCE_BOARD_READ_CALIBRATION2\<rparr>))"

definition process_req_data_read_calibration_data2 :: "u8 list \<Rightarrow> wii_device \<Rightarrow> wii_device" where
  "process_req_data_read_calibration_data2 r d =
     (if reply_error r then d
      else wii_process_fsm ((if reply_holds 7 0x34 r then d\<lparr>kg34 := sensors_at r 6\<rparr> else d)
             \<lparr>wii_state := WII_FSM_DEV_GUESSED\<rparr>))"

definition process_req_data :: "u8 list \<Rightarrow> wii_device \<Rightarrow> wii_device" where
  "process_req_data r d =
     (if length r < 22 then d
      else case wii_state d of
          WII_FSM_EXT_DID_READ_REGISTER \<Rightarrow> process_req_data_read_register r d
        | WII_FSM_BALANCE_BOARD_DID_READ_CALIBRATION \<Rightarrow> process_req_data_read_calibration_data r d
        | WII_FSM_BALANCE_BOARD_DID_READ_CALIBRATION2 \<Rightarrow> process_req_data_read_calibration_data2 r d
        | WII_FSM_DUMP_EEPROM_IN_PROGRESS \<Rightarrow> wii_process_fsm d
        | _ \<Rightarrow> d)"

text \<open>A reply shorter than 5 bytes is logged and then read all the same.\<close>

definition process_req_return :: "u8 list \<Rightarrow> wii_device \<Rightarrow> wii_device option" where
  "process_req_return r d = reads 4 r (
     if r ! 3 = WIIPROTO_REQ_WMEM
     then reads 5 r (Some (wii_process_fsm (
       if r ! 4 \<noteq> 0
       then (if register_address d = 0xa6 then d\<lparr>wii_state := WII_FSM_SETUP\<rparr>
             else d\<lparr>wii_state := WII_FSM_DEV_UNK, register_address := 0xa6\<rparr>)
       else d)))
     else Some d)"

subsection \<open>Reports\<close>

definition process_drm_k_horizontal :: "u8 list \<Rightarrow> uni_gamepad \<Rightarrow> uni_gamepad" where
  "process_drm_k_horizontal r gp =
     press_flags [(0x04, BUTTON_Y), (0x08, BUTTON_X), (0x02, BUTTON_A), (0x01, BUTTON_B)] (r ! 2)
       (press_dpad_flags [(0x01, DPAD_DOWN), (0x02, DPAD_UP), (0x04, DPAD_RIGHT), (0x08, DPAD_LEFT)] (r ! 1) gp)"

definition process_drm_k_vertical :: "u8 list \<Rightarrow> uni_gamepad \<Rightarrow> uni_gamepad" where
  "process_drm_k_vertical r gp =
     press_flags [(0x04, BUTTON_A), (0x08, BUTTON_B), (0x02, BUTTON_X), (0x01, BUTTON_Y)] (r ! 2)
       (press_dpad_flags [(0x01, DPAD_LEFT), (0x02, DPAD_RIGHT), (0x04, DPAD_DOWN), (0x08, DPAD_UP)] (r ! 1) gp)"

definition wii_misc_buttons :: "u8 list \<Rightarrow> uni_gamepad \<Rightarrow> uni_gamepad" where
  "wii_misc_buttons r gp =
     press_misc_flags [(0x10, MISC_BUTTON_START)] (r ! 1)
       (press_misc_flags [(0x80, MISC_BUTTON_SYSTEM), (0x10, MISC_BUTTON_SELECT)] (r ! 2) gp)"

definition process_drm_k :: "u8 list \<Rightarrow> wii_device \<Rightarrow> wii_device option" where
  "process_drm_k r d =
     (if length r < 3 then Some d
      else on_raw (\<lambda>gp. wii_misc_buttons r (case wii_mode d of
          WII_MODE_HORIZONTAL \<Rightarrow> process_drm_k_horizontal r gp
        | WII_MODE_VERTICAL \<Rightarrow> process_drm_k_vertical r gp
        | WII_MODE_ACCEL \<Rightarrow> gp)) d)"

definition accel_value :: "u8 \<Rightarrow> u8 \<Rightarrow> int" where
  "accel_value hi lo = uint (push_bit 2 (ucast hi) OR ucast lo :: u16) - 0x200"

definition process_drm_ka :: "u8 list \<Rightarrow> wii_device \<Rightarrow> wii_device option" where
  "process_drm_ka r d =
     (if length r < 6 then Some d
      else on_raw (\<lambda>gp. wii_misc_buttons r
        (press_flags [(0x02, BUTTON_A), (0x01, BUTTON_B), (0x08, BUTTON_X), (0x04, BUTTON_Y)] (r ! 2)
          (press_dpad_flags [(0x01, DPAD_DOWN), (0x02, DPAD_UP), (0x04, DPAD_RIGHT), (0x08, DPAD_LEFT)] (r ! 1)
            (gp\<lparr>accel := (accel_value (r ! 3) (drop_bit 5 (r ! 1) AND 0x3), accel_value (r ! 4) (drop_bit 4 (r ! 2) AND 0x2),
                accel_value (r ! 5) (drop_bit 5 (r ! 2) AND 0x2))\<rparr>)))) d)"

text \<open>The Nunchuk's stick and its two buttons, which are active low. Its accelerometer is decoded but not used.\<close>

definition process_nunchuk :: "u8 list \<Rightarrow> int \<times> int \<times> bool \<times> bool" where
  "process_nunchuk e =
     (if length e < 6 then (0, 0, False, False)
      else (uint (e ! 0) - 0x80, - (uint (e ! 1) - 0x80), e ! 5 AND 0x02 = 0, e ! 5 AND 0x01 = 0))"

text \<open>Position, pressure, lower and upper button of the uDraw tablet.\<close>

definition process_udraw_tablet :: "u8 list \<Rightarrow> int \<times> int \<times> int \<times> bool \<times> bool" where
  "process_udraw_tablet e =
     (if length e < 6 then (0, 0, 0, False, False)
      else (uint (e ! 0) + 2 ^ 8 * uint (e ! 2 AND 0x0f), uint (e ! 1) + 2 ^ 4 * uint (e ! 2 AND 0xf0),
            uint (e ! 3) + 2 ^ 5 * uint (e ! 5 AND 0x04), e ! 5 AND 0x02 = 0, e ! 5 AND 0x01 = 0))"

definition nunchuk_gamepad :: "u8 list \<Rightarrow> uni_gamepad \<Rightarrow> uni_gamepad" where
  "nunchuk_gamepad r gp = (case process_nunchuk (drop 3 r) of (sx, sy, bc, bz) \<Rightarrow>
     let factor = cdiv (cdiv AXIS_NORMALIZE_RANGE 2) 128
     in gp\<lparr>axis_rx := sx * factor, axis_ry := sy * factor,
           buttons := buttons gp OR (if bc then BUTTON_X else 0) OR (if bz then BUTTON_Y else 0)\<rparr>)"

definition udraw_gamepad :: "u8 list \<Rightarrow> uni_gamepad \<Rightarrow> uni_gamepad" where
  "udraw_gamepad r gp = (case process_udraw_tablet (drop 3 r) of (nx, ny, pressure, lower, upper) \<Rightarrow>
     gp\<lparr>axis_rx := (if nx < 2000 then cdiv ((nx - 90) * AXIS_NORMALIZE_RANGE) 1955 - cdiv AXIS_NORMALIZE_RANGE 2 else 0),
        axis_ry := (if ny < 2000 then cdiv ((ny - 80) * AXIS_NORMALIZE_RANGE) 1450 - cdiv AXIS_NORMALIZE_RANGE 2 else 0),
        throttle := cdiv ((pressure - 8) * AXIS_NORMALIZE_RANGE) 380,
        buttons := buttons gp OR (if upper then BUTTON_X else 0) OR (if lower then BUTTON_Y else 0)\<rparr>)"

definition process_drm_ke :: "u8 list \<Rightarrow> wii_device \<Rightarrow> wii_device option" where
  "process_drm_ke r d =
     (if length r < 11 then Some d
      else if ext_type d \<noteq> WII_EXT_NUNCHUK \<and> ext_type d \<noteq> WII_EXT_UDRAW_TABLET then Some d
      else if wii_mode d \<noteq> WII_MODE_VERTICAL then Some d
      else on_raw (\<lambda>gp. wii_misc_buttons r
        (press_flags [(0x04, BUTTON_A), (0x08, BUTTON_B), (0x02, BUTTON_SHOULDER_L), (0x01, BUTTON_SHOULDER_R)] (r ! 2)
          (press_dpad_flags [(0x01, DPAD_LEFT), (0x02, DPAD_RIGHT), (0x04, DPAD_DOWN), (0x08, DPAD_UP)] (r ! 1)
            (if ext_type d = WII_EXT_NUNCHUK then nunchuk_gamepad r gp else udraw_gamepad r gp)))) d)"

definition u12_at :: "u8 list \<Rightarrow> nat \<Rightarrow> int" where
  "u12_at r i = uint (r ! i) + 2 ^ 8 * uint (r ! Suc i AND 0x0f)"

definition pro_axis :: "u8 list \<Rightarrow> nat \<Rightarrow> int" where
  "pro_axis r i = cdiv ((u12_at r i - 0x800) * 512) 1280"

text \<open>The buttons of the Wii U Pro and the Classic controller are active low.\<close>

definition pro_gamepad :: "u8 list \<Rightarrow> uni_gamepad \<Rightarrow> uni_gamepad" where
  "pro_gamepad r gp =
     (let gp1 = gp\<lparr>axis_x := pro_axis r 3, axis_y := - pro_axis r 7, axis_rx := pro_axis r 5, axis_ry := - pro_axis r 9\<rparr>;
          gp2 = press_dpad_flags [(0x80, DPAD_RIGHT), (0x40, DPAD_DOWN)] (NOT (r ! 11)) gp1;
          gp3 = press_dpad_flags [(0x02, DPAD_LEFT), (0x01, DPAD_UP)] (NOT (r ! 12)) gp2;
          gp4 = press_flags [(0x10, BUTTON_B), (0x40, BUTTON_A), (0x08, BUTTON_Y), (0x20, BUTTON_X),
            (0x80, BUTTON_TRIGGER_L), (0x04, BUTTON_TRIGGER_R)] (NOT (r ! 12)) gp3;
          gp5 = press_flags [(0x20, BUTTON_SHOULDER_L), (0x02, BUTTON_SHOULDER_R)] (NOT (r ! 11)) gp4;
          gp6 = press_flags [(0x02, BUTTON_THUMB_L), (0x01, BUTTON_THUMB_R)] (NOT (r ! 13)) gp5
      in press_misc_flags [(0x08, MISC_BUTTON_SYSTEM), (0x04, MISC_BUTTON_START), (0x10, MISC_BUTTON_SELECT)]
           (NOT (r ! 11)) gp6)"

definition pro_battery :: "u8 \<Rightarrow> u8" where
  "pro_battery b = word_of_int (min 255 (max 1 (uint (b AND 0x70) * 4 - 1)))"

subsection \<open>The Balance Board\<close>

text \<open>The conversion to \<^verbatim>\<open>int32_t\<close> truncates, and is undefined outside the type.\<close>

fun f2s32 :: "fp \<Rightarrow> int option" where
  "f2s32 (FFin s m) = chk32 (if s then - \<lfloor>m\<rfloor> else \<lfloor>m\<rfloor>)"
| "f2s32 _ = None"

definition scaled_weight :: "int \<Rightarrow> int \<Rightarrow> fp" where
  "scaled_weight n width = fdiv f32 (fmul f32 (fof_int f32 17) (fof_int f32 n)) (fof_int f32 width)"

definition balance_interpolate :: "int \<Rightarrow> int \<Rightarrow> int \<Rightarrow> int \<Rightarrow> int option" where
  "balance_interpolate v k0 k17 k34 =
     (let weight = (if v < k0 then fof_int f32 0
                    else if v < k17 then scaled_weight (v - k0) (k17 - k0)
                    else fadd f32 (fof_int f32 17) (scaled_weight (v - k17) (k34 - k17)))
      in f2s32 (fmul f32 weight (fof_int f32 1000)))"

definition board_weight :: "u16 \<Rightarrow> u16 \<Rightarrow> u16 \<Rightarrow> u16 \<Rightarrow> u16 option" where
  "board_weight v k0 k17 k34 =
     map_option word_of_int (balance_interpolate (uint v) (uint k0) (uint k17) (uint k34))"

fun board_weights :: "board_sensors \<Rightarrow> board_sensors \<Rightarrow> board_sensors \<Rightarrow> board_sensors \<Rightarrow> board_sensors option" where
  "board_weights (a, b, c, d) (a_0, b_0, c_0, d_0) (a_17, b_17, c_17, d_17) (a_34, b_34, c_34, d_34) = do {
     wa \<leftarrow> board_weight a a_0 a_17 a_34;
     wb \<leftarrow> board_weight b b_0 b_17 b_34;
     wc \<leftarrow> board_weight c c_0 c_17 c_34;
     wd \<leftarrow> board_weight d d_0 d_17 d_34;
     Some (wa, wb, wc, wd)
   }"

definition board_battery :: "u8 \<Rightarrow> u8" where
  "board_battery b = (if b \<ge> 0x82 then 255 else if b \<ge> 0x7d then 192 else if b \<ge> 0x78 then 128
     else if b \<ge> 0x6a then 64 else 0)"

text \<open>
  \<open>len\<close> is the length that the caller computes in 16 bits; the bytes are read at 3. The result has the weights,
  the temperature and the battery.
\<close>

definition process_balance_board :: "u8 list \<Rightarrow> u16 \<Rightarrow> wii_device \<Rightarrow> (board_sensors \<times> int \<times> u8) option" where
  "process_balance_board r len d =
     (if len < 11 then Some ((0, 0, 0, 0), 0, 0)
      else reads 14 r (map_option (\<lambda>w. (w, uint (r ! 11), board_battery (r ! 13)))
             (board_weights (sensors_at r 3) (kg0 d) (kg17 d) (kg34 d))))"

definition balance_report :: "u8 list \<Rightarrow> wii_device \<Rightarrow> wii_device option" where
  "balance_report r d = map_option (\<lambda>((a, b, c, e), t, bat). d\<lparr>raw_controller := \<lparr>ctl_data =
       Class_balance_board \<lparr>bb_tr = a, bb_br = b, bb_tl = c, bb_bl = e, temperature = t\<rparr>,
       battery = (if bat < 1 then 1 else bat)\<rparr>\<rparr>)
     (process_balance_board r (word_of_nat (length r) - 3) d)"

definition process_drm_kee :: "u8 list \<Rightarrow> wii_device \<Rightarrow> wii_device option" where
  "process_drm_kee r d =
     (if ext_type d \<noteq> WII_EXT_BALANCE_BOARD \<and> ext_type d \<noteq> WII_EXT_U_PRO_CONTROLLER then Some d
      else if ext_type d = WII_EXT_BALANCE_BOARD then balance_report r d
      else if length r < 14 then Some d
      else map_option (set_battery (pro_battery (r ! 13))) (on_raw (pro_gamepad r) d))"

subsection \<open>The Classic controller\<close>

text \<open>The lowest bit of the right stick is taken from byte 1, where its highest bit is, instead of byte 3.\<close>

definition classic_rx :: "u8 list \<Rightarrow> u8" where
  "classic_rx r = drop_bit 3 (r ! 1 AND 0xc0) OR drop_bit 5 (r ! 2 AND 0xc0) OR drop_bit 7 (r ! 1 AND 0x80)"

definition classic_gamepad :: "u8 list \<Rightarrow> uni_gamepad \<Rightarrow> uni_gamepad" where
  "classic_gamepad r gp =
     (let half = cdiv AXIS_NORMALIZE_RANGE 2; pedal = cdiv AXIS_NORMALIZE_RANGE 32;
          lt = drop_bit 2 (r ! 3 AND 0x60) OR drop_bit 5 (r ! 4 AND 0xe0);
          gp1 = gp\<lparr>axis_x := (uint (r ! 1 AND 0x3f) - 32) * cdiv half 32,
            axis_y := - ((uint (r ! 2 AND 0x3f) - 32) * cdiv half 32),
            axis_rx := (uint (classic_rx r) - 16) * cdiv half 16,
            axis_ry := - ((uint (r ! 3 AND 0x1f) - 16) * cdiv half 16),
            brake := uint lt * pedal, throttle := uint (r ! 4 AND 0x1f) * pedal\<rparr>;
          gp2 = press_dpad_flags [(0x80, DPAD_RIGHT), (0x40, DPAD_DOWN)] (NOT (r ! 5)) gp1;
          gp3 = press_dpad_flags [(0x01, DPAD_UP), (0x02, DPAD_LEFT)] (NOT (r ! 6)) gp2;
          gp4 = press_flags [(0x40, BUTTON_A), (0x10, BUTTON_B), (0x20, BUTTON_X), (0x08, BUTTON_Y)] (NOT (r ! 6)) gp3;
          gp5 = press_flags [(0x20, BUTTON_SHOULDER_L), (0x02, BUTTON_SHOULDER_R)] (NOT (r ! 5)) gp4;
          gp6 = press_flags [(0x80, BUTTON_TRIGGER_L), (0x04, BUTTON_TRIGGER_R)] (NOT (r ! 6)) gp5
      in press_misc_flags [(0x08, MISC_BUTTON_SYSTEM), (0x04, MISC_BUTTON_START), (0x10, MISC_BUTTON_SELECT)]
           (NOT (r ! 5)) gp6)"

definition process_drm_e :: "u8 list \<Rightarrow> wii_device \<Rightarrow> wii_device option" where
  "process_drm_e r d =
     (if length r < 22 \<or> ext_type d \<noteq> WII_EXT_CLASSIC_CONTROLLER then Some d else on_raw (classic_gamepad r) d)"

definition uni_hid_parser_wii_parse_input_report :: "u8 list \<Rightarrow> wii_device \<Rightarrow> wii_device option" where
  "uni_hid_parser_wii_parse_input_report r d =
     (if r = [] then Some d
      else if r ! 0 = WIIPROTO_REQ_STATUS then Some (process_req_status r d)
      else if r ! 0 = WII_REPORT_TYPE_K then process_drm_k r d
      else if r ! 0 = WII_REPORT_TYPE_KA then process_drm_ka r d
      else if r ! 0 = WII_REPORT_TYPE_KE then process_drm_ke r d
      else if r ! 0 = WII_REPORT_TYPE_KEE then process_drm_kee r d
      else if r ! 0 = WII_REPORT_TYPE_E then process_drm_e r d
      else if r ! 0 = WIIPROTO_REQ_DATA then Some (process_req_data r d)
      else if r ! 0 = WIIPROTO_REQ_RETURN then process_req_return r d
      else Some d)"

subsection \<open>LEDs, mode and rumble\<close>

definition uni_hid_parser_wii_set_player_leds :: "u8 \<Rightarrow> wii_device \<Rightarrow> wii_device" where
  "uni_hid_parser_wii_set_player_leds leds d =
     (let d1 = d\<lparr>wii_seat := leds\<rparr> in if wii_state d1 \<noteq> WII_FSM_LED_UPDATED then d1 else wii_set_led leds d1)"

definition uni_hid_parser_wii_set_mode :: "wii_mode \<Rightarrow> wii_device \<Rightarrow> wii_device" where
  "uni_hid_parser_wii_set_mode mode d = (d\<lparr>wii_mode := mode\<rparr>)\<lparr>wii_controller_subtype := (case mode of
      WII_MODE_HORIZONTAL \<Rightarrow> CONTROLLER_SUBTYPE_WIIMOTE_HORIZONTAL
    | WII_MODE_VERTICAL \<Rightarrow> CONTROLLER_SUBTYPE_WIIMOTE_VERTICAL
    | WII_MODE_ACCEL \<Rightarrow> if ext_type d = WII_EXT_NONE then CONTROLLER_SUBTYPE_WIIMOTE_ACCEL
        else if ext_type d = WII_EXT_NUNCHUK then CONTROLLER_SUBTYPE_WIIMOTE_NUNCHUK_ACCEL
        else wii_controller_subtype d)\<rparr>"

definition wii_stop_rumble_now :: "wii_device \<Rightarrow> wii_device option" where
  "wii_stop_rumble_now d =
     (if motor_state d \<noteq> STATE_RUMBLE_IN_PROGRESS then None
      else Some (wii_send [0xa2, WIIPROTO_REQ_RUMBLE, 0x00] (d\<lparr>motor_state := STATE_RUMBLE_DISABLED\<rparr>)))"

text \<open>The magnitudes are not used: the motor is on or off.\<close>

definition wii_play_dual_rumble_now :: "u16 \<Rightarrow> u8 \<Rightarrow> u8 \<Rightarrow> wii_device \<Rightarrow> wii_device option" where
  "wii_play_dual_rumble_now duration weak strong d =
     (if duration = 0
      then (if motor_state d = STATE_RUMBLE_IN_PROGRESS then wii_stop_rumble_now d else Some d)
      else Some (start_duration duration (wii_send [0xa2, WIIPROTO_REQ_RUMBLE, 0x01] d)))"

definition uni_hid_parser_wii_play_dual_rumble :: "u16 \<Rightarrow> u16 \<Rightarrow> u8 \<Rightarrow> u8 \<Rightarrow> wii_device \<Rightarrow> wii_device option" where
  "uni_hid_parser_wii_play_dual_rumble start_delay duration weak strong d =
     (if wii_state d \<noteq> WII_FSM_LED_UPDATED then Some d
      else play_dual_rumble wii_play_dual_rumble_now start_delay duration weak strong d)"

definition on_wii_set_rumble_on :: "wii_device \<Rightarrow> wii_device option" where
  "on_wii_set_rumble_on = set_rumble_on wii_play_dual_rumble_now"

definition on_wii_set_rumble_off :: "wii_device \<Rightarrow> wii_device option" where
  "on_wii_set_rumble_off = wii_stop_rumble_now"

subsection \<open>Events\<close>

datatype wii_event =
    Wii_report "u8 list"
  | Wii_leds u8
  | Wii_mode wii_mode
  | Wii_rumble u16 u16 u8 u8
  | Wii_delay_ends
  | Wii_duration_ends

fun wii_handle :: "wii_event \<Rightarrow> wii_device \<Rightarrow> wii_device option" where
  "wii_handle (Wii_report r) d = uni_hid_parse_input_report
     \<lparr>rp_init_report = Some init_gamepad,
      rp_parse_input_report = Some uni_hid_parser_wii_parse_input_report, rp_parse_usage = None\<rparr> [] r d"
| "wii_handle (Wii_leds leds) d = Some (uni_hid_parser_wii_set_player_leds leds d)"
| "wii_handle (Wii_mode mode) d = Some (uni_hid_parser_wii_set_mode mode d)"
| "wii_handle (Wii_rumble delay duration weak strong) d = uni_hid_parser_wii_play_dual_rumble delay duration weak strong d"
| "wii_handle Wii_delay_ends d = motor_run wii_play_dual_rumble_now wii_stop_rumble_now [Delay_ends] d"
| "wii_handle Wii_duration_ends d = motor_run wii_play_dual_rumble_now wii_stop_rumble_now [Duration_ends] d"

primrec wii_run :: "wii_event list \<Rightarrow> wii_device \<Rightarrow> wii_device option" where
  "wii_run [] d = Some d"
| "wii_run (e # es) d = Option.bind (wii_handle e d) (wii_run es)"

text \<open>
  What the parser needs: acknowledgements have the five bytes it reads, the extension is not a Balance
  Board (whose calibration it trusts), and a rumble has a duration.
\<close>

fun wii_event_ok :: "wii_event \<Rightarrow> bool" where
  "wii_event_ok (Wii_report r) \<longleftrightarrow> r \<noteq> [] \<and> (r ! 0 = WIIPROTO_REQ_RETURN \<longrightarrow> 5 \<le> length r) \<and>
     (r ! 0 = WIIPROTO_REQ_DATA \<longrightarrow> 22 \<le> length r \<longrightarrow> \<not> (r ! 10 = 0x04 \<and> r ! 11 = 0x02))"
| "wii_event_ok (Wii_rumble _ duration _ _) \<longleftrightarrow> duration \<noteq> 0"
| "wii_event_ok _ \<longleftrightarrow> True"

text \<open>The motor is off when the last report that carries the rumble bit has it clear.\<close>

definition carries_rumble :: "dev_call \<Rightarrow> bool" where
  "carries_rumble c \<longleftrightarrow> (case c of Intr_sent r \<Rightarrow> r ! 1 = WIIPROTO_REQ_RUMBLE \<or> r ! 1 = WIIPROTO_REQ_LED | _ \<Rightarrow> False)"

definition wii_still :: "dev_call list \<Rightarrow> bool" where
  "wii_still cs = (case last_intr (filter carries_rumble cs) of None \<Rightarrow> True | Some r \<Rightarrow> \<not> bit (r ! 2) 0)"

lemma wii_still_simps [simp]:
  "wii_still []"
  "wii_still (cs @ [Ready_complete]) = wii_still cs"
  "r ! 1 = WIIPROTO_REQ_RUMBLE \<or> r ! 1 = WIIPROTO_REQ_LED \<Longrightarrow> wii_still (cs @ [Intr_sent r]) \<longleftrightarrow> \<not> bit (r ! 2) 0"
  "r ! 1 \<noteq> WIIPROTO_REQ_RUMBLE \<Longrightarrow> r ! 1 \<noteq> WIIPROTO_REQ_LED \<Longrightarrow> wii_still (cs @ [Intr_sent r]) = wii_still cs"
  by (auto simp: wii_still_def carries_rumble_def)

lemmas wii_rumble_defs = wii_stop_rumble_now_def wii_play_dual_rumble_now_def wii_send_def call_def
  start_duration_def timers_def

interpretation wii_motor: rumble_motor wii_play_dual_rumble_now wii_stop_rumble_now wii_still
    "\<lambda>duration. duration \<noteq> 0"
  by unfold_locales (auto simp: wii_rumble_defs intro: state_disabled split: if_splits)

subsection \<open>The log of calls\<close>

text \<open>Every ready event comes right after the request for a report type and the LEDs.\<close>

definition announced :: "dev_call list \<Rightarrow> bool" where
  "announced cs \<longleftrightarrow> (\<forall>xs ys. cs = xs @ Ready_complete # ys \<longrightarrow>
     (\<exists>zs t led. xs = zs @ [Intr_sent [0xa2, WIIPROTO_REQ_DRM, 0, t], Intr_sent [0xa2, WIIPROTO_REQ_LED, led]]))"

lemma announced_Nil [simp]: "announced []"
  by (simp add: announced_def)

lemma announced_snoc:
  assumes "announced cs"
    and "c = Ready_complete \<Longrightarrow> \<exists>zs t led. cs = zs @ [Intr_sent [0xa2, WIIPROTO_REQ_DRM, 0, t], Intr_sent [0xa2, WIIPROTO_REQ_LED, led]]"
  shows "announced (cs @ [c])"
  unfolding announced_def
proof (intro allI impI)
  fix xs ys
  assume e: "cs @ [c] = xs @ Ready_complete # ys"
  show "\<exists>zs t led. xs = zs @ [Intr_sent [0xa2, WIIPROTO_REQ_DRM, 0, t], Intr_sent [0xa2, WIIPROTO_REQ_LED, led]]"
  proof (cases ys rule: rev_cases)
    case Nil
    with e assms(2) show ?thesis by simp
  next
    case (snoc ys' y)
    with e have "cs = xs @ Ready_complete # ys'" by simp
    with assms(1) show ?thesis by (simp add: announced_def)
  qed
qed

lemma announced_send: "announced cs \<Longrightarrow> announced (cs @ [Intr_sent r])"
  by (rule announced_snoc) simp_all

lemma announced_ready:
  assumes "announced cs"
  shows "announced (((cs @ [Intr_sent [0xa2, WIIPROTO_REQ_DRM, 0, t]]) @ [Intr_sent [0xa2, WIIPROTO_REQ_LED, led]]) @ [Ready_complete])"
  by (rule announced_snoc [OF announced_send [OF announced_send [OF assms]]]) simp

text \<open>The part of the invariant that depends on the calls and on the motor's state only.\<close>

definition log_ok :: "wii_device \<Rightarrow> bool" where
  "log_ok d \<longleftrightarrow> announced (calls d) \<and> wii_motor.motor_inv d"

lemma log_ok_cong:
  "log_ok d \<Longrightarrow> calls d' = calls d \<Longrightarrow> motor_state d' = motor_state d \<Longrightarrow> timers d' = timers d \<Longrightarrow>
   duration_ms d' = duration_ms d \<Longrightarrow> log_ok d'"
  by (auto simp: log_ok_def wii_motor.motor_inv_def timers_def split: state_rumble.splits)

lemma log_ok_send:
  "log_ok d \<Longrightarrow> r ! 1 \<noteq> WIIPROTO_REQ_RUMBLE \<Longrightarrow> r ! 1 \<noteq> WIIPROTO_REQ_LED \<Longrightarrow> log_ok (wii_send r d)"
  by (auto simp: log_ok_def wii_motor.motor_inv_def timers_def wii_send_def call_def announced_send split: state_rumble.splits)

lemma led_rumble_bit: "bit (push_bit 4 seat :: u8) 0 = False"
  by (simp add: bit_push_bit_iff)

lemma wii_set_led_bit:
  "\<exists>led. wii_set_led seat d = wii_send [0xa2, WIIPROTO_REQ_LED, led] d \<and>
     (motor_state d \<noteq> STATE_RUMBLE_IN_PROGRESS \<longrightarrow> \<not> bit led 0)"
  by (auto simp: wii_set_led_def Let_def bit_or_iff led_rumble_bit)

lemma log_ok_led: "log_ok d \<Longrightarrow> log_ok (wii_set_led seat d)"
  using wii_set_led_bit [of seat d]
  by (auto simp: log_ok_def wii_motor.motor_inv_def timers_def wii_send_def call_def announced_send split: state_rumble.splits)

lemma log_ok_assigned:
  assumes "log_ok d"
  shows "log_ok (call Ready_complete (wii_set_led seat (wii_send [0xa2, WIIPROTO_REQ_DRM, 0, t] d)))"
proof -
  let ?d = "wii_set_led seat (wii_send [0xa2, WIIPROTO_REQ_DRM, 0, t] d)"
  have l: "log_ok ?d" using assms by (intro log_ok_led log_ok_send) simp_all
  obtain led where led: "calls ?d = (calls d @ [Intr_sent [0xa2, WIIPROTO_REQ_DRM, 0, t]]) @ [Intr_sent [0xa2, WIIPROTO_REQ_LED, led]]"
    using wii_set_led_bit [of seat "wii_send [0xa2, WIIPROTO_REQ_DRM, 0, t] d"] by (auto simp: wii_send_def call_def)
  have "announced (calls ?d @ [Ready_complete])"
    unfolding led by (rule announced_ready) (use assms in \<open>simp add: log_ok_def\<close>)
  with l show ?thesis
    by (auto simp: log_ok_def wii_motor.motor_inv_def timers_def call_def split: state_rumble.splits)
qed

lemma wii_send_frame [simp]:
  "wii_state (wii_send r d) = wii_state d" "ext_type (wii_send r d) = ext_type d"
  "raw_controller (wii_send r d) = raw_controller d" "wii_mode (wii_send r d) = wii_mode d"
  "dev_type (wii_send r d) = dev_type d" "register_address (wii_send r d) = register_address d"
  "wii_product_id (wii_send r d) = wii_product_id d" "wii_seat (wii_send r d) = wii_seat d"
  "calls (wii_send r d) = calls d @ [Intr_sent r]" "motor_state (wii_send r d) = motor_state d"
  by (simp_all add: wii_send_def call_def)

lemma wii_set_led_frame [simp]:
  "wii_state (wii_set_led s d) = wii_state d" "ext_type (wii_set_led s d) = ext_type d"
  "raw_controller (wii_set_led s d) = raw_controller d"
  by (simp_all add: wii_set_led_def Let_def)

text \<open>What the machine does in each state.\<close>

lemmas wii_request_defs = wii_fsm_req_status_def wii_fsm_ext_init_def wii_fsm_ext_encrypt_off_def
  wii_fsm_ext_read_register_def wii_fsm_balance_board_read_calibration_def
  wii_fsm_balance_board_read_calibration2_def wii_read_mem_def wii_write_register_def

lemma wii_fsm_step:
  "wii_state d \<in> {WII_FSM_SETUP, WII_FSM_DUMP_EEPROM_IN_PROGRESS, WII_FSM_DUMP_EEPROM_FINISHED} \<Longrightarrow>
     wii_process_fsm d = wii_fsm_req_status d"
  "wii_state d \<in> {WII_FSM_DEV_UNK, WII_FSM_EXT_UNK} \<Longrightarrow> wii_process_fsm d = wii_fsm_ext_init d"
  "wii_state d = WII_FSM_EXT_DID_INIT \<Longrightarrow> wii_process_fsm d = wii_fsm_ext_encrypt_off d"
  "wii_state d = WII_FSM_EXT_DID_NO_ENCRYPTION \<Longrightarrow> wii_process_fsm d = wii_fsm_ext_read_register d"
  "wii_state d = WII_FSM_BALANCE_BOARD_READ_CALIBRATION \<Longrightarrow> wii_process_fsm d = wii_fsm_balance_board_read_calibration d"
  "wii_state d = WII_FSM_BALANCE_BOARD_READ_CALIBRATION2 \<Longrightarrow> wii_process_fsm d = wii_fsm_balance_board_read_calibration2 d"
  "wii_state d \<in> {WII_FSM_UNINIT, WII_FSM_DID_REQ_STATUS, WII_FSM_EXT_DID_READ_REGISTER,
     WII_FSM_BALANCE_BOARD_DID_READ_CALIBRATION, WII_FSM_BALANCE_BOARD_DID_READ_CALIBRATION2, WII_FSM_LED_UPDATED} \<Longrightarrow>
     wii_process_fsm d = d"
  "wii_state d = WII_FSM_DEV_ASSIGNED \<Longrightarrow>
     wii_process_fsm d = call Ready_complete ((wii_set_led (wii_seat d) d)\<lparr>wii_state := WII_FSM_LED_UPDATED\<rparr>)"
  by (auto simp: wii_process_fsm.simps [of d] wii_process_fsm.simps [of "d\<lparr>wii_state := WII_FSM_DUMP_EEPROM_FINISHED\<rparr>"]
      wii_process_fsm.simps [of "(wii_set_led (wii_seat d) d)\<lparr>wii_state := WII_FSM_LED_UPDATED\<rparr>"] wii_fsm_req_status_def)

lemma wii_fsm_guessed:
  assumes "wii_state d = WII_FSM_DEV_GUESSED"
  shows "\<exists>t subtype. wii_process_fsm d = (call Ready_complete (wii_set_led (wii_seat d)
      (wii_send [0xa2, WIIPROTO_REQ_DRM, 0, t] d)))\<lparr>wii_controller_subtype := subtype, wii_state := WII_FSM_LED_UPDATED\<rparr>"
proof -
  obtain subtype t where a: "assigned_report (dev_type d) (ext_type d) (wii_mode d) = (subtype, t)" by fastforce
  have "wii_process_fsm d = wii_process_fsm (assign_device d)" using assms by (subst wii_process_fsm.simps) simp
  moreover have "wii_state (assign_device d) = WII_FSM_DEV_ASSIGNED" by (simp add: assign_device_def a)
  ultimately have "wii_process_fsm d =
      call Ready_complete ((wii_set_led (wii_seat d) (assign_device d))\<lparr>wii_state := WII_FSM_LED_UPDATED\<rparr>)"
    by (simp add: wii_fsm_step(8) assign_device_def a uni_hid_parser_wii_request_report_type_def)
  then have "wii_process_fsm d = (call Ready_complete (wii_set_led (wii_seat d)
      (wii_send [0xa2, WIIPROTO_REQ_DRM, 0, t] d)))\<lparr>wii_controller_subtype := subtype, wii_state := WII_FSM_LED_UPDATED\<rparr>"
    by (simp add: assign_device_def a uni_hid_parser_wii_request_report_type_def wii_set_led_def wii_send_def call_def Let_def)
  then show ?thesis by blast
qed

text \<open>The invariant: the machine rests in no state in between, and a controller in the last one was declared ready.\<close>

definition wii_inv :: "wii_device \<Rightarrow> bool" where
  "wii_inv d \<longleftrightarrow> log_ok d \<and> wii_state d \<noteq> WII_FSM_DEV_ASSIGNED \<and> ext_type d \<noteq> WII_EXT_BALANCE_BOARD \<and>
     (wii_state d = WII_FSM_LED_UPDATED \<longrightarrow> Ready_complete \<in> set (calls d))"

lemma wii_fsm_inv:
  assumes "log_ok d" "wii_state d \<noteq> WII_FSM_DEV_ASSIGNED" "ext_type d \<noteq> WII_EXT_BALANCE_BOARD"
    and "wii_state d = WII_FSM_LED_UPDATED \<Longrightarrow> Ready_complete \<in> set (calls d)"
  shows "wii_inv (wii_process_fsm d) \<and> raw_controller (wii_process_fsm d) = raw_controller d"
proof (cases "wii_state d = WII_FSM_DEV_GUESSED")
  case True
  obtain t subtype where f: "wii_process_fsm d = (call Ready_complete (wii_set_led (wii_seat d)
      (wii_send [0xa2, WIIPROTO_REQ_DRM, 0, t] d)))\<lparr>wii_controller_subtype := subtype, wii_state := WII_FSM_LED_UPDATED\<rparr>"
    using wii_fsm_guessed [OF True] by blast
  have "log_ok (wii_process_fsm d)"
    unfolding f by (rule log_ok_cong [OF log_ok_assigned [OF assms(1)]]) (simp_all add: timers_def)
  then show ?thesis using assms(3) unfolding f by (simp add: wii_inv_def call_def)
next
  case False
  have send: "log_ok (wii_send r (d\<lparr>wii_state := s\<rparr>))" if "r ! 1 \<in> {WIIPROTO_REQ_SREQ, WIIPROTO_REQ_WMEM, WIIPROTO_REQ_RMEM}" for r s
    using that by (intro log_ok_send log_ok_cong [OF assms(1)]) (auto simp: timers_def)
  show ?thesis
    using assms False
    by (cases "wii_state d") (auto simp: wii_fsm_step wii_request_defs wii_inv_def send)
qed

subsection \<open>Ranges\<close>

lemma uint_and_le: "uint (x AND m :: u8) \<le> uint m"
  using word_and_le1 [of x m] by (simp add: word_le_def)

lemma uint_or_le: "uint (x OR y :: u8) \<le> uint x + uint y"
proof -
  have "0 \<le> uint x AND uint y" by (simp add: and_nonnegative_int_iff)
  then show ?thesis using plus_and_or [of "uint x" "uint y"] unfolding unsigned_or_eq by linarith
qed

lemma uint_drop: "uint (drop_bit n x :: u8) = uint x div 2 ^ n"
  by (simp only: drop_bit_eq_div [of n "uint x", symmetric]) (simp add: bit_eq_iff bit_simps)

lemma cdiv_range:
  assumes "(lo - 1) * d < a" "a < (hi + 1) * d" "0 < d" "lo \<le> 0" "0 \<le> hi"
  shows "lo \<le> cdiv a d \<and> cdiv a d \<le> hi"
proof (cases "0 \<le> a")
  case True
  then have "cdiv a d = a div d" using assms(3) by (intro cdiv_nonneg) simp_all
  moreover have "0 \<le> a div d" using True assms(3) by (simp add: pos_imp_zdiv_nonneg_iff)
  moreover have "a div d < hi + 1" using assms(2,3) by (rule div_less_boundI)
  ultimately show ?thesis using assms(4) by linarith
next
  case False
  then have "cdiv a d = - (- a div d)" using assms(3) by (simp add: cdiv_def)
  moreover have "0 \<le> - a div d" using False assms(3) by (simp add: pos_imp_zdiv_nonneg_iff)
  moreover have "- a div d < 1 - lo"
    using assms(1,3) by (intro div_less_boundI) (auto simp: algebra_simps)
  ultimately show ?thesis using assms(5) by linarith
qed

text \<open>
  The sticks of the Wii U Pro controller reach 819 and those of the uDraw tablet 843, past the
  range -512..511 of the other parsers; the pressure of the tablet starts below 0.
\<close>

definition wii_gp_ok :: "uni_gamepad \<Rightarrow> bool" where
  "wii_gp_ok gp \<longleftrightarrow> list_all (\<lambda>a. - 819 \<le> a \<and> a \<le> 843) [axis_x gp, axis_y gp, axis_rx gp, axis_ry gp] \<and>
     0 \<le> brake gp \<and> brake gp \<le> 992 \<and> - 21 \<le> throttle gp \<and> throttle gp \<le> 1010"

definition wii_pads_ok :: "wii_device \<Rightarrow> bool" where
  "wii_pads_ok d \<longleftrightarrow> (\<exists>gp. ctl_data (raw_controller d) = Class_gamepad gp \<and> wii_gp_ok gp)"

lemma byte_bounds: "0 \<le> uint (b :: u8)" "uint (b :: u8) \<le> 255"
  using u8_range [of b] by simp_all

text \<open>Values of masked bytes, as variables that the arithmetic can use.\<close>

lemma masked:
  obtains n where "uint (x AND m :: u8) = n" "0 \<le> n" "n \<le> uint m"
  using uint_and_le [of x m] byte_bounds(1) [of "x AND m"] by blast

lemma pro_axis_range: "- 819 \<le> pro_axis r i \<and> pro_axis r i \<le> 819"
proof -
  obtain lo where "uint (r ! i) = lo" "0 \<le> lo" "lo \<le> 255" using byte_bounds by blast
  moreover obtain hi where "uint (r ! Suc i AND 0x0f) = hi" "0 \<le> hi" "hi \<le> uint (0x0f :: u8)" by (rule masked)
  ultimately have "0 \<le> u12_at r i \<and> u12_at r i \<le> 4095" by (simp add: u12_at_def)
  then show ?thesis unfolding pro_axis_def by (intro cdiv_range) simp_all
qed

lemma classic_rx_range: "uint (classic_rx r) \<le> 31"
proof -
  have "uint (r ! 1 AND 0xc0) \<le> 192" "uint (r ! 2 AND 0xc0) \<le> 192" "uint (r ! 1 AND 0x80) \<le> 128"
    using uint_and_le [of "r ! 1" "0xc0"] uint_and_le [of "r ! 2" "0xc0"] uint_and_le [of "r ! 1" "0x80"] by simp_all
  then have "uint (drop_bit 3 (r ! 1 AND 0xc0)) \<le> 24" "uint (drop_bit 5 (r ! 2 AND 0xc0)) \<le> 6"
      "uint (drop_bit 7 (r ! 1 AND 0x80)) \<le> 1"
    unfolding uint_drop by simp_all
  then show ?thesis
    unfolding classic_rx_def or.assoc [symmetric]
    using uint_or_le [of "drop_bit 3 (r ! 1 AND 0xc0) OR drop_bit 5 (r ! 2 AND 0xc0)" "drop_bit 7 (r ! 1 AND 0x80)"]
      uint_or_le [of "drop_bit 3 (r ! 1 AND 0xc0)" "drop_bit 5 (r ! 2 AND 0xc0)"] by linarith
qed

lemma classic_lt_range: "uint (drop_bit 2 (x AND 0x60) OR drop_bit 5 (y AND 0xe0) :: u8) \<le> 31"
proof -
  have "uint (x AND 0x60) \<le> 96" "uint (y AND 0xe0) \<le> 224"
    using uint_and_le [of x "0x60"] uint_and_le [of y "0xe0"] by simp_all
  then have "uint (drop_bit 2 (x AND 0x60)) \<le> 24" "uint (drop_bit 5 (y AND 0xe0)) \<le> 7"
    unfolding uint_drop by simp_all
  then show ?thesis using uint_or_le [of "drop_bit 2 (x AND 0x60)" "drop_bit 5 (y AND 0xe0)"] by linarith
qed

lemmas wii_gp_frame = gamepad_frame wii_misc_buttons_def process_drm_k_horizontal_def process_drm_k_vertical_def

lemma pro_gp_ok: "wii_gp_ok gp \<Longrightarrow> wii_gp_ok (pro_gamepad r gp)"
  using pro_axis_range [of r 3] pro_axis_range [of r 7] pro_axis_range [of r 5] pro_axis_range [of r 9]
  by (simp add: wii_gp_ok_def pro_gamepad_def Let_def gamepad_frame)

lemma classic_gp_ok:
  assumes "wii_gp_ok gp"
  shows "wii_gp_ok (classic_gamepad r gp)"
proof -
  obtain lx where "uint (r ! 1 AND 0x3f) = lx" "0 \<le> lx" "lx \<le> uint (0x3f :: u8)" by (rule masked)
  moreover obtain ly where "uint (r ! 2 AND 0x3f) = ly" "0 \<le> ly" "ly \<le> uint (0x3f :: u8)" by (rule masked)
  moreover obtain ry where "uint (r ! 3 AND 0x1f) = ry" "0 \<le> ry" "ry \<le> uint (0x1f :: u8)" by (rule masked)
  moreover obtain rt where "uint (r ! 4 AND 0x1f) = rt" "0 \<le> rt" "rt \<le> uint (0x1f :: u8)" by (rule masked)
  moreover obtain rx where "uint (classic_rx r) = rx" "0 \<le> rx" "rx \<le> 31"
    using classic_rx_range [of r] byte_bounds(1) [of "classic_rx r"] by blast
  moreover obtain lt where "uint (drop_bit 2 (r ! 3 AND 0x60) OR drop_bit 5 (r ! 4 AND 0xe0)) = lt" "0 \<le> lt" "lt \<le> 31"
    using classic_lt_range byte_bounds(1) by blast
  ultimately show ?thesis
    by (simp add: wii_gp_ok_def classic_gamepad_def Let_def gamepad_frame AXIS_NORMALIZE_RANGE_def cdiv_def
        del: drop_bit_and)
qed

lemma nunchuk_gp_ok:
  assumes "wii_gp_ok gp"
  shows "wii_gp_ok (nunchuk_gamepad r gp)"
proof -
  obtain sx where "uint (drop 3 r ! 0) = sx" "0 \<le> sx" "sx \<le> 255" using byte_bounds by blast
  moreover obtain sy where "uint (drop 3 r ! 1) = sy" "0 \<le> sy" "sy \<le> 255" using byte_bounds by blast
  ultimately show ?thesis
    using assms by (simp add: wii_gp_ok_def nunchuk_gamepad_def process_nunchuk_def AXIS_NORMALIZE_RANGE_def cdiv_def
        Let_def del: nth_drop length_drop)
qed

lemma udraw_gp_ok:
  assumes "wii_gp_ok gp"
  shows "wii_gp_ok (udraw_gamepad r gp)"
proof -
  obtain nx ny p lower upper where e: "process_udraw_tablet (drop 3 r) = (nx, ny, p, lower, upper)"
    by (metis prod_cases5)
  have "0 \<le> nx" "0 \<le> ny" "0 \<le> p" "p \<le> 383"
  proof -
    have "0 \<le> uint (drop 3 r ! 3) \<and> uint (drop 3 r ! 3) \<le> 255" "0 \<le> uint (drop 3 r ! 0)" "0 \<le> uint (drop 3 r ! 1)"
      using byte_bounds by simp_all
    moreover have "0 \<le> uint (drop 3 r ! 5 AND 0x04) \<and> uint (drop 3 r ! 5 AND 0x04) \<le> 4"
      using uint_and_le [of "drop 3 r ! 5" "0x04"] byte_bounds by simp
    ultimately show "0 \<le> nx" "0 \<le> ny" "0 \<le> p" "p \<le> 383"
      using e byte_bounds(1) [of "drop 3 r ! 2 AND 0x0f"] byte_bounds(1) [of "drop 3 r ! 2 AND 0xf0"]
      unfolding process_udraw_tablet_def by (auto simp del: nth_drop length_drop split: if_splits)
  qed
  then have "- 47 \<le> cdiv ((nx - 90) * 1024) 1955" "nx < 2000 \<Longrightarrow> cdiv ((nx - 90) * 1024) 1955 \<le> 1000"
    "- 56 \<le> cdiv ((ny - 80) * 1024) 1450" "ny < 2000 \<Longrightarrow> cdiv ((ny - 80) * 1024) 1450 \<le> 1355"
    "- 21 \<le> cdiv ((p - 8) * 1024) 380" "cdiv ((p - 8) * 1024) 380 \<le> 1010"
    by (auto simp: cdiv_def sgn_if)
  moreover have "cdiv 1024 2 = 512" by (simp add: cdiv_def)
  ultimately show ?thesis
    using assms by (auto simp: wii_gp_ok_def udraw_gamepad_def e AXIS_NORMALIZE_RANGE_def)
qed

subsection \<open>Safety\<close>

lemma wii_inv_cong:
  "wii_inv d \<Longrightarrow> log_ok d' \<Longrightarrow> wii_state d' = wii_state d \<Longrightarrow> ext_type d' = ext_type d \<Longrightarrow> set (calls d) \<subseteq> set (calls d') \<Longrightarrow> wii_inv d'"
  by (auto simp: wii_inv_def)

lemma wii_inv_same:
  "wii_inv d \<Longrightarrow> calls d' = calls d \<Longrightarrow> motor_state d' = motor_state d \<Longrightarrow> timers d' = timers d \<Longrightarrow>
   duration_ms d' = duration_ms d \<Longrightarrow> wii_state d' = wii_state d \<Longrightarrow> ext_type d' = ext_type d \<Longrightarrow> wii_inv d'"
  by (rule wii_inv_cong) (auto simp: wii_inv_def intro: log_ok_cong)

lemma wii_on_raw:
  assumes "wii_inv d" "ctl_data (raw_controller d) = Class_gamepad gp" "wii_gp_ok (f gp)"
  shows "\<exists>d'. on_raw f d = Some d' \<and> wii_inv d' \<and> wii_pads_ok d'"
  using assms
  by (auto simp: on_raw_gamepad wii_pads_ok_def timers_def intro!: wii_inv_same [of d])

lemma wii_gp_ok_cong:
  "wii_gp_ok gp \<Longrightarrow> axis_x gp' = axis_x gp \<Longrightarrow> axis_y gp' = axis_y gp \<Longrightarrow> axis_rx gp' = axis_rx gp \<Longrightarrow>
   axis_ry gp' = axis_ry gp \<Longrightarrow> brake gp' = brake gp \<Longrightarrow> throttle gp' = throttle gp \<Longrightarrow> wii_gp_ok gp'"
  by (simp add: wii_gp_ok_def)

definition wii_step_ok :: "wii_device option \<Rightarrow> bool" where
  "wii_step_ok m \<longleftrightarrow> (\<exists>d'. m = Some d' \<and> wii_inv d' \<and> wii_pads_ok d')"

definition same_log :: "wii_device \<Rightarrow> wii_device \<Rightarrow> bool" where
  "same_log d d' \<longleftrightarrow> calls d' = calls d \<and> motor_state d' = motor_state d \<and> timers d' = timers d \<and>
     duration_ms d' = duration_ms d \<and> raw_controller d' = raw_controller d"

lemma same_log_simps [simp]:
  "same_log d d"
  "same_log d (d'\<lparr>wii_state := s\<rparr>) = same_log d d'" "same_log d (d'\<lparr>ext_type := e\<rparr>) = same_log d d'"
  "same_log d (d'\<lparr>dev_type := t\<rparr>) = same_log d d'" "same_log d (d'\<lparr>wii_mode := m\<rparr>) = same_log d d'"
  "same_log d (d'\<lparr>register_address := a\<rparr>) = same_log d d'"
  "same_log d (d'\<lparr>kg0 := k\<rparr>) = same_log d d'" "same_log d (d'\<lparr>kg17 := k\<rparr>) = same_log d d'"
  "same_log d (d'\<lparr>kg34 := k\<rparr>) = same_log d d'"
  by (simp_all add: same_log_def timers_def)

lemma wii_step_ok_fsm:
  assumes "wii_inv d" "wii_pads_ok d" "same_log d d'"
    "wii_state d' \<noteq> WII_FSM_DEV_ASSIGNED" "ext_type d' \<noteq> WII_EXT_BALANCE_BOARD"
    "wii_state d' = WII_FSM_LED_UPDATED \<Longrightarrow> wii_state d = WII_FSM_LED_UPDATED"
  shows "wii_step_ok (Some (wii_process_fsm d'))"
proof -
  have "log_ok d'" using assms by (auto simp: wii_inv_def same_log_def intro: log_ok_cong)
  with wii_fsm_inv [of d'] assms show ?thesis
    by (auto simp: wii_step_ok_def wii_inv_def wii_pads_ok_def same_log_def)
qed

lemma guess_from_status_frame:
  "same_log d (guess_from_status r d)"
  "ext_type (guess_from_status r d) \<in> {WII_EXT_UNK, WII_EXT_NONE}"
  "wii_state (guess_from_status r d) \<in> {wii_state d, WII_FSM_DEV_GUESSED, WII_FSM_DEV_UNK, WII_FSM_EXT_UNK}"
  by (simp_all add: guess_from_status_def Let_def)

lemma wii_status_ok:
  assumes "wii_inv d" "wii_pads_ok d"
  shows "wii_step_ok (Some (process_req_status r d))"
proof -
  have "wii_step_ok (Some (wii_process_fsm (guess_from_status r d)))" if "wii_state d = WII_FSM_DID_REQ_STATUS"
    by (rule wii_step_ok_fsm [OF assms]) (use guess_from_status_frame [where d = d and r = r] that in auto)
  with assms show ?thesis by (auto simp: process_req_status_def wii_step_ok_def)
qed

lemma wii_data_ok:
  assumes "wii_inv d" "wii_pads_ok d" "22 \<le> length r \<Longrightarrow> \<not> (r ! 10 = 0x04 \<and> r ! 11 = 0x02)"
  shows "wii_step_ok (Some (process_req_data r d))"
proof -
  have e: "ext_type (guess_extension r (guess_device r d)) \<noteq> WII_EXT_BALANCE_BOARD" if "22 \<le> length r"
    using assms(1) assms(3) [OF that] by (auto simp: guess_extension_def guess_device_def wii_inv_def)
  have g: "same_log d (guess_extension r (guess_device r d))"
    by (simp add: guess_extension_def guess_device_def)
  have "wii_step_ok (Some d)" using assms(1,2) by (simp add: wii_step_ok_def)
  moreover have "wii_step_ok (Some (process_req_data_read_register r d))" if "22 \<le> length r"
    using \<open>wii_step_ok (Some d)\<close> e [OF that] g
    unfolding process_req_data_read_register_def Let_def
    by (simp, intro impI wii_step_ok_fsm [OF assms(1,2)]) auto
  moreover have "wii_step_ok (Some (process_req_data_read_calibration_data r d))"
    using \<open>wii_step_ok (Some d)\<close> assms(1) unfolding process_req_data_read_calibration_data_def
    by (simp, intro conjI impI wii_step_ok_fsm [OF assms(1,2)]) (auto simp: wii_inv_def)
  moreover have "wii_step_ok (Some (process_req_data_read_calibration_data2 r d))"
    using \<open>wii_step_ok (Some d)\<close> assms(1) unfolding process_req_data_read_calibration_data2_def
    by (simp, intro conjI impI wii_step_ok_fsm [OF assms(1,2)]) (auto simp: wii_inv_def)
  moreover have "wii_step_ok (Some (wii_process_fsm d))"
    using assms(1) by (intro wii_step_ok_fsm [OF assms(1,2)]) (auto simp: wii_inv_def)
  ultimately show ?thesis by (simp add: process_req_data_def split: wii_fsm.splits)
qed

lemma wii_return_ok:
  assumes "wii_inv d" "wii_pads_ok d" "5 \<le> length r"
  shows "wii_step_ok (process_req_return r d)"
proof -
  have "wii_step_ok (Some (wii_process_fsm d'))"
    if "d' \<in> {d, d\<lparr>wii_state := WII_FSM_SETUP\<rparr>, d\<lparr>wii_state := WII_FSM_DEV_UNK, register_address := 0xa6\<rparr>}" for d'
    using that assms(1) by (intro wii_step_ok_fsm [OF assms(1,2)]) (auto simp: wii_inv_def timers_def)
  with assms show ?thesis by (auto simp: process_req_return_def reads_ok wii_step_ok_def)
qed

lemma wii_controls_ok:
  assumes "wii_inv d" "ctl_data (raw_controller d) = Class_gamepad gp" "wii_gp_ok gp"
  shows "wii_step_ok (process_drm_k r d)" "wii_step_ok (process_drm_ka r d)" "wii_step_ok (process_drm_ke r d)"
    "wii_step_ok (process_drm_kee r d)" "wii_step_ok (process_drm_e r d)"
proof -
  have d: "wii_step_ok (Some d)" using assms by (auto simp: wii_step_ok_def wii_pads_ok_def)
  have raw: "wii_step_ok (on_raw f d)" if "wii_gp_ok (f gp)" for f
    using wii_on_raw [OF assms(1,2), of f] that by (simp add: wii_step_ok_def)
  have same: "wii_gp_ok (wii_misc_buttons r g)" "wii_gp_ok (press_flags fs b g)" "wii_gp_ok (press_dpad_flags dirs b g)"
      "wii_gp_ok (process_drm_k_horizontal r g)" "wii_gp_ok (process_drm_k_vertical r g)" "wii_gp_ok (g\<lparr>accel := a\<rparr>)"
    if "wii_gp_ok g" for g fs dirs b a
    using that by (auto intro!: wii_gp_ok_cong [of g] simp: wii_gp_frame)
  show "wii_step_ok (process_drm_k r d)"
    unfolding process_drm_k_def using d assms(3) by (auto intro!: raw same split: wii_mode.splits)
  show "wii_step_ok (process_drm_ka r d)"
    unfolding process_drm_ka_def using d assms(3) by (auto intro!: raw same)
  show "wii_step_ok (process_drm_ke r d)"
    unfolding process_drm_ke_def using d assms(3) by (auto intro!: raw same nunchuk_gp_ok udraw_gp_ok)
  show "wii_step_ok (process_drm_kee r d)"
  proof -
    obtain d' where "on_raw (pro_gamepad r) d = Some d'" "wii_inv d'" "wii_pads_ok d'"
      using raw [of "pro_gamepad r"] pro_gp_ok [OF assms(3)] by (auto simp: wii_step_ok_def)
    moreover have "wii_inv (set_battery b d')" for b
      using \<open>wii_inv d'\<close> by (rule wii_inv_same) (simp_all add: set_battery_def timers_def)
    ultimately show ?thesis
      using d assms(1) by (auto simp: process_drm_kee_def wii_step_ok_def wii_inv_def wii_pads_ok_def)
  qed
  show "wii_step_ok (process_drm_e r d)"
    unfolding process_drm_e_def using d assms(3) by (auto intro!: raw classic_gp_ok)
qed

lemma wii_report_ok:
  assumes "wii_inv d" "wii_event_ok (Wii_report r)"
  shows "wii_step_ok (wii_handle (Wii_report r) d)"
proof -
  let ?d = "init_gamepad d"
  have i: "wii_inv ?d" using assms(1) by (rule wii_inv_same) (simp_all add: init_gamepad_def timers_def)
  have g: "ctl_data (raw_controller ?d) = Class_gamepad gamepad0" "wii_gp_ok gamepad0"
    by (simp_all add: wii_gp_ok_def gamepad0_def)
  then have p: "wii_pads_ok ?d" by (simp add: wii_pads_ok_def)
  have "wii_step_ok (uni_hid_parser_wii_parse_input_report r ?d)"
    using assms(2) wii_controls_ok [OF i g, of r] wii_status_ok [OF i p, of r] wii_data_ok [OF i p, of r]
      wii_return_ok [OF i p, of r] i p
    by (auto simp: uni_hid_parser_wii_parse_input_report_def wii_step_ok_def)
  then show ?thesis by (auto simp: wii_step_ok_def uni_hid_parse_input_report_def Let_def)
qed

lemma wii_motor_event_ok:
  assumes "wii_inv d" "motor_enabled m d" "\<forall>duration. event_duration m = Some duration \<longrightarrow> duration \<noteq> 0"
  shows "\<exists>d'. motor_step wii_play_dual_rumble_now wii_stop_rumble_now m d = Some d' \<and> wii_inv d'"
proof -
  obtain d' where d': "motor_step wii_play_dual_rumble_now wii_stop_rumble_now m d = Some d'" "wii_motor.motor_inv d'"
    using wii_motor.motor_step_ok [of d m] assms by (auto simp: wii_inv_def log_ok_def)
  have "\<exists>cs. calls d' = calls d @ cs \<and> Ready_complete \<notin> set cs \<and> length cs \<le> 1"
      "wii_state d' = wii_state d" "ext_type d' = ext_type d"
    using d'(1) by (cases m; auto simp: play_dual_rumble_def set_rumble_on_def wii_rumble_defs cancel_rumble_def
        split: if_splits state_rumble.splits)+
  moreover from this obtain cs where cs: "calls d' = calls d @ cs" "Ready_complete \<notin> set cs" "length cs \<le> 1" by blast
  then have "announced (calls d')"
    using assms(1) by (cases cs) (auto simp: wii_inv_def log_ok_def intro!: announced_snoc)
  ultimately show ?thesis using d' assms(1) cs(1) by (auto simp: wii_inv_def log_ok_def)
qed

lemma wii_handle_ok:
  assumes "wii_inv d" "wii_event_ok e"
  shows "\<exists>d'. wii_handle e d = Some d' \<and> wii_inv d'"
proof (cases e)
  case (Wii_report r)
  with wii_report_ok [of d r] assms show ?thesis by (auto simp: wii_step_ok_def)
next
  case (Wii_leds leds)
  have i: "wii_inv (d\<lparr>wii_seat := leds\<rparr>)" using assms(1) by (rule wii_inv_same) (simp_all add: timers_def)
  moreover have "wii_inv (wii_set_led leds (d\<lparr>wii_seat := leds\<rparr>))"
  proof (rule wii_inv_cong [OF i])
    show "log_ok (wii_set_led leds (d\<lparr>wii_seat := leds\<rparr>))" using i by (simp add: wii_inv_def log_ok_led)
    show "set (calls (d\<lparr>wii_seat := leds\<rparr>)) \<subseteq> set (calls (wii_set_led leds (d\<lparr>wii_seat := leds\<rparr>)))"
      using wii_set_led_bit [of leds "d\<lparr>wii_seat := leds\<rparr>"] by auto
  qed simp_all
  ultimately show ?thesis using Wii_leds by (simp add: uni_hid_parser_wii_set_player_leds_def Let_def)
next
  case (Wii_mode mode)
  have "wii_inv (uni_hid_parser_wii_set_mode mode d)"
    using assms(1) by (rule wii_inv_same) (simp_all add: uni_hid_parser_wii_set_mode_def timers_def)
  with Wii_mode show ?thesis by simp
next
  case (Wii_rumble delay duration weak strong)
  then show ?thesis
    using wii_motor_event_ok [of d "Play_rumble delay duration weak strong"] assms
    by (auto simp: uni_hid_parser_wii_play_dual_rumble_def)
next
  case Wii_delay_ends
  then show ?thesis using wii_motor_event_ok [of d Delay_ends] assms(1) by auto
next
  case Wii_duration_ends
  then show ?thesis using wii_motor_event_ok [of d Duration_ends] assms(1) by auto
qed

lemma wii_run_ok:
  "wii_inv d \<Longrightarrow> list_all wii_event_ok es \<Longrightarrow> \<exists>d'. wii_run es d = Some d' \<and> wii_inv d'"
proof (induction es arbitrary: d)
  case (Cons e es)
  obtain d' where "wii_handle e d = Some d'" "wii_inv d'"
    using wii_handle_ok [of d e] Cons.prems by auto
  with Cons.IH [of d'] Cons.prems show ?case by simp
qed simp

lemma wii_setup_inv:
  assumes "calls d = []"
  shows "wii_inv (uni_hid_parser_wii_setup d)"
  unfolding uni_hid_parser_wii_setup_def
  by (rule conjunct1 [OF wii_fsm_inv])
    (use assms in \<open>auto simp: log_ok_def no_rumble_def intro!: wii_motor.motor_inv_start\<close>)

text \<open>
  C20. A Wii controller other than a Balance Board is safe. After the set-up every sequence of
  reports, LED and mode changes, rumble calls of positive duration and timer events is handled
  without a read past the end and without a failed assertion, when no report is empty,
  acknowledgements (0x22) have at least five bytes (shorter ones are logged and read past their end
  all the same) and no report announces a Balance Board; a controller in the last state of the
  set-up was declared ready, each time right after it was told its report type and its LEDs; at most
  one rumble timer is armed; the sticks and pedals of every further such report are in the parser's
  ranges; and once the pending timers run out the motor is off.
\<close>

theorem wii_safe:
  assumes "calls d = []" "list_all wii_event_ok es" "wii_event_ok (Wii_report r)"
  shows "\<exists>d1 d2 d3. wii_run es (uni_hid_parser_wii_setup d) = Some d1 \<and>
     announced (calls d1) \<and> (wii_state d1 = WII_FSM_LED_UPDATED \<longrightarrow> Ready_complete \<in> set (calls d1)) \<and>
     (timer_duration d1 = None \<or> timer_delayed_start d1 = None) \<and>
     wii_handle (Wii_report r) d1 = Some d2 \<and> wii_pads_ok d2 \<and>
     motor_run wii_play_dual_rumble_now wii_stop_rumble_now (pending_events d1) d1 = Some d3 \<and>
     no_rumble d3 \<and> wii_still (calls d3)"
proof -
  obtain d1 where d1: "wii_run es (uni_hid_parser_wii_setup d) = Some d1" "wii_inv d1"
    using wii_run_ok [OF wii_setup_inv [OF assms(1)] assms(2)] by blast
  moreover have "timer_duration d1 = None \<or> timer_delayed_start d1 = None"
    using d1(2) by (auto simp: wii_inv_def log_ok_def wii_motor.motor_inv_def timers_def split: state_rumble.splits)
  moreover obtain d2 where "wii_handle (Wii_report r) d1 = Some d2" "wii_pads_ok d2"
    using wii_report_ok [OF d1(2) assms(3)] by (auto simp: wii_step_ok_def)
  moreover obtain d3 where "motor_run wii_play_dual_rumble_now wii_stop_rumble_now (pending_events d1) d1 = Some d3"
      "no_rumble d3" "wii_still (calls d3)"
    using wii_motor.motors_stop [of d1] d1(2) by (auto simp: wii_inv_def log_ok_def)
  ultimately show ?thesis unfolding wii_inv_def log_ok_def by blast
qed

definition wii_fresh :: wii_device where
  "wii_fresh = \<lparr>raw_controller = \<lparr>ctl_data = Class_none gamepad0, battery = 0\<rparr>, calls = [], timer_duration = None,
     timer_delayed_start = None, motor_state = STATE_RUMBLE_DISABLED, weak_magnitude = 0, strong_magnitude = 0,
     duration_ms = 0, wii_product_id = 0x0306, wii_controller_subtype = CONTROLLER_SUBTYPE_NONE,
     wii_state = WII_FSM_UNINIT, register_address = 0, wii_mode = WII_MODE_HORIZONTAL, dev_type = WII_DEVTYPE_UNK,
     ext_type = WII_EXT_NONE, wii_seat = 0, kg0 = (0, 0, 0, 0), kg17 = (0, 0, 0, 0), kg34 = (0, 0, 0, 0)\<rparr>"

definition wii_session :: "wii_event list" where
  "wii_session = [Wii_report [0x20, 0, 0, 0x02, 0, 0, 0], Wii_report [0x22, 0, 0, 0x16, 0],
     Wii_report [0x22, 0, 0, 0x16, 0], Wii_report ([0x21, 0, 0, 0x50, 0x00, 0xfa] @ replicate 16 0), Wii_leds 1,
     Wii_report [0x32, 0x01, 0x04, 0xff, 0, 0, 0, 0, 0, 0, 0], Wii_rumble 100 500 128 255, Wii_delay_ends]"

theorem wii_safe_witness:
  "\<exists>d1 d3. wii_run wii_session (uni_hid_parser_wii_setup wii_fresh) = Some d1 \<and>
     motor_run wii_play_dual_rumble_now wii_stop_rumble_now (pending_events d1) d1 = Some d3 \<and> no_rumble d3"
proof -
  have "calls wii_fresh = []" "list_all wii_event_ok wii_session" "wii_event_ok (Wii_report [0x30, 0, 0])"
    by (simp_all add: wii_fresh_def wii_session_def)
  from wii_safe [OF this] show ?thesis by auto
qed

subsection \<open>The set-up\<close>

text \<open>Replies, and what the other events leave alone.\<close>

fun wii_reply :: "wii_event \<Rightarrow> bool" where
  "wii_reply (Wii_report r) \<longleftrightarrow> r ! 0 \<in> {WIIPROTO_REQ_STATUS, WIIPROTO_REQ_DATA, WIIPROTO_REQ_RETURN}"
| "wii_reply _ \<longleftrightarrow> False"

definition status_reply :: "bool \<Rightarrow> u8 list \<Rightarrow> bool" where
  "status_reply extension r \<longleftrightarrow> 7 \<le> length r \<and> r ! 0 = WIIPROTO_REQ_STATUS \<and> (r ! 3 AND 0x02 \<noteq> 0) = extension"

definition write_reply :: "bool \<Rightarrow> u8 list \<Rightarrow> bool" where
  "write_reply accepted r \<longleftrightarrow> 5 \<le> length r \<and> r ! 0 = WIIPROTO_REQ_RETURN \<and> r ! 3 = WIIPROTO_REQ_WMEM \<and> (r ! 4 = 0) = accepted"

definition id_reply :: "u8 list \<Rightarrow> bool" where
  "id_reply r \<longleftrightarrow> 22 \<le> length r \<and> r ! 0 = WIIPROTO_REQ_DATA \<and> \<not> reply_error r \<and> reply_holds 5 0xfa r"

definition ready_count :: "wii_device \<Rightarrow> nat" where
  "ready_count d = length (filter (\<lambda>c. c = Ready_complete) (calls d))"

definition wii_stage :: "wii_device \<Rightarrow> wii_fsm \<times> u8 \<times> u16 \<times> nat" where
  "wii_stage d = (wii_state d, register_address d, wii_product_id d, ready_count d)"

lemma wii_stage_simps [simp]:
  "wii_stage (init_gamepad d) = wii_stage d" "wii_stage (set_battery b d) = wii_stage d"
  "wii_stage (d\<lparr>raw_controller := c\<rparr>) = wii_stage d" "wii_stage (wii_send r d) = wii_stage d"
  "wii_stage (d\<lparr>wii_seat := s\<rparr>) = wii_stage d" "wii_stage (wii_set_led s d) = wii_stage d"
  "wii_stage (uni_hid_parser_wii_set_mode mode d) = wii_stage d"
  by (simp_all add: wii_stage_def ready_count_def init_gamepad_def set_battery_def wii_set_led_def Let_def
      uni_hid_parser_wii_set_mode_def)

lemma on_raw_stage: "on_raw f d = Some d' \<Longrightarrow> wii_stage d' = wii_stage d"
  by (auto simp: on_raw_def)

lemma motor_step_stage:
  assumes "motor_step wii_play_dual_rumble_now wii_stop_rumble_now m d = Some d'"
  shows "wii_stage d' = wii_stage d"
  using assms
  by (cases m) (auto simp: wii_stage_def ready_count_def play_dual_rumble_def set_rumble_on_def wii_rumble_defs
      cancel_rumble_def split: if_splits state_rumble.splits)

lemma other_event_stage:
  assumes "wii_handle e d = Some d'" "\<not> wii_reply e" "wii_inv d"
  shows "wii_stage d' = wii_stage d"
proof (cases e)
  case (Wii_report r)
  have x: "ext_type (init_gamepad d) \<noteq> WII_EXT_BALANCE_BOARD"
    using assms(3) by (simp add: wii_inv_def init_gamepad_def)
  have "wii_stage d' = wii_stage (init_gamepad d)"
    using assms(1,2) x unfolding Wii_report
    by (auto simp: uni_hid_parse_input_report_def Let_def uni_hid_parser_wii_parse_input_report_def
        process_drm_k_def process_drm_ka_def process_drm_ke_def process_drm_kee_def process_drm_e_def
        dest!: on_raw_stage split: if_splits)
  then show ?thesis by simp
next
  case (Wii_rumble delay duration weak strong)
  with assms(1) motor_step_stage [of "Play_rumble delay duration weak strong" d d'] show ?thesis
    by (auto simp: uni_hid_parser_wii_play_dual_rumble_def split: if_splits)
next
  case Wii_delay_ends
  with assms(1) motor_step_stage [of Delay_ends d] show ?thesis by (auto split: if_splits option.splits)
next
  case Wii_duration_ends
  with assms(1) motor_step_stage [of Duration_ends d] show ?thesis by (auto split: if_splits option.splits)
qed (use assms in \<open>auto simp: uni_hid_parser_wii_set_player_leds_def Let_def\<close>)

lemma wii_run_append: "wii_run (es @ fs) d = Option.bind (wii_run es d) (wii_run fs)"
  by (induction es arbitrary: d) (auto split: bind_splits)

lemma other_events_stage:
  assumes "wii_run es d = Some d'" "filter wii_reply es = []" "wii_inv d" "list_all wii_event_ok es"
  shows "wii_stage d' = wii_stage d \<and> wii_inv d'"
  using assms
proof (induction es arbitrary: d)
  case (Cons e es)
  obtain d1 where d1: "wii_handle e d = Some d1" "wii_inv d1" using wii_handle_ok [of d e] Cons.prems by auto
  with Cons.IH [of d1] other_event_stage [of e d d1] Cons.prems show ?case by (auto split: if_splits)
qed simp

lemma next_reply:
  assumes "filter wii_reply es = e # rs" "list_all wii_event_ok es" "wii_inv d"
  obtains d1 d2 fs where "wii_stage d1 = wii_stage d" "wii_handle e d1 = Some d2" "wii_inv d1" "wii_inv d2" "wii_event_ok e"
    "wii_run es d = wii_run fs d2" "filter wii_reply fs = rs" "list_all wii_event_ok fs"
proof -
  obtain xs fs where es: "es = xs @ e # fs" "filter wii_reply xs = []" "filter wii_reply fs = rs"
    using filter_eq_ConsD [OF assms(1)] by (auto simp: filter_empty_conv)
  obtain d1 where d1: "wii_run xs d = Some d1" "wii_inv d1" using wii_run_ok [of d xs] assms(2,3) es(1) by auto
  then obtain d2 where d2: "wii_handle e d1 = Some d2" "wii_inv d2" using wii_handle_ok [of d1 e] assms(2) es(1) by auto
  show ?thesis
    by (rule that [of d1 d2 fs])
      (use es d1 d2 assms(2,3) other_events_stage [OF d1(1)] in \<open>auto simp: wii_run_append\<close>)
qed

lemma guessed_stage:
  assumes "wii_state d = WII_FSM_DEV_GUESSED"
  shows "wii_stage (wii_process_fsm d) = (WII_FSM_LED_UPDATED, register_address d, wii_product_id d, Suc (ready_count d))"
proof -
  obtain t subtype where f: "wii_process_fsm d = (call Ready_complete (wii_set_led (wii_seat d)
      (wii_send [0xa2, WIIPROTO_REQ_DRM, 0, t] d)))\<lparr>wii_controller_subtype := subtype, wii_state := WII_FSM_LED_UPDATED\<rparr>"
    using wii_fsm_guessed [OF assms] by blast
  have "wii_stage (wii_set_led (wii_seat d) (wii_send [0xa2, WIIPROTO_REQ_DRM, 0, t] d)) = wii_stage d" by simp
  then show ?thesis unfolding f by (simp add: wii_stage_def ready_count_def call_def)
qed

text \<open>
  What a reply makes of the state and the register bank: a refused write goes on in the other bank, or from
  the start when it was the second bank already.
\<close>

inductive wii_answer :: "wii_fsm \<Rightarrow> u8 \<Rightarrow> u8 list \<Rightarrow> wii_fsm \<Rightarrow> u8 \<Rightarrow> bool" where
  remote: "status_reply False r \<Longrightarrow> wii_answer WII_FSM_DID_REQ_STATUS a r WII_FSM_LED_UPDATED a"
| extension: "status_reply True r \<Longrightarrow> wii_answer WII_FSM_DID_REQ_STATUS a r WII_FSM_EXT_DID_INIT a"
| other_bank: "s \<in> {WII_FSM_EXT_DID_INIT, WII_FSM_EXT_DID_NO_ENCRYPTION} \<Longrightarrow> a \<noteq> 0xa6 \<Longrightarrow> write_reply False r \<Longrightarrow>
    wii_answer s a r WII_FSM_EXT_DID_INIT 0xa6"
| again: "s \<in> {WII_FSM_EXT_DID_INIT, WII_FSM_EXT_DID_NO_ENCRYPTION} \<Longrightarrow> write_reply False r \<Longrightarrow>
    wii_answer s 0xa6 r WII_FSM_DID_REQ_STATUS 0xa6"
| initialised: "write_reply True r \<Longrightarrow> wii_answer WII_FSM_EXT_DID_INIT a r WII_FSM_EXT_DID_NO_ENCRYPTION a"
| not_encrypted: "write_reply True r \<Longrightarrow> wii_answer WII_FSM_EXT_DID_NO_ENCRYPTION a r WII_FSM_EXT_DID_READ_REGISTER a"
| identified: "id_reply r \<Longrightarrow> wii_answer WII_FSM_EXT_DID_READ_REGISTER a r WII_FSM_LED_UPDATED a"

inductive wii_answers :: "wii_fsm \<Rightarrow> u8 \<Rightarrow> u8 list list \<Rightarrow> u8 \<Rightarrow> bool" where
  wii_ready: "wii_answers WII_FSM_LED_UPDATED a [] a"
| wii_next: "wii_answer s a r s' a' \<Longrightarrow> wii_answers s' a' rs b \<Longrightarrow> wii_answers s a (r # rs) b"

lemma wii_dispatch:
  "r \<noteq> [] \<Longrightarrow> r ! 0 = WIIPROTO_REQ_STATUS \<Longrightarrow> wii_handle (Wii_report r) d = Some (process_req_status r (init_gamepad d))"
  "r \<noteq> [] \<Longrightarrow> r ! 0 = WIIPROTO_REQ_DATA \<Longrightarrow> wii_handle (Wii_report r) d = Some (process_req_data r (init_gamepad d))"
  "r \<noteq> [] \<Longrightarrow> r ! 0 = WIIPROTO_REQ_RETURN \<Longrightarrow> wii_handle (Wii_report r) d = process_req_return r (init_gamepad d)"
  by (simp_all add: uni_hid_parse_input_report_def uni_hid_parser_wii_parse_input_report_def)

lemma status_stage:
  assumes "wii_handle (Wii_report r) d = Some d'" "wii_stage d = (WII_FSM_DID_REQ_STATUS, a, p, n)"
    "status_reply extension r" "p \<in> {0x0306, 0x0330}"
  shows "wii_stage d' = (if extension then (WII_FSM_EXT_DID_INIT, a, p, n) else (WII_FSM_LED_UPDATED, a, p, Suc n))"
proof -
  let ?g = "guess_from_status r (init_gamepad d)"
  have s: "wii_stage (init_gamepad d) = (WII_FSM_DID_REQ_STATUS, a, p, n)" using assms(2) by simp
  then have g: "register_address ?g = a" "wii_product_id ?g = p" "ready_count ?g = n"
    by (simp_all add: guess_from_status_def Let_def wii_stage_def ready_count_def)
  have "wii_state ?g = (if extension then WII_FSM_EXT_UNK else WII_FSM_DEV_GUESSED)"
    using s assms(3,4) by (auto simp: guess_from_status_def Let_def wii_stage_def status_reply_def)
  moreover have "d' = wii_process_fsm ?g"
    using assms(1,3) s wii_dispatch(1) [of r d]
    by (cases r) (auto simp: status_reply_def process_req_status_def wii_stage_def)
  ultimately show ?thesis
    using g guessed_stage [of ?g] by (auto simp: wii_fsm_step wii_request_defs wii_stage_def ready_count_def)
qed

lemma write_stage:
  assumes "wii_handle (Wii_report r) d = Some d'" "wii_stage d = (s, a, p, n)" "write_reply accepted r"
    "s \<in> {WII_FSM_EXT_DID_INIT, WII_FSM_EXT_DID_NO_ENCRYPTION}"
  shows "wii_stage d' =
    (if accepted then (if s = WII_FSM_EXT_DID_INIT then WII_FSM_EXT_DID_NO_ENCRYPTION else WII_FSM_EXT_DID_READ_REGISTER, a, p, n)
     else (if a = 0xa6 then WII_FSM_DID_REQ_STATUS else WII_FSM_EXT_DID_INIT, 0xa6, p, n))"
proof -
  have r: "process_req_return r (init_gamepad d) = Some d'"
    using assms(1,3) wii_dispatch(3) [of r d] by (cases r) (auto simp: write_reply_def)
  have s: "wii_stage (init_gamepad d) = (s, a, p, n)" using assms(2) by simp
  define e where "e = init_gamepad d"
  show ?thesis
    using r s assms(3,4) unfolding e_def [symmetric]
    by (auto simp: write_reply_def process_req_return_def reads_ok wii_fsm_step wii_request_defs wii_stage_def
        ready_count_def)
qed

lemma id_stage:
  assumes "wii_handle (Wii_report r) d = Some d'" "wii_stage d = (WII_FSM_EXT_DID_READ_REGISTER, a, p, n)"
    "id_reply r" "wii_event_ok (Wii_report r)" "wii_inv d"
  shows "wii_stage d' = (WII_FSM_LED_UPDATED, a, p, Suc n)"
proof -
  define e where "e = init_gamepad d"
  define g where "g = guess_extension r (guess_device r e)"
  have "ext_type e \<noteq> WII_EXT_BALANCE_BOARD" using assms(5) by (simp add: e_def wii_inv_def init_gamepad_def)
  then have "ext_type g \<noteq> WII_EXT_BALANCE_BOARD"
    using assms(3,4) by (auto simp: g_def id_reply_def guess_extension_def guess_device_def)
  moreover have s: "wii_stage e = (WII_FSM_EXT_DID_READ_REGISTER, a, p, n)" using assms(2) by (simp add: e_def)
  moreover have "process_req_data r e = d'"
    using assms(1,3) wii_dispatch(2) [of r d] by (cases r) (auto simp: id_reply_def e_def)
  ultimately have "d' = wii_process_fsm (g\<lparr>wii_state := WII_FSM_DEV_GUESSED\<rparr>)"
    using assms(3) by (simp add: id_reply_def process_req_data_def process_req_data_read_register_def wii_stage_def
        g_def [symmetric] Let_def)
  moreover have "register_address g = a" "wii_product_id g = p" "ready_count g = n"
    using s by (simp_all add: g_def guess_extension_def guess_device_def wii_stage_def ready_count_def)
  ultimately show ?thesis
    using guessed_stage [of "g\<lparr>wii_state := WII_FSM_DEV_GUESSED\<rparr>"] by (simp add: ready_count_def)
qed

lemma answer_stage:
  assumes "wii_answer s a r s' a'" "wii_handle (Wii_report r) d = Some d'" "wii_stage d = (s, a, p, n)"
    "p \<in> {0x0306, 0x0330}" "wii_event_ok (Wii_report r)" "wii_inv d"
  shows "wii_stage d' = (s', a', p, if s' = WII_FSM_LED_UPDATED then Suc n else n)"
  using assms(1)
proof cases
  case remote
  with status_stage [OF assms(2), of a p n False] assms(3,4) show ?thesis by simp
next
  case extension
  with status_stage [OF assms(2), of a p n True] assms(3,4) show ?thesis by simp
next
  case other_bank
  with write_stage [OF assms(2,3), of False] show ?thesis by simp
next
  case again
  with write_stage [OF assms(2,3), of False] show ?thesis by simp
next
  case initialised
  with write_stage [OF assms(2,3), of True] show ?thesis by simp
next
  case not_encrypted
  with write_stage [OF assms(2,3), of True] show ?thesis by simp
next
  case identified
  with id_stage [OF assms(2), of a p n] assms(3,5,6) show ?thesis by simp
qed

lemma wii_answer_not_ready: "\<not> wii_answer WII_FSM_LED_UPDATED a r s' a'"
  by (auto elim: wii_answer.cases)

lemma wii_answers_run:
  assumes "wii_answers s a rs b" "wii_stage d = (s, a, p, n)" "p \<in> {0x0306, 0x0330}" "wii_inv d"
    "filter wii_reply es = map Wii_report rs" "list_all wii_event_ok es"
  shows "\<exists>d'. wii_run es d = Some d' \<and>
     wii_stage d' = (WII_FSM_LED_UPDATED, b, p, if s = WII_FSM_LED_UPDATED then n else Suc n)"
  using assms
proof (induction arbitrary: d n es rule: wii_answers.induct)
  case (wii_ready a)
  obtain d' where "wii_run es d = Some d'" using wii_run_ok [OF wii_ready.prems(3,5)] by blast
  with other_events_stage [of es d d'] wii_ready.prems show ?case by simp
next
  case (wii_next s a r s' a' rs b)
  obtain d1 d2 fs where n: "wii_stage d1 = wii_stage d" "wii_handle (Wii_report r) d1 = Some d2" "wii_inv d1" "wii_inv d2"
      "wii_event_ok (Wii_report r)" "wii_run es d = wii_run fs d2" "filter wii_reply fs = map Wii_report rs"
      "list_all wii_event_ok fs"
    by (rule next_reply [of es "Wii_report r" "map Wii_report rs" d]) (use wii_next.prems in auto)
  have "wii_stage d2 = (s', a', p, if s' = WII_FSM_LED_UPDATED then Suc n else n)"
    by (rule answer_stage [OF wii_next.hyps(1) n(2) _ wii_next.prems(2) n(5,3)]) (use n(1) wii_next.prems(1) in simp)
  moreover have "s \<noteq> WII_FSM_LED_UPDATED" using wii_next.hyps(1) wii_answer_not_ready by auto
  ultimately show ?case
    using wii_next.IH [OF _ wii_next.prems(2) n(4,7,8)] n(6) by (cases "s' = WII_FSM_LED_UPDATED") auto
qed

text \<open>
  C19. The set-up of a Wii remote ends. Whatever other reports, LED and mode changes and rumble events come in
  between, a remote without an extension is ready after the reply to the status request; one with an extension
  after the replies to the two writes and the read of its identification. A refused write makes the
  set-up go on in the other register bank, or start again when that was refused too. The remote is
  declared ready once.
\<close>

theorem wii_setup_by_replies:
  assumes "calls d = []" "wii_product_id d \<in> {0x0306, 0x0330}" "list_all wii_event_ok es"
    and "filter wii_reply es = map Wii_report rs" "wii_answers WII_FSM_DID_REQ_STATUS 0xa4 rs bank"
  shows "\<exists>d'. wii_run es (uni_hid_parser_wii_setup d) = Some d' \<and> wii_state d' = WII_FSM_LED_UPDATED \<and>
     register_address d' = bank \<and> ready_count d' = 1"
proof -
  have "wii_stage (uni_hid_parser_wii_setup d) = (WII_FSM_DID_REQ_STATUS, 0xa4, wii_product_id d, 0)"
    using assms(1) by (simp add: uni_hid_parser_wii_setup_def wii_fsm_step wii_request_defs wii_stage_def ready_count_def)
  from wii_answers_run [OF assms(5) this assms(2) wii_setup_inv [OF assms(1)] assms(4,3)] show ?thesis
    by (auto simp: wii_stage_def)
qed

definition refused_replies :: "u8 list list" where
  "refused_replies = [[0x20, 0, 0, 0x02, 0, 0, 0], [0x22, 0, 0, 0x16, 7], [0x22, 0, 0, 0x16, 0], [0x22, 0, 0, 0x16, 0],
     [0x21, 0, 0, 0x50, 0x00, 0xfa] @ replicate 16 0]"

theorem wii_setup_by_replies_witness:
  "\<exists>d'. wii_run (Wii_leds 2 # map Wii_report refused_replies) (uni_hid_parser_wii_setup wii_fresh) = Some d' \<and>
     wii_state d' = WII_FSM_LED_UPDATED \<and> register_address d' = 0xa6 \<and> ready_count d' = 1"
proof -
  note defs = status_reply_def write_reply_def id_reply_def reply_error_def reply_holds_def
  have "wii_answers WII_FSM_DID_REQ_STATUS 0xa4 refused_replies 0xa6"
    unfolding refused_replies_def
    by (rule wii_next [OF wii_answer.extension], simp add: defs, rule wii_next [OF wii_answer.other_bank], simp, simp, simp add: defs,
        rule wii_next [OF wii_answer.initialised], simp add: defs, rule wii_next [OF wii_answer.not_encrypted], simp add: defs,
        rule wii_next [OF wii_answer.identified], simp add: defs, rule wii_ready)
  then show ?thesis
    by (intro wii_setup_by_replies [of _ _ refused_replies]) (simp_all add: wii_fresh_def refused_replies_def)
qed

subsection \<open>The weight on a Balance Board\<close>

lemma f32_round_nonneg:
  assumes "0 \<le> x" "x \<le> hi" "frep f32 hi"
  shows "fround f32 False x = FFin False (rnd_mag f32 x)"
  using rnd_mag_frep_le(2) [of f32 hi x] assms by (cases "x = 0") (auto simp: fround_def not_le)

lemma rnd_mag_int: "0 \<le> n \<Longrightarrow> n < 2 ^ 24 \<Longrightarrow> rnd_mag f32 (of_int n) = of_int n"
  using frep_scaled [of f32 0 n] by (simp add: frep_def f32_def)

lemma frep_weights: "frep f32 1114112" "frep f32 1114112000" "frep f32 17" "frep f32 17000"
  using frep_scaled [of f32 16 17000] by simp_all (simp add: f32_def)

lemma fof_int_small: "0 \<le> n \<Longrightarrow> n \<le> 1114112 \<Longrightarrow> fof_int f32 n = FFin False (of_int n)"
  using f32_round_nonneg [of "of_int n" 1114112] rnd_mag_int [of n] frep_weights by (simp add: fof_int_def)

lemma ratio_le:
  assumes "0 \<le> n" "n \<le> m * w" "1 \<le> w"
  shows "0 \<le> (of_int n / of_int w :: rat)" "(of_int n / of_int w :: rat) \<le> of_int m"
proof -
  have "(of_int n :: rat) \<le> of_int (m * w)" using assms(2) by (simp only: of_int_le_iff)
  then show "(of_int n / of_int w :: rat) \<le> of_int m" using assms(3) by (simp add: pos_divide_le_eq)
qed (use assms in simp)

text \<open>The weight that the rounded operations compute.\<close>

definition interpolated :: "int \<Rightarrow> int \<Rightarrow> int \<Rightarrow> int \<Rightarrow> rat" where
  "interpolated v k0 k17 k34 =
     (if v < k0 then 0
      else if v < k17 then rnd_mag f32 (of_int (17 * (v - k0)) / of_int (k17 - k0))
      else rnd_mag f32 (17 + rnd_mag f32 (of_int (17 * (v - k17)) / of_int (k34 - k17))))"

lemma scaled_weight_value:
  assumes "0 \<le> n" "n \<le> 65535" "1 \<le> w" "w \<le> 65535"
  shows "scaled_weight n w = FFin False (rnd_mag f32 (of_int (17 * n) / of_int w))"
    and "rnd_mag f32 (of_int (17 * n) / of_int w) \<le> 1114095"
proof -
  have "17 * n \<le> 1114095 * w" using assms by (smt (verit) mult_left_mono)
  note r = ratio_le [of "17 * n" 1114095 w, OF _ this assms(3)]
  have "frep f32 1114095" by simp
  then show "rnd_mag f32 (of_int (17 * n) / of_int w) \<le> 1114095"
    using rnd_mag_frep_le(1) [of f32 1114095 "of_int (17 * n) / of_int w"] r assms(1) by simp
  have "fmul f32 (fof_int f32 17) (fof_int f32 n) = FFin False (of_int (17 * n))"
    using assms fof_int_small [of 17] fof_int_small [of n] fof_int_small [of "17 * n"]
    by (simp add: sval_def fof_int_def)
  then show "scaled_weight n w = FFin False (rnd_mag f32 (of_int (17 * n) / of_int w))"
    using assms fof_int_small [of w] f32_round_nonneg [of "of_int (17 * n) / of_int w" 1114095] r \<open>frep f32 1114095\<close>
    by (simp add: scaled_weight_def sval_def)
qed

lemma interpolated_bounds:
  assumes "k0 < k17" "k17 < k34" "0 \<le> k0" "k34 \<le> 65535" "0 \<le> v" "v \<le> 65535"
  shows "0 \<le> interpolated v k0 k17 k34" "interpolated v k0 k17 k34 \<le> 1114112"
    "v < k17 \<Longrightarrow> interpolated v k0 k17 k34 \<le> 17" "k17 \<le> v \<Longrightarrow> 17 \<le> interpolated v k0 k17 k34"
proof -
  show "0 \<le> interpolated v k0 k17 k34" by (simp add: interpolated_def)
  show a: "interpolated v k0 k17 k34 \<le> 17" if "v < k17"
    using that rnd_mag_frep_le(1) [of f32 17 "of_int (17 * (v - k0)) / of_int (k17 - k0)"] frep_weights
      ratio_le(2) [of "17 * (v - k0)" 17 "k17 - k0"] assms by (auto simp: interpolated_def)
  have u: "rnd_mag f32 (of_int (17 * (v - k17)) / of_int (k34 - k17)) \<le> 1114095" if "k17 \<le> v"
    using scaled_weight_value(2) [of "v - k17" "k34 - k17"] that assms by simp
  show "17 \<le> interpolated v k0 k17 k34" if "k17 \<le> v"
    using that assms frep_weights rnd_mag_frep_ge [of f32 17 "17 + rnd_mag f32 (of_int (17 * (v - k17)) / of_int (k34 - k17))"]
    by (simp add: interpolated_def)
  show "interpolated v k0 k17 k34 \<le> 1114112"
    using a u frep_weights assms
      rnd_mag_frep_le(1) [of f32 1114112 "17 + rnd_mag f32 (of_int (17 * (v - k17)) / of_int (k34 - k17))"]
    by (cases "v < k17") (fastforce simp: interpolated_def)+
qed

lemma interpolated_mono:
  assumes "k0 < k17" "k17 < k34" "0 \<le> k0" "k34 \<le> 65535" "0 \<le> v" "v \<le> v'" "v' \<le> 65535"
  shows "interpolated v k0 k17 k34 \<le> interpolated v' k0 k17 k34"
proof -
  have m: "rnd_mag f32 (of_int (17 * (v - a)) / of_int w) \<le> rnd_mag f32 (of_int (17 * (v' - a)) / of_int w)"
    if "0 < w" for a w
    by (rule rnd_mag_mono) (use that assms(6) in \<open>auto intro!: divide_right_mono simp: of_int_diff [symmetric] simp del: of_int_diff\<close>)
  consider "v' < k17" | "v < k17" "k17 \<le> v'" | "k17 \<le> v" by linarith
  then show ?thesis
  proof cases
    case 1
    with assms m [of "k17 - k0" k0] show ?thesis by (simp add: interpolated_def)
  next
    case 2
    with interpolated_bounds(3) [of k0 k17 k34 v] interpolated_bounds(4) [of k0 k17 k34 v'] assms show ?thesis by simp
  next
    case 3
    with assms m [of "k34 - k17" k17] show ?thesis by (auto simp: interpolated_def intro!: rnd_mag_mono)
  qed
qed

lemma balance_interpolate_value:
  assumes "k0 < k17" "k17 < k34" "0 \<le> k0" "k34 \<le> 65535" "0 \<le> v" "v \<le> 65535"
  shows "balance_interpolate v k0 k17 k34 = Some \<lfloor>rnd_mag f32 (interpolated v k0 k17 k34 * 1000)\<rfloor>"
    and "0 \<le> \<lfloor>rnd_mag f32 (interpolated v k0 k17 k34 * 1000)\<rfloor>"
    and "\<lfloor>rnd_mag f32 (interpolated v k0 k17 k34 * 1000)\<rfloor> \<le> 1114112000"
proof -
  note b = interpolated_bounds [OF assms]
  have p: "0 \<le> interpolated v k0 k17 k34 * 1000" "interpolated v k0 k17 k34 * 1000 \<le> 1114112000" using b(1,2) by simp_all
  have "rnd_mag f32 (interpolated v k0 k17 k34 * 1000) \<le> 1114112000"
    using rnd_mag_frep_le(1) [of f32 1114112000] p(2) frep_weights by simp
  then show f: "0 \<le> \<lfloor>rnd_mag f32 (interpolated v k0 k17 k34 * 1000)\<rfloor>"
      "\<lfloor>rnd_mag f32 (interpolated v k0 k17 k34 * 1000)\<rfloor> \<le> 1114112000"
    by (simp_all add: floor_le_iff)
  have "s32_ok n" if "0 \<le> n" "n \<le> 1114112000" for n using that by (simp add: s32_ok_def)
  note s32 = this [OF f]
  have "(if v < k0 then fof_int f32 0 else if v < k17 then scaled_weight (v - k0) (k17 - k0)
      else fadd f32 (fof_int f32 17) (scaled_weight (v - k17) (k34 - k17))) = FFin False (interpolated v k0 k17 k34)"
  proof -
    have "17 + rnd_mag f32 (of_int (17 * (v - k17)) / of_int (k34 - k17)) \<le> 1114112" if "k17 \<le> v"
      using scaled_weight_value(2) [of "v - k17" "k34 - k17"] that assms by simp
    then show ?thesis
      using assms scaled_weight_value(1) [of "v - k0" "k17 - k0"] scaled_weight_value(1) [of "v - k17" "k34 - k17"]
        fof_int_small [of 0] fof_int_small [of 17] frep_weights
        f32_round_nonneg [of "17 + rnd_mag f32 (of_int (17 * (v - k17)) / of_int (k34 - k17))" 1114112]
      by (auto simp: interpolated_def sval_def)
  qed
  then show "balance_interpolate v k0 k17 k34 = Some \<lfloor>rnd_mag f32 (interpolated v k0 k17 k34 * 1000)\<rfloor>"
    using f s32 fof_int_small [of 1000] f32_round_nonneg [OF p frep_weights(2)]
    by (simp add: balance_interpolate_def Let_def sval_def)
qed

text \<open>
  C30. The weight of a Balance Board sensor, before it is stored in 16 bits (where more than 65535 g
  wrap, \<open>wii_board_weight_wraps\<close>): for calibration values that increase, \<open>k0 <
  k17 < k34\<close> (a board whose calibration was not read has zeros, on which the code is
  undefined, \<open>wii_board_uncalibrated\<close>), it is computed for every reading, is not
  negative, never decreases when the reading grows, and is exact at the calibration points: 0 g,
  17000 g and 34000 g.
\<close>

theorem wii_balance_weight:
  fixes v v' k0 k17 k34 :: u16
  assumes "k0 < k17" "k17 < k34" "v \<le> v'"
  defines "grams x \<equiv> balance_interpolate (uint x) (uint k0) (uint k17) (uint k34)"
  shows "(\<exists>w w'. grams v = Some w \<and> grams v' = Some w' \<and> 0 \<le> w \<and> w \<le> w' \<and> w' \<le> 1114112000) \<and>
     grams k0 = Some 0 \<and> grams k17 = Some 17000 \<and> grams k34 = Some 34000"
proof -
  have k: "uint k0 < uint k17" "uint k17 < uint k34" "0 \<le> uint k0" "uint x \<le> 65535" "0 \<le> uint x"
      "uint v \<le> uint v'" for x :: u16
    using assms(1-3) uint_lt2p [of x] by (simp_all add: word_less_def word_le_def)
  have seventeen: "(of_int (17 * n) / of_int n :: rat) = 17" if "n \<noteq> 0" for n :: int using that by simp
  note val = balance_interpolate_value [OF k(1-4) k(5) k(4), folded grams_def]
  have "\<lfloor>rnd_mag f32 (interpolated (uint v) (uint k0) (uint k17) (uint k34) * 1000)\<rfloor> \<le>
      \<lfloor>rnd_mag f32 (interpolated (uint v') (uint k0) (uint k17) (uint k34) * 1000)\<rfloor>"
    using interpolated_mono [OF k(1-4) k(5) k(6) k(4)] by (intro floor_mono rnd_mag_mono) simp_all
  moreover have "interpolated (uint k0) (uint k0) (uint k17) (uint k34) = 0"
      "interpolated (uint k17) (uint k0) (uint k17) (uint k34) = 17"
      "interpolated (uint k34) (uint k0) (uint k17) (uint k34) = 34"
    using k(1,2) rnd_mag_int [of 17] rnd_mag_int [of 34] seventeen [of "uint k34 - uint k17"]
    by (simp_all add: interpolated_def del: of_int_mult of_int_diff)
  ultimately show ?thesis
    using val [of v] val [of v'] val [of k0] val [of k17] val [of k34] rnd_mag_int [of 17000] rnd_mag_int [of 34000]
    by auto
qed

theorem wii_balance_weight_witness:
  "balance_interpolate 1000 0 2000 5000 \<noteq> None \<and> balance_interpolate 5000 0 2000 5000 = Some 34000"
proof -
  have "(0 :: u16) < 2000" "(2000 :: u16) < 5000" "(1000 :: u16) \<le> 3000" by simp_all
  from wii_balance_weight [OF this] show ?thesis by auto
qed

text \<open>A board whose calibration was not read has no weight: the conversion of an infinity or a NaN is undefined.\<close>

lemma wii_board_uncalibrated:
  assumes "0 \<le> v" "v \<le> 65535"
  shows "balance_interpolate v 0 0 0 = None"
proof -
  have "17 * v < 2 ^ 24" using assms by simp
  then have "fof_int f32 v = FFin False (of_int v)" "fof_int f32 17 = FFin False 17" "fof_int f32 0 = FFin False 0"
      "fof_int f32 1000 = FFin False 1000" "fround f32 False (17 * of_int v) = FFin False (17 * of_int v)"
    using assms fof_int_small [of v] fof_int_small [of 17] fof_int_small [of 0] fof_int_small [of 1000]
      fof_int_small [of "17 * v"] by (simp_all add: fof_int_def)
  then show ?thesis using assms by (simp add: balance_interpolate_def scaled_weight_def sval_def)
qed

text \<open>The grams of a sensor are kept in 16 bits: with twice the load of its last calibration point they wrap.\<close>

lemma wii_board_weight_wraps: "board_weight 400 0 100 200 = Some 2464"
proof -
  have "interpolated 400 0 100 200 = 68"
    using rnd_mag_int [of 51] rnd_mag_int [of 68] by (simp add: interpolated_def)
  then show ?thesis
    using balance_interpolate_value(1) [of 0 100 200 400] rnd_mag_int [of 68000]
    by (simp add: board_weight_def)
qed

text \<open>The centre of the Classic controller's right stick, 16, is read as 17.\<close>

lemma wii_classic_stick_off_centre:
  assumes "r ! 1 AND 0xc0 = 0x80" "r ! 2 AND 0xc0 = 0"
  shows "axis_rx (classic_gamepad r gp) = 32"
proof -
  have "r ! 1 AND 0x80 = (r ! 1 AND 0xc0) AND 0x80" by (simp add: and.assoc)
  then have "r ! 1 AND 0x80 = 0x80" using assms(1) by simp
  then have "classic_rx r = 17" using assms by (simp add: classic_rx_def)
  then show ?thesis by (simp add: classic_gamepad_def Let_def gamepad_frame AXIS_NORMALIZE_RANGE_def cdiv_def)
qed

text \<open>A stop that comes while a delayed rumble waits cancels its timer and leaves the motor of an earlier rumble on.\<close>

lemma wii_rumble_never_stops:
  assumes "no_rumble d" "delay \<noteq> 0" "duration \<noteq> 0"
  shows "\<exists>d'. motor_run wii_play_dual_rumble_now wii_stop_rumble_now
     [Play_rumble 0 duration weak strong, Play_rumble delay duration weak strong, Play_rumble 0 0 0 0] d = Some d' \<and>
     \<not> wii_still (calls d') \<and> timers d' = (None, None)"
  using assms by (simp add: no_rumble_def play_dual_rumble_def cancel_rumble_def wii_rumble_defs)

end
