(* ===== verification/JoyEmu.thy ===== *)
theory JoyEmu
  imports KeyMouse
begin

text \<open>
  The emulation of joysticks and mice for retro computers: \<^verbatim>\<open>bluepad32/uni_joystick.c\<close> turns a gamepad, a
  keyboard or a Balance Board into the lines of one or two joysticks, and \<^verbatim>\<open>uni_mouse_quadrature.c\<close> turns the
  movement of a mouse into the two phases of a quadrature encoder for each axis, one step per tick of a
  hardware timer.
\<close>

subsection \<open>Joysticks\<close>

record uni_joystick =
  joy_up :: u8
  joy_down :: u8
  joy_left :: u8
  joy_right :: u8
  button3 :: u8
  fire :: u8
  button2 :: u8
  auto_fire :: u8

definition joystick0 :: uni_joystick where
  "joystick0 = \<lparr>joy_up = 0, joy_down = 0, joy_left = 0, joy_right = 0, button3 = 0, fire = 0, button2 = 0, auto_fire = 0\<rparr>"

definition to_single_joy :: "uni_gamepad \<Rightarrow> uni_joystick \<Rightarrow> uni_joystick" where
  "to_single_joy gp j =
     j\<lparr>fire := fire j OR of_bool (buttons gp AND BUTTON_A \<noteq> 0) OR of_bool (buttons gp AND BUTTON_THUMB_L \<noteq> 0),
       auto_fire := auto_fire j OR of_bool (buttons gp AND BUTTON_SHOULDER_R \<noteq> 0),
       joy_up := joy_up j OR of_bool (dpad gp AND DPAD_UP \<noteq> 0) OR of_bool (axis_y gp < - AXIS_THRESHOLD),
       joy_down := joy_down j OR of_bool (dpad gp AND DPAD_DOWN \<noteq> 0) OR of_bool (axis_y gp > AXIS_THRESHOLD),
       joy_right := joy_right j OR of_bool (dpad gp AND DPAD_RIGHT \<noteq> 0) OR of_bool (axis_x gp > AXIS_THRESHOLD),
       joy_left := joy_left j OR of_bool (dpad gp AND DPAD_LEFT \<noteq> 0) OR of_bool (axis_x gp < - AXIS_THRESHOLD),
       button2 := word_of_int (brake gp div 4),
       button3 := word_of_int (throttle gp div 4)\<rparr>"

definition uni_joy_to_single_joy_from_gamepad :: "uni_gamepad \<Rightarrow> bool \<Rightarrow> uni_joystick \<Rightarrow> uni_joystick" where
  "uni_joy_to_single_joy_from_gamepad gp use_two_buttons j =
     (let b = of_bool (buttons gp AND BUTTON_B \<noteq> 0);
          j1 = to_single_joy gp j;
          j2 = (if \<not> use_two_buttons then j1\<lparr>joy_up := joy_up j1 OR b\<rparr> else j1\<lparr>button2 := b\<rparr>)
      in j2\<lparr>button2 := button2 j2 OR of_bool (buttons gp AND BUTTON_X \<noteq> 0),
            button3 := button3 j2 OR of_bool (buttons gp AND BUTTON_Y \<noteq> 0)\<rparr>)"

text \<open>The first joystick of the pair is moved by the right stick.\<close>

definition uni_joy_to_twinstick_from_gamepad ::
    "uni_gamepad \<Rightarrow> uni_joystick \<times> uni_joystick \<Rightarrow> uni_joystick \<times> uni_joystick" where
  "uni_joy_to_twinstick_from_gamepad gp js =
     (let j1 = fst js; j2 = to_single_joy gp (snd js)
      in (j1\<lparr>fire := fire j1 OR of_bool (buttons gp AND BUTTON_B \<noteq> 0) OR of_bool (buttons gp AND BUTTON_THUMB_R \<noteq> 0),
            button2 := button2 j1 OR of_bool (buttons gp AND BUTTON_Y \<noteq> 0),
            auto_fire := of_bool (buttons gp AND BUTTON_SHOULDER_R \<noteq> 0),
            joy_left := joy_left j1 OR of_bool (axis_rx gp < - AXIS_THRESHOLD),
            joy_right := joy_right j1 OR of_bool (axis_rx gp > AXIS_THRESHOLD),
            joy_up := joy_up j1 OR of_bool (axis_ry gp < - AXIS_THRESHOLD),
            joy_down := joy_down j1 OR of_bool (axis_ry gp > AXIS_THRESHOLD)\<rparr>,
          j2\<lparr>button2 := button2 j2 OR of_bool (buttons gp AND BUTTON_X \<noteq> 0),
            auto_fire := of_bool (buttons gp AND BUTTON_SHOULDER_L \<noteq> 0)\<rparr>))"

text \<open>The accelerometer of a Wii remote as a steering wheel.\<close>

definition uni_joy_to_single_from_wii_accel :: "uni_gamepad \<Rightarrow> uni_joystick" where
  "uni_joy_to_single_from_wii_accel gp =
     (let sx = fst (accel gp); sy = fst (snd (accel gp)); b = buttons gp
      in if sx > - 26 \<and> sx < 26 then joystick0
         else
           let j = joystick0\<lparr>joy_up := of_bool (dpad gp AND DPAD_UP \<noteq> 0) OR (if b AND BUTTON_B \<noteq> 0 then DPAD_UP else 0),
                 joy_down := of_bool (dpad gp AND DPAD_DOWN \<noteq> 0) OR (if b AND BUTTON_A \<noteq> 0 then DPAD_DOWN else 0),
                 joy_left := of_bool (dpad gp AND DPAD_LEFT \<noteq> 0), joy_right := of_bool (dpad gp AND DPAD_RIGHT \<noteq> 0),
                 fire := of_bool (b AND BUTTON_X \<noteq> 0) OR of_bool (b AND BUTTON_Y \<noteq> 0)\<rparr>
           in if sy > 26 then j\<lparr>joy_left := 1, joy_right := 0\<rparr>
              else if sy < - 26 then j\<lparr>joy_right := 1, joy_left := 0\<rparr> else j)"

text \<open>
  A key acts on the first joystick or, when there is one, on the second. The loop over the keys stops at the first code that is
  none.
\<close>

definition press_key :: "u8 \<Rightarrow> uni_joystick \<times> uni_joystick option \<Rightarrow> uni_joystick \<times> uni_joystick option" where
  "press_key k js = (case js of (j1, r) \<Rightarrow>
     if k = 0x50 then (j1\<lparr>joy_left := 1\<rparr>, r)
     else if k = 0x4f then (j1\<lparr>joy_right := 1\<rparr>, r)
     else if k = 0x52 then (j1\<lparr>joy_up := 1\<rparr>, r)
     else if k = 0x51 then (j1\<lparr>joy_down := 1\<rparr>, r)
     else (case r of
         None \<Rightarrow> (if k = 0x2c \<or> k = 0x1d then (j1\<lparr>fire := 1\<rparr>, r)
           else if k = 0x1b then (j1\<lparr>button2 := 1\<rparr>, r) else if k = 0x06 then (j1\<lparr>button3 := 1\<rparr>, r) else js)
       | Some j2 \<Rightarrow> (if k = 0x1a then (j1, Some (j2\<lparr>joy_up := 1\<rparr>)) else if k = 0x04 then (j1, Some (j2\<lparr>joy_left := 1\<rparr>))
           else if k = 0x16 then (j1, Some (j2\<lparr>joy_down := 1\<rparr>)) else if k = 0x07 then (j1, Some (j2\<lparr>joy_right := 1\<rparr>))
           else if k = 0x14 then (j1, Some (j2\<lparr>button2 := 1\<rparr>)) else if k = 0x08 then (j1, Some (j2\<lparr>fire := 1\<rparr>))
           else if k = 0x15 then (j1, Some (j2\<lparr>button3 := 1\<rparr>)) else js)))"

fun press_keys :: "u8 list \<Rightarrow> uni_joystick \<times> uni_joystick option \<Rightarrow> uni_joystick \<times> uni_joystick option" where
  "press_keys [] js = js"
| "press_keys (k # ks) js = (if k \<le> 3 then js else press_keys ks (press_key k js))"

definition to_joy_from_keyboard :: "uni_keyboard \<Rightarrow> uni_joystick \<times> uni_joystick option \<Rightarrow> uni_joystick \<times> uni_joystick option" where
  "to_joy_from_keyboard kb js =
     (let (j1, r) = press_keys (pressed_keys kb) js;
          on = (\<lambda>m. of_bool (modifiers kb AND m \<noteq> 0));
          (f, b2, b3) = (if r = None then (on 0x01, on 0x04, on 0x02) else (on 0x40, on 0x10, on 0x20))
      in (j1\<lparr>fire := fire j1 OR f, button2 := button2 j1 OR b2, button3 := button3 j1 OR b3\<rparr>, r))"

definition uni_joy_to_single_joy_from_keyboard :: "uni_keyboard \<Rightarrow> uni_joystick \<Rightarrow> uni_joystick" where
  "uni_joy_to_single_joy_from_keyboard kb j = fst (to_joy_from_keyboard kb (j, None))"

text \<open>The arguments are exchanged.\<close>

definition uni_joy_to_twinstick_from_keyboard :: "uni_keyboard \<Rightarrow> uni_joystick \<Rightarrow> uni_joystick \<Rightarrow> uni_joystick \<times> uni_joystick" where
  "uni_joy_to_twinstick_from_keyboard kb j1 j2 =
     (case to_joy_from_keyboard kb (j2, Some j1) of (a, r) \<Rightarrow> (the r, a))"

subsection \<open>The Balance Board as a joystick\<close>

datatype fire_state = BB_RESET | BB_THRESHOLD | BB_IN_AIR | BB_FIRE

record board_state =
  bb_fire_state :: fire_state
  fire_counter :: u8
  smooth_left :: int
  smooth_right :: int
  smooth_top :: int
  smooth_down :: int

record board_threshold =
  bb_move :: int
  bb_fire :: int

definition bb_threshold :: board_threshold where
  "bb_threshold = \<lparr>bb_move = 1500, bb_fire = 5000\<rparr>"

abbreviation (input) "UNI_BALANCE_BOARD_IDLE_THRESHOLD \<equiv> (1600 :: u16)"

definition smooth :: "u16 \<Rightarrow> u16 \<Rightarrow> int \<Rightarrow> int option" where
  "smooth a b v = map_option s16 (mult_frac (uint a + uint b - v) 6 100)"

definition board_fire :: "board_threshold \<Rightarrow> uni_balance_board \<Rightarrow> board_state \<Rightarrow> uni_joystick \<Rightarrow> board_state \<times> uni_joystick" where
  "board_fire t bb st0 j =
     (let sum = uint (bb_tl bb) + uint (bb_tr bb) + uint (bb_bl bb) + uint (bb_br bb);
          st = st0\<lparr>fire_counter := fire_counter st0 + 1\<rparr>;
          go = (\<lambda>f. st\<lparr>bb_fire_state := f, fire_counter := 0\<rparr>)
      in case bb_fire_state st of
           BB_RESET \<Rightarrow> (if sum \<ge> bb_fire t then (go BB_THRESHOLD, j) else (st, j))
         | BB_THRESHOLD \<Rightarrow>
             if bb_tl bb < UNI_BALANCE_BOARD_IDLE_THRESHOLD \<and> bb_tr bb < UNI_BALANCE_BOARD_IDLE_THRESHOLD \<and>
                bb_bl bb < UNI_BALANCE_BOARD_IDLE_THRESHOLD \<and> bb_br bb < UNI_BALANCE_BOARD_IDLE_THRESHOLD
             then (go BB_IN_AIR, j)
             else if fire_counter st > 10 then (go BB_RESET, j)
             else if sum \<ge> bb_fire t then (st\<lparr>fire_counter := 0\<rparr>, j)
             else (st, j)
         | BB_IN_AIR \<Rightarrow>
             if fire_counter st > 2 then (go BB_FIRE, j\<lparr>fire := 1\<rparr>)
             else if bb_tl bb \<ge> UNI_BALANCE_BOARD_IDLE_THRESHOLD \<or> bb_tr bb \<ge> UNI_BALANCE_BOARD_IDLE_THRESHOLD \<or>
                bb_bl bb > UNI_BALANCE_BOARD_IDLE_THRESHOLD \<or> bb_br bb \<ge> UNI_BALANCE_BOARD_IDLE_THRESHOLD
             then (go BB_RESET, j)
             else (st, j)
         | BB_FIRE \<Rightarrow> (if fire_counter st > 10 then go BB_RESET else st, j\<lparr>fire := 1\<rparr>))"

definition uni_joy_to_single_joy_from_balance_board ::
    "board_threshold \<Rightarrow> uni_balance_board \<Rightarrow> board_state \<Rightarrow> uni_joystick \<Rightarrow> (board_state \<times> uni_joystick) option" where
  "uni_joy_to_single_joy_from_balance_board t bb st j = do {
     down \<leftarrow> smooth (bb_bl bb) (bb_br bb) (smooth_down st);
     top \<leftarrow> smooth (bb_tl bb) (bb_tr bb) (smooth_top st);
     left \<leftarrow> smooth (bb_tl bb) (bb_bl bb) (smooth_left st);
     right \<leftarrow> smooth (bb_tr bb) (bb_br bb) (smooth_right st);
     let st1 = st\<lparr>smooth_down := down, smooth_top := top, smooth_left := left, smooth_right := right\<rparr>;
     let j1 = (if top - down > bb_move t then j\<lparr>joy_up := 1\<rparr> else if down - top > bb_move t then j\<lparr>joy_down := 1\<rparr> else j);
     let j2 = (if right - left > bb_move t then j1\<lparr>joy_right := 1\<rparr>
               else if left - right > bb_move t then j1\<lparr>joy_left := 1\<rparr> else j1);
     Some (board_fire t bb st1 j2)
   }"

subsection \<open>Quadrature encoders\<close>

record quadrature =
  q_positive :: bool
  q_value :: int
  q_phase :: int
  gpio_a :: int
  gpio_b :: int

definition quadrature0 :: quadrature where
  "quadrature0 = \<lparr>q_positive = False, q_value = 0, q_phase = 0, gpio_a = 0, gpio_b = 0\<rparr>"

definition UNI_MOUSE_QUADRATURE_PORT_MAX :: int where "UNI_MOUSE_QUADRATURE_PORT_MAX = 2"

text \<open>An encoder is named by its port and by whether it is the vertical one; a timer has the same name.\<close>

datatype quad_call =
    Gpio_set_level int bool
  | Timer_set_counter nat bool int
  | Timer_start nat bool
  | Timer_pause nat bool
  | Timer_init nat bool
  | Timer_isr_callback_add nat bool
  | Timer_deinit nat bool
  | Create_timer_task nat bool
  | Delete_timer_task nat bool
  | Create_init_task int
  | Property_mouse_scale fp

record quad_state =
  quads :: "nat \<Rightarrow> bool \<Rightarrow> quadrature"
  timer_started :: "nat \<Rightarrow> bool"
  s_scale_factor :: fp
  initialized :: bool
  quad_calls :: "quad_call list"

definition phase_levels :: "int \<Rightarrow> bool \<times> bool" where
  "phase_levels p = (p = 1 \<or> p = 2, p = 2 \<or> p = 3)"

text \<open>One tick: the new state of the encoder and the levels of its lines, if they are set.\<close>

definition process_quadrature :: "quadrature \<Rightarrow> quadrature \<times> (bool \<times> bool) option" where
  "process_quadrature q =
     (if q_value q \<le> 0 then (q, None)
      else
        let p = (if \<not> q_positive q then (if q_phase q - 1 < 0 then 3 else q_phase q - 1)
                 else (if q_phase q + 1 > 3 then 0 else q_phase q + 1))
        in (q\<lparr>q_value := q_value q - 1, q_phase := p\<rparr>, Some (phase_levels p)))"

text \<open>Conversion of a rounded number to 64 bits without sign: undefined outside of its range.\<close>

definition to_u64 :: "int \<Rightarrow> int option" where
  "to_u64 i = (if 0 \<le> i \<and> i < 2 ^ 64 then Some i else None)"

definition quadrature_units :: "fp \<Rightarrow> int \<Rightarrow> int option" where
  "quadrature_units scale delta =
     (if delta = 0 then Some (12500 * 60)
      else
        let u = fdiv f32 (flit f32 128) (fmul f32 (fof_int f32 \<bar>delta\<bar>) scale);
            u' = (if flt u (flit f32 1) then flit f32 1 else u)
        in Option.bind (froundf u') to_u64)"

definition process_update :: "fp \<Rightarrow> int \<Rightarrow> quadrature \<Rightarrow> (int \<times> quadrature) option" where
  "process_update scale delta q = do {
     d \<leftarrow> chk32 \<bar>delta\<bar>;
     u \<leftarrow> quadrature_units scale delta;
     Some (u, if delta \<noteq> 0 then q\<lparr>q_value := d, q_positive := delta \<ge> 0\<rparr> else q)
   }"

definition quad_call :: "quad_call \<Rightarrow> quad_state \<Rightarrow> quad_state" where
  "quad_call c s = s\<lparr>quad_calls := quad_calls s @ [c]\<rparr>"

definition upd_quad :: "nat \<Rightarrow> bool \<Rightarrow> quadrature \<Rightarrow> quad_state \<Rightarrow> quad_state" where
  "upd_quad p v q s = s\<lparr>quads := (quads s)(p := (quads s p)(v := q))\<rparr>"

definition encoders :: "(nat \<times> bool) list" where
  "encoders = [(0, False), (0, True), (1, False), (1, True)]"

definition ONE_SECOND :: int where "ONE_SECOND = 12500"

text \<open>The task that sets up the timers, on the core of its choice; it ends by itself.\<close>

definition init_from_cpu_task :: "quad_state \<Rightarrow> quad_state" where
  "init_from_cpu_task s = fold (\<lambda>(p, v). quad_call (Create_timer_task p v) \<circ> quad_call (Timer_isr_callback_add p v) \<circ>
     quad_call (Timer_set_counter p v (ONE_SECOND * 60)) \<circ> quad_call (Timer_init p v)) encoders s"

definition uni_mouse_quadrature_init :: "int \<Rightarrow> fp \<Rightarrow> quad_state \<Rightarrow> quad_state" where
  "uni_mouse_quadrature_init cpu_id scale s =
     (quad_call (Create_init_task cpu_id) s)\<lparr>quads := (\<lambda>_ _. quadrature0), timer_started := (\<lambda>_. False), s_scale_factor := scale, initialized := True\<rparr>"

definition port_ok :: "int \<Rightarrow> bool" where
  "port_ok p \<longleftrightarrow> 0 \<le> p \<and> p < UNI_MOUSE_QUADRATURE_PORT_MAX"

definition uni_mouse_quadrature_setup_port :: "int \<Rightarrow> int \<times> int \<Rightarrow> int \<times> int \<Rightarrow> quad_state \<Rightarrow> quad_state" where
  "uni_mouse_quadrature_setup_port port h v s =
     (if \<not> port_ok port then s
      else
        let p = nat port; s1 = upd_quad p False ((quads s p False)\<lparr>gpio_a := fst h, gpio_b := snd h\<rparr>) s
        in upd_quad p True ((quads s1 p True)\<lparr>gpio_a := fst v, gpio_b := snd v\<rparr>) s1)"

definition uni_mouse_quadrature_deinit :: "quad_state \<Rightarrow> quad_state" where
  "uni_mouse_quadrature_deinit s =
     (fold (\<lambda>(p, v). quad_call (Delete_timer_task p v) \<circ> quad_call (Timer_deinit p v)) encoders s)\<lparr>initialized := False\<rparr>"

definition uni_mouse_quadrature_start :: "int \<Rightarrow> quad_state \<Rightarrow> quad_state" where
  "uni_mouse_quadrature_start port s =
     (if \<not> initialized s \<or> \<not> port_ok port \<or> timer_started s (nat port) then s
      else (quad_call (Timer_start (nat port) True) (quad_call (Timer_start (nat port) False) s))
        \<lparr>timer_started := (timer_started s)(nat port := True)\<rparr>)"

definition uni_mouse_quadrature_pause :: "int \<Rightarrow> quad_state \<Rightarrow> quad_state" where
  "uni_mouse_quadrature_pause port s =
     (if \<not> initialized s \<or> \<not> port_ok port \<or> \<not> timer_started s (nat port) then s
      else (quad_call (Timer_pause (nat port) True) (quad_call (Timer_pause (nat port) False) s))
        \<lparr>timer_started := (timer_started s)(nat port := False)\<rparr>)"

definition update_encoder :: "nat \<Rightarrow> bool \<Rightarrow> int \<Rightarrow> quad_state \<Rightarrow> quad_state option" where
  "update_encoder p v delta s =
     map_option (\<lambda>(u, q). quad_call (Timer_set_counter p v u) (upd_quad p v q s))
       (process_update (s_scale_factor s) delta (quads s p v))"

definition uni_mouse_quadrature_update :: "int \<Rightarrow> int \<Rightarrow> int \<Rightarrow> quad_state \<Rightarrow> quad_state option" where
  "uni_mouse_quadrature_update port dx dy s =
     (if \<not> initialized s \<or> \<not> port_ok port then Some s
      else do {
        s1 \<leftarrow> update_encoder (nat port) False dx s;
        ny \<leftarrow> chk32 (- dy);
        update_encoder (nat port) True ny s1
      })"

definition uni_mouse_quadrature_set_scale_factor :: "fp \<Rightarrow> quad_state \<Rightarrow> quad_state" where
  "uni_mouse_quadrature_set_scale_factor scale s = quad_call (Property_mouse_scale scale) (s\<lparr>s_scale_factor := scale\<rparr>)"

text \<open>The task of an encoder, woken by its timer.\<close>

definition timer_tick :: "nat \<Rightarrow> bool \<Rightarrow> quad_state \<Rightarrow> quad_state" where
  "timer_tick p v s = (case process_quadrature (quads s p v) of
     (q, None) \<Rightarrow> s
   | (q, Some (a, b)) \<Rightarrow> quad_call (Gpio_set_level (gpio_b q) b) (quad_call (Gpio_set_level (gpio_a q) a) (upd_quad p v q s)))"

subsection \<open>The encoder moves by the distance\<close>

text \<open>The levels of the two lines after each tick that sets them.\<close>

primrec q_ticks :: "nat \<Rightarrow> quadrature \<Rightarrow> quadrature \<times> (bool \<times> bool) list" where
  "q_ticks 0 q = (q, [])"
| "q_ticks (Suc n) q = (case process_quadrature q of (q1, r) \<Rightarrow> case q_ticks n q1 of (q2, xs) \<Rightarrow>
     (q2, (case r of None \<Rightarrow> xs | Some x \<Rightarrow> x # xs)))"

text \<open>Two pairs of levels that differ in exactly one line.\<close>

definition one_line :: "bool \<times> bool \<Rightarrow> bool \<times> bool \<Rightarrow> bool" where
  "one_line x y \<longleftrightarrow> (fst x \<noteq> fst y) \<noteq> (snd x \<noteq> snd y)"

fun gray :: "(bool \<times> bool) list \<Rightarrow> bool" where
  "gray (x # y # xs) \<longleftrightarrow> one_line x y \<and> gray (y # xs)"
| "gray _ \<longleftrightarrow> True"

definition q_direction :: "quadrature \<Rightarrow> int" where
  "q_direction q = (if q_positive q then 1 else - 1)"

lemma one_tick:
  assumes "0 < q_value q" "0 \<le> q_phase q" "q_phase q < 4"
  shows "\<exists>p. process_quadrature q = (q\<lparr>q_value := q_value q - 1, q_phase := p\<rparr>, Some (phase_levels p)) \<and>
     p = (q_phase q + q_direction q) mod 4 \<and> 0 \<le> p \<and> p < 4 \<and> one_line (phase_levels (q_phase q)) (phase_levels p)"
proof -
  have "q_phase q = 0 \<or> q_phase q = 1 \<or> q_phase q = 2 \<or> q_phase q = 3" using assms(2,3) by linarith
  then show ?thesis
    using assms(1) by (auto simp: process_quadrature_def q_direction_def one_line_def phase_levels_def)
qed

lemma idle_ticks: "q_value q \<le> 0 \<Longrightarrow> q_ticks n q = (q, [])"
  by (induction n) (simp_all add: process_quadrature_def)

lemma ticks_move:
  assumes "q_value q = int m" "m \<le> n" "0 \<le> q_phase q" "q_phase q < 4"
  shows "\<exists>q' xs. q_ticks n q = (q', xs) \<and> q_value q' = 0 \<and> q_phase q' = (q_phase q + int m * q_direction q) mod 4 \<and>
     length xs = m \<and> gray (phase_levels (q_phase q) # xs)"
  using assms
proof (induction n arbitrary: q m)
  case (Suc n)
  show ?case
  proof (cases m)
    case 0
    then show ?thesis using Suc.prems idle_ticks [of q "Suc n"] by simp
  next
    case (Suc k)
    obtain p where p: "process_quadrature q = (q\<lparr>q_value := q_value q - 1, q_phase := p\<rparr>, Some (phase_levels p))"
        "p = (q_phase q + q_direction q) mod 4" "0 \<le> p" "p < 4" "one_line (phase_levels (q_phase q)) (phase_levels p)"
      using one_tick [of q] Suc.prems Suc by auto
    let ?q = "q\<lparr>q_value := q_value q - 1, q_phase := p\<rparr>"
    obtain q' xs where r: "q_ticks n ?q = (q', xs)" "q_value q' = 0"
        "q_phase q' = (q_phase ?q + int k * q_direction ?q) mod 4" "length xs = k" "gray (phase_levels (q_phase ?q) # xs)"
      using Suc.IH [of ?q k] Suc.prems Suc p(3,4) by auto
    have "(p + int k * q_direction q) mod 4 = (q_phase q + int m * q_direction q) mod 4"
      using Suc by (simp add: p(2) mod_add_left_eq distrib_right add.assoc)
    then show ?thesis using p(1,5) r Suc by (auto simp: q_direction_def)
  qed
qed (auto simp: q_direction_def)

text \<open>
  C32. The quadrature encoder moves by exactly the distance of the mouse. After an update by \<open>\<delta>\<close>, any number of at
  least \<open>|\<delta>|\<close> ticks changes the lines \<open>|\<delta>|\<close> times, each time exactly one of the two, ends in the
  phase \<open>\<delta>\<close> steps further, in the direction of the sign, and stops there.
\<close>

theorem quadrature_moves:
  assumes "process_update scale delta q = Some (u, q1)" "delta \<noteq> 0" "0 \<le> q_phase q" "q_phase q < 4" "nat \<bar>delta\<bar> \<le> n"
  shows "\<exists>q2 xs. q_ticks n q1 = (q2, xs) \<and> q_phase q2 = (q_phase q + delta) mod 4 \<and> length xs = nat \<bar>delta\<bar> \<and>
     gray (phase_levels (q_phase q) # xs) \<and> q_ticks k q2 = (q2, [])"
proof -
  have q1: "q1 = q\<lparr>q_value := \<bar>delta\<bar>, q_positive := delta \<ge> 0\<rparr>"
    using assms(1,2) by (auto simp: process_update_def split: Option.bind_splits)
  have d: "int (nat \<bar>delta\<bar>) * q_direction q1 = delta" by (simp add: q1 q_direction_def)
  obtain q2 xs where r: "q_ticks n q1 = (q2, xs)" "q_value q2 = 0" "q_phase q2 = (q_phase q1 + int (nat \<bar>delta\<bar>) * q_direction q1) mod 4"
      "length xs = nat \<bar>delta\<bar>" "gray (phase_levels (q_phase q1) # xs)"
    using ticks_move [of q1 "nat \<bar>delta\<bar>" n] assms(3-5) by (auto simp: q1)
  then show ?thesis using idle_ticks [of q2 k] d by (auto simp: q1)
qed

text \<open>
  The period of the timer, for the distances that the mouse parser delivers and scale factors between 1/16 and 16: at
  least one tick, so that the timer always runs.
\<close>

lemma quadrature_period:
  assumes "delta \<noteq> 0" "\<bar>delta\<bar> \<le> 128" "frange (1 / 16) 16 scale"
  shows "\<exists>u. quadrature_units scale delta = Some u \<and> 1 \<le> u \<and> u \<le> 2048"
proof -
  have p: "1 \<le> prec f32" "frep f32 (1 / 16)" "frep f32 2048" by (simp_all add: f32_def [THEN arg_cong [where f = prec]])
  have "frange 1 128 (fof_int f32 \<bar>delta\<bar>)" using assms(1,2) by (intro fof_int_frange) auto
  then obtain s m where m: "fof_int f32 \<bar>delta\<bar> = FFin s m" "1 \<le> sval s m" "sval s m \<le> 128" by (rule frangeE)
  obtain t k where k: "scale = FFin t k" "1 / 16 \<le> sval t k" "sval t k \<le> 16" using assms(3) by (rule frangeE)
  have "1 * (1 / 16) \<le> sval s m * sval t k" "sval s m * sval t k \<le> 128 * 16"
    using m k by (intro mult_mono; simp)+
  then have "frange (1 / 16) 2048 (fmul f32 (fof_int f32 \<bar>delta\<bar>) scale)"
    using fround_frange [of f32 "1 / 16" 2048 "sval s m * sval t k" "s \<noteq> t"] p by (simp add: m(1) k(1))
  then obtain v x where x: "fmul f32 (fof_int f32 \<bar>delta\<bar>) scale = FFin v x" "1 / 16 \<le> sval v x" "sval v x \<le> 2048"
    by (rule frangeE)
  have "frange 128 128 (flit f32 128)" by (intro flit_frange) auto
  then obtain w y where y: "flit f32 128 = FFin w y" "sval w y = 128" by (auto elim!: frangeE)
  have "x \<noteq> 0" using x(2) by (auto simp: sval_def split: if_splits)
  moreover have "1 / 16 \<le> 128 / sval v x" "128 / sval v x \<le> 2048" using x(2,3) by (simp_all add: field_simps)
  ultimately have "frange (1 / 16) 2048 (fdiv f32 (flit f32 128) (fmul f32 (fof_int f32 \<bar>delta\<bar>) scale))"
    using fround_frange [of f32 "1 / 16" 2048 "128 / sval v x" "w \<noteq> v"] p by (simp add: x(1) y)
  then obtain z q where q: "fdiv f32 (flit f32 128) (fmul f32 (fof_int f32 \<bar>delta\<bar>) scale) = FFin z q"
      "0 \<le> q" "sval z q \<le> 2048" by (rule frangeE)
  have "frange 1 1 (flit f32 1)" by (intro flit_frange) auto
  then obtain a b where b: "flit f32 1 = FFin a b" "sval a b = 1" "0 \<le> b" by (auto elim!: frangeE)
  let ?u = "if flt (FFin z q) (FFin a b) then FFin a b else FFin z q"
  have "frange (of_int 1) (of_int 2048) ?u" using q(2,3) b(2,3) by auto
  then obtain i where i: "froundf ?u = Some i" "1 \<le> i" "i \<le> 2048" using froundf_range by blast
  then show ?thesis
    using assms(1) by (simp add: quadrature_units_def q(1) b(1) Let_def to_u64_def del: froundf.simps flt.simps split del: if_split cong: if_cong)
qed

theorem quadrature_moves_witness:
  "\<exists>q2 xs u. process_update (flit f32 1) (- 5) quadrature0 = Some (u, quadrature0\<lparr>q_value := 5, q_positive := False\<rparr>) \<and>
     q_ticks 7 (quadrature0\<lparr>q_value := 5, q_positive := False\<rparr>) = (q2, xs) \<and> q_phase q2 = 3 \<and> length xs = 5 \<and>
     gray ((False, False) # xs)"
proof -
  have "frange (1 / 16) 16 (flit f32 1)" by (intro flit_frange) auto
  then obtain u where "quadrature_units (flit f32 1) (- 5) = Some u"
    using quadrature_period [of "- 5"] by auto
  then have u: "process_update (flit f32 1) (- 5) quadrature0 = Some (u, quadrature0\<lparr>q_value := 5, q_positive := False\<rparr>)"
    by (simp add: process_update_def chk32_def s32_ok_def)
  from quadrature_moves [OF this, of 7 0] u show ?thesis by (simp add: quadrature0_def phase_levels_def)
qed

text \<open>With scale 0 the period is infinite, and its conversion undefined.\<close>

lemma quadrature_scale_0: "quadrature_units (flit f32 0) 1 = None"
  by code_simp

subsection \<open>A jump on the Balance Board\<close>

lemma smooth_total: "\<exists>x. smooth a b v = Some x"
  by (simp add: smooth_def mult_frac_def)

text \<open>The smoothed value of a constant weight ends at about its 18th part: the previous value is not added.\<close>

lemma smooth_is_no_filter: "smooth 30000 30000 0 = Some 3600" "smooth 30000 30000 3396 = Some 3396"
  by code_simp+

lemma board_step:
  "\<exists>st1 j1. uni_joy_to_single_joy_from_balance_board t bb st joystick0 = Some (board_fire t bb st1 j1) \<and>
     bb_fire_state st1 = bb_fire_state st \<and> fire_counter st1 = fire_counter st \<and> fire j1 = 0"
proof -
  obtain d p l r where s: "smooth (bb_bl bb) (bb_br bb) (smooth_down st) = Some d" "smooth (bb_tl bb) (bb_tr bb) (smooth_top st) = Some p"
      "smooth (bb_tl bb) (bb_bl bb) (smooth_left st) = Some l" "smooth (bb_tr bb) (bb_br bb) (smooth_right st) = Some r"
    using smooth_total by metis
  show ?thesis
    unfolding uni_joy_to_single_joy_from_balance_board_def s Option.bind.simps Let_def
    by (intro exI conjI, rule refl) (simp_all add: joystick0_def)
qed

text \<open>Whether fire is pressed after each of a sequence of reports.\<close>

primrec board_run :: "board_threshold \<Rightarrow> uni_balance_board list \<Rightarrow> board_state \<Rightarrow> (u8 list \<times> fire_state) option" where
  "board_run t [] st = Some ([], bb_fire_state st)"
| "board_run t (b # bs) st = do {
     (st', j) \<leftarrow> uni_joy_to_single_joy_from_balance_board t b st joystick0;
     (xs, f) \<leftarrow> board_run t bs st';
     Some (fire j # xs, f)
   }"

definition board_idle :: "uni_balance_board \<Rightarrow> bool" where
  "board_idle bb \<longleftrightarrow> bb_tl bb < 1600 \<and> bb_tr bb < 1600 \<and> bb_bl bb < 1600 \<and> bb_br bb < 1600"

definition board_sum :: "uni_balance_board \<Rightarrow> int" where
  "board_sum bb = uint (bb_tl bb) + uint (bb_tr bb) + uint (bb_bl bb) + uint (bb_br bb)"

lemma board_run_step:
  assumes "\<And>st1 j1. bb_fire_state st1 = bb_fire_state st \<Longrightarrow> fire_counter st1 = fire_counter st \<Longrightarrow> fire j1 = 0 \<Longrightarrow>
     \<exists>st2 j2. board_fire t b st1 j1 = (st2, j2) \<and> bb_fire_state st2 = f \<and> fire_counter st2 = c \<and> fire j2 = x"
    and "\<And>st2. bb_fire_state st2 = f \<Longrightarrow> fire_counter st2 = c \<Longrightarrow> board_run t bs st2 = Some (xs, g)"
  shows "board_run t (b # bs) st = Some (x # xs, g)"
proof -
  obtain st1 j1 where 1: "uni_joy_to_single_joy_from_balance_board t b st joystick0 = Some (board_fire t b st1 j1)"
      "bb_fire_state st1 = bb_fire_state st" "fire_counter st1 = fire_counter st" "fire j1 = 0"
    using board_step by blast
  obtain st2 j2 where "board_fire t b st1 j1 = (st2, j2)" "bb_fire_state st2 = f" "fire_counter st2 = c" "fire j2 = x"
    using assms(1) [OF 1(2-4)] by blast
  then show ?thesis using 1(1) assms(2) by simp
qed

lemma board_fires:
  assumes "bb_fire_state st = BB_FIRE" "unat (fire_counter st) + length bs = 11" "bs \<noteq> []"
  shows "board_run t bs st = Some (replicate (length bs) 1, BB_RESET)"
  using assms
proof (induction bs arbitrary: st)
  case (Cons b bs)
  have u: "unat (fire_counter st + 1) = Suc (unat (fire_counter st))"
    using Cons.prems by (simp add: unat_word_ariths)
  show ?case
  proof (cases "bs = []")
    case True
    then have "10 < fire_counter st + 1" using Cons.prems u by (simp add: word_less_nat_alt)
    then have "board_run t (b # []) st = Some (1 # [], BB_RESET)"
      by (intro board_run_step [where f = BB_RESET and c = 0]) (use Cons.prems in \<open>simp_all add: board_fire_def Let_def\<close>)
    then show ?thesis using True by simp
  next
    case False
    then have "\<not> 10 < fire_counter st + 1" using Cons.prems u by (cases bs) (simp_all add: word_less_nat_alt)
    then have "board_run t (b # bs) st = Some (1 # replicate (length bs) 1, BB_RESET)"
      by (intro board_run_step [where f = BB_FIRE and c = "fire_counter st + 1"])
        (use Cons.prems u Cons.IH False in \<open>simp_all add: board_fire_def Let_def\<close>)
    then show ?thesis by simp
  qed
qed simp

text \<open>
  C33. A jump on the Balance Board keeps fire pressed for twelve reports, against the comment that
  says ten. When the weight passes the threshold and the next three reports show nobody on the
  board, fire is pressed from the fifth report on, whatever the board reports then: one report on
  the way out of the in-air state, and eleven in the fire state, which is left only when its
  counter, compared after the increment, is above ten; then the detection starts again.
\<close>

theorem board_jump_fires:
  assumes "bb_fire_state st = BB_RESET" "bb_fire t \<le> board_sum h" "board_idle i1" "board_idle i2" "board_idle i3" "length bs = 12"
  shows "board_run t (h # i1 # i2 # i3 # bs) st = Some ([0, 0, 0, 0] @ replicate 12 1, BB_RESET)"
proof -
  obtain b bs' where b: "bs = b # bs'" "length bs' = 11" using assms(6) by (cases bs) auto
  have 5: "board_run t bs st5 = Some (replicate 12 1, BB_RESET)" if "bb_fire_state st5 = BB_IN_AIR" "fire_counter st5 = 2" for st5
  proof -
    have "board_run t bs' s = Some (replicate 11 1, BB_RESET)" if "bb_fire_state s = BB_FIRE" "fire_counter s = 0" for s
      using board_fires [of s bs' t] that b(2) by (cases bs') auto
    then have "board_run t (b # bs') st5 = Some (1 # replicate 11 1, BB_RESET)"
      by (rule board_run_step [where f = BB_FIRE and c = 0, rotated]) (use that in \<open>simp_all add: board_fire_def Let_def\<close>)
    then show ?thesis using b(1) by (simp add: numeral_eq_Suc)
  qed
  have 4: "board_run t (i3 # bs) s = Some (0 # replicate 12 1, BB_RESET)" if "bb_fire_state s = BB_IN_AIR" "fire_counter s = 1" for s
    by (rule board_run_step [where f = BB_IN_AIR and c = 2, OF _ 5]) (use that assms(5) in \<open>auto simp: board_fire_def Let_def board_idle_def\<close>)
  have 3: "board_run t (i2 # i3 # bs) s = Some (0 # 0 # replicate 12 1, BB_RESET)" if "bb_fire_state s = BB_IN_AIR" "fire_counter s = 0" for s
    by (rule board_run_step [where f = BB_IN_AIR and c = 1, OF _ 4]) (use that assms(4) in \<open>auto simp: board_fire_def Let_def board_idle_def\<close>)
  have 2: "board_run t (i1 # i2 # i3 # bs) s = Some (0 # 0 # 0 # replicate 12 1, BB_RESET)"
    if "bb_fire_state s = BB_THRESHOLD" "fire_counter s = 0" for s
    by (rule board_run_step [where f = BB_IN_AIR and c = 0, OF _ 3]) (use that assms(3) in \<open>auto simp: board_fire_def Let_def board_idle_def\<close>)
  have "board_run t (h # i1 # i2 # i3 # bs) st = Some (0 # 0 # 0 # 0 # replicate 12 1, BB_RESET)"
    by (rule board_run_step [where f = BB_THRESHOLD and c = 0, OF _ 2]) (use assms(1,2) in \<open>auto simp: board_fire_def Let_def board_sum_def\<close>)
  then show ?thesis by simp
qed

definition board_start :: board_state where
  "board_start = \<lparr>bb_fire_state = BB_RESET, fire_counter = 0, smooth_left = 0, smooth_right = 0, smooth_top = 0, smooth_down = 0\<rparr>"

definition board_of :: "u16 \<Rightarrow> uni_balance_board" where
  "board_of w = \<lparr>bb_tr = w, bb_br = w, bb_tl = w, bb_bl = w, temperature = 20\<rparr>"

theorem board_jump_fires_witness:
  "board_run bb_threshold (board_of 20000 # replicate 3 (board_of 0) @ replicate 12 (board_of 15000)) board_start =
     Some ([0, 0, 0, 0] @ replicate 12 1, BB_RESET)"
  using board_jump_fires [of board_start bb_threshold "board_of 20000" "board_of 0" "board_of 0" "board_of 0" "replicate 12 (board_of 15000)"]
  by (simp add: board_start_def board_of_def bb_threshold_def board_sum_def board_idle_def numeral_3_eq_3 del: board_run.simps)

end
