(* ===== verification/Spec2Isabelle.thy ===== *)
theory Spec2Isabelle
  imports Flight BtServiceProps FullRange Icade CircularBuffer Ds5 Ps3 RawPads KeyMouse SwitchPad WiiPad JoyEmu
begin

text \<open>
  Verification of the firmware of the Bukkis drone (ESP32): a quadcopter that is flown with a
  Bluetooth game controller. Paths are relative to \<^verbatim>\<open>src/\<close>.

  \<^bold>\<open>The program.\<close> \<^verbatim>\<open>main/bukkis_drone.c\<close> starts the sensor, the motors and the Bluetooth task and
  then runs a 100 Hz loop: read the sensor, read the sticks, run two PID controllers, mix, drive
  four motors. The sticks are four global variables that \<^verbatim>\<open>components/bukkis_bt\<close> stores from the
  callbacks of the bluepad32 library, on another task. bluepad32 (\<^verbatim>\<open>components/bluepad32\<close>) keeps a
  table of devices, picks a parser for each of them and turns its HID reports into a virtual
  gamepad; the HID parser of BTstack (\<^verbatim>\<open>components/btstack\<close>) splits a report into fields.

  \<^bold>\<open>Theories, in the order of their imports.\<close>
  \<^item> \<open>Prelude\<close>: C integers, truncating division, checked 32-bit arithmetic. \<open>RatEval\<close>, \<open>CFloat\<close>:
    IEEE single and double precision with rounding to nearest even, on rationals. \<open>EspIdf\<close>: calls of
    ESP-IDF, FreeRTOS and libm as a log, with their answers in the record \<open>esp_env\<close>.
  \<^item> \<open>Pid\<close> (\<^verbatim>\<open>components/pid\<close>), \<open>Motor\<close> (\<^verbatim>\<open>components/motor\<close>), \<open>Mpu6050\<close> (\<^verbatim>\<open>components/mpu6050\<close>):
    the flight components, one definition per function.
  \<^item> \<open>Gamepad\<close> (\<^verbatim>\<open>bluepad32/controller/uni_gamepad.c\<close>): the virtual gamepad, the controller union and the
    remapping. \<open>BukkisBt\<close> (\<^verbatim>\<open>bukkis_bt.c\<close>): the platform callbacks as sequences of stores.
  \<^item> \<open>Flight\<close> (\<^verbatim>\<open>main/bukkis_drone.c\<close>): start-up, stick scaling, mixer and the loop, as an interleaving
    of the loop's single reads of the stick variables with the callbacks' stores (\<open>sys_step\<close>).
  \<^item> \<open>BtHid\<close>, \<open>BtHidFields\<close> (\<^verbatim>\<open>btstack/src/btstack_hid_parser.c\<close>): descriptor items, the two iterators,
    and field extraction.
  \<^item> \<open>HidParser\<close> (\<^verbatim>\<open>bluepad32/parser/uni_hid_parser.c\<close>): reports and scaling, and the locale
    \<open>usage_parser\<close>, the contract between the report loop and a parser for one kind of controller.
    \<open>UsageParsers\<close>, \<open>Icade\<close>, \<open>XboxOne\<close> (\<^verbatim>\<open>uni_hid_parser_*.c\<close>) model and interpret it; \<open>XboxOne\<close> also has the
    rumble state machine. \<open>FullRange\<close> moves the contract's hypothesis from reports to descriptors.
  \<^item> \<open>CircularBuffer\<close> (\<^verbatim>\<open>uni_circular_buffer.c\<close>): the ring of outgoing reports, an interpretation of the
    locale \<open>bounded_fifo\<close>, and the two functions that send from it. \<open>ControllerList\<close>
    (\<^verbatim>\<open>uni_controller_list.h\<close>, \<^verbatim>\<open>uni_controller_type.c\<close>): the table of known controllers.
  \<^item> \<open>HidDevice\<close>, \<open>HidTable\<close> (\<^verbatim>\<open>uni_hid_device.c\<close>, \<^verbatim>\<open>bt/uni_bt_conn.c\<close>): the device table, and its
    invariant over every sequence of calls.
  \<^item> \<open>BtAddr\<close> (\<^verbatim>\<open>btstack_util.c\<close>), \<open>Allowlist\<close> (\<^verbatim>\<open>bt/uni_bt_allowlist.c\<close>): Bluetooth addresses as text, and
    the table of allowed addresses with its copy in flash. \<open>DataElement\<close> (\<^verbatim>\<open>classic/sdp_util.c\<close>): data elements of SDP
    records and the search for HID descriptors in them.
  \<^item> \<open>BredrConn\<close>, \<open>BredrSafe\<close>, \<open>BredrProps\<close> (\<^verbatim>\<open>bt/uni_bt_bredr.c\<close>, \<^verbatim>\<open>bt/uni_bt_sdp.c\<close>, \<^verbatim>\<open>bt/uni_bt.c\<close>): the connection of a
    Bluetooth Classic controller, from the inquiry or the incoming call to the ready device; the invariant of its event
    handlers; what sequences of events lead to.
  \<^item> \<open>LeConn\<close>, \<open>LeSafe\<close>, \<open>LeProps\<close> (\<^verbatim>\<open>bt/uni_bt_le.c\<close>, \<^verbatim>\<open>bt/uni_bt.c\<close>, \<^verbatim>\<open>btstack/src/ad_parser.c\<close>): the same for LE controllers, from the
    advertisement to the ready device, over the state of both sides, with the scan commands and the keys.
  \<^item> \<open>BtService\<close>, \<open>BtServiceProps\<close> (\<^verbatim>\<open>bt/uni_bt_setup.c\<close>, \<^verbatim>\<open>bt/uni_bt_service.c\<close>, \<^verbatim>\<open>uni_virtual_device.c\<close>): the commands of the
    start-up, and the GATT service with its characteristics and notifications, on top of the connection's state.
  \<^item> \<open>RawDevice\<close>: what the parsers of raw reports share: little-endian fields, the checksum of
    \<^verbatim>\<open>uni_utils.c\<close>, \<open>mult_frac\<close>, button masks, and the locale \<open>raw_parser\<close>, the contract between the device and a
    parser that reads bytes itself. \<open>Rumble\<close>: the rumble timers that eight parsers implement alike, and the
    locale \<open>rumble_motor\<close> for the two functions in which they differ.
  \<^item> \<open>Ds4\<close>, \<open>Ds5\<close>, \<open>Ps3\<close> (DualShock 3, PS Move), \<open>RawPads\<close> (Stadia, Atari, Steam), \<open>SwitchPad\<close>, \<open>WiiPad\<close>, \<open>KeyMouse\<close>
    (\<^verbatim>\<open>parser/uni_hid_parser_*.c\<close>): the parsers, each interpreting the locales it fits.
  \<^item> \<open>JoyEmu\<close> (\<^verbatim>\<open>uni_joystick.c\<close>, \<^verbatim>\<open>uni_mouse_quadrature.c\<close>): gamepads, keyboards and the Balance Board as
    joysticks of retro computers, and a mouse as a pair of quadrature encoders.
  \<^item> \<open>Spec2Isabelle\<close>: the path from the bytes of a report to the flight loop.

  \<^bold>\<open>Errors.\<close> \<open>None\<close> in a result is undefined behaviour or a failed assertion: an overflow of signed
  arithmetic, a division by zero, a shift by the width, an access outside an array. Return values
  that the code tests are values of the result type. A hardware call that \<^verbatim>\<open>ESP_ERROR_CHECK\<close> guards
  aborts the run.

  \<^bold>\<open>What is shown.\<close> For the flight side: safety of the start-up and of the loop under every
  interleaving, for stick values whose scaling does not overflow, that a released throttle stops the motors
  within ten steps whatever the other task stores in between, the limits of PID, mixer, sticks and duty, and what a failed sensor read does.
  For the input side: exactness of field extraction, round trip of descriptor items, range and
  totality of the parsers, first for fields within their limits and then for every report of a
  full-range descriptor, the equivalence of the 8BitDo with the Android parser, and the refinement of the
  iCade parser to its key table. For the device side: what the table keeps over all calls and the
  links it keeps as long as devices are released by their physical device, creation and search,
  the buttons, the queue's refinement to a list, and invariant and progress of the rumble state
  machine. For the connection: that the handler of every
  acceptable event (\<open>bt_enabled\<close>, \<open>le_enabled\<close>) returns and keeps the table well-formed in every reachable state, that
  a controller which is found and has no special name ends as a ready device, and that the descriptor it publishes reaches its record; that the
  allow list is the set its operations describe, before and after a restart; for both sides together that these handlers
  return and that the radio scans only while the scan flag is set; that an LE controller which advertises and is in the controller list
  becomes a ready device, or one that waits for its parser's set-up, with the exact calls of the stack; and that advertising data is decoded as it was encoded; that the
  start-up sends its commands in order and announces its end once, and that a client of the GATT service which asks for
  notifications is told about the controllers from the current index on, with the changes it misses. For the parsers of raw reports: that no
  sequence of reports of sufficient length, calls and timer events makes them fail, that rumbles end, the set-up sequences of the Switch, the Wii and the
  Steam controllers, the interpolation of the Balance Board's weight, exactness of the keyboard, scaling of the mouse, the error detection of the checksum, and the table search of the
  Switch's rumble encoder. For the emulation: that a quadrature encoder moves by exactly the distance of the mouse, one line at a time,
  and for how long a jump on the Balance Board fires. The theorems of kind error state where the code leaves defined or intended behaviour.

  \<^bold>\<open>Bounds and fuel.\<close> Disconnecting and deleting a device recurse along the child pointers, with
  fuel; four levels are always enough (\<open>device_table_safe\<close>), and two when no virtual child was released on its
  own (\<open>table_links_consistent\<close>), since a child has no child then.
  The connection's state machine calls itself through the SDP functions, with fuel; two levels are enough
  (\<open>bredr_safe\<close>). The loops over a descriptor list may not end (\<open>sdp_descriptor_list_endless\<close>); they have fuel, and three turns are enough
  for a list with one descriptor (\<open>sdp_descriptor_stored\<close>).
  The set-up machines of the Switch and the Wii parser call themselves; they end because their state only moves forward.
  All other loops are total functions; the iterators over a descriptor end because every item
  moves the position forward and every delivered usage decreases the number required.

  \<^bold>\<open>Not modelled.\<close> The registration of handlers and the configuration of the stack in \<open>uni_bt_setup\<close> and \<open>uni_bt_le_setup\<close>
  are lists of calls without state. Log output, console commands, properties in flash, the platforms of other boards and the web
  server (which nothing calls) are input or output or not part of the drone. The rest of BTstack and its vendored libraries are third-party code; what
  the modelled functions need of it is an argument.
\<close>

subsection \<open>From a controller's report to the motors\<close>

text \<open>The mapping the firmware runs with: it never calls \<open>uni_gamepad_set_mappings\<close>.\<close>

definition default_statics :: gamepad_statics where
  "default_statics = \<lparr>gp_map = GAMEPAD_DEFAULT_MAPPINGS, gp_mappings_type = TYPE_XBOX\<rparr>"

definition bt_in_range :: "int \<Rightarrow> int \<Rightarrow> bt_globals \<Rightarrow> bool" where
  "bt_in_range lo hi b \<longleftrightarrow> list_all (\<lambda>x. lo \<le> x \<and> x \<le> hi) [bt_throttle b, bt_yaw b, bt_pitch b, bt_roll b]"

lemma controller_data_range:
  assumes "axes_ok lo hi c"
  shows "bt_in_range lo hi (bt_run (my_on_controller_data c) b)"
  using assms
  by (auto simp: axes_ok_def bt_in_range_def my_on_controller_data_def bt_run_def split: uni_controller_data.splits)

lemma axes_ok_ctl_ok:
  assumes "axes_ok lo hi c" "- (2 ^ 29) \<le> lo" "hi \<le> 2 ^ 29"
  shows "ctl_ok c"
  using assms by (auto simp: axes_ok_def ctl_ok_def axes_small_def split: uni_controller_data.splits)

lemma process_controller_ready:
  assumes "conn_state (conn (dev s i)) = STATE_DEVICE_READY" "ctl_data (controller (dev s i)) = Class_gamepad gp"
  shows "\<exists>s'. uni_hid_device_process_controller default_statics i s = Some s' \<and>
     (\<exists>es. events s' = events s @ On_controller_data i (controller (dev s i)) # es)"
proof -
  have e: "events (upd_dev i f s) = events s" for f s by (simp add: upd_dev_def)
  have p: "\<exists>es. events (process_misc_button_system m i s) = events s @ es"
      "\<exists>es. events (process_misc_button_home m i s) = events s @ es" for m s
    by (auto simp: process_misc_button_system_def process_misc_button_home_def Let_def e add_timer_def)
  have r: "remap_controller default_statics (controller (dev s i)) = Some (controller (dev s i))"
    using assms(2) by (simp add: remap_controller_def uni_gamepad_remap_def default_statics_def)
  let ?c = "controller (dev s i)"
  let ?s1 = "emit (On_controller_data i ?c) (upd_dev i (\<lambda>d. d\<lparr>controller := ?c\<rparr>) s)"
  obtain es1 where "events (process_misc_button_system (misc_of ?c) i ?s1) = events ?s1 @ es1" using p(1) by blast
  moreover obtain es2 where "events (process_misc_button_home (misc_of ?c) i (process_misc_button_system (misc_of ?c) i ?s1)) =
      events (process_misc_button_system (misc_of ?c) i ?s1) @ es2" using p(2) by blast
  ultimately show ?thesis
    using assms(1) r by (simp add: uni_hid_device_process_controller_def e)
qed

text \<open>
  C2. From the bytes of a report to the flight loop. For an Xbox controller with a full-range
  descriptor, every report that is long enough is parsed, passed through the device table to
  the platform's callback, and stored: the callback receives a controller that satisfies the
  hypothesis under which the flight loop is safe (\<open>ctl_ok\<close>), and the four stick values it stores are
  in -512..511, the range for which the loop's scaling is correct.
\<close>

theorem report_reaches_flight:
  assumes items: "report_items [r0] (btstack_hid_usage_iterator_init descr HID_INPUT) = Some items"
    and full: "list_all (full_range len) items" and len: "len \<le> length (r0 # rs)"
    and ready: "i < length (g_devices s)" "conn_state (conn (dev s i)) = STATE_DEVICE_READY"
  shows "\<exists>d' s'. uni_hid_parse_input_report
       (usage_rp uni_hid_parser_xboxone_init_report uni_hid_parser_xboxone_parse_usage) descr (r0 # rs) d = Some d' \<and>
     uni_hid_device_process_controller default_statics i (upd_dev i (\<lambda>e. e\<lparr>controller := x_controller d'\<rparr>) s) = Some s' \<and>
     (\<exists>es. events s' = events s @ On_controller_data i (x_controller d') # es) \<and>
     ctl_ok (x_controller d') \<and> bt_in_range (- 512) 511 (bt_run (my_on_controller_data (x_controller d')) b)"
proof -
  obtain fs where fs: "btstack_hid_parser_fields descr HID_INPUT (r0 # rs) = Some fs"
      "list_all (\<lambda>(g, page, usage, v). usage_ok g page usage v) fs"
    using full_range_fields [OF items full len] by blast
  obtain d' where d': "uni_hid_parse_input_report
      (usage_rp uni_hid_parser_xboxone_init_report uni_hid_parser_xboxone_parse_usage) descr (r0 # rs) d = Some d'"
      "axes_ok (- 512) 511 (x_controller d')"
    using xboxone.report_ok [OF fs(1)] fs(2) unfolding xboxone.fields_ok_def by blast
  then obtain gp where gp: "ctl_data (x_controller d') = Class_gamepad gp"
    by (auto simp: axes_ok_def split: uni_controller_data.splits)
  let ?s = "upd_dev i (\<lambda>e. e\<lparr>controller := x_controller d'\<rparr>) s"
  have "conn_state (conn (dev ?s i)) = STATE_DEVICE_READY" "ctl_data (controller (dev ?s i)) = Class_gamepad gp"
      "controller (dev ?s i) = x_controller d'" "events ?s = events s"
    using ready gp by (simp_all add: upd_dev_def)
  then have "\<exists>s'. uni_hid_device_process_controller default_statics i ?s = Some s' \<and>
      (\<exists>es. events s' = events s @ On_controller_data i (x_controller d') # es)"
    using process_controller_ready by metis
  moreover have "ctl_ok (x_controller d')" using axes_ok_ctl_ok [OF d'(2)] by simp
  moreover have "bt_in_range (- 512) 511 (bt_run (my_on_controller_data (x_controller d')) b)"
    by (rule controller_data_range [OF d'(2)])
  ultimately show ?thesis using d'(1) by blast
qed

definition ready_state :: hid_state where
  "ready_state = set_state 0 STATE_DEVICE_READY (snd (uni_hid_device_create addr_example uni_hid_device_setup))"

theorem report_reaches_flight_witness:
  "\<exists>d' s'. uni_hid_parse_input_report
       (usage_rp uni_hid_parser_xboxone_init_report uni_hid_parser_xboxone_parse_usage)
       stick_descriptor [7, 200] xboxone_start = Some d' \<and>
     uni_hid_device_process_controller default_statics 0 (upd_dev 0 (\<lambda>e. e\<lparr>controller := x_controller d'\<rparr>) ready_state) = Some s' \<and>
     (\<exists>es. events s' = events ready_state @ On_controller_data 0 (x_controller d') # es) \<and> ctl_ok (x_controller d') \<and>
     bt_in_range (- 512) 511 (bt_run (my_on_controller_data (x_controller d')) bt_start)"
proof -
  have "0 < length (g_devices ready_state)" "conn_state (conn (dev ready_state 0)) = STATE_DEVICE_READY" by code_simp+
  then show ?thesis
    using report_reaches_flight [OF stick_items_full, of "[200]" 0 ready_state xboxone_start bt_start] by simp
qed

text \<open>
  A generic gamepad that reports its right stick as Rx/Ry cannot take off. The generic parser
  reads Ry as a pedal, so that the stored value is 0..1023 and never negative, while the flight
  loop takes a throttle only from values below -20: whatever the position of the stick, the throttle
  command is 0. The comment in the parser calls Ry a duplicate of Rz, which it reads as an axis.
\<close>

theorem generic_ry_never_throttles:
  assumes "field_ok g v" "logical_minimum g = 0" "ctl_data c = Class_gamepad gp"
  shows "\<exists>c'. uni_hid_parser_generic_parse_usage g HID_USAGE_PAGE_GENERIC_DESKTOP HID_USAGE_AXIS_RY v c = Some c' \<and>
     0 \<le> bt_throttle (bt_run (my_on_controller_data c') b) \<and>
     run_reader (bt_run (my_on_controller_data c') b) (throttle_cmd k) =
       run_reader (bt_run (my_on_controller_data c') b) (k (Some (flit f32 0)))"
proof -
  obtain x where x: "uni_hid_parser_process_pedal g v = Some x" "0 \<le> x"
    using process_pedal_bounds [OF assms(1,2)] by blast
  have "uni_hid_parser_generic_parse_usage g HID_USAGE_PAGE_GENERIC_DESKTOP HID_USAGE_AXIS_RY v c =
      Some (c\<lparr>ctl_data := Class_gamepad (gp\<lparr>axis_ry := x\<rparr>)\<rparr>)"
    using x(1) assms(3)
    by (simp add: uni_hid_parser_generic_parse_usage_def generic_desktop_def switch_def store_abs on_gamepad_def)
  moreover have "bt_throttle (bt_run (my_on_controller_data (c\<lparr>ctl_data := Class_gamepad (gp\<lparr>axis_ry := x\<rparr>)\<rparr>)) b) = x"
    by (simp add: my_on_controller_data_def bt_run_def)
  ultimately show ?thesis using x(2) by (auto simp: throttle_cmd_def)
qed

theorem generic_ry_never_throttles_witness:
  "run_reader (bt_run (my_on_controller_data (the (uni_hid_parser_generic_parse_usage stick_globals 1 0x34 0 clean_gamepad))) bt_start)
     (throttle_cmd (\<lambda>t. Got (Some (the t, the t, the t)))) = Some (flit f32 0, flit f32 0, flit f32 0)"
proof -
  have "field_ok stick_globals 0" "logical_minimum stick_globals = 0"
    by (simp_all add: field_ok_def axis_range_def axis_max_def stick_globals_def chk32_def s32_ok_def)
  moreover have "ctl_data clean_gamepad = Class_gamepad gamepad0" by (simp add: clean_gamepad_def)
  ultimately show ?thesis
    using generic_ry_never_throttles [of stick_globals 0 clean_gamepad gamepad0 bt_start "\<lambda>t. Got (Some (the t, the t, the t))"]
    by auto
qed

end
